(* ===== verification/Prelude.thy ===== *)
theory Prelude
  imports Main
begin

text \<open>
  Shared vocabulary of the development: Python strings and the shapes of the regular
  expressions the code matches, Python values (\<open>pyval\<close>) with their equality, references that
  are \<open>None\<close>, an instance or a foreign object (\<open>pyref\<close>), exceptions as values, the monad in
  which effectful code runs (\<open>io\<close>: a world is threaded, an exception ends the computation but
  keeps the world), and the interface \<open>str_enum\<close> of the code's string enumerations.

  Python strings are lists of \<open>char\<close>, read as code points below 256; on those the character
  predicates and \<open>str.lower\<close>, \<open>str.strip\<close> below are exact.
\<close>

named_theorems io_simps \<open>unfolding rules of the effect monad\<close>
named_theorems pattern_simps \<open>unfolding rules of the regular expression shapes\<close>
named_theorems pattern_dest \<open>what a match of a regular expression implies\<close>
named_theorems enum_simps \<open>values of the string enumerations\<close>

section \<open>Characters and regular expression shapes\<close>

definition code :: "char \<Rightarrow> nat" where
  "code c = of_char c"

definition is_digit :: "char \<Rightarrow> bool" where
  "is_digit c \<longleftrightarrow> 48 \<le> code c \<and> code c \<le> 57"

definition is_upper :: "char \<Rightarrow> bool" where
  "is_upper c \<longleftrightarrow> 65 \<le> code c \<and> code c \<le> 90"

definition is_lower :: "char \<Rightarrow> bool" where
  "is_lower c \<longleftrightarrow> 97 \<le> code c \<and> code c \<le> 122"

definition is_alnum :: "char \<Rightarrow> bool" where
  "is_alnum c \<longleftrightarrow> is_upper c \<or> is_lower c \<or> is_digit c"

definition is_lower_hex :: "char \<Rightarrow> bool" where
  "is_lower_hex c \<longleftrightarrow> is_digit c \<or> 97 \<le> code c \<and> code c \<le> 102"

text \<open>The class \<open>[0-9A-HJKMNP-TV-Z]\<close> (Crockford base 32): no I, L, O or U.\<close>

definition is_crockford :: "char \<Rightarrow> bool" where
  "is_crockford c \<longleftrightarrow> is_digit c \<or>
     is_upper c \<and> c \<noteq> CHR ''I'' \<and> c \<noteq> CHR ''L'' \<and> c \<noteq> CHR ''O'' \<and> c \<noteq> CHR ''U''"

lemmas char_class_defs =
  is_alnum_def is_lower_hex_def is_crockford_def is_digit_def is_upper_def is_lower_def code_def

declare char_class_defs [pattern_simps]

text \<open>Prefix \<open>pre\<close>, then between \<open>lo\<close> and \<open>hi\<close> characters of class \<open>p\<close>, and nothing else.\<close>

definition match_prefixed :: "string \<Rightarrow> (char \<Rightarrow> bool) \<Rightarrow> nat \<Rightarrow> nat \<Rightarrow> string \<Rightarrow> bool" where
  "match_prefixed pre p lo hi s \<longleftrightarrow>
     take (length pre) s = pre \<and> list_all p (drop (length pre) s) \<and>
     lo \<le> length (drop (length pre) s) \<and> length (drop (length pre) s) \<le> hi"

text \<open>Prefix \<open>pre\<close>, one character of class \<open>h\<close>, then \<open>lo\<close> to \<open>hi\<close> characters of class \<open>p\<close>.\<close>

definition match_headed ::
  "string \<Rightarrow> (char \<Rightarrow> bool) \<Rightarrow> (char \<Rightarrow> bool) \<Rightarrow> nat \<Rightarrow> nat \<Rightarrow> string \<Rightarrow> bool" where
  "match_headed pre h p lo hi s \<longleftrightarrow>
     take (length pre) s = pre \<and>
     (case drop (length pre) s of
        [] \<Rightarrow> False
      | c # cs \<Rightarrow> h c \<and> list_all p cs \<and> lo \<le> length cs \<and> length cs \<le> hi)"

declare match_prefixed_def [pattern_simps] match_headed_def [pattern_simps]

lemma match_prefixedE:
  assumes "match_prefixed pre p lo hi s"
  obtains r where "s = pre @ r" "list_all p r" "lo \<le> length r" "length r \<le> hi"
proof
  from assms have "take (length pre) s = pre" by (simp add: match_prefixed_def)
  then show "s = pre @ drop (length pre) s"
    by (metis append_take_drop_id)
qed (use assms in \<open>simp_all add: match_prefixed_def\<close>)

lemma match_prefixedI [intro]:
  "list_all p r \<Longrightarrow> lo \<le> length r \<Longrightarrow> length r \<le> hi \<Longrightarrow> match_prefixed pre p lo hi (pre @ r)"
  by (simp add: match_prefixed_def)

lemma match_prefixed_chars [pattern_dest]:
  "match_prefixed pre p lo hi s \<Longrightarrow> c \<in> set s \<Longrightarrow> c \<in> set pre \<or> p c"
  by (elim match_prefixedE) (auto simp: list_all_iff)

lemma match_headedE:
  assumes "match_headed pre h p lo hi s"
  obtains c r where "s = pre @ c # r" "h c" "list_all p r" "lo \<le> length r" "length r \<le> hi"
proof -
  from assms have s: "s = pre @ drop (length pre) s"
    by (metis match_headed_def append_take_drop_id)
  from assms obtain c r where "drop (length pre) s = c # r" "h c" "list_all p r"
      "lo \<le> length r" "length r \<le> hi"
    by (auto simp: match_headed_def split: list.splits)
  with s that show thesis by metis
qed

lemma match_headed_chars [pattern_dest]:
  "match_headed pre h p lo hi s \<Longrightarrow> c \<in> set s \<Longrightarrow> c \<in> set pre \<or> h c \<or> p c"
  by (elim match_headedE) (auto simp: list_all_iff)

lemma match_prefixed_avoids:
  "match_prefixed pre p lo hi s \<Longrightarrow> x \<notin> set pre \<Longrightarrow> \<not> p x \<Longrightarrow> x \<notin> set s"
  using match_prefixed_chars by blast

lemma match_headed_avoids:
  "match_headed pre h p lo hi s \<Longrightarrow> x \<notin> set pre \<Longrightarrow> \<not> h x \<Longrightarrow> \<not> p x \<Longrightarrow> x \<notin> set s"
  using match_headed_chars by blast

lemma match_prefixed_nonempty: "match_prefixed pre p lo hi s \<Longrightarrow> pre \<noteq> [] \<Longrightarrow> s \<noteq> []"
  by (auto elim: match_prefixedE)

lemma match_headed_nonempty: "match_headed pre h p lo hi s \<Longrightarrow> s \<noteq> []"
  by (auto elim: match_headedE)

section \<open>String helpers\<close>

fun join :: "string \<Rightarrow> string list \<Rightarrow> string" where
  "join sep [] = []"
| "join sep [x] = x"
| "join sep (x # y # xs) = x @ sep @ join sep (y # xs)"

definition starts_with :: "string \<Rightarrow> string \<Rightarrow> bool" where
  "starts_with pre s \<longleftrightarrow> take (length pre) s = pre"

lemma starts_with_append [simp]: "starts_with pre (pre @ r)"
  by (simp add: starts_with_def)

text \<open>\<open>str(n)\<close> for integers, in decimal.\<close>

definition digit_char :: "nat \<Rightarrow> char" where
  "digit_char d = char_of (48 + d)"

fun show_nat :: "nat \<Rightarrow> string" where
  "show_nat n = (if n < 10 then [digit_char n] else show_nat (n div 10) @ [digit_char (n mod 10)])"

declare show_nat.simps [simp del]

definition show_int :: "int \<Rightarrow> string" where
  "show_int i = (if i < 0 then CHR ''-'' # show_nat (nat (- i)) else show_nat (nat i))"

definition digit_val :: "char \<Rightarrow> nat" where
  "digit_val c = code c - 48"

definition read_digits :: "string \<Rightarrow> nat" where
  "read_digits s = foldl (\<lambda>n c. 10 * n + digit_val c) 0 s"

text \<open>\<open>int(s)\<close>, on the decimal numerals without sign, space or underscore.\<close>

definition read_nat :: "string \<Rightarrow> nat option" where
  "read_nat s = (if s \<noteq> [] \<and> list_all is_digit s then Some (read_digits s) else None)"

lemma code_digit_char: "d < 10 \<Longrightarrow> code (digit_char d) = 48 + d"
  by (simp add: code_def digit_char_def)

lemma digit_val_digit_char: "d < 10 \<Longrightarrow> digit_val (digit_char d) = d"
  by (simp add: digit_val_def code_digit_char)

lemma is_digit_digit_char: "d < 10 \<Longrightarrow> is_digit (digit_char d)"
  by (simp add: is_digit_def code_digit_char)

lemma show_nat_nonempty [simp]: "show_nat n \<noteq> []"
  by (subst show_nat.simps) simp

lemma show_nat_digits: "list_all is_digit (show_nat n)"
proof (induction n rule: show_nat.induct)
  case (1 n)
  then show ?case
    by (subst show_nat.simps) (auto simp: is_digit_digit_char)
qed

lemma read_digits_show_nat: "read_digits (show_nat n) = n"
proof (induction n rule: show_nat.induct)
  case (1 n)
  then show ?case
    by (subst show_nat.simps) (auto simp: read_digits_def digit_val_digit_char)
qed

lemma read_nat_show_nat [simp]: "read_nat (show_nat n) = Some n"
  by (simp add: read_nat_def show_nat_digits read_digits_show_nat)

lemma show_nat_inject [simp]: "show_nat m = show_nat n \<longleftrightarrow> m = n"
  by (metis read_digits_show_nat)

lemma show_nat_hd_not_minus: "show_nat n \<noteq> CHR ''-'' # s"
  using show_nat_digits [of n] by (auto simp: is_digit_def code_def)

lemma show_int_inject [simp]: "show_int i = show_int j \<longleftrightarrow> i = j"
  using show_nat_hd_not_minus
  by (auto simp: show_int_def split: if_splits dest: sym)

lemma show_int_nonempty [simp]: "show_int i \<noteq> []"
  by (simp add: show_int_def)

text \<open>Digits padded with zeros to a given width, as the \<open>%0wd\<close> formats print them.\<close>

fun pad_digits :: "nat \<Rightarrow> nat \<Rightarrow> string" where
  "pad_digits 0 n = []"
| "pad_digits (Suc w) n = pad_digits w (n div 10) @ [digit_char (n mod 10)]"

lemma length_pad_digits [simp]: "length (pad_digits w n) = w"
  by (induction w arbitrary: n) simp_all

lemma pad_digits_all: "list_all is_digit (pad_digits w n)"
  by (induction w arbitrary: n) (simp_all add: is_digit_digit_char)

lemma read_digits_pad: "n < 10 ^ w \<Longrightarrow> read_digits (pad_digits w n) = n"
proof (induction w arbitrary: n)
  case 0
  then show ?case by (simp add: read_digits_def)
next
  case (Suc w)
  have "n div 10 < 10 ^ w" using Suc.prems by (simp add: div_less_iff_less_mult mult.commute)
  then have "read_digits (pad_digits w (n div 10)) = n div 10" by (rule Suc.IH)
  then show ?case by (simp add: read_digits_def digit_val_digit_char)
qed

section \<open>Python values\<close>

text \<open>
  Values of unknown type, as the code receives them from claims, stores and callers. A member
  of an enumeration that derives from \<open>str\<close> is \<open>PEnum\<close> with its class, its name and its value; a
  decimal number of the store is \<open>PDec\<close> with its integral value and its text (a number that is
  not integral is among the \<open>POther\<close>, with the text \<open>str\<close> gives).
\<close>

datatype pyval =
    PNone
  | PBool bool
  | PInt int
  | PDec int string
  | PStr string
  | PEnum string string string
  | PList "pyval list"
  | PDict "(string \<times> pyval) list"
  | POther string

text \<open>\<open>isinstance(v, str)\<close> holds for strings and for members of string enumerations.\<close>

fun str_view :: "pyval \<Rightarrow> string option" where
  "str_view (PStr s) = Some s"
| "str_view (PEnum cls member s) = Some s"
| "str_view v = None"

definition is_str :: "pyval \<Rightarrow> bool" where
  "is_str v \<longleftrightarrow> str_view v \<noteq> None"

text \<open>A string test \<open>p\<close> guarded by \<open>isinstance(v, str)\<close>.\<close>

definition str_sat :: "(string \<Rightarrow> bool) \<Rightarrow> pyval \<Rightarrow> bool" where
  "str_sat p v \<longleftrightarrow> (case str_view v of Some s \<Rightarrow> p s | None \<Rightarrow> False)"

text \<open>Equality \<open>==\<close>: string enumerations equal their value, booleans and decimals the integer.\<close>

fun py_norm :: "pyval \<Rightarrow> pyval" where
  "py_norm (PBool b) = PInt (if b then 1 else 0)"
| "py_norm (PDec n t) = PInt n"
| "py_norm (PEnum cls member s) = PStr s"
| "py_norm (PList vs) = PList (map py_norm vs)"
| "py_norm (PDict kvs) = PDict (map (\<lambda>(k, v). (k, py_norm v)) kvs)"
| "py_norm v = v"

definition py_eq :: "pyval \<Rightarrow> pyval \<Rightarrow> bool" where
  "py_eq a b \<longleftrightarrow> py_norm a = py_norm b"

lemma py_eq_refl [simp]: "py_eq a a"
  by (simp add: py_eq_def)

lemma py_eq_sym: "py_eq a b \<Longrightarrow> py_eq b a"
  by (simp add: py_eq_def)

lemma py_eq_trans: "py_eq a b \<Longrightarrow> py_eq b c \<Longrightarrow> py_eq a c"
  by (simp add: py_eq_def)

lemma str_view_norm: "str_view (py_norm v) = str_view v"
  by (cases v) simp_all

lemma py_eq_str_view: "py_eq a b \<Longrightarrow> str_view a = str_view b"
  by (metis py_eq_def str_view_norm)

lemma py_eq_PStr: "py_eq v (PStr s) \<longleftrightarrow> str_view v = Some s"
  by (cases v) (auto simp: py_eq_def)

lemma str_sat_PStr [simp]: "str_sat p (PStr s) = p s"
  by (simp add: str_sat_def)

lemma str_satE:
  assumes "str_sat p v" obtains s where "str_view v = Some s" "p s"
  using assms by (auto simp: str_sat_def split: option.splits)

text \<open>Truth value of \<open>v\<close> in \<open>or\<close> and \<open>if\<close>.\<close>

fun py_truthy :: "pyval \<Rightarrow> bool" where
  "py_truthy PNone = False"
| "py_truthy (PBool b) = b"
| "py_truthy (PInt i) = (i \<noteq> 0)"
| "py_truthy (PDec i t) = (i \<noteq> 0)"
| "py_truthy (PStr s) = (s \<noteq> [])"
| "py_truthy (PEnum cls member s) = (s \<noteq> [])"
| "py_truthy (PList vs) = (vs \<noteq> [])"
| "py_truthy (PDict kvs) = (kvs \<noteq> [])"
| "py_truthy (POther t) = True"

text \<open>A Python \<open>frozenset\<close> is the list it was built from; these read it as a set.\<close>

definition py_set :: "pyval list \<Rightarrow> pyval set" where
  "py_set vs = py_norm ` set vs"

definition py_len :: "pyval list \<Rightarrow> nat" where
  "py_len vs = length (remdups (map py_norm vs))"

lemma py_len_card: "py_len vs = card (py_set vs)"
  by (simp add: py_len_def py_set_def length_remdups_card_conv)

text \<open>
  \<open>str(v)\<close>. Lists and dictionaries occur only in the audit events the code builds, never as an
  argument of \<open>str\<close>.
\<close>

fun py_str :: "pyval \<Rightarrow> string" where
  "py_str PNone = ''None''"
| "py_str (PBool b) = (if b then ''True'' else ''False'')"
| "py_str (PInt i) = show_int i"
| "py_str (PDec i t) = t"
| "py_str (PStr s) = s"
| "py_str (PEnum cls member s) = cls @ ''.'' @ member"
| "py_str (POther t) = t"
| "py_str v = []"

text \<open>A reference: \<open>None\<close>, an instance of the expected class, or an object of another class.\<close>

datatype 'a pyref = NoneRef | Inst 'a | Foreign

section \<open>Exceptions and the effect monad\<close>

text \<open>
  \<open>AppError\<close> of \<open>app/errors.py\<close> with its code, message, HTTP status and details (its retry hints
  are for the transport only); \<open>AwsError\<close> is a client error of the AWS SDK with its error code; the other exceptions carry
  their class name.
\<close>

datatype app_error = AppError (err_code: string) (err_message: string) (err_status: int)
  (err_details: "(string \<times> pyval) list")

datatype exn =
    AppExc app_error
  | IdempotencyConflict
  | ContractError
  | AwsError string
  | PyExc string
  | OperationContractError
  | OperationConflict
  | OperationPersistenceAmbiguous
  | JourneyContractError
  | UnsupportedInternalState

type_synonym ('w, 'e, 'a) eio = "'w \<Rightarrow> ('e + 'a) \<times> 'w"
type_synonym ('w, 'a) io = "('w, exn, 'a) eio"

definition ret :: "'a \<Rightarrow> ('w, 'e, 'a) eio" where
  [io_simps]: "ret x = (\<lambda>w. (Inr x, w))"

definition raise :: "'e \<Rightarrow> ('w, 'e, 'a) eio" where
  [io_simps]: "raise e = (\<lambda>w. (Inl e, w))"

definition bind ::
  "('w, 'e, 'a) eio \<Rightarrow> ('a \<Rightarrow> ('w, 'e, 'b) eio) \<Rightarrow> ('w, 'e, 'b) eio" where
  [io_simps]: "bind m k = (\<lambda>w. case m w of (Inl e, w') \<Rightarrow> (Inl e, w') | (Inr x, w') \<Rightarrow> k x w')"

text \<open>\<open>if not b: raise e\<close>.\<close>

definition ensure :: "bool \<Rightarrow> 'e \<Rightarrow> ('w, 'e, unit) eio" where
  [io_simps]: "ensure b e = (if b then ret () else raise e)"

text \<open>\<open>try: m except Exception: h\<close>.\<close>

definition catch ::
  "('w, 'e, 'a) eio \<Rightarrow> ('e \<Rightarrow> ('w, 'f, 'a) eio) \<Rightarrow> ('w, 'f, 'a) eio" where
  [io_simps]: "catch m h = (\<lambda>w. case m w of (Inl e, w') \<Rightarrow> h e w' | (Inr x, w') \<Rightarrow> (Inr x, w'))"

text \<open>A pure result that may be an exception.\<close>

definition lift :: "'e + 'a \<Rightarrow> ('w, 'e, 'a) eio" where
  [io_simps]: "lift r = (\<lambda>w. (r, w))"

lemma bind_Inr:
  "bind m k w = (Inr y, w'') \<longleftrightarrow> (\<exists>x w'. m w = (Inr x, w') \<and> k x w' = (Inr y, w''))"
  by (auto simp: bind_def split: prod.splits sum.splits)

lemma ensure_Inr [simp]: "ensure b e w = (Inr u, w') \<longleftrightarrow> b \<and> w' = w"
  by (auto simp: ensure_def ret_def raise_def)

lemma catch_raise_Inr [simp]: "catch m (\<lambda>_. raise e) w = (Inr x, w') \<longleftrightarrow> m w = (Inr x, w')"
  by (auto simp: catch_def raise_def split: prod.splits sum.splits)

lemma ret_Inr [simp]: "ret x w = (Inr y, w') \<longleftrightarrow> y = x \<and> w' = w"
  by (auto simp: ret_def)

lemma raise_Inr [simp]: "raise e w \<noteq> (Inr y, w')"
  by (simp add: raise_def)

lemma case_pyref_Inr:
  "(case v of NoneRef \<Rightarrow> raise e | Inst x \<Rightarrow> f x | Foreign \<Rightarrow> raise e) w = (Inr y, w') \<longleftrightarrow>
     (\<exists>x. v = Inst x \<and> f x w = (Inr y, w'))"
  by (cases v) simp_all

lemma lift_Inr [simp]: "lift r w = (Inr y, w') \<longleftrightarrow> r = Inr y \<and> w' = w"
  by (auto simp: lift_def)

text \<open>
  A chain of \<open>if bad: deny(reason)\<close> statements: the first condition that holds decides.
\<close>

fun first_denial :: "(bool \<times> 'e) list \<Rightarrow> 'e + unit" where
  "first_denial [] = Inr ()"
| "first_denial ((bad, reason) # cs) = (if bad then Inl reason else first_denial cs)"

lemma first_denial_Inr: "first_denial cs = Inr u \<longleftrightarrow> list_all (\<lambda>(bad, _). \<not> bad) cs"
  by (induction cs rule: first_denial.induct) auto

lemma first_denial_Inl: "first_denial cs = Inl r \<Longrightarrow> r \<in> snd ` set cs"
  by (induction cs rule: first_denial.induct) (auto split: if_splits)

lemma first_denial_case_Inr:
  "(case first_denial cs of Inl r \<Rightarrow> Inl r | Inr u \<Rightarrow> k) = Inr x \<longleftrightarrow>
     list_all (\<lambda>(bad, _). \<not> bad) cs \<and> k = Inr x"
  using first_denial_Inr [of cs "()"] by (auto split: sum.splits)

declare first_denial.simps [simp del]

text \<open>Early returns with an error, read backwards from a result.\<close>

lemma case_option_Inr:
  "(case m of None \<Rightarrow> Inl e | Some x \<Rightarrow> f x) = Inr y \<longleftrightarrow> (\<exists>x. m = Some x \<and> f x = Inr y)"
  by (auto split: option.splits)

lemma case_sum_Inr:
  "(case s of Inl e \<Rightarrow> Inl (g e) | Inr x \<Rightarrow> f x) = Inr y \<longleftrightarrow> (\<exists>x. s = Inr x \<and> f x = Inr y)"
  by (auto split: sum.splits)

lemma if_Inl_Inr: "(if b then Inl e else r) = Inr y \<longleftrightarrow> \<not> b \<and> r = Inr y"
  by simp

lemma bind_assoc: "bind (bind m k) h = bind m (\<lambda>x. bind (k x) h)"
  by (auto simp: bind_def fun_eq_iff split: prod.splits sum.splits)

text \<open>A computation read as the relation of its outcome and its worlds.\<close>

lemma bind_run: "bind m k w = (r, w') \<longleftrightarrow>
    (\<exists>e. m w = (Inl e, w') \<and> r = Inl e) \<or> (\<exists>x w1. m w = (Inr x, w1) \<and> k x w1 = (r, w'))"
  by (auto simp: bind_def split: prod.splits sum.splits)

lemma catch_run: "catch m h w = (r, w') \<longleftrightarrow>
    (\<exists>x. m w = (Inr x, w') \<and> r = Inr x) \<or> (\<exists>e w1. m w = (Inl e, w1) \<and> h e w1 = (r, w'))"
  by (auto simp: catch_def split: prod.splits sum.splits)

lemma ret_run: "ret x w = (r, w') \<longleftrightarrow> r = Inr x \<and> w' = w"
  by (auto simp: ret_def)

lemma raise_run: "raise e w = (r, w') \<longleftrightarrow> r = Inl e \<and> w' = w"
  by (auto simp: raise_def)

lemma lift_run: "lift y w = (r, w') \<longleftrightarrow> r = y \<and> w' = w"
  by (auto simp: lift_def)

lemmas run_rules = bind_run catch_run ret_run raise_run lift_run

section \<open>String enumerations\<close>

text \<open>
  The interface every \<open>class X(str, Enum)\<close> of the code offers: \<open>member.value\<close> and the lookup
  \<open>X(value)\<close>, over the members in declaration order. The laws say that every
  member is declared and that the values are pairwise different; the lookup and its two inversions follow once for
  all enumerations.
\<close>

definition of_value :: "('e \<Rightarrow> string) \<Rightarrow> 'e list \<Rightarrow> string \<Rightarrow> 'e option" where
  "of_value val ms s = find (\<lambda>m. val m = s) ms"

locale str_enum =
  fixes val :: "'e \<Rightarrow> string"
    and members :: "'e list"
  assumes members_all: "m \<in> set members"
    and val_distinct: "distinct (map val members)"
begin

lemma val_inj: "val m = val n \<Longrightarrow> m = n"
  using val_distinct members_all [of m] members_all [of n] by (auto simp: distinct_map inj_on_def)

lemma of_value_val [simp]: "of_value val members (val m) = Some m"
proof -
  obtain n where n: "find (\<lambda>k. val k = val m) members = Some n"
    using members_all [of m] by (cases "find (\<lambda>k. val k = val m) members")
      (auto simp: find_None_iff)
  then have "val n = val m" by (auto simp: find_Some_iff)
  with n val_inj show ?thesis by (simp add: of_value_def)
qed

lemma of_value_Some: "of_value val members s = Some m \<longleftrightarrow> s = val m"
proof
  assume "of_value val members s = Some m"
  then show "s = val m" by (auto simp: of_value_def find_Some_iff)
qed simp

lemma of_value_None: "of_value val members s = None \<longleftrightarrow> (\<forall>m. val m \<noteq> s)"
  using of_value_Some [of s] by (metis not_None_eq)

lemma val_eq [simp]: "val m = val n \<longleftrightarrow> m = n"
  using val_inj by auto

end

section \<open>Association lists as ordered dictionaries\<close>

text \<open>\<open>{**d, **e}\<close>: keys keep their first position, values of \<open>e\<close> win.\<close>

fun dict_put :: "string \<Rightarrow> 'v \<Rightarrow> (string \<times> 'v) list \<Rightarrow> (string \<times> 'v) list" where
  "dict_put k v [] = [(k, v)]"
| "dict_put k v ((k', v') # d) = (if k' = k then (k, v) # d else (k', v') # dict_put k v d)"

definition dict_merge :: "(string \<times> 'v) list \<Rightarrow> (string \<times> 'v) list \<Rightarrow> (string \<times> 'v) list" where
  "dict_merge d e = fold (\<lambda>(k, v). dict_put k v) e d"

text \<open>\<open>d == e\<close> on dictionaries: the same keys with the same values, in any order.\<close>

definition dict_eq :: "(string \<times> 'v) list \<Rightarrow> (string \<times> 'v) list \<Rightarrow> bool" where
  "dict_eq d e \<longleftrightarrow> list_all (\<lambda>(k, v). map_of d k = map_of e k) (d @ e)"

lemma map_of_dict_put [simp]: "map_of (dict_put k v d) = (map_of d)(k \<mapsto> v)"
  by (induction d) auto

lemma dict_eq_iff: "dict_eq d e \<longleftrightarrow> map_of d = map_of e"
proof
  assume eq: "dict_eq d e"
  show "map_of d = map_of e"
  proof
    fix k
    show "map_of d k = map_of e k"
    proof (cases "k \<in> fst ` set (d @ e)")
      case True
      with eq show ?thesis by (fastforce simp: dict_eq_def list_all_iff)
    next
      case False
      then have "map_of d k = None" "map_of e k = None" by (auto simp: map_of_eq_None_iff)
      then show ?thesis by simp
    qed
  qed
qed (auto simp: dict_eq_def list_all_iff)

lemma dict_eq_refl [simp]: "dict_eq d d"
  by (simp add: dict_eq_iff)

lemma map_of_dict_merge:
  "distinct (map fst e) \<Longrightarrow> map_of (dict_merge d e) = map_of d ++ map_of e"
proof (induction e arbitrary: d)
  case Nil
  then show ?case by (simp add: dict_merge_def)
next
  case (Cons kv e)
  obtain k v where kv: "kv = (k, v)" by fastforce
  with Cons.prems have fresh: "map_of e k = None" and dist: "distinct (map fst e)"
    by (simp_all add: map_of_eq_None_iff)
  have "map_of (dict_merge d (kv # e)) = map_of (dict_put k v d) ++ map_of e"
    using Cons.IH [OF dist] by (simp add: dict_merge_def kv fun_upd_def)
  also have "\<dots> = map_of d ++ map_of (kv # e)"
    using fresh by (auto simp: kv map_add_def fun_eq_iff split: option.splits)
  finally show ?case .
qed

section \<open>Sums over a sorted list\<close>

lemma sum_list_sort_key: "sum_list (map f (sort_key g xs)) = (sum_list (map f xs) :: nat)"
proof -
  have "sum_list (map f (insort_key g x ys)) = f x + sum_list (map f ys)" for x ys
    by (induction ys) simp_all
  then show ?thesis by (induction xs) simp_all
qed

end
