(* ===== verification/AuthzCatalog.thy ===== *)
theory AuthzCatalog
  imports Prelude
begin

text \<open>
  The closed catalogue of \<open>app/enterprise_authorization.py\<close>: the string enumerations, the
  policy of every operation (\<open>OPERATION_POLICIES\<close>), the permissions of the four human roles
  (\<open>_ROLE_PERMISSIONS\<close>), the operations a temporary grant may name, and the pure functions
  over them (\<open>_role_allows\<close>, \<open>_required_human_scopes\<close>). The theorems say how the tables fit
  together: which operations need a step-up, what a temporary grant can reach, that the
  administrator dominates every role, and that identified metrics are out of every human's
  reach.
\<close>

section \<open>Version constants and enumerations\<close>

definition AUTHORIZATION_CONTEXT_SCHEMA_VERSION :: string where
  "AUTHORIZATION_CONTEXT_SCHEMA_VERSION = ''human-authorization-context.v1''"
definition AUTHZ_SCHEMA_VERSION :: string where
  "AUTHZ_SCHEMA_VERSION = ''enterprise-authorization.v1''"
definition SCOPE_CATALOG_VERSION :: string where
  "SCOPE_CATALOG_VERSION = ''scanalyze.api.v1''"
definition ROLE_CATALOG_VERSION :: string where
  "ROLE_CATALOG_VERSION = ''enterprise-roles.v1''"
definition POLICY_VERSION :: string where
  "POLICY_VERSION = ''1.0.0''"
definition POLICY_DIGEST :: string where
  "POLICY_DIGEST = ''sha256:34a639992f6c2312176ac7dc12c361daa38201adea6af0c0b1765a17a14754f8''"
definition MEMBERSHIP_SOURCE :: string where
  "MEMBERSHIP_SOURCE = ''pre_token_membership_v1''"
definition TEMPORARY_GRANT_SOURCE :: string where
  "TEMPORARY_GRANT_SOURCE = ''authoritative_temporary_grant_store_v1''"
definition AUTHORITATIVE_MEMBERSHIP_SOURCE :: string where
  "AUTHORITATIVE_MEMBERSHIP_SOURCE = ''authoritative_membership_store_v1''"
definition AUTHORITATIVE_STATE_SCHEMA_VERSION :: string where
  "AUTHORITATIVE_STATE_SCHEMA_VERSION = ''authorization-authority-state.v1''"
definition ASSURANCE_SOURCE :: string where
  "ASSURANCE_SOURCE = ''authoritative_authentication_event_v1''"
definition ASSURANCE_VERSION :: string where
  "ASSURANCE_VERSION = ''phishing-resistant-mfa.v1''"
definition AUDIT_RECEIPT_SCHEMA_VERSION :: string where
  "AUDIT_RECEIPT_SCHEMA_VERSION = ''authorization-audit-receipt.v1''"
definition AUDIT_REFERENCE_SCHEMA_VERSION :: string where
  "AUDIT_REFERENCE_SCHEMA_VERSION = ''authorization-audit-references.v1''"
definition AUDIT_SINK_SOURCE :: string where
  "AUDIT_SINK_SOURCE = ''durable_authorization_audit_sink_v1''"
definition AUDIT_SINK_VERSION :: string where
  "AUDIT_SINK_VERSION = ''1.0.0''"
definition MAX_MEMBERSHIP_SNAPSHOT_AGE_SECONDS :: int where
  "MAX_MEMBERSHIP_SNAPSHOT_AGE_SECONDS = 300"
definition MAX_STEP_UP_AGE_SECONDS :: int where
  "MAX_STEP_UP_AGE_SECONDS = 300"
definition MAX_SUPPORT_GRANT_LIFETIME_SECONDS :: int where
  "MAX_SUPPORT_GRANT_LIFETIME_SECONDS = 3600"
definition MAX_BREAK_GLASS_GRANT_LIFETIME_SECONDS :: int where
  "MAX_BREAK_GLASS_GRANT_LIFETIME_SECONDS = 900"
definition MAX_EPOCH_SECONDS :: int where
  "MAX_EPOCH_SECONDS = 9999999999"

definition subject_pattern :: "string \<Rightarrow> bool" where
  "subject_pattern = match_headed [] is_alnum
     (\<lambda>c. is_alnum c \<or> c \<in> set ''._:@-'') 0 255"
definition customer_id_pattern :: "string \<Rightarrow> bool" where
  "customer_id_pattern = match_prefixed ''cust_'' is_crockford 26 26"
definition deployment_id_pattern :: "string \<Rightarrow> bool" where
  "deployment_id_pattern = match_prefixed ''dep_'' is_crockford 26 26"
definition version_reference_pattern :: "string \<Rightarrow> bool" where
  "version_reference_pattern = match_headed [] is_alnum
     (\<lambda>c. is_alnum c \<or> c \<in> set ''._:-'') 0 127"
definition temporary_grant_id_pattern :: "string \<Rightarrow> bool" where
  "temporary_grant_id_pattern = match_headed ''grant-'' is_alnum
     (\<lambda>c. is_alnum c \<or> c \<in> set ''._-'') 7 127"
definition opaque_reference_pattern :: "string \<Rightarrow> bool" where
  "opaque_reference_pattern = match_prefixed ''ref_'' is_lower_hex 24 64"

declare subject_pattern_def [pattern_simps] customer_id_pattern_def [pattern_simps]
  deployment_id_pattern_def [pattern_simps] version_reference_pattern_def [pattern_simps]
  temporary_grant_id_pattern_def [pattern_simps] opaque_reference_pattern_def [pattern_simps]

datatype action =
    READ
  | WRITE
  | ADMIN

fun action_value :: "action \<Rightarrow> string" where
  "action_value READ = ''read''"
| "action_value WRITE = ''write''"
| "action_value ADMIN = ''admin''"

definition action_members :: "action list" where
  "action_members = [
     READ, WRITE, ADMIN]"

interpretation action: str_enum action_value action_members
proof
  show "m \<in> set action_members" for m by (cases m) (simp_all add: action_members_def)
  show "distinct (map action_value action_members)" by code_simp
qed

datatype assurance =
    PHISHING_RESISTANT_MFA

fun assurance_value :: "assurance \<Rightarrow> string" where
  "assurance_value PHISHING_RESISTANT_MFA = ''phishing_resistant_mfa''"

definition assurance_members :: "assurance list" where
  "assurance_members = [
     PHISHING_RESISTANT_MFA]"

interpretation assurance: str_enum assurance_value assurance_members
proof
  show "m \<in> set assurance_members" for m by (cases m) (simp_all add: assurance_members_def)
  show "distinct (map assurance_value assurance_members)" by code_simp
qed

datatype assurance_source =
    AUTHORITATIVE_AUTHENTICATION_EVENT

fun assurance_source_value :: "assurance_source \<Rightarrow> string" where
  "assurance_source_value AUTHORITATIVE_AUTHENTICATION_EVENT = ''authoritative_authentication_event_v1''"

definition assurance_source_members :: "assurance_source list" where
  "assurance_source_members = [
     AUTHORITATIVE_AUTHENTICATION_EVENT]"

interpretation assurance_source: str_enum assurance_source_value assurance_source_members
proof
  show "m \<in> set assurance_source_members" for m by (cases m) (simp_all add: assurance_source_members_def)
  show "distinct (map assurance_source_value assurance_source_members)" by code_simp
qed

datatype assurance_version =
    PHISHING_RESISTANT_MFA_V1

fun assurance_version_value :: "assurance_version \<Rightarrow> string" where
  "assurance_version_value PHISHING_RESISTANT_MFA_V1 = ''phishing-resistant-mfa.v1''"

definition assurance_version_members :: "assurance_version list" where
  "assurance_version_members = [
     PHISHING_RESISTANT_MFA_V1]"

interpretation assurance_version: str_enum assurance_version_value assurance_version_members
proof
  show "m \<in> set assurance_version_members" for m by (cases m) (simp_all add: assurance_version_members_def)
  show "distinct (map assurance_version_value assurance_version_members)" by code_simp
qed

datatype authorization_path =
    MEMBERSHIP
  | TEMPORARY_GRANT

fun authorization_path_value :: "authorization_path \<Rightarrow> string" where
  "authorization_path_value MEMBERSHIP = ''membership''"
| "authorization_path_value TEMPORARY_GRANT = ''temporary_grant''"

definition authorization_path_members :: "authorization_path list" where
  "authorization_path_members = [
     MEMBERSHIP, TEMPORARY_GRANT]"

interpretation authorization_path: str_enum authorization_path_value authorization_path_members
proof
  show "m \<in> set authorization_path_members" for m by (cases m) (simp_all add: authorization_path_members_def)
  show "distinct (map authorization_path_value authorization_path_members)" by code_simp
qed

datatype human_role =
    CUSTOMER_ADMIN
  | DOCUMENT_OPERATOR
  | DOCUMENT_REVIEWER
  | AUDITOR

fun human_role_value :: "human_role \<Rightarrow> string" where
  "human_role_value CUSTOMER_ADMIN = ''customer_admin''"
| "human_role_value DOCUMENT_OPERATOR = ''document_operator''"
| "human_role_value DOCUMENT_REVIEWER = ''document_reviewer''"
| "human_role_value AUDITOR = ''auditor''"

definition human_role_members :: "human_role list" where
  "human_role_members = [
     CUSTOMER_ADMIN, DOCUMENT_OPERATOR, DOCUMENT_REVIEWER, AUDITOR]"

interpretation human_role: str_enum human_role_value human_role_members
proof
  show "m \<in> set human_role_members" for m by (cases m) (simp_all add: human_role_members_def)
  show "distinct (map human_role_value human_role_members)" by code_simp
qed

datatype resource_type =
    DOCUMENTS
  | BATCHES
  | EMPLOYEE_PROFILES
  | RESULTS
  | REVIEWS
  | EXPORTS
  | DEPLOYMENT_CONFIGURATION
  | METRICS
  | AUTHORIZATION_ADMINISTRATION
  | AUDIT_LOG

fun resource_type_value :: "resource_type \<Rightarrow> string" where
  "resource_type_value DOCUMENTS = ''documents''"
| "resource_type_value BATCHES = ''batches''"
| "resource_type_value EMPLOYEE_PROFILES = ''employee_profiles''"
| "resource_type_value RESULTS = ''results''"
| "resource_type_value REVIEWS = ''reviews''"
| "resource_type_value EXPORTS = ''exports''"
| "resource_type_value DEPLOYMENT_CONFIGURATION = ''deployment_configuration''"
| "resource_type_value METRICS = ''metrics''"
| "resource_type_value AUTHORIZATION_ADMINISTRATION = ''authorization_administration''"
| "resource_type_value AUDIT_LOG = ''audit_log''"

definition resource_type_members :: "resource_type list" where
  "resource_type_members = [
     DOCUMENTS, BATCHES, EMPLOYEE_PROFILES, RESULTS, REVIEWS, EXPORTS,
     DEPLOYMENT_CONFIGURATION, METRICS, AUTHORIZATION_ADMINISTRATION, AUDIT_LOG]"

interpretation resource_type: str_enum resource_type_value resource_type_members
proof
  show "m \<in> set resource_type_members" for m by (cases m) (simp_all add: resource_type_members_def)
  show "distinct (map resource_type_value resource_type_members)" by code_simp
qed

datatype data_class =
    METADATA
  | MASKED
  | CONTENT
  | PII
  | AGGREGATED

fun data_class_value :: "data_class \<Rightarrow> string" where
  "data_class_value METADATA = ''metadata''"
| "data_class_value MASKED = ''masked''"
| "data_class_value CONTENT = ''content''"
| "data_class_value PII = ''pii''"
| "data_class_value AGGREGATED = ''aggregated''"

definition data_class_members :: "data_class list" where
  "data_class_members = [
     METADATA, MASKED, CONTENT, PII, AGGREGATED]"

interpretation data_class: str_enum data_class_value data_class_members
proof
  show "m \<in> set data_class_members" for m by (cases m) (simp_all add: data_class_members_def)
  show "distinct (map data_class_value data_class_members)" by code_simp
qed

datatype operation_id =
    DOCUMENTS_CREATE
  | DOCUMENTS_SUBMIT
  | DOCUMENTS_READ_METADATA
  | BATCHES_CREATE
  | BATCHES_READ_METADATA
  | RESULTS_READ_MASKED
  | REVIEWS_READ_METADATA
  | REVIEWS_WRITE
  | DEPLOYMENT_CONFIGURATION_READ
  | METRICS_READ
  | METRICS_READ_IDENTIFIED
  | AUDIT_LOG_READ
  | RESULTS_READ_FULL
  | EXPORTS_EXECUTE
  | ARTIFACTS_LIST_METADATA
  | ARTIFACTS_DOWNLOAD
  | EMPLOYEE_PROFILES_GENERATE
  | EMPLOYEE_PROFILES_READ_JOB
  | EMPLOYEE_PROFILES_LIST_MASKED
  | EMPLOYEE_PROFILES_READ_FULL
  | AUTHORIZATION_ROLES_READ
  | AUTHORIZATION_MEMBERSHIPS_LIST
  | AUTHORIZATION_INVITATIONS_CREATE
  | AUTHORIZATION_MEMBERSHIPS_ACTIVATE
  | AUTHORIZATION_MEMBERSHIPS_ROLE_CHANGE
  | AUTHORIZATION_MEMBERSHIPS_SUSPEND
  | AUTHORIZATION_MEMBERSHIPS_REACTIVATE
  | AUTHORIZATION_MEMBERSHIPS_REVOKE
  | AUTHORIZATION_SESSIONS_REVOKE
  | AUTHORIZATION_AUDIT_READ

fun operation_id_value :: "operation_id \<Rightarrow> string" where
  "operation_id_value DOCUMENTS_CREATE = ''documents.create''"
| "operation_id_value DOCUMENTS_SUBMIT = ''documents.submit''"
| "operation_id_value DOCUMENTS_READ_METADATA = ''documents.read_metadata''"
| "operation_id_value BATCHES_CREATE = ''batches.create''"
| "operation_id_value BATCHES_READ_METADATA = ''batches.read_metadata''"
| "operation_id_value RESULTS_READ_MASKED = ''results.read_masked''"
| "operation_id_value REVIEWS_READ_METADATA = ''reviews.read_metadata''"
| "operation_id_value REVIEWS_WRITE = ''reviews.write''"
| "operation_id_value DEPLOYMENT_CONFIGURATION_READ = ''deployment_configuration.read''"
| "operation_id_value METRICS_READ = ''metrics.read''"
| "operation_id_value METRICS_READ_IDENTIFIED = ''metrics.read_identified''"
| "operation_id_value AUDIT_LOG_READ = ''audit_log.read''"
| "operation_id_value RESULTS_READ_FULL = ''results.read_full''"
| "operation_id_value EXPORTS_EXECUTE = ''exports.execute''"
| "operation_id_value ARTIFACTS_LIST_METADATA = ''artifacts.list_metadata''"
| "operation_id_value ARTIFACTS_DOWNLOAD = ''artifacts.download''"
| "operation_id_value EMPLOYEE_PROFILES_GENERATE = ''employee_profiles.generate''"
| "operation_id_value EMPLOYEE_PROFILES_READ_JOB = ''employee_profiles.read_job''"
| "operation_id_value EMPLOYEE_PROFILES_LIST_MASKED = ''employee_profiles.list_masked''"
| "operation_id_value EMPLOYEE_PROFILES_READ_FULL = ''employee_profiles.read_full''"
| "operation_id_value AUTHORIZATION_ROLES_READ = ''authorization_administration.roles.read''"
| "operation_id_value AUTHORIZATION_MEMBERSHIPS_LIST = ''authorization_administration.memberships.list''"
| "operation_id_value AUTHORIZATION_INVITATIONS_CREATE = ''authorization_administration.invitations.create''"
| "operation_id_value AUTHORIZATION_MEMBERSHIPS_ACTIVATE = ''authorization_administration.memberships.activate''"
| "operation_id_value AUTHORIZATION_MEMBERSHIPS_ROLE_CHANGE = ''authorization_administration.memberships.change_role''"
| "operation_id_value AUTHORIZATION_MEMBERSHIPS_SUSPEND = ''authorization_administration.memberships.suspend''"
| "operation_id_value AUTHORIZATION_MEMBERSHIPS_REACTIVATE = ''authorization_administration.memberships.reactivate''"
| "operation_id_value AUTHORIZATION_MEMBERSHIPS_REVOKE = ''authorization_administration.memberships.revoke''"
| "operation_id_value AUTHORIZATION_SESSIONS_REVOKE = ''authorization_administration.sessions.revoke''"
| "operation_id_value AUTHORIZATION_AUDIT_READ = ''authorization_administration.audit.read''"

definition operation_id_members :: "operation_id list" where
  "operation_id_members = [
     DOCUMENTS_CREATE, DOCUMENTS_SUBMIT, DOCUMENTS_READ_METADATA, BATCHES_CREATE,
     BATCHES_READ_METADATA, RESULTS_READ_MASKED, REVIEWS_READ_METADATA, REVIEWS_WRITE,
     DEPLOYMENT_CONFIGURATION_READ, METRICS_READ, METRICS_READ_IDENTIFIED, AUDIT_LOG_READ,
     RESULTS_READ_FULL, EXPORTS_EXECUTE, ARTIFACTS_LIST_METADATA, ARTIFACTS_DOWNLOAD,
     EMPLOYEE_PROFILES_GENERATE, EMPLOYEE_PROFILES_READ_JOB, EMPLOYEE_PROFILES_LIST_MASKED,
     EMPLOYEE_PROFILES_READ_FULL, AUTHORIZATION_ROLES_READ, AUTHORIZATION_MEMBERSHIPS_LIST,
     AUTHORIZATION_INVITATIONS_CREATE, AUTHORIZATION_MEMBERSHIPS_ACTIVATE,
     AUTHORIZATION_MEMBERSHIPS_ROLE_CHANGE, AUTHORIZATION_MEMBERSHIPS_SUSPEND,
     AUTHORIZATION_MEMBERSHIPS_REACTIVATE, AUTHORIZATION_MEMBERSHIPS_REVOKE,
     AUTHORIZATION_SESSIONS_REVOKE, AUTHORIZATION_AUDIT_READ]"

interpretation operation_id: str_enum operation_id_value operation_id_members
proof
  show "m \<in> set operation_id_members" for m by (cases m) (simp_all add: operation_id_members_def)
  show "distinct (map operation_id_value operation_id_members)" by code_simp
qed

section \<open>Operation policies\<close>

record permission_requirement =
  req_resource :: resource_type
  req_actions :: "action set"
  req_data_classes :: "data_class set"

record operation_policy =
  pol_operation_id :: operation_id
  pol_requirements :: "permission_requirement list"
  m2m_required_actions :: "string set"
  step_up_required :: bool
  temporary_grant_allowed :: bool
  m2m_allowed :: bool

definition permission ::
  "resource_type \<Rightarrow> action list \<Rightarrow> data_class list \<Rightarrow> permission_requirement" where
  "permission resource actions data_classes =
     \<lparr>req_resource = resource, req_actions = set actions, req_data_classes = set data_classes\<rparr>"

text \<open>The constructor with the defaults of the dataclass.\<close>

definition policy ::
  "operation_id \<Rightarrow> permission_requirement list \<Rightarrow> string set \<Rightarrow> operation_policy" where
  "policy op reqs m2m =
     \<lparr>pol_operation_id = op, pol_requirements = reqs, m2m_required_actions = m2m,
      step_up_required = False, temporary_grant_allowed = False, m2m_allowed = True\<rparr>"

definition READ_ACTIONS :: "string set" where
  "READ_ACTIONS = {action_value READ}"
definition WRITE_ACTIONS :: "string set" where
  "WRITE_ACTIONS = {action_value WRITE}"
definition READ_ADMIN_ACTIONS :: "string set" where
  "READ_ADMIN_ACTIONS = {action_value READ, action_value ADMIN}"

definition data_plane_policies :: "(operation_id \<times> operation_policy) list" where
  "data_plane_policies = [
     (DOCUMENTS_CREATE, (policy DOCUMENTS_CREATE
       [permission DOCUMENTS [WRITE] [CONTENT]] WRITE_ACTIONS)),
     (DOCUMENTS_SUBMIT, (policy DOCUMENTS_SUBMIT
       [permission DOCUMENTS [WRITE] [CONTENT]] WRITE_ACTIONS)),
     (DOCUMENTS_READ_METADATA, (policy DOCUMENTS_READ_METADATA
       [permission DOCUMENTS [READ] [METADATA]] READ_ACTIONS)
       \<lparr>temporary_grant_allowed := True\<rparr>),
     (BATCHES_CREATE, (policy BATCHES_CREATE
       [permission BATCHES [WRITE] [METADATA]] WRITE_ACTIONS)),
     (BATCHES_READ_METADATA, (policy BATCHES_READ_METADATA
       [permission BATCHES [READ] [METADATA]] READ_ACTIONS)
       \<lparr>temporary_grant_allowed := True\<rparr>),
     (RESULTS_READ_MASKED, (policy RESULTS_READ_MASKED
       [permission RESULTS [READ] [METADATA, MASKED]] READ_ACTIONS)
       \<lparr>temporary_grant_allowed := True\<rparr>),
     (REVIEWS_READ_METADATA, (policy REVIEWS_READ_METADATA
       [permission REVIEWS [READ] [METADATA]] READ_ACTIONS)
       \<lparr>temporary_grant_allowed := True\<rparr>),
     (REVIEWS_WRITE, (policy REVIEWS_WRITE
       [permission REVIEWS [WRITE] [MASKED]] WRITE_ACTIONS)),
     (DEPLOYMENT_CONFIGURATION_READ, (policy DEPLOYMENT_CONFIGURATION_READ
       [permission DEPLOYMENT_CONFIGURATION [READ] [METADATA]] READ_ACTIONS)
       \<lparr>temporary_grant_allowed := True\<rparr>),
     (METRICS_READ, (policy METRICS_READ
       [permission METRICS [READ] [METADATA, AGGREGATED]] READ_ACTIONS)
       \<lparr>temporary_grant_allowed := True\<rparr>),
     (METRICS_READ_IDENTIFIED, (policy METRICS_READ_IDENTIFIED
       [permission METRICS [READ] [METADATA, AGGREGATED, PII]] READ_ACTIONS)),
     (AUDIT_LOG_READ, (policy AUDIT_LOG_READ
       [permission AUDIT_LOG [READ] [METADATA]] READ_ACTIONS)
       \<lparr>temporary_grant_allowed := True\<rparr>),
     (RESULTS_READ_FULL, (policy RESULTS_READ_FULL
       [permission RESULTS [READ, ADMIN] [CONTENT, PII]] READ_ADMIN_ACTIONS)
       \<lparr>step_up_required := True\<rparr>),
     (EXPORTS_EXECUTE, (policy EXPORTS_EXECUTE
       [permission EXPORTS [READ, ADMIN] [CONTENT, PII]] READ_ADMIN_ACTIONS)
       \<lparr>step_up_required := True\<rparr>),
     (ARTIFACTS_LIST_METADATA, (policy ARTIFACTS_LIST_METADATA
       [permission DOCUMENTS [READ, ADMIN] [CONTENT]] READ_ACTIONS)
       \<lparr>step_up_required := True\<rparr>),
     (ARTIFACTS_DOWNLOAD, (policy ARTIFACTS_DOWNLOAD
       [permission DOCUMENTS [READ, ADMIN] [CONTENT]] READ_ADMIN_ACTIONS)
       \<lparr>step_up_required := True\<rparr>),
     (EMPLOYEE_PROFILES_GENERATE, (policy EMPLOYEE_PROFILES_GENERATE
       [permission EMPLOYEE_PROFILES [WRITE] [PII]] WRITE_ACTIONS)),
     (EMPLOYEE_PROFILES_READ_JOB, (policy EMPLOYEE_PROFILES_READ_JOB
       [permission EMPLOYEE_PROFILES [READ] [METADATA]] READ_ACTIONS)),
     (EMPLOYEE_PROFILES_LIST_MASKED, (policy EMPLOYEE_PROFILES_LIST_MASKED
       [permission EMPLOYEE_PROFILES [READ] [METADATA, MASKED]] READ_ADMIN_ACTIONS)),
     (EMPLOYEE_PROFILES_READ_FULL, (policy EMPLOYEE_PROFILES_READ_FULL
       [permission EMPLOYEE_PROFILES [READ, ADMIN] [PII]] READ_ADMIN_ACTIONS)
       \<lparr>step_up_required := True\<rparr>)]"

definition administration_policies :: "(operation_id \<times> operation_policy) list" where
  "administration_policies = [
     (AUTHORIZATION_ROLES_READ, (policy AUTHORIZATION_ROLES_READ
       [permission AUTHORIZATION_ADMINISTRATION [READ] [METADATA]] {})
       \<lparr>m2m_allowed := False\<rparr>),
     (AUTHORIZATION_MEMBERSHIPS_LIST, (policy AUTHORIZATION_MEMBERSHIPS_LIST
       [permission AUTHORIZATION_ADMINISTRATION [READ] [METADATA]] {})
       \<lparr>m2m_allowed := False\<rparr>),
     (AUTHORIZATION_AUDIT_READ, (policy AUTHORIZATION_AUDIT_READ
       [permission AUDIT_LOG [READ] [METADATA]] {})
       \<lparr>m2m_allowed := False\<rparr>),
     (AUTHORIZATION_INVITATIONS_CREATE, (policy AUTHORIZATION_INVITATIONS_CREATE
       [permission AUTHORIZATION_ADMINISTRATION [ADMIN] [METADATA]] {})
       \<lparr>step_up_required := True, m2m_allowed := False\<rparr>),
     (AUTHORIZATION_MEMBERSHIPS_ACTIVATE, (policy AUTHORIZATION_MEMBERSHIPS_ACTIVATE
       [permission AUTHORIZATION_ADMINISTRATION [ADMIN] [METADATA]] {})
       \<lparr>step_up_required := True, m2m_allowed := False\<rparr>),
     (AUTHORIZATION_MEMBERSHIPS_ROLE_CHANGE, (policy AUTHORIZATION_MEMBERSHIPS_ROLE_CHANGE
       [permission AUTHORIZATION_ADMINISTRATION [ADMIN] [METADATA]] {})
       \<lparr>step_up_required := True, m2m_allowed := False\<rparr>),
     (AUTHORIZATION_MEMBERSHIPS_SUSPEND, (policy AUTHORIZATION_MEMBERSHIPS_SUSPEND
       [permission AUTHORIZATION_ADMINISTRATION [ADMIN] [METADATA]] {})
       \<lparr>step_up_required := True, m2m_allowed := False\<rparr>),
     (AUTHORIZATION_MEMBERSHIPS_REACTIVATE, (policy AUTHORIZATION_MEMBERSHIPS_REACTIVATE
       [permission AUTHORIZATION_ADMINISTRATION [ADMIN] [METADATA]] {})
       \<lparr>step_up_required := True, m2m_allowed := False\<rparr>),
     (AUTHORIZATION_MEMBERSHIPS_REVOKE, (policy AUTHORIZATION_MEMBERSHIPS_REVOKE
       [permission AUTHORIZATION_ADMINISTRATION [ADMIN] [METADATA]] {})
       \<lparr>step_up_required := True, m2m_allowed := False\<rparr>),
     (AUTHORIZATION_SESSIONS_REVOKE, (policy AUTHORIZATION_SESSIONS_REVOKE
       [permission AUTHORIZATION_ADMINISTRATION [ADMIN] [METADATA]] {})
       \<lparr>step_up_required := True, m2m_allowed := False\<rparr>)]"

definition OPERATION_POLICIES :: "(operation_id \<times> operation_policy) list" where
  "OPERATION_POLICIES = data_plane_policies @ administration_policies"

section \<open>Role permissions\<close>

fun role_permissions :: "human_role \<Rightarrow> (resource_type \<times> action set \<times> data_class set) list" where
  "role_permissions CUSTOMER_ADMIN = [
     (DOCUMENTS, ({READ, WRITE, ADMIN}, {METADATA, MASKED, CONTENT, PII})),
     (BATCHES, ({READ, WRITE, ADMIN}, {METADATA, MASKED, CONTENT, PII})),
     (EMPLOYEE_PROFILES, ({READ, WRITE, ADMIN}, {METADATA, MASKED, CONTENT, PII})),
     (RESULTS, ({READ, ADMIN}, {METADATA, MASKED, CONTENT, PII})),
     (REVIEWS, ({READ, WRITE, ADMIN}, {METADATA, MASKED, CONTENT})),
     (EXPORTS, ({READ, ADMIN}, {METADATA, CONTENT, PII})),
     (DEPLOYMENT_CONFIGURATION, ({READ, ADMIN}, {METADATA})),
     (METRICS, ({READ, ADMIN}, {METADATA, AGGREGATED})),
     (AUTHORIZATION_ADMINISTRATION, ({READ, ADMIN}, {METADATA})),
     (AUDIT_LOG, ({READ}, {METADATA}))]"
| "role_permissions DOCUMENT_OPERATOR = [
     (DOCUMENTS, ({READ, WRITE}, {METADATA, MASKED, CONTENT})),
     (BATCHES, ({READ, WRITE}, {METADATA, MASKED, CONTENT})),
     (EMPLOYEE_PROFILES, ({READ, WRITE}, {METADATA, MASKED})),
     (RESULTS, ({READ}, {METADATA, MASKED})),
     (REVIEWS, ({READ}, {METADATA, MASKED})),
     (METRICS, ({READ}, {METADATA, AGGREGATED}))]"
| "role_permissions DOCUMENT_REVIEWER = [
     (DOCUMENTS, ({READ}, {METADATA, MASKED})),
     (BATCHES, ({READ}, {METADATA, MASKED})),
     (EMPLOYEE_PROFILES, ({READ}, {METADATA, MASKED})),
     (RESULTS, ({READ}, {METADATA, MASKED})),
     (REVIEWS, ({READ, WRITE}, {METADATA, MASKED}))]"
| "role_permissions AUDITOR = [
     (AUDIT_LOG, ({READ}, {METADATA})),
     (METRICS, ({READ}, {METADATA, AGGREGATED}))]"

definition role_allows :: "human_role \<Rightarrow> operation_policy \<Rightarrow> bool" where
  "role_allows role pol = list_all (\<lambda>req.
     case map_of (role_permissions role) (req_resource req) of
       None \<Rightarrow> False
     | Some (granted_actions, granted_data_classes) \<Rightarrow>
         req_actions req \<subseteq> granted_actions \<and> req_data_classes req \<subseteq> granted_data_classes)
     (pol_requirements pol)"

definition TEMPORARY_GRANT_OPERATIONS :: "string list" where
  "TEMPORARY_GRANT_OPERATIONS = map operation_id_value
     [DOCUMENTS_READ_METADATA, BATCHES_READ_METADATA, RESULTS_READ_MASKED, REVIEWS_READ_METADATA,
      DEPLOYMENT_CONFIGURATION_READ, METRICS_READ, AUDIT_LOG_READ]"

fun action_scope :: "action \<Rightarrow> string" where
  "action_scope READ = ''scanalyze.api.v1/read''"
| "action_scope WRITE = ''scanalyze.api.v1/write''"
| "action_scope ADMIN = ''scanalyze.api.v1/admin''"

definition DATA_CLASS_VALUES :: "string list" where
  "DATA_CLASS_VALUES = map data_class_value data_class_members"

definition required_human_scopes :: "operation_policy \<Rightarrow> string set" where
  "required_human_scopes pol =
     (\<Union>req\<in>set (pol_requirements pol). action_scope ` req_actions req)"

text \<open>All actions and data classes of a policy.\<close>

definition policy_actions :: "operation_policy \<Rightarrow> action set" where
  "policy_actions pol = (\<Union>req\<in>set (pol_requirements pol). req_actions req)"

definition policy_data_classes :: "operation_policy \<Rightarrow> data_class set" where
  "policy_data_classes pol = (\<Union>req\<in>set (pol_requirements pol). req_data_classes req)"

section \<open>The catalogue is total and its entries carry their own key\<close>

lemmas policy_tables = OPERATION_POLICIES_def data_plane_policies_def administration_policies_def
  policy_def permission_def

lemma policy_total: "\<exists>pol. map_of OPERATION_POLICIES op = Some pol \<and> pol_operation_id pol = op"
  by (cases op) (simp_all add: policy_tables)

lemma policy_total_not_None [simp]: "map_of OPERATION_POLICIES op \<noteq> None"
  using policy_total [of op] by auto

lemma policy_key: "map_of OPERATION_POLICIES op = Some pol \<Longrightarrow> pol_operation_id pol = op"
  using policy_total [of op] by auto

lemma policy_one_requirement:
  "map_of OPERATION_POLICIES op = Some pol \<Longrightarrow> length (pol_requirements pol) = 1"
  by (cases op) (auto simp: policy_tables)

section \<open>Properties of the tables\<close>

text \<open>
  Step-up authentication is required for exactly the operations that need the admin action
  on some resource: no privileged operation is left without it, and no other operation asks for
  it.
\<close>

theorem step_up_iff_admin:
  "\<exists>pol. map_of OPERATION_POLICIES op = Some pol \<and>
     (step_up_required pol \<longleftrightarrow> ADMIN \<in> policy_actions pol)"
  by (cases op) (simp_all add: policy_tables policy_actions_def)

text \<open>
  A temporary grant can reach an operation of the catalogue exactly when the closed list of
  grantable operations names it, and all of these only read, and touch neither document content
  nor personal data.
\<close>

theorem temporary_grant_reach:
  "\<exists>pol. map_of OPERATION_POLICIES op = Some pol \<and>
     (temporary_grant_allowed pol \<longleftrightarrow> operation_id_value op \<in> set TEMPORARY_GRANT_OPERATIONS) \<and>
     (temporary_grant_allowed pol \<longrightarrow> policy_actions pol = {READ} \<and>
        CONTENT \<notin> policy_data_classes pol \<and> PII \<notin> policy_data_classes pol)"
  by (cases op) (simp_all add: policy_tables policy_actions_def policy_data_classes_def
      TEMPORARY_GRANT_OPERATIONS_def)

theorem temporary_grant_reach_witness:
  "operation_id_value METRICS_READ \<in> set TEMPORARY_GRANT_OPERATIONS \<and>
   (\<exists>pol. map_of OPERATION_POLICIES METRICS_READ = Some pol \<and> policy_actions pol = {READ})"
proof -
  have "operation_id_value METRICS_READ \<in> set TEMPORARY_GRANT_OPERATIONS"
    by (simp add: TEMPORARY_GRANT_OPERATIONS_def)
  then show ?thesis using temporary_grant_reach [of METRICS_READ] by auto
qed

lemma role_permissions_below_admin:
  assumes "map_of (role_permissions role) r = Some (acts, dcs)"
  shows "\<exists>acts' dcs'. map_of (role_permissions CUSTOMER_ADMIN) r = Some (acts', dcs') \<and>
    acts \<subseteq> acts' \<and> dcs \<subseteq> dcs'"
  using assms by (cases role; cases r) auto

text \<open>
  The customer administrator dominates every role: whatever a policy, even one outside the
  catalogue, allows some role to do it allows the administrator to do; and no other role is
  ever allowed a policy that needs the admin action.
\<close>

theorem role_hierarchy:
  assumes "role_allows role pol"
  shows "role_allows CUSTOMER_ADMIN pol \<and> (role \<noteq> CUSTOMER_ADMIN \<longrightarrow> ADMIN \<notin> policy_actions pol)"
proof
  show "role_allows CUSTOMER_ADMIN pol"
    unfolding role_allows_def list_all_iff
  proof
    fix req assume "req \<in> set (pol_requirements pol)"
    with assms obtain acts dcs where
      g: "map_of (role_permissions role) (req_resource req) = Some (acts, dcs)"
        "req_actions req \<subseteq> acts" "req_data_classes req \<subseteq> dcs"
      by (auto simp: role_allows_def list_all_iff split: option.splits)
    with role_permissions_below_admin [OF g(1)]
    show "case map_of (role_permissions CUSTOMER_ADMIN) (req_resource req) of None \<Rightarrow> False
      | Some (a, d) \<Rightarrow> req_actions req \<subseteq> a \<and> req_data_classes req \<subseteq> d" by force
  qed
  have "ADMIN \<notin> acts" if "role \<noteq> CUSTOMER_ADMIN" "map_of (role_permissions role) r = Some (acts, dcs)"
    for r acts dcs
    using that by (cases role; cases r) auto
  then show "role \<noteq> CUSTOMER_ADMIN \<longrightarrow> ADMIN \<notin> policy_actions pol"
    using assms by (auto simp: role_allows_def list_all_iff policy_actions_def split: option.splits) blast
qed

theorem role_hierarchy_witness:
  "role_allows AUDITOR (policy METRICS_READ [permission METRICS [READ] [METADATA, AGGREGATED]] READ_ACTIONS)
   \<and> ADMIN \<notin> policy_actions (policy METRICS_READ [permission METRICS [READ] [METADATA, AGGREGATED]] READ_ACTIONS)"
proof -
  have h: "role_allows AUDITOR (policy METRICS_READ [permission METRICS [READ] [METADATA, AGGREGATED]] READ_ACTIONS)"
    by (simp add: role_allows_def policy_def permission_def)
  show ?thesis using h role_hierarchy [OF h] by simp
qed

text \<open>
  Metrics that carry user identifiers are out of every human role's reach, and the only
  operations closed to machine principals are those of the authorization administration.
\<close>

theorem identified_metrics_and_m2m:
  "(\<exists>pol. map_of OPERATION_POLICIES METRICS_READ_IDENTIFIED = Some pol \<and> \<not> role_allows role pol) \<and>
   (\<exists>pol. map_of OPERATION_POLICIES op = Some pol \<and>
     (m2m_allowed pol \<longleftrightarrow> op \<notin> fst ` set administration_policies))"
  by (cases role; cases op) (simp_all add: policy_tables role_allows_def)

end
