(* ===== verification/PyTime.thy ===== *)
theory PyTime
  imports Prelude
begin

text \<open>
  The part of Python's \<open>datetime\<close> the code uses. A datetime is naive or aware; an aware one is
  the instant it denotes, in microseconds since 0001-01-01T00:00:00 UTC, so that comparison and
  equality of aware datetimes are those of the instants. \<open>timestamp_text\<close> is
  \<open>value.astimezone(timezone.utc).isoformat().replace("+00:00", "Z")\<close>, and
  \<open>parse_iso\<close> is \<open>datetime.fromisoformat\<close> on the extended calendar form
  \<open>YYYY-MM-DD?HH:MM:SS[.ffffff][+HH:MM]\<close>; the other ISO 8601 forms that Python accepts are
  rejected by the model. The main fact is the round trip \<open>parse_timestamp_text\<close>.
\<close>

datatype datetime = Naive nat | Aware nat

fun is_aware :: "datetime \<Rightarrow> bool" where
  "is_aware (Aware t) = True"
| "is_aware (Naive t) = False"

text \<open>The instant of a datetime; the process runs with UTC as its local zone.\<close>

fun instant :: "datetime \<Rightarrow> nat" where
  "instant (Aware t) = t"
| "instant (Naive t) = t"

definition second_us :: nat where "second_us = 1000000"
definition day_us :: nat where "day_us = 86400 * 1000000"

text \<open>Instants from year 1 up to the end of year 9999, which Python can represent.\<close>

definition max_instant :: nat where "max_instant = 3652059 * (86400 * 1000000)"

text \<open>Days from 0001-01-01 to 1970-01-01.\<close>

definition epoch_days :: nat where "epoch_days = 719162"

definition instant_of_epoch :: "int \<Rightarrow> nat" where
  "instant_of_epoch n = nat (n + int epoch_days * 86400) * second_us"

text \<open>
  \<open>int(value.timestamp())\<close>, truncated towards zero. (\<open>timestamp()\<close> is a float; up to year
  2500 its rounding does not reach the next second.)
\<close>

definition epoch_of_instant :: "nat \<Rightarrow> int" where
  "epoch_of_instant t =
     (let us = int t - int (epoch_days * day_us)
      in if us < 0 then - ((- us) div 1000000) else us div 1000000)"

definition add_seconds :: "nat \<Rightarrow> nat \<Rightarrow> nat" where
  "add_seconds t s = t + s * second_us"

section \<open>The proleptic Gregorian calendar\<close>

definition is_leap :: "nat \<Rightarrow> bool" where
  "is_leap y \<longleftrightarrow> y mod 4 = 0 \<and> (y mod 100 \<noteq> 0 \<or> y mod 400 = 0)"

definition days_before_year :: "nat \<Rightarrow> nat" where
  "days_before_year y = (y - 1) * 365 + (y - 1) div 4 - (y - 1) div 100 + (y - 1) div 400"

definition month_starts :: "bool \<Rightarrow> nat list" where
  "month_starts leap = (if leap
     then [0, 31, 60, 91, 121, 152, 182, 213, 244, 274, 305, 335, 366]
     else [0, 31, 59, 90, 120, 151, 181, 212, 243, 273, 304, 334, 365])"

definition days_in_month :: "nat \<Rightarrow> nat \<Rightarrow> nat" where
  "days_in_month y m = month_starts (is_leap y) ! m - month_starts (is_leap y) ! (m - 1)"

definition ymd_to_ord :: "nat \<Rightarrow> nat \<Rightarrow> nat \<Rightarrow> nat" where
  "ymd_to_ord y m d = days_before_year y + month_starts (is_leap y) ! (m - 1) + d"

text \<open>Month and day of the \<open>n\<close>-th day (from 0) of a year.\<close>

definition month_of :: "bool \<Rightarrow> nat \<Rightarrow> nat" where
  "month_of leap n = length (takeWhile (\<lambda>s. s \<le> n) (month_starts leap))"

definition ord_to_ymd :: "nat \<Rightarrow> nat \<times> nat \<times> nat" where
  "ord_to_ymd n =
     (let n0 = n - 1;
          n400 = n0 div 146097; r400 = n0 mod 146097;
          n100 = r400 div 36524; r100 = r400 mod 36524;
          n4 = r100 div 1461; r4 = r100 mod 1461;
          n1 = r4 div 365; r1 = r4 mod 365;
          y = n400 * 400 + n100 * 100 + n4 * 4 + n1 + 1
      in if n1 = 4 \<or> n100 = 4 then (y - 1, 12, 31)
         else let leap = (n1 = 3 \<and> (n4 \<noteq> 24 \<or> n100 = 3)); m = month_of leap r1
              in (y, m, r1 - month_starts leap ! (m - 1) + 1))"

lemma length_month_starts [simp]: "length (month_starts leap) = 13"
  by (simp add: month_starts_def)

lemma month_starts_0 [simp]: "month_starts leap ! 0 = 0"
  by (simp add: month_starts_def)

lemma month_of_cases:
  assumes "n < 365 + (if leap then 1 else 0)"
  shows "1 \<le> month_of leap n \<and> month_of leap n \<le> 12 \<and>
    month_starts leap ! (month_of leap n - 1) \<le> n \<and>
    n < month_starts leap ! month_of leap n"
proof -
  let ?xs = "month_starts leap" and ?P = "\<lambda>s. s \<le> n"
  let ?m = "length (takeWhile ?P ?xs)"
  have "\<exists>s\<in>set ?xs. \<not> ?P s" using assms by (cases leap) (auto simp: month_starts_def)
  then have "takeWhile ?P ?xs \<noteq> ?xs" by (simp add: takeWhile_eq_all_conv)
  then have lt: "?m < 13"
    by (metis length_month_starts length_takeWhile_le le_neq_implies_less takeWhile_eq_take
        take_all_iff order_refl)
  have ne: "0 < ?m" by (cases leap) (simp_all add: month_starts_def)
  have "?P (?xs ! (?m - 1))"
  proof -
    have "takeWhile ?P ?xs ! (?m - 1) \<in> set (takeWhile ?P ?xs)" using ne by (intro nth_mem) simp
    moreover have "takeWhile ?P ?xs ! (?m - 1) = ?xs ! (?m - 1)"
      using ne by (intro takeWhile_nth) simp
    ultimately show ?thesis by (auto dest: set_takeWhileD)
  qed
  moreover have "\<not> ?P (?xs ! ?m)" using lt by (intro nth_length_takeWhile) simp
  ultimately show ?thesis using lt ne by (simp add: month_of_def Suc_le_eq)
qed

lemma day_in_month:
  assumes "is_leap y = leap" "n < 365 + (if leap then 1 else 0)"
  shows "n - month_starts leap ! (month_of leap n - 1) < days_in_month y (month_of leap n)"
proof -
  note m = month_of_cases [OF assms(2)]
  then show ?thesis using assms(1) by (auto simp: days_in_month_def)
qed

text \<open>The year arithmetic: a year is split as \<open>400 a + 100 b + 4 c + d + 1\<close>.\<close>

lemma days_before_year_split:
  assumes "b < 4" "c < 25" "d < 4"
  shows "days_before_year (400 * a + 100 * b + 4 * c + d + 1) =
    146097 * a + 36524 * b + 1461 * c + 365 * d"
proof -
  let ?z = "400 * a + 100 * b + 4 * c + d"
  have "?z div 4 = 100 * a + 25 * b + c"
    by (rule div_nat_eqI) (use assms in auto)
  moreover have "?z div 100 = 4 * a + b"
    by (rule div_nat_eqI) (use assms in auto)
  moreover have "?z div 400 = a"
    by (rule div_nat_eqI) (use assms in auto)
  ultimately show ?thesis by (simp add: days_before_year_def)
qed

lemma mod_eq_0_iff_top: "0 < x \<Longrightarrow> x \<le> n \<Longrightarrow> x mod n = 0 \<longleftrightarrow> x = n" for x n :: nat
  by (cases "x = n") auto

lemma is_leap_split:
  assumes "b < 4" "c < 25" "d < 4"
  shows "is_leap (400 * a + 100 * b + 4 * c + d + 1) \<longleftrightarrow> d = 3 \<and> (c \<noteq> 24 \<or> b = 3)"
proof -
  let ?y = "400 * a + 100 * b + 4 * c + d + 1"
  have "?y = (d + 1) + 4 * (100 * a + 25 * b + c)" by simp
  then have "?y mod 4 = (d + 1) mod 4" by (metis mod_mult_self2)
  moreover have "d = 0 \<or> d = 1 \<or> d = 2 \<or> d = 3" using assms(3) by linarith
  ultimately have m4: "?y mod 4 = 0 \<longleftrightarrow> d = 3" by (elim disjE) simp_all
  have "?y = (4 * c + d + 1) + 100 * (4 * a + b)" by simp
  then have y100: "?y mod 100 = (4 * c + d + 1) mod 100" by (metis mod_mult_self2)
  have "(4 * c + d + 1) mod 100 = 0 \<longleftrightarrow> 4 * c + d + 1 = 100"
    using assms by (intro mod_eq_0_iff_top) linarith+
  also have "\<dots> \<longleftrightarrow> c = 24 \<and> d = 3" using assms by linarith
  finally have m100: "?y mod 100 = 0 \<longleftrightarrow> c = 24 \<and> d = 3" unfolding y100 .
  have "?y = (100 * b + 4 * c + d + 1) + 400 * a" by simp
  then have y400: "?y mod 400 = (100 * b + 4 * c + d + 1) mod 400" by (metis mod_mult_self2)
  have "(100 * b + 4 * c + d + 1) mod 400 = 0 \<longleftrightarrow> 100 * b + 4 * c + d + 1 = 400"
    using assms by (intro mod_eq_0_iff_top) linarith+
  also have "\<dots> \<longleftrightarrow> b = 3 \<and> c = 24 \<and> d = 3" using assms by linarith
  finally have m400: "?y mod 400 = 0 \<longleftrightarrow> b = 3 \<and> c = 24 \<and> d = 3" unfolding y400 .
  show ?thesis using m4 m100 m400 by (auto simp: is_leap_def)
qed

text \<open>The day number split as the code of the library splits it.\<close>

lemma ord_to_ymd_sound:
  assumes n: "1 \<le> n" and r: "ord_to_ymd n = (y, m, d)"
  shows "ymd_to_ord y m d = n \<and> 1 \<le> y \<and> 1 \<le> m \<and> m \<le> 12 \<and> 1 \<le> d \<and> d \<le> days_in_month y m"
proof -
  define a where "a = (n - 1) div 146097"
  define ra where "ra = (n - 1) mod 146097"
  define b where "b = ra div 36524"
  define rb where "rb = ra mod 36524"
  define c where "c = rb div 1461"
  define rc where "rc = rb mod 1461"
  define e where "e = rc div 365"
  define re where "re = rc mod 365"
  note defs = a_def ra_def b_def rb_def c_def rc_def e_def re_def
  have n_split: "n = 146097 * a + 36524 * b + 1461 * c + 365 * e + re + 1"
  proof -
    have "n = 146097 * a + ra + 1" using n by (simp add: a_def ra_def)
    moreover have "ra = 36524 * b + rb" by (simp add: b_def rb_def)
    moreover have "rb = 1461 * c + rc" by (simp add: c_def rc_def)
    moreover have "rc = 365 * e + re" by (simp add: e_def re_def)
    ultimately show ?thesis by linarith
  qed
  have bounds: "ra < 146097" "rb < 36524" "rc < 1461" "re < 365"
    unfolding defs by simp_all
  have b4: "b \<le> 4" using bounds(1) by (simp add: b_def less_Suc_eq_le [symmetric] div_less_iff_less_mult)
  have c24: "c < 25" using bounds(2) by (simp add: c_def div_less_iff_less_mult)
  have e4: "e \<le> 4" using bounds(3) by (simp add: e_def less_Suc_eq_le [symmetric] div_less_iff_less_mult)
  have ra_split: "ra = 36524 * b + rb" and rb_split: "rb = 1461 * c + rc"
    and rc_split: "rc = 365 * e + re"
    by (simp_all add: b_def rb_def c_def rc_def e_def re_def)
  let ?y = "a * 400 + b * 100 + c * 4 + e + 1"
  have dec: "ord_to_ymd n = (if e = 4 \<or> b = 4 then (?y - 1, 12, 31)
     else let leap = (e = 3 \<and> (c \<noteq> 24 \<or> b = 3)); m = month_of leap re
          in (?y, m, re - month_starts leap ! (m - 1) + 1))"
    by (simp add: ord_to_ymd_def Let_def defs)
  show ?thesis
  proof (cases "e = 4 \<or> b = 4")
    case False
    then have lt: "b < 4" "e < 4" using b4 e4 by auto
    define leap where "leap = (e = 3 \<and> (c \<noteq> 24 \<or> b = 3))"
    from dec r False have y: "y = 400 * a + 100 * b + 4 * c + e + 1"
      and m: "m = month_of leap re" and d: "d = re - month_starts leap ! (m - 1) + 1"
      by (auto simp: Let_def leap_def)
    have leap: "is_leap y = leap"
      unfolding y leap_def by (rule is_leap_split) (use lt c24 in auto)
    have mc: "1 \<le> m \<and> m \<le> 12 \<and> month_starts leap ! (m - 1) \<le> re"
      unfolding m using month_of_cases [of re leap] bounds(4) by auto
    have "re - month_starts leap ! (m - 1) < days_in_month y m"
      unfolding m by (rule day_in_month [OF leap]) (use bounds(4) in auto)
    moreover have "days_before_year y = 146097 * a + 36524 * b + 1461 * c + 365 * e"
      unfolding y by (rule days_before_year_split) (use lt c24 in auto)
    moreover have "1 \<le> y" by (simp add: y)
    ultimately show ?thesis using mc d n_split
      by (simp add: ymd_to_ord_def leap)
  next
    case True
    \<comment> \<open>the last day of a leap year: 31 December\<close>
    have "\<exists>b' c'. b' < 4 \<and> c' < 25 \<and> (c' \<noteq> 24 \<or> b' = 3) \<and> ?y - 1 = 400 * a + 100 * b' + 4 * c' + 3 + 1
        \<and> n = 146097 * a + 36524 * b' + 1461 * c' + 365 * 3 + 365 + 1"
    proof (cases "b = 4")
      case b: True
      with ra_split bounds(1) have "rb = 0" by simp
      with rb_split rc_split have "c = 0" "e = 0" "re = 0" by simp_all
      with b n_split show ?thesis by (intro exI [of _ 3] exI [of _ 24]) simp
    next
      case False
      with True have e: "e = 4" by simp
      with rc_split bounds(3) have re0: "re = 0" by simp
      have "c \<noteq> 24" using e rb_split rc_split bounds(2) by auto
      with False e b4 c24 re0 n_split show ?thesis
        by (intro exI [of _ b] exI [of _ c]) auto
    qed
    then obtain b' c' where bc: "b' < 4" "c' < 25" "c' \<noteq> 24 \<or> b' = 3"
      and y': "?y - 1 = 400 * a + 100 * b' + 4 * c' + 3 + 1"
      and n': "n = 146097 * a + 36524 * b' + 1461 * c' + 365 * 3 + 365 + 1" by blast
    from dec r True have ymd: "y = ?y - 1" "m = 12" "d = 31" by auto
    have leap: "is_leap y"
      unfolding ymd y' using is_leap_split [of b' c' 3 a] bc by simp
    have "days_before_year y = 146097 * a + 36524 * b' + 1461 * c' + 365 * 3"
      unfolding ymd y' by (rule days_before_year_split) (use bc in auto)
    with leap n' show ?thesis
      using ymd(2,3) y' ymd(1)
      by (simp add: ymd_to_ord_def days_in_month_def month_starts_def)
  qed
qed

lemma ord_to_ymd_year:
  assumes r: "ord_to_ymd n = (y, m, d)" and n: "1 \<le> n" "n \<le> 3652059"
  shows "y \<le> 9999"
proof -
  define a where "a = (n - 1) div 146097"
  define ra where "ra = (n - 1) mod 146097"
  define b where "b = ra div 36524"
  define rb where "rb = ra mod 36524"
  define c where "c = rb div 1461"
  define rc where "rc = rb mod 1461"
  define e where "e = rc div 365"
  note defs = a_def ra_def b_def rb_def c_def rc_def e_def
  have split: "n - 1 = 146097 * a + ra" "ra = 36524 * b + rb" "rb = 1461 * c + rc"
    by (simp_all add: a_def ra_def b_def rb_def c_def rc_def)
  have e: "365 * e \<le> rc" by (simp add: e_def)
  have bounds: "ra < 146097" "rb < 36524" "rc < 1461" unfolding defs by simp_all
  have "y \<le> 400 * a + 100 * b + 4 * c + e + 1"
    using r by (auto simp: ord_to_ymd_def Let_def defs split: if_splits)
  moreover have "400 * a + 100 * b + 4 * c + e + 1 \<le> 9999"
  proof -
    have "a \<le> 23 \<or> a = 24" "b \<le> 2 \<or> b = 3 \<or> b = 4" "c \<le> 23 \<or> c = 24" "e \<le> 2 \<or> e = 3 \<or> e = 4"
      using split bounds e n by linarith+
    then show ?thesis using split bounds e n by (elim disjE) linarith+
  qed
  ultimately show ?thesis by linarith
qed

section \<open>ISO 8601 text\<close>

definition iso_date :: "nat \<Rightarrow> string" where
  "iso_date n = (case ord_to_ymd n of (y, m, d) \<Rightarrow>
     pad_digits 4 y @ ''-'' @ pad_digits 2 m @ ''-'' @ pad_digits 2 d)"

definition iso_time :: "nat \<Rightarrow> string" where
  "iso_time us =
     (let s = us div second_us; f = us mod second_us
      in pad_digits 2 (s div 3600) @ '':'' @ pad_digits 2 (s div 60 mod 60) @ '':'' @
         pad_digits 2 (s mod 60) @ (if f = 0 then [] else ''.'' @ pad_digits 6 f))"

definition isoformat_utc :: "nat \<Rightarrow> string" where
  "isoformat_utc t = iso_date (t div day_us + 1) @ ''T'' @ iso_time (t mod day_us) @ ''+00:00''"

text \<open>
  \<open>value.astimezone(timezone.utc).isoformat().replace("+00:00", "Z")\<close>: the offset is the only
  occurrence of \<open>+\<close> in the text.
\<close>

definition timestamp_text :: "nat \<Rightarrow> string" where
  "timestamp_text t = iso_date (t div day_us + 1) @ ''T'' @ iso_time (t mod day_us) @ ''Z''"

definition replace_z :: "string \<Rightarrow> string" where
  "replace_z s = concat (map (\<lambda>c. if c = CHR ''Z'' then ''+00:00'' else [c]) s)"

text \<open>A fixed number of digits, and a literal, at the front of a text.\<close>

definition eat_digits :: "nat \<Rightarrow> string \<Rightarrow> (nat \<times> string) option" where
  "eat_digits w s = (if length (take w s) = w \<and> list_all is_digit (take w s)
     then Some (read_digits (take w s), drop w s) else None)"

definition eat :: "string \<Rightarrow> string \<Rightarrow> string option" where
  "eat pre s = (if take (length pre) s = pre then Some (drop (length pre) s) else None)"

definition eat_date :: "string \<Rightarrow> (nat \<times> string) option" where
  "eat_date s = Option.bind (eat_digits 4 s) (\<lambda>(y, s). Option.bind (eat ''-'' s) (\<lambda>s.
     Option.bind (eat_digits 2 s) (\<lambda>(m, s). Option.bind (eat ''-'' s) (\<lambda>s.
     Option.bind (eat_digits 2 s) (\<lambda>(d, s).
       if 1 \<le> y \<and> 1 \<le> m \<and> m \<le> 12 \<and> 1 \<le> d \<and> d \<le> days_in_month y m
       then Some (ymd_to_ord y m d, s) else None)))))"

definition eat_fraction :: "string \<Rightarrow> (nat \<times> string) option" where
  "eat_fraction s = (case eat ''.'' s of None \<Rightarrow> Some (0, s) | Some s' \<Rightarrow> eat_digits 6 s')"

definition eat_time :: "string \<Rightarrow> (nat \<times> string) option" where
  "eat_time s = Option.bind (eat_digits 2 s) (\<lambda>(h, s). Option.bind (eat '':'' s) (\<lambda>s.
     Option.bind (eat_digits 2 s) (\<lambda>(m, s). Option.bind (eat '':'' s) (\<lambda>s.
     Option.bind (eat_digits 2 s) (\<lambda>(sec, s). Option.bind (eat_fraction s) (\<lambda>(f, s).
       if h < 24 \<and> m < 60 \<and> sec < 60
       then Some (((h * 60 + m) * 60 + sec) * second_us + f, s) else None))))))"

text \<open>The offset in seconds with its sign; the empty text is a naive datetime.\<close>

definition eat_offset :: "string \<Rightarrow> int option option" where
  "eat_offset s = (if s = [] then Some None
     else let sign = (if take 1 s = ''+'' then 1 else if take 1 s = ''-'' then -1 else 0) :: int
          in if sign = 0 then None
             else Option.bind (eat_digits 2 (drop 1 s)) (\<lambda>(h, s). Option.bind (eat '':'' s) (\<lambda>s.
               Option.bind (eat_digits 2 s) (\<lambda>(m, s).
                 if s = [] \<and> h < 24 \<and> m < 60 then Some (Some (sign * int ((h * 60 + m) * 60)))
                 else None))))"

text \<open>
  The outcome of \<open>fromisoformat\<close> and the conversion to UTC: an instant before year 1 or after year
  9999 is where \<open>astimezone\<close> raises \<open>OverflowError\<close>.
\<close>

datatype parsed_time = Invalid_Time | Out_Of_Range | Parsed datetime

definition to_utc :: "nat \<Rightarrow> int \<Rightarrow> parsed_time" where
  "to_utc t off = (let u = int t - off * 1000000
     in if u < 0 \<or> int max_instant \<le> u then Out_Of_Range else Parsed (Aware (nat u)))"

definition parse_iso_fields :: "string \<Rightarrow> (nat \<times> int option) option" where
  "parse_iso_fields s = Option.bind (eat_date s) (\<lambda>(n, s).
     Option.bind (if s = [] then None else Some (drop 1 s)) (\<lambda>s.
     Option.bind (eat_time s) (\<lambda>(us, s). Option.bind (eat_offset s) (\<lambda>off.
       Some ((n - 1) * day_us + us, off)))))"

definition parse_iso :: "string \<Rightarrow> parsed_time" where
  "parse_iso s = (case parse_iso_fields s of
       None \<Rightarrow> Invalid_Time
     | Some (t, None) \<Rightarrow> Parsed (Naive t)
     | Some (t, Some off) \<Rightarrow> to_utc t off)"

section \<open>The round trip of timestamps\<close>

lemma eat_digits_pad: "n < 10 ^ w \<Longrightarrow> eat_digits w (pad_digits w n @ s) = Some (n, s)"
  by (simp add: eat_digits_def pad_digits_all read_digits_pad)

lemma eat_append: "eat pre (pre @ s) = Some s"
  by (simp add: eat_def)

lemma eat_cons: "eat [c] (c # s) = Some s"
  by (simp add: eat_def)

lemma days_in_month_le: "1 \<le> m \<Longrightarrow> m \<le> 12 \<Longrightarrow> days_in_month y m \<le> 31"
proof -
  assume "1 \<le> m" "m \<le> 12"
  then have "m = 1 \<or> m = 2 \<or> m = 3 \<or> m = 4 \<or> m = 5 \<or> m = 6 \<or> m = 7 \<or> m = 8 \<or>
      m = 9 \<or> m = 10 \<or> m = 11 \<or> m = 12" by arith
  then show ?thesis
    by (elim disjE; cases "is_leap y") (simp_all add: days_in_month_def month_starts_def)
qed

lemma eat_date_iso_date:
  assumes "1 \<le> n" "n \<le> 3652059"
  shows "eat_date (iso_date n @ s) = Some (n, s)"
proof -
  obtain y m d where ymd: "ord_to_ymd n = (y, m, d)" by (metis prod_cases3)
  note s = ord_to_ymd_sound [OF assms(1) ymd]
  have "y < 10 ^ 4" using ord_to_ymd_year [OF ymd assms] by simp
  moreover have "m < 10 ^ 2" "d < 10 ^ 2"
    using s days_in_month_le [of m y] by auto
  ultimately show ?thesis
    using s by (simp add: eat_date_def iso_date_def ymd eat_digits_pad eat_cons)
qed

lemma eat_time_iso_time:
  assumes "us < day_us" and tail: "take 1 s \<noteq> ''.''"
  shows "eat_time (iso_time us @ s) = Some (us, s)"
proof -
  define q where "q = us div second_us"
  define f where "f = us mod second_us"
  have us: "us = q * second_us + f" by (simp add: q_def f_def)
  have q: "q < 86400" using assms(1) by (simp add: q_def day_us_def second_us_def div_less_iff_less_mult)
  have f: "f < 10 ^ 6" by (simp add: f_def second_us_def)
  have h: "q div 3600 < 24" using q by (simp add: div_less_iff_less_mult)
  have frac: "eat_fraction ((if f = 0 then [] else ''.'' @ pad_digits 6 f) @ s) = Some (f, s)"
    using tail f by (auto simp: eat_fraction_def eat_cons eat_digits_pad) (simp add: eat_def)
  have fields: "q div 3600 * 60 + q div 60 mod 60 = q div 60"
  proof -
    have "q div 3600 = q div 60 div 60" using div_mult2_eq [of q 60 60] by simp
    then show ?thesis by simp
  qed
  have total: "((q div 3600 * 60 + q div 60 mod 60) * 60 + q mod 60) * second_us + f = us"
    unfolding fields us by simp
  have iso: "iso_time us @ s = pad_digits 2 (q div 3600) @ '':'' @ pad_digits 2 (q div 60 mod 60) @
      '':'' @ pad_digits 2 (q mod 60) @ (if f = 0 then [] else ''.'' @ pad_digits 6 f) @ s"
    by (simp add: iso_time_def Let_def q_def f_def)
  have small: "q div 60 mod 60 < 60" "q mod 60 < 60" by simp_all
  then have w: "q div 3600 < 10 ^ 2" "q div 60 mod 60 < 10 ^ 2" "q mod 60 < 10 ^ 2"
    using h by simp_all
  show ?thesis
    unfolding iso eat_time_def
    by (simp only: eat_digits_pad [OF w(1)] eat_digits_pad [OF w(2)] eat_digits_pad [OF w(3)]
        eat_append frac bind.simps prod.case h small total simp_thms if_True)
qed

lemma z_free_digits: "list_all is_digit s \<Longrightarrow> replace_z s = s"
  by (induction s) (auto simp: replace_z_def is_digit_def code_def)

lemma replace_z_append: "replace_z (s @ t) = replace_z s @ replace_z t"
  by (simp add: replace_z_def)

lemma replace_z_timestamp_text: "replace_z (timestamp_text t) = isoformat_utc t"
proof -
  have c: "replace_z ''-'' = ''-''" "replace_z '':'' = '':''" "replace_z ''.'' = ''.''"
    "replace_z ''T'' = ''T''" "replace_z ''Z'' = ''+00:00''" "replace_z [] = []"
    by (simp_all add: replace_z_def)
  show ?thesis
    by (simp add: timestamp_text_def isoformat_utc_def iso_date_def iso_time_def Let_def
        replace_z_append z_free_digits pad_digits_all c split: prod.split del: append_Cons)
qed

theorem parse_iso_timestamp_text:
  assumes "t < max_instant"
  shows "parse_iso (replace_z (timestamp_text t)) = Parsed (Aware t)"
proof -
  have n: "1 \<le> t div day_us + 1" "t div day_us + 1 \<le> 3652059"
    using assms by (simp_all add: max_instant_def day_us_def div_less_iff_less_mult Suc_le_eq)
  have "t div day_us * day_us + t mod day_us = t" by simp
  moreover have "eat_offset ''+00:00'' = Some (Some 0)" by (simp add: eat_offset_def eat_digits_def eat_def
    is_digit_def code_def read_digits_def digit_val_def)
  moreover have "t mod day_us < day_us" by (simp add: day_us_def)
  moreover have "eat_date (iso_date (Suc (t div day_us)) @ s) = Some (Suc (t div day_us), s)" for s
    using eat_date_iso_date [OF n] by simp
  ultimately show ?thesis
    using assms unfolding replace_z_timestamp_text isoformat_utc_def parse_iso_def parse_iso_fields_def
    by (simp add: eat_time_iso_time to_utc_def)
qed

end
