(* ===== verification/AuthzDecision.thy ===== *)
theory AuthzDecision
  imports AuthzCatalog Sha256 PyTime "HOL-Library.List_Lexorder" "HOL-Library.Char_ord"
begin

text \<open>
  The policy decision point of \<open>app/enterprise_authorization.py\<close>: the snapshot a request
  carries, the authoritative evidence a resolver returns, the validation chains in the order of
  the code (each a list of denials, the first that applies decides), the audit event, and
  \<open>authorize_operation\<close>. The injected runtime (evidence resolver, audit sink, reference
  resolver) is a record of effectful functions, so every theorem holds for every behaviour of
  the services behind it. \<open>app/logging.py\<close> contributes \<open>opaque_log_reference\<close>.
\<close>

section \<open>Data\<close>

record snapshot =
  sn_schema_version :: pyval
  sn_authorization_path :: pyval
  sn_authorization_source :: pyval
  sn_subject :: pyval
  sn_customer_id :: pyval
  sn_deployment_id :: pyval
  sn_membership_state :: pyval
  sn_role_id :: pyval
  sn_membership_version :: pyval
  sn_temporary_grant_id :: pyval
  sn_temporary_grant_type :: pyval
  sn_temporary_grant_state :: pyval
  sn_temporary_grant_version :: pyval
  sn_allowed_operation_ids :: "pyval list"
  sn_allowed_data_classes :: "pyval list"
  sn_expires_at_epoch :: pyval
  sn_authz_schema_version :: pyval
  sn_scope_catalog_version :: pyval
  sn_role_catalog_version :: pyval
  sn_policy_version :: pyval
  sn_policy_digest :: pyval
  sn_issued_at_epoch :: pyval
  sn_assurance :: pyval
  sn_authenticated_at_epoch :: pyval
  sn_grant_issued_at_epoch :: pyval
  sn_assurance_source :: pyval
  sn_assurance_version :: pyval
  sn_authentication_event_reference :: pyval
  sn_case_reference :: pyval
  sn_incident_reference :: pyval
  sn_purpose_reference :: pyval
  sn_approval_references :: "pyval list"

record auth_context =
  ac_customer_id :: pyval
  ac_deployment_id :: pyval
  ac_principal_type :: pyval
  ac_subject :: pyval
  ac_client_id :: pyval
  ac_scopes :: "string set"
  ac_granted_actions :: "string set"
  ac_email :: pyval
  ac_name :: pyval
  ac_auth_source :: pyval
  ac_human_authorization :: "snapshot pyref"

record membership_evidence =
  me_schema_version :: pyval
  me_authorization_path :: pyval
  me_authority_source :: pyval
  me_checked_at_epoch :: pyval
  me_subject :: pyval
  me_customer_id :: pyval
  me_deployment_id :: pyval
  me_membership_state :: pyval
  me_role_id :: pyval
  me_membership_version :: pyval

record grant_evidence =
  ge_schema_version :: pyval
  ge_authorization_path :: pyval
  ge_authority_source :: pyval
  ge_checked_at_epoch :: pyval
  ge_subject :: pyval
  ge_customer_id :: pyval
  ge_deployment_id :: pyval
  ge_temporary_grant_id :: pyval
  ge_temporary_grant_type :: pyval
  ge_temporary_grant_state :: pyval
  ge_temporary_grant_version :: pyval
  ge_grant_issued_at_epoch :: pyval
  ge_expires_at_epoch :: pyval
  ge_allowed_operation_ids :: "pyval list"
  ge_allowed_data_classes :: "pyval list"
  ge_case_reference :: pyval
  ge_incident_reference :: pyval
  ge_purpose_reference :: pyval
  ge_approval_references :: "pyval list"

datatype evidence =
    MembershipEvidence membership_evidence
  | GrantEvidence grant_evidence
  | ForeignEvidence

record audit_receipt =
  ar_schema_version :: pyval
  ar_sink_source :: pyval
  ar_sink_version :: pyval
  ar_decision_id :: pyval
  ar_receipt_reference :: pyval
  ar_acknowledged_at_epoch :: pyval

record audit_references =
  rf_schema_version :: pyval
  rf_principal_reference :: pyval
  rf_customer_reference :: pyval
  rf_deployment_reference :: pyval
  rf_correlation_reference :: pyval
  rf_grant_reference :: pyval

type_synonym event = "(string \<times> pyval) list"
type_synonym 'w audit_sink = "event \<Rightarrow> ('w, audit_receipt pyref) io"

text \<open>A field that is not callable is \<open>None\<close>.\<close>

record 'w authz_runtime =
  state_resolver :: "(snapshot \<Rightarrow> operation_id \<Rightarrow> int \<Rightarrow> ('w, evidence) io) option"
  runtime_audit_sink :: "'w audit_sink option"
  reference_resolver :: "(auth_context \<Rightarrow> operation_id \<Rightarrow> string \<Rightarrow> ('w, audit_references pyref) io) option"

text \<open>The clock, the next \<open>uuid4().hex\<close> and the bound logging context of a request.\<close>

record authz_env =
  env_time :: int
  env_uuid_hex :: string
  env_contextvars :: "string \<Rightarrow> pyval"

section \<open>Helpers\<close>

definition valid_epoch :: "pyval \<Rightarrow> bool" where
  "valid_epoch v = (case v of PInt n \<Rightarrow> 0 < n \<and> n \<le> MAX_EPOCH_SECONDS | _ \<Rightarrow> False)"

fun int_of :: "pyval \<Rightarrow> int" where
  "int_of (PInt n) = n"
| "int_of v = 0"

definition is_valid_subject_reference :: "pyval \<Rightarrow> bool" where
  "is_valid_subject_reference = str_sat subject_pattern"

definition is_valid_version_reference :: "pyval \<Rightarrow> bool" where
  "is_valid_version_reference = str_sat version_reference_pattern"

definition constant_time_equal :: "pyval \<Rightarrow> string \<Rightarrow> bool" where
  "constant_time_equal actual expected = str_sat (\<lambda>s. utf8 s = utf8 expected) actual"

definition differs :: "pyval \<Rightarrow> string \<Rightarrow> bool" where
  "differs v s \<longleftrightarrow> \<not> py_eq v (PStr s)"

text \<open>\<open>x.value if isinstance(x, cls) else x\<close>.\<close>

definition enum_value :: "string \<Rightarrow> pyval \<Rightarrow> pyval" where
  "enum_value cls v = (case v of PEnum c m s \<Rightarrow> if c = cls then PStr s else v | _ \<Rightarrow> v)"

definition hashed_reference :: "string \<Rightarrow> string" where
  "hashed_reference text = ''ref_'' @ take 32 (sha256_hex text)"

definition opaque_log_reference :: "pyval \<Rightarrow> string" where
  "opaque_log_reference v = (if str_sat opaque_reference_pattern v then the (str_view v)
     else hashed_reference (py_str v))"

definition current_log_reference :: "authz_env \<Rightarrow> string \<Rightarrow> pyval \<Rightarrow> string" where
  "current_log_reference env field fallback =
     (let current = env_contextvars env field
      in opaque_log_reference (if current \<noteq> PNone then current else fallback))"

text \<open>The error of \<open>_deny\<close>: one message for every reason; the reason itself is not shown.\<close>

definition authorization_error :: "string \<Rightarrow> app_error" where
  "authorization_error reason = AppError ''FORBIDDEN''
     ''Principal is not authorized for this operation'' 403
     (if reason = ''insufficient_assurance'' then [(''step_up_required'', PBool True)] else [])"

definition coerce_operation :: "pyval \<Rightarrow> string + operation_id" where
  "coerce_operation v = (case Option.bind (str_view v) (of_value operation_id_value operation_id_members) of
       Some op \<Rightarrow> Inr op
     | None \<Rightarrow> Inl ''unknown_operation'')"

section \<open>Validation of the snapshot\<close>

definition assurance_denial :: "snapshot \<Rightarrow> bool" where
  "assurance_denial sn =
     (let assurance = enum_value ''Assurance'' (sn_assurance sn)
      in \<not> (assurance = PNone \<and> sn_assurance_source sn = PNone \<and> sn_assurance_version sn = PNone
            \<and> sn_authentication_event_reference sn = PNone)
         \<and> (differs assurance (assurance_value PHISHING_RESISTANT_MFA)
            \<or> differs (sn_assurance_source sn) ASSURANCE_SOURCE
            \<or> differs (sn_assurance_version sn) ASSURANCE_VERSION
            \<or> \<not> str_sat opaque_reference_pattern (sn_authentication_event_reference sn)))"

definition validate_common_snapshot :: "auth_context \<Rightarrow> snapshot \<Rightarrow> pyval \<Rightarrow> string + unit" where
  "validate_common_snapshot auth sn now =
     (let snapshot_age = int_of now - int_of (sn_issued_at_epoch sn)
      in first_denial [
        (\<not> is_valid_subject_reference (ac_subject auth), ''malformed_subject''),
        (\<not> is_valid_subject_reference (sn_subject sn), ''malformed_subject''),
        (\<not> py_eq (sn_subject sn) (ac_subject auth), ''conflicting_subject''),
        (\<not> (str_sat customer_id_pattern (ac_customer_id auth)
            \<and> str_sat customer_id_pattern (sn_customer_id sn)), ''malformed_customer_binding''),
        (\<not> py_eq (sn_customer_id sn) (ac_customer_id auth), ''foreign_customer''),
        (\<not> (str_sat deployment_id_pattern (ac_deployment_id auth)
            \<and> str_sat deployment_id_pattern (sn_deployment_id sn)), ''malformed_deployment_binding''),
        (\<not> py_eq (sn_deployment_id sn) (ac_deployment_id auth), ''foreign_deployment''),
        (differs (sn_schema_version sn) AUTHORIZATION_CONTEXT_SCHEMA_VERSION,
           ''unsupported_authorization_context_schema''),
        (differs (sn_authz_schema_version sn) AUTHZ_SCHEMA_VERSION, ''unsupported_authz_schema''),
        (differs (sn_scope_catalog_version sn) SCOPE_CATALOG_VERSION, ''unsupported_scope_catalog''),
        (differs (sn_role_catalog_version sn) ROLE_CATALOG_VERSION, ''unsupported_role_catalog''),
        (differs (sn_policy_version sn) POLICY_VERSION, ''unsupported_policy_version''),
        (\<not> constant_time_equal (sn_policy_digest sn) POLICY_DIGEST, ''policy_digest_mismatch''),
        (\<not> valid_epoch now, ''invalid_decision_time''),
        (\<not> valid_epoch (sn_issued_at_epoch sn), ''missing_membership_snapshot_time''),
        (snapshot_age < 0 \<or> snapshot_age > MAX_MEMBERSHIP_SNAPSHOT_AGE_SECONDS,
           ''stale_membership_snapshot''),
        (\<not> valid_epoch (sn_authenticated_at_epoch sn), ''missing_authentication_time''),
        (int_of (sn_authenticated_at_epoch sn) > int_of (sn_issued_at_epoch sn),
           ''conflicting_authentication_time''),
        (assurance_denial sn, ''malformed_assurance_evidence'')])"

definition role_of :: "pyval \<Rightarrow> human_role option" where
  "role_of v = Option.bind (str_view v) (of_value human_role_value human_role_members)"

definition any_grant_field :: "snapshot \<Rightarrow> bool" where
  "any_grant_field sn \<longleftrightarrow>
     list_ex (\<lambda>v. v \<noteq> PNone)
       [sn_temporary_grant_id sn, sn_temporary_grant_type sn, sn_temporary_grant_state sn,
        sn_temporary_grant_version sn, sn_grant_issued_at_epoch sn, sn_expires_at_epoch sn,
        sn_case_reference sn, sn_incident_reference sn, sn_purpose_reference sn]
     \<or> sn_allowed_operation_ids sn \<noteq> [] \<or> sn_allowed_data_classes sn \<noteq> []
     \<or> sn_approval_references sn \<noteq> []"

definition validate_membership_snapshot :: "snapshot \<Rightarrow> string + human_role" where
  "validate_membership_snapshot sn =
     (case first_denial [
        (differs (sn_authorization_source sn) MEMBERSHIP_SOURCE, ''untrusted_membership_source''),
        (differs (sn_membership_state sn) ''active'', ''inactive_membership''),
        (\<not> is_valid_version_reference (sn_membership_version sn), ''malformed_membership_version''),
        (role_of (sn_role_id sn) = None, ''unknown_role''),
        (any_grant_field sn, ''conflicting_authorization_paths'')] of
       Inl reason \<Rightarrow> Inl reason
     | Inr _ \<Rightarrow> Inr (the (role_of (sn_role_id sn))))"

definition require_step_up :: "snapshot \<Rightarrow> pyval \<Rightarrow> string + unit" where
  "require_step_up sn now =
     (let assurance = enum_value ''Assurance'' (sn_assurance sn);
          age = int_of now - int_of (sn_authenticated_at_epoch sn)
      in first_denial [
        (differs assurance (assurance_value PHISHING_RESISTANT_MFA), ''insufficient_assurance''),
        (differs (sn_assurance_source sn) ASSURANCE_SOURCE, ''untrusted_assurance_source''),
        (differs (sn_assurance_version sn) ASSURANCE_VERSION, ''unsupported_assurance_version''),
        (\<not> str_sat opaque_reference_pattern (sn_authentication_event_reference sn),
           ''invalid_assurance_event_reference''),
        (\<not> valid_epoch (sn_authenticated_at_epoch sn), ''missing_authentication_time''),
        (age < 0 \<or> age > MAX_STEP_UP_AGE_SECONDS, ''stale_step_up'')])"

definition case_binding_denials :: "snapshot \<Rightarrow> (bool \<times> string) list" where
  "case_binding_denials sn =
     (if py_eq (sn_temporary_grant_type sn) (PStr ''support'')
      then [(\<not> str_sat opaque_reference_pattern (sn_case_reference sn)
               \<or> sn_incident_reference sn \<noteq> PNone, ''invalid_support_case_binding'')]
      else [(\<not> str_sat opaque_reference_pattern (sn_incident_reference sn)
               \<or> sn_case_reference sn \<noteq> PNone
               \<or> py_len (sn_approval_references sn) \<noteq> 2, ''invalid_break_glass_approval_binding'')])"

definition max_grant_lifetime :: "snapshot \<Rightarrow> int" where
  "max_grant_lifetime sn = (if py_eq (sn_temporary_grant_type sn) (PStr ''support'')
     then MAX_SUPPORT_GRANT_LIFETIME_SECONDS else MAX_BREAK_GLASS_GRANT_LIFETIME_SECONDS)"

definition validate_temporary_grant ::
  "snapshot \<Rightarrow> operation_policy \<Rightarrow> pyval \<Rightarrow> string + unit" where
  "validate_temporary_grant sn pol now =
     (let lifetime = int_of (sn_expires_at_epoch sn) - int_of (sn_grant_issued_at_epoch sn);
          approvals = sn_approval_references sn;
          operations = py_set (sn_allowed_operation_ids sn);
          data_classes = py_set (sn_allowed_data_classes sn)
      in case first_denial ([
        (differs (sn_authorization_source sn) TEMPORARY_GRANT_SOURCE,
           ''untrusted_temporary_grant_source''),
        (sn_membership_state sn \<noteq> PNone \<or> sn_role_id sn \<noteq> PNone \<or> sn_membership_version sn \<noteq> PNone,
           ''conflicting_authorization_paths''),
        (differs (sn_temporary_grant_type sn) ''support''
           \<and> differs (sn_temporary_grant_type sn) ''break_glass'', ''unknown_temporary_grant_type''),
        (differs (sn_temporary_grant_state sn) ''active'', ''inactive_temporary_grant''),
        (\<not> str_sat temporary_grant_id_pattern (sn_temporary_grant_id sn), ''malformed_temporary_grant''),
        (\<not> is_valid_version_reference (sn_temporary_grant_version sn),
           ''malformed_temporary_grant_version''),
        (\<not> str_sat opaque_reference_pattern (sn_purpose_reference sn),
           ''missing_temporary_grant_purpose''),
        (approvals = [] \<or> py_len approvals > 4
           \<or> list_ex (\<lambda>r. \<not> str_sat opaque_reference_pattern r) approvals,
           ''invalid_temporary_grant_approvals''),
        (PStr (opaque_log_reference (sn_subject sn)) \<in> py_set approvals,
           ''self_approved_temporary_grant'')]
      @ case_binding_denials sn @ [
        (\<not> valid_epoch (sn_grant_issued_at_epoch sn), ''missing_temporary_grant_issued_at''),
        (\<not> valid_epoch (sn_expires_at_epoch sn) \<or> int_of (sn_expires_at_epoch sn) \<le> int_of now,
           ''expired_temporary_grant''),
        (int_of (sn_grant_issued_at_epoch sn) > int_of now, ''future_temporary_grant''),
        (lifetime \<le> 0 \<or> lifetime > max_grant_lifetime sn, ''temporary_grant_lifetime_exceeded''),
        (\<not> temporary_grant_allowed pol, ''temporary_grant_sensitive_or_unmapped''),
        (sn_allowed_operation_ids sn = [] \<or> sn_allowed_data_classes sn = [],
           ''incomplete_temporary_grant''),
        (\<not> operations \<subseteq> PStr ` set TEMPORARY_GRANT_OPERATIONS, ''unknown_temporary_grant_operation''),
        (py_len (sn_allowed_data_classes sn) > length DATA_CLASS_VALUES
           \<or> \<not> data_classes \<subseteq> PStr ` set DATA_CLASS_VALUES, ''unknown_temporary_grant_data_class''),
        (PStr (operation_id_value (pol_operation_id pol)) \<notin> operations,
           ''operation_not_in_temporary_grant''),
        (\<not> (\<lambda>d. PStr (data_class_value d)) ` policy_data_classes pol \<subseteq> data_classes,
           ''data_class_not_in_temporary_grant'')]) of
       Inl reason \<Rightarrow> Inl reason
     | Inr _ \<Rightarrow> require_step_up sn now)"

section \<open>Authoritative evidence\<close>

definition evidence_common_denials :: "pyval \<Rightarrow> pyval \<Rightarrow> int \<Rightarrow> (bool \<times> string) list" where
  "evidence_common_denials schema checked_at now =
     [(differs schema AUTHORITATIVE_STATE_SCHEMA_VERSION, ''unsupported_authoritative_state_schema''),
      (\<not> valid_epoch checked_at, ''missing_authoritative_state_time''),
      (int_of checked_at \<noteq> now, ''stale_authoritative_state'')]"

definition validate_authoritative_membership ::
  "snapshot \<Rightarrow> membership_evidence \<Rightarrow> int \<Rightarrow> string + unit" where
  "validate_authoritative_membership sn ev now = first_denial (
     evidence_common_denials (me_schema_version ev) (me_checked_at_epoch ev) now @ [
      (differs (enum_value ''AuthorizationPath'' (me_authorization_path ev))
         (authorization_path_value MEMBERSHIP), ''conflicting_authoritative_membership_path''),
      (differs (me_authority_source ev) AUTHORITATIVE_MEMBERSHIP_SOURCE,
         ''untrusted_authoritative_membership_source''),
      (\<not> list_all2 py_eq
         [me_subject ev, me_customer_id ev, me_deployment_id ev, me_membership_state ev,
          me_membership_version ev]
         [sn_subject sn, sn_customer_id sn, sn_deployment_id sn, sn_membership_state sn,
          sn_membership_version sn], ''authoritative_membership_mismatch''),
      (\<not> py_eq (enum_value ''HumanRole'' (me_role_id ev)) (enum_value ''HumanRole'' (sn_role_id sn)),
         ''authoritative_membership_role_mismatch'')])"

definition validate_authoritative_temporary_grant ::
  "snapshot \<Rightarrow> grant_evidence \<Rightarrow> int \<Rightarrow> string + unit" where
  "validate_authoritative_temporary_grant sn ev now = first_denial (
     evidence_common_denials (ge_schema_version ev) (ge_checked_at_epoch ev) now @ [
      (differs (enum_value ''AuthorizationPath'' (ge_authorization_path ev))
         (authorization_path_value TEMPORARY_GRANT), ''conflicting_authoritative_temporary_grant_path''),
      (differs (ge_authority_source ev) TEMPORARY_GRANT_SOURCE,
         ''untrusted_authoritative_temporary_grant_source''),
      (\<not> (list_all2 py_eq
            [ge_subject ev, ge_customer_id ev, ge_deployment_id ev, ge_temporary_grant_id ev,
             ge_temporary_grant_type ev, ge_temporary_grant_state ev, ge_temporary_grant_version ev,
             ge_grant_issued_at_epoch ev, ge_expires_at_epoch ev, ge_case_reference ev,
             ge_incident_reference ev, ge_purpose_reference ev]
            [sn_subject sn, sn_customer_id sn, sn_deployment_id sn, sn_temporary_grant_id sn,
             sn_temporary_grant_type sn, sn_temporary_grant_state sn, sn_temporary_grant_version sn,
             sn_grant_issued_at_epoch sn, sn_expires_at_epoch sn, sn_case_reference sn,
             sn_incident_reference sn, sn_purpose_reference sn]
          \<and> py_set (ge_allowed_operation_ids ev) = py_set (sn_allowed_operation_ids sn)
          \<and> py_set (ge_allowed_data_classes ev) = py_set (sn_allowed_data_classes sn)
          \<and> py_set (ge_approval_references ev) = py_set (sn_approval_references sn)),
         ''authoritative_temporary_grant_mismatch'')])"

definition validate_evidence ::
  "snapshot \<Rightarrow> authorization_path \<Rightarrow> evidence \<Rightarrow> int \<Rightarrow> string + unit" where
  "validate_evidence sn path ev now = (case path of
       MEMBERSHIP \<Rightarrow> (case ev of
           MembershipEvidence m \<Rightarrow> validate_authoritative_membership sn m now
         | _ \<Rightarrow> Inl ''invalid_authoritative_membership_evidence'')
     | TEMPORARY_GRANT \<Rightarrow> (case ev of
           GrantEvidence g \<Rightarrow> validate_authoritative_temporary_grant sn g now
         | _ \<Rightarrow> Inl ''invalid_authoritative_temporary_grant_evidence''))"

definition require_authoritative_state ::
  "'w authz_runtime \<Rightarrow> snapshot \<Rightarrow> operation_id \<Rightarrow> authorization_path \<Rightarrow> int
    \<Rightarrow> ('w, string, unit) eio" where
  "require_authoritative_state rt sn op path now = (case state_resolver rt of
       None \<Rightarrow> raise ''authoritative_state_runtime_unavailable''
     | Some resolve \<Rightarrow> bind (catch (resolve sn op now) (\<lambda>_. raise ''authoritative_state_unavailable''))
         (\<lambda>ev. lift (validate_evidence sn path ev now)))"

section \<open>Audit references, events and receipts\<close>

definition authorization_path_field :: "auth_context \<Rightarrow> pyval" where
  "authorization_path_field auth = (case ac_human_authorization auth of
       Inst sn \<Rightarrow> enum_value ''AuthorizationPath'' (sn_authorization_path sn)
     | _ \<Rightarrow> PNone)"

definition validate_audit_references ::
  "auth_context \<Rightarrow> string \<Rightarrow> audit_references pyref \<Rightarrow> string + audit_references" where
  "validate_audit_references auth correlation r = (case r of
       Inst refs \<Rightarrow>
         (case first_denial [
           (differs (rf_schema_version refs) AUDIT_REFERENCE_SCHEMA_VERSION,
              ''unsupported_audit_reference_schema''),
           (list_ex (\<lambda>v. \<not> str_sat opaque_reference_pattern v)
              [rf_principal_reference refs, rf_customer_reference refs,
               rf_deployment_reference refs, rf_correlation_reference refs],
              ''invalid_audit_references''),
           (differs (rf_correlation_reference refs) correlation, ''audit_correlation_mismatch''),
           (py_eq (authorization_path_field auth) (PStr (authorization_path_value TEMPORARY_GRANT))
              \<and> \<not> str_sat opaque_reference_pattern (rf_grant_reference refs),
              ''invalid_audit_grant_reference''),
           (\<not> py_eq (authorization_path_field auth) (PStr (authorization_path_value TEMPORARY_GRANT))
              \<and> rf_grant_reference refs \<noteq> PNone, ''conflicting_audit_grant_reference'')] of
          Inl reason \<Rightarrow> Inl reason
        | Inr _ \<Rightarrow> Inr refs)
     | _ \<Rightarrow> Inl ''invalid_audit_references'')"

definition resolve_audit_references ::
  "authz_env \<Rightarrow> 'w authz_runtime \<Rightarrow> auth_context \<Rightarrow> operation_id
    \<Rightarrow> ('w, string, audit_references) eio" where
  "resolve_audit_references env rt auth op = (case reference_resolver rt of
       None \<Rightarrow> raise ''audit_reference_resolver_unavailable''
     | Some resolve \<Rightarrow>
         (let correlation = current_log_reference env ''correlationId''
                (PStr (py_str (ac_subject auth) @ '':'' @ operation_id_value op))
          in bind (catch (resolve auth op correlation) (\<lambda>_. raise ''audit_reference_resolution_failed''))
               (\<lambda>r. lift (validate_audit_references auth correlation r))))"

definition decision_actions :: "operation_policy \<Rightarrow> string" where
  "decision_actions pol =
     (let actions = map action_value (filter (\<lambda>a. a \<in> policy_actions pol) [READ, WRITE, ADMIN])
      in if actions \<noteq> [] then join ''+'' actions else ''none'')"

definition decision_assurance :: "auth_context \<Rightarrow> string" where
  "decision_assurance auth =
     (let assurance = (case ac_human_authorization auth of
            Inst sn \<Rightarrow> enum_value ''Assurance'' (sn_assurance sn) | _ \<Rightarrow> PNone)
      in if py_eq (ac_principal_type auth) (PStr ''m2m'') then ''validated_client_credentials_binding''
         else if assurance = PNone then ''none'' else py_str assurance)"

definition principal_identity :: "auth_context \<Rightarrow> pyval" where
  "principal_identity auth =
     (if py_truthy (ac_subject auth) then ac_subject auth
      else if py_truthy (ac_client_id auth) then ac_client_id auth
      else PStr ''unknown-principal'')"

definition event_references ::
  "authz_env \<Rightarrow> auth_context \<Rightarrow> string \<Rightarrow> audit_references option \<Rightarrow> event" where
  "event_references env auth decision_id refs = (case refs of
       None \<Rightarrow>
         [(''principal_reference'', PStr (opaque_log_reference (principal_identity auth))),
          (''customer_reference'', PStr (opaque_log_reference (ac_customer_id auth))),
          (''deployment_reference'', PStr (opaque_log_reference (ac_deployment_id auth))),
          (''correlation_reference'',
             PStr (current_log_reference env ''correlationId'' (PStr decision_id)))]
     | Some r \<Rightarrow>
         [(''principal_reference'', rf_principal_reference r),
          (''customer_reference'', rf_customer_reference r),
          (''deployment_reference'', rf_deployment_reference r),
          (''correlation_reference'', rf_correlation_reference r)])"

text \<open>\<open>event[k] = v\<close> under a condition.\<close>

definition opt_field :: "bool \<Rightarrow> string \<Rightarrow> pyval \<Rightarrow> event" where
  "opt_field b k v = (if b then [(k, v)] else [])"

definition grant_event_fields :: "snapshot \<Rightarrow> audit_references option \<Rightarrow> event" where
  "grant_event_fields sn refs =
     opt_field (is_valid_version_reference (sn_temporary_grant_version sn)) ''temporary_grant_version''
       (PStr (py_str (sn_temporary_grant_version sn)))
     @ (case refs of
          Some r \<Rightarrow> (if rf_grant_reference r \<noteq> PNone then [(''grant_reference'', rf_grant_reference r)]
             else opt_field (is_str (sn_temporary_grant_id sn)) ''grant_reference''
                    (PStr (opaque_log_reference (sn_temporary_grant_id sn))))
        | None \<Rightarrow> opt_field (is_str (sn_temporary_grant_id sn)) ''grant_reference''
                    (PStr (opaque_log_reference (sn_temporary_grant_id sn))))
     @ opt_field (\<not> (differs (sn_temporary_grant_type sn) ''support''
                    \<and> differs (sn_temporary_grant_type sn) ''break_glass'')) ''temporary_grant_type''
         (PStr (py_str (sn_temporary_grant_type sn)))
     @ opt_field (\<not> differs (sn_temporary_grant_state sn) ''active'') ''temporary_grant_state''
         (PStr ''active'')
     @ opt_field (str_sat opaque_reference_pattern (sn_case_reference sn)) ''case_reference''
         (sn_case_reference sn)
     @ opt_field (str_sat opaque_reference_pattern (sn_incident_reference sn)) ''incident_reference''
         (sn_incident_reference sn)
     @ opt_field (str_sat opaque_reference_pattern (sn_purpose_reference sn)) ''purpose_reference''
         (sn_purpose_reference sn)
     @ opt_field (sn_approval_references sn \<noteq> []
           \<and> list_all (str_sat opaque_reference_pattern) (sn_approval_references sn))
         ''approval_references''
         (PList (map PStr (sort (remdups (List.map_filter str_view (sn_approval_references sn))))))"

definition user_event_fields :: "auth_context \<Rightarrow> audit_references option \<Rightarrow> event" where
  "user_event_fields auth refs = (case ac_human_authorization auth of
       Inst sn \<Rightarrow>
         (let path = enum_value ''AuthorizationPath'' (sn_authorization_path sn);
              source = sn_authorization_source sn;
              known = (\<lambda>p. py_eq path (PStr (authorization_path_value p)))
          in opt_field (known MEMBERSHIP \<or> known TEMPORARY_GRANT) ''authorization_path''
               (PStr (py_str path))
             @ opt_field (\<not> (differs source MEMBERSHIP_SOURCE \<and> differs source TEMPORARY_GRANT_SOURCE))
                 ''authorization_source'' (PStr (py_str source))
             @ (if known MEMBERSHIP then
                  (if is_valid_version_reference (sn_membership_version sn)
                   then [(''membership_version'', PStr (py_str (sn_membership_version sn))),
                         (''role_catalog_version'', PStr ROLE_CATALOG_VERSION)] else [])
                else if known TEMPORARY_GRANT then grant_event_fields sn refs else []))
     | _ \<Rightarrow> [])"

definition decision_event ::
  "authz_env \<Rightarrow> auth_context \<Rightarrow> operation_policy \<Rightarrow> string \<Rightarrow> string \<Rightarrow> int
    \<Rightarrow> audit_references option \<Rightarrow> event" where
  "decision_event env auth pol decision reason now refs =
     (let decision_id = ''decision-'' @ env_uuid_hex env
      in [(''event_schema_version'', PStr ''authorization-decision.v1''),
          (''timestamp'', PStr (timestamp_text (instant_of_epoch now))),
          (''decision_id'', PStr decision_id),
          (''principal_type'', PStr (py_str (ac_principal_type auth)))]
         @ event_references env auth decision_id refs @
         [(''action'', PStr (decision_actions pol)),
          (''operation'', PStr (operation_id_value (pol_operation_id pol))),
          (''resource_type'', PStr (resource_type_value (req_resource (hd (pol_requirements pol))))),
          (''decision'', PStr decision),
          (''reason_code'', PStr reason),
          (''policy_version'', PStr POLICY_VERSION),
          (''policy_digest'', PStr POLICY_DIGEST),
          (''assurance'', PStr (decision_assurance auth))]
         @ (if py_eq (ac_principal_type auth) (PStr ''m2m'')
            then [(''authorization_path'', PStr ''m2m_binding''),
                  (''authorization_source'', PStr ''m2m_identity_binding_v1''),
                  (''grant_version'', PStr ''m2m_identity_binding_v1'')]
            else user_event_fields auth refs))"

definition event_get :: "event \<Rightarrow> string \<Rightarrow> pyval" where
  "event_get e k = (case map_of e k of Some v \<Rightarrow> v | None \<Rightarrow> PNone)"

definition validate_durable_audit_receipt ::
  "event \<Rightarrow> audit_receipt pyref \<Rightarrow> int \<Rightarrow> string + unit" where
  "validate_durable_audit_receipt e r now = (case r of
       Inst rc \<Rightarrow> first_denial [
         (differs (ar_schema_version rc) AUDIT_RECEIPT_SCHEMA_VERSION, ''unsupported_audit_receipt_schema''),
         (differs (ar_sink_source rc) AUDIT_SINK_SOURCE, ''untrusted_audit_sink_source''),
         (differs (ar_sink_version rc) AUDIT_SINK_VERSION, ''unsupported_audit_sink_version''),
         (\<not> py_eq (ar_decision_id rc) (event_get e ''decision_id''), ''audit_receipt_decision_mismatch''),
         (\<not> str_sat opaque_reference_pattern (ar_receipt_reference rc),
            ''invalid_audit_receipt_reference''),
         (\<not> valid_epoch (ar_acknowledged_at_epoch rc)
            \<or> int_of (ar_acknowledged_at_epoch rc) < now
            \<or> int_of (ar_acknowledged_at_epoch rc) > now + 30, ''invalid_audit_receipt_time'')]
     | _ \<Rightarrow> Inl ''missing_durable_audit_receipt'')"

text \<open>Logging only: \<open>_default_audit_sink\<close> returns \<open>None\<close>.\<close>

definition default_audit_sink :: "'w audit_sink" where
  "default_audit_sink e = ret NoneRef"

definition chosen_sink :: "'w audit_sink option \<Rightarrow> 'w audit_sink" where
  "chosen_sink s = (case s of Some f \<Rightarrow> f | None \<Rightarrow> default_audit_sink)"

definition emit_allow ::
  "authz_env \<Rightarrow> auth_context \<Rightarrow> operation_policy \<Rightarrow> int \<Rightarrow> 'w audit_sink option \<Rightarrow> bool
    \<Rightarrow> audit_references option \<Rightarrow> ('w, string, unit) eio" where
  "emit_allow env auth pol now sink durable refs =
     (let e = decision_event env auth pol ''allow'' ''explicit_allow'' now refs
      in bind (catch (chosen_sink sink e) (\<lambda>_. raise ''audit_unavailable''))
           (\<lambda>r. if durable then lift (validate_durable_audit_receipt e r now) else ret ()))"

text \<open>Best effort: the result and the exceptions of the sink are dropped.\<close>

definition emit_deny ::
  "authz_env \<Rightarrow> auth_context \<Rightarrow> operation_policy \<Rightarrow> string \<Rightarrow> int \<Rightarrow> 'w audit_sink option
    \<Rightarrow> ('w, string, unit) eio" where
  "emit_deny env auth pol reason now sink =
     (if \<not> py_eq (ac_principal_type auth) (PStr ''user'') \<and> \<not> py_eq (ac_principal_type auth) (PStr ''m2m'')
      then ret ()
      else (\<lambda>w. case chosen_sink sink (decision_event env auth pol ''deny'' reason now None) w of
              (_, w') \<Rightarrow> (Inr (), w')))"

section \<open>The decision\<close>

definition m2m_decision :: "auth_context \<Rightarrow> operation_policy \<Rightarrow> string + unit" where
  "m2m_decision auth pol = first_denial [
     (\<not> m2m_allowed pol, ''principal_type_not_allowed''),
     (ac_human_authorization auth \<noteq> NoneRef, ''conflicting_principal_context''),
     (differs (ac_auth_source auth) ''m2m_identity_binding_v1'', ''untrusted_m2m_source''),
     (\<not> m2m_required_actions pol \<subseteq> ac_granted_actions auth, ''missing_m2m_action'')]"

text \<open>The checks of a user before the path is known.\<close>

definition user_prechecks ::
  "auth_context \<Rightarrow> snapshot \<Rightarrow> operation_policy \<Rightarrow> int \<Rightarrow> string + authorization_path" where
  "user_prechecks auth sn pol now = (case validate_common_snapshot auth sn (PInt now) of
       Inl reason \<Rightarrow> Inl reason
     | Inr _ \<Rightarrow>
         if \<not> required_human_scopes pol \<subseteq> ac_scopes auth then Inl ''missing_required_scope''
         else (case Option.bind (str_view (sn_authorization_path sn))
                      (of_value authorization_path_value authorization_path_members) of
                 None \<Rightarrow> Inl ''unknown_authorization_path''
               | Some path \<Rightarrow> Inr path))"

definition membership_decision ::
  "'w authz_runtime \<Rightarrow> snapshot \<Rightarrow> operation_id \<Rightarrow> operation_policy \<Rightarrow> int
    \<Rightarrow> ('w, string, unit) eio" where
  "membership_decision rt sn op pol now =
     bind (lift (validate_membership_snapshot sn)) (\<lambda>role.
     bind (require_authoritative_state rt sn op MEMBERSHIP now) (\<lambda>_.
     bind (ensure (role_allows role pol) ''role_permission_denied'') (\<lambda>_.
       if step_up_required pol then lift (require_step_up sn (PInt now)) else ret ())))"

definition grant_decision ::
  "'w authz_runtime \<Rightarrow> snapshot \<Rightarrow> operation_id \<Rightarrow> operation_policy \<Rightarrow> int
    \<Rightarrow> ('w, string, unit) eio" where
  "grant_decision rt sn op pol now =
     bind (lift (validate_temporary_grant sn pol (PInt now))) (\<lambda>_.
       require_authoritative_state rt sn op TEMPORARY_GRANT now)"

definition user_decision ::
  "authz_env \<Rightarrow> 'w authz_runtime pyref \<Rightarrow> auth_context \<Rightarrow> operation_id \<Rightarrow> operation_policy \<Rightarrow> int
    \<Rightarrow> ('w, string, audit_references) eio" where
  "user_decision env rt auth op pol now = (case ac_human_authorization auth of
       Inst sn \<Rightarrow>
         bind (lift (user_prechecks auth sn pol now)) (\<lambda>path.
           case rt of
             Inst r \<Rightarrow>
               bind (ensure (runtime_audit_sink r \<noteq> None) ''durable_audit_sink_unavailable'') (\<lambda>_.
               bind (case path of
                       MEMBERSHIP \<Rightarrow> membership_decision r sn op pol now
                     | TEMPORARY_GRANT \<Rightarrow> grant_decision r sn op pol now) (\<lambda>_.
                 resolve_audit_references env r auth op))
           | _ \<Rightarrow> raise ''enterprise_authorization_runtime_unavailable'')
     | _ \<Rightarrow> raise ''missing_human_authorization'')"

definition principal_decision ::
  "authz_env \<Rightarrow> 'w authz_runtime pyref \<Rightarrow> auth_context \<Rightarrow> operation_id \<Rightarrow> operation_policy \<Rightarrow> int
    \<Rightarrow> ('w, string, audit_references option) eio" where
  "principal_decision env rt auth op pol now =
     (if py_eq (ac_principal_type auth) (PStr ''m2m'')
      then bind (lift (m2m_decision auth pol)) (\<lambda>_. ret None)
      else if py_eq (ac_principal_type auth) (PStr ''user'')
      then bind (user_decision env rt auth op pol now) (\<lambda>refs. ret (Some refs))
      else raise ''unsupported_principal_type'')"

definition event_sink ::
  "'w authz_runtime pyref \<Rightarrow> auth_context \<Rightarrow> 'w audit_sink option \<Rightarrow> 'w audit_sink option" where
  "event_sink rt auth sink =
     (if py_eq (ac_principal_type auth) (PStr ''user'') then
        (case rt of Inst r \<Rightarrow> (case runtime_audit_sink r of Some f \<Rightarrow> Some f | None \<Rightarrow> sink) | _ \<Rightarrow> sink)
      else sink)"

text \<open>Denial of a decision in progress: audit it, then raise it.\<close>

definition deny_with_audit ::
  "authz_env \<Rightarrow> auth_context \<Rightarrow> operation_policy \<Rightarrow> int \<Rightarrow> 'w audit_sink option \<Rightarrow> string
    \<Rightarrow> ('w, string, 'a) eio" where
  "deny_with_audit env auth pol now sink reason =
     bind (emit_deny env auth pol reason now sink) (\<lambda>_. raise reason)"

definition authorize_reason ::
  "authz_env \<Rightarrow> auth_context option \<Rightarrow> pyval \<Rightarrow> pyval \<Rightarrow> 'w authz_runtime pyref
    \<Rightarrow> 'w audit_sink option \<Rightarrow> ('w, string, auth_context) eio" where
  "authorize_reason env auth_arg operation_arg now_arg rt sink =
     bind (lift (coerce_operation operation_arg)) (\<lambda>op.
       case map_of OPERATION_POLICIES op of
         None \<Rightarrow> raise ''unmapped_operation''
       | Some pol \<Rightarrow>
           (let decision_time = (if now_arg = PNone then PInt (env_time env) else now_arg);
                now = int_of decision_time
            in bind (ensure (valid_epoch decision_time) ''invalid_decision_time'') (\<lambda>_.
               case auth_arg of
                 None \<Rightarrow> raise ''missing_auth_context''
               | Some auth \<Rightarrow>
                   bind (catch (principal_decision env rt auth op pol now)
                          (deny_with_audit env auth pol now (event_sink rt auth sink))) (\<lambda>refs.
                   bind (emit_allow env auth pol now (event_sink rt auth sink)
                          (py_eq (ac_principal_type auth) (PStr ''user'')) refs) (\<lambda>_.
                     ret auth)))))"

text \<open>The result as the caller sees it: the reason becomes one uniform error.\<close>

definition authorize_operation ::
  "authz_env \<Rightarrow> auth_context option \<Rightarrow> pyval \<Rightarrow> pyval \<Rightarrow> 'w authz_runtime pyref
    \<Rightarrow> 'w audit_sink option \<Rightarrow> ('w, auth_context) io" where
  "authorize_operation env auth_arg operation_arg now_arg rt sink =
     catch (authorize_reason env auth_arg operation_arg now_arg rt sink)
       (\<lambda>reason. raise (AppExc (authorization_error reason)))"

definition operation_policy_for :: "pyval \<Rightarrow> app_error + operation_policy" where
  "operation_policy_for operation_arg = (case coerce_operation operation_arg of
       Inl reason \<Rightarrow> Inl (authorization_error reason)
     | Inr op \<Rightarrow> (case map_of OPERATION_POLICIES op of
           None \<Rightarrow> Inl (authorization_error ''unmapped_operation'')
         | Some pol \<Rightarrow> Inr pol))"

end
