(* ===== verification/PyText.thy ===== *)
theory PyText
  imports Prelude
begin

text \<open>
  Text operations of Python that the services use: \<open>str.strip\<close>, \<open>str.lower\<close>, \<open>str.isdigit\<close>,
  \<open>int(text)\<close>, \<open>hmac.compare_digest\<close>, \<open>dict.get\<close> and \<open>json.dumps\<close> with sorted keys, compact
  separators and \<open>ensure_ascii=False\<close>. The main facts are that \<open>int\<close> inverts \<open>str\<close> and that
  \<open>json.dumps\<close> is injective on the flat documents the code digests, so that the digest of a
  request binds every field of it.
\<close>

section \<open>Strings\<close>

text \<open>White space of \<open>str.strip\<close> and \<open>\\s\<close>, among the code points below 256.\<close>

definition is_space :: "char \<Rightarrow> bool" where
  "is_space c \<longleftrightarrow> code c \<in> {9, 10, 11, 12, 13, 28, 29, 30, 31, 32, 133, 160}"

definition py_strip :: "string \<Rightarrow> string" where
  "py_strip s = rev (dropWhile is_space (rev (dropWhile is_space s)))"

text \<open>\<open>str.lower\<close>: ASCII and the Latin-1 capitals except the multiplication sign.\<close>

definition lower_char :: "char \<Rightarrow> char" where
  "lower_char c = (if is_upper c \<or> 192 \<le> code c \<and> code c \<le> 222 \<and> code c \<noteq> 215
     then char_of (code c + 32) else c)"

definition py_lower :: "string \<Rightarrow> string" where
  "py_lower = map lower_char"

text \<open>\<open>str.isdigit\<close>: the decimal digits and the superscripts one, two and three.\<close>

definition py_isdigit :: "string \<Rightarrow> bool" where
  "py_isdigit s \<longleftrightarrow> s \<noteq> [] \<and> list_all (\<lambda>c. is_digit c \<or> code c \<in> {178, 179, 185}) s"

definition is_ascii :: "string \<Rightarrow> bool" where
  "is_ascii = list_all (\<lambda>c. code c < 128)"

text \<open>\<open>str.split(c)\<close> for a character, and \<open>str.split()\<close>.\<close>

fun split_at :: "char \<Rightarrow> string \<Rightarrow> string \<Rightarrow> string list" where
  "split_at c seg [] = [seg]"
| "split_at c seg (x # s) = (if x = c then seg # split_at c [] s else split_at c (seg @ [x]) s)"

fun py_words :: "string \<Rightarrow> string \<Rightarrow> string list" where
  "py_words seg [] = (if seg = [] then [] else [seg])"
| "py_words seg (c # s) = (if is_space c then (if seg = [] then py_words [] s else seg # py_words [] s)
     else py_words (seg @ [c]) s)"

text \<open>\<open>hmac.compare_digest(a, b)\<close> on strings raises unless both are ASCII.\<close>

definition compare_digest :: "string \<Rightarrow> string \<Rightarrow> exn + bool" where
  "compare_digest a b = (if is_ascii a \<and> is_ascii b then Inr (a = b) else Inl (PyExc ''TypeError''))"

text \<open>Digits with single underscores between them, the body of \<open>int(text)\<close>.\<close>

fun digits_underscored :: "string \<Rightarrow> string option" where
  "digits_underscored [] = None"
| "digits_underscored [c] = (if is_digit c then Some [c] else None)"
| "digits_underscored (c # d # cs) = (if \<not> is_digit c then None
     else if d = CHR ''_'' then map_option (\<lambda>ds. c # ds) (digits_underscored cs)
     else map_option (\<lambda>ds. c # ds) (digits_underscored (d # cs)))"

definition py_int :: "string \<Rightarrow> int option" where
  "py_int text = (let s = py_strip text
     in case s of
          [] \<Rightarrow> None
        | c # cs \<Rightarrow>
            if c = CHR ''-'' then map_option (\<lambda>ds. - int (read_digits ds)) (digits_underscored cs)
            else if c = CHR ''+'' then map_option (\<lambda>ds. int (read_digits ds)) (digits_underscored cs)
            else map_option (\<lambda>ds. int (read_digits ds)) (digits_underscored s))"

lemma digits_underscored_digits: "list_all is_digit s \<Longrightarrow> s \<noteq> [] \<Longrightarrow> digits_underscored s = Some s"
  by (induction s rule: digits_underscored.induct) (auto simp: is_digit_def code_def)

lemma digit_not_space: "is_digit c \<Longrightarrow> \<not> is_space c"
  by (auto simp: is_digit_def is_space_def)

lemma py_strip_no_space: "list_all (\<lambda>c. \<not> is_space c) s \<Longrightarrow> py_strip s = s"
proof -
  have id: "dropWhile is_space t = t" if "list_all (\<lambda>c. \<not> is_space c) t" for t
    using that by (cases t) auto
  assume s: "list_all (\<lambda>c. \<not> is_space c) s"
  then have "list_all (\<lambda>c. \<not> is_space c) (rev s)" by (simp add: list_all_iff)
  with s show ?thesis by (simp add: py_strip_def id)
qed

lemma show_int_no_space: "list_all (\<lambda>c. \<not> is_space c) (show_int i)"
proof -
  have "\<not> is_space (CHR ''-'')" by (simp add: is_space_def code_def)
  moreover have "list_all (\<lambda>c. \<not> is_space c) (show_nat n)" for n
    using show_nat_digits [of n] digit_not_space by (auto simp: list_all_iff)
  ultimately show ?thesis by (simp add: show_int_def)
qed

lemma py_int_show_int [simp]: "py_int (show_int i) = Some i"
proof -
  have d: "digits_underscored (show_nat n) = Some (show_nat n)" for n
    by (simp add: digits_underscored_digits show_nat_digits)
  obtain c cs where c: "show_nat (nat i) = c # cs" by (cases "show_nat (nat i)") auto
  have "is_digit c" using show_nat_digits [of "nat i"] by (simp add: c)
  then have "c \<noteq> CHR ''-''" "c \<noteq> CHR ''+''" by (auto simp: is_digit_def code_def)
  moreover have "digits_underscored (c # cs) = Some (c # cs)" "read_digits (c # cs) = nat i"
    using d [of "nat i"] read_digits_show_nat [of "nat i"] by (simp_all add: c)
  ultimately show ?thesis
    unfolding py_int_def Let_def py_strip_no_space [OF show_int_no_space]
    by (simp add: show_int_def d c read_digits_show_nat)
qed

text \<open>A text is read back up to the first separator that does not occur in it.\<close>

lemma append_sep_eq:
  assumes "x \<notin> set s" "x \<notin> set t"
  shows "s @ x # r = t @ x # q \<longleftrightarrow> s = t \<and> r = q"
  using assms
proof (induction s arbitrary: t)
  case Nil
  then show ?case by (cases t) auto
next
  case (Cons c s)
  then show ?case by (cases t) auto
qed

text \<open>Two fields free of the separator, each closed by it, and a rest.\<close>

lemma append_sep_eq2:
  assumes "x \<notin> set c" "x \<notin> set c'" "x \<notin> set d" "x \<notin> set d'"
  shows "c @ x # m @ d @ x # r = c' @ x # m @ d' @ x # q \<longleftrightarrow> c = c' \<and> d = d' \<and> r = q"
  using append_sep_eq [OF assms(1,2)] append_sep_eq [OF assms(3,4)] by auto

section \<open>Dictionaries\<close>

text \<open>\<open>d.get(key)\<close>\<close>

definition py_get :: "(string \<times> pyval) list \<Rightarrow> string \<Rightarrow> pyval" where
  "py_get d k = (case map_of d k of Some v \<Rightarrow> v | None \<Rightarrow> PNone)"

section \<open>JSON\<close>

datatype json = JNull | JInt int | JStr string

definition hex_digit :: "nat \<Rightarrow> char" where
  "hex_digit d = (if d < 10 then char_of (48 + d) else char_of (87 + d))"

text \<open>The escapes of \<open>json.dumps(..., ensure_ascii=False)\<close>.\<close>

definition json_char :: "char \<Rightarrow> string" where
  "json_char c =
     (if code c = 34 then [CHR 0x5C, CHR 0x22]
      else if code c = 92 then [CHR 0x5C, CHR 0x5C]
      else if code c = 10 then [CHR 0x5C, CHR ''n'']
      else if code c = 13 then [CHR 0x5C, CHR ''r'']
      else if code c = 9 then [CHR 0x5C, CHR ''t'']
      else if code c = 12 then [CHR 0x5C, CHR ''f'']
      else if code c = 8 then [CHR 0x5C, CHR ''b'']
      else if code c < 32 then [CHR 0x5C, CHR ''u'', CHR ''0'', CHR ''0'', hex_digit (code c div 16),
                                hex_digit (code c mod 16)]
      else [c])"

definition json_string :: "string \<Rightarrow> string" where
  "json_string s = [CHR 0x22] @ concat (map json_char s) @ [CHR 0x22]"

fun json_value :: "json \<Rightarrow> string" where
  "json_value JNull = ''null''"
| "json_value (JInt i) = show_int i"
| "json_value (JStr s) = json_string s"

text \<open>An object: its members are encoded already and given in the order of their keys.\<close>

definition json_object :: "(string \<times> string) list \<Rightarrow> string" where
  "json_object kvs = ''{'' @ join '','' (map (\<lambda>(k, v). json_string k @ '':'' @ v) kvs) @ ''}''"

section \<open>Injectivity of the encoding\<close>

lemma code_less: "code c < 256"
  by (simp add: code_def)

lemma char_of_code [simp]: "char_of (code c) = c"
  by (simp add: code_def)

lemma code_char_of [simp]: "n < 256 \<Longrightarrow> code (char_of n) = n"
  by (simp add: code_def)

definition unhex :: "char \<Rightarrow> nat" where
  "unhex c = (if is_digit c then code c - 48 else code c - 87)"

lemma unhex_hex_digit: "d < 16 \<Longrightarrow> unhex (hex_digit d) = d"
  by (auto simp: unhex_def hex_digit_def is_digit_def)

text \<open>The reader of one escaped character, the left inverse that shows the encoding prefix-free.\<close>

definition read_json_char :: "string \<Rightarrow> char \<times> string" where
  "read_json_char s = (if code (s ! 0) \<noteq> 92 then (s ! 0, drop 1 s)
     else let c = code (s ! 1)
          in if c = 117 then (char_of (16 * unhex (s ! 4) + unhex (s ! 5)), drop 6 s)
             else (char_of (if c = 110 then 10 else if c = 114 then 13 else if c = 116 then 9
                            else if c = 102 then 12 else if c = 98 then 8 else c), drop 2 s))"

lemma code_eq_iff: "n < 256 \<Longrightarrow> code c = n \<longleftrightarrow> c = char_of n"
  by auto

lemma escaped_chars: "char_of (34 :: nat) = CHR 0x22" "char_of (92 :: nat) = CHR 0x5C"
  using char_of_code [of "CHR 0x22"] char_of_code [of "CHR 0x5C"]
  by (simp_all add: code_def del: char_of_char char_of_code)

lemma read_json_escape:
  "read_json_char (CHR 0x5C # CHR 0x22 # s) = (CHR 0x22, s)"
  "read_json_char (CHR 0x5C # CHR 0x5C # s) = (CHR 0x5C, s)"
  "read_json_char (CHR 0x5C # CHR ''n'' # s) = (char_of (10 :: nat), s)"
  "read_json_char (CHR 0x5C # CHR ''r'' # s) = (char_of (13 :: nat), s)"
  "read_json_char (CHR 0x5C # CHR ''t'' # s) = (char_of (9 :: nat), s)"
  "read_json_char (CHR 0x5C # CHR ''f'' # s) = (char_of (12 :: nat), s)"
  "read_json_char (CHR 0x5C # CHR ''b'' # s) = (char_of (8 :: nat), s)"
  "read_json_char (CHR 0x5C # CHR ''u'' # e # e' # a # b # s) = (char_of (16 * unhex a + unhex b), s)"
  by (simp_all add: read_json_char_def Let_def code_def escaped_chars)

lemma read_json_plain: "code c \<noteq> 92 \<Longrightarrow> read_json_char (c # s) = (c, s)"
  by (simp add: read_json_char_def)

lemma read_json_char: "read_json_char (json_char c @ s) = (c, s)"
proof -
  have "16 * unhex (hex_digit (code c div 16)) + unhex (hex_digit (code c mod 16)) = code c"
    using code_less [of c] by (simp add: unhex_hex_digit)
  then show ?thesis
    unfolding json_char_def
    by (auto simp: read_json_escape read_json_plain escaped_chars dest: arg_cong [of "code c" _ char_of])
qed

lemma json_char_hd: "\<exists>e es. json_char c = e # es \<and> e \<noteq> CHR 0x22"
  by (auto simp: json_char_def code_def)

lemma json_chars_append_eq:
  "concat (map json_char s) @ CHR 0x22 # r = concat (map json_char t) @ CHR 0x22 # q
     \<Longrightarrow> s = t \<and> r = q"
proof (induction s arbitrary: t)
  case Nil
  then show ?case using json_char_hd [of "hd t"] by (cases t) auto
next
  case (Cons c s)
  show ?case
  proof (cases t)
    case Nil
    with Cons.prems show ?thesis using json_char_hd [of c] by auto
  next
    case (Cons d t')
    from Cons.prems have "read_json_char (json_char c @ concat (map json_char s) @ CHR 0x22 # r)
        = read_json_char (json_char d @ concat (map json_char t') @ CHR 0x22 # q)"
      by (simp add: Cons)
    with Cons.IH [of t'] show ?thesis by (simp add: read_json_char Cons)
  qed
qed

lemma json_string_append_eq: "json_string s @ r = json_string t @ q \<longleftrightarrow> s = t \<and> r = q"
  using json_chars_append_eq [of s r t q] by (auto simp: json_string_def)

definition numeral_char :: "char \<Rightarrow> bool" where
  "numeral_char c \<longleftrightarrow> is_digit c \<or> c = CHR ''-''"

lemma show_int_numeral: "list_all numeral_char (show_int i)"
  using show_nat_digits by (auto simp: show_int_def numeral_char_def list_all_iff)

lemma show_int_hd: "\<exists>c cs. show_int i = c # cs \<and> numeral_char c"
  using show_int_numeral [of i] show_int_nonempty [of i] by (cases "show_int i") auto

lemma show_int_append_eq:
  assumes "show_int i @ c # r = show_int j @ d # q" "\<not> numeral_char c" "\<not> numeral_char d"
  shows "i = j \<and> c # r = d # q"
proof -
  have t: "takeWhile numeral_char (show_int k @ e # x) = show_int k" if "\<not> numeral_char e" for k e x
    using show_int_numeral [of k] that by (simp add: takeWhile_append2 list_all_iff)
  have "show_int i = show_int j" using t [OF assms(2)] t [OF assms(3)] assms(1) by metis
  with assms(1) show ?thesis by simp
qed

lemma show_int_other: "\<not> numeral_char d \<Longrightarrow> show_int i @ x = d # y \<longleftrightarrow> False"
  using show_int_hd [of i] by auto

lemma other_show_int: "\<not> numeral_char d \<Longrightarrow> d # y = show_int i @ x \<longleftrightarrow> False"
  using show_int_hd [of i] by auto

text \<open>A value inside an object is followed by a comma or the closing brace.\<close>

lemma json_value_append_eq:
  assumes eq: "json_value v @ c # r = json_value v' @ c' # r'"
    and c: "c \<in> set '',}''" "c' \<in> set '',}''"
  shows "v = v' \<and> c # r = c' # r'"
proof -
  have n: "\<not> numeral_char c" "\<not> numeral_char c'" "\<not> numeral_char (CHR ''n'')" "\<not> numeral_char CHR 0x22"
    using c by (auto simp: numeral_char_def is_digit_def code_def)
  show ?thesis
  proof (cases v; cases v')
    fix s t assume "v = JStr s" "v' = JStr t"
    with eq show ?thesis by (simp add: json_string_append_eq)
  next
    fix i j assume "v = JInt i" "v' = JInt j"
    with eq show ?thesis using show_int_append_eq [OF _ n(1,2)] by simp
  qed (use eq n in \<open>auto simp: json_string_def show_int_other other_show_int\<close>)
qed

definition json_member :: "string \<times> json \<Rightarrow> string" where
  "json_member kv = json_string (fst kv) @ '':'' @ json_value (snd kv)"

lemma json_members_append_eq:
  "join '','' (map json_member kvs) @ CHR ''}'' # r = join '','' (map json_member kvs') @ CHR ''}'' # r'
     \<Longrightarrow> kvs = kvs' \<and> r = r'"
proof (induction kvs arbitrary: kvs')
  case Nil
  then show ?case
    by (cases "kvs'" rule: remdups_adj.cases) (auto simp: json_member_def json_string_def)
next
  case (Cons kv kvs)
  obtain kv' kvs'' where kvs': "kvs' = kv' # kvs''"
    using Cons.prems by (cases kvs'; cases kvs) (auto simp: json_member_def json_string_def)
  have split: "\<exists>c q. join '','' (map json_member (p # ps)) @ CHR ''}'' # x
      = json_string (fst p) @ CHR '':'' # json_value (snd p) @ c # q \<and> c \<in> set '',}'' \<and>
        (c = CHR ''}'' \<longleftrightarrow> ps = []) \<and> (ps = [] \<longrightarrow> q = x) \<and>
        (ps \<noteq> [] \<longrightarrow> q = join '','' (map json_member ps) @ CHR ''}'' # x)" for p ps x
    by (cases ps) (auto simp: json_member_def)
  obtain c q where q: "join '','' (map json_member (kv # kvs)) @ CHR ''}'' # r
      = json_string (fst kv) @ CHR '':'' # json_value (snd kv) @ c # q" "c \<in> set '',}''"
      "c = CHR ''}'' \<longleftrightarrow> kvs = []" "kvs = [] \<longrightarrow> q = r"
      "kvs \<noteq> [] \<longrightarrow> q = join '','' (map json_member kvs) @ CHR ''}'' # r"
    using split [of kv kvs r] by blast
  obtain c' q' where q': "join '','' (map json_member (kv' # kvs'')) @ CHR ''}'' # r'
      = json_string (fst kv') @ CHR '':'' # json_value (snd kv') @ c' # q'" "c' \<in> set '',}''"
      "c' = CHR ''}'' \<longleftrightarrow> kvs'' = []" "kvs'' = [] \<longrightarrow> q' = r'"
      "kvs'' \<noteq> [] \<longrightarrow> q' = join '','' (map json_member kvs'') @ CHR ''}'' # r'"
    using split [of kv' kvs'' r'] by blast
  have "json_string (fst kv) @ CHR '':'' # json_value (snd kv) @ c # q
      = json_string (fst kv') @ CHR '':'' # json_value (snd kv') @ c' # q'"
    using Cons.prems unfolding kvs' q(1) q'(1) .
  then have "fst kv = fst kv'" "json_value (snd kv) @ c # q = json_value (snd kv') @ c' # q'"
    unfolding json_string_append_eq by simp_all
  then have kv: "kv = kv'" "c = c'" "q = q'"
    using json_value_append_eq [OF _ q(2) q'(2)] by (auto simp: prod_eq_iff)
  show ?case
  proof (cases "kvs = []")
    case True
    with kv q q' kvs' show ?thesis by simp
  next
    case False
    with kv q(3,5) q'(3,5) have "join '','' (map json_member kvs) @ CHR ''}'' # r
        = join '','' (map json_member kvs'') @ CHR ''}'' # r'" by blast
    with Cons.IH kv kvs' show ?thesis by simp
  qed
qed

text \<open>\<open>json.dumps(document, sort_keys=True, separators=(",", ":"), ensure_ascii=False)\<close>, flat.\<close>

definition json_flat :: "(string \<times> json) list \<Rightarrow> string" where
  "json_flat kvs = json_object (map (\<lambda>(k, v). (k, json_value v)) kvs)"

lemma json_flat_append_eq: "json_flat kvs @ r = json_flat kvs' @ r' \<longleftrightarrow> kvs = kvs' \<and> r = r'"
proof -
  have f: "json_flat ps @ x = CHR ''{'' # join '','' (map json_member ps) @ CHR ''}'' # x" for ps x
    by (simp add: json_flat_def json_object_def json_member_def [abs_def] comp_def case_prod_unfold)
  show ?thesis using json_members_append_eq [of kvs r kvs' r'] unfolding f by auto
qed

end
