(* ===== verification/LifecycleModel.thy ===== *)
theory LifecycleModel
  imports AuthzDecision PyText "HOL-Library.Multiset"
begin

text \<open>
  The data of \<open>app/user_lifecycle.py\<close>: enumerations, records, request validation, the helpers
  for digests and references, and the ports of the service as a record of effectful functions.
  Fields have the types their dataclasses declare, so an \<open>isinstance\<close> test of such a field holds
  by typing; what a port returns is a \<open>pyref\<close>, so a foreign object or \<open>None\<close> is still possible.
  Claims of the caller (\<open>auth_context\<close>, \<open>snapshot\<close>) stay untyped, as in the decision point.
\<close>

section \<open>Constants and patterns\<close>

definition MEMBERSHIP_SCHEMA_VERSION :: string where
  "MEMBERSHIP_SCHEMA_VERSION = ''enterprise-membership.v1''"
definition LIFECYCLE_APPROVAL_SCHEMA_VERSION :: string where
  "LIFECYCLE_APPROVAL_SCHEMA_VERSION = ''lifecycle-approval-evidence.v1''"
definition LIFECYCLE_OPERATION_SCHEMA_VERSION :: string where
  "LIFECYCLE_OPERATION_SCHEMA_VERSION = ''lifecycle-operation.v1''"
definition PROVIDER_EFFECT_RESERVATION_SCHEMA_VERSION :: string where
  "PROVIDER_EFFECT_RESERVATION_SCHEMA_VERSION = ''provider-effect-reservation.v1''"
definition LIFECYCLE_AUDIT_EVENT_SCHEMA_VERSION :: string where
  "LIFECYCLE_AUDIT_EVENT_SCHEMA_VERSION = ''lifecycle-audit-event.v1''"
definition LIFECYCLE_AUDIT_RECEIPT_SCHEMA_VERSION :: string where
  "LIFECYCLE_AUDIT_RECEIPT_SCHEMA_VERSION = ''lifecycle-audit-receipt.v1''"
definition MAX_INVITATION_TTL_SECONDS :: int where "MAX_INVITATION_TTL_SECONDS = 86400"
definition MAX_PRIVILEGED_AUTH_AGE_SECONDS :: int where "MAX_PRIVILEGED_AUTH_AGE_SECONDS = 300"

definition membership_reference_pattern :: "string \<Rightarrow> bool" where
  "membership_reference_pattern = match_prefixed ''mbr_'' is_lower_hex 32 64"
definition operation_reference_pattern :: "string \<Rightarrow> bool" where
  "operation_reference_pattern = match_prefixed ''op_'' is_lower_hex 32 32"
definition approval_reference_pattern :: "string \<Rightarrow> bool" where
  "approval_reference_pattern = match_headed ''apr_'' is_alnum (\<lambda>c. is_alnum c \<or> c \<in> set ''_-'') 15 63"
definition idempotency_pattern :: "string \<Rightarrow> bool" where
  "idempotency_pattern = match_headed ''idem_'' is_alnum (\<lambda>c. is_alnum c \<or> c \<in> set ''_-'') 15 63"
definition reason_pattern :: "string \<Rightarrow> bool" where
  "reason_pattern = match_headed [] is_lower (\<lambda>c. is_lower c \<or> is_digit c \<or> c = CHR ''_'') 2 63"
definition cursor_pattern :: "string \<Rightarrow> bool" where
  "cursor_pattern = match_prefixed ''cur_'' (\<lambda>c. is_alnum c \<or> c \<in> set ''_-'') 16 256"
definition digest_pattern :: "string \<Rightarrow> bool" where
  "digest_pattern = match_prefixed ''sha256:'' is_lower_hex 64 64"

declare membership_reference_pattern_def [pattern_simps] operation_reference_pattern_def [pattern_simps]
  approval_reference_pattern_def [pattern_simps] idempotency_pattern_def [pattern_simps]
  reason_pattern_def [pattern_simps] cursor_pattern_def [pattern_simps] digest_pattern_def [pattern_simps]

text \<open>
  \<open>^[^\\s@]+@[^\\s@]+\\.[^\\s@]+$\<close>: one at sign, no white space, and a dot with something on both
  sides of it after the at sign.
\<close>

definition locator_pattern :: "string \<Rightarrow> bool" where
  "locator_pattern s = (let name = takeWhile (\<lambda>c. c \<noteq> CHR ''@'') s; host = drop (length name + 1) s
     in name \<noteq> [] \<and> list_all (\<lambda>c. \<not> is_space c) s \<and> CHR ''@'' \<notin> set host \<and>
        CHR ''.'' \<in> set (butlast (tl host)))"

definition IDENTITY_AUTHORITY_FIELDS :: "string list" where
  "IDENTITY_AUTHORITY_FIELDS = [''customerid'', ''deploymentid'', ''tenantid'', ''xtenantid'']"

section \<open>Enumerations\<close>

datatype membership_state = INVITED | ACTIVE | SUSPENDED | EXPIRED | REVOKED

fun membership_state_value :: "membership_state \<Rightarrow> string" where
  "membership_state_value INVITED = ''invited''"
| "membership_state_value ACTIVE = ''active''"
| "membership_state_value SUSPENDED = ''suspended''"
| "membership_state_value EXPIRED = ''expired''"
| "membership_state_value REVOKED = ''revoked''"

definition membership_state_members :: "membership_state list" where
  "membership_state_members = [INVITED, ACTIVE, SUSPENDED, EXPIRED, REVOKED]"

interpretation membership_state: str_enum membership_state_value membership_state_members
proof
  show "m \<in> set membership_state_members" for m by (cases m) (simp_all add: membership_state_members_def)
qed (simp add: membership_state_members_def)

datatype lifecycle_operation =
    INVITE | RESEND_INVITATION | ACTIVATE | CHANGE_ROLE | SUSPEND | REACTIVATE | REVOKE | REVOKE_SESSIONS

fun lifecycle_operation_value :: "lifecycle_operation \<Rightarrow> string" where
  "lifecycle_operation_value INVITE = ''membership.invite''"
| "lifecycle_operation_value RESEND_INVITATION = ''membership.resend_invitation''"
| "lifecycle_operation_value ACTIVATE = ''membership.activate''"
| "lifecycle_operation_value CHANGE_ROLE = ''membership.change_role''"
| "lifecycle_operation_value SUSPEND = ''membership.suspend''"
| "lifecycle_operation_value REACTIVATE = ''membership.reactivate''"
| "lifecycle_operation_value REVOKE = ''membership.revoke''"
| "lifecycle_operation_value REVOKE_SESSIONS = ''membership.revoke_sessions''"

definition lifecycle_operation_members :: "lifecycle_operation list" where
  "lifecycle_operation_members =
     [INVITE, RESEND_INVITATION, ACTIVATE, CHANGE_ROLE, SUSPEND, REACTIVATE, REVOKE, REVOKE_SESSIONS]"

interpretation lifecycle_operation: str_enum lifecycle_operation_value lifecycle_operation_members
proof
  show "m \<in> set lifecycle_operation_members" for m
    by (cases m) (simp_all add: lifecycle_operation_members_def)
qed (simp add: lifecycle_operation_members_def)

datatype lifecycle_stage =
    RESERVED | APPROVAL_VALIDATED | PROVIDER_EFFECT_RESERVED | PROVIDER_APPLIED
  | MEMBERSHIP_APPLIED | SESSIONS_REVOKED | AUDIT_COMMITTED | COMPLETED

fun lifecycle_stage_value :: "lifecycle_stage \<Rightarrow> string" where
  "lifecycle_stage_value RESERVED = ''reserved''"
| "lifecycle_stage_value APPROVAL_VALIDATED = ''approval_validated''"
| "lifecycle_stage_value PROVIDER_EFFECT_RESERVED = ''provider_effect_reserved''"
| "lifecycle_stage_value PROVIDER_APPLIED = ''provider_applied''"
| "lifecycle_stage_value MEMBERSHIP_APPLIED = ''membership_applied''"
| "lifecycle_stage_value SESSIONS_REVOKED = ''sessions_revoked''"
| "lifecycle_stage_value AUDIT_COMMITTED = ''audit_committed''"
| "lifecycle_stage_value COMPLETED = ''completed''"

definition lifecycle_stage_members :: "lifecycle_stage list" where
  "lifecycle_stage_members = [RESERVED, APPROVAL_VALIDATED, PROVIDER_EFFECT_RESERVED, PROVIDER_APPLIED,
     MEMBERSHIP_APPLIED, SESSIONS_REVOKED, AUDIT_COMMITTED, COMPLETED]"

interpretation lifecycle_stage: str_enum lifecycle_stage_value lifecycle_stage_members
proof
  show "m \<in> set lifecycle_stage_members" for m by (cases m) (simp_all add: lifecycle_stage_members_def)
qed (simp add: lifecycle_stage_members_def)

section \<open>Records\<close>

record membership_record =
  mb_schema_version :: string
  mb_membership_reference :: string
  mb_subject :: string
  mb_customer_id :: string
  mb_deployment_id :: string
  mb_state :: membership_state
  mb_role_id :: human_role
  mb_membership_version :: int
  mb_provider_user_reference :: string
  mb_provider_principal_key :: string
  mb_created_at :: datetime
  mb_updated_at :: datetime
  mb_invitation_expires_at :: "datetime option"

record membership_page =
  mp_items :: "membership_record pyref list"
  mp_next_cursor :: "string option"

record lifecycle_command =
  cm_operation :: lifecycle_operation
  cm_customer_id :: string
  cm_deployment_id :: string
  cm_actor_subject :: string
  cm_idempotency_key :: string
  cm_request_digest :: string

type_synonym op_evidence = "(string \<times> string) list"

record operation_record =
  or_schema_version :: string
  or_operation_reference :: string
  or_operation :: lifecycle_operation
  or_customer_id :: string
  or_deployment_id :: string
  or_actor_subject :: string
  or_idempotency_key :: string
  or_request_digest :: string
  or_stage :: lifecycle_stage
  or_evidence :: op_evidence
  or_created_at :: datetime
  or_updated_at :: datetime

record checkpoint_outcome =
  co_record :: "operation_record pyref"
  co_applied_here :: bool

record effect_reservation =
  er_schema_version :: string
  er_operation :: lifecycle_operation
  er_customer_id :: string
  er_deployment_id :: string
  er_target_reference :: string
  er_expected_membership_version :: int
  er_approval_reference :: string
  er_request_digest :: string
  er_actor_subject :: string
  er_winner_operation_reference :: string
  er_created_at :: datetime

record effect_outcome =
  eo_reservation :: "effect_reservation pyref"
  eo_applied_here :: bool

record approval_evidence =
  ap_schema_version :: string
  ap_approval_reference :: string
  ap_approver_subject :: string
  ap_customer_id :: string
  ap_deployment_id :: string
  ap_operation :: lifecycle_operation
  ap_target_reference :: string
  ap_request_digest :: string
  ap_state :: string
  ap_expires_at :: datetime

record provider_receipt =
  pr_subject :: string
  pr_provider_user_reference :: string
  pr_provider_principal_key :: string
  pr_principal_locator_digest :: string
  pr_state :: string

record lifecycle_audit_receipt =
  lr_schema_version :: string
  lr_decision_id :: string
  lr_receipt_reference :: string
  lr_acknowledged_at :: datetime

record lifecycle_outcome =
  lo_status :: string
  lo_operation_reference :: string

record lifecycle_audit_event =
  le_event_reference :: string
  le_timestamp :: datetime
  le_action :: lifecycle_operation
  le_decision :: string
  le_reason_code :: string
  le_principal_reference :: string
  le_correlation_reference :: string
  le_before_membership_version :: string
  le_after_membership_version :: string

record lifecycle_audit_page =
  lp_items :: "lifecycle_audit_event pyref list"
  lp_next_cursor :: "string option"

type_synonym owner = "string \<times> string"

section \<open>Digests, references, time stamps\<close>

definition unit_separator :: string where "unit_separator = [CHR 0x1F]"

definition digest_of :: "string \<Rightarrow> string" where
  "digest_of value = ''sha256:'' @ sha256_hex value"

definition reference_of :: "string list \<Rightarrow> string" where
  "reference_of values = ''ref_'' @ take 32 (sha256_hex (join unit_separator values))"

text \<open>\<open>_timestamp\<close> and \<open>_parse_timestamp\<close> of the service.\<close>

definition service_timestamp :: "datetime \<Rightarrow> string" where
  "service_timestamp t = timestamp_text (instant t)"

definition service_parse_timestamp :: "string option \<Rightarrow> exn + datetime option" where
  "service_parse_timestamp v = (case v of
       None \<Rightarrow> Inr None
     | Some text \<Rightarrow> (case parse_iso (replace_z text) of
           Invalid_Time \<Rightarrow> Inr None
         | Out_Of_Range \<Rightarrow> Inl (PyExc ''OverflowError'')
         | Parsed d \<Rightarrow> Inr (if is_aware d then Some d else None)))"

text \<open>\<open>datetime >= datetime\<close>, used on aware values.\<close>

definition not_before :: "datetime \<Rightarrow> datetime \<Rightarrow> bool" where
  "not_before a b \<longleftrightarrow> instant b \<le> instant a"

section \<open>Errors\<close>

definition denied :: exn where
  "denied = AppExc (AppError ''FORBIDDEN'' ''Lifecycle operation is not authorized'' 403 [])"
definition not_found :: exn where
  "not_found = AppExc (AppError ''NOT_FOUND'' ''Membership was not found'' 404 [])"
definition conflict :: exn where
  "conflict = AppExc (AppError ''CONFLICT'' ''Lifecycle operation could not be applied'' 409 [])"
definition invalid_request :: exn where
  "invalid_request = AppExc (AppError ''INVALID_REQUEST'' ''Lifecycle request is invalid'' 400 [])"
definition unavailable :: exn where
  "unavailable = AppExc (AppError ''SERVICE_UNAVAILABLE'' ''Lifecycle service is unavailable'' 503 [])"

lemmas error_defs = denied_def not_found_def conflict_def invalid_request_def unavailable_def

section \<open>Constructors of records\<close>

definition operation_reference_of :: "string \<Rightarrow> string \<Rightarrow> string \<Rightarrow> string" where
  "operation_reference_of customer deployment key =
     ''op_'' @ take 32 (sha256_hex (join unit_separator [customer, deployment, key]))"

definition operation_record_new :: "lifecycle_command \<Rightarrow> datetime \<Rightarrow> operation_record" where
  "operation_record_new cm now =
     \<lparr>or_schema_version = LIFECYCLE_OPERATION_SCHEMA_VERSION,
      or_operation_reference =
        operation_reference_of (cm_customer_id cm) (cm_deployment_id cm) (cm_idempotency_key cm),
      or_operation = cm_operation cm, or_customer_id = cm_customer_id cm,
      or_deployment_id = cm_deployment_id cm, or_actor_subject = cm_actor_subject cm,
      or_idempotency_key = cm_idempotency_key cm, or_request_digest = cm_request_digest cm,
      or_stage = RESERVED, or_evidence = [], or_created_at = now, or_updated_at = now\<rparr>"

definition effect_reservation_new ::
  "operation_record \<Rightarrow> string \<Rightarrow> int \<Rightarrow> string \<Rightarrow> datetime \<Rightarrow> effect_reservation" where
  "effect_reservation_new r target version approval now =
     \<lparr>er_schema_version = PROVIDER_EFFECT_RESERVATION_SCHEMA_VERSION,
      er_operation = or_operation r, er_customer_id = or_customer_id r,
      er_deployment_id = or_deployment_id r, er_target_reference = target,
      er_expected_membership_version = version, er_approval_reference = approval,
      er_request_digest = or_request_digest r, er_actor_subject = or_actor_subject r,
      er_winner_operation_reference = or_operation_reference r, er_created_at = now\<rparr>"

text \<open>\<open>to_public_dict\<close> of the records that leave the service.\<close>

definition membership_public_dict :: "membership_record \<Rightarrow> (string \<times> pyval) list" where
  "membership_public_dict m =
     [(''membershipReference'', PStr (mb_membership_reference m)),
      (''state'', PStr (membership_state_value (mb_state m))),
      (''roleId'', PStr (human_role_value (mb_role_id m))),
      (''membershipVersion'', PStr (show_int (mb_membership_version m))),
      (''createdAt'', PStr (service_timestamp (mb_created_at m))),
      (''updatedAt'', PStr (service_timestamp (mb_updated_at m))),
      (''invitationExpiresAt'', (case mb_invitation_expires_at m of
          Some t \<Rightarrow> PStr (service_timestamp t) | None \<Rightarrow> PNone))]"

definition outcome_public_dict :: "lifecycle_outcome \<Rightarrow> (string \<times> string) list" where
  "outcome_public_dict out =
     [(''status'', lo_status out), (''operationReference'', lo_operation_reference out)]"

definition audit_event_public_dict :: "lifecycle_audit_event \<Rightarrow> (string \<times> string) list" where
  "audit_event_public_dict e =
     [(''eventReference'', le_event_reference e), (''timestamp'', service_timestamp (le_timestamp e)),
      (''action'', lifecycle_operation_value (le_action e)), (''decision'', le_decision e),
      (''reasonCode'', le_reason_code e), (''principalReference'', le_principal_reference e),
      (''correlationReference'', le_correlation_reference e),
      (''beforeMembershipVersion'', le_before_membership_version e),
      (''afterMembershipVersion'', le_after_membership_version e)]"

section \<open>Requests\<close>

text \<open>
  The pydantic models: \<open>None\<close> is a \<open>ValidationError\<close>. The payload keys are checked before the
  fields; a validated request carries the normalized locator.
\<close>

definition identity_key :: "string \<Rightarrow> string" where
  "identity_key k = py_lower (filter (\<lambda>c. c \<noteq> CHR ''_'' \<and> c \<noteq> CHR ''-'') k)"

definition rejects_identity_authority :: "(pyval \<times> pyval) list \<Rightarrow> bool" where
  "rejects_identity_authority payload \<longleftrightarrow>
     list_ex (\<lambda>(k, _). str_sat (\<lambda>s. identity_key s \<in> set IDENTITY_AUTHORITY_FIELDS) k) payload"

definition validate_locator :: "string \<Rightarrow> string option" where
  "validate_locator value = (let normalized = py_lower (py_strip value)
     in if locator_pattern normalized then Some normalized else None)"

record invitation_request =
  iv_principal_locator :: string
  iv_role_id :: human_role
  iv_expires_in_seconds :: int
  iv_approval_reference :: string

record transition_request =
  tr_expected_membership_version :: int
  tr_approval_reference :: string
  tr_reason_code :: string
  tr_replacement_membership_reference :: "string option"

record role_change_request = transition_request +
  rc_role_id :: human_role

record resend_request = transition_request +
  rs_expires_in_seconds :: int

definition invitation_request_new :: "string \<Rightarrow> human_role \<Rightarrow> int \<Rightarrow> string \<Rightarrow> invitation_request option" where
  "invitation_request_new locator role seconds approval =
     (if length locator < 3 \<or> length locator > 320 \<or> seconds < 60 \<or> seconds > MAX_INVITATION_TTL_SECONDS
         \<or> \<not> approval_reference_pattern approval then None
      else map_option (\<lambda>normalized.
             \<lparr>iv_principal_locator = normalized, iv_role_id = role, iv_expires_in_seconds = seconds,
              iv_approval_reference = approval\<rparr>) (validate_locator locator))"

text \<open>The field checks of \<open>TransitionRequest\<close>, which its subclasses inherit.\<close>

definition valid_transition_request :: "'a transition_request_scheme \<Rightarrow> bool" where
  "valid_transition_request r \<longleftrightarrow>
     1 \<le> tr_expected_membership_version r \<and> approval_reference_pattern (tr_approval_reference r) \<and>
     reason_pattern (tr_reason_code r) \<and>
     (case tr_replacement_membership_reference r of Some m \<Rightarrow> membership_reference_pattern m | None \<Rightarrow> True)"

definition valid_resend_request :: "resend_request \<Rightarrow> bool" where
  "valid_resend_request r \<longleftrightarrow> valid_transition_request r \<and>
     60 \<le> rs_expires_in_seconds r \<and> rs_expires_in_seconds r \<le> MAX_INVITATION_TTL_SECONDS"

section \<open>Canonical commands\<close>

text \<open>
  The document whose digest identifies a command: the operation and its payload with sorted
  keys.
\<close>

definition canonical_document :: "lifecycle_operation \<Rightarrow> (string \<times> json) list \<Rightarrow> string" where
  "canonical_document op payload = json_object
     [(''operation'', json_value (JStr (lifecycle_operation_value op))),
      (''payload'', json_flat (sort_key fst payload))]"

fun json_opt :: "string option \<Rightarrow> json" where
  "json_opt None = JNull"
| "json_opt (Some s) = JStr s"

definition invitation_payload :: "invitation_request \<Rightarrow> (string \<times> json) list" where
  "invitation_payload r =
     [(''principal_locator'', JStr (iv_principal_locator r)),
      (''role_id'', JStr (human_role_value (iv_role_id r))),
      (''expires_in_seconds'', JInt (iv_expires_in_seconds r)),
      (''approval_reference'', JStr (iv_approval_reference r))]"

definition resend_payload :: "string \<Rightarrow> resend_request \<Rightarrow> (string \<times> json) list" where
  "resend_payload ref r =
     [(''membership_reference'', JStr ref),
      (''expected_membership_version'', JInt (tr_expected_membership_version r)),
      (''expires_in_seconds'', JInt (rs_expires_in_seconds r)),
      (''approval_reference'', JStr (tr_approval_reference r)),
      (''reason_code'', JStr (tr_reason_code r))]"

definition transition_payload ::
  "string \<Rightarrow> 'a transition_request_scheme \<Rightarrow> human_role option \<Rightarrow> (string \<times> json) list" where
  "transition_payload ref r next_role =
     [(''membership_reference'', JStr ref),
      (''expected_membership_version'', JInt (tr_expected_membership_version r)),
      (''approval_reference'', JStr (tr_approval_reference r)),
      (''reason_code'', JStr (tr_reason_code r)),
      (''replacement_membership_reference'', json_opt (tr_replacement_membership_reference r)),
      (''next_role'', json_opt (map_option human_role_value next_role))]"

section \<open>Ports\<close>

text \<open>
  \<open>EnterpriseLifecycleRuntime\<close> with the methods of its protocols; keyword arguments are given in
  the order of the protocol. \<open>rt_clock\<close> may return anything that is not a datetime.
\<close>

record provider_identity =
  pi_subject :: string
  pi_provider_user_reference :: string
  pi_provider_principal_key :: string
  pi_customer_id :: string
  pi_deployment_id :: string
  pi_idempotency_key :: string

record approval_query =
  aq_approval_reference :: string
  aq_operation :: lifecycle_operation
  aq_target_reference :: string
  aq_request_digest :: string
  aq_customer_id :: string
  aq_deployment_id :: string
  aq_now :: datetime

record invite_query =
  iq_principal_locator :: string
  iq_principal_locator_digest :: string
  iq_customer_id :: string
  iq_deployment_id :: string
  iq_idempotency_key :: string

record transition_query =
  tq_current :: membership_record
  tq_expected_state :: membership_state
  tq_expected_version :: int
  tq_next_state :: membership_state
  tq_next_role :: human_role
  tq_operation_reference :: string
  tq_admin_replacement :: "membership_record option"

record 'w lifecycle_runtime =
  rt_reserve_operation :: "lifecycle_command \<Rightarrow> ('w, operation_record pyref) io"
  rt_reserve_provider_effect :: "effect_reservation \<Rightarrow> ('w, effect_outcome pyref) io"
  rt_checkpoint_operation ::
    "operation_record \<Rightarrow> lifecycle_stage \<Rightarrow> lifecycle_stage \<Rightarrow> op_evidence option
      \<Rightarrow> ('w, checkpoint_outcome pyref) io"
  rt_list_memberships ::
    "owner \<Rightarrow> membership_state option \<Rightarrow> string option \<Rightarrow> int \<Rightarrow> ('w, membership_page pyref) io"
  rt_load_membership :: "owner \<Rightarrow> string \<Rightarrow> ('w, membership_record pyref) io"
  rt_create_invited_membership ::
    "owner \<Rightarrow> provider_receipt \<Rightarrow> human_role \<Rightarrow> datetime \<Rightarrow> string \<Rightarrow> ('w, membership_record pyref) io"
  rt_transition_membership :: "transition_query \<Rightarrow> ('w, membership_record pyref) io"
  rt_refresh_invitation ::
    "membership_record \<Rightarrow> int \<Rightarrow> datetime \<Rightarrow> string \<Rightarrow> ('w, membership_record pyref) io"
  rt_invite_user :: "invite_query \<Rightarrow> ('w, provider_receipt pyref) io"
  rt_resend_invitation :: "provider_identity \<Rightarrow> ('w, provider_receipt pyref) io"
  rt_confirm_activation :: "provider_identity \<Rightarrow> ('w, provider_receipt pyref) io"
  rt_set_user_enabled :: "provider_identity \<Rightarrow> bool \<Rightarrow> ('w, provider_receipt pyref) io"
  rt_revoke_sessions :: "provider_identity \<Rightarrow> ('w, pyval) io"
  rt_resolve_approval :: "approval_query \<Rightarrow> ('w, approval_evidence pyref) io"
  rt_emit_audit :: "event \<Rightarrow> ('w, lifecycle_audit_receipt pyref) io"
  rt_clock :: "('w, datetime pyref) io"
  rt_list_events ::
    "(owner \<Rightarrow> string option \<Rightarrow> int \<Rightarrow> ('w, lifecycle_audit_page pyref) io) option"

section \<open>Facts about the data\<close>

lemma reference_of_pattern: "opaque_reference_pattern (reference_of vs)"
  unfolding opaque_reference_pattern_def reference_of_def
  by (rule match_prefixedI) (simp_all add: sha256_hex_take_lower_hex)

lemma digest_of_pattern: "digest_pattern (digest_of s)"
  unfolding digest_pattern_def digest_of_def by (rule match_prefixedI) (simp_all add: sha256_hex_lower_hex)

lemma operation_reference_of_pattern: "operation_reference_pattern (operation_reference_of c d k)"
  unfolding operation_reference_pattern_def operation_reference_of_def
  by (rule match_prefixedI) (simp_all add: sha256_hex_take_lower_hex)

lemma service_parse_timestamp_text:
  "t < max_instant \<Longrightarrow> service_parse_timestamp (Some (service_timestamp (Aware t))) = Inr (Some (Aware t))"
  by (simp add: service_parse_timestamp_def service_timestamp_def parse_iso_timestamp_text)

lemma canonical_document_eq:
  assumes "canonical_document op p = canonical_document op' p'"
  shows "op = op' \<and> sort_key fst p = sort_key fst p'"
proof -
  have doc: "canonical_document o1 q = CHR ''{'' # json_string ''operation'' @ CHR '':'' #
      json_string (lifecycle_operation_value o1) @ CHR '','' # json_string ''payload'' @ CHR '':'' #
      json_flat (sort_key fst q) @ ''}''" for o1 q
    by (simp add: canonical_document_def json_object_def)
  have "json_flat x = json_flat y \<longleftrightarrow> x = y" for x y
    using json_flat_append_eq [of x "[]" y "[]"] by simp
  then show ?thesis using assms unfolding doc by (simp add: json_string_append_eq)
qed

lemma canonical_document_fields:
  assumes "canonical_document op p = canonical_document op' p'"
    and "distinct (map fst p)" "distinct (map fst p')"
  shows "op = op' \<and> map_of p = map_of p'"
proof -
  have "map_of (sort_key fst q) = map_of q" if "distinct (map fst q)" for q :: "(string \<times> json) list"
  proof (rule map_of_inject_set [THEN iffD2])
    have "mset (map fst (sort_key fst q)) = mset (map fst q)" by simp
    then show "distinct (map fst (sort_key fst q))" using that mset_eq_imp_distinct_iff by blast
  qed (use that in simp_all)
  with canonical_document_eq [OF assms(1)] assms(2,3) show ?thesis by metis
qed

text \<open>
  The digest of a transition covers the whole request: if the canonical documents of two
  transitions agree, they are the same operation on the same membership with the same expected
  version, approval, reason, replacement and new role, whatever characters the fields contain.
\<close>

theorem transition_document_injective:
  "canonical_document op (transition_payload ref r role) = canonical_document op' (transition_payload ref' r' role')
   \<longleftrightarrow> op = op' \<and> ref = ref' \<and> role = role' \<and>
     tr_expected_membership_version r = tr_expected_membership_version r' \<and>
     tr_approval_reference r = tr_approval_reference r' \<and> tr_reason_code r = tr_reason_code r' \<and>
     tr_replacement_membership_reference r = tr_replacement_membership_reference r'" (is "?l = ?e")
proof
  have opt: "json_opt x = json_opt y \<longleftrightarrow> x = y" for x y by (cases x; cases y) simp_all
  have role: "map_option human_role_value x = map_option human_role_value y \<longleftrightarrow> x = y" for x y
    by (cases x; cases y) simp_all
  assume ?l
  then have "op = op'" and m: "map_of (transition_payload ref r role) = map_of (transition_payload ref' r' role')"
    using canonical_document_fields [OF \<open>?l\<close>] by (simp_all add: transition_payload_def)
  show ?e
    using \<open>op = op'\<close> fun_cong [OF m, of "''membership_reference''"] fun_cong [OF m, of "''expected_membership_version''"]
      fun_cong [OF m, of "''approval_reference''"] fun_cong [OF m, of "''reason_code''"]
      fun_cong [OF m, of "''replacement_membership_reference''"] fun_cong [OF m, of "''next_role''"]
    by (simp add: transition_payload_def opt role)
qed (simp add: transition_payload_def)

end
