(* ===== verification/LifecycleService.thy ===== *)
theory LifecycleService
  imports LifecycleModel
begin

text \<open>
  \<open>UserLifecycleService\<close> of \<open>app/user_lifecycle.py\<close>, over arbitrary ports. Each private method is a
  definition, and the long methods are split at their stages: one definition per block that a
  checkpoint ends. Everything a port raises is caught where the code catches it; what the code
  does not catch (\<open>KeyError\<close>, \<open>ValueError\<close>, \<open>OverflowError\<close>, \<open>TypeError\<close>) stays an exception.
\<close>

section \<open>Chains of tests\<close>

text \<open>\<open>a and b and ...\<close> where a test may raise, and \<open>if not (...): raise\<close>.\<close>

fun all_of :: "(exn + bool) list \<Rightarrow> exn + bool" where
  "all_of [] = Inr True"
| "all_of (Inl e # cs) = Inl e"
| "all_of (Inr b # cs) = (if b then all_of cs else Inr False)"

definition demand :: "(exn + bool) list \<Rightarrow> exn \<Rightarrow> exn + unit" where
  "demand cs e = (case all_of cs of Inl x \<Rightarrow> Inl x | Inr b \<Rightarrow> if b then Inr () else Inl e)"

lemma all_of_True: "all_of cs = Inr True \<longleftrightarrow> list_all (\<lambda>c. c = Inr True) cs"
  by (induction cs rule: all_of.induct) auto

lemma demand_Inr: "demand cs e = Inr u \<longleftrightarrow> list_all (\<lambda>c. c = Inr True) cs"
proof -
  have "demand cs e = Inr u \<longleftrightarrow> all_of cs = Inr True"
    by (auto simp: demand_def split: sum.splits if_splits)
  then show ?thesis by (simp add: all_of_True)
qed

section \<open>Clock and caller\<close>

definition service_now :: "'w lifecycle_runtime \<Rightarrow> ('w, datetime) io" where
  "service_now rt = bind (catch (rt_clock rt) (\<lambda>_. raise unavailable)) (\<lambda>v. case v of
       Inst d \<Rightarrow> if is_aware d then ret d else raise unavailable
     | _ \<Rightarrow> raise unavailable)"

text \<open>\<open>value is Class.MEMBER\<close>\<close>

definition is_member :: "string \<Rightarrow> string \<Rightarrow> pyval \<Rightarrow> bool" where
  "is_member cls val v = (case v of PEnum c m s \<Rightarrow> c = cls \<and> s = val | _ \<Rightarrow> False)"

definition unhashable :: "pyval \<Rightarrow> bool" where
  "unhashable v = (case v of PList vs \<Rightarrow> True | PDict d \<Rightarrow> True | _ \<Rightarrow> False)"

definition caller_identity_checks :: "auth_context \<Rightarrow> (exn + bool) list" where
  "caller_identity_checks auth =
     [Inr (py_eq (ac_principal_type auth) (PStr ''user'')),
      Inr (py_eq (ac_auth_source auth) (PStr ''cognito_jwt'')),
      Inr (str_sat customer_id_pattern (ac_customer_id auth)),
      Inr (str_sat deployment_id_pattern (ac_deployment_id auth)),
      Inr (str_sat subject_pattern (ac_subject auth)),
      Inr (case ac_human_authorization auth of Inst sn \<Rightarrow> True | _ \<Rightarrow> False)]"

definition role_in :: "human_role list \<Rightarrow> pyval \<Rightarrow> exn + bool" where
  "role_in roles v = (if unhashable v then Inl (PyExc ''TypeError'')
     else Inr (str_sat (\<lambda>s. s \<in> set (map human_role_value roles)) v))"

definition snapshot_checks :: "auth_context \<Rightarrow> snapshot \<Rightarrow> human_role list \<Rightarrow> (exn + bool) list" where
  "snapshot_checks auth sn roles =
     [Inr (is_member ''AuthorizationPath'' (authorization_path_value MEMBERSHIP) (sn_authorization_path sn)),
      Inr (py_eq (sn_subject sn) (ac_subject auth)),
      Inr (py_eq (sn_customer_id sn) (ac_customer_id auth)),
      Inr (py_eq (sn_deployment_id sn) (ac_deployment_id auth)),
      Inr (py_eq (sn_membership_state sn) (PStr ''active'')),
      role_in roles (sn_role_id sn),
      Inr (py_eq (sn_authz_schema_version sn) (PStr AUTHZ_SCHEMA_VERSION)),
      Inr (py_eq (sn_scope_catalog_version sn) (PStr SCOPE_CATALOG_VERSION)),
      Inr (py_eq (sn_role_catalog_version sn) (PStr ROLE_CATALOG_VERSION)),
      Inr (py_eq (sn_policy_version sn) (PStr POLICY_VERSION)),
      (case str_view (sn_policy_digest sn) of
         Some s \<Rightarrow> compare_digest s POLICY_DIGEST | None \<Rightarrow> Inr False)]"

definition event_reference_check :: "pyval \<Rightarrow> exn + bool" where
  "event_reference_check v = (if v = PNone then Inr False
     else case str_view v of Some s \<Rightarrow> Inr (opaque_reference_pattern s) | None \<Rightarrow> Inl (PyExc ''TypeError''))"

definition privileged_checks :: "snapshot \<Rightarrow> datetime \<Rightarrow> (exn + bool) list" where
  "privileged_checks sn now =
     [Inr (is_member ''Assurance'' (assurance_value PHISHING_RESISTANT_MFA) (sn_assurance sn)),
      Inr (is_member ''AssuranceSource'' ASSURANCE_SOURCE (sn_assurance_source sn)),
      Inr (is_member ''AssuranceVersion'' ASSURANCE_VERSION (sn_assurance_version sn)),
      event_reference_check (sn_authentication_event_reference sn),
      Inr (case sn_authenticated_at_epoch sn of
             PInt a \<Rightarrow> (let age = epoch_of_instant (instant now) - a
                in 0 \<le> age \<and> age \<le> MAX_PRIVILEGED_AUTH_AGE_SECONDS)
           | _ \<Rightarrow> False)]"

definition role_checks ::
  "auth_context \<Rightarrow> human_role list \<Rightarrow> bool \<Rightarrow> datetime \<Rightarrow> exn + unit" where
  "role_checks auth roles privileged now = (case demand (caller_identity_checks auth) denied of
       Inl e \<Rightarrow> Inl e
     | Inr _ \<Rightarrow> (case ac_human_authorization auth of
         Inst sn \<Rightarrow> (case demand (snapshot_checks auth sn roles) denied of
             Inl e \<Rightarrow> Inl e
           | Inr _ \<Rightarrow> if privileged then demand (privileged_checks sn now) denied else Inr ())
       | _ \<Rightarrow> Inl denied))"

definition owner_of :: "auth_context \<Rightarrow> owner" where
  "owner_of auth = (the (str_view (ac_customer_id auth)), the (str_view (ac_deployment_id auth)))"

definition require_roles ::
  "'w lifecycle_runtime \<Rightarrow> auth_context \<Rightarrow> human_role list \<Rightarrow> bool \<Rightarrow> ('w, owner) io" where
  "require_roles rt auth roles privileged = bind (service_now rt) (\<lambda>now.
     bind (lift (role_checks auth roles privileged now)) (\<lambda>_. ret (owner_of auth)))"

definition require_admin :: "'w lifecycle_runtime \<Rightarrow> auth_context \<Rightarrow> bool \<Rightarrow> ('w, owner) io" where
  "require_admin rt auth privileged = require_roles rt auth [CUSTOMER_ADMIN] privileged"

definition require_lifecycle_reader :: "'w lifecycle_runtime \<Rightarrow> auth_context \<Rightarrow> ('w, owner) io" where
  "require_lifecycle_reader rt auth = require_roles rt auth [CUSTOMER_ADMIN, AUDITOR] False"

definition role_catalog :: "'w lifecycle_runtime \<Rightarrow> auth_context \<Rightarrow> ('w, string list) io" where
  "role_catalog rt auth = bind (require_admin rt auth False) (\<lambda>_. ret (map human_role_value human_role_members))"

section \<open>Validation of what the ports return\<close>

definition membership_checks :: "membership_record \<Rightarrow> owner \<Rightarrow> (exn + bool) list" where
  "membership_checks m owner = map Inr
     [mb_schema_version m = MEMBERSHIP_SCHEMA_VERSION,
      membership_reference_pattern (mb_membership_reference m), subject_pattern (mb_subject m),
      mb_customer_id m = fst owner, mb_deployment_id m = snd owner,
      1 \<le> mb_membership_version m, opaque_reference_pattern (mb_provider_user_reference m),
      subject_pattern (mb_provider_principal_key m),
      is_aware (mb_created_at m), is_aware (mb_updated_at m),
      (if mb_state m = INVITED then (case mb_invitation_expires_at m of Some t \<Rightarrow> is_aware t | None \<Rightarrow> False)
       else mb_invitation_expires_at m = None)]"

definition validate_membership :: "membership_record pyref \<Rightarrow> owner \<Rightarrow> exn + membership_record" where
  "validate_membership v owner = (case v of
       Inst m \<Rightarrow> (case demand (membership_checks m owner) unavailable of Inl e \<Rightarrow> Inl e | Inr _ \<Rightarrow> Inr m)
     | _ \<Rightarrow> Inl unavailable)"

definition load_owned :: "'w lifecycle_runtime \<Rightarrow> owner \<Rightarrow> string \<Rightarrow> ('w, membership_record) io" where
  "load_owned rt owner ref = bind (catch (rt_load_membership rt owner ref) (\<lambda>_. raise unavailable)) (\<lambda>v.
     if v = NoneRef then raise not_found else lift (validate_membership v owner))"

definition receipt_checks ::
  "provider_receipt \<Rightarrow> string \<Rightarrow> string option \<Rightarrow> string option \<Rightarrow> string option \<Rightarrow> (exn + bool) list" where
  "receipt_checks r expected_state expected_digest expected_subject expected_reference =
     [Inr (subject_pattern (pr_subject r)), Inr (opaque_reference_pattern (pr_provider_user_reference r)),
      Inr (subject_pattern (pr_provider_principal_key r)), Inr (digest_pattern (pr_principal_locator_digest r)),
      Inr (pr_state r = expected_state),
      (case expected_digest of Some d \<Rightarrow> compare_digest (pr_principal_locator_digest r) d | None \<Rightarrow> Inr True),
      Inr (case expected_subject of Some s \<Rightarrow> pr_subject r = s | None \<Rightarrow> True),
      Inr (case expected_reference of Some s \<Rightarrow> pr_provider_user_reference r = s | None \<Rightarrow> True)]"

definition validate_provider_receipt ::
  "provider_receipt pyref \<Rightarrow> string \<Rightarrow> string option \<Rightarrow> string option \<Rightarrow> string option
    \<Rightarrow> exn + provider_receipt" where
  "validate_provider_receipt v expected_state expected_digest expected_subject expected_reference = (case v of
       Inst r \<Rightarrow> (case demand (receipt_checks r expected_state expected_digest expected_subject
                                expected_reference) unavailable of Inl e \<Rightarrow> Inl e | Inr _ \<Rightarrow> Inr r)
     | _ \<Rightarrow> Inl unavailable)"

section \<open>The operation ledger\<close>

definition lifecycle_command_of ::
  "lifecycle_operation \<Rightarrow> auth_context \<Rightarrow> string \<Rightarrow> (string \<times> json) list \<Rightarrow> exn + lifecycle_command" where
  "lifecycle_command_of op auth key payload = (if \<not> idempotency_pattern key then Inl invalid_request
     else Inr \<lparr>cm_operation = op, cm_customer_id = the (str_view (ac_customer_id auth)),
               cm_deployment_id = py_str (ac_deployment_id auth),
               cm_actor_subject = py_str (ac_subject auth), cm_idempotency_key = key,
               cm_request_digest = digest_of (canonical_document op payload)\<rparr>)"

definition evidence_well_formed :: "op_evidence \<Rightarrow> bool" where
  "evidence_well_formed ev \<longleftrightarrow> list_all (\<lambda>(k, v). k \<noteq> [] \<and> v \<noteq> []) ev"

definition reserved_checks :: "lifecycle_command \<Rightarrow> operation_record \<Rightarrow> exn + unit" where
  "reserved_checks cm r = (case demand [
       Inr (or_schema_version r = LIFECYCLE_OPERATION_SCHEMA_VERSION),
       Inr (operation_reference_pattern (or_operation_reference r))] unavailable of
     Inl e \<Rightarrow> Inl e
   | Inr _ \<Rightarrow> (case demand [
       Inr (or_operation r = cm_operation cm), Inr (or_customer_id r = cm_customer_id cm),
       Inr (or_deployment_id r = cm_deployment_id cm), Inr (or_actor_subject r = cm_actor_subject cm),
       Inr (or_idempotency_key r = cm_idempotency_key cm), Inr (digest_pattern (or_request_digest r)),
       compare_digest (or_request_digest r) (cm_request_digest cm)] conflict of
     Inl e \<Rightarrow> Inl e
   | Inr _ \<Rightarrow> demand [
       Inr (evidence_well_formed (or_evidence r)), Inr (is_aware (or_created_at r)),
       Inr (is_aware (or_updated_at r)), Inr (not_before (or_updated_at r) (or_created_at r))] unavailable))"

definition reserve :: "'w lifecycle_runtime \<Rightarrow> lifecycle_command \<Rightarrow> ('w, operation_record) io" where
  "reserve rt cm =
     bind (catch (rt_reserve_operation rt cm)
            (\<lambda>e. raise (if e = IdempotencyConflict then conflict else unavailable))) (\<lambda>v. case v of
       Inst r \<Rightarrow> bind (lift (reserved_checks cm r)) (\<lambda>_. ret r)
     | _ \<Rightarrow> raise unavailable)"

definition checkpoint_checks ::
  "operation_record \<Rightarrow> lifecycle_stage \<Rightarrow> op_evidence option \<Rightarrow> operation_record \<Rightarrow> (exn + bool) list" where
  "checkpoint_checks r next_stage evidence u =
     [Inr (or_schema_version u = LIFECYCLE_OPERATION_SCHEMA_VERSION),
      Inr (or_operation_reference u = or_operation_reference r), Inr (or_operation u = or_operation r),
      Inr (or_customer_id u = or_customer_id r), Inr (or_deployment_id u = or_deployment_id r),
      Inr (or_actor_subject u = or_actor_subject r), Inr (or_idempotency_key u = or_idempotency_key r),
      Inr (digest_pattern (or_request_digest u)),
      compare_digest (or_request_digest u) (or_request_digest r),
      Inr (or_stage u = next_stage), Inr (evidence_well_formed (or_evidence u)),
      Inr (dict_eq (or_evidence u)
             (dict_merge (or_evidence r) (case evidence of Some e \<Rightarrow> e | None \<Rightarrow> []))),
      Inr (or_created_at u = or_created_at r), Inr (is_aware (or_updated_at u)),
      Inr (not_before (or_updated_at u) (or_updated_at r))]"

text \<open>The record and whether this very call applied the checkpoint.\<close>

definition service_checkpoint_outcome ::
  "'w lifecycle_runtime \<Rightarrow> operation_record \<Rightarrow> lifecycle_stage \<Rightarrow> lifecycle_stage \<Rightarrow> op_evidence option
    \<Rightarrow> ('w, operation_record \<times> bool) io" where
  "service_checkpoint_outcome rt r expected next_stage evidence =
     bind (catch (rt_checkpoint_operation rt r expected next_stage evidence) (\<lambda>_. raise unavailable)) (\<lambda>v.
       case v of
         Inst out \<Rightarrow> (case co_record out of
             Inst u \<Rightarrow> bind (lift (demand (checkpoint_checks r next_stage evidence u) unavailable))
                        (\<lambda>_. ret (u, co_applied_here out))
           | _ \<Rightarrow> raise unavailable)
       | _ \<Rightarrow> raise unavailable)"

definition service_checkpoint ::
  "'w lifecycle_runtime \<Rightarrow> operation_record \<Rightarrow> lifecycle_stage \<Rightarrow> lifecycle_stage \<Rightarrow> op_evidence option
    \<Rightarrow> ('w, operation_record) io" where
  "service_checkpoint rt r expected next_stage evidence =
     bind (service_checkpoint_outcome rt r expected next_stage evidence) (\<lambda>(u, _). ret u)"

definition reservation_checks ::
  "effect_reservation \<Rightarrow> effect_reservation \<Rightarrow> (exn + bool) list" where
  "reservation_checks stored requested = map Inr
     [er_schema_version stored = PROVIDER_EFFECT_RESERVATION_SCHEMA_VERSION,
      er_operation stored = er_operation requested, er_customer_id stored = er_customer_id requested,
      er_deployment_id stored = er_deployment_id requested,
      er_target_reference stored = er_target_reference requested,
      er_expected_membership_version stored = er_expected_membership_version requested,
      approval_reference_pattern (er_approval_reference stored),
      digest_pattern (er_request_digest stored), subject_pattern (er_actor_subject stored),
      operation_reference_pattern (er_winner_operation_reference stored),
      is_aware (er_created_at stored)]"

definition service_reserve_effect ::
  "'w lifecycle_runtime \<Rightarrow> effect_reservation \<Rightarrow> ('w, effect_reservation \<times> bool) io" where
  "service_reserve_effect rt requested =
     bind (catch (rt_reserve_provider_effect rt requested) (\<lambda>_. raise unavailable)) (\<lambda>v. case v of
       Inst out \<Rightarrow> (case eo_reservation out of
           Inst stored \<Rightarrow>
             bind (lift (demand (reservation_checks stored requested) unavailable)) (\<lambda>_.
             bind (ensure (\<not> (eo_applied_here out \<and> stored \<noteq> requested)) unavailable) (\<lambda>_.
               ret (stored, eo_applied_here out)))
         | _ \<Rightarrow> raise unavailable)
     | _ \<Rightarrow> raise unavailable)"

section \<open>Evidence of a record\<close>

text \<open>\<open>record.evidence[key]\<close>\<close>

definition evidence_at :: "operation_record \<Rightarrow> string \<Rightarrow> exn + string" where
  "evidence_at r key = (case map_of (or_evidence r) key of Some v \<Rightarrow> Inr v | None \<Rightarrow> Inl (PyExc ''KeyError''))"

definition evidence_int :: "operation_record \<Rightarrow> string \<Rightarrow> exn + int" where
  "evidence_int r key = (case evidence_at r key of
       Inl e \<Rightarrow> Inl e
     | Inr v \<Rightarrow> (case py_int v of Some n \<Rightarrow> Inr n | None \<Rightarrow> Inl (PyExc ''ValueError'')))"

definition state_of_text :: "string \<Rightarrow> exn + membership_state" where
  "state_of_text v = (case of_value membership_state_value membership_state_members v of
       Some s \<Rightarrow> Inr s | None \<Rightarrow> Inl (PyExc ''ValueError''))"

definition role_of_text :: "string \<Rightarrow> exn + human_role" where
  "role_of_text v = (case of_value human_role_value human_role_members v of
       Some s \<Rightarrow> Inr s | None \<Rightarrow> Inl (PyExc ''ValueError''))"

definition provider_identity_of ::
  "operation_record \<Rightarrow> owner \<Rightarrow> string \<Rightarrow> exn + provider_identity" where
  "provider_identity_of r owner key = (case evidence_at r ''subject'' of
       Inl e \<Rightarrow> Inl e
     | Inr s \<Rightarrow> (case evidence_at r ''provider_user_reference'' of
         Inl e \<Rightarrow> Inl e
       | Inr u \<Rightarrow> (case evidence_at r ''provider_principal_key'' of
           Inl e \<Rightarrow> Inl e
         | Inr k \<Rightarrow> Inr \<lparr>pi_subject = s, pi_provider_user_reference = u, pi_provider_principal_key = k,
                        pi_customer_id = fst owner, pi_deployment_id = snd owner,
                        pi_idempotency_key = key\<rparr>)))"

text \<open>\<open>_timestamp(self._now() + timedelta(seconds=...))\<close>\<close>

definition expiry_text :: "datetime \<Rightarrow> int \<Rightarrow> exn + string" where
  "expiry_text now seconds = (let t = add_seconds (instant now) (nat seconds)
     in if t < max_instant then Inr (timestamp_text t) else Inl (PyExc ''OverflowError''))"

section \<open>Approval and the last administrator\<close>

definition approval_checks_before ::
  "approval_query \<Rightarrow> approval_evidence \<Rightarrow> (exn + bool) list" where
  "approval_checks_before q a =
     [Inr (ap_schema_version a = LIFECYCLE_APPROVAL_SCHEMA_VERSION),
      Inr (ap_approval_reference a = aq_approval_reference q), Inr (subject_pattern (ap_approver_subject a)),
      Inr (ap_customer_id a = aq_customer_id q), Inr (ap_deployment_id a = aq_deployment_id q),
      Inr (ap_operation a = aq_operation q),
      compare_digest (ap_target_reference a) (aq_target_reference q),
      compare_digest (ap_request_digest a) (aq_request_digest q),
      Inr (ap_state a = ''approved''), Inr (is_aware (ap_expires_at a))]"

definition resolve_approval ::
  "'w lifecycle_runtime \<Rightarrow> string \<Rightarrow> lifecycle_operation \<Rightarrow> string \<Rightarrow> string \<Rightarrow> string \<Rightarrow> string option
    \<Rightarrow> owner \<Rightarrow> ('w, approval_evidence) io" where
  "resolve_approval rt reference op target digest actor target_subject owner =
     (let query = (\<lambda>now. \<lparr>aq_approval_reference = reference, aq_operation = op, aq_target_reference = target,
            aq_request_digest = digest, aq_customer_id = fst owner, aq_deployment_id = snd owner,
            aq_now = now\<rparr>)
      in bind (catch (bind (service_now rt) (\<lambda>now. bind (rt_resolve_approval rt (query now)) (\<lambda>v. ret (now, v))))
                (\<lambda>_. raise denied)) (\<lambda>(now, v). case v of
           Inst a \<Rightarrow>
             bind (lift (demand (approval_checks_before (query now) a) denied)) (\<lambda>_.
             bind (service_now rt) (\<lambda>later.
             bind (ensure (instant later < instant (ap_expires_at a)
                           \<and> ap_approver_subject a \<noteq> actor
                           \<and> (case target_subject of Some t \<Rightarrow> ap_approver_subject a \<noteq> t | None \<Rightarrow> True)) denied)
               (\<lambda>_. ret a)))
         | _ \<Rightarrow> raise denied))"

definition removes_admin :: "membership_record \<Rightarrow> membership_state \<Rightarrow> human_role \<Rightarrow> bool" where
  "removes_admin m desired_state desired_role \<longleftrightarrow>
     mb_state m = ACTIVE \<and> mb_role_id m = CUSTOMER_ADMIN \<and>
     (desired_state \<noteq> ACTIVE \<or> desired_role \<noteq> CUSTOMER_ADMIN)"

definition active_admin :: "membership_record \<Rightarrow> bool" where
  "active_admin m \<longleftrightarrow> mb_state m = ACTIVE \<and> mb_role_id m = CUSTOMER_ADMIN"

definition require_last_admin_safe ::
  "'w lifecycle_runtime \<Rightarrow> owner \<Rightarrow> membership_record \<Rightarrow> membership_state \<Rightarrow> human_role \<Rightarrow> string option
    \<Rightarrow> ('w, membership_record option) io" where
  "require_last_admin_safe rt owner m desired_state desired_role replacement =
     (if \<not> removes_admin m desired_state desired_role then ret None
      else case replacement of
             None \<Rightarrow> raise conflict
           | Some ref \<Rightarrow> bind (load_owned rt owner ref) (\<lambda>r.
               bind (ensure (mb_membership_reference r \<noteq> mb_membership_reference m \<and> active_admin r) conflict)
                 (\<lambda>_. ret (Some r))))"

section \<open>Audit and completion\<close>

definition evidence_or :: "operation_record \<Rightarrow> string \<Rightarrow> string \<Rightarrow> string" where
  "evidence_or r key fallback = (case map_of (or_evidence r) key of Some v \<Rightarrow> v | None \<Rightarrow> fallback)"

definition lifecycle_decision_id :: "operation_record \<Rightarrow> string" where
  "lifecycle_decision_id r = reference_of
     [or_operation_reference r, lifecycle_operation_value (or_operation r), or_request_digest r]"

definition lifecycle_event :: "operation_record \<Rightarrow> auth_context \<Rightarrow> exn + event" where
  "lifecycle_event r auth =
     (case (case ac_human_authorization auth of Inst sn \<Rightarrow> sn_assurance sn | _ \<Rightarrow> PNone) of
        PEnum cls m assurance \<Rightarrow> (case evidence_at r ''approval_reference'' of
            Inl e \<Rightarrow> Inl e
          | Inr approval \<Rightarrow> (case evidence_at r ''after_membership_version'' of
              Inl e \<Rightarrow> Inl e
            | Inr after \<Rightarrow> Inr
               [(''event_schema_version'', PStr LIFECYCLE_AUDIT_EVENT_SCHEMA_VERSION),
                (''timestamp'', PStr (service_timestamp (or_created_at r))),
                (''decision_id'', PStr (lifecycle_decision_id r)),
                (''principal_type'', PStr ''user''),
                (''principal_reference'', PStr (reference_of [or_actor_subject r])),
                (''customer_reference'', PStr (reference_of [or_customer_id r])),
                (''deployment_reference'', PStr (reference_of [or_deployment_id r])),
                (''action'', PStr (lifecycle_operation_value (or_operation r))),
                (''resource_type'', PStr ''authorization_administration''),
                (''decision'', PStr ''allow''),
                (''reason_code'', PStr (evidence_or r ''reason_code'' ''approved_lifecycle_change'')),
                (''policy_version'', PStr POLICY_VERSION), (''policy_digest'', PStr POLICY_DIGEST),
                (''assurance'', PStr assurance),
                (''correlation_reference'', PStr (reference_of [or_operation_reference r])),
                (''approval_references'', PList [PStr approval]),
                (''before_membership_version'', PStr (evidence_or r ''before_membership_version'' ''0'')),
                (''after_membership_version'', PStr after)]))
      | _ \<Rightarrow> Inl (PyExc ''AttributeError''))"

definition audit_receipt_checks ::
  "string \<Rightarrow> lifecycle_audit_receipt \<Rightarrow> (exn + bool) list" where
  "audit_receipt_checks decision_id rc =
     [Inr (lr_schema_version rc = LIFECYCLE_AUDIT_RECEIPT_SCHEMA_VERSION),
      compare_digest (lr_decision_id rc) decision_id,
      Inr (opaque_reference_pattern (lr_receipt_reference rc)), Inr (is_aware (lr_acknowledged_at rc))]"

definition audit_step ::
  "'w lifecycle_runtime \<Rightarrow> operation_record \<Rightarrow> auth_context \<Rightarrow> ('w, operation_record) io" where
  "audit_step rt r auth = bind (lift (lifecycle_event r auth)) (\<lambda>e.
     bind (catch (rt_emit_audit rt e) (\<lambda>_. raise unavailable)) (\<lambda>v. case v of
       Inst rc \<Rightarrow>
         bind (lift (demand (audit_receipt_checks (lifecycle_decision_id r) rc) unavailable)) (\<lambda>_.
         bind (service_now rt) (\<lambda>now.
         bind (ensure (not_before now (lr_acknowledged_at rc)) unavailable) (\<lambda>_.
           service_checkpoint rt r (or_stage r) AUDIT_COMMITTED
             (Some [(''audit_receipt_reference'', lr_receipt_reference rc)]))))
     | _ \<Rightarrow> raise unavailable))"

definition completed_outcome :: "operation_record \<Rightarrow> lifecycle_outcome" where
  "completed_outcome r = \<lparr>lo_status = ''completed'', lo_operation_reference = or_operation_reference r\<rparr>"

definition audit_and_complete ::
  "'w lifecycle_runtime \<Rightarrow> operation_record \<Rightarrow> auth_context \<Rightarrow> ('w, lifecycle_outcome) io" where
  "audit_and_complete rt r0 auth =
     bind (if or_stage r0 \<in> {MEMBERSHIP_APPLIED, SESSIONS_REVOKED} then audit_step rt r0 auth else ret r0) (\<lambda>r1.
     bind (if or_stage r1 = AUDIT_COMMITTED then service_checkpoint rt r1 AUDIT_COMMITTED COMPLETED None
           else ret r1) (\<lambda>r2.
     bind (ensure (or_stage r2 = COMPLETED) unavailable) (\<lambda>_. ret (completed_outcome r2))))"

section \<open>Effects of a transition\<close>

definition provider_first :: "lifecycle_operation \<Rightarrow> bool" where
  "provider_first op \<longleftrightarrow> op \<in> {ACTIVATE, REACTIVATE}"

definition provider_last :: "lifecycle_operation \<Rightarrow> bool" where
  "provider_last op \<longleftrightarrow> op \<in> {SUSPEND, REVOKE}"

definition effect_order :: "lifecycle_operation \<Rightarrow> string" where
  "effect_order op = (if provider_first op then ''provider_before_membership''
     else if provider_last op then ''membership_before_provider'' else ''membership_only'')"

definition provider_call ::
  "'w lifecycle_runtime \<Rightarrow> lifecycle_operation \<Rightarrow> provider_identity \<Rightarrow> ('w, provider_receipt pyref) io" where
  "provider_call rt op who = (if op = ACTIVATE then rt_confirm_activation rt who
     else rt_set_user_enabled rt who (op = REACTIVATE))"

definition apply_provider_effect ::
  "'w lifecycle_runtime \<Rightarrow> operation_record \<Rightarrow> lifecycle_operation \<Rightarrow> owner \<Rightarrow> string \<Rightarrow> lifecycle_stage
    \<Rightarrow> ('w, operation_record) io" where
  "apply_provider_effect rt r op owner key expected =
     (if op \<notin> {ACTIVATE, SUSPEND, REVOKE, REACTIVATE} then raise unavailable
      else bind (catch (bind (lift (provider_identity_of r owner key)) (provider_call rt op))
                   (\<lambda>_. raise unavailable)) (\<lambda>v.
           bind (lift (evidence_at r ''subject'')) (\<lambda>subject.
           bind (lift (evidence_at r ''provider_user_reference'')) (\<lambda>reference.
           bind (lift (validate_provider_receipt v
                   (if op \<in> {ACTIVATE, REACTIVATE} then ''active'' else ''disabled'')
                   None (Some subject) (Some reference))) (\<lambda>_.
             service_checkpoint rt r expected PROVIDER_APPLIED None)))))"

text \<open>The replacement administrator a transition recorded, checked again before the write.\<close>

definition recorded_replacement ::
  "'w lifecycle_runtime \<Rightarrow> operation_record \<Rightarrow> owner \<Rightarrow> ('w, membership_record option) io" where
  "recorded_replacement rt r owner =
     (let ref = evidence_or r ''admin_replacement_reference'' []
      in if ref = [] then ret None
         else bind (load_owned rt owner ref) (\<lambda>m.
           bind (ensure (active_admin m \<and> map_of (or_evidence r) ''admin_replacement_version''
                           = Some (show_int (mb_membership_version m))) conflict) (\<lambda>_. ret (Some m))))"

definition write_transition ::
  "'w lifecycle_runtime \<Rightarrow> operation_record \<Rightarrow> membership_record \<Rightarrow> int \<Rightarrow> membership_state \<Rightarrow> human_role
    \<Rightarrow> membership_record option \<Rightarrow> ('w, membership_record pyref) io" where
  "write_transition rt r current before_version after_state after_role replacement =
     catch (bind (lift (case evidence_at r ''expected_state'' of Inl e \<Rightarrow> Inl e | Inr v \<Rightarrow> state_of_text v))
              (\<lambda>expected. rt_transition_membership rt
                 \<lparr>tq_current = current, tq_expected_state = expected, tq_expected_version = before_version,
                  tq_next_state = after_state, tq_next_role = after_role,
                  tq_operation_reference = or_operation_reference r, tq_admin_replacement = replacement\<rparr>))
       (\<lambda>_. raise conflict)"

definition apply_membership_effect ::
  "'w lifecycle_runtime \<Rightarrow> operation_record \<Rightarrow> owner \<Rightarrow> lifecycle_stage \<Rightarrow> ('w, operation_record) io" where
  "apply_membership_effect rt r owner expected =
     bind (lift (evidence_at r ''membership_reference'')) (\<lambda>ref.
     bind (load_owned rt owner ref) (\<lambda>current.
     bind (lift (evidence_int r ''before_membership_version'')) (\<lambda>before_version.
     bind (lift (case evidence_at r ''desired_state'' of Inl e \<Rightarrow> Inl e | Inr v \<Rightarrow> state_of_text v)) (\<lambda>after_state.
     bind (lift (case evidence_at r ''after_role_id'' of Inl e \<Rightarrow> Inl e | Inr v \<Rightarrow> role_of_text v)) (\<lambda>after_role.
     bind (if mb_membership_version current = before_version + 1 \<and> mb_state current = after_state
              \<and> mb_role_id current = after_role
           then ret (Inst current)
           else bind (recorded_replacement rt r owner)
                  (write_transition rt r current before_version after_state after_role)) (\<lambda>v.
     bind (lift (validate_membership v owner)) (\<lambda>updated.
       service_checkpoint rt r expected MEMBERSHIP_APPLIED
         (Some [(''after_membership_version'', show_int (mb_membership_version updated))]))))))))"

section \<open>Transitions\<close>

fun allowed_transition :: "lifecycle_operation \<Rightarrow> (membership_state \<times> membership_state) option" where
  "allowed_transition ACTIVATE = Some (INVITED, ACTIVE)"
| "allowed_transition SUSPEND = Some (ACTIVE, SUSPENDED)"
| "allowed_transition REACTIVATE = Some (SUSPENDED, ACTIVE)"
| "allowed_transition REVOKE = Some (ACTIVE, REVOKED)"
| "allowed_transition op = None"

text \<open>Expected state, desired state and desired role, or the refusal.\<close>

definition transition_plan ::
  "lifecycle_operation \<Rightarrow> membership_record \<Rightarrow> human_role option
    \<Rightarrow> exn + (membership_state \<times> membership_state \<times> human_role)" where
  "transition_plan op m next_role =
     (if op = CHANGE_ROLE then
        (case next_role of None \<Rightarrow> Inl conflict
         | Some role \<Rightarrow> if role = mb_role_id m then Inl conflict else Inr (ACTIVE, ACTIVE, role))
      else if op = REVOKE_SESSIONS then
        (if mb_state m \<notin> {ACTIVE, SUSPENDED} then Inl conflict
         else Inr (mb_state m, mb_state m, mb_role_id m))
      else (case allowed_transition op of None \<Rightarrow> Inl (PyExc ''KeyError'')
            | Some (expected, desired) \<Rightarrow> if mb_state m \<noteq> expected then Inl conflict
                else Inr (expected, desired, mb_role_id m)))"

definition invitation_open :: "'w lifecycle_runtime \<Rightarrow> lifecycle_operation \<Rightarrow> membership_record \<Rightarrow> ('w, unit) io" where
  "invitation_open rt op m = (if op \<noteq> ACTIVATE then ret ()
     else case mb_invitation_expires_at m of
            Some t \<Rightarrow> if \<not> is_aware t then raise conflict
                      else bind (service_now rt) (\<lambda>now. ensure (instant now < instant t) conflict)
          | None \<Rightarrow> raise conflict)"

definition transition_evidence ::
  "lifecycle_operation \<Rightarrow> approval_evidence \<Rightarrow> membership_record \<Rightarrow> membership_state \<Rightarrow> membership_state
    \<Rightarrow> human_role \<Rightarrow> string \<Rightarrow> membership_record option \<Rightarrow> op_evidence" where
  "transition_evidence op a m expected desired role reason replacement =
     [(''approval_reference'', ap_approval_reference a),
      (''membership_reference'', mb_membership_reference m), (''subject'', mb_subject m),
      (''provider_user_reference'', mb_provider_user_reference m),
      (''provider_principal_key'', mb_provider_principal_key m),
      (''expected_state'', membership_state_value expected),
      (''desired_state'', membership_state_value desired),
      (''before_role_id'', human_role_value (mb_role_id m)), (''after_role_id'', human_role_value role),
      (''before_membership_version'', show_int (mb_membership_version m)), (''reason_code'', reason),
      (''effect_order'', effect_order op)]
     @ (case replacement of None \<Rightarrow> []
        | Some p \<Rightarrow> [(''admin_replacement_reference'', mb_membership_reference p),
                     (''admin_replacement_version'', show_int (mb_membership_version p))])"

text \<open>The block of the stage \<open>RESERVED\<close>: decide, get the approval, record the decision.\<close>

definition transition_validate ::
  "'w lifecycle_runtime \<Rightarrow> auth_context \<Rightarrow> owner \<Rightarrow> string \<Rightarrow> 'a transition_request_scheme
    \<Rightarrow> lifecycle_operation \<Rightarrow> human_role option \<Rightarrow> operation_record \<Rightarrow> ('w, operation_record) io" where
  "transition_validate rt auth owner ref req op next_role r =
     bind (load_owned rt owner ref) (\<lambda>m.
     bind (ensure (\<not> py_eq (ac_subject auth) (PStr (mb_subject m))) denied) (\<lambda>_.
     bind (ensure (mb_membership_version m = tr_expected_membership_version req) conflict) (\<lambda>_.
     bind (lift (transition_plan op m next_role)) (\<lambda>(expected, desired, role).
     bind (invitation_open rt op m) (\<lambda>_.
     bind (require_last_admin_safe rt owner m desired role (tr_replacement_membership_reference req))
       (\<lambda>replacement.
     bind (resolve_approval rt (tr_approval_reference req) op (mb_membership_reference m)
             (or_request_digest r) (py_str (ac_subject auth)) (Some (mb_subject m)) owner) (\<lambda>a.
       service_checkpoint rt r RESERVED APPROVAL_VALIDATED
         (Some (transition_evidence op a m expected desired role (tr_reason_code req) replacement)))))))))"

definition session_ready_stage :: "lifecycle_operation \<Rightarrow> lifecycle_stage" where
  "session_ready_stage op = (if provider_last op then PROVIDER_APPLIED else MEMBERSHIP_APPLIED)"

definition session_step ::
  "'w lifecycle_runtime \<Rightarrow> lifecycle_operation \<Rightarrow> owner \<Rightarrow> string \<Rightarrow> operation_record \<Rightarrow> ('w, operation_record) io" where
  "session_step rt op owner key r =
     (if \<not> (or_stage r = session_ready_stage op \<and> op \<noteq> ACTIVATE) then ret r
      else bind (catch (bind (lift (provider_identity_of r owner key)) (rt_revoke_sessions rt))
                   (\<lambda>_. raise unavailable)) (\<lambda>v.
           bind (ensure (str_sat opaque_reference_pattern v) unavailable) (\<lambda>_.
             service_checkpoint rt r (session_ready_stage op) SESSIONS_REVOKED
               (Some [(''session_revocation_reference'', the (str_view v))]))))"

text \<open>The effects after the approval, each under the stage at which it is due.\<close>

definition transition_effects ::
  "'w lifecycle_runtime \<Rightarrow> lifecycle_operation \<Rightarrow> owner \<Rightarrow> string \<Rightarrow> operation_record \<Rightarrow> ('w, operation_record) io" where
  "transition_effects rt op owner key r0 =
     bind (if or_stage r0 \<noteq> APPROVAL_VALIDATED then ret r0
           else if provider_first op then apply_provider_effect rt r0 op owner key APPROVAL_VALIDATED
           else apply_membership_effect rt r0 owner APPROVAL_VALIDATED) (\<lambda>r1.
     bind (if provider_first op \<and> or_stage r1 = PROVIDER_APPLIED
           then apply_membership_effect rt r1 owner PROVIDER_APPLIED else ret r1) (\<lambda>r2.
     bind (if provider_last op \<and> or_stage r2 = MEMBERSHIP_APPLIED
           then apply_provider_effect rt r2 op owner key MEMBERSHIP_APPLIED else ret r2) (\<lambda>r3.
       session_step rt op owner key r3)))"

definition transition_resume ::
  "'w lifecycle_runtime \<Rightarrow> auth_context \<Rightarrow> owner \<Rightarrow> string \<Rightarrow> 'a transition_request_scheme
    \<Rightarrow> lifecycle_operation \<Rightarrow> string \<Rightarrow> human_role option \<Rightarrow> operation_record \<Rightarrow> ('w, lifecycle_outcome) io" where
  "transition_resume rt auth owner ref req op key next_role r0 =
     (if or_stage r0 = COMPLETED then ret (completed_outcome r0)
      else
        bind (if or_stage r0 = RESERVED then transition_validate rt auth owner ref req op next_role r0
              else ret r0) (\<lambda>r1.
        bind (ensure (\<not> (or_stage r1 \<noteq> RESERVED
                \<and> map_of (or_evidence r1) ''effect_order'' \<noteq> Some (effect_order op))) unavailable) (\<lambda>_.
        bind (transition_effects rt op owner key r1) (\<lambda>r2. audit_and_complete rt r2 auth))))"

definition transition ::
  "'w lifecycle_runtime \<Rightarrow> auth_context \<Rightarrow> string \<Rightarrow> 'a transition_request_scheme
    \<Rightarrow> lifecycle_operation \<Rightarrow> string \<Rightarrow> human_role option \<Rightarrow> ('w, lifecycle_outcome) io" where
  "transition rt auth ref req op key next_role =
     bind (require_admin rt auth True) (\<lambda>owner.
     bind (ensure (membership_reference_pattern ref) not_found) (\<lambda>_.
     bind (lift (lifecycle_command_of op auth key (transition_payload ref req next_role))) (\<lambda>cm.
     bind (reserve rt cm) (\<lambda>r. transition_resume rt auth owner ref req op key next_role r))))"

definition activate_membership :: "'w lifecycle_runtime \<Rightarrow> auth_context \<Rightarrow> string \<Rightarrow> transition_request
    \<Rightarrow> string \<Rightarrow> ('w, lifecycle_outcome) io" where
  "activate_membership rt auth ref req key = transition rt auth ref req ACTIVATE key None"

definition suspend_membership :: "'w lifecycle_runtime \<Rightarrow> auth_context \<Rightarrow> string \<Rightarrow> transition_request
    \<Rightarrow> string \<Rightarrow> ('w, lifecycle_outcome) io" where
  "suspend_membership rt auth ref req key = transition rt auth ref req SUSPEND key None"

definition reactivate_membership :: "'w lifecycle_runtime \<Rightarrow> auth_context \<Rightarrow> string \<Rightarrow> transition_request
    \<Rightarrow> string \<Rightarrow> ('w, lifecycle_outcome) io" where
  "reactivate_membership rt auth ref req key = transition rt auth ref req REACTIVATE key None"

definition revoke_membership :: "'w lifecycle_runtime \<Rightarrow> auth_context \<Rightarrow> string \<Rightarrow> transition_request
    \<Rightarrow> string \<Rightarrow> ('w, lifecycle_outcome) io" where
  "revoke_membership rt auth ref req key = transition rt auth ref req REVOKE key None"

definition change_role :: "'w lifecycle_runtime \<Rightarrow> auth_context \<Rightarrow> string \<Rightarrow> role_change_request
    \<Rightarrow> string \<Rightarrow> ('w, lifecycle_outcome) io" where
  "change_role rt auth ref req key = transition rt auth ref req CHANGE_ROLE key (Some (rc_role_id req))"

definition revoke_sessions :: "'w lifecycle_runtime \<Rightarrow> auth_context \<Rightarrow> string \<Rightarrow> transition_request
    \<Rightarrow> string \<Rightarrow> ('w, lifecycle_outcome) io" where
  "revoke_sessions rt auth ref req key = transition rt auth ref req REVOKE_SESSIONS key None"

end
