(* ===== verification/LifecycleInvitations.thy ===== *)
theory LifecycleInvitations
  imports LifecycleService
begin

text \<open>
  The invitation paths of \<open>UserLifecycleService\<close> (\<open>invite_user\<close>, \<open>resend_invitation\<close>) and its two
  listings, again one definition per stage block.
\<close>

section \<open>Inviting a user\<close>

definition invite_validate ::
  "'w lifecycle_runtime \<Rightarrow> auth_context \<Rightarrow> owner \<Rightarrow> invitation_request \<Rightarrow> operation_record
    \<Rightarrow> ('w, operation_record) io" where
  "invite_validate rt auth owner req r =
     (let target = digest_of (iv_principal_locator req)
      in bind (resolve_approval rt (iv_approval_reference req) INVITE target (or_request_digest r)
                (py_str (ac_subject auth)) None owner) (\<lambda>a.
         bind (service_now rt) (\<lambda>now.
         bind (lift (expiry_text now (iv_expires_in_seconds req))) (\<lambda>expires.
           service_checkpoint rt r RESERVED APPROVAL_VALIDATED
             (Some [(''approval_reference'', ap_approval_reference a), (''target_reference'', target),
                    (''role_id'', human_role_value (iv_role_id req)), (''expires_at'', expires)])))))"

definition invite_provider ::
  "'w lifecycle_runtime \<Rightarrow> owner \<Rightarrow> invitation_request \<Rightarrow> string \<Rightarrow> operation_record
    \<Rightarrow> ('w, operation_record) io" where
  "invite_provider rt owner req key r =
     (let target = digest_of (iv_principal_locator req);
          query = \<lparr>iq_principal_locator = iv_principal_locator req, iq_principal_locator_digest = target,
                   iq_customer_id = fst owner, iq_deployment_id = snd owner, iq_idempotency_key = key\<rparr>
      in bind (catch (rt_invite_user rt query) (\<lambda>_. raise unavailable)) (\<lambda>v.
         bind (lift (validate_provider_receipt v ''invited'' (Some target) None None)) (\<lambda>p.
           service_checkpoint rt r APPROVAL_VALIDATED PROVIDER_APPLIED
             (Some [(''subject'', pr_subject p), (''provider_user_reference'', pr_provider_user_reference p),
                    (''provider_principal_key'', pr_provider_principal_key p),
                    (''principal_locator_digest'', pr_principal_locator_digest p)]))))"

text \<open>The receipt as the evidence of the record has it.\<close>

definition recorded_receipt :: "operation_record \<Rightarrow> exn + provider_receipt" where
  "recorded_receipt r = (case evidence_at r ''subject'' of
       Inl e \<Rightarrow> Inl e
     | Inr s \<Rightarrow> (case evidence_at r ''provider_user_reference'' of
         Inl e \<Rightarrow> Inl e
       | Inr u \<Rightarrow> (case evidence_at r ''provider_principal_key'' of
           Inl e \<Rightarrow> Inl e
         | Inr k \<Rightarrow> (case evidence_at r ''principal_locator_digest'' of
             Inl e \<Rightarrow> Inl e
           | Inr d \<Rightarrow> Inr \<lparr>pr_subject = s, pr_provider_user_reference = u, pr_provider_principal_key = k,
                          pr_principal_locator_digest = d, pr_state = ''invited''\<rparr>))))"

text \<open>\<open>_parse_timestamp(record.evidence.get("expires_at"))\<close>, which must succeed.\<close>

definition recorded_expiry :: "operation_record \<Rightarrow> exn + datetime" where
  "recorded_expiry r = (case service_parse_timestamp (map_of (or_evidence r) ''expires_at'') of
       Inl e \<Rightarrow> Inl e
     | Inr None \<Rightarrow> Inl unavailable
     | Inr (Some t) \<Rightarrow> Inr t)"

definition invite_membership ::
  "'w lifecycle_runtime \<Rightarrow> owner \<Rightarrow> operation_record \<Rightarrow> ('w, operation_record) io" where
  "invite_membership rt owner r =
     bind (lift (recorded_receipt r)) (\<lambda>p.
     bind (lift (recorded_expiry r)) (\<lambda>expires.
     bind (catch (bind (lift (case evidence_at r ''role_id'' of Inl e \<Rightarrow> Inl e | Inr v \<Rightarrow> role_of_text v))
                    (\<lambda>role. rt_create_invited_membership rt owner p role expires (or_operation_reference r)))
             (\<lambda>_. raise unavailable)) (\<lambda>v.
     bind (lift (validate_membership v owner)) (\<lambda>m.
     bind (ensure (mb_state m = INVITED) unavailable) (\<lambda>_.
       service_checkpoint rt r PROVIDER_APPLIED MEMBERSHIP_APPLIED
         (Some [(''membership_reference'', mb_membership_reference m),
                (''before_membership_version'', ''0''),
                (''after_membership_version'', show_int (mb_membership_version m)),
                (''reason_code'', ''invitation_created'')]))))))"

definition invite_resume ::
  "'w lifecycle_runtime \<Rightarrow> auth_context \<Rightarrow> owner \<Rightarrow> invitation_request \<Rightarrow> string \<Rightarrow> operation_record
    \<Rightarrow> ('w, lifecycle_outcome) io" where
  "invite_resume rt auth owner req key r0 =
     (if or_stage r0 = COMPLETED then ret (completed_outcome r0)
      else
        bind (if or_stage r0 = RESERVED then invite_validate rt auth owner req r0 else ret r0) (\<lambda>r1.
        bind (if or_stage r1 = APPROVAL_VALIDATED then invite_provider rt owner req key r1 else ret r1) (\<lambda>r2.
        bind (if or_stage r2 = PROVIDER_APPLIED then invite_membership rt owner r2 else ret r2) (\<lambda>r3.
          audit_and_complete rt r3 auth))))"

definition invite_user ::
  "'w lifecycle_runtime \<Rightarrow> auth_context \<Rightarrow> invitation_request \<Rightarrow> string \<Rightarrow> ('w, lifecycle_outcome) io" where
  "invite_user rt auth req key =
     bind (require_admin rt auth True) (\<lambda>owner.
     bind (lift (lifecycle_command_of INVITE auth key (invitation_payload req))) (\<lambda>cm.
     bind (reserve rt cm) (\<lambda>r. invite_resume rt auth owner req key r)))"

section \<open>Resending an invitation\<close>

definition resend_evidence ::
  "approval_evidence \<Rightarrow> membership_record \<Rightarrow> string \<Rightarrow> string \<Rightarrow> op_evidence" where
  "resend_evidence a m expires reason =
     [(''approval_reference'', ap_approval_reference a),
      (''membership_reference'', mb_membership_reference m), (''subject'', mb_subject m),
      (''provider_user_reference'', mb_provider_user_reference m),
      (''provider_principal_key'', mb_provider_principal_key m),
      (''expected_state'', membership_state_value INVITED),
      (''desired_state'', membership_state_value INVITED),
      (''before_role_id'', human_role_value (mb_role_id m)),
      (''after_role_id'', human_role_value (mb_role_id m)),
      (''before_membership_version'', show_int (mb_membership_version m)),
      (''expires_at'', expires), (''reason_code'', reason),
      (''effect_order'', ''provider_before_membership'')]"

definition resend_validate ::
  "'w lifecycle_runtime \<Rightarrow> auth_context \<Rightarrow> owner \<Rightarrow> string \<Rightarrow> resend_request \<Rightarrow> operation_record
    \<Rightarrow> ('w, operation_record) io" where
  "resend_validate rt auth owner ref req r =
     bind (load_owned rt owner ref) (\<lambda>m.
     bind (ensure (\<not> py_eq (ac_subject auth) (PStr (mb_subject m))) denied) (\<lambda>_.
     bind (ensure (mb_state m = INVITED
                   \<and> mb_membership_version m = tr_expected_membership_version req) conflict) (\<lambda>_.
     bind (resolve_approval rt (tr_approval_reference req) RESEND_INVITATION (mb_membership_reference m)
             (or_request_digest r) (py_str (ac_subject auth)) (Some (mb_subject m)) owner) (\<lambda>a.
     bind (service_now rt) (\<lambda>now.
     bind (lift (expiry_text now (rs_expires_in_seconds req))) (\<lambda>expires.
       service_checkpoint rt r RESERVED APPROVAL_VALIDATED
         (Some (resend_evidence a m expires (tr_reason_code req)))))))))"

text \<open>
  The claim on the effect: the reservation must be this call's own. The result says whether
  the checkpoint was applied here as well.
\<close>

definition resend_claim ::
  "'w lifecycle_runtime \<Rightarrow> string \<Rightarrow> resend_request \<Rightarrow> operation_record \<Rightarrow> ('w, operation_record \<times> bool) io" where
  "resend_claim rt ref req r =
     bind (ensure (map_of (or_evidence r) ''membership_reference'' = Some ref
             \<and> map_of (or_evidence r) ''before_membership_version''
                 = Some (show_int (tr_expected_membership_version req))
             \<and> map_of (or_evidence r) ''approval_reference'' = Some (tr_approval_reference req))
             unavailable) (\<lambda>_.
     bind (service_now rt) (\<lambda>now.
     bind (service_reserve_effect rt
             (effect_reservation_new r ref (tr_expected_membership_version req)
                (tr_approval_reference req) now)) (\<lambda>(stored, applied_here).
     bind (ensure applied_here unavailable) (\<lambda>_.
       service_checkpoint_outcome rt r APPROVAL_VALIDATED PROVIDER_EFFECT_RESERVED
         (Some [(''provider_effect_reference'',
                 reference_of [or_operation_reference r, ''invitation_resend''])])))))"

definition resend_effect ::
  "'w lifecycle_runtime \<Rightarrow> owner \<Rightarrow> string \<Rightarrow> operation_record \<Rightarrow> bool \<Rightarrow> ('w, operation_record) io" where
  "resend_effect rt owner key r reserved_here =
     bind (ensure reserved_here unavailable) (\<lambda>_.
     bind (catch (bind (lift (provider_identity_of r owner key)) (rt_resend_invitation rt))
             (\<lambda>_. raise unavailable)) (\<lambda>v.
     bind (lift (evidence_at r ''subject'')) (\<lambda>subject.
     bind (lift (evidence_at r ''provider_user_reference'')) (\<lambda>reference.
     bind (lift (validate_provider_receipt v ''invited'' None (Some subject) (Some reference))) (\<lambda>_.
       service_checkpoint rt r PROVIDER_EFFECT_RESERVED PROVIDER_APPLIED None)))))"

definition resend_membership ::
  "'w lifecycle_runtime \<Rightarrow> owner \<Rightarrow> operation_record \<Rightarrow> ('w, operation_record) io" where
  "resend_membership rt owner r =
     bind (lift (evidence_at r ''membership_reference'')) (\<lambda>ref.
     bind (load_owned rt owner ref) (\<lambda>current.
     bind (lift (evidence_int r ''before_membership_version'')) (\<lambda>before_version.
     bind (lift (recorded_expiry r)) (\<lambda>expires.
     bind (if mb_membership_version current = before_version + 1 \<and> mb_state current = INVITED
              \<and> mb_invitation_expires_at current = Some expires
           then ret (Inst current)
           else catch (rt_refresh_invitation rt current before_version expires (or_operation_reference r))
                  (\<lambda>_. raise conflict)) (\<lambda>v.
     bind (lift (validate_membership v owner)) (\<lambda>updated.
     bind (ensure (mb_state updated = INVITED \<and> mb_membership_version updated = before_version + 1
             \<and> mb_invitation_expires_at updated = Some expires) conflict) (\<lambda>_.
       service_checkpoint rt r PROVIDER_APPLIED MEMBERSHIP_APPLIED
         (Some [(''after_membership_version'', show_int (mb_membership_version updated))]))))))))"

definition resend_resume ::
  "'w lifecycle_runtime \<Rightarrow> auth_context \<Rightarrow> owner \<Rightarrow> string \<Rightarrow> resend_request \<Rightarrow> string \<Rightarrow> operation_record
    \<Rightarrow> ('w, lifecycle_outcome) io" where
  "resend_resume rt auth owner ref req key r0 =
     (if or_stage r0 = COMPLETED then ret (completed_outcome r0)
      else
        bind (if or_stage r0 = RESERVED then resend_validate rt auth owner ref req r0 else ret r0) (\<lambda>r1.
        bind (ensure (\<not> (or_stage r1 \<noteq> RESERVED
                \<and> map_of (or_evidence r1) ''effect_order'' \<noteq> Some ''provider_before_membership'')) unavailable)
          (\<lambda>_.
        bind (if or_stage r1 = APPROVAL_VALIDATED then resend_claim rt ref req r1 else ret (r1, False))
          (\<lambda>(r2, reserved_here).
        bind (if or_stage r2 = PROVIDER_EFFECT_RESERVED then resend_effect rt owner key r2 reserved_here
              else ret r2) (\<lambda>r3.
        bind (if or_stage r3 = PROVIDER_APPLIED then resend_membership rt owner r3 else ret r3) (\<lambda>r4.
          audit_and_complete rt r4 auth))))))"

definition resend_invitation ::
  "'w lifecycle_runtime \<Rightarrow> auth_context \<Rightarrow> string \<Rightarrow> resend_request \<Rightarrow> string \<Rightarrow> ('w, lifecycle_outcome) io" where
  "resend_invitation rt auth ref req key =
     bind (require_admin rt auth True) (\<lambda>owner.
     bind (ensure (membership_reference_pattern ref) not_found) (\<lambda>_.
     bind (ensure (tr_replacement_membership_reference req = None) invalid_request) (\<lambda>_.
     bind (lift (lifecycle_command_of RESEND_INVITATION auth key (resend_payload ref req))) (\<lambda>cm.
     bind (reserve rt cm) (\<lambda>r. resend_resume rt auth owner ref req key r)))))"

section \<open>Listings\<close>

definition cursor_ok :: "string option \<Rightarrow> bool" where
  "cursor_ok c = (case c of Some s \<Rightarrow> cursor_pattern s | None \<Rightarrow> True)"

text \<open>\<open>isinstance(limit, int) and not isinstance(limit, bool) and 1 <= limit <= 100\<close>\<close>

definition limit_ok :: "pyval \<Rightarrow> bool" where
  "limit_ok v = (case v of PInt n \<Rightarrow> 1 \<le> n \<and> n \<le> 100 | _ \<Rightarrow> False)"

fun validate_members :: "membership_record pyref list \<Rightarrow> owner \<Rightarrow> exn + unit" where
  "validate_members [] owner = Inr ()"
| "validate_members (v # vs) owner = (case validate_membership v owner of
     Inl e \<Rightarrow> Inl e | Inr _ \<Rightarrow> validate_members vs owner)"

definition service_list_memberships ::
  "'w lifecycle_runtime \<Rightarrow> auth_context \<Rightarrow> membership_state option \<Rightarrow> string option \<Rightarrow> pyval
    \<Rightarrow> ('w, membership_page) io" where
  "service_list_memberships rt auth state cursor limit =
     bind (require_admin rt auth False) (\<lambda>owner.
     bind (ensure (cursor_ok cursor) invalid_request) (\<lambda>_.
     bind (ensure (limit_ok limit) invalid_request) (\<lambda>_.
     bind (catch (rt_list_memberships rt owner state cursor (int_of limit)) (\<lambda>_. raise unavailable)) (\<lambda>v.
       case v of
         Inst page \<Rightarrow>
           bind (ensure (cursor_ok (mp_next_cursor page)) unavailable) (\<lambda>_.
           bind (lift (validate_members (mp_items page) owner)) (\<lambda>_. ret page))
       | _ \<Rightarrow> raise unavailable))))"

definition audit_event_ok :: "lifecycle_audit_event pyref \<Rightarrow> bool" where
  "audit_event_ok v = (case v of
       Inst e \<Rightarrow> opaque_reference_pattern (le_event_reference e) \<and> is_aware (le_timestamp e) \<and>
         le_decision e \<in> {''allow'', ''deny''} \<and> reason_pattern (le_reason_code e) \<and>
         opaque_reference_pattern (le_principal_reference e) \<and>
         opaque_reference_pattern (le_correlation_reference e) \<and>
         py_isdigit (le_before_membership_version e) \<and> py_isdigit (le_after_membership_version e)
     | _ \<Rightarrow> False)"

definition service_list_audit_events ::
  "'w lifecycle_runtime \<Rightarrow> auth_context \<Rightarrow> string option \<Rightarrow> pyval \<Rightarrow> ('w, lifecycle_audit_page) io" where
  "service_list_audit_events rt auth cursor limit =
     bind (require_lifecycle_reader rt auth) (\<lambda>owner.
     bind (ensure (cursor_ok cursor) invalid_request) (\<lambda>_.
     bind (ensure (limit_ok limit) invalid_request) (\<lambda>_.
       case rt_list_events rt of
         None \<Rightarrow> raise unavailable
       | Some list_events \<Rightarrow>
           bind (catch (list_events owner cursor (int_of limit)) (\<lambda>_. raise unavailable)) (\<lambda>v. case v of
             Inst page \<Rightarrow>
               bind (ensure (cursor_ok (lp_next_cursor page)) unavailable) (\<lambda>_.
               bind (ensure (list_all audit_event_ok (lp_items page)) unavailable) (\<lambda>_. ret page))
           | _ \<Rightarrow> raise unavailable))))"

end
