(* ===== verification/LifecycleTrace.thy ===== *)
theory LifecycleTrace
  imports LifecycleInvitations
begin

text \<open>
  The observable effects of a service call, in their order. \<open>logged rt\<close> is the runtime \<open>rt\<close> over a
  world that also keeps a list of the effects requested so far (approval lookups, claims,
  membership writes, provider calls, audit events), each where the code issues it. A property
  of the effects of a call is a predicate on the list it appends (\<open>runs\<close>); \<open>within\<close> says that
  the appended effects have strictly increasing ranks in an interval, so that each occurs at
  most once and in the order of the ranks.
\<close>

datatype effect =
    ResolveApproval approval_query "exn + approval_evidence pyref"
  | ReserveEffect effect_reservation "exn + effect_outcome pyref"
  | WriteMembership transition_query
  | CreateMembership owner provider_receipt
  | RefreshInvitation membership_record
  | ProviderInvite invite_query
  | ProviderResend provider_identity
  | ProviderConfirm provider_identity
  | ProviderEnable provider_identity bool
  | ProviderSignOut provider_identity
  | EmitAudit event

type_synonym 'w logging = "'w \<times> effect list"

definition unlogged :: "('w, 'a) io \<Rightarrow> ('w logging, 'a) io" where
  "unlogged m = (\<lambda>(w, l). case m w of (r, w') \<Rightarrow> (r, (w', l)))"

definition recorded :: "(exn + 'a \<Rightarrow> effect) \<Rightarrow> ('w, 'a) io \<Rightarrow> ('w logging, 'a) io" where
  "recorded e m = (\<lambda>(w, l). case m w of (r, w') \<Rightarrow> (r, (w', l @ [e r])))"

definition logged :: "'w lifecycle_runtime \<Rightarrow> 'w logging lifecycle_runtime" where
  "logged rt =
     \<lparr>rt_reserve_operation = (\<lambda>cm. unlogged (rt_reserve_operation rt cm)),
      rt_reserve_provider_effect = (\<lambda>x. recorded (ReserveEffect x) (rt_reserve_provider_effect rt x)),
      rt_checkpoint_operation = (\<lambda>r a b ev. unlogged (rt_checkpoint_operation rt r a b ev)),
      rt_list_memberships = (\<lambda>o1 s c n. unlogged (rt_list_memberships rt o1 s c n)),
      rt_load_membership = (\<lambda>o1 ref. unlogged (rt_load_membership rt o1 ref)),
      rt_create_invited_membership = (\<lambda>o1 p role t ref. recorded (\<lambda>_. CreateMembership o1 p)
         (rt_create_invited_membership rt o1 p role t ref)),
      rt_transition_membership = (\<lambda>q. recorded (\<lambda>_. WriteMembership q) (rt_transition_membership rt q)),
      rt_refresh_invitation = (\<lambda>m n t ref. recorded (\<lambda>_. RefreshInvitation m) (rt_refresh_invitation rt m n t ref)),
      rt_invite_user = (\<lambda>q. recorded (\<lambda>_. ProviderInvite q) (rt_invite_user rt q)),
      rt_resend_invitation = (\<lambda>p. recorded (\<lambda>_. ProviderResend p) (rt_resend_invitation rt p)),
      rt_confirm_activation = (\<lambda>p. recorded (\<lambda>_. ProviderConfirm p) (rt_confirm_activation rt p)),
      rt_set_user_enabled = (\<lambda>p b. recorded (\<lambda>_. ProviderEnable p b) (rt_set_user_enabled rt p b)),
      rt_revoke_sessions = (\<lambda>p. recorded (\<lambda>_. ProviderSignOut p) (rt_revoke_sessions rt p)),
      rt_resolve_approval = (\<lambda>q. recorded (ResolveApproval q) (rt_resolve_approval rt q)),
      rt_emit_audit = (\<lambda>e. recorded (\<lambda>_. EmitAudit e) (rt_emit_audit rt e)),
      rt_clock = unlogged (rt_clock rt),
      rt_list_events = map_option (\<lambda>f o1 c n. unlogged (f o1 c n)) (rt_list_events rt)\<rparr>"

section \<open>Appended effects\<close>

lemma bind_raise [simp]: "bind (raise e) k = raise e"
  by (simp add: bind_def raise_def)

lemma bind_ret [simp]: "bind (ret x) k = k x"
  by (simp add: bind_def ret_def)

definition runs :: "('w logging, 'e, 'a) eio \<Rightarrow> (effect list \<Rightarrow> 'e + 'a \<Rightarrow> bool) \<Rightarrow> bool" where
  "runs m P \<longleftrightarrow> (\<forall>w l r w' l'. m (w, l) = (r, (w', l')) \<longrightarrow> (\<exists>es. l' = l @ es \<and> P es r))"

lemma runsD: "runs m P \<Longrightarrow> m (w, l) = (r, (w', l')) \<Longrightarrow> \<exists>es. l' = l @ es \<and> P es r"
  by (simp add: runs_def)

lemma runs_mono: "runs m P \<Longrightarrow> (\<And>es r. P es r \<Longrightarrow> Q es r) \<Longrightarrow> runs m Q"
  unfolding runs_def by metis

lemma runs_ret: "P [] (Inr x) \<Longrightarrow> runs (ret x) P"
  by (simp add: runs_def ret_def)

lemma runs_raise: "P [] (Inl e) \<Longrightarrow> runs (raise e) P"
  by (simp add: runs_def raise_def)

lemma runs_lift: "P [] x \<Longrightarrow> runs (lift x) P"
  by (simp add: runs_def lift_def)

lemma runs_ensure: "(b \<Longrightarrow> P [] (Inr ())) \<Longrightarrow> (\<not> b \<Longrightarrow> P [] (Inl e)) \<Longrightarrow> runs (ensure b e) P"
  by (simp add: ensure_def runs_ret runs_raise)

lemma runs_unlogged: "(\<And>r. P [] r) \<Longrightarrow> runs (unlogged m) P"
  by (auto simp: runs_def unlogged_def split: prod.splits)

lemma runs_recorded: "(\<And>r. P [e r] r) \<Longrightarrow> runs (recorded e m) P"
  by (auto simp: runs_def recorded_def split: prod.splits)

lemma runs_bind:
  assumes "runs m Q" and "\<And>es e. Q es (Inl e) \<Longrightarrow> P es (Inl e)"
    and "\<And>es x. Q es (Inr x) \<Longrightarrow> runs (k x) (\<lambda>es' r. P (es @ es') r)"
  shows "runs (bind m k) P"
  unfolding runs_def
proof (intro allI impI)
  fix w l r w' l'
  assume b: "bind m k (w, l) = (r, (w', l'))"
  obtain x w1 l1 where m: "m (w, l) = (x, (w1, l1))" by (cases "m (w, l)") auto
  obtain es where es: "l1 = l @ es" "Q es x" using runsD [OF assms(1) m] by blast
  show "\<exists>es. l' = l @ es \<and> P es r"
  proof (cases x)
    case (Inl e)
    with b m es assms(2) show ?thesis by (auto simp: bind_def)
  next
    case (Inr y)
    with b m have c: "k y (w1, l1) = (r, (w', l'))" by (simp add: bind_def)
    have "runs (k y) (\<lambda>es' r. P (es @ es') r)" by (rule assms(3)) (use es(2) Inr in simp)
    from runsD [OF this c] obtain es' where "l' = l1 @ es'" "P (es @ es') r" by blast
    with es(1) show ?thesis by (intro exI [of _ "es @ es'"]) simp
  qed
qed

lemma runs_catch:
  assumes "runs m Q" and "\<And>es x. Q es (Inr x) \<Longrightarrow> P es (Inr x)"
    and "\<And>es e. Q es (Inl e) \<Longrightarrow> runs (h e) (\<lambda>es' r. P (es @ es') r)"
  shows "runs (catch m h) P"
  unfolding runs_def
proof (intro allI impI)
  fix w l r w' l'
  assume b: "catch m h (w, l) = (r, (w', l'))"
  obtain x w1 l1 where m: "m (w, l) = (x, (w1, l1))" by (cases "m (w, l)") auto
  obtain es where es: "l1 = l @ es" "Q es x" using runsD [OF assms(1) m] by blast
  show "\<exists>es. l' = l @ es \<and> P es r"
  proof (cases x)
    case (Inr y)
    with b m es assms(2) show ?thesis by (auto simp: catch_def)
  next
    case (Inl e)
    with b m have c: "h e (w1, l1) = (r, (w', l'))" by (simp add: catch_def)
    have "runs (h e) (\<lambda>es' r. P (es @ es') r)" by (rule assms(3)) (use es(2) Inl in simp)
    from runsD [OF this c] obtain es' where "l' = l1 @ es'" "P (es @ es') r" by blast
    with es(1) show ?thesis by (intro exI [of _ "es @ es'"]) simp
  qed
qed

section \<open>Ordered effects\<close>

definition ordered :: "(effect \<Rightarrow> nat) \<Rightarrow> nat \<Rightarrow> nat \<Rightarrow> effect list \<Rightarrow> bool" where
  "ordered rk lo hi es \<longleftrightarrow> sorted_wrt (<) (map rk es) \<and> (\<forall>e \<in> set es. lo \<le> rk e \<and> rk e < hi)"

lemma ordered_Nil [simp]: "ordered rk lo hi []"
  by (simp add: ordered_def)

lemma ordered_append:
  "ordered rk a b es \<Longrightarrow> ordered rk b c es' \<Longrightarrow> a \<le> b \<Longrightarrow> b \<le> c \<Longrightarrow> ordered rk a c (es @ es')"
  by (auto simp: ordered_def sorted_wrt_append) (meson le_trans less_le_trans)+

lemma ordered_mono: "ordered rk a b es \<Longrightarrow> a' \<le> a \<Longrightarrow> b \<le> b' \<Longrightarrow> ordered rk a' b' es"
  by (auto simp: ordered_def)

definition within :: "(effect \<Rightarrow> nat) \<Rightarrow> nat \<Rightarrow> nat \<Rightarrow> ('w logging, 'e, 'a) eio \<Rightarrow> bool" where
  "within rk a b m \<longleftrightarrow> runs m (\<lambda>es _. ordered rk a b es)"

definition silent :: "('w logging, 'e, 'a) eio \<Rightarrow> bool" where
  "silent m \<longleftrightarrow> runs m (\<lambda>es _. es = [])"

named_theorems silent_rules \<open>computations without effects\<close>

lemma silent_within: "silent m \<Longrightarrow> within rk a b m"
  unfolding silent_def within_def by (erule runs_mono) simp

lemma runs_bind_silent:
  assumes "silent m" "\<And>e. P [] (Inl e)" "\<And>x. runs (k x) P"
  shows "runs (bind m k) P"
  by (rule runs_bind [OF assms(1) [unfolded silent_def]]) (simp_all add: assms(2,3))

lemma within_bind:
  assumes "within rk a b m" "\<And>x. within rk b c (k x)" "a \<le> b" "b \<le> c"
  shows "within rk a c (bind m k)"
  unfolding within_def
proof (rule runs_bind [OF assms(1) [unfolded within_def]])
  show "ordered rk a c es" if "ordered rk a b es" for es
    using that assms(4) by (rule ordered_mono [OF _ order_refl])
  show "runs (k x) (\<lambda>es' r. ordered rk a c (es @ es'))" if "ordered rk a b es" for es x
    by (rule runs_mono [OF assms(2) [unfolded within_def]]) (rule ordered_append [OF that _ assms(3,4)])
qed

lemma within_bind_silent:
  assumes "silent m" "\<And>x. within rk a b (k x)"
  shows "within rk a b (bind m k)"
  unfolding within_def
  by (rule runs_bind [OF assms(1) [unfolded silent_def]]) (use assms(2) in \<open>auto simp: within_def\<close>)

lemma within_bind_last:
  assumes "within rk a b m" "\<And>x. silent (k x)"
  shows "within rk a b (bind m k)"
  unfolding within_def
proof (rule runs_bind [OF assms(1) [unfolded within_def]])
  show "runs (k x) (\<lambda>es' r. ordered rk a b (es @ es'))" if "ordered rk a b es" for es x
    by (rule runs_mono [OF assms(2) [unfolded silent_def]]) (simp add: that)
qed

lemma within_catch:
  assumes "within rk a b m" "\<And>e. silent (h e)"
  shows "within rk a b (catch m h)"
  unfolding within_def
proof (rule runs_catch [OF assms(1) [unfolded within_def]])
  show "runs (h e) (\<lambda>es' r. ordered rk a b (es @ es'))" if "ordered rk a b es" for es e
    by (rule runs_mono [OF assms(2) [unfolded silent_def]]) (simp add: that)
qed

lemma within_recorded: "(\<And>r. a \<le> rk (e r) \<and> rk (e r) < b) \<Longrightarrow> within rk a b (recorded e m)"
  unfolding within_def by (rule runs_recorded) (simp add: ordered_def)

lemma within_mono: "within rk a b m \<Longrightarrow> a' \<le> a \<Longrightarrow> b \<le> b' \<Longrightarrow> within rk a' b' m"
  unfolding within_def by (erule runs_mono) (rule ordered_mono)

lemma within_prod: "(\<And>x y. p = (x, y) \<Longrightarrow> within rk a b (f x y)) \<Longrightarrow> within rk a b (case p of (x, y) \<Rightarrow> f x y)"
  by (cases p) simp

lemma within_if: "(c \<Longrightarrow> within rk a b m) \<Longrightarrow> (\<not> c \<Longrightarrow> within rk a b m') \<Longrightarrow> within rk a b (if c then m else m')"
  by simp

lemma silent_ret [silent_rules]: "silent (ret x)"
  by (simp add: silent_def runs_ret)

lemma silent_raise [silent_rules]: "silent (raise e)"
  by (simp add: silent_def runs_raise)

lemmas within_ret = silent_within [OF silent_ret] and within_raise = silent_within [OF silent_raise]

lemma silent_lift [silent_rules]: "silent (lift r)"
  by (simp add: silent_def runs_lift)

lemma silent_ensure [silent_rules]: "silent (ensure b e)"
  by (simp add: silent_def runs_ensure)

lemma silent_unlogged [silent_rules]: "silent (unlogged m)"
  by (simp add: silent_def runs_unlogged)

lemma silent_bind [silent_rules]:
  assumes "silent m" "\<And>x. silent (k x)"
  shows "silent (bind m k)"
  unfolding silent_def by (rule runs_bind [OF assms(1) [unfolded silent_def]])
    (simp_all add: assms(2) [unfolded silent_def])

lemma silent_catch [silent_rules]:
  assumes "silent m" "\<And>e. silent (h e)"
  shows "silent (catch m h)"
  unfolding silent_def by (rule runs_catch [OF assms(1) [unfolded silent_def]])
    (simp_all add: assms(2) [unfolded silent_def])

lemma silent_if [silent_rules]: "(b \<Longrightarrow> silent m) \<Longrightarrow> (\<not> b \<Longrightarrow> silent m') \<Longrightarrow> silent (if b then m else m')"
  by simp

lemma silent_option [silent_rules]:
  "(v = None \<Longrightarrow> silent m) \<Longrightarrow> (\<And>x. v = Some x \<Longrightarrow> silent (f x)) \<Longrightarrow>
     silent (case v of None \<Rightarrow> m | Some x \<Rightarrow> f x)"
  by (cases v) simp_all

lemma silent_pyref [silent_rules]:
  "(v = NoneRef \<Longrightarrow> silent a) \<Longrightarrow> (\<And>x. v = Inst x \<Longrightarrow> silent (f x)) \<Longrightarrow> (v = Foreign \<Longrightarrow> silent b) \<Longrightarrow>
     silent (case v of NoneRef \<Rightarrow> a | Inst x \<Rightarrow> f x | Foreign \<Rightarrow> b)"
  by (cases v) simp_all

lemma silent_prod [silent_rules]: "(\<And>x y. p = (x, y) \<Longrightarrow> silent (f x y)) \<Longrightarrow> silent (case p of (x, y) \<Rightarrow> f x y)"
  by (cases p) simp

end
