(* ===== verification/LifecycleOrder.thy ===== *)
theory LifecycleOrder
  imports LifecycleTrace
begin

text \<open>
  The effects of every operation of the lifecycle service, for arbitrary ports: each effect is
  requested at most once per call and in a fixed order, a provider or membership effect of a
  fresh operation comes after a granted approval, and the invitation of a user is sent again only
  under a claim that this very call won.
\<close>

section \<open>Reads, clock and ledger are silent\<close>

lemma logged_silent [silent_rules]:
  "silent (rt_reserve_operation (logged rt) cm)" "silent (rt_checkpoint_operation (logged rt) r a b ev)"
  "silent (rt_list_memberships (logged rt) o1 s c n)" "silent (rt_load_membership (logged rt) o1 ref)"
  "silent (rt_clock (logged rt))"
  by (simp_all add: logged_def silent_unlogged)

lemma service_now_silent [silent_rules]: "silent (service_now (logged rt))"
  unfolding service_now_def by (intro silent_rules)

lemma require_roles_silent [silent_rules]: "silent (require_roles (logged rt) auth roles privileged)"
  unfolding require_roles_def by (intro silent_rules)

lemma require_admin_silent [silent_rules]: "silent (require_admin (logged rt) auth privileged)"
  unfolding require_admin_def by (intro silent_rules)

lemma load_owned_silent [silent_rules]: "silent (load_owned (logged rt) owner ref)"
  unfolding load_owned_def by (intro silent_rules)

lemma reserve_silent [silent_rules]: "silent (reserve (logged rt) cm)"
  unfolding reserve_def by (intro silent_rules)

lemma service_checkpoint_outcome_silent [silent_rules]:
  "silent (service_checkpoint_outcome (logged rt) r expected next_stage evidence)"
  unfolding service_checkpoint_outcome_def by (intro silent_rules)

lemma service_checkpoint_silent [silent_rules]:
  "silent (service_checkpoint (logged rt) r expected next_stage evidence)"
  unfolding service_checkpoint_def by (intro silent_rules)

lemma require_last_admin_safe_silent [silent_rules]:
  "silent (require_last_admin_safe (logged rt) owner m s role ref)"
  unfolding require_last_admin_safe_def by (intro silent_rules)

lemma invitation_open_silent [silent_rules]: "silent (invitation_open (logged rt) op m)"
  unfolding invitation_open_def by (intro silent_rules)

lemma recorded_replacement_silent [silent_rules]: "silent (recorded_replacement (logged rt) r owner)"
  unfolding recorded_replacement_def Let_def by (intro silent_rules)

section \<open>Each step within its rank\<close>

lemma within_resolve_approval:
  assumes "\<And>q v. a \<le> rk (ResolveApproval q v) \<and> rk (ResolveApproval q v) < b"
  shows "within rk a b (resolve_approval (logged rt) ref op target digest actor subject owner)"
proof -
  have "within rk a b (rt_resolve_approval (logged rt) q)" for q
    using assms by (simp add: logged_def within_recorded)
  then show ?thesis
    unfolding resolve_approval_def Let_def
    by (intro within_bind_last within_catch within_bind_silent silent_rules)
qed

lemma within_provider_call:
  assumes "\<And>p. a \<le> rk (ProviderConfirm p) \<and> rk (ProviderConfirm p) < b"
    and "\<And>p v. a \<le> rk (ProviderEnable p v) \<and> rk (ProviderEnable p v) < b"
  shows "within rk a b (provider_call (logged rt) op who)"
  using assms by (simp add: provider_call_def logged_def within_recorded)

lemma within_apply_provider_effect:
  assumes "\<And>p. a \<le> rk (ProviderConfirm p) \<and> rk (ProviderConfirm p) < b"
    and "\<And>p v. a \<le> rk (ProviderEnable p v) \<and> rk (ProviderEnable p v) < b"
  shows "within rk a b (apply_provider_effect (logged rt) r op owner key expected)"
proof (cases "op \<in> {ACTIVATE, SUSPEND, REVOKE, REACTIVATE}")
  case True
  have "within rk a b (provider_call (logged rt) op who)" for who
    by (rule within_provider_call) (use assms in auto)
  then show ?thesis
    unfolding apply_provider_effect_def using True
    by (simp only: not_True_eq_False if_False)
      (intro within_bind_last within_catch within_bind_silent silent_rules)
qed (simp add: apply_provider_effect_def silent_within silent_raise)

lemma within_apply_membership_effect:
  assumes "\<And>q. a \<le> rk (WriteMembership q) \<and> rk (WriteMembership q) < b"
  shows "within rk a b (apply_membership_effect (logged rt) r owner expected)"
proof -
  have "within rk a b (write_transition (logged rt) r cur n s role rep)" for cur n s role rep
    unfolding write_transition_def
    by (intro within_catch within_bind_silent silent_rules) (simp add: logged_def assms within_recorded)
  then have "within rk a b (if c then ret (Inst cur) else bind (recorded_replacement (logged rt) r owner)
      (write_transition (logged rt) r cur n s role))" for c cur n s role
    by (intro within_if within_ret) (rule within_bind_silent [OF recorded_replacement_silent])
  then show ?thesis
    unfolding apply_membership_effect_def
    by (intro within_bind_silent within_bind_last silent_rules)
qed

lemma within_session_step:
  assumes "\<And>p. a \<le> rk (ProviderSignOut p) \<and> rk (ProviderSignOut p) < b"
  shows "within rk a b (session_step (logged rt) op owner key r)"
proof -
  have "within rk a b (rt_revoke_sessions (logged rt) p)" for p
    using assms by (simp add: logged_def within_recorded)
  then have "within rk a b (catch (bind (lift (provider_identity_of r owner key))
      (rt_revoke_sessions (logged rt))) (\<lambda>_. raise unavailable))"
    by (intro within_catch within_bind_silent silent_rules)
  then have step: "within rk a b (bind (catch (bind (lift (provider_identity_of r owner key))
      (rt_revoke_sessions (logged rt))) (\<lambda>_. raise unavailable)) k)" if "\<And>v. silent (k v)" for k
    by (rule within_bind_last) (rule that)
  show ?thesis
    unfolding session_step_def by (rule within_if, rule within_ret, rule step, intro silent_rules)
qed

lemma within_audit_and_complete:
  assumes "\<And>e. a \<le> rk (EmitAudit e) \<and> rk (EmitAudit e) < b"
  shows "within rk a b (audit_and_complete (logged rt) r auth)"
proof -
  have "within rk a b (rt_emit_audit (logged rt) e)" for e
    using assms by (simp add: logged_def within_recorded)
  then have "within rk a b (audit_step (logged rt) r auth)"
    unfolding audit_step_def by (intro within_bind_silent within_bind_last within_catch silent_rules)
  then have "within rk a b (if c then audit_step (logged rt) r auth else ret r)" for c
    by (simp add: silent_within silent_ret)
  then show ?thesis
    unfolding audit_and_complete_def by (intro within_bind_last silent_rules)
qed

section \<open>Transitions\<close>

text \<open>
  The order of a transition: the approval first; for an activation or reactivation the provider
  before the membership, for a suspension or revocation the membership before the provider; then
  the sessions, then the audit event. Effects that no transition has get rank 9.
\<close>

fun transition_rank :: "lifecycle_operation \<Rightarrow> effect \<Rightarrow> nat" where
  "transition_rank op (ResolveApproval q v) = 0"
| "transition_rank op (ProviderConfirm p) = (if provider_first op then 1 else 3)"
| "transition_rank op (ProviderEnable p b) = (if provider_first op then 1 else 3)"
| "transition_rank op (WriteMembership q) = 2"
| "transition_rank op (ProviderSignOut p) = 4"
| "transition_rank op (EmitAudit e) = 5"
| "transition_rank op e = 9"

lemma within_transition_validate:
  "within (transition_rank op) 0 1 (transition_validate (logged rt) auth owner ref req op next_role r)"
proof -
  have step: "within (transition_rank op) 0 1
      (resolve_approval (logged rt) ref op target digest actor subject owner)"
    for ref target digest actor subject owner
    by (rule within_resolve_approval) simp
  show ?thesis
    unfolding transition_validate_def
    by ((rule within_prod | rule within_bind_silent, (intro silent_rules)[1])+,
        rule within_bind_last, rule step, intro silent_rules)
qed

lemma within_transition_effects:
  "within (transition_rank op) 1 5 (transition_effects (logged rt) op owner key r)"
proof -
  let ?rk = "transition_rank op"
  have m: "within ?rk 2 3 (apply_membership_effect (logged rt) r owner s)" for r s
    by (rule within_apply_membership_effect) simp
  have s: "within ?rk 4 5 (session_step (logged rt) op owner key r)" for r
    by (rule within_session_step) simp
  show ?thesis
  proof (cases "provider_first op")
    case True
    then have last: "\<not> provider_last op" by (auto simp: provider_first_def provider_last_def)
    have p: "within ?rk 1 2 (apply_provider_effect (logged rt) r op owner key s)" for r s
      by (rule within_apply_provider_effect) (simp_all add: True)
    have first: "within ?rk 1 2 (if or_stage r \<noteq> APPROVAL_VALIDATED then ret r
        else if provider_first op then apply_provider_effect (logged rt) r op owner key APPROVAL_VALIDATED
        else apply_membership_effect (logged rt) r owner APPROVAL_VALIDATED)"
      by (intro within_if within_ret p) (use True in simp)
    show ?thesis
      unfolding transition_effects_def
      by (rule within_bind [OF first], rule within_bind [where b = 3], intro within_if within_ret m,
          rule within_bind [where b = 4], rule silent_within, simp add: last silent_ret, rule s) simp_all
  next
    case False
    have p: "within ?rk 3 4 (apply_provider_effect (logged rt) r op owner key s)" for r s
      by (rule within_apply_provider_effect) (simp_all add: False)
    have m': "within ?rk 1 3 (apply_membership_effect (logged rt) r owner s)" for r s
      using m [of r s] unfolding within_def by (rule runs_mono) (simp add: ordered_mono)
    have first: "within ?rk 1 3 (if or_stage r \<noteq> APPROVAL_VALIDATED then ret r
        else if provider_first op then apply_provider_effect (logged rt) r op owner key APPROVAL_VALIDATED
        else apply_membership_effect (logged rt) r owner APPROVAL_VALIDATED)"
      by (intro within_if within_ret m') (use False in simp)
    show ?thesis
      unfolding transition_effects_def
      by (rule within_bind [OF first], rule within_bind_silent, simp add: False silent_ret,
          rule within_bind [where b = 4], intro within_if within_ret p, rule s) simp_all
  qed
qed

lemma within_transition:
  "within (transition_rank op) 0 6 (transition (logged rt) auth ref req op key next_role)"
proof -
  let ?rk = "transition_rank op"
  have a: "within ?rk 5 6 (audit_and_complete (logged rt) r auth)" for r
    by (rule within_audit_and_complete) simp
  have "within ?rk 0 6 (transition_resume (logged rt) auth owner ref req op key next_role r)" for owner r
    unfolding transition_resume_def
    by (rule within_if, rule within_ret, rule within_bind [where b = 1],
        intro within_if within_ret within_transition_validate,
        rule within_bind_silent, rule silent_ensure, rule within_bind [where b = 5],
        rule within_transition_effects, rule a) simp_all
  note resume = this
  show ?thesis
    unfolding transition_def
    by ((rule within_bind_silent, (intro silent_rules)[1])+, rule resume)
qed

text \<open>
  (C15) Order and multiplicity of the effects of a transition. Whatever the ports answer, raise or
  change, one call of a transition asks for each of its effects at most once and in this order:
  approval, then (activation, reactivation) provider before membership or (suspension,
  revocation) membership before provider, then the sign-out of the sessions, then the audit
  event; and it asks for no other effect. So a suspended or revoked member loses the membership
  before the provider account, and an account is enabled before the membership says so.
\<close>

theorem transition_effect_order:
  assumes "transition (logged rt) auth ref req op key next_role (w, []) = (res, (w', es))"
  shows "sorted_wrt (<) (map (transition_rank op) es) \<and> (\<forall>e \<in> set es. transition_rank op e < 6)"
  using runsD [OF within_transition [unfolded within_def] assms] by (auto simp: ordered_def)

section \<open>Invitations\<close>

fun invite_rank :: "effect \<Rightarrow> nat" where
  "invite_rank (ResolveApproval q v) = 0"
| "invite_rank (ProviderInvite q) = 1"
| "invite_rank (CreateMembership own p) = 2"
| "invite_rank (EmitAudit e) = 5"
| "invite_rank e = 9"

fun resend_rank :: "effect \<Rightarrow> nat" where
  "resend_rank (ResolveApproval q v) = 0"
| "resend_rank (ReserveEffect x v) = 1"
| "resend_rank (ProviderResend p) = 2"
| "resend_rank (RefreshInvitation m) = 3"
| "resend_rank (EmitAudit e) = 5"
| "resend_rank e = 9"

lemma within_invite_validate: "within invite_rank 0 1 (invite_validate (logged rt) auth owner req r)"
  unfolding invite_validate_def Let_def
  by (rule within_bind_last, rule within_resolve_approval, simp, intro silent_rules)

lemma within_invite_provider: "within invite_rank 1 2 (invite_provider (logged rt) owner req key r)"
proof -
  have "within invite_rank 1 2 (rt_invite_user (logged rt) q)" for q
    by (simp add: logged_def within_recorded)
  then show ?thesis
    unfolding invite_provider_def Let_def by (intro within_bind_last within_catch silent_rules)
qed

lemma within_invite_membership: "within invite_rank 2 3 (invite_membership (logged rt) owner r)"
proof -
  have create: "within invite_rank 2 3 (rt_create_invited_membership (logged rt) owner p role t ref)"
    for p role t ref
    by (simp add: logged_def within_recorded)
  show ?thesis
    unfolding invite_membership_def
    by (rule within_bind_silent, rule silent_lift, rule within_bind_silent, rule silent_lift,
        rule within_bind_last, rule within_catch, rule within_bind_silent, rule silent_lift,
        rule create) (intro silent_rules)+
qed

lemma within_invite_user: "within invite_rank 0 6 (invite_user (logged rt) auth req key)"
proof -
  have a: "within invite_rank 5 6 (audit_and_complete (logged rt) r auth)" for r
    by (rule within_audit_and_complete) simp
  have m: "within invite_rank 2 5 (invite_membership (logged rt) owner r)" for owner r
    by (rule within_mono [OF within_invite_membership]) simp_all
  have resume: "within invite_rank 0 6 (invite_resume (logged rt) auth owner req key r)" for owner r
    unfolding invite_resume_def
    by (rule within_if, rule within_ret, rule within_bind [where b = 1],
        intro within_if within_ret within_invite_validate,
        rule within_bind [where b = 2], intro within_if within_ret within_invite_provider,
        rule within_bind [where b = 5],
        intro within_if within_ret m, rule a) simp_all
  show ?thesis
    unfolding invite_user_def
    by ((rule within_bind_silent, (intro silent_rules)[1])+, rule resume)
qed

lemma within_resend_validate: "within resend_rank 0 1 (resend_validate (logged rt) auth owner ref req r)"
proof -
  have step: "within resend_rank 0 1 (resolve_approval (logged rt) ref op target digest actor subject owner)"
    for ref op target digest actor subject owner
    by (rule within_resolve_approval) simp
  show ?thesis
    unfolding resend_validate_def
    by ((rule within_bind_silent, (intro silent_rules)[1])+, rule within_bind_last, rule step,
        intro silent_rules)
qed

text \<open>A claim that this call won: on this effect, for the deployment of its caller.\<close>

definition won_claim :: "auth_context \<Rightarrow> string \<Rightarrow> resend_request \<Rightarrow> effect \<Rightarrow> bool" where
  "won_claim auth ref req e \<longleftrightarrow> (\<exists>x out. e = ReserveEffect x (Inr (Inst out)) \<and>
     eo_applied_here out \<and> eo_reservation out = Inst x \<and> er_operation x = RESEND_INVITATION \<and>
     er_customer_id x = the (str_view (ac_customer_id auth)) \<and>
     er_deployment_id x = py_str (ac_deployment_id auth) \<and> er_target_reference x = ref \<and>
     er_expected_membership_version x = tr_expected_membership_version req)"

text \<open>Operations of the caller's own resend, from the reservation and over every checkpoint.\<close>

definition own_resend :: "auth_context \<Rightarrow> operation_record \<Rightarrow> bool" where
  "own_resend auth r \<longleftrightarrow> or_operation r = RESEND_INVITATION \<and>
     or_customer_id r = the (str_view (ac_customer_id auth)) \<and>
     or_deployment_id r = py_str (ac_deployment_id auth)"

lemma bind_lift: "bind (lift (Inl e)) k = raise e" "bind (lift (Inr x)) k = k x"
  by (simp_all add: bind_def lift_def raise_def)

lemma runs_result:
  assumes "runs m P" "\<And>s r s'. m s = (Inr r, s') \<Longrightarrow> Q r"
  shows "runs m (\<lambda>es x. P es x \<and> (\<forall>r. x = Inr r \<longrightarrow> Q r))"
  unfolding runs_def
proof (intro allI impI)
  fix w l r w' l' assume run: "m (w, l) = (r, (w', l'))"
  from runsD [OF assms(1) run] obtain es where "l' = l @ es" "P es r" by blast
  with assms(2) run show "\<exists>es. l' = l @ es \<and> P es r \<and> (\<forall>x. r = Inr x \<longrightarrow> Q x)" by auto
qed

lemma reserve_own:
  assumes "lifecycle_command_of RESEND_INVITATION auth key p = Inr cm" "reserve rt cm w = (Inr r, w')"
  shows "own_resend auth r"
  using assms by (auto simp: reserve_def bind_Inr case_pyref_Inr reserved_checks_def demand_Inr
      own_resend_def lifecycle_command_of_def split: if_splits sum.splits)

lemma resend_validate_own:
  assumes "resend_validate rt auth owner ref req r w = (Inr r', w')" "own_resend auth r"
  shows "own_resend auth r'"
  using assms by (auto simp: resend_validate_def service_checkpoint_def service_checkpoint_outcome_def
      bind_Inr case_pyref_Inr demand_Inr checkpoint_checks_def own_resend_def)

lemma runs_service_reserve_effect:
  "runs (service_reserve_effect (logged rt) x) (\<lambda>es r. ordered resend_rank 1 2 es \<and>
     (\<forall>stored. r = Inr (stored, True) \<longrightarrow> (\<exists>out. es = [ReserveEffect x (Inr (Inst out))] \<and>
        eo_applied_here out \<and> eo_reservation out = Inst x)))"
proof -
  have call: "runs (catch (rt_reserve_provider_effect (logged rt) x) (\<lambda>_. raise unavailable))
      (\<lambda>es r. ordered resend_rank 1 2 es \<and> (\<forall>v. r = Inr v \<longrightarrow> es = [ReserveEffect x (Inr v)]))"
    by (rule runs_catch [where Q = "\<lambda>es r. es = [ReserveEffect x r]"])
      (auto simp: logged_def ordered_def intro: runs_recorded runs_raise)
  show ?thesis
    unfolding service_reserve_effect_def
    by (rule runs_bind [OF call])
      (auto simp: ensure_def intro!: runs_raise runs_ret runs_bind [OF runs_lift [where P = "\<lambda>es _. es = []"]]
        runs_bind [OF runs_ret [where P = "\<lambda>es _. es = []"]]
        split: pyref.split)
qed

lemma runs_resend_claim:
  assumes "own_resend auth r"
  shows "runs (resend_claim (logged rt) ref req r) (\<lambda>es x. ordered resend_rank 1 2 es \<and>
     (\<forall>y. x = Inr y \<longrightarrow> (\<exists>e. es = [e] \<and> won_claim auth ref req e)))"
proof -
  have "runs (bind (service_reserve_effect (logged rt)
           (effect_reservation_new r ref (tr_expected_membership_version req) (tr_approval_reference req) now))
         (\<lambda>(stored, applied_here). bind (ensure applied_here unavailable)
           (\<lambda>_. service_checkpoint_outcome (logged rt) r s1 s2 ev)))
       (\<lambda>es x. ordered resend_rank 1 2 es \<and> (\<forall>y. x = Inr y \<longrightarrow> (\<exists>e. es = [e] \<and> won_claim auth ref req e)))"
    for now s1 s2 ev
  proof (rule runs_bind [OF runs_service_reserve_effect], simp, clarify)
    fix es stored applied_here
    assume o: "ordered resend_rank 1 2 es"
      and won: "\<forall>st. Inr (stored, applied_here) = Inr (st, True) \<longrightarrow> (\<exists>out. es = [ReserveEffect
        (effect_reservation_new r ref (tr_expected_membership_version req) (tr_approval_reference req) now)
        (Inr (Inst out))] \<and> eo_applied_here out \<and> eo_reservation out = Inst (effect_reservation_new r ref
        (tr_expected_membership_version req) (tr_approval_reference req) now))"
    show "runs (bind (ensure applied_here unavailable)
           (\<lambda>_. service_checkpoint_outcome (logged rt) r s1 s2 ev))
       (\<lambda>es' x. ordered resend_rank 1 2 (es @ es') \<and>
          (\<forall>y. x = Inr y \<longrightarrow> (\<exists>e. es @ es' = [e] \<and> won_claim auth ref req e)))"
    proof (cases applied_here)
      case True
      with won have "\<exists>e. es = [e] \<and> won_claim auth ref req e"
        using assms by (auto simp: won_claim_def own_resend_def effect_reservation_new_def)
      with True show ?thesis
        using service_checkpoint_outcome_silent [of rt r s1 s2 ev] o
        by (auto simp: ensure_def silent_def elim!: runs_mono)
    qed (use o in \<open>auto simp: ensure_def intro!: runs_raise\<close>)
  qed
  note step = this
  show ?thesis
    unfolding resend_claim_def
    by (rule runs_bind_silent [OF silent_ensure], simp, rule runs_bind_silent [OF service_now_silent],
        simp, rule step)
qed

lemma runs_resend_effect:
  "runs (resend_effect (logged rt) owner key r here) (\<lambda>es _. ordered resend_rank 2 3 es \<and> (es \<noteq> [] \<longrightarrow> here))"
proof (cases here)
  case True
  have call: "within resend_rank 2 3 (rt_resend_invitation (logged rt) p)" for p
    by (simp add: logged_def within_recorded)
  have "within resend_rank 2 3 (resend_effect (logged rt) owner key r here)"
    unfolding resend_effect_def
    by (rule within_bind_silent, rule silent_ensure, rule within_bind_last, rule within_catch,
        rule within_bind_silent, rule silent_lift, rule call) (intro silent_rules)+
  with True show ?thesis by (simp add: within_def)
next
  case False
  then show ?thesis by (simp add: resend_effect_def ensure_def runs_raise)
qed

lemma within_resend_membership: "within resend_rank 3 5 (resend_membership (logged rt) owner r)"
proof -
  have refresh: "within resend_rank 3 5 (rt_refresh_invitation (logged rt) m n t ref)" for m n t ref
    by (simp add: logged_def within_recorded)
  have put: "within resend_rank 3 5 (if c then ret (Inst m)
      else catch (rt_refresh_invitation (logged rt) m n t ref) (\<lambda>_. raise conflict))" for c m n t ref
    by (rule within_if, rule within_ret, rule within_catch, rule refresh, rule silent_raise)
  show ?thesis
    unfolding resend_membership_def
    by (rule within_bind_silent, rule silent_lift, rule within_bind_silent, rule load_owned_silent,
        rule within_bind_silent, rule silent_lift, rule within_bind_silent, rule silent_lift,
        rule within_bind_last, rule put, intro silent_rules)
qed

text \<open>The effects of a resend: ordered, and a provider call only right after a won claim.\<close>

definition quarantined :: "auth_context \<Rightarrow> string \<Rightarrow> resend_request \<Rightarrow> effect list \<Rightarrow> bool" where
  "quarantined auth ref req es \<longleftrightarrow> ordered resend_rank 0 6 es \<and>
     (\<forall>p. ProviderResend p \<in> set es \<longrightarrow> (\<exists>e \<in> set es. won_claim auth ref req e))"

lemma quarantinedI:
  assumes "ordered resend_rank 0 1 a" "ordered resend_rank 1 2 b" "ordered resend_rank 2 3 c"
    "ordered resend_rank 3 6 d" "c \<noteq> [] \<longrightarrow> (\<exists>e \<in> set b. won_claim auth ref req e)"
  shows "quarantined auth ref req (a @ b @ c @ d)"
proof -
  have "ordered resend_rank 1 3 (b @ c)" by (rule ordered_append [OF assms(2,3)]) simp_all
  then have "ordered resend_rank 1 6 ((b @ c) @ d)" by (rule ordered_append [OF _ assms(4)]) simp_all
  then have "ordered resend_rank 0 6 (a @ (b @ c) @ d)" by (rule ordered_append [OF assms(1)]) simp_all
  moreover have "ProviderResend p \<notin> set a" "ProviderResend p \<notin> set b" "ProviderResend p \<notin> set d" for p
    using assms(1,2,4) unfolding ordered_def by force+
  ultimately show ?thesis using assms(5) by (fastforce simp: quarantined_def)
qed

lemma runs_resend_tail:
  "within resend_rank 3 6 (bind (if or_stage r = PROVIDER_APPLIED then resend_membership (logged rt) owner r
     else ret r) (\<lambda>r4. audit_and_complete (logged rt) r4 auth))"
proof -
  have a: "within resend_rank 5 6 (audit_and_complete (logged rt) r auth)" for r
    by (rule within_audit_and_complete) simp
  show ?thesis
    by (rule within_bind [where b = 5], intro within_if within_ret within_resend_membership, rule a) simp_all
qed

lemma runs_resend_middle:
  "runs (bind (if c then resend_claim (logged rt) ref req r1 else ret (r1, False)) (\<lambda>(r2, here).
      bind (if or_stage r2 = PROVIDER_EFFECT_RESERVED then resend_effect (logged rt) owner key r2 here
            else ret r2) k))
    (\<lambda>es _. \<exists>b c' d. es = b @ c' @ d \<and> ordered resend_rank 1 2 b \<and> ordered resend_rank 2 3 c' \<and>
       ordered resend_rank 3 6 d \<and> (c' \<noteq> [] \<longrightarrow> (\<exists>e \<in> set b. won_claim auth ref req e)))"
  if tail: "\<And>r. within resend_rank 3 6 (k r)" and own: "own_resend auth r1" for k
proof -
  let ?R = "\<lambda>es. \<exists>b c' d. es = b @ c' @ d \<and> ordered resend_rank 1 2 b \<and> ordered resend_rank 2 3 c' \<and>
       ordered resend_rank 3 6 d \<and> (c' \<noteq> [] \<longrightarrow> (\<exists>e \<in> set b. won_claim auth ref req e))"
  have claim: "runs (if c then resend_claim (logged rt) ref req r1 else ret (r1, False))
      (\<lambda>es x. ordered resend_rank 1 2 es \<and>
         (\<forall>r2. x = Inr (r2, True) \<longrightarrow> (\<exists>e \<in> set es. won_claim auth ref req e)))"
    by (cases c) (auto intro!: runs_ret runs_mono [OF runs_resend_claim [OF own]])
  have rest: "runs (bind (if or_stage r2 = PROVIDER_EFFECT_RESERVED
        then resend_effect (logged rt) owner key r2 here else ret r2) k) (\<lambda>es' _. ?R (es @ es'))"
    if es: "ordered resend_rank 1 2 es" "here \<longrightarrow> (\<exists>e \<in> set es. won_claim auth ref req e)" for es r2 here
  proof (rule runs_bind [where Q = "\<lambda>es' _. ordered resend_rank 2 3 es' \<and> (es' \<noteq> [] \<longrightarrow> here)"])
    show "runs (if or_stage r2 = PROVIDER_EFFECT_RESERVED then resend_effect (logged rt) owner key r2 here
        else ret r2) (\<lambda>es' _. ordered resend_rank 2 3 es' \<and> (es' \<noteq> [] \<longrightarrow> here))"
      using runs_resend_effect [of rt owner key r2 here] by (simp add: runs_ret)
    show "?R (es @ es')" if "ordered resend_rank 2 3 es' \<and> (es' \<noteq> [] \<longrightarrow> here)" for es'
      using es that by (intro exI [of _ es] exI [of _ es'] exI [of _ "[]"]) auto
    show "runs (k x) (\<lambda>es'' _. ?R (es @ es' @ es''))"
      if "ordered resend_rank 2 3 es' \<and> (es' \<noteq> [] \<longrightarrow> here)" for es' x
      by (rule runs_mono [OF tail [of x, unfolded within_def]])
        (use es that in \<open>intro exI [of _ es] exI [of _ es'] exI\<close>, auto)
  qed
  show ?thesis
  proof (rule runs_bind [OF claim])
    show "?R es" if "ordered resend_rank 1 2 es \<and> (\<forall>r2. Inl e = Inr (r2, True) \<longrightarrow> (\<exists>e \<in> set es. won_claim auth ref req e))"
      for es e
      using that by (intro exI [of _ es] exI [of _ "[]"]) simp
  qed (use rest in auto)
qed

lemma resend_quarantined:
  assumes "resend_invitation (logged rt) auth ref req key (w, []) = (res, (w', es))"
  shows "quarantined auth ref req es"
proof -
  have q: "runs (resend_resume (logged rt) auth owner ref req key r) (\<lambda>es _. quarantined auth ref req es)"
    if own: "own_resend auth r" for owner r
  proof -
    have "within resend_rank 0 1 (if or_stage r = RESERVED
        then resend_validate (logged rt) auth owner ref req r else ret r)"
      by (intro within_if within_ret within_resend_validate)
    then have first: "runs (if or_stage r = RESERVED then resend_validate (logged rt) auth owner ref req r else ret r)
        (\<lambda>es x. ordered resend_rank 0 1 es \<and> (\<forall>r1. x = Inr r1 \<longrightarrow> own_resend auth r1))"
      unfolding within_def
      by (rule runs_result) (use own in \<open>auto simp: ret_def split: if_splits dest: resend_validate_own\<close>)
    show ?thesis
      unfolding resend_resume_def
    proof (cases "or_stage r = COMPLETED", simp add: runs_ret quarantined_def, simp only: if_False,
        rule runs_bind [OF first])
      show "quarantined auth ref req es" if "ordered resend_rank 0 1 es \<and> (\<forall>r1. Inl e = Inr r1 \<longrightarrow> own_resend auth r1)" for es e
        using quarantinedI [of es "[]" "[]" "[]"] that by simp
      fix es r1
      assume "ordered resend_rank 0 1 es \<and> (\<forall>r. Inr r1 = Inr r \<longrightarrow> own_resend auth r)"
      then have es: "ordered resend_rank 0 1 es" and own1: "own_resend auth r1" by simp_all
      show "runs (bind (ensure (\<not> (or_stage r1 \<noteq> RESERVED \<and>
            map_of (or_evidence r1) ''effect_order'' \<noteq> Some ''provider_before_membership'')) unavailable)
          (\<lambda>_. bind (if or_stage r1 = APPROVAL_VALIDATED then resend_claim (logged rt) ref req r1
              else ret (r1, False)) (\<lambda>(r2, here).
             bind (if or_stage r2 = PROVIDER_EFFECT_RESERVED then resend_effect (logged rt) owner key r2 here
                   else ret r2)
               (\<lambda>r3. bind (if or_stage r3 = PROVIDER_APPLIED then resend_membership (logged rt) owner r3
                           else ret r3) (\<lambda>r4. audit_and_complete (logged rt) r4 auth)))))
        (\<lambda>es' r. quarantined auth ref req (es @ es'))"
        by (rule runs_bind_silent [OF silent_ensure],
            use quarantinedI [OF es, of "[]" "[]" "[]"] in simp,
            rule runs_mono [OF runs_resend_middle [OF runs_resend_tail own1]], use quarantinedI [OF es] in blast)
    qed
  qed
  have begin_own: "runs (bind (reserve (logged rt) cm) (resend_resume (logged rt) auth owner ref req key))
      (\<lambda>es _. quarantined auth ref req es)"
    if "lifecycle_command_of RESEND_INVITATION auth key p = Inr cm" for owner cm p
    by (rule runs_bind [OF runs_result [OF reserve_silent [unfolded silent_def] reserve_own [OF that]]])
      (simp_all add: quarantined_def [of _ _ _ "[]"], rule q)
  have "runs (resend_invitation (logged rt) auth ref req key) (\<lambda>es _. quarantined auth ref req es)"
    unfolding resend_invitation_def
    by (rule runs_bind_silent [OF require_admin_silent], simp add: quarantined_def,
        rule runs_bind_silent [OF silent_ensure], simp add: quarantined_def,
        rule runs_bind_silent [OF silent_ensure], simp add: quarantined_def,
        cases "lifecycle_command_of RESEND_INVITATION auth key (resend_payload ref req)",
        simp_all add: bind_lift runs_raise quarantined_def [of _ _ _ "[]"] begin_own)
  from runsD [OF this assms] show ?thesis by simp
qed

text \<open>
  (C34) Quarantine of resends. The identity provider has no idempotency token for a resent
  invitation, so a duplicate notification can only be prevented before the call. Whatever the
  ports do: one call of \<open>resend_invitation\<close> asks for its effects at most once and in order, and it
  asks the provider to resend only when, in this very call, it reserved the effect for this
  membership and this version, was told that it is the winner, and was handed back its own
  reservation. An operation that is found in the middle of the effect is never resumed.
\<close>

theorem resend_quarantine:
  assumes "resend_invitation (logged rt) auth ref req key (w, []) = (res, (w', es))"
  shows "quarantined auth ref req es"
  by (rule resend_quarantined [OF assms])

text \<open>
  (C33) Inviting a user: whatever the ports do, one call asks for the approval, the provider account,
  the membership and the audit event at most once each and in this order, and for nothing else;
  so no account is created before the approval and no membership before the account.
\<close>

theorem invite_effect_order:
  assumes "invite_user (logged rt) auth req key (w, []) = (res, (w', es))"
  shows "sorted_wrt (<) (map invite_rank es) \<and> (\<forall>e \<in> set es. invite_rank e < 6)"
  using runsD [OF within_invite_user [unfolded within_def] assms] by (auto simp: ordered_def)

end
