(* ===== verification/LifecycleProofs.thy ===== *)
theory LifecycleProofs
  imports LifecycleOrder
begin

text \<open>
  What a lifecycle call may rely on after each of its checks, for arbitrary ports: who the caller
  is, that a loaded membership belongs to the caller, that an approval came from a third person,
  that a checkpoint kept the operation, and that a completed operation is only replayed. From these: who can
  run the privileged methods, and that a transition does nothing before its approval.
\<close>

section \<open>The caller\<close>

text \<open>An active member with one of the roles, under the current catalogues.\<close>

definition lifecycle_caller :: "auth_context \<Rightarrow> human_role list \<Rightarrow> snapshot \<Rightarrow> bool" where
  "lifecycle_caller auth roles sn \<longleftrightarrow>
     ac_human_authorization auth = Inst sn \<and>
     str_view (ac_principal_type auth) = Some ''user'' \<and>
     str_view (ac_auth_source auth) = Some ''cognito_jwt'' \<and>
     str_sat customer_id_pattern (ac_customer_id auth) \<and>
     str_sat deployment_id_pattern (ac_deployment_id auth) \<and> str_sat subject_pattern (ac_subject auth) \<and>
     py_eq (sn_subject sn) (ac_subject auth) \<and> py_eq (sn_customer_id sn) (ac_customer_id auth) \<and>
     py_eq (sn_deployment_id sn) (ac_deployment_id auth) \<and>
     str_view (sn_authorization_path sn) = Some ''membership'' \<and>
     str_view (sn_membership_state sn) = Some ''active'' \<and>
     (\<exists>role \<in> set roles. str_view (sn_role_id sn) = Some (human_role_value role)) \<and>
     str_view (sn_policy_version sn) = Some POLICY_VERSION \<and>
     str_view (sn_policy_digest sn) = Some POLICY_DIGEST"

text \<open>Phishing-resistant MFA at most 300 seconds ago, and not in the future.\<close>

definition recently_authenticated :: "snapshot \<Rightarrow> datetime \<Rightarrow> bool" where
  "recently_authenticated sn now \<longleftrightarrow>
     str_view (sn_assurance sn) = Some ''phishing_resistant_mfa'' \<and>
     str_view (sn_assurance_source sn) = Some ASSURANCE_SOURCE \<and>
     str_view (sn_assurance_version sn) = Some ASSURANCE_VERSION \<and>
     str_sat opaque_reference_pattern (sn_authentication_event_reference sn) \<and>
     (\<exists>a. sn_authenticated_at_epoch sn = PInt a \<and> a \<le> epoch_of_instant (instant now) \<and>
        epoch_of_instant (instant now) - a \<le> 300)"

lemma is_member_str_view: "is_member cls val v \<Longrightarrow> str_view v = Some val"
  by (auto simp: is_member_def split: pyval.splits)

lemma compare_digest_Inr: "compare_digest a b = Inr True \<longleftrightarrow> is_ascii a \<and> is_ascii b \<and> a = b"
  by (auto simp: compare_digest_def)

lemma demand_case_Inr:
  "(case demand cs e of Inl x \<Rightarrow> Inl x | Inr u \<Rightarrow> k) = Inr y \<longleftrightarrow>
     list_all (\<lambda>c. c = Inr True) cs \<and> k = Inr y"
proof (cases "demand cs e")
  case (Inl x)
  then have "\<not> list_all (\<lambda>c. c = Inr True) cs" using demand_Inr [of cs e "()"] by auto
  with Inl show ?thesis by simp
next
  case (Inr u)
  then have "list_all (\<lambda>c. c = Inr True) cs" using demand_Inr [of cs e u] by simp
  with Inr show ?thesis by simp
qed

lemma role_in_True: "role_in roles v = Inr True \<Longrightarrow> \<exists>role \<in> set roles. str_view v = Some (human_role_value role)"
  by (auto simp: role_in_def str_sat_def split: if_splits option.splits)

lemma privileged_checks_True:
  "list_all (\<lambda>c. c = Inr True) (privileged_checks sn now) \<Longrightarrow> recently_authenticated sn now"
  by (auto simp: privileged_checks_def recently_authenticated_def event_reference_check_def str_sat_def
      MAX_PRIVILEGED_AUTH_AGE_SECONDS_def Let_def dest: is_member_str_view
      split: pyval.splits option.splits if_splits)

lemma role_checks_Inr:
  assumes "role_checks auth roles privileged now = Inr ()"
  shows "\<exists>sn. lifecycle_caller auth roles sn \<and> (privileged \<longrightarrow> recently_authenticated sn now)"
proof -
  from assms obtain sn where sn: "ac_human_authorization auth = Inst sn"
    and c: "list_all (\<lambda>c. c = Inr True) (caller_identity_checks auth)"
      "list_all (\<lambda>c. c = Inr True) (snapshot_checks auth sn roles)"
      "privileged \<longrightarrow> list_all (\<lambda>c. c = Inr True) (privileged_checks sn now)"
    unfolding role_checks_def demand_case_Inr
    by (cases "ac_human_authorization auth") (auto simp: demand_case_Inr demand_Inr split: if_splits)
  have "lifecycle_caller auth roles sn"
    using sn c(1,2) role_in_True [of roles "sn_role_id sn"]
    by (auto simp: lifecycle_caller_def caller_identity_checks_def snapshot_checks_def py_eq_PStr
        compare_digest_Inr dest: is_member_str_view split: option.splits)
  with c(3) privileged_checks_True show ?thesis by blast
qed

lemma require_admin_privileged:
  assumes "require_admin rt auth True w = (Inr owner, w')"
  shows "(\<exists>sn now. lifecycle_caller auth [CUSTOMER_ADMIN] sn \<and> recently_authenticated sn now \<and>
      service_now rt w = (Inr now, w')) \<and>
    str_view (ac_customer_id auth) = Some (fst owner) \<and> str_view (ac_deployment_id auth) = Some (snd owner)"
proof -
  from assms obtain now where now: "service_now rt w = (Inr now, w')" "owner = owner_of auth"
    "role_checks auth [CUSTOMER_ADMIN] True now = Inr ()"
    by (auto simp: require_admin_def require_roles_def bind_Inr)
  from role_checks_Inr [OF now(3)] obtain sn where
    sn: "lifecycle_caller auth [CUSTOMER_ADMIN] sn" "recently_authenticated sn now" by blast
  then have "str_view (ac_customer_id auth) \<noteq> None" "str_view (ac_deployment_id auth) \<noteq> None"
    by (auto simp: lifecycle_caller_def elim: str_satE)
  with now sn show ?thesis by (auto simp: owner_of_def)
qed

lemma service_now_world:
  assumes "service_now rt w = (r, w')" shows "w' = snd (rt_clock rt w)"
proof -
  obtain x w1 where c: "rt_clock rt w = (x, w1)" by fastforce
  show ?thesis
  proof (cases x)
    case (Inl e)
    with assms c show ?thesis by (simp add: service_now_def bind_def catch_def raise_def)
  next
    case (Inr v)
    with assms c show ?thesis
      by (cases v) (auto simp: service_now_def bind_def catch_def raise_def ret_def split: if_splits)
  qed
qed

lemma require_admin_world: "require_admin rt auth p w = (r, w') \<Longrightarrow> w' = snd (rt_clock rt w)"
  by (auto simp: require_admin_def require_roles_def bind_run lift_run ret_run dest: service_now_world)

text \<open>The privileged methods of the service, with their arguments.\<close>

datatype privileged_method =
    Invite invitation_request
  | Resend string resend_request
  | Activate string transition_request
  | Suspend string transition_request
  | Reactivate string transition_request
  | Revoke string transition_request
  | Change_Role string role_change_request
  | Revoke_Sessions string transition_request

fun run_method :: "'w lifecycle_runtime \<Rightarrow> auth_context \<Rightarrow> string \<Rightarrow> privileged_method \<Rightarrow> ('w, lifecycle_outcome) io" where
  "run_method rt auth key (Invite req) = invite_user rt auth req key"
| "run_method rt auth key (Resend ref req) = resend_invitation rt auth ref req key"
| "run_method rt auth key (Activate ref req) = activate_membership rt auth ref req key"
| "run_method rt auth key (Suspend ref req) = suspend_membership rt auth ref req key"
| "run_method rt auth key (Reactivate ref req) = reactivate_membership rt auth ref req key"
| "run_method rt auth key (Revoke ref req) = revoke_membership rt auth ref req key"
| "run_method rt auth key (Change_Role ref req) = change_role rt auth ref req key"
| "run_method rt auth key (Revoke_Sessions ref req) = revoke_sessions rt auth ref req key"

text \<open>The command is the caller's own: of its customer, its deployment and its subject.\<close>

definition own_command :: "auth_context \<Rightarrow> string \<Rightarrow> lifecycle_command \<Rightarrow> bool" where
  "own_command auth key cm \<longleftrightarrow> str_view (ac_customer_id auth) = Some (cm_customer_id cm) \<and>
     cm_deployment_id cm = py_str (ac_deployment_id auth) \<and> cm_actor_subject cm = py_str (ac_subject auth) \<and>
     cm_idempotency_key cm = key"

lemma command_own:
  "lifecycle_command_of op auth key payload = Inr cm \<Longrightarrow> str_view (ac_customer_id auth) \<noteq> None \<Longrightarrow> own_command auth key cm"
  by (auto simp: lifecycle_command_of_def own_command_def split: if_splits)

text \<open>What a run does first: it fails after its reading of the clock, or reserves such a command.\<close>

definition admitted :: "'w lifecycle_runtime \<Rightarrow> auth_context \<Rightarrow> string \<Rightarrow> 'w \<Rightarrow> exn + 'a \<Rightarrow> 'w \<Rightarrow> bool" where
  "admitted rt auth key w r w' \<longleftrightarrow> (\<exists>sn now w1 cm. service_now rt w = (Inr now, w1) \<and>
     lifecycle_caller auth [CUSTOMER_ADMIN] sn \<and> recently_authenticated sn now \<and> own_command auth key cm \<and>
     (\<forall>e w2. reserve rt cm w1 = (Inl e, w2) \<longrightarrow> r = Inl e \<and> w' = w2))"

definition turned_away :: "'w lifecycle_runtime \<Rightarrow> 'w \<Rightarrow> exn + 'a \<Rightarrow> 'w \<Rightarrow> bool" where
  "turned_away rt w r w' \<longleftrightarrow> (\<exists>e. r = Inl e) \<and> w' = snd (rt_clock rt w)"

lemma admission:
  assumes "require_admin rt auth True w = (Inr owner, w1)"
    and "bind (lift (lifecycle_command_of op auth key payload)) (\<lambda>cm. bind (reserve rt cm) k) w1 = (r, w')"
  shows "turned_away rt w r w' \<or> admitted rt auth key w r w'"
proof (cases "lifecycle_command_of op auth key payload")
  case (Inl e)
  with assms show ?thesis by (auto simp: turned_away_def bind_run lift_run dest: require_admin_world)
next
  case (Inr cm)
  note admin = require_admin_privileged [OF assms(1)]
  from assms(2) Inr have run: "bind (reserve rt cm) k w1 = (r, w')" by (simp add: bind_run lift_run)
  have "own_command auth key cm" by (rule command_own [OF Inr]) (use admin in simp)
  moreover have "\<forall>e w2. reserve rt cm w1 = (Inl e, w2) \<longrightarrow> r = Inl e \<and> w' = w2" using run by (auto simp: bind_run)
  ultimately show ?thesis using admin unfolding admitted_def by blast
qed

text \<open>Methods that ask for the administrator, check their arguments and reserve.\<close>

lemma admitted_after:
  assumes "bind (require_admin rt auth True) k w = (r, w')"
    and "\<And>owner. \<exists>b e op payload k'. k owner =
      bind (ensure b e) (\<lambda>_. bind (lift (lifecycle_command_of op auth key payload)) (\<lambda>cm. bind (reserve rt cm) k'))"
  shows "turned_away rt w r w' \<or> admitted rt auth key w r w'"
proof -
  obtain x w1 where admin: "require_admin rt auth True w = (x, w1)" by fastforce
  show ?thesis
  proof (cases x)
    case (Inl e)
    with assms(1) admin show ?thesis
      by (auto simp: bind_run turned_away_def dest: require_admin_world)
  next
    case (Inr owner)
    obtain b e op payload k' where k: "k owner =
      bind (ensure b e) (\<lambda>_. bind (lift (lifecycle_command_of op auth key payload)) (\<lambda>cm. bind (reserve rt cm) k'))"
      using assms(2) by blast
    from assms(1) admin Inr have run: "k owner w1 = (r, w')" by (simp add: bind_run)
    show ?thesis
    proof (cases b)
      case True
      with run show ?thesis unfolding k by (intro admission [OF admin [unfolded Inr]]) (simp add: ensure_def)
    next
      case False
      with run show ?thesis unfolding k
        using require_admin_world [OF admin] by (simp add: ensure_def bind_run raise_run turned_away_def)
    qed
  qed
qed

lemma ensure_both: "bind (ensure a e) (\<lambda>_. bind (ensure b f) k) = bind (ensure (a \<and> b) (if a then f else e)) k"
  by (cases a; cases b) (simp_all add: ensure_def)

lemma ensure_True: "bind (ensure True e) k = k ()"
  by (simp add: ensure_def)

lemma transition_admitted:
  assumes "transition rt auth ref req op key role w = (r, w')"
  shows "turned_away rt w r w' \<or> admitted rt auth key w r w'"
  by (rule admitted_after [OF assms [unfolded transition_def]]) blast

lemma resend_admitted:
  assumes "resend_invitation rt auth ref req key w = (r, w')"
  shows "turned_away rt w r w' \<or> admitted rt auth key w r w'"
  by (rule admitted_after [OF assms [unfolded resend_invitation_def ensure_both]]) blast

lemma invite_admitted:
  assumes "invite_user rt auth req key w = (r, w')"
  shows "turned_away rt w r w' \<or> admitted rt auth key w r w'"
proof (rule admitted_after [OF assms [unfolded invite_user_def]])
  show "\<exists>b e op payload k'. bind (lift (lifecycle_command_of INVITE auth key (invitation_payload req)))
      (\<lambda>cm. bind (reserve rt cm) (invite_resume rt auth owner req key)) =
    bind (ensure b e) (\<lambda>_. bind (lift (lifecycle_command_of op auth key payload)) (\<lambda>cm. bind (reserve rt cm) k'))" for owner
    by (intro exI) (rule ensure_True [symmetric])
qed

text \<open>
  (C2) Every privileged lifecycle call (invite, resend, activate, suspend, reactivate, revoke, change
  of role, revocation of sessions) is made by an active customer administrator with a
  phishing-resistant authentication of at most 300 seconds at the time of the call. For anyone else the call fails
  with nothing done but a reading of the clock; in particular nothing is reserved. What an
  admitted caller reserves first is a command of its own customer, deployment and subject, and
  when that reservation fails nothing follows it.
\<close>

theorem privileged_caller:
  assumes "run_method rt auth key request w = (r, w')"
  shows "((\<exists>e. r = Inl e) \<and> w' = snd (rt_clock rt w)) \<or>
    (\<exists>sn now w1 cm. service_now rt w = (Inr now, w1) \<and>
       lifecycle_caller auth [CUSTOMER_ADMIN] sn \<and> recently_authenticated sn now \<and> own_command auth key cm \<and>
       (\<forall>e w2. reserve rt cm w1 = (Inl e, w2) \<longrightarrow> r = Inl e \<and> w' = w2))"
proof -
  have "turned_away rt w r w' \<or> admitted rt auth key w r w'"
    using assms
    by (cases request) (auto simp: activate_membership_def suspend_membership_def reactivate_membership_def
        revoke_membership_def change_role_def revoke_sessions_def dest: invite_admitted resend_admitted transition_admitted)
  then show ?thesis by (simp only: turned_away_def admitted_def)
qed

section \<open>Memberships of the owner\<close>

lemma validate_membership_Inr:
  "validate_membership v owner = Inr m \<Longrightarrow> v = Inst m \<and> list_all (\<lambda>c. c = Inr True) (membership_checks m owner)"
  by (cases v) (auto simp: validate_membership_def demand_case_Inr)

text \<open>
  A membership the service works on belongs to the owner of the call: whatever the store
  returns, \<open>load_owned\<close> only lets through a record of this customer and deployment with a well
  formed reference, subject and provider account, a version of at least 1, and an invitation
  deadline exactly when the member is invited.
\<close>

theorem load_owned_sound:
  assumes "load_owned rt owner ref w = (Inr m, w')"
  shows "rt_load_membership rt owner ref w = (Inr (Inst m), w') \<and>
    mb_customer_id m = fst owner \<and> mb_deployment_id m = snd owner \<and> 1 \<le> mb_membership_version m \<and>
    membership_reference_pattern (mb_membership_reference m) \<and> subject_pattern (mb_subject m) \<and>
    opaque_reference_pattern (mb_provider_user_reference m) \<and>
    subject_pattern (mb_provider_principal_key m) \<and>
    (mb_state m = INVITED \<longleftrightarrow> mb_invitation_expires_at m \<noteq> None)"
proof -
  from assms obtain v where v: "rt_load_membership rt owner ref w = (Inr v, w')"
      "validate_membership v owner = Inr m"
    by (auto simp: load_owned_def bind_Inr split: if_splits)
  from validate_membership_Inr [OF v(2)] v(1) show ?thesis
    by (auto simp: membership_checks_def split: if_splits option.splits)
qed

section \<open>Approvals\<close>

text \<open>An approval for exactly this operation, target and request, by somebody else.\<close>

definition grants :: "approval_query \<Rightarrow> string \<Rightarrow> string option \<Rightarrow> approval_evidence \<Rightarrow> bool" where
  "grants q actor target_subject a \<longleftrightarrow>
     ap_approval_reference a = aq_approval_reference q \<and> ap_operation a = aq_operation q \<and>
     ap_target_reference a = aq_target_reference q \<and> ap_request_digest a = aq_request_digest q \<and>
     ap_customer_id a = aq_customer_id q \<and> ap_deployment_id a = aq_deployment_id q \<and>
     ap_state a = ''approved'' \<and> ap_approver_subject a \<noteq> actor \<and>
     target_subject \<noteq> Some (ap_approver_subject a)"

lemma approval_checks_before_True:
  assumes "list_all (\<lambda>c. c = Inr True) (approval_checks_before q a)"
    and "ap_approver_subject a \<noteq> actor" "target_subject \<noteq> Some (ap_approver_subject a)"
  shows "grants q actor target_subject a"
  using assms by (auto simp: approval_checks_before_def grants_def compare_digest_Inr)

text \<open>
  Separation of duties. \<open>resolve_approval\<close> returns only an approval that the resolver
  returned for this very query, that names this operation, this target, this request digest and
  this owner, that is approved and not expired at the clock's present time, and whose approver is
  neither the actor nor the member the operation is about.
\<close>

theorem resolve_approval_sound:
  assumes "resolve_approval rt ref op target digest actor target_subject owner w = (Inr a, w')"
  shows "\<exists>now later w1 w2 q. rt_resolve_approval rt q w1 = (Inr (Inst a), w2) \<and>
    q = \<lparr>aq_approval_reference = ref, aq_operation = op, aq_target_reference = target,
         aq_request_digest = digest, aq_customer_id = fst owner, aq_deployment_id = snd owner, aq_now = now\<rparr> \<and>
    grants q actor target_subject a \<and> service_now rt w2 = (Inr later, w') \<and>
    instant later < instant (ap_expires_at a)"
proof -
  let ?q = "\<lambda>now. \<lparr>aq_approval_reference = ref, aq_operation = op, aq_target_reference = target,
         aq_request_digest = digest, aq_customer_id = fst owner, aq_deployment_id = snd owner, aq_now = now\<rparr>"
  from assms obtain now v w1 w2 where call: "rt_resolve_approval rt (?q now) w1 = (Inr v, w2)"
    and rest: "(case v of Inst a \<Rightarrow>
             bind (lift (demand (approval_checks_before (?q now) a) denied)) (\<lambda>_.
             bind (service_now rt) (\<lambda>later.
             bind (ensure (instant later < instant (ap_expires_at a)
                           \<and> ap_approver_subject a \<noteq> actor
                           \<and> (case target_subject of Some t \<Rightarrow> ap_approver_subject a \<noteq> t | None \<Rightarrow> True)) denied)
               (\<lambda>_. ret a))) | _ \<Rightarrow> raise denied) w2 = (Inr a, w')"
    by (auto simp: resolve_approval_def Let_def bind_Inr)
  from rest obtain later where v: "v = Inst a"
    and checks: "list_all (\<lambda>c. c = Inr True) (approval_checks_before (?q now) a)"
    and later: "service_now rt w2 = (Inr later, w')" "instant later < instant (ap_expires_at a)"
      "ap_approver_subject a \<noteq> actor" "target_subject \<noteq> Some (ap_approver_subject a)"
    by (cases v) (auto simp: bind_Inr demand_Inr split: option.splits)
  from approval_checks_before_True [OF checks later(3,4)] call v later(1,2) show ?thesis by blast
qed

section \<open>Checkpoints and replays\<close>

text \<open>
  A checkpoint never changes what the operation is: the record the service goes on with has the
  same reference, operation, owner, actor, key and request digest, is in the stage asked for, and
  its evidence is the old evidence updated by the new one, whatever the ledger returned.
\<close>

theorem checkpoint_sound:
  assumes "service_checkpoint_outcome rt r expected next_stage evidence w = (Inr (u, here), w')"
  shows "or_operation_reference u = or_operation_reference r \<and> or_operation u = or_operation r \<and>
    or_customer_id u = or_customer_id r \<and> or_deployment_id u = or_deployment_id r \<and>
    or_actor_subject u = or_actor_subject r \<and> or_idempotency_key u = or_idempotency_key r \<and>
    or_request_digest u = or_request_digest r \<and> or_stage u = next_stage \<and>
    map_of (or_evidence u) = map_of (dict_merge (or_evidence r) (case evidence of Some e \<Rightarrow> e | None \<Rightarrow> [])) \<and>
    instant (or_updated_at r) \<le> instant (or_updated_at u)"
proof -
  from assms have out: "list_all (\<lambda>c. c = Inr True) (checkpoint_checks r next_stage evidence u)"
    by (auto simp: service_checkpoint_outcome_def bind_Inr case_pyref_Inr demand_Inr)
  from out show ?thesis
    by (simp add: checkpoint_checks_def compare_digest_Inr not_before_def dict_eq_iff)
qed

text \<open>
  Idempotent replay: when the ledger hands out a completed operation for the caller's command,
  the transition returns the recorded outcome and does nothing else. The only calls of the
  whole request are the clock and the reservation.
\<close>

theorem completed_replay:
  assumes "require_admin rt auth True w = (Inr owner, w1)"
    and "membership_reference_pattern ref" "idempotency_pattern key"
    and "lifecycle_command_of op auth key (transition_payload ref req next_role) = Inr cm"
    and "reserve rt cm w1 = (Inr r, w2)" "or_stage r = COMPLETED"
  shows "transition rt auth ref req op key next_role w
    = (Inr \<lparr>lo_status = ''completed'', lo_operation_reference = or_operation_reference r\<rparr>, w2)"
  using assms
  by (simp add: transition_def bind_def ensure_def ret_def lift_def transition_resume_def completed_outcome_def)

section \<open>No effect without an approval\<close>

lemma runs_resolve_approval:
  "runs (resolve_approval (logged rt) ref op target digest actor target_subject owner)
    (\<lambda>es r. ordered (transition_rank op') 0 1 es \<and> (\<forall>a. r = Inr a \<longrightarrow>
       (\<exists>q. es = [ResolveApproval q (Inr (Inst a))] \<and> grants q actor target_subject a \<and>
          aq_operation q = op \<and> aq_target_reference q = target \<and> aq_request_digest q = digest)))"
proof -
  let ?q = "\<lambda>now. \<lparr>aq_approval_reference = ref, aq_operation = op, aq_target_reference = target,
         aq_request_digest = digest, aq_customer_id = fst owner, aq_deployment_id = snd owner, aq_now = now\<rparr>"
  have inner: "runs (bind (service_now (logged rt)) (\<lambda>now. bind (rt_resolve_approval (logged rt) (?q now))
        (\<lambda>v. ret (now, v))))
      (\<lambda>es x. (case x of Inr (now, v) \<Rightarrow> es = [ResolveApproval (?q now) (Inr v)]
                       | Inl e \<Rightarrow> ordered (transition_rank op') 0 1 es))"
  proof (rule runs_bind_silent [OF service_now_silent], simp)
    show "runs (bind (rt_resolve_approval (logged rt) (?q now)) (\<lambda>v. ret (now, v)))
      (\<lambda>es x. (case x of Inr (now, v) \<Rightarrow> es = [ResolveApproval (?q now) (Inr v)]
                       | Inl e \<Rightarrow> ordered (transition_rank op') 0 1 es))" for now
      by (rule runs_bind [where Q = "\<lambda>es x. es = [ResolveApproval (?q now) x]"])
        (auto simp: logged_def ordered_def intro: runs_recorded runs_ret)
  qed
  have call: "runs (catch (bind (service_now (logged rt)) (\<lambda>now. bind (rt_resolve_approval (logged rt) (?q now))
        (\<lambda>v. ret (now, v)))) (\<lambda>_. raise denied))
      (\<lambda>es x. ordered (transition_rank op') 0 1 es \<and>
         (\<forall>now v. x = Inr (now, v) \<longrightarrow> es = [ResolveApproval (?q now) (Inr v)]))"
    by (rule runs_catch [OF inner]) (auto simp: ordered_def intro!: runs_raise)
  show ?thesis
    unfolding resolve_approval_def Let_def
  proof (rule runs_bind [OF call], simp, clarify)
    fix es now v
    assume o: "ordered (transition_rank op') 0 1 es"
      and es: "\<forall>n x. Inr (now, v) = Inr (n, x) \<longrightarrow> es = [ResolveApproval (?q n) (Inr x)]"
    let ?P = "\<lambda>es' r. ordered (transition_rank op') 0 1 (es @ es') \<and> (\<forall>a. r = Inr a \<longrightarrow>
       (\<exists>q. es @ es' = [ResolveApproval q (Inr (Inst a))] \<and> grants q actor target_subject a \<and>
          aq_operation q = op \<and> aq_target_reference q = target \<and> aq_request_digest q = digest))"
    show "runs (case v of Inst a \<Rightarrow>
             bind (lift (demand (approval_checks_before (?q now) a) denied)) (\<lambda>_.
             bind (service_now (logged rt)) (\<lambda>later.
             bind (ensure (instant later < instant (ap_expires_at a)
                           \<and> ap_approver_subject a \<noteq> actor
                           \<and> (case target_subject of Some t \<Rightarrow> ap_approver_subject a \<noteq> t | None \<Rightarrow> True)) denied)
               (\<lambda>_. ret a))) | _ \<Rightarrow> raise denied) ?P"
    proof (cases v)
      case (Inst a)
      show ?thesis
      proof (cases "demand (approval_checks_before (?q now) a) denied")
        case (Inr u)
        then have c: "list_all (\<lambda>c. c = Inr True) (approval_checks_before (?q now) a)"
          by (simp add: demand_Inr)
        have fin: "runs (bind (ensure b denied) (\<lambda>_. ret a)) ?P"
          if "b \<Longrightarrow> grants (?q now) actor target_subject a" for b
          using o es Inst that by (cases b) (auto simp: ensure_def intro!: runs_ret runs_raise)
        show ?thesis
          unfolding Inst pyref.case
          by (rule runs_bind_silent [OF silent_lift], use o in simp,
              rule runs_bind_silent [OF service_now_silent], use o in simp, rule fin,
              rule approval_checks_before_True [OF c]) (auto split: option.splits)
      qed (use Inst o in \<open>auto simp: lift_def bind_def runs_def\<close>)
    qed (use o in \<open>auto intro!: runs_raise\<close>)
  qed
qed

text \<open>The block of \<open>RESERVED\<close> succeeds only with an approval that grants the transition of the member.\<close>

definition member_of :: "'w lifecycle_runtime \<Rightarrow> owner \<Rightarrow> string \<Rightarrow> string \<Rightarrow> bool" where
  "member_of rt owner ref member \<longleftrightarrow>
     (\<forall>w m w'. rt_load_membership rt owner ref w = (Inr (Inst m), w') \<longrightarrow> mb_subject m = member)"

lemma runs_load_owned:
  assumes "member_of rt owner ref member"
  shows "runs (load_owned (logged rt) owner ref) (\<lambda>es x. es = [] \<and> (\<forall>m. x = Inr m \<longrightarrow> mb_subject m = member))"
  unfolding load_owned_def
proof (rule runs_bind [where Q = "\<lambda>es x. es = [] \<and> (\<forall>m. x = Inr (Inst m) \<longrightarrow> mb_subject m = member)"])
  have "runs (rt_load_membership (logged rt) owner ref)
      (\<lambda>es x. es = [] \<and> (\<forall>m. x = Inr (Inst m) \<longrightarrow> mb_subject m = member))"
    using assms by (auto simp: runs_def logged_def unlogged_def member_of_def split: prod.splits)
  then show "runs (catch (rt_load_membership (logged rt) owner ref) (\<lambda>_. raise unavailable))
      (\<lambda>es x. es = [] \<and> (\<forall>m. x = Inr (Inst m) \<longrightarrow> mb_subject m = member))"
    by (rule runs_catch) (auto intro!: runs_raise)
next
  fix es :: "effect list" and v
  assume "es = [] \<and> (\<forall>m. (Inr v :: exn + membership_record pyref) = Inr (Inst m) \<longrightarrow> mb_subject m = member)"
  then show "runs (if v = NoneRef then raise not_found else lift (validate_membership v owner))
      (\<lambda>es' x. es @ es' = [] \<and> (\<forall>m. x = Inr m \<longrightarrow> mb_subject m = member))"
    by (auto intro!: runs_raise runs_lift dest!: validate_membership_Inr)
qed simp

definition third_party_approval ::
  "lifecycle_operation \<Rightarrow> operation_record \<Rightarrow> string \<Rightarrow> string \<Rightarrow> effect \<Rightarrow> bool" where
  "third_party_approval op r actor member e \<longleftrightarrow> (\<exists>q a. e = ResolveApproval q (Inr (Inst a)) \<and>
     grants q actor (Some member) a \<and> aq_operation q = op \<and> aq_request_digest q = or_request_digest r)"

lemma runs_transition_validate:
  assumes "member_of rt owner ref member"
  shows "runs (transition_validate (logged rt) auth owner ref req op next_role r)
    (\<lambda>es x. ordered (transition_rank op) 0 1 es \<and> (\<forall>y. x = Inr y \<longrightarrow>
       (\<exists>e. es = [e] \<and> third_party_approval op r (py_str (ac_subject auth)) member e)))"
  (is "runs _ ?P")
proof -
  have last: "runs (bind (resolve_approval (logged rt) aref op target (or_request_digest r)
        (py_str (ac_subject auth)) (Some (mb_subject m)) owner)
      (\<lambda>a. service_checkpoint (logged rt) r s1 s2 (ev a))) ?P"
    if m: "mb_subject m = member" for aref target m s1 s2 ev
  proof (rule runs_bind [OF runs_resolve_approval [where op' = op]])
    fix es a
    assume es: "ordered (transition_rank op) 0 1 es \<and> (\<forall>b. Inr a = Inr b \<longrightarrow>
       (\<exists>q. es = [ResolveApproval q (Inr (Inst b))] \<and> grants q (py_str (ac_subject auth)) (Some (mb_subject m)) b \<and>
          aq_operation q = op \<and> aq_target_reference q = target \<and> aq_request_digest q = or_request_digest r))"
    show "runs (service_checkpoint (logged rt) r s1 s2 (ev a)) (\<lambda>es' x. ?P (es @ es') x)"
      by (rule runs_mono [OF service_checkpoint_silent [unfolded silent_def]])
        (use es m in \<open>auto simp: third_party_approval_def\<close>)
  qed simp
  show ?thesis
    unfolding transition_validate_def
  proof (rule runs_bind [OF runs_load_owned [OF assms]])
    fix es :: "effect list" and m
    assume "es = [] \<and> (\<forall>m'. (Inr m :: exn + membership_record) = Inr m' \<longrightarrow> mb_subject m' = member)"
    then have es: "es = []" and m: "mb_subject m = member" by simp_all
    note last = last [OF m]
    show "runs (bind (ensure (\<not> py_eq (ac_subject auth) (PStr (mb_subject m))) denied) (\<lambda>_.
     bind (ensure (mb_membership_version m = tr_expected_membership_version req) conflict) (\<lambda>_.
     bind (lift (transition_plan op m next_role)) (\<lambda>(expected, desired, role).
     bind (invitation_open (logged rt) op m) (\<lambda>_.
     bind (require_last_admin_safe (logged rt) owner m desired role (tr_replacement_membership_reference req))
       (\<lambda>replacement.
     bind (resolve_approval (logged rt) (tr_approval_reference req) op (mb_membership_reference m)
             (or_request_digest r) (py_str (ac_subject auth)) (Some (mb_subject m)) owner) (\<lambda>a.
       service_checkpoint (logged rt) r RESERVED APPROVAL_VALIDATED
         (Some (transition_evidence op a m expected desired role (tr_reason_code req) replacement)))))))))
      (\<lambda>es'. ?P (es @ es'))"
      unfolding es append_Nil
      by ((rule runs_bind_silent, (intro silent_rules)[1], simp) | (simp only: split_beta) | rule last)+
  qed simp
qed

text \<open>
  (C14) Nothing happens without an approval by a third person. When a call takes up a transition that is still
  \<open>RESERVED\<close>, every membership write, provider call, sign-out and audit event it asks for comes
  after an approval that the resolver returned in this call for this operation and this request
  digest, in the state approved, and whose approver is neither the caller nor the member: the
  person whose membership the store holds under the reference of the request.
\<close>

theorem approval_before_effects:
  assumes "transition_resume (logged rt) auth owner ref req op key next_role r (w, []) = (res, (w', es))"
    and "or_stage r = RESERVED" "e \<in> set es" "\<And>q v. e \<noteq> ResolveApproval q v"
    and member: "\<And>w m w'. rt_load_membership rt owner ref w = (Inr (Inst m), w') \<Longrightarrow> mb_subject m = member"
  shows "\<exists>q a rest. es = ResolveApproval q (Inr (Inst a)) # rest \<and> e \<in> set rest \<and>
    grants q (py_str (ac_subject auth)) (Some member) a \<and> aq_operation q = op \<and>
    aq_request_digest q = or_request_digest r"
proof -
  let ?rk = "transition_rank op"
  let ?G = "\<lambda>es. \<exists>e. es = [e] \<and> third_party_approval op r (py_str (ac_subject auth)) member e"
  have known: "member_of rt owner ref member" using member by (simp add: member_of_def)
  have a: "within ?rk 5 6 (audit_and_complete (logged rt) r' auth)" for r'
    by (rule within_audit_and_complete) simp
  have tail: "within ?rk 1 6 (bind (ensure b unavailable) (\<lambda>_.
      bind (transition_effects (logged rt) op owner key r1) (\<lambda>r2. audit_and_complete (logged rt) r2 auth)))" for b r1
    by (rule within_bind_silent, rule silent_ensure, rule within_bind [where b = 5],
        rule within_transition_effects, rule a) simp_all
  have ne: "RESERVED \<noteq> COMPLETED" by simp
  have "runs (transition_resume (logged rt) auth owner ref req op key next_role r)
    (\<lambda>es _. \<exists>es1 es2. es = es1 @ es2 \<and> ordered ?rk 0 1 es1 \<and> (es2 \<noteq> [] \<longrightarrow> ?G es1))"
    unfolding transition_resume_def assms(2) if_not_P [OF ne] if_P [OF refl]
  proof (rule runs_bind [OF runs_transition_validate [OF known]])
    fix es1 and r1 :: operation_record
    assume es1: "ordered ?rk 0 1 es1 \<and> (\<forall>y. (Inr r1 :: exn + operation_record) = Inr y \<longrightarrow> ?G es1)"
    show "runs (bind (ensure b unavailable) (\<lambda>_. bind (transition_effects (logged rt) op owner key r1)
        (\<lambda>r2. audit_and_complete (logged rt) r2 auth)))
      (\<lambda>es' _. \<exists>a b. es1 @ es' = a @ b \<and> ordered ?rk 0 1 a \<and> (b \<noteq> [] \<longrightarrow> ?G a))" for b
      by (rule runs_mono [OF tail [unfolded within_def]]) (use es1 in blast)
  qed (blast intro: append_Nil2 [symmetric])
  from runsD [OF this assms(1)] obtain es1 es2 where es: "es = es1 @ es2" "ordered ?rk 0 1 es1"
    and g: "es2 \<noteq> [] \<longrightarrow> ?G es1" by (simp only: append_Nil) blast
  have "e \<notin> set es1"
  proof
    assume "e \<in> set es1"
    with es(2) have "?rk e = 0" by (auto simp: ordered_def)
    with assms(4) show False by (cases e) (auto split: if_splits)
  qed
  with es(1) assms(3) have "e \<in> set es2" by simp
  with g es(1) show ?thesis by (cases es2) (auto simp: third_party_approval_def)
qed

end
