(* ===== verification/PyCodec.thy ===== *)
theory PyCodec
  imports PyText "HOL-Library.List_Lexorder" "HOL-Library.Char_ord"
begin

text \<open>
  The codecs of the standard library behind the cursors of the listings: \<open>base64\<close> with the URL-safe
  alphabet, UTF-8, and \<open>json\<close>. Characters are code points below 256, as everywhere; a text
  with another character is none that these functions return. Encoders and decoders are
  written from CPython (\<open>binascii.a2b_base64\<close> in its lenient mode, the JSON scanner in its
  strict mode), and the decoders invert the encoders.
\<close>

section \<open>Base 64\<close>

definition b64_char :: "nat \<Rightarrow> char" where
  "b64_char n = char_of (if n < 26 then n + 65 else if n < 52 then n + 71 else if n < 62 then n - 4
     else if n = 62 then 45 else 95)"

text \<open>Both alphabets are read: \<open>urlsafe_b64decode\<close> translates into the standard one first.\<close>

definition b64_value :: "char \<Rightarrow> nat option" where
  "b64_value c = (if is_upper c then Some (code c - 65) else if is_lower c then Some (code c - 71)
     else if is_digit c then Some (code c + 4) else if c = CHR ''-'' \<or> c = CHR ''+'' then Some 62
     else if c = CHR ''_'' \<or> c = CHR ''/'' then Some 63 else None)"

text \<open>\<open>urlsafe_b64encode(data).rstrip("=")\<close>\<close>

fun b64_encode :: "nat list \<Rightarrow> string" where
  "b64_encode [] = []"
| "b64_encode [a] = [b64_char (a div 4), b64_char (a mod 4 * 16)]"
| "b64_encode [a, b] = [b64_char (a div 4), b64_char (a mod 4 * 16 + b div 16), b64_char (b mod 16 * 4)]"
| "b64_encode (a # b # c # bs) = b64_char (a div 4) # b64_char (a mod 4 * 16 + b div 16)
     # b64_char (b mod 16 * 4 + c div 64) # b64_char (c mod 64) # b64_encode bs"

text \<open>
  The decoder: position in the group of four, bits left over, padding seen since the last
  character of the alphabet. Other characters are skipped.
\<close>

fun b64_read :: "nat \<Rightarrow> nat \<Rightarrow> nat \<Rightarrow> string \<Rightarrow> nat list option" where
  "b64_read q left pads [] = (if q = 0 then Some [] else None)"
| "b64_read q left pads (c # cs) =
     (if c = CHR ''='' then
        (if 2 \<le> q \<and> 4 \<le> q + pads + 1 then Some []
         else b64_read q left (if 2 \<le> q then pads + 1 else pads) cs)
      else case b64_value c of
          None \<Rightarrow> b64_read q left pads cs
        | Some v \<Rightarrow>
            if q = 0 then b64_read 1 v 0 cs
            else if q = 1 then map_option (\<lambda>bs. (left * 4 + v div 16) # bs) (b64_read 2 (v mod 16) 0 cs)
            else if q = 2 then map_option (\<lambda>bs. (left * 16 + v div 4) # bs) (b64_read 3 (v mod 4) 0 cs)
            else map_option (\<lambda>bs. (left * 64 + v) # bs) (b64_read 0 0 0 cs))"

text \<open>\<open>urlsafe_b64decode(text + "=" * (-len(text) % 4))\<close>, an error for text that is not ASCII.\<close>

definition b64_decode :: "string \<Rightarrow> nat list option" where
  "b64_decode s = (if is_ascii s
     then b64_read 0 0 0 (s @ replicate (nat (- int (length s) mod 4)) CHR ''='') else None)"

text \<open>\<open>data.decode("utf-8")\<close> where the text has only code points below 256.\<close>

fun utf8_decode :: "nat list \<Rightarrow> string option" where
  "utf8_decode [] = Some []"
| "utf8_decode (b # bs) =
     (if b < 128 then map_option (\<lambda>s. char_of b # s) (utf8_decode bs)
      else case bs of
          [] \<Rightarrow> None
        | b' # bs' \<Rightarrow>
            if (b = 194 \<or> b = 195) \<and> 128 \<le> b' \<and> b' < 192
            then map_option (\<lambda>s. char_of ((b - 192) * 64 + (b' - 128)) # s) (utf8_decode bs') else None)"

lemma b64_value_char: "n < 64 \<Longrightarrow> b64_value (b64_char n) = Some n"
proof -
  assume n: "n < 64"
  define k where "k = (if n < 26 then n + 65 else if n < 52 then n + 71 else if n < 62 then n - 4
     else if n = 62 then 45 else 95)"
  have k: "k < 256" using n by (auto simp: k_def)
  have c: "b64_char n = char_of k" by (simp add: b64_char_def k_def)
  have "char_of k = c \<longleftrightarrow> k = code c" for c using k by auto
  then have eq: "char_of k = CHR ''-'' \<longleftrightarrow> k = 45" "char_of k = CHR ''+'' \<longleftrightarrow> k = 43"
      "char_of k = CHR ''_'' \<longleftrightarrow> k = 95" "char_of k = CHR ''/'' \<longleftrightarrow> k = 47"
    by (simp_all add: code_def)
  show ?thesis
    using n unfolding c b64_value_def eq is_upper_def is_lower_def is_digit_def code_char_of [OF k]
    by (auto simp: k_def)
qed

lemma b64_char_other: "n < 64 \<Longrightarrow> b64_char n \<noteq> CHR ''=''"
  using b64_value_char [of n] by (auto simp: b64_value_def char_class_defs)

lemma b64_char_ascii: "n < 64 \<Longrightarrow> code (b64_char n) < 128"
  by (auto simp: b64_char_def)

lemma b64_read_char:
  "n < 64 \<Longrightarrow> b64_read q left pads (b64_char n # cs) =
     (if q = 0 then b64_read 1 n 0 cs
      else if q = 1 then map_option (\<lambda>bs. (left * 4 + n div 16) # bs) (b64_read 2 (n mod 16) 0 cs)
      else if q = 2 then map_option (\<lambda>bs. (left * 16 + n div 4) # bs) (b64_read 3 (n mod 4) 0 cs)
      else map_option (\<lambda>bs. (left * 64 + n) # bs) (b64_read 0 0 0 cs))"
  by (simp add: b64_value_char b64_char_other)

declare b64_read.simps(2) [simp del]

lemma b64_groups:
  fixes a x y z :: nat
  shows "x < 16 \<Longrightarrow> a div 4 * 4 + (a mod 4 * 16 + x) div 16 = a"
    and "x < 16 \<Longrightarrow> (a mod 4 * 16 + x) mod 16 = x"
    and "y < 4 \<Longrightarrow> a div 16 * 16 + (a mod 16 * 4 + y) div 4 = a"
    and "y < 4 \<Longrightarrow> (a mod 16 * 4 + y) mod 4 = y"
    and "a div 64 * 64 + a mod 64 = a"
  by simp_all

text \<open>The padding that completes the last group.\<close>

definition b64_pad :: "nat \<Rightarrow> string" where
  "b64_pad n = replicate (nat (- int n mod 4)) CHR ''=''"

lemma b64_pad_simps: "b64_pad 0 = []" "b64_pad (Suc (Suc 0)) = ''==''" "b64_pad (Suc (Suc (Suc 0))) = ''=''" "b64_pad (Suc (Suc (Suc (Suc n)))) = b64_pad n"
proof -
  have "- int (Suc (Suc (Suc (Suc n)))) mod 4 = - int n mod 4"
    using mod_add_self2 [of "- int (Suc (Suc (Suc (Suc n))))" 4] by simp
  then show "b64_pad (Suc (Suc (Suc (Suc n)))) = b64_pad n" by (simp add: b64_pad_def)
qed (simp_all add: b64_pad_def numeral_eq_Suc)

lemma b64_read_pad: "b64_read 2 left 0 ''=='' = Some []" "b64_read 3 left 0 ''='' = Some []"
  by (simp_all add: b64_read.simps(2))

lemma b64_range:
  "a < 256 \<Longrightarrow> a div 4 < 64" "b < 256 \<Longrightarrow> a mod 4 * 16 + b div 16 < 64"
  "c < 256 \<Longrightarrow> b mod 16 * 4 + c div 64 < 64" "c mod 64 < 64" "a mod 4 * 16 < 64" "b mod 16 * 4 < (64 :: nat)"
proof -
  have m: "a mod 4 \<le> 3" "b mod 16 \<le> 15" using mod_less_divisor [of 4 a] mod_less_divisor [of 16 b] by linarith+
  show "a < 256 \<Longrightarrow> a div 4 < 64" "c mod 64 < 64" by simp_all
  show "b < 256 \<Longrightarrow> a mod 4 * 16 + b div 16 < 64"
    using m(1) div_less_iff_less_mult [of 16 b 16] by simp
  show "c < 256 \<Longrightarrow> b mod 16 * 4 + c div 64 < 64"
    using m(2) div_less_iff_less_mult [of 64 c 4] by simp
  show "a mod 4 * 16 < 64" "b mod 16 * 4 < 64" using m by simp_all
qed

lemma b64_read_encode:
  "list_all (\<lambda>b. b < 256) bs \<Longrightarrow> b64_read 0 left pads (b64_encode bs @ b64_pad (length (b64_encode bs))) = Some bs"
proof (induction bs arbitrary: left pads rule: b64_encode.induct)
  case (2 a)
  then show ?case
    using b64_groups(1) [of 0 a]
    by (simp add: b64_read_char b64_range b64_pad_simps b64_read_pad)
next
  case (3 a b)
  then have "b div 16 < 16" by (simp add: div_less_iff_less_mult)
  with 3 show ?case
    using b64_groups(1) [of "b div 16" a] b64_groups(2) [of "b div 16" a] b64_groups(3) [of 0 b]
    by (simp add: b64_read_char b64_range b64_pad_simps b64_read_pad)
next
  case (4 a b c bs)
  then have "b div 16 < 16" and c: "c div 64 < 4" by (simp_all add: div_less_iff_less_mult)
  moreover have "c div 64 mod 4 = c div 64" "c div 64 div 4 = 0" using c by (simp_all only: mod_less div_less)
  ultimately show ?case
    using 4 b64_groups(1) [of "b div 16" a] b64_groups(2) [of "b div 16" a] b64_groups(3) [of "c div 64" b]
      b64_groups(4) [of "c div 64" b] b64_groups(5) [of c]
    by (simp add: b64_read_char b64_range b64_pad_simps)
qed (simp add: b64_pad_simps)

lemma b64_encode_ascii: "list_all (\<lambda>b. b < 256) bs \<Longrightarrow> is_ascii (b64_encode bs)"
proof (induction bs rule: b64_encode.induct)
  case (4 a b c bs)
  then show ?case by (auto simp: is_ascii_def intro!: b64_char_ascii)
qed (auto simp: is_ascii_def intro!: b64_char_ascii)

lemma b64_decode_encode: "list_all (\<lambda>b. b < 256) bs \<Longrightarrow> b64_decode (b64_encode bs) = Some bs"
  using b64_read_encode [of bs 0 0] by (simp add: b64_decode_def b64_encode_ascii b64_pad_def)

lemma utf8_decode_ascii: "is_ascii s \<Longrightarrow> utf8_decode (map code s) = Some s"
  by (induction s) (auto simp: is_ascii_def)

section \<open>JSON\<close>

text \<open>A string as \<open>json.dumps\<close> writes it with \<open>ensure_ascii\<close>, the default.\<close>

definition json_ascii_char :: "char \<Rightarrow> string" where
  "json_ascii_char c = (if code c < 127 then json_char c
     else [CHR 0x5C, CHR ''u'', CHR ''0'', CHR ''0'', hex_digit (code c div 16), hex_digit (code c mod 16)])"

definition json_text :: "string \<Rightarrow> string" where
  "json_text s = [CHR 0x22] @ concat (map json_ascii_char s) @ [CHR 0x22]"

text \<open>
  What \<open>json.loads\<close> makes of a document: a string, an object with its members in their order
  (the last of a name counts), or something else.
\<close>

datatype jvalue = JText string | JObject "(string \<times> jvalue) list" | JOther

definition is_json_space :: "char \<Rightarrow> bool" where
  "is_json_space c \<longleftrightarrow> code c \<in> {32, 9, 10, 13}"

definition skip_ws :: "string \<Rightarrow> string" where
  "skip_ws = dropWhile is_json_space"

definition hex_value :: "char \<Rightarrow> nat option" where
  "hex_value c = (if is_digit c then Some (code c - 48)
     else if 97 \<le> code c \<and> code c \<le> 102 then Some (code c - 87)
     else if 65 \<le> code c \<and> code c \<le> 70 then Some (code c - 55) else None)"

definition hex4 :: "char \<Rightarrow> char \<Rightarrow> char \<Rightarrow> char \<Rightarrow> nat option" where
  "hex4 a b c d = (case (hex_value a, hex_value b, hex_value c, hex_value d) of
     (Some x, Some y, Some z, Some w) \<Rightarrow> Some (((x * 16 + y) * 16 + z) * 16 + w) | _ \<Rightarrow> None)"

definition escape_value :: "char \<Rightarrow> char option" where
  "escape_value c =
     (if c = CHR 0x22 \<or> c = CHR 0x5C \<or> c = CHR ''/'' then Some c
      else if c = CHR ''b'' then Some (char_of (8 :: nat)) else if c = CHR ''f'' then Some (char_of (12 :: nat))
      else if c = CHR ''n'' then Some (char_of (10 :: nat)) else if c = CHR ''r'' then Some (char_of (13 :: nat))
      else if c = CHR ''t'' then Some (char_of (9 :: nat)) else None)"

text \<open>The rest of a string after its opening quote, with the text behind the closing one.\<close>

fun read_text :: "string \<Rightarrow> (string \<times> string) option" where
  "read_text [] = None"
| "read_text (c # s) =
     (if c = CHR 0x22 then Some ([], s)
      else if c = CHR 0x5C then (case s of
          [] \<Rightarrow> None
        | e # s' \<Rightarrow>
            if e = CHR ''u'' then (case s' of
                h1 # h2 # h3 # h4 # s'' \<Rightarrow> (case hex4 h1 h2 h3 h4 of
                    Some n \<Rightarrow> if n < 256 then map_option (apfst ((#) (char_of n))) (read_text s'') else None
                  | None \<Rightarrow> None)
              | _ \<Rightarrow> None)
            else (case escape_value e of
                Some d \<Rightarrow> map_option (apfst ((#) d)) (read_text s')
              | None \<Rightarrow> None))
      else if code c < 32 then None
      else map_option (apfst ((#) c)) (read_text s))"

text \<open>A number: sign, integer, fraction, exponent; the text behind it.\<close>

definition read_integer :: "string \<Rightarrow> string option" where
  "read_integer s = (case s of
       [] \<Rightarrow> None
     | c # r \<Rightarrow> if c = CHR ''0'' then Some r else if is_digit c then Some (dropWhile is_digit r) else None)"

definition skip_fraction :: "string \<Rightarrow> string" where
  "skip_fraction s = (case s of
       c # d # r \<Rightarrow> if c = CHR ''.'' \<and> is_digit d then dropWhile is_digit r else s | _ \<Rightarrow> s)"

definition skip_exponent :: "string \<Rightarrow> string" where
  "skip_exponent s = (case s of
       c # r \<Rightarrow>
         (let r' = (case r of x # y \<Rightarrow> if x = CHR ''+'' \<or> x = CHR ''-'' then y else r | [] \<Rightarrow> r)
          in if (c = CHR ''e'' \<or> c = CHR ''E'') \<and> r' \<noteq> [] \<and> is_digit (hd r') then dropWhile is_digit r' else s)
     | [] \<Rightarrow> s)"

definition read_number :: "string \<Rightarrow> string option" where
  "read_number s = map_option (\<lambda>r. skip_exponent (skip_fraction r))
     (read_integer (case s of c # r \<Rightarrow> if c = CHR ''-'' then r else s | [] \<Rightarrow> s))"

definition JSON_CONSTANTS :: "string list" where
  "JSON_CONSTANTS = [''null'', ''true'', ''false'', ''NaN'', ''Infinity'', ''-Infinity'']"

definition read_atom :: "string \<Rightarrow> string option" where
  "read_atom s = (case find (\<lambda>w. starts_with w s) JSON_CONSTANTS of
       Some w \<Rightarrow> Some (drop (length w) s) | None \<Rightarrow> read_number s)"

fun parse_value :: "nat \<Rightarrow> string \<Rightarrow> (jvalue \<times> string) option"
  and parse_members :: "nat \<Rightarrow> string \<Rightarrow> ((string \<times> jvalue) list \<times> string) option"
  and parse_items :: "nat \<Rightarrow> string \<Rightarrow> string option" where
  "parse_value 0 s = None"
| "parse_value (Suc n) s = (case s of
       [] \<Rightarrow> None
     | c # s' \<Rightarrow>
         if c = CHR 0x22 then map_option (apfst JText) (read_text s')
         else if c = CHR ''{'' then (case skip_ws s' of
             [] \<Rightarrow> None
           | d # r \<Rightarrow> if d = CHR ''}'' then Some (JObject [], r)
                      else map_option (apfst JObject) (parse_members n (d # r)))
         else if c = CHR ''['' then (case skip_ws s' of
             [] \<Rightarrow> None
           | d # r \<Rightarrow> if d = CHR '']'' then Some (JOther, r)
                      else map_option (Pair JOther) (parse_items n (d # r)))
         else map_option (Pair JOther) (read_atom s))"
| "parse_members 0 s = None"
| "parse_members (Suc n) s = (case s of
       [] \<Rightarrow> None
     | c # s' \<Rightarrow> if c \<noteq> CHR 0x22 then None else (case read_text s' of
         None \<Rightarrow> None
       | Some (k, r) \<Rightarrow> (case skip_ws r of
           [] \<Rightarrow> None
         | d # r1 \<Rightarrow> if d \<noteq> CHR '':'' then None else (case parse_value n (skip_ws r1) of
             None \<Rightarrow> None
           | Some (v, r2) \<Rightarrow> (case skip_ws r2 of
               [] \<Rightarrow> None
             | e # r3 \<Rightarrow> if e = CHR ''}'' then Some ([(k, v)], r3)
                         else if e = CHR '','' then map_option (apfst ((#) (k, v))) (parse_members n (skip_ws r3))
                         else None)))))"
| "parse_items 0 s = None"
| "parse_items (Suc n) s = (case parse_value n s of
       None \<Rightarrow> None
     | Some (v, r) \<Rightarrow> (case skip_ws r of
         [] \<Rightarrow> None
       | e # r' \<Rightarrow> if e = CHR '']'' then Some r'
                   else if e = CHR '','' then parse_items n (skip_ws r') else None))"

text \<open>\<open>json.loads\<close>, with more fuel than any document needs.\<close>

definition json_loads :: "string \<Rightarrow> jvalue option" where
  "json_loads s = (case parse_value (2 * length s + 1) (skip_ws s) of
       Some (v, r) \<Rightarrow> if skip_ws r = [] then Some v else None
     | None \<Rightarrow> None)"

subsection \<open>Readers consume what they read\<close>

lemma skip_ws_length: "length (skip_ws s) \<le> length s"
  by (simp add: skip_ws_def length_dropWhile_le)

lemma read_text_length: "read_text s = Some (t, r) \<Longrightarrow> length r < length s"
  by (induction s arbitrary: t rule: read_text.induct)
    (force split: if_splits list.splits option.splits simp: less_SucI)+

lemma read_integer_length: "read_integer s = Some r \<Longrightarrow> length r < length s"
  using length_dropWhile_le [of is_digit] by (auto simp: read_integer_def less_Suc_eq_le split: list.splits if_splits)

lemma skip_fraction_length: "length (skip_fraction s) \<le> length s"
proof (cases "\<exists>c d r. s = c # d # r")
  case True
  then obtain c d r where "s = c # d # r" by blast
  then show ?thesis using length_dropWhile_le [of is_digit r] by (simp add: skip_fraction_def)
qed (auto simp: skip_fraction_def split: list.splits)

lemma skip_exponent_length: "length (skip_exponent s) \<le> length s"
proof (cases s)
  case (Cons c r)
  have "length (case r of x # y \<Rightarrow> if x = CHR ''+'' \<or> x = CHR ''-'' then y else r | [] \<Rightarrow> r) \<le> length r"
    by (cases r) auto
  then have "length (dropWhile is_digit (case r of x # y \<Rightarrow> if x = CHR ''+'' \<or> x = CHR ''-'' then y else r
      | [] \<Rightarrow> r)) \<le> length r"
    using length_dropWhile_le le_trans by blast
  then show ?thesis by (simp add: skip_exponent_def Cons Let_def)
qed (simp add: skip_exponent_def)

lemma read_number_length: "read_number s = Some r \<Longrightarrow> length r < length s"
proof -
  assume "read_number s = Some r"
  then obtain r' where r': "read_integer (case s of c # r \<Rightarrow> if c = CHR ''-'' then r else s | [] \<Rightarrow> s) = Some r'"
      "r = skip_exponent (skip_fraction r')"
    by (auto simp: read_number_def)
  have "length r' < length s"
    using read_integer_length [OF r'(1)] by (cases s) (auto split: if_splits)
  then show ?thesis
    using skip_exponent_length [of "skip_fraction r'"] skip_fraction_length [of r'] by (simp add: r'(2))
qed

lemma read_atom_length: "read_atom s = Some r \<Longrightarrow> length r < length s"
proof (cases "find (\<lambda>w. starts_with w s) JSON_CONSTANTS")
  case (Some w)
  then have "w \<in> set JSON_CONSTANTS" "starts_with w s" by (auto simp: find_Some_iff)
  then have "w \<noteq> []" "length w \<le> length s"
    by (auto simp: JSON_CONSTANTS_def starts_with_def dest: arg_cong [of _ _ length])
  moreover assume "read_atom s = Some r"
  ultimately show ?thesis using Some by (cases w; cases s) (auto simp: read_atom_def)
qed (auto simp: read_atom_def intro: read_number_length)

lemma skip_ws_Cons_length: "skip_ws s = c # r \<Longrightarrow> length r < length s"
  using skip_ws_length [of s] by simp

lemma parse_length:
  "parse_value n s = Some (v, r) \<Longrightarrow> length r < length s"
  "parse_members n s = Some (ms, r) \<Longrightarrow> length r < length s"
  "parse_items n s = Some r \<Longrightarrow> length r < length s"
proof (induction n s and n s and n s arbitrary: v r and ms r and r rule: parse_value_parse_members_parse_items.induct)
  case (2 n s)
  obtain c s' where s: "s = c # s'" using "2.prems" by (cases s) auto
  consider "c = CHR 0x22" | "c = CHR ''{''" | "c = CHR ''[''" | "c \<noteq> CHR 0x22" "c \<noteq> CHR ''{''" "c \<noteq> CHR ''[''"
    by blast
  then show ?case
  proof cases
    case 1
    with "2.prems" s show ?thesis by (auto dest: read_text_length)
  next
    case c: 2
    with "2.prems" s obtain d t where d: "skip_ws s' = d # t" by (auto split: list.splits)
    note skip_ws_Cons_length [OF d]
    with "2.prems" "2.IH"(1) [OF s _ _ d] s c d show ?thesis by (fastforce split: if_splits)
  next
    case c: 3
    with "2.prems" s obtain d t where d: "skip_ws s' = d # t" by (auto split: list.splits)
    note skip_ws_Cons_length [OF d]
    with "2.prems" "2.IH"(2) [OF s _ _ _ d] s c d show ?thesis by (fastforce split: if_splits)
  next
    case 4
    with "2.prems" s show ?thesis by (auto dest: read_atom_length)
  qed
next
  case (4 n s)
  from "4.prems" obtain s' k t r1 val r2 e r3 where
    s: "s = CHR 0x22 # s'" "read_text s' = Some (k, t)" "skip_ws t = CHR '':'' # r1"
       "parse_value n (skip_ws r1) = Some (val, r2)" "skip_ws r2 = e # r3"
    by (auto split: list.splits if_splits option.splits)
  have "length r3 < length s"
    using read_text_length [OF s(2)] skip_ws_Cons_length [OF s(3)] "4.IH"(1) [OF s(1) _ s(2) _ s(3) _ s(4)]
      skip_ws_length [of r1] skip_ws_Cons_length [OF s(5)] s(1) by simp
  with "4.prems" s "4.IH"(2) [OF s(1) _ s(2) _ s(3) _ s(4) _ s(5)] skip_ws_length [of r3]
  show ?case by (fastforce split: if_splits)
next
  case (6 n s)
  from "6.prems" obtain val r2 e r3 where
    s: "parse_value n s = Some (val, r2)" "skip_ws r2 = e # r3"
    by (auto split: list.splits option.splits)
  have "length r3 < length s" using "6.IH"(1) [OF s(1)] skip_ws_Cons_length [OF s(2)] by simp
  with "6.prems" s "6.IH"(2) [OF s(1) _ s(2)] skip_ws_length [of r3]
  show ?case by (fastforce split: if_splits)
qed simp_all

text \<open>More fuel than twice the length does not change the result.\<close>

lemma parse_fuel:
  "(\<forall>s. 2 * length s + 1 \<le> n \<longrightarrow> parse_value (n + k) s = parse_value n s) \<and>
   (\<forall>s. 2 * length s + 1 \<le> n \<longrightarrow> parse_members (n + k) s = parse_members n s) \<and>
   (\<forall>s. 2 * length s + 2 \<le> n \<longrightarrow> parse_items (n + k) s = parse_items n s)"
proof (induction n)
  case 0
  then show ?case by simp
next
  case (Suc n)
  have val: "parse_value (Suc n + k) s = parse_value (Suc n) s" if "2 * length s + 1 \<le> Suc n" for s
  proof (cases s)
    case (Cons c s')
    have "parse_members (n + k) (skip_ws s') = parse_members n (skip_ws s') \<and>
        parse_items (n + k) (skip_ws s') = parse_items n (skip_ws s')"
      using Suc.IH skip_ws_length [of s'] \<open>2 * length s + 1 \<le> Suc n\<close> Cons by simp
    then show ?thesis by (cases "skip_ws s'") (simp_all add: Cons)
  qed simp
  have mem: "parse_members (Suc n + k) s = parse_members (Suc n) s" if l: "2 * length s + 1 \<le> Suc n" for s
  proof (cases s)
    case (Cons c s')
    have fuel: "parse_value (n + k) (skip_ws r1) = parse_value n (skip_ws r1) \<and>
        (parse_value n (skip_ws r1) = Some (v, r2) \<longrightarrow> skip_ws r2 = e # r3 \<longrightarrow>
          parse_members (n + k) (skip_ws r3) = parse_members n (skip_ws r3))"
      if "read_text s' = Some (key, r)" "skip_ws r = d # r1" for key r d r1 v r2 e r3
    proof -
      have "length r1 < length s'"
        using read_text_length [OF that(1)] skip_ws_Cons_length [OF that(2)] by simp
      then have r1: "2 * length (skip_ws r1) + 1 \<le> n" using skip_ws_length [of r1] l Cons by simp
      have "2 * length (skip_ws r3) + 1 \<le> n"
        if "parse_value n (skip_ws r1) = Some (v, r2)" "skip_ws r2 = e # r3"
        using parse_length(1) [OF that(1)] skip_ws_Cons_length [OF that(2)] skip_ws_length [of r3] r1 by simp
      with r1 Suc.IH show ?thesis by simp
    qed
    show ?thesis
      by (simp add: Cons fuel split: list.splits option.splits)
  qed simp
  have item: "parse_items (Suc n + k) s = parse_items (Suc n) s" if l: "2 * length s + 2 \<le> Suc n" for s
  proof -
    have "2 * length (skip_ws r') + 2 \<le> n"
      if "parse_value n s = Some (v, r)" "skip_ws r = e # r'" for v r e r'
      using parse_length(1) [OF that(1)] skip_ws_Cons_length [OF that(2)] skip_ws_length [of r'] l by simp
    then have "parse_items (n + k) (skip_ws r') = parse_items n (skip_ws r')"
      if "parse_value n s = Some (v, r)" "skip_ws r = e # r'" for v r e r'
      using Suc.IH that by blast
    moreover have "parse_value (n + k) s = parse_value n s" using Suc.IH l by simp
    ultimately show ?thesis by (simp split: list.splits option.splits)
  qed
  show ?case using val mem item by blast
qed

lemma json_loads_fuel:
  assumes "2 * length s + 1 \<le> n"
  shows "parse_value n (skip_ws s) = parse_value (2 * length s + 1) (skip_ws s)"
proof -
  have f: "2 * length (skip_ws s) + 1 \<le> 2 * length s + 1" using skip_ws_length [of s] by simp
  with parse_fuel [of "2 * length s + 1" "n - (2 * length s + 1)"] show ?thesis using assms by auto
qed

subsection \<open>The writer, and reading back\<close>

text \<open>
  \<open>json.dumps(value, sort_keys=True, separators=(",", ":"))\<close>; \<open>None\<close> where it raises, for a
  decimal or another object. The keys of dictionaries are strings here.
\<close>

fun json_dumps :: "pyval \<Rightarrow> string option" where
  "json_dumps PNone = Some ''null''"
| "json_dumps (PBool b) = Some (if b then ''true'' else ''false'')"
| "json_dumps (PInt n) = Some (show_int n)"
| "json_dumps (PDec n t) = None"
| "json_dumps (PStr s) = Some (json_text s)"
| "json_dumps (PEnum cls m s) = Some (json_text s)"
| "json_dumps (PList vs) = (let ds = map json_dumps vs
     in if None \<in> set ds then None else Some (''['' @ join '','' (map the ds) @ '']''))"
| "json_dumps (PDict d) = (let ds = map (\<lambda>(k, v). (k, json_dumps v)) d
     in if None \<in> set (map snd ds) then None
        else Some (''{'' @ join '','' (map (\<lambda>(k, t). json_text k @ '':'' @ the t) (sort_key fst ds)) @ ''}''))"
| "json_dumps (POther t) = None"

lemma hex_value_digit: "d < 16 \<Longrightarrow> hex_value (hex_digit d) = Some d"
  by (auto simp: hex_value_def hex_digit_def is_digit_def)

lemma hex4_escape:
  "n < 256 \<Longrightarrow> hex4 CHR ''0'' CHR ''0'' (hex_digit (n div 16)) (hex_digit (n mod 16)) = Some n"
proof -
  assume n: "n < 256"
  have "hex_value CHR ''0'' = Some 0" by (simp add: hex_value_def is_digit_def code_def)
  moreover have "n div 16 < 16" using n by (simp add: div_less_iff_less_mult)
  ultimately show ?thesis by (simp add: hex4_def hex_value_digit)
qed

lemma read_text_escapes:
  "read_text (CHR 0x5C # CHR ''u'' # CHR ''0'' # CHR ''0'' # hex_digit (code c div 16) # hex_digit (code c mod 16) # s)
     = map_option (apfst ((#) c)) (read_text s)"
  using hex4_escape [OF code_less [of c]] code_less [of c] by simp

lemma read_text_char: "read_text (json_ascii_char c @ s) = map_option (apfst ((#) c)) (read_text s)"
proof (cases "code c < 127 \<and> \<not> code c < 32 \<and> code c \<noteq> 34 \<and> code c \<noteq> 92")
  case True
  moreover from True have "c \<noteq> CHR 0x22" "c \<noteq> CHR 0x5C" by (auto simp: code_def)
  ultimately show ?thesis by (simp add: json_ascii_char_def json_char_def)
next
  case False
  have esc: "escape_value CHR 0x22 = Some CHR 0x22" "escape_value CHR 0x5C = Some CHR 0x5C"
      "escape_value CHR ''n'' = Some (char_of (10 :: nat))" "escape_value CHR ''r'' = Some (char_of (13 :: nat))"
      "escape_value CHR ''t'' = Some (char_of (9 :: nat))" "escape_value CHR ''f'' = Some (char_of (12 :: nat))"
      "escape_value CHR ''b'' = Some (char_of (8 :: nat))"
    by (simp_all add: escape_value_def)
  show ?thesis
  proof (cases "code c \<in> {34, 92, 10, 13, 9, 12, 8}")
    case True
    then have "c \<in> char_of ` {34, 92, 10, 13, 9, 12, 8 :: nat}" using char_of_code [of c] by (metis imageI)
    then consider "c = CHR 0x22" | "c = CHR 0x5C" | "c = char_of (10 :: nat)" | "c = char_of (13 :: nat)"
      | "c = char_of (9 :: nat)" | "c = char_of (12 :: nat)" | "c = char_of (8 :: nat)"
      by (auto simp: escaped_chars)
    moreover have "code CHR 0x22 = 34" "code CHR 0x5C = 92" by (simp_all add: code_def)
    ultimately show ?thesis
      by cases (simp_all add: json_ascii_char_def json_char_def esc)
  next
    case plain: False
    with False have "json_ascii_char c =
        [CHR 0x5C, CHR ''u'', CHR ''0'', CHR ''0'', hex_digit (code c div 16), hex_digit (code c mod 16)]"
      by (auto simp: json_ascii_char_def json_char_def)
    then show ?thesis by (simp add: read_text_escapes del: read_text.simps)
  qed
qed

lemma read_text_back: "read_text (concat (map json_ascii_char s) @ CHR 0x22 # r) = Some (s, r)"
  by (induction s) (simp_all add: read_text_char)

end
