(* ===== verification/DynamoTable.thy ===== *)
theory DynamoTable
  imports PyText
begin

text \<open>
  What the lifecycle adapters use of DynamoDB, which is not part of the repository: items with a
  partition and a sort key, writes under a condition, consistent reads, and queries. The client
  is a parameter (\<open>dynamo\<close>, one field per SDK call, over an arbitrary world). What the code
  relies on is the locale \<open>conditional_table\<close>: a write that succeeds found its condition true and
  had exactly its effect, atomically; a call that fails, for whatever reason, leaves it open whether an
  allowed write took place; a write refused by its condition finds its condition false in the table it
  leaves; a consistent read returns the stored item. The client retries by itself (\<open>aws_clients.py\<close>
  configures the standard retries of the SDK), so a refusal can follow a write of this very call whose response was
  lost. \<open>memory_table\<close> is a table in memory that satisfies it.
\<close>

section \<open>Items and conditional writes\<close>

type_synonym item = "(string \<times> pyval) list"
type_synonym item_key = "string \<times> string"
type_synonym memory = "item_key \<Rightarrow> item option"

text \<open>
  A \<open>ConditionExpression\<close> as the list of its conjuncts, names and placeholders resolved:
  \<open>attribute_not_exists(a)\<close> and \<open>a = v\<close>.
\<close>

datatype test = Absent string | Equals string pyval

fun test_holds :: "item option \<Rightarrow> test \<Rightarrow> bool" where
  "test_holds d (Absent a) = (case d of None \<Rightarrow> True | Some i \<Rightarrow> map_of i a = None)"
| "test_holds d (Equals a v) = (case d of None \<Rightarrow> False
     | Some i \<Rightarrow> (case map_of i a of None \<Rightarrow> False | Some u \<Rightarrow> py_eq u v))"

text \<open>\<open>attribute_not_exists(pk) AND attribute_not_exists(sk)\<close>\<close>

definition unless_exists :: "test list" where
  "unless_exists = [Absent ''pk'', Absent ''sk'']"

text \<open>An item with its key attributes, as every item of a table has them.\<close>

definition present :: "memory \<Rightarrow> item_key \<Rightarrow> bool" where
  "present m k \<longleftrightarrow> \<not> list_all (test_holds (m k)) unless_exists"

lemma present_Some: "present m k \<Longrightarrow> m k \<noteq> None"
  by (auto simp: present_def unless_exists_def split: option.splits)

text \<open>
  How a value is read back: a number as a decimal, a string enumeration as its string, the rest
  as it was written.
\<close>

fun stored :: "pyval \<Rightarrow> pyval" where
  "stored (PInt n) = PDec n (show_int n)"
| "stored (PEnum cls m s) = PStr s"
| "stored (PList vs) = PList (map stored vs)"
| "stored (PDict d) = PDict (map (\<lambda>(k, v). (k, stored v)) d)"
| "stored v = v"

definition stored_item :: "item \<Rightarrow> item" where
  "stored_item d = map (\<lambda>(k, v). (k, stored v)) d"

text \<open>\<open>put_item\<close>, and \<open>update_item\<close> with its \<open>SET\<close> and \<open>REMOVE\<close> lists.\<close>

datatype table_write =
    Put item "test list"
  | Update item_key "(string \<times> pyval) list" "string list" "test list"

definition key_of :: "item \<Rightarrow> item_key" where
  "key_of d = (py_str (py_get d ''pk''), py_str (py_get d ''sk''))"

fun write_key :: "table_write \<Rightarrow> item_key" where
  "write_key (Put d ts) = key_of d"
| "write_key (Update k sets removes ts) = k"

fun write_tests :: "table_write \<Rightarrow> test list" where
  "write_tests (Put d ts) = ts"
| "write_tests (Update k sets removes ts) = ts"

definition allowed :: "memory \<Rightarrow> table_write \<Rightarrow> bool" where
  "allowed m wr \<longleftrightarrow> list_all (test_holds (m (write_key wr))) (write_tests wr)"

text \<open>An update of a missing item starts from its key.\<close>

definition updated_item :: "item option \<Rightarrow> item_key \<Rightarrow> (string \<times> pyval) list \<Rightarrow> string list \<Rightarrow> item" where
  "updated_item d k sets removes =
     filter (\<lambda>(a, v). a \<notin> set removes)
       (dict_merge (case d of Some i \<Rightarrow> i | None \<Rightarrow> [(''pk'', PStr (fst k)), (''sk'', PStr (snd k))])
          (stored_item sets))"

fun written :: "memory \<Rightarrow> table_write \<Rightarrow> memory" where
  "written m (Put d ts) = m(key_of d \<mapsto> stored_item d)"
| "written m (Update k sets removes ts) = m(k \<mapsto> updated_item (m k) k sets removes)"

text \<open>A transaction: all conditions, then the one write; or a single write.\<close>

datatype table_request = Single table_write | Checked item_key "test list" table_write

fun requested :: "table_request \<Rightarrow> table_write" where
  "requested (Single wr) = wr"
| "requested (Checked k ts wr) = wr"

fun request_allowed :: "memory \<Rightarrow> table_request \<Rightarrow> bool" where
  "request_allowed m (Single wr) = allowed m wr"
| "request_allowed m (Checked k ts wr) = (list_all (test_holds (m k)) ts \<and> allowed m wr)"

definition request_written :: "memory \<Rightarrow> table_request \<Rightarrow> memory" where
  "request_written m rq = written m (requested rq)"

section \<open>The client\<close>

text \<open>
  One field per call of the SDK. \<open>dy_query\<close> takes the index, the attribute with its value, the
  sort-key prefix with its attribute, the start key, the limit and \<open>ScanIndexForward\<close>. \<open>dy_name\<close>
  is \<open>table.name\<close>; \<open>dy_transact\<close> is \<open>table.meta.client.transact_write_items\<close> when there is a
  client; \<open>dy_clock\<close> is \<open>datetime.now(timezone.utc)\<close> in the process of the adapter.
\<close>

record table_query =
  qy_index :: "string option"
  qy_equals :: "string \<times> string"
  qy_prefix :: "(string \<times> string) option"
  qy_start :: "(string \<times> string) list option"
  qy_limit :: int
  qy_forward :: bool

record 'w dynamo =
  dy_put_item :: "item \<Rightarrow> test list \<Rightarrow> ('w, unit) io"
  dy_update_item :: "item_key \<Rightarrow> (string \<times> pyval) list \<Rightarrow> string list \<Rightarrow> test list \<Rightarrow> ('w, unit) io"
  dy_get_item :: "item_key \<Rightarrow> ('w, pyval) io"
  dy_query :: "table_query \<Rightarrow> ('w, pyval) io"
  dy_name :: pyval
  dy_transact :: "(item_key \<Rightarrow> test list \<Rightarrow> table_write \<Rightarrow> string \<Rightarrow> ('w, unit) io) option"
  dy_clock :: "'w \<Rightarrow> nat \<times> 'w"

definition CONDITIONAL_FAILURE :: string where "CONDITIONAL_FAILURE = ''ConditionalCheckFailedException''"
definition TRANSACTION_FAILURE :: string where "TRANSACTION_FAILURE = ''TransactionCanceledException''"
definition USERNAME_EXISTS :: string where "USERNAME_EXISTS = ''UsernameExistsException''"

text \<open>\<open>_error_code\<close>: the code of an error of the SDK, \<open>None\<close> for every other exception.\<close>

fun error_code :: "exn \<Rightarrow> string option" where
  "error_code (AwsError c) = Some c"
| "error_code e = None"

text \<open>\<open>response.get(name) if isinstance(response, Mapping) else None\<close>\<close>

definition response_get :: "pyval \<Rightarrow> string \<Rightarrow> pyval" where
  "response_get r name = (case r of PDict d \<Rightarrow> py_get d name | _ \<Rightarrow> PNone)"

text \<open>The item of a response when it is a mapping.\<close>

definition response_item :: "pyval \<Rightarrow> item option" where
  "response_item r = (case response_get r ''Item'' of PDict d \<Rightarrow> Some d | _ \<Rightarrow> None)"

text \<open>
  \<open>try: call; return ok except Exception as error: if _error_code(error) not in codes: raise\<close>,
  and then the statements after the handler.
\<close>

definition or_refused :: "string list \<Rightarrow> ('w, unit) io \<Rightarrow> 'a \<Rightarrow> ('w, 'a) io \<Rightarrow> ('w, 'a) io" where
  "or_refused codes call ok after = (\<lambda>w. case call w of
       (Inr u, w') \<Rightarrow> (Inr ok, w')
     | (Inl e, w') \<Rightarrow> (case error_code e of
          Some c \<Rightarrow> if c \<in> set codes then after w' else (Inl e, w')
        | None \<Rightarrow> (Inl e, w')))"

section \<open>What the code relies on\<close>

text \<open>The SDK raises its own errors and those of Python, never an exception of the application.\<close>

fun sdk_error :: "exn \<Rightarrow> bool" where
  "sdk_error (AwsError c) = True"
| "sdk_error (PyExc c) = True"
| "sdk_error e = False"

text \<open>
  The laws of one write request, as its outcome and the contents before and after. Nothing distinguishes
  a refusal here: the first attempt of a call may have been applied and the retry refused.
\<close>

definition write_law :: "memory \<Rightarrow> table_request \<Rightarrow> exn + unit \<Rightarrow> memory \<Rightarrow> bool" where
  "write_law m rq r m' \<longleftrightarrow> (case r of
       Inr u \<Rightarrow> request_allowed m rq \<and> m' = request_written m rq
     | Inl e \<Rightarrow> sdk_error e \<and>
         (m' = m \<or> (request_allowed m rq \<and> m' = request_written m rq)))"

locale conditional_table =
  fixes dy :: "'w dynamo" and view :: "'w \<Rightarrow> memory"
  assumes put_law: "dy_put_item dy d ts w = (r, w') \<Longrightarrow> write_law (view w) (Single (Put d ts)) r (view w')"
    and put_refused: "dy_put_item dy d ts w = (Inl (AwsError CONDITIONAL_FAILURE), w')
      \<Longrightarrow> \<not> request_allowed (view w') (Single (Put d ts))"
    and update_law: "dy_update_item dy k sets removes ts w = (r, w')
      \<Longrightarrow> write_law (view w) (Single (Update k sets removes ts)) r (view w')"
    and update_refused: "dy_update_item dy k sets removes ts w = (Inl (AwsError CONDITIONAL_FAILURE), w')
      \<Longrightarrow> \<not> request_allowed (view w') (Single (Update k sets removes ts))"
    and transact_law: "dy_transact dy = Some f \<Longrightarrow> f k ts wr token w = (r, w')
      \<Longrightarrow> write_law (view w) (Checked k ts wr) r (view w')"
    and get_law: "dy_get_item dy k w = (g, w') \<Longrightarrow> view w' = view w \<and>
      (\<forall>e. g = Inl e \<longrightarrow> sdk_error e) \<and> (\<forall>resp. g = Inr resp \<longrightarrow> response_item resp = view w k \<and>
         (response_get resp ''Item'' = PNone \<or> view w k \<noteq> None))"
    and query_law: "dy_query dy q w = (g, w') \<Longrightarrow> view w' = view w \<and> (\<forall>e. g = Inl e \<longrightarrow> sdk_error e)"
    and clock_law: "dy_clock dy w = (t, w') \<Longrightarrow> view w' = view w"
begin

lemma put_done:
  "dy_put_item dy d ts w = (Inr u, w') \<Longrightarrow>
    list_all (test_holds (view w (key_of d))) ts \<and> view w' = (view w)(key_of d \<mapsto> stored_item d)"
  using put_law [of d ts w "Inr u" w'] by (simp add: write_law_def allowed_def request_written_def)

lemma update_done:
  "dy_update_item dy k sets removes ts w = (Inr u, w') \<Longrightarrow>
    list_all (test_holds (view w k)) ts \<and> view w' = (view w)(k \<mapsto> updated_item (view w k) k sets removes)"
  using update_law [of k sets removes ts w "Inr u" w']
  by (simp add: write_law_def allowed_def request_written_def)

end

section \<open>A table in memory\<close>

record memory_world =
  mw_items :: memory
  mw_time :: nat

definition memory_request :: "table_request \<Rightarrow> string \<Rightarrow> (memory_world, unit) io" where
  "memory_request rq failure = (\<lambda>w. if request_allowed (mw_items w) rq
     then (Inr (), w\<lparr>mw_items := request_written (mw_items w) rq\<rparr>) else (Inl (AwsError failure), w))"

text \<open>Queries are answered by a parameter: which items an index returns is not relied on.\<close>

definition memory_table :: "(memory \<Rightarrow> table_query \<Rightarrow> pyval) \<Rightarrow> memory_world dynamo" where
  "memory_table answer =
     \<lparr>dy_put_item = (\<lambda>d ts. memory_request (Single (Put d ts)) CONDITIONAL_FAILURE),
      dy_update_item = (\<lambda>k sets removes ts.
        memory_request (Single (Update k sets removes ts)) CONDITIONAL_FAILURE),
      dy_get_item = (\<lambda>k w. (Inr (PDict (case mw_items w k of Some d \<Rightarrow> [(''Item'', PDict d)] | None \<Rightarrow> [])), w)),
      dy_query = (\<lambda>q w. (Inr (answer (mw_items w) q), w)),
      dy_name = PStr ''table'',
      dy_transact = Some (\<lambda>k ts wr token. memory_request (Checked k ts wr) TRANSACTION_FAILURE),
      dy_clock = (\<lambda>w. (mw_time w, w\<lparr>mw_time := mw_time w + 1\<rparr>))\<rparr>"

interpretation mem: conditional_table "memory_table answer" mw_items for answer
  by unfold_locales
    (auto simp: memory_table_def memory_request_def write_law_def response_item_def
      response_get_def py_get_def split: if_splits option.splits)

text \<open>
  The same table behind a network that loses the first response of every put and a client that retries: a conditional put
  is applied and then refused by its own condition.
\<close>

definition lossy_table :: "(memory \<Rightarrow> table_query \<Rightarrow> pyval) \<Rightarrow> memory_world dynamo" where
  "lossy_table answer = (memory_table answer)\<lparr>dy_put_item := (\<lambda>d ts.
     bind (catch (memory_request (Single (Put d ts)) CONDITIONAL_FAILURE) (\<lambda>_. ret ())) (\<lambda>_.
       memory_request (Single (Put d ts)) CONDITIONAL_FAILURE))\<rparr>"

lemma lossy_put:
  "dy_put_item (lossy_table answer) d ts w =
     (if request_allowed (mw_items w) (Single (Put d ts))
      then (if request_allowed (request_written (mw_items w) (Single (Put d ts))) (Single (Put d ts))
            then Inr () else Inl (AwsError CONDITIONAL_FAILURE),
            w\<lparr>mw_items := request_written (mw_items w) (Single (Put d ts))\<rparr>)
      else (Inl (AwsError CONDITIONAL_FAILURE), w))"
  by (simp add: lossy_table_def memory_request_def bind_def catch_def ret_def request_written_def)

interpretation lossy: conditional_table "lossy_table answer" mw_items for answer
proof unfold_locales
  fix d ts w r w'
  assume put: "dy_put_item (lossy_table answer) d ts w = (r, w')"
  then show "write_law (mw_items w) (Single (Put d ts)) r (mw_items w')"
    by (auto simp: lossy_put write_law_def split: if_splits simp del: request_allowed.simps)
next
  fix d ts w w'
  assume "dy_put_item (lossy_table answer) d ts w = (Inl (AwsError CONDITIONAL_FAILURE), w')"
  then show "\<not> request_allowed (mw_items w') (Single (Put d ts))"
    by (auto simp: lossy_put split: if_splits simp del: request_allowed.simps)
qed (auto simp: lossy_table_def dest: mem.update_law mem.update_refused mem.transact_law mem.get_law mem.query_law mem.clock_law)

end
