(* ===== verification/LifecycleStore.thy ===== *)
theory LifecycleStore
  imports LifecycleModel DynamoTable
begin

text \<open>
  \<open>DynamoLifecycleStore\<close> of \<open>app/user_lifecycle_adapters.py\<close>: the keys of the items, the conversion
  of operations, effect reservations and memberships to items and back, and every operation of
  the store over an arbitrary table client, each a conditional write with the check that the
  code makes after a refused one.
\<close>

section \<open>Keys\<close>

definition owner_prefix :: "string \<Rightarrow> string \<Rightarrow> string" where
  "owner_prefix customer deployment = deployment @ ''#'' @ customer"

definition membership_pk :: "string \<Rightarrow> string \<Rightarrow> string" where
  "membership_pk customer deployment = ''MEMBERSHIP#'' @ owner_prefix customer deployment"

definition operation_pk :: "string \<Rightarrow> string \<Rightarrow> string" where
  "operation_pk customer deployment = ''LIFECYCLE#'' @ owner_prefix customer deployment"

definition provider_effect_reservation_sk :: "lifecycle_operation \<Rightarrow> string \<Rightarrow> int \<Rightarrow> string" where
  "provider_effect_reservation_sk op target version = ''PROVIDER_EFFECT#'' @
     sha256_hex (join unit_separator [lifecycle_operation_value op, target, show_int version])"

definition idempotency_sk :: "string \<Rightarrow> string" where
  "idempotency_sk key = ''IDEMPOTENCY#'' @ key"

definition subject_sk :: "string \<Rightarrow> string" where
  "subject_sk subject = ''SUBJECT#'' @ subject"

definition membership_binding :: "string \<Rightarrow> string \<Rightarrow> string \<Rightarrow> string" where
  "membership_binding customer deployment reference =
     owner_prefix customer deployment @ ''#MEMBERSHIP#'' @ reference"

definition state_binding :: "string \<Rightarrow> string \<Rightarrow> membership_state \<Rightarrow> string" where
  "state_binding customer deployment state =
     owner_prefix customer deployment @ ''#STATE#'' @ membership_state_value state"

definition membership_reference_of :: "string \<Rightarrow> string \<Rightarrow> string \<Rightarrow> string" where
  "membership_reference_of customer deployment subject =
     ''mbr_'' @ take 32 (sha256_hex (join unit_separator [customer, deployment, subject]))"

section \<open>Scalars\<close>

definition adapter_timestamp :: "datetime \<Rightarrow> exn + string" where
  "adapter_timestamp t = (if is_aware t then Inr (timestamp_text (instant t)) else Inl ContractError)"

definition adapter_parse_timestamp :: "pyval \<Rightarrow> exn + datetime" where
  "adapter_parse_timestamp v = (case str_view v of
       None \<Rightarrow> Inl ContractError
     | Some text \<Rightarrow> (case parse_iso (replace_z text) of
           Invalid_Time \<Rightarrow> Inl ContractError
         | Out_Of_Range \<Rightarrow> Inl (PyExc ''OverflowError'')
         | Parsed d \<Rightarrow> if is_aware d then Inr (Aware (instant d)) else Inl ContractError))"

text \<open>\<open>int(value)\<close> where it is defined.\<close>

fun int_value :: "pyval \<Rightarrow> int option" where
  "int_value (PBool b) = Some (if b then 1 else 0)"
| "int_value (PInt n) = Some n"
| "int_value (PDec n t) = Some n"
| "int_value (PStr s) = py_int s"
| "int_value (PEnum cls m s) = py_int s"
| "int_value v = None"

definition integer :: "pyval \<Rightarrow> exn + int" where
  "integer v = (case int_value v of
       None \<Rightarrow> Inl ContractError
     | Some n \<Rightarrow> if (case v of PBool b \<Rightarrow> True | _ \<Rightarrow> False) \<or> n < 1 \<or> show_int n \<noteq> py_str v
                then Inl ContractError else Inr n)"

definition OPERATION_EVIDENCE_FIELDS :: "string list" where
  "OPERATION_EVIDENCE_FIELDS =
     [''approval_reference'', ''target_reference'', ''role_id'', ''expires_at'', ''subject'',
      ''provider_user_reference'', ''provider_principal_key'', ''principal_locator_digest'',
      ''provider_effect_reference'', ''membership_reference'', ''before_membership_version'',
      ''after_membership_version'', ''reason_code'', ''expected_state'', ''desired_state'',
      ''before_role_id'', ''after_role_id'', ''effect_order'', ''admin_replacement_reference'',
      ''admin_replacement_version'', ''session_revocation_reference'', ''audit_receipt_reference'']"

definition AUDITED_OPERATION_STAGES :: "lifecycle_stage list" where
  "AUDITED_OPERATION_STAGES = [AUDIT_COMMITTED, COMPLETED]"

definition evidence_value_ok :: "pyval \<Rightarrow> bool" where
  "evidence_value_ok v \<longleftrightarrow> str_sat (\<lambda>s. s \<noteq> [] \<and> length s \<le> 512) v"

definition validated_operation_evidence :: "pyval \<Rightarrow> lifecycle_stage \<Rightarrow> exn + op_evidence" where
  "validated_operation_evidence v stage = (case v of
       PDict d \<Rightarrow>
         if list_all (\<lambda>(k, x). k \<in> set OPERATION_EVIDENCE_FIELDS \<and> evidence_value_ok x) d
            \<and> (stage \<in> set AUDITED_OPERATION_STAGES \<longrightarrow> map_of d ''audit_receipt_reference'' \<noteq> None)
         then Inr (map (\<lambda>(k, x). (k, the (str_view x))) d) else Inl ContractError
     | _ \<Rightarrow> Inl ContractError)"

definition evidence_dict :: "op_evidence \<Rightarrow> pyval" where
  "evidence_dict ev = PDict (map (\<lambda>(k, x). (k, PStr x)) ev)"

section \<open>Records and items\<close>

text \<open>\<open>str(item[key])\<close> and conversions of it; every exception becomes the contract error.\<close>

definition text_at :: "item \<Rightarrow> string \<Rightarrow> string option" where
  "text_at d k = map_option py_str (map_of d k)"

definition ok_of :: "exn + 'a \<Rightarrow> 'a option" where
  "ok_of r = (case r of Inr x \<Rightarrow> Some x | Inl e \<Rightarrow> None)"

definition time_at :: "item \<Rightarrow> string \<Rightarrow> datetime option" where
  "time_at d k = Option.bind (map_of d k) (\<lambda>v. ok_of (adapter_parse_timestamp v))"

definition contract :: "'a option \<Rightarrow> exn + 'a" where
  "contract r = (case r of Some x \<Rightarrow> Inr x | None \<Rightarrow> Inl ContractError)"

definition operation_item :: "operation_record \<Rightarrow> exn + item" where
  "operation_item r = (case validated_operation_evidence (evidence_dict (or_evidence r)) (or_stage r) of
       Inl e \<Rightarrow> Inl e
     | Inr ev \<Rightarrow> (case adapter_timestamp (or_created_at r) of Inl e \<Rightarrow> Inl e
     | Inr created \<Rightarrow> (case adapter_timestamp (or_updated_at r) of Inl e \<Rightarrow> Inl e
     | Inr updated \<Rightarrow> Inr
         [(''pk'', PStr (operation_pk (or_customer_id r) (or_deployment_id r))),
          (''sk'', PStr (idempotency_sk (or_idempotency_key r))),
          (''schema_version'', PStr (or_schema_version r)),
          (''operation_reference'', PStr (or_operation_reference r)),
          (''operation'', PStr (lifecycle_operation_value (or_operation r))),
          (''customer_id'', PStr (or_customer_id r)), (''deployment_id'', PStr (or_deployment_id r)),
          (''actor_subject'', PStr (or_actor_subject r)),
          (''idempotency_key'', PStr (or_idempotency_key r)),
          (''request_digest'', PStr (or_request_digest r)),
          (''stage'', PStr (lifecycle_stage_value (or_stage r))), (''evidence'', evidence_dict ev),
          (''created_at'', PStr created), (''updated_at'', PStr updated)])))"

definition operation_from_item :: "item \<Rightarrow> exn + operation_record" where
  "operation_from_item d = contract (
     Option.bind (Option.bind (text_at d ''stage'') (of_value lifecycle_stage_value lifecycle_stage_members)) (\<lambda>stage.
     Option.bind (text_at d ''schema_version'') (\<lambda>schema.
     Option.bind (text_at d ''operation_reference'') (\<lambda>reference.
     Option.bind (Option.bind (text_at d ''operation'')
       (of_value lifecycle_operation_value lifecycle_operation_members)) (\<lambda>operation.
     Option.bind (text_at d ''customer_id'') (\<lambda>customer.
     Option.bind (text_at d ''deployment_id'') (\<lambda>deployment.
     Option.bind (text_at d ''actor_subject'') (\<lambda>actor.
     Option.bind (text_at d ''idempotency_key'') (\<lambda>key.
     Option.bind (text_at d ''request_digest'') (\<lambda>digest.
     Option.bind (Option.bind (map_of d ''evidence'') (\<lambda>v. ok_of (validated_operation_evidence v stage))) (\<lambda>ev.
     Option.bind (time_at d ''created_at'') (\<lambda>created.
     Option.bind (time_at d ''updated_at'') (\<lambda>updated. Some
       \<lparr>or_schema_version = schema, or_operation_reference = reference, or_operation = operation,
        or_customer_id = customer, or_deployment_id = deployment, or_actor_subject = actor,
        or_idempotency_key = key, or_request_digest = digest, or_stage = stage, or_evidence = ev,
        or_created_at = created, or_updated_at = updated\<rparr>)))))))))))))"

definition provider_effect_reservation_item :: "effect_reservation \<Rightarrow> exn + item" where
  "provider_effect_reservation_item x = (case adapter_timestamp (er_created_at x) of Inl e \<Rightarrow> Inl e
     | Inr created \<Rightarrow> Inr
         [(''pk'', PStr (operation_pk (er_customer_id x) (er_deployment_id x))),
          (''sk'', PStr (provider_effect_reservation_sk (er_operation x) (er_target_reference x)
                     (er_expected_membership_version x))),
          (''schema_version'', PStr (er_schema_version x)),
          (''operation'', PStr (lifecycle_operation_value (er_operation x))),
          (''customer_id'', PStr (er_customer_id x)), (''deployment_id'', PStr (er_deployment_id x)),
          (''target_reference'', PStr (er_target_reference x)),
          (''expected_membership_version'', PInt (er_expected_membership_version x)),
          (''approval_reference'', PStr (er_approval_reference x)),
          (''request_digest'', PStr (er_request_digest x)), (''actor_subject'', PStr (er_actor_subject x)),
          (''winner_operation_reference'', PStr (er_winner_operation_reference x)),
          (''created_at'', PStr created)])"

definition reservation_fields :: "item \<Rightarrow> effect_reservation option" where
  "reservation_fields d =
     Option.bind (text_at d ''schema_version'') (\<lambda>schema.
     Option.bind (Option.bind (text_at d ''operation'')
       (of_value lifecycle_operation_value lifecycle_operation_members)) (\<lambda>operation.
     Option.bind (text_at d ''customer_id'') (\<lambda>customer.
     Option.bind (text_at d ''deployment_id'') (\<lambda>deployment.
     Option.bind (text_at d ''target_reference'') (\<lambda>target.
     Option.bind (Option.bind (map_of d ''expected_membership_version'') (\<lambda>v. ok_of (integer v))) (\<lambda>version.
     Option.bind (text_at d ''approval_reference'') (\<lambda>approval.
     Option.bind (text_at d ''request_digest'') (\<lambda>digest.
     Option.bind (text_at d ''actor_subject'') (\<lambda>actor.
     Option.bind (text_at d ''winner_operation_reference'') (\<lambda>winner.
     Option.bind (time_at d ''created_at'') (\<lambda>created. Some
       \<lparr>er_schema_version = schema, er_operation = operation, er_customer_id = customer,
        er_deployment_id = deployment, er_target_reference = target,
        er_expected_membership_version = version, er_approval_reference = approval,
        er_request_digest = digest, er_actor_subject = actor, er_winner_operation_reference = winner,
        er_created_at = created\<rparr>)))))))))))"

definition reservation_item_ok :: "item \<Rightarrow> effect_reservation \<Rightarrow> bool" where
  "reservation_item_ok d x \<longleftrightarrow>
     er_schema_version x = PROVIDER_EFFECT_RESERVATION_SCHEMA_VERSION
     \<and> membership_reference_pattern (er_target_reference x)
     \<and> approval_reference_pattern (er_approval_reference x)
     \<and> digest_pattern (er_request_digest x) \<and> subject_pattern (er_actor_subject x)
     \<and> operation_reference_pattern (er_winner_operation_reference x)
     \<and> py_eq (py_get d ''pk'') (PStr (operation_pk (er_customer_id x) (er_deployment_id x)))
     \<and> py_eq (py_get d ''sk'') (PStr (provider_effect_reservation_sk (er_operation x)
           (er_target_reference x) (er_expected_membership_version x)))"

definition provider_effect_reservation_from_item :: "item \<Rightarrow> exn + effect_reservation" where
  "provider_effect_reservation_from_item d = (case reservation_fields d of
       None \<Rightarrow> Inl ContractError
     | Some x \<Rightarrow> if reservation_item_ok d x then Inr x else Inl ContractError)"

definition membership_item :: "membership_record \<Rightarrow> exn + item" where
  "membership_item m = (case adapter_timestamp (mb_created_at m) of Inl e \<Rightarrow> Inl e
     | Inr created \<Rightarrow> (case adapter_timestamp (mb_updated_at m) of Inl e \<Rightarrow> Inl e
     | Inr updated \<Rightarrow>
         (let d = [(''pk'', PStr (membership_pk (mb_customer_id m) (mb_deployment_id m))),
            (''sk'', PStr (subject_sk (mb_subject m))),
            (''schema_version'', PStr (mb_schema_version m)),
            (''membership_reference'', PStr (mb_membership_reference m)),
            (''subject'', PStr (mb_subject m)), (''customer_id'', PStr (mb_customer_id m)),
            (''deployment_id'', PStr (mb_deployment_id m)),
            (''state'', PStr (membership_state_value (mb_state m))),
            (''role_id'', PStr (human_role_value (mb_role_id m))),
            (''membership_version'', PInt (mb_membership_version m)),
            (''provider_user_reference'', PStr (mb_provider_user_reference m)),
            (''provider_principal_key'', PStr (mb_provider_principal_key m)),
            (''created_at'', PStr created), (''updated_at'', PStr updated),
            (''ownership_membership_key'', PStr (membership_binding (mb_customer_id m)
               (mb_deployment_id m) (mb_membership_reference m))),
            (''ownership_state_key'', PStr (state_binding (mb_customer_id m) (mb_deployment_id m)
               (mb_state m)))]
          in case mb_invitation_expires_at m of
               None \<Rightarrow> Inr d
             | Some t \<Rightarrow> (case adapter_timestamp t of Inl e \<Rightarrow> Inl e
                 | Inr expires \<Rightarrow> Inr (d @ [(''invitation_expires_at'', PStr expires)])))))"

definition expiry_at :: "item \<Rightarrow> datetime option option" where
  "expiry_at d = (case map_of d ''invitation_expires_at'' of
       None \<Rightarrow> Some None
     | Some v \<Rightarrow> map_option Some (ok_of (adapter_parse_timestamp v)))"

definition membership_fields :: "item \<Rightarrow> membership_record option" where
  "membership_fields d =
     Option.bind (text_at d ''schema_version'') (\<lambda>schema.
     Option.bind (text_at d ''membership_reference'') (\<lambda>reference.
     Option.bind (text_at d ''subject'') (\<lambda>subject.
     Option.bind (text_at d ''customer_id'') (\<lambda>customer.
     Option.bind (text_at d ''deployment_id'') (\<lambda>deployment.
     Option.bind (Option.bind (text_at d ''state'')
       (of_value membership_state_value membership_state_members)) (\<lambda>state.
     Option.bind (Option.bind (text_at d ''role_id'') (of_value human_role_value human_role_members)) (\<lambda>role.
     Option.bind (Option.bind (map_of d ''membership_version'') (\<lambda>v. ok_of (integer v))) (\<lambda>version.
     Option.bind (text_at d ''provider_user_reference'') (\<lambda>provider.
     Option.bind (text_at d ''provider_principal_key'') (\<lambda>principal.
     Option.bind (time_at d ''created_at'') (\<lambda>created.
     Option.bind (time_at d ''updated_at'') (\<lambda>updated.
     Option.bind (expiry_at d) (\<lambda>expires. Some
       \<lparr>mb_schema_version = schema, mb_membership_reference = reference, mb_subject = subject,
        mb_customer_id = customer, mb_deployment_id = deployment, mb_state = state,
        mb_role_id = role, mb_membership_version = version, mb_provider_user_reference = provider,
        mb_provider_principal_key = principal, mb_created_at = created, mb_updated_at = updated,
        mb_invitation_expires_at = expires\<rparr>)))))))))))))"

definition membership_from_item :: "item \<Rightarrow> exn + membership_record" where
  "membership_from_item d = contract (membership_fields d)"

section \<open>The operation ledger\<close>

definition adapter_now :: "'w dynamo \<Rightarrow> ('w, datetime) io" where
  "adapter_now dy = (\<lambda>w. case dy_clock dy w of (t, w') \<Rightarrow> (Inr (Aware t), w'))"

definition load_operation :: "'w dynamo \<Rightarrow> lifecycle_command \<Rightarrow> ('w, operation_record) io" where
  "load_operation dy cm =
     bind (dy_get_item dy (operation_pk (cm_customer_id cm) (cm_deployment_id cm),
                           idempotency_sk (cm_idempotency_key cm))) (\<lambda>response.
       case response_item response of
         None \<Rightarrow> raise ContractError
       | Some d \<Rightarrow> lift (operation_from_item d))"

definition same_command :: "operation_record \<Rightarrow> lifecycle_command \<Rightarrow> bool" where
  "same_command r cm \<longleftrightarrow> or_operation r = cm_operation cm \<and> or_actor_subject r = cm_actor_subject cm
     \<and> or_idempotency_key r = cm_idempotency_key cm \<and> or_request_digest r = cm_request_digest cm"

definition store_reserve_operation :: "'w dynamo \<Rightarrow> lifecycle_command \<Rightarrow> ('w, operation_record) io" where
  "store_reserve_operation dy cm =
     bind (adapter_now dy) (\<lambda>now.
     let record = operation_record_new cm now in
     bind (lift (operation_item record)) (\<lambda>d.
       or_refused [CONDITIONAL_FAILURE] (dy_put_item dy d unless_exists) record
         (bind (load_operation dy cm) (\<lambda>existing.
          bind (ensure (same_command existing cm) IdempotencyConflict) (\<lambda>_. ret existing)))))"

definition load_provider_effect_reservation ::
  "'w dynamo \<Rightarrow> effect_reservation \<Rightarrow> ('w, effect_reservation) io" where
  "load_provider_effect_reservation dy x =
     bind (dy_get_item dy (operation_pk (er_customer_id x) (er_deployment_id x),
             provider_effect_reservation_sk (er_operation x) (er_target_reference x)
               (er_expected_membership_version x))) (\<lambda>response.
       case response_item response of
         None \<Rightarrow> raise ContractError
       | Some d \<Rightarrow> lift (provider_effect_reservation_from_item d))"

definition same_effect :: "effect_reservation \<Rightarrow> effect_reservation \<Rightarrow> bool" where
  "same_effect x y \<longleftrightarrow> er_operation x = er_operation y \<and> er_customer_id x = er_customer_id y
     \<and> er_deployment_id x = er_deployment_id y \<and> er_target_reference x = er_target_reference y
     \<and> er_expected_membership_version x = er_expected_membership_version y"

text \<open>The reservation that holds, and whether it was made here.\<close>

definition store_reserve_provider_effect ::
  "'w dynamo \<Rightarrow> effect_reservation \<Rightarrow> ('w, effect_reservation \<times> bool) io" where
  "store_reserve_provider_effect dy x =
     bind (lift (provider_effect_reservation_item x)) (\<lambda>d.
       or_refused [CONDITIONAL_FAILURE] (dy_put_item dy d unless_exists) (x, True)
         (bind (load_provider_effect_reservation dy x) (\<lambda>existing.
          bind (ensure (same_effect existing x) IdempotencyConflict) (\<lambda>_. ret (existing, False)))))"

definition checkpoint_tests :: "operation_record \<Rightarrow> lifecycle_stage \<Rightarrow> test list" where
  "checkpoint_tests r expected_stage =
     [Equals ''stage'' (PStr (lifecycle_stage_value expected_stage)),
      Equals ''operation_reference'' (PStr (or_operation_reference r)),
      Equals ''request_digest'' (PStr (or_request_digest r)),
      Equals ''actor_subject'' (PStr (or_actor_subject r))]"

definition store_checkpoint_operation ::
  "'w dynamo \<Rightarrow> operation_record \<Rightarrow> lifecycle_stage \<Rightarrow> lifecycle_stage \<Rightarrow> op_evidence option
    \<Rightarrow> ('w, operation_record \<times> bool) io" where
  "store_checkpoint_operation dy r expected_stage next_stage evidence =
     bind (lift (validated_operation_evidence
             (evidence_dict (dict_merge (or_evidence r) (case evidence of Some e \<Rightarrow> e | None \<Rightarrow> [])))
             next_stage)) (\<lambda>merged.
     bind (adapter_now dy) (\<lambda>now.
       or_refused [CONDITIONAL_FAILURE]
         (dy_update_item dy (operation_pk (or_customer_id r) (or_deployment_id r),
                             idempotency_sk (or_idempotency_key r))
            [(''stage'', PStr (lifecycle_stage_value next_stage)), (''evidence'', evidence_dict merged),
             (''updated_at'', PStr (timestamp_text (instant now)))] [] (checkpoint_tests r expected_stage))
         (r\<lparr>or_stage := next_stage, or_evidence := merged, or_updated_at := now\<rparr>, True)
         (bind (load_operation dy
                  \<lparr>cm_operation = or_operation r, cm_customer_id = or_customer_id r,
                   cm_deployment_id = or_deployment_id r, cm_actor_subject = or_actor_subject r,
                   cm_idempotency_key = or_idempotency_key r, cm_request_digest = or_request_digest r\<rparr>)
            (\<lambda>current.
             bind (ensure (or_stage current = next_stage
                     \<and> list_all (\<lambda>(k, v). map_of (or_evidence current) k = Some v) merged)
                    IdempotencyConflict) (\<lambda>_. ret (current, False))))))"

section \<open>Memberships\<close>

text \<open>The list of items of a response, or the contract error.\<close>

definition response_items :: "pyval \<Rightarrow> exn + pyval list" where
  "response_items r = (case response_get r ''Items'' of PList ds \<Rightarrow> Inr ds | _ \<Rightarrow> Inl ContractError)"

definition membership_from_value :: "pyval \<Rightarrow> exn + membership_record" where
  "membership_from_value v = (case v of PDict d \<Rightarrow> membership_from_item d | _ \<Rightarrow> Inl ContractError)"

definition MEMBERSHIP_REFERENCE_INDEX :: string where
  "MEMBERSHIP_REFERENCE_INDEX = ''ownership-membership-reference-v1''"
definition MEMBERSHIP_STATE_INDEX :: string where
  "MEMBERSHIP_STATE_INDEX = ''ownership-state-v1''"

text \<open>The index finds a candidate; the membership returned is read consistently from its key.\<close>

definition store_load_membership ::
  "'w dynamo \<Rightarrow> string \<Rightarrow> string \<Rightarrow> string \<Rightarrow> ('w, membership_record option) io" where
  "store_load_membership dy customer deployment reference =
     bind (dy_query dy \<lparr>qy_index = Some MEMBERSHIP_REFERENCE_INDEX,
             qy_equals = (''ownership_membership_key'', membership_binding customer deployment reference),
             qy_prefix = None, qy_start = None, qy_limit = 2, qy_forward = True\<rparr>) (\<lambda>response.
     bind (lift (response_items response)) (\<lambda>ds.
       case ds of
         [] \<Rightarrow> ret None
       | v # vs \<Rightarrow>
           bind (ensure (vs = [] \<and> response_get response ''LastEvaluatedKey'' = PNone) ContractError) (\<lambda>_.
           bind (lift (membership_from_value v)) (\<lambda>candidate.
           bind (dy_get_item dy (membership_pk customer deployment, subject_sk (mb_subject candidate))) (\<lambda>primary.
             if response_get primary ''Item'' = PNone then ret None
             else bind (lift (membership_from_value (response_get primary ''Item''))) (\<lambda>m.
               bind (ensure (mb_customer_id m = customer \<and> mb_deployment_id m = deployment
                       \<and> mb_membership_reference m = reference) ContractError) (\<lambda>_. ret (Some m))))))))"

definition invited_membership ::
  "string \<Rightarrow> string \<Rightarrow> provider_receipt \<Rightarrow> human_role \<Rightarrow> datetime \<Rightarrow> datetime \<Rightarrow> membership_record" where
  "invited_membership customer deployment p role expires now =
     \<lparr>mb_schema_version = ''enterprise-membership.v1'',
      mb_membership_reference = membership_reference_of customer deployment (pr_subject p),
      mb_subject = pr_subject p, mb_customer_id = customer, mb_deployment_id = deployment,
      mb_state = INVITED, mb_role_id = role, mb_membership_version = 1,
      mb_provider_user_reference = pr_provider_user_reference p,
      mb_provider_principal_key = pr_provider_principal_key p, mb_created_at = now,
      mb_updated_at = now, mb_invitation_expires_at = Some expires\<rparr>"

text \<open>A record agrees with the one that this call would have written, its times apart.\<close>

definition same_invitation :: "membership_record \<Rightarrow> membership_record \<Rightarrow> bool" where
  "same_invitation a b \<longleftrightarrow> mb_customer_id a = mb_customer_id b \<and> mb_deployment_id a = mb_deployment_id b
     \<and> mb_membership_reference a = mb_membership_reference b \<and> mb_subject a = mb_subject b
     \<and> mb_state a = INVITED \<and> mb_role_id a = mb_role_id b
     \<and> mb_provider_user_reference a = mb_provider_user_reference b
     \<and> mb_provider_principal_key a = mb_provider_principal_key b"

text \<open>The item under a key when this very operation wrote it last.\<close>

definition own_item :: "'w dynamo \<Rightarrow> item_key \<Rightarrow> string \<Rightarrow> ('w, item) io" where
  "own_item dy k operation_reference = bind (dy_get_item dy k) (\<lambda>response.
     case response_item response of
       None \<Rightarrow> raise IdempotencyConflict
     | Some d \<Rightarrow> if py_eq (py_get d ''last_operation_reference'') (PStr operation_reference)
                 then ret d else raise IdempotencyConflict)"

text \<open>Deadlines are compared as instants; a record that was read has aware times.\<close>

definition same_deadline :: "membership_record \<Rightarrow> datetime \<Rightarrow> bool" where
  "same_deadline m t \<longleftrightarrow> (case mb_invitation_expires_at m of
     Some e \<Rightarrow> is_aware t \<and> instant e = instant t | None \<Rightarrow> False)"

definition store_create_invited_membership ::
  "'w dynamo \<Rightarrow> string \<Rightarrow> string \<Rightarrow> provider_receipt \<Rightarrow> human_role \<Rightarrow> datetime \<Rightarrow> string
    \<Rightarrow> ('w, membership_record) io" where
  "store_create_invited_membership dy customer deployment p role expires operation_reference =
     bind (adapter_now dy) (\<lambda>now.
     let record = invited_membership customer deployment p role expires now in
     bind (lift (membership_item record)) (\<lambda>d.
       or_refused [CONDITIONAL_FAILURE]
         (dy_put_item dy (d @ [(''last_operation_reference'', PStr operation_reference)]) unless_exists)
         record
         (bind (own_item dy (membership_pk customer deployment, subject_sk (pr_subject p)) operation_reference) (\<lambda>e.
          bind (lift (membership_from_item e)) (\<lambda>current.
          bind (ensure (same_invitation current record \<and> mb_membership_version current = 1
                  \<and> same_deadline current expires) IdempotencyConflict) (\<lambda>_. ret current))))))"

definition transition_tests :: "membership_record \<Rightarrow> membership_state \<Rightarrow> int \<Rightarrow> test list" where
  "transition_tests current expected_state expected_version =
     [Equals ''customer_id'' (PStr (mb_customer_id current)),
      Equals ''deployment_id'' (PStr (mb_deployment_id current)),
      Equals ''membership_reference'' (PStr (mb_membership_reference current)),
      Equals ''state'' (PStr (membership_state_value expected_state)),
      Equals ''membership_version'' (PInt expected_version)]"

definition transition_sets :: "transition_query \<Rightarrow> datetime \<Rightarrow> (string \<times> pyval) list" where
  "transition_sets q now =
     [(''state'', PStr (membership_state_value (tq_next_state q))),
      (''role_id'', PStr (human_role_value (tq_next_role q))),
      (''membership_version'', PInt (tq_expected_version q + 1)),
      (''updated_at'', PStr (timestamp_text (instant now))),
      (''ownership_state_key'', PStr (state_binding (mb_customer_id (tq_current q))
         (mb_deployment_id (tq_current q)) (tq_next_state q))),
      (''last_operation_reference'', PStr (tq_operation_reference q))]"

definition member_key :: "membership_record \<Rightarrow> item_key" where
  "member_key m = (membership_pk (mb_customer_id m) (mb_deployment_id m), subject_sk (mb_subject m))"

definition removes_active_admin :: "membership_record \<Rightarrow> membership_state \<Rightarrow> human_role \<Rightarrow> bool" where
  "removes_active_admin m next_state next_role \<longleftrightarrow>
     mb_state m = ACTIVE \<and> mb_role_id m = CUSTOMER_ADMIN \<and>
     (next_state \<noteq> ACTIVE \<or> next_role \<noteq> CUSTOMER_ADMIN)"

definition replacement_ok :: "membership_record \<Rightarrow> membership_record \<Rightarrow> bool" where
  "replacement_ok p current \<longleftrightarrow>
     mb_customer_id p = mb_customer_id current \<and> mb_deployment_id p = mb_deployment_id current
     \<and> mb_membership_reference p \<noteq> mb_membership_reference current
     \<and> mb_state p = ACTIVE \<and> mb_role_id p = CUSTOMER_ADMIN"

definition replacement_tests :: "membership_record \<Rightarrow> membership_record \<Rightarrow> test list" where
  "replacement_tests p current =
     [Equals ''customer_id'' (PStr (mb_customer_id current)),
      Equals ''deployment_id'' (PStr (mb_deployment_id current)),
      Equals ''membership_reference'' (PStr (mb_membership_reference p)),
      Equals ''state'' (PStr (membership_state_value ACTIVE)),
      Equals ''role_id'' (PStr (human_role_value CUSTOMER_ADMIN)),
      Equals ''membership_version'' (PInt (mb_membership_version p))]"

text \<open>The one write of a transition: alone, or in a transaction with the check of the replacement.\<close>

definition transition_write :: "transition_query \<Rightarrow> datetime \<Rightarrow> table_write" where
  "transition_write q now = Update (member_key (tq_current q)) (transition_sets q now)
     [''invitation_expires_at''] (transition_tests (tq_current q) (tq_expected_state q) (tq_expected_version q))"

definition transition_call :: "'w dynamo \<Rightarrow> transition_query \<Rightarrow> datetime \<Rightarrow> ('w, unit) io" where
  "transition_call dy q now = (case tq_admin_replacement q of
       None \<Rightarrow> dy_update_item dy (member_key (tq_current q)) (transition_sets q now)
         [''invitation_expires_at''] (transition_tests (tq_current q) (tq_expected_state q) (tq_expected_version q))
     | Some p \<Rightarrow>
         if \<not> replacement_ok p (tq_current q) then raise ContractError
         else (case dy_transact dy of
             None \<Rightarrow> raise ContractError
           | Some transact \<Rightarrow>
               if \<not> is_str (dy_name dy) then raise ContractError
               else transact (member_key p) (replacement_tests p (tq_current q)) (transition_write q now)
                      (tq_operation_reference q)))"

definition store_transition_membership :: "'w dynamo \<Rightarrow> transition_query \<Rightarrow> ('w, membership_record) io" where
  "store_transition_membership dy q =
     bind (adapter_now dy) (\<lambda>now.
     bind (ensure (\<not> (removes_active_admin (tq_current q) (tq_next_state q) (tq_next_role q)
             \<and> tq_admin_replacement q = None)) ContractError) (\<lambda>_.
       or_refused [CONDITIONAL_FAILURE, TRANSACTION_FAILURE] (transition_call dy q now)
         ((tq_current q)\<lparr>mb_state := tq_next_state q, mb_role_id := tq_next_role q,
            mb_membership_version := tq_expected_version q + 1, mb_updated_at := now,
            mb_invitation_expires_at := None\<rparr>)
         (bind (own_item dy (member_key (tq_current q)) (tq_operation_reference q)) (\<lambda>d.
          bind (lift (membership_from_item d)) (\<lambda>m.
          bind (ensure (mb_state m = tq_next_state q \<and> mb_role_id m = tq_next_role q
                  \<and> mb_membership_version m = tq_expected_version q + 1) IdempotencyConflict) (\<lambda>_. ret m))))))"

definition refresh_tests :: "membership_record \<Rightarrow> int \<Rightarrow> test list" where
  "refresh_tests current expected_version =
     [Equals ''customer_id'' (PStr (mb_customer_id current)),
      Equals ''deployment_id'' (PStr (mb_deployment_id current)),
      Equals ''membership_reference'' (PStr (mb_membership_reference current)),
      Equals ''state'' (PStr (membership_state_value INVITED)),
      Equals ''membership_version'' (PInt expected_version),
      Equals ''provider_user_reference'' (PStr (mb_provider_user_reference current)),
      Equals ''provider_principal_key'' (PStr (mb_provider_principal_key current))]"

definition refresh_sets :: "int \<Rightarrow> datetime \<Rightarrow> datetime \<Rightarrow> string \<Rightarrow> (string \<times> pyval) list" where
  "refresh_sets expected_version expires now operation_reference =
     [(''membership_version'', PInt (expected_version + 1)),
      (''invitation_expires_at'', PStr (timestamp_text (instant expires))),
      (''updated_at'', PStr (timestamp_text (instant now))),
      (''last_operation_reference'', PStr operation_reference)]"

definition store_refresh_invitation ::
  "'w dynamo \<Rightarrow> membership_record \<Rightarrow> int \<Rightarrow> datetime \<Rightarrow> string \<Rightarrow> ('w, membership_record) io" where
  "store_refresh_invitation dy current expected_version expires operation_reference =
     bind (ensure (mb_state current = INVITED \<and> mb_membership_version current = expected_version
             \<and> is_aware expires) ContractError) (\<lambda>_.
     bind (adapter_now dy) (\<lambda>now.
       or_refused [CONDITIONAL_FAILURE]
         (dy_update_item dy (member_key current)
            (refresh_sets expected_version expires now operation_reference) []
            (refresh_tests current expected_version))
         (current\<lparr>mb_membership_version := expected_version + 1, mb_updated_at := now,
            mb_invitation_expires_at := Some expires\<rparr>)
         (bind (own_item dy (member_key current) operation_reference) (\<lambda>d.
          bind (lift (membership_from_item d)) (\<lambda>m.
          bind (ensure (same_invitation m current \<and> mb_membership_version m = expected_version + 1
                  \<and> same_deadline m expires) IdempotencyConflict) (\<lambda>_. ret m))))))"

end
