(* ===== verification/LifecycleAdapters.thy ===== *)
theory LifecycleAdapters
  imports LifecycleService LifecycleStore
begin

text \<open>
  The adapters of \<open>app/user_lifecycle_adapters.py\<close> beside the store: the approval resolver and the
  audit sink on DynamoDB, and the identity provider on Cognito. The SDK clients are parameters;
  what the Cognito client answers is not assumed to be anything.
\<close>

section \<open>Approvals\<close>

definition approval_pk :: "string \<Rightarrow> string \<Rightarrow> string" where
  "approval_pk customer deployment = ''APPROVAL#'' @ owner_prefix customer deployment"

definition audit_pk :: "string \<Rightarrow> string \<Rightarrow> string" where
  "audit_pk customer deployment = ''AUDIT#'' @ owner_prefix customer deployment"

definition approval_fields :: "item \<Rightarrow> approval_evidence option" where
  "approval_fields d =
     Option.bind (text_at d ''schema_version'') (\<lambda>schema.
     Option.bind (text_at d ''approval_reference'') (\<lambda>reference.
     Option.bind (text_at d ''approver_subject'') (\<lambda>approver.
     Option.bind (text_at d ''customer_id'') (\<lambda>customer.
     Option.bind (text_at d ''deployment_id'') (\<lambda>deployment.
     Option.bind (Option.bind (text_at d ''operation'')
       (of_value lifecycle_operation_value lifecycle_operation_members)) (\<lambda>operation.
     Option.bind (text_at d ''target_reference'') (\<lambda>target.
     Option.bind (text_at d ''request_digest'') (\<lambda>digest.
     Option.bind (text_at d ''state'') (\<lambda>state.
     Option.bind (time_at d ''expires_at'') (\<lambda>expires. Some
       \<lparr>ap_schema_version = schema, ap_approval_reference = reference, ap_approver_subject = approver,
        ap_customer_id = customer, ap_deployment_id = deployment, ap_operation = operation,
        ap_target_reference = target, ap_request_digest = digest, ap_state = state,
        ap_expires_at = expires\<rparr>))))))))))"

definition approval_resolve :: "'w dynamo \<Rightarrow> approval_query \<Rightarrow> ('w, approval_evidence) io" where
  "approval_resolve dy q =
     bind (ensure (approval_reference_pattern (aq_approval_reference q)) ContractError) (\<lambda>_.
     bind (dy_get_item dy (approval_pk (aq_customer_id q) (aq_deployment_id q),
             ''REFERENCE#'' @ aq_approval_reference q)) (\<lambda>response.
       case response_item response of
         None \<Rightarrow> raise ContractError
       | Some d \<Rightarrow> lift (contract (approval_fields d))))"

section \<open>Audit events\<close>

definition AUDIT_EVENT_FIELDS :: "string list" where
  "AUDIT_EVENT_FIELDS =
     [''event_schema_version'', ''timestamp'', ''decision_id'', ''principal_type'', ''principal_reference'',
      ''customer_reference'', ''deployment_reference'', ''action'', ''resource_type'', ''decision'',
      ''reason_code'', ''policy_version'', ''policy_digest'', ''assurance'', ''correlation_reference'',
      ''approval_references'', ''before_membership_version'', ''after_membership_version'']"

text \<open>\<open>_reference(part, ...)\<close>; the parts are strings here.\<close>

definition adapter_reference :: "string list \<Rightarrow> string" where
  "adapter_reference parts = ''ref_'' @ take 32 (sha256_hex (join unit_separator parts))"

definition audit_event_accepted :: "owner \<Rightarrow> event \<Rightarrow> bool" where
  "audit_event_accepted own e \<longleftrightarrow> set (map fst e) = set AUDIT_EVENT_FIELDS
     \<and> py_eq (py_get e ''event_schema_version'') (PStr LIFECYCLE_AUDIT_EVENT_SCHEMA_VERSION)
     \<and> py_eq (py_get e ''customer_reference'') (PStr (adapter_reference [fst own]))
     \<and> py_eq (py_get e ''deployment_reference'') (PStr (adapter_reference [snd own]))"

text \<open>\<open>dict(existing) == item\<close>: the same keys with equal values.\<close>

definition same_dict :: "item \<Rightarrow> item \<Rightarrow> bool" where
  "same_dict d e \<longleftrightarrow> list_all (\<lambda>(k, _). case (map_of d k, map_of e k) of
     (Some u, Some v) \<Rightarrow> py_eq u v | _ \<Rightarrow> False) (d @ e)"

text \<open>Event attributes never clash with the key, since the set of attributes is fixed.\<close>

definition audit_item :: "owner \<Rightarrow> datetime \<Rightarrow> string \<Rightarrow> event \<Rightarrow> item" where
  "audit_item own t decision e =
     [(''pk'', PStr (audit_pk (fst own) (snd own))),
      (''sk'', PStr (timestamp_text (instant t) @ ''#'' @ decision))] @ e"

definition audit_emit :: "'w dynamo \<Rightarrow> owner \<Rightarrow> event \<Rightarrow> ('w, lifecycle_audit_receipt) io" where
  "audit_emit dy own e =
     bind (ensure (audit_event_accepted own e) ContractError) (\<lambda>_.
     bind (lift (adapter_parse_timestamp (py_get e ''timestamp''))) (\<lambda>t.
     bind (ensure (str_sat opaque_reference_pattern (py_get e ''decision_id'')) ContractError) (\<lambda>_.
     let decision = py_str (py_get e ''decision_id''); d = audit_item own t decision e in
     bind (or_refused [CONDITIONAL_FAILURE] (dy_put_item dy d unless_exists) ()
             (bind (dy_get_item dy (key_of d)) (\<lambda>response.
                case response_item response of
                  None \<Rightarrow> raise ContractError
                | Some existing \<Rightarrow> ensure (same_dict existing d) ContractError))) (\<lambda>_.
     bind (adapter_now dy) (\<lambda>acknowledged. ret
       \<lparr>lr_schema_version = LIFECYCLE_AUDIT_RECEIPT_SCHEMA_VERSION, lr_decision_id = decision,
        lr_receipt_reference = adapter_reference [fst (key_of d), snd (key_of d)],
        lr_acknowledged_at = acknowledged\<rparr>)))))"

section \<open>The identity provider\<close>

text \<open>
  The calls of the Cognito client, all for the pool of the adapter: \<open>admin_create_user\<close> for a new
  account (name, attributes in the order given, delivery by e-mail) and with \<open>RESEND\<close>,
  \<open>admin_get_user\<close>, \<open>admin_enable_user\<close>, \<open>admin_disable_user\<close>, \<open>admin_user_global_sign_out\<close>.
\<close>

record 'w cognito =
  cg_create :: "string \<Rightarrow> (string \<times> string) list \<Rightarrow> ('w, pyval) io"
  cg_resend :: "string \<Rightarrow> ('w, unit) io"
  cg_get :: "string \<Rightarrow> ('w, pyval) io"
  cg_enable :: "string \<Rightarrow> ('w, unit) io"
  cg_disable :: "string \<Rightarrow> ('w, unit) io"
  cg_sign_out :: "string \<Rightarrow> ('w, unit) io"
  cg_pool :: string

text \<open>The attributes of a user as a dictionary of texts; a later attribute of a name wins.\<close>

fun attribute_of :: "pyval \<Rightarrow> (string \<times> string) option" where
  "attribute_of (PDict d) = Some (py_str (py_get d ''Name''), py_str (py_get d ''Value''))"
| "attribute_of v = None"

definition user_attributes :: "pyval list \<Rightarrow> (string \<times> string) list" where
  "user_attributes vs = rev (List.map_filter attribute_of vs)"

definition user_state :: "(string \<times> pyval) list \<Rightarrow> string" where
  "user_state user =
     (if py_get user ''Enabled'' = PBool False then ''disabled''
      else if py_get user ''Enabled'' = PBool True \<and> py_eq (py_get user ''UserStatus'') (PStr ''CONFIRMED'')
      then ''active'' else ''invited'')"

text \<open>
  \<open>user.get("Attributes", user.get("UserAttributes"))\<close>. A string is a sequence as well, one that
  holds no attribute.
\<close>

definition user_attribute_list :: "(string \<times> pyval) list \<Rightarrow> pyval list option" where
  "user_attribute_list user =
     (case (case map_of user ''Attributes'' of Some v \<Rightarrow> v | None \<Rightarrow> py_get user ''UserAttributes'') of
        PList vs \<Rightarrow> Some vs | v \<Rightarrow> if is_str v then Some [] else None)"

definition user_receipt ::
  "string \<Rightarrow> pyval \<Rightarrow> string \<Rightarrow> string \<Rightarrow> string \<Rightarrow> string \<Rightarrow> string option \<Rightarrow> exn + provider_receipt" where
  "user_receipt pool v key digest customer deployment expected_state = (case v of
       PDict user \<Rightarrow> (case user_attribute_list user of
           None \<Rightarrow> Inl ContractError
         | Some vs \<Rightarrow>
             if \<not> py_eq (py_get user ''Username'') (PStr key) then Inl ContractError
             else (case map_of (user_attributes vs) ''sub'' of
                 None \<Rightarrow> Inl ContractError
               | Some subject \<Rightarrow>
                   if subject_pattern subject
                      \<and> map_of (user_attributes vs) ''custom:customerId'' = Some customer
                      \<and> map_of (user_attributes vs) ''custom:deployment_id'' = Some deployment
                      \<and> (case expected_state of Some s \<Rightarrow> user_state user = s | None \<Rightarrow> True)
                   then Inr \<lparr>pr_subject = subject,
                          pr_provider_user_reference = adapter_reference [pool, key, subject],
                          pr_provider_principal_key = key, pr_principal_locator_digest = digest,
                          pr_state = user_state user\<rparr>
                   else Inl ContractError))
     | _ \<Rightarrow> Inl ContractError)"

definition provider_get :: "'w cognito \<Rightarrow> string \<Rightarrow> ('w, pyval) io" where
  "provider_get cg key = bind (cg_get cg key) (\<lambda>response.
     case response of PDict d \<Rightarrow> ret response | _ \<Rightarrow> raise ContractError)"

definition request_key :: "provider_identity \<Rightarrow> exn + string" where
  "request_key p = (if subject_pattern (pi_provider_principal_key p)
     then Inr (pi_provider_principal_key p) else Inl ContractError)"

definition zero_digest :: string where "zero_digest = ''sha256:'' @ replicate 64 CHR ''0''"

definition provider_read_bound ::
  "'w cognito \<Rightarrow> provider_identity \<Rightarrow> string option \<Rightarrow> ('w, provider_receipt) io" where
  "provider_read_bound cg p expected_state =
     bind (lift (request_key p)) (\<lambda>key.
     bind (provider_get cg key) (\<lambda>user.
     bind (lift (user_receipt (cg_pool cg) user key zero_digest (pi_customer_id p) (pi_deployment_id p)
             expected_state)) (\<lambda>receipt.
     bind (ensure (pr_provider_user_reference receipt = pi_provider_user_reference p) ContractError) (\<lambda>_.
     bind (ensure (pr_subject receipt = pi_subject p) ContractError) (\<lambda>_. ret receipt)))))"

text \<open>\<open>str(locator_digest).split(":", 1)[-1][:32]\<close>\<close>

definition after_colon :: "string \<Rightarrow> string" where
  "after_colon s = (if CHR '':'' \<in> set s then tl (dropWhile (\<lambda>c. c \<noteq> CHR '':'') s) else s)"

definition provider_key_of :: "string \<Rightarrow> string" where
  "provider_key_of digest = ''usr-'' @ take 32 (after_colon digest)"

text \<open>\<open>try: m except Exception as error: if _error_code(error) != code: raise\<close>, then the handler.\<close>

definition on_error_code :: "string \<Rightarrow> ('w, 'a) io \<Rightarrow> ('w, 'a) io \<Rightarrow> ('w, 'a) io" where
  "on_error_code expected m handler = catch m (\<lambda>e. if error_code e = Some expected then handler else raise e)"

definition provider_invite :: "'w cognito \<Rightarrow> invite_query \<Rightarrow> ('w, provider_receipt) io" where
  "provider_invite cg q =
     (let key = provider_key_of (iq_principal_locator_digest q) in
      bind (ensure (iq_principal_locator q \<noteq> [] \<and> iq_principal_locator_digest q \<noteq> []
              \<and> iq_customer_id q \<noteq> [] \<and> iq_deployment_id q \<noteq> []) ContractError) (\<lambda>_.
      bind (on_error_code USERNAME_EXISTS
              (cg_create cg key [(''email'', iq_principal_locator q), (''email_verified'', ''false''),
                 (''custom:customerId'', iq_customer_id q), (''custom:deployment_id'', iq_deployment_id q)])
              (bind (provider_get cg key) (\<lambda>user. ret (PDict [(''User'', user)])))) (\<lambda>response.
        lift (user_receipt (cg_pool cg) (response_get response ''User'') key (iq_principal_locator_digest q)
          (iq_customer_id q) (iq_deployment_id q) (Some ''invited'')))))"

definition provider_confirm :: "'w cognito \<Rightarrow> provider_identity \<Rightarrow> ('w, provider_receipt) io" where
  "provider_confirm cg p = provider_read_bound cg p (Some ''active'')"

definition provider_resend :: "'w cognito \<Rightarrow> provider_identity \<Rightarrow> ('w, provider_receipt) io" where
  "provider_resend cg p =
     bind (lift (request_key p)) (\<lambda>key.
     bind (provider_read_bound cg p (Some ''invited'')) (\<lambda>_.
     bind (cg_resend cg key) (\<lambda>_.
       provider_read_bound cg p (Some ''invited''))))"

definition provider_set_enabled :: "'w cognito \<Rightarrow> provider_identity \<Rightarrow> bool \<Rightarrow> ('w, provider_receipt) io" where
  "provider_set_enabled cg p enabled =
     bind (lift (request_key p)) (\<lambda>key.
     bind (provider_read_bound cg p None) (\<lambda>_.
     bind (if enabled then cg_enable cg key else cg_disable cg key) (\<lambda>_.
       provider_read_bound cg p (Some (if enabled then ''active'' else ''disabled'')))))"

definition provider_revoke_sessions :: "'w cognito \<Rightarrow> provider_identity \<Rightarrow> ('w, string) io" where
  "provider_revoke_sessions cg p =
     bind (lift (request_key p)) (\<lambda>key.
     bind (provider_read_bound cg p None) (\<lambda>_.
     bind (cg_sign_out cg key) (\<lambda>_.
       ret (adapter_reference [cg_pool cg, key, pi_idempotency_key p]))))"

end
