(* ===== verification/LifecycleListings.thy ===== *)
theory LifecycleListings
  imports PyCodec LifecycleAdapters
begin

text \<open>
  The listings of \<open>app/user_lifecycle_adapters.py\<close> with their cursors: a cursor is the start key of
  the next page, as JSON in URL-safe base 64. It comes back from the caller, so the decoder
  must not let it leave the partition of the owner.
\<close>

section \<open>Cursors\<close>

definition cursor_encode :: "(string \<times> pyval) list \<Rightarrow> exn + string" where
  "cursor_encode key = (case json_dumps (PDict key) of
       None \<Rightarrow> Inl (PyExc ''TypeError'')
     | Some material \<Rightarrow> Inr (''cur_'' @ b64_encode (map code material)))"

text \<open>The decoded document as a dictionary, for a cursor that is one.\<close>

definition cursor_document :: "string \<Rightarrow> (string \<times> jvalue) list option" where
  "cursor_document cursor = (if \<not> starts_with ''cur_'' cursor then None
     else case Option.bind (Option.bind (b64_decode (drop 4 cursor)) utf8_decode) json_loads of
         Some (JObject ms) \<Rightarrow> Some (dict_merge [] ms)
       | _ \<Rightarrow> None)"

definition text_member :: "(string \<times> jvalue) list \<Rightarrow> string \<Rightarrow> string option" where
  "text_member d k = (case map_of d k of Some (JText s) \<Rightarrow> Some s | _ \<Rightarrow> None)"

definition cursor_decode :: "string \<Rightarrow> string \<Rightarrow> string \<Rightarrow> exn + (string \<times> string) list" where
  "cursor_decode cursor expected_pk expected_sk_prefix = (case cursor_document cursor of
       None \<Rightarrow> Inl ContractError
     | Some d \<Rightarrow> (case text_member d ''sk'' of
           None \<Rightarrow> Inl ContractError
         | Some sk \<Rightarrow>
             if set (map fst d) = {''pk'', ''sk''} \<and> text_member d ''pk'' = Some expected_pk
                \<and> starts_with expected_sk_prefix sk
             then Inr [(''pk'', expected_pk), (''sk'', sk)] else Inl ContractError))"

definition state_cursor_decode :: "string \<Rightarrow> string \<Rightarrow> string \<Rightarrow> exn + (string \<times> string) list" where
  "state_cursor_decode cursor expected_pk expected_state_binding = (case cursor_document cursor of
       None \<Rightarrow> Inl ContractError
     | Some d \<Rightarrow> (case (text_member d ''sk'', text_member d ''membership_reference'') of
           (Some sk, Some reference) \<Rightarrow>
             if set (map fst d) = {''pk'', ''sk'', ''ownership_state_key'', ''membership_reference''}
                \<and> text_member d ''pk'' = Some expected_pk \<and> starts_with ''SUBJECT#'' sk
                \<and> text_member d ''ownership_state_key'' = Some expected_state_binding
                \<and> membership_reference_pattern reference
             then Inr (map (\<lambda>(k, v). (k, the (text_member d k))) d) else Inl ContractError
         | _ \<Rightarrow> Inl ContractError))"

text \<open>The cursor of the next page: encoded, checked by decoding, and encoded again.\<close>

definition next_cursor :: "pyval \<Rightarrow> (string \<Rightarrow> exn + (string \<times> string) list) \<Rightarrow> exn + string option" where
  "next_cursor last_key decode = (case last_key of
       PNone \<Rightarrow> Inr None
     | PDict key \<Rightarrow> (case cursor_encode key of Inl e \<Rightarrow> Inl e
         | Inr encoded \<Rightarrow> (case decode encoded of Inl e \<Rightarrow> Inl e
         | Inr validated \<Rightarrow> (case cursor_encode (map (\<lambda>(k, v). (k, PStr v)) validated) of Inl e \<Rightarrow> Inl e
         | Inr c \<Rightarrow> Inr (Some c))))
     | _ \<Rightarrow> Inl ContractError)"

definition start_key ::
  "string option \<Rightarrow> (string \<Rightarrow> exn + (string \<times> string) list) \<Rightarrow> exn + (string \<times> string) list option" where
  "start_key cursor decode = (case cursor of
       None \<Rightarrow> Inr None
     | Some c \<Rightarrow> (case decode c of Inl e \<Rightarrow> Inl e | Inr key \<Rightarrow> Inr (Some key)))"

section \<open>Memberships\<close>

definition membership_cursor ::
  "string \<Rightarrow> string \<Rightarrow> membership_state option \<Rightarrow> string \<Rightarrow> exn + (string \<times> string) list" where
  "membership_cursor customer deployment state cursor = (case state of
       None \<Rightarrow> cursor_decode cursor (membership_pk customer deployment) ''SUBJECT#''
     | Some st \<Rightarrow> state_cursor_decode cursor (membership_pk customer deployment)
         (state_binding customer deployment st))"

definition membership_query ::
  "string \<Rightarrow> string \<Rightarrow> membership_state option \<Rightarrow> (string \<times> string) list option \<Rightarrow> int \<Rightarrow> table_query" where
  "membership_query customer deployment state start limit = (case state of
       None \<Rightarrow>
         \<lparr>qy_index = None, qy_equals = (''pk'', membership_pk customer deployment),
          qy_prefix = Some (''sk'', ''SUBJECT#''), qy_start = start, qy_limit = limit, qy_forward = True\<rparr>
     | Some st \<Rightarrow>
         \<lparr>qy_index = Some MEMBERSHIP_STATE_INDEX,
          qy_equals = (''ownership_state_key'', state_binding customer deployment st),
          qy_prefix = Some (''membership_reference'', ''mbr_''), qy_start = start, qy_limit = limit,
          qy_forward = True\<rparr>)"

text \<open>\<open>tuple(f(item) for item in items)\<close> where \<open>f\<close> may raise.\<close>

fun each :: "('a \<Rightarrow> 'e + 'b) \<Rightarrow> 'a list \<Rightarrow> 'e + 'b list" where
  "each f [] = Inr []"
| "each f (x # xs) = (case f x of Inl e \<Rightarrow> Inl e
     | Inr y \<Rightarrow> (case each f xs of Inl e \<Rightarrow> Inl e | Inr ys \<Rightarrow> Inr (y # ys)))"

definition store_list_memberships ::
  "'w dynamo \<Rightarrow> string \<Rightarrow> string \<Rightarrow> membership_state option \<Rightarrow> string option \<Rightarrow> int
    \<Rightarrow> ('w, membership_record list \<times> string option) io" where
  "store_list_memberships dy customer deployment state cursor limit =
     bind (lift (start_key cursor (membership_cursor customer deployment state))) (\<lambda>start.
     bind (dy_query dy (membership_query customer deployment state start limit)) (\<lambda>response.
     bind (lift (response_items response)) (\<lambda>items.
     bind (lift (each membership_from_value items)) (\<lambda>records.
     bind (ensure (list_all (\<lambda>r. mb_customer_id r = customer \<and> mb_deployment_id r = deployment
             \<and> (case state of Some st \<Rightarrow> mb_state r = st | None \<Rightarrow> True)) records) ContractError) (\<lambda>_.
     bind (lift (next_cursor (response_get response ''LastEvaluatedKey'')
             (membership_cursor customer deployment state))) (\<lambda>c.
       ret (records, c)))))))"

section \<open>Audit events\<close>

definition audit_event_fields :: "string \<Rightarrow> item \<Rightarrow> lifecycle_audit_event option" where
  "audit_event_fields pk d =
     Option.bind (map_of d ''pk'') (\<lambda>v. if \<not> py_eq v (PStr pk) then None else
     Option.bind (Option.bind (map_of d ''sk'') str_view) (\<lambda>sk. if \<not> starts_with ''20'' sk then None else
     Option.bind (time_at d ''timestamp'') (\<lambda>time.
     Option.bind (Option.bind (text_at d ''action'')
       (of_value lifecycle_operation_value lifecycle_operation_members)) (\<lambda>action.
     Option.bind (text_at d ''decision'') (\<lambda>decision.
     Option.bind (text_at d ''reason_code'') (\<lambda>reason.
     Option.bind (text_at d ''principal_reference'') (\<lambda>principal.
     Option.bind (text_at d ''correlation_reference'') (\<lambda>correlation.
     Option.bind (text_at d ''before_membership_version'') (\<lambda>before_version.
     Option.bind (text_at d ''after_membership_version'') (\<lambda>after_version. Some
       \<lparr>le_event_reference = adapter_reference [py_str v, py_str (the (map_of d ''sk''))],
        le_timestamp = time, le_action = action, le_decision = decision, le_reason_code = reason,
        le_principal_reference = principal, le_correlation_reference = correlation,
        le_before_membership_version = before_version,
        le_after_membership_version = after_version\<rparr>))))))))))"

definition audit_event_from_value :: "string \<Rightarrow> pyval \<Rightarrow> exn + lifecycle_audit_event" where
  "audit_event_from_value pk v = (case v of PDict d \<Rightarrow> contract (audit_event_fields pk d) | _ \<Rightarrow> Inl ContractError)"

definition audit_list_events ::
  "'w dynamo \<Rightarrow> owner \<Rightarrow> owner \<Rightarrow> string option \<Rightarrow> int
    \<Rightarrow> ('w, lifecycle_audit_event list \<times> string option) io" where
  "audit_list_events dy own asked cursor limit =
     (let pk = audit_pk (fst asked) (snd asked); decode = (\<lambda>c. cursor_decode c pk ''20'') in
      bind (ensure (asked = own) ContractError) (\<lambda>_.
      bind (lift (start_key cursor decode)) (\<lambda>start.
      bind (dy_query dy \<lparr>qy_index = None, qy_equals = (''pk'', pk), qy_prefix = None, qy_start = start,
              qy_limit = limit, qy_forward = False\<rparr>) (\<lambda>response.
      bind (lift (response_items response)) (\<lambda>items.
      bind (lift (each (audit_event_from_value pk) items)) (\<lambda>events.
      bind (lift (next_cursor (response_get response ''LastEvaluatedKey'') decode)) (\<lambda>c.
        ret (events, c))))))))"

end
