(* ===== verification/TableProofs.thy ===== *)
theory TableProofs
  imports DynamoTable PyTime
begin

text \<open>
  Facts about the table that every adapter shares: how items are read back and updated, what a
  refused call leaves behind, and runs that write at most once.
\<close>

section \<open>Items\<close>

lemma stored_simps [simp]: "stored_item [] = []" "stored_item ((k, v) # d) = (k, stored v) # stored_item d"
  by (simp_all add: stored_item_def)

lemma stored_item_append [simp]: "stored_item (d @ e) = stored_item d @ stored_item e"
  by (simp add: stored_item_def)

lemma map_of_stored_item [simp]: "map_of (stored_item d) k = map_option stored (map_of d k)"
  by (induction d) auto

lemma aware_instant [simp]: "is_aware t \<Longrightarrow> Aware (instant t) = t"
  by (cases t) simp_all

lemma map_of_updated_item:
  assumes "distinct (map fst sets)"
  shows "map_of (updated_item (Some i) k sets removes) a =
    (if a \<in> set removes then None
     else (case map_of sets a of Some v \<Rightarrow> Some (stored v) | None \<Rightarrow> map_of i a))"
proof -
  have filt: "map_of (filter (\<lambda>(a, v). a \<notin> set removes) d) a = (if a \<in> set removes then None else map_of d a)"
    for d :: "(string \<times> pyval) list"
    by (induction d) auto
  have "distinct (map fst (stored_item sets))"
    using assms by (simp add: stored_item_def comp_def case_prod_beta)
  then show ?thesis
    by (auto simp: updated_item_def filt map_of_dict_merge map_add_def split: option.splits)
qed

text \<open>Every item carries its key in its attributes.\<close>

definition carries_key :: "item_key \<Rightarrow> item \<Rightarrow> bool" where
  "carries_key k i \<longleftrightarrow> map_of i ''pk'' = Some (PStr (fst k)) \<and> map_of i ''sk'' = Some (PStr (snd k))"

lemma carries_key_put:
  assumes "map_of d ''pk'' = Some (PStr a)" "map_of d ''sk'' = Some (PStr b)"
  shows "carries_key (a, b) (stored_item d)"
  using assms by (simp add: carries_key_def)

lemma keyed_Equals: "test_holds (m k) (Equals a v) \<Longrightarrow> \<exists>i. m k = Some i"
  by (cases "m k") auto

section \<open>Calls of the client\<close>

lemma or_refused_Inr:
  "or_refused codes call ok after w = (Inr x, w') \<longleftrightarrow> (call w = (Inr (), w') \<and> x = ok) \<or>
     (\<exists>c w1. call w = (Inl (AwsError c), w1) \<and> c \<in> set codes \<and> after w1 = (Inr x, w'))"
proof -
  obtain r w1 where c: "call w = (r, w1)" by (cases "call w")
  show ?thesis
  proof (cases r)
    case (Inl e)
    with c show ?thesis by (cases e) (auto simp: or_refused_def)
  qed (use c in \<open>auto simp: or_refused_def\<close>)
qed

lemma or_refused_Inl:
  "or_refused codes call ok after w = (Inl e, w') \<longleftrightarrow>
     (call w = (Inl e, w') \<and> (\<forall>c. e = AwsError c \<longrightarrow> c \<notin> set codes)) \<or>
     (\<exists>c w1. call w = (Inl (AwsError c), w1) \<and> c \<in> set codes \<and> after w1 = (Inl e, w'))"
proof -
  obtain r w1 where c: "call w = (r, w1)" by (cases "call w")
  show ?thesis
  proof (cases r)
    case (Inl f)
    with c show ?thesis by (cases f) (auto simp: or_refused_def)
  qed (use c in \<open>auto simp: or_refused_def\<close>)
qed

context conditional_table
begin

text \<open>Runs that leave the contents alone, and runs that may write by one of the given requests.\<close>

definition keeps :: "('w, 'a) io \<Rightarrow> bool" where
  "keeps m \<longleftrightarrow> (\<forall>w r w'. m w = (r, w') \<longrightarrow> view w' = view w)"

definition writes :: "('w, 'a) io \<Rightarrow> (table_request \<Rightarrow> bool) \<Rightarrow> bool" where
  "writes m R \<longleftrightarrow> (\<forall>w r w'. m w = (r, w') \<longrightarrow> view w' = view w \<or>
     (\<exists>rq. R rq \<and> request_allowed (view w) rq \<and> view w' = request_written (view w) rq))"

lemma keeps_bind: "keeps m \<Longrightarrow> (\<And>x. keeps (k x)) \<Longrightarrow> keeps (bind m k)"
  unfolding keeps_def bind_def by (auto split: prod.splits sum.splits)

lemma keeps_simps: "keeps (ret x)" "keeps (raise e)" "keeps (lift y)" "keeps (ensure b e)"
  by (auto simp: keeps_def ret_def raise_def lift_def ensure_def)

lemma keeps_get: "keeps (dy_get_item dy k)"
  using get_law by (auto simp: keeps_def)

lemma keeps_case_option: "keeps m \<Longrightarrow> (\<And>x. keeps (f x)) \<Longrightarrow> keeps (case v of None \<Rightarrow> m | Some x \<Rightarrow> f x)"
  by (cases v) simp_all

lemma keeps_if: "keeps m \<Longrightarrow> keeps n \<Longrightarrow> keeps (if b then m else n)"
  by simp

lemmas keeps_rules = keeps_bind keeps_simps keeps_get keeps_case_option keeps_if

lemma writes_keeps: "keeps m \<Longrightarrow> writes m R"
  by (auto simp: keeps_def writes_def)

lemma writes_bind_first: "keeps m \<Longrightarrow> (\<And>x. writes (k x) R) \<Longrightarrow> writes (bind m k) R"
  unfolding keeps_def writes_def bind_def by (auto split: prod.splits sum.splits) metis

lemma writes_bind_last: "writes m R \<Longrightarrow> (\<And>x. keeps (k x)) \<Longrightarrow> writes (bind m k) R"
  unfolding keeps_def writes_def bind_def by (fastforce split: prod.splits sum.splits)

lemma writes_lift: "(\<And>x. y = Inr x \<Longrightarrow> writes (k x) R) \<Longrightarrow> writes (bind (lift y) k) R"
  by (cases y) (simp_all add: writes_def bind_def lift_def)

lemma writes_ensure: "(b \<Longrightarrow> writes (k ()) R) \<Longrightarrow> writes (bind (ensure b e) k) R"
  by (cases b) (simp_all add: writes_def bind_def ensure_def ret_def raise_def)

text \<open>A call of the client: it wrote by one of the requests, or nothing.\<close>

definition lawful :: "('w, unit) io \<Rightarrow> (table_request \<Rightarrow> bool) \<Rightarrow> bool" where
  "lawful call R \<longleftrightarrow> (\<forall>w r w'. call w = (r, w') \<longrightarrow> view w' = view w \<or>
     (\<exists>rq. R rq \<and> request_allowed (view w) rq \<and> view w' = request_written (view w) rq))"

lemma lawful_law:
  assumes "\<And>w r w'. call w = (r, w') \<Longrightarrow> write_law (view w) rq r (view w')" "R rq"
  shows "lawful call R"
  unfolding lawful_def
proof (intro allI impI)
  fix w r w' assume "call w = (r, w')"
  from assms(1) [OF this] assms(2)
  show "view w' = view w \<or> (\<exists>rq. R rq \<and> request_allowed (view w) rq \<and> view w' = request_written (view w) rq)"
    by (cases r) (auto simp: write_law_def)
qed

lemma lawful_raise: "lawful (raise e) R"
  by (simp add: lawful_def raise_def)

lemma writes_or_refused:
  assumes call: "lawful call R" and "keeps after"
  shows "writes (or_refused codes call ok after) R"
  unfolding writes_def
proof (intro allI impI)
  fix w r w'
  assume run: "or_refused codes call ok after w = (r, w')"
  obtain x w1 where c: "call w = (x, w1)" by (cases "call w")
  from call c have law: "view w1 = view w \<or>
      (\<exists>rq. R rq \<and> request_allowed (view w) rq \<and> view w1 = request_written (view w) rq)"
    by (simp add: lawful_def)
  show "view w' = view w \<or> (\<exists>rq. R rq \<and> request_allowed (view w) rq \<and> view w' = request_written (view w) rq)"
  proof (cases "\<exists>k. x = Inl (AwsError k) \<and> k \<in> set codes")
    case True
    with run c have "after w1 = (r, w')" by (auto simp: or_refused_def)
    then have "view w' = view w1" using assms(2) by (auto simp: keeps_def)
    with law show ?thesis by simp
  next
    case False
    with run c have "w' = w1"
      by (cases x) (auto simp: or_refused_def split: option.splits if_splits elim: error_code.elims)
    with law show ?thesis by auto
  qed
qed

lemma lawful_put: "R (Single (Put d ts)) \<Longrightarrow> lawful (dy_put_item dy d ts) R"
  by (rule lawful_law [OF put_law])

lemma lawful_update: "R (Single (Update k sets removes ts)) \<Longrightarrow> lawful (dy_update_item dy k sets removes ts) R"
  by (rule lawful_law [OF update_law])

end

end
