(* ===== verification/StoreProofs.thy ===== *)
theory StoreProofs
  imports LifecycleStore TableProofs
begin

text \<open>
  The store against the contract of the table: items are read back as the records that were
  written, and each operation of the store is a linearizable conditional step.
\<close>

section \<open>Round trips\<close>

lemma stored_evidence [simp]: "stored (evidence_dict ev) = evidence_dict ev"
  by (simp add: evidence_dict_def comp_def case_prod_beta)

lemma adapter_timestamp_Inr: "adapter_timestamp t = Inr s \<longleftrightarrow> is_aware t \<and> s = timestamp_text (instant t)"
  by (auto simp: adapter_timestamp_def)

lemma adapter_parse_timestamp_text [simp]:
  "t < max_instant \<Longrightarrow> adapter_parse_timestamp (PStr (timestamp_text t)) = Inr (Aware t)"
  by (simp add: adapter_parse_timestamp_def parse_iso_timestamp_text)

lemma validated_evidence_again:
  assumes "validated_operation_evidence (evidence_dict ev) stage = Inr ev'"
  shows "ev' = ev"
  using assms by (auto simp: validated_operation_evidence_def evidence_dict_def comp_def case_prod_beta
      split: if_splits)

lemma integer_stored [simp]: "1 \<le> n \<Longrightarrow> integer (PDec n (show_int n)) = Inr n"
  by (simp add: integer_def)

lemma ok_of_Inr [simp]: "ok_of (Inr x) = Some x"
  by (simp add: ok_of_def)

lemma contract_Some [simp]: "contract (Some x) = Inr x"
  by (simp add: contract_def)

lemma operation_read_back:
  assumes "operation_item r = Inr d" "instant (or_created_at r) < max_instant"
    "instant (or_updated_at r) < max_instant"
  shows "operation_from_item (stored_item d) = Inr r"
proof -
  from assms(1) obtain ev where ev: "validated_operation_evidence (evidence_dict (or_evidence r)) (or_stage r) = Inr ev"
    and aware: "is_aware (or_created_at r)" "is_aware (or_updated_at r)"
    by (auto simp: operation_item_def adapter_timestamp_Inr split: sum.splits)
  have ev': "ev = or_evidence r" by (rule validated_evidence_again [OF ev])
  have d: "d = [(''pk'', PStr (operation_pk (or_customer_id r) (or_deployment_id r))),
          (''sk'', PStr (idempotency_sk (or_idempotency_key r))),
          (''schema_version'', PStr (or_schema_version r)),
          (''operation_reference'', PStr (or_operation_reference r)),
          (''operation'', PStr (lifecycle_operation_value (or_operation r))),
          (''customer_id'', PStr (or_customer_id r)), (''deployment_id'', PStr (or_deployment_id r)),
          (''actor_subject'', PStr (or_actor_subject r)),
          (''idempotency_key'', PStr (or_idempotency_key r)),
          (''request_digest'', PStr (or_request_digest r)),
          (''stage'', PStr (lifecycle_stage_value (or_stage r))), (''evidence'', evidence_dict (or_evidence r)),
          (''created_at'', PStr (timestamp_text (instant (or_created_at r)))),
          (''updated_at'', PStr (timestamp_text (instant (or_updated_at r))))]"
    using assms(1) ev aware by (simp add: operation_item_def ev' adapter_timestamp_def)
  show ?thesis
    using ev aware assms(2,3)
    by (simp add: operation_from_item_def d text_at_def time_at_def ev' enum_simps)
qed

text \<open>
  The ledger reads an operation back as the very record that was written: stage, evidence, both
  times (to the microsecond) and all identifiers.
\<close>

theorem operation_round_trip:
  assumes "operation_item r = Inr d" "instant (or_created_at r) < max_instant"
    "instant (or_updated_at r) < max_instant"
  shows "operation_from_item (stored_item d) = Inr r"
  by (rule operation_read_back [OF assms])

lemma membership_fields_cong: "map_of d = map_of e \<Longrightarrow> membership_fields d = membership_fields e"
  by (simp add: membership_fields_def text_at_def time_at_def expiry_at_def)

lemma map_of_snoc: "j \<noteq> k \<Longrightarrow> map_of (d @ [(k, v)]) j = map_of d j"
  by (induction d) auto

lemma membership_fields_extend:
  "membership_fields (d @ [(''last_operation_reference'', v)]) = membership_fields d"
  by (simp add: membership_fields_def text_at_def time_at_def expiry_at_def map_of_snoc del: map_of_append)

definition member_times_ok :: "membership_record \<Rightarrow> bool" where
  "member_times_ok m \<longleftrightarrow> instant (mb_created_at m) < max_instant \<and> instant (mb_updated_at m) < max_instant
     \<and> (\<forall>t. mb_invitation_expires_at m = Some t \<longrightarrow> instant t < max_instant)"

lemma membership_item_fields:
  assumes "membership_item m = Inr d" "1 \<le> mb_membership_version m" "member_times_ok m"
  shows "membership_fields (stored_item (d @ [(''last_operation_reference'', v)])) = Some m"
    and "membership_fields (stored_item d) = Some m"
proof -
  have a: "is_aware (mb_created_at m)" "is_aware (mb_updated_at m)"
      "\<forall>t. mb_invitation_expires_at m = Some t \<longrightarrow> is_aware t"
    using assms(1) by (auto simp: membership_item_def adapter_timestamp_Inr Let_def split: sum.splits option.splits)
  show "membership_fields (stored_item d) = Some m"
  proof (cases "mb_invitation_expires_at m")
    case None
    have d: "d = the (ok_of (membership_item m))" using assms(1) by simp
    show ?thesis
      using a assms(2,3) None unfolding d
      by (simp add: membership_item_def adapter_timestamp_def member_times_ok_def membership_fields_def text_at_def
          time_at_def expiry_at_def enum_simps)
  next
    case (Some t)
    have d: "d = the (ok_of (membership_item m))" using assms(1) by simp
    show ?thesis
      using a assms(2,3) Some unfolding d
      by (simp add: membership_item_def adapter_timestamp_def member_times_ok_def membership_fields_def text_at_def
          time_at_def expiry_at_def enum_simps)
  qed
  then show "membership_fields (stored_item (d @ [(''last_operation_reference'', v)])) = Some m"
    by (simp add: membership_fields_extend del: map_of_stored_item)
qed

text \<open>
  A membership is read back from its item as the very record that was written, invitation
  deadline included, with and without the operation reference that the store adds.
\<close>

theorem membership_round_trip:
  assumes "membership_item m = Inr d" "1 \<le> mb_membership_version m" "member_times_ok m"
  shows "membership_from_item (stored_item d) = Inr m \<and>
    membership_from_item (stored_item (d @ [(''last_operation_reference'', v)])) = Inr m"
  using membership_item_fields [OF assms] by (simp_all add: membership_from_item_def)

definition effect_valid :: "effect_reservation \<Rightarrow> bool" where
  "effect_valid x \<longleftrightarrow> er_schema_version x = PROVIDER_EFFECT_RESERVATION_SCHEMA_VERSION
     \<and> 1 \<le> er_expected_membership_version x \<and> membership_reference_pattern (er_target_reference x)
     \<and> approval_reference_pattern (er_approval_reference x) \<and> digest_pattern (er_request_digest x)
     \<and> subject_pattern (er_actor_subject x) \<and> operation_reference_pattern (er_winner_operation_reference x)
     \<and> instant (er_created_at x) < max_instant"

lemma reservation_read_back:
  assumes "provider_effect_reservation_item x = Inr d" "effect_valid x"
  shows "provider_effect_reservation_from_item (stored_item d) = Inr x"
proof -
  have "reservation_fields (stored_item d) = Some x"
    using assms by (auto simp: provider_effect_reservation_item_def effect_valid_def adapter_timestamp_Inr
        reservation_fields_def text_at_def time_at_def enum_simps split: sum.splits)
  moreover have "reservation_item_ok (stored_item d) x"
    using assms by (auto simp: provider_effect_reservation_item_def effect_valid_def reservation_item_ok_def
        py_get_def py_eq_PStr split: sum.splits)
  ultimately show ?thesis by (simp add: provider_effect_reservation_from_item_def)
qed

text \<open>
  A well-formed claim on a provider effect is read back from its item as the very claim that was
  written, and passes the checks of the reader.
\<close>

theorem reservation_round_trip:
  assumes "provider_effect_reservation_item x = Inr d" "effect_valid x"
  shows "provider_effect_reservation_from_item (stored_item d) = Inr x"
  by (rule reservation_read_back [OF assms])

section \<open>Keys\<close>

lemma crockford_no_hash: "list_all is_crockford s \<Longrightarrow> CHR ''#'' \<notin> set s"
  by (auto simp: list_all_iff char_class_defs code_def)

text \<open>The two halves of an owner, as the service has checked them.\<close>

definition owner_ok :: "string \<Rightarrow> string \<Rightarrow> bool" where
  "owner_ok customer deployment \<longleftrightarrow> CHR ''#'' \<notin> set customer \<and> CHR ''#'' \<notin> set deployment"

lemma owner_prefix_inject:
  "owner_ok c d \<Longrightarrow> owner_ok c' d' \<Longrightarrow> owner_prefix c d = owner_prefix c' d' \<longleftrightarrow> c = c' \<and> d = d'"
  using append_sep_eq [of "CHR ''#''" d d' c c'] by (auto simp: owner_prefix_def owner_ok_def)

lemma key_prefixes [simp]:
  "membership_pk c d \<noteq> operation_pk c' d'" "operation_pk c d \<noteq> membership_pk c' d'"
  "idempotency_sk k \<noteq> subject_sk s" "subject_sk s \<noteq> idempotency_sk k"
  "idempotency_sk k \<noteq> provider_effect_reservation_sk op t n"
  "provider_effect_reservation_sk op t n \<noteq> idempotency_sk k"
  by (simp_all add: membership_pk_def operation_pk_def idempotency_sk_def subject_sk_def
      provider_effect_reservation_sk_def)

lemma membership_pk_inject:
  "owner_ok c d \<Longrightarrow> owner_ok c' d' \<Longrightarrow> membership_pk c d = membership_pk c' d' \<longleftrightarrow> c = c' \<and> d = d'"
  by (simp add: membership_pk_def owner_prefix_inject)

lemma operation_pk_inject:
  "owner_ok c d \<Longrightarrow> owner_ok c' d' \<Longrightarrow> operation_pk c d = operation_pk c' d' \<longleftrightarrow> c = c' \<and> d = d'"
  by (simp add: operation_pk_def owner_prefix_inject)

lemma sk_inject [simp]:
  "idempotency_sk a = idempotency_sk b \<longleftrightarrow> a = b" "subject_sk s = subject_sk t \<longleftrightarrow> s = t"
  by (simp_all add: idempotency_sk_def subject_sk_def)

section \<open>One operation of the store\<close>

definition operation_key :: "lifecycle_command \<Rightarrow> item_key" where
  "operation_key cm = (operation_pk (cm_customer_id cm) (cm_deployment_id cm), idempotency_sk (cm_idempotency_key cm))"

definition effect_key :: "effect_reservation \<Rightarrow> item_key" where
  "effect_key x = (operation_pk (er_customer_id x) (er_deployment_id x),
     provider_effect_reservation_sk (er_operation x) (er_target_reference x) (er_expected_membership_version x))"

lemma key_of_operation_item:
  "operation_item r = Inr d \<Longrightarrow>
    key_of d = (operation_pk (or_customer_id r) (or_deployment_id r), idempotency_sk (or_idempotency_key r))"
  by (auto simp: operation_item_def key_of_def py_get_def split: sum.splits)

lemma key_of_reservation_item:
  "provider_effect_reservation_item x = Inr d \<Longrightarrow> key_of d = effect_key x"
  by (auto simp: provider_effect_reservation_item_def key_of_def py_get_def effect_key_def split: sum.splits)

lemma membership_item_head:
  assumes "membership_item m = Inr d"
  shows "\<exists>rest. d = (''pk'', PStr (membership_pk (mb_customer_id m) (mb_deployment_id m))) #
    (''sk'', PStr (subject_sk (mb_subject m))) # rest"
proof -
  obtain a b where "adapter_timestamp (mb_created_at m) = Inr a" "adapter_timestamp (mb_updated_at m) = Inr b"
    using assms by (auto simp: membership_item_def split: sum.splits)
  with assms show ?thesis
    by (cases "mb_invitation_expires_at m") (auto simp: membership_item_def Let_def split: sum.splits)
qed

lemma key_of_membership_item:
  assumes "membership_item m = Inr d"
  shows "key_of (d @ e) = member_key m" and "key_of d = member_key m"
  using membership_item_head [OF assms] by (auto simp: key_of_def py_get_def member_key_def)

lemma new_record_fields [simp]:
  "or_customer_id (operation_record_new cm now) = cm_customer_id cm"
  "or_deployment_id (operation_record_new cm now) = cm_deployment_id cm"
  "or_idempotency_key (operation_record_new cm now) = cm_idempotency_key cm"
  "or_stage (operation_record_new cm now) = RESERVED" "or_evidence (operation_record_new cm now) = []"
  "same_command (operation_record_new cm now) cm"
  by (simp_all add: operation_record_new_def same_command_def)

lemma adapter_now_run: "adapter_now dy w = (r, w') \<longleftrightarrow> (\<exists>t. dy_clock dy w = (t, w') \<and> r = Inr (Aware t))"
  by (auto simp: adapter_now_def split: prod.splits)

context conditional_table
begin

lemma now_view: "adapter_now dy w = (r, w') \<Longrightarrow> view w' = view w"
  using clock_law by (auto simp: adapter_now_run)

lemma load_operation_Inr:
  "load_operation dy cm w = (Inr r, w') \<Longrightarrow>
    view w' = view w \<and> (\<exists>d. view w (operation_key cm) = Some d \<and> operation_from_item d = Inr r)"
  using get_law by (auto simp: load_operation_def bind_Inr operation_key_def split: option.splits)

lemma load_effect_Inr:
  "load_provider_effect_reservation dy x w = (Inr y, w') \<Longrightarrow> view w' = view w \<and>
    (\<exists>d. view w (effect_key x) = Some d \<and> provider_effect_reservation_from_item d = Inr y)"
  using get_law by (auto simp: load_provider_effect_reservation_def bind_Inr effect_key_def split: option.splits)

lemma reserve_operation_run:
  assumes "store_reserve_operation dy cm w = (Inr r, w')"
  shows "same_command r cm \<and>
    ((\<exists>now d. r = operation_record_new cm now \<and> operation_item r = Inr d \<and>
        \<not> present (view w) (operation_key cm) \<and> view w' = (view w)(operation_key cm \<mapsto> stored_item d)) \<or>
     ((view w' = view w \<or> \<not> present (view w) (operation_key cm)) \<and> present (view w') (operation_key cm) \<and>
        (\<exists>d. view w' (operation_key cm) = Some d \<and> operation_from_item d = Inr r)))"
proof -
  from assms obtain now w1 d where now: "adapter_now dy w = (Inr now, w1)"
    and d: "operation_item (operation_record_new cm now) = Inr d"
    and run: "or_refused [CONDITIONAL_FAILURE] (dy_put_item dy d unless_exists) (operation_record_new cm now)
         (bind (load_operation dy cm) (\<lambda>existing.
          bind (ensure (same_command existing cm) IdempotencyConflict) (\<lambda>_. ret existing))) w1 = (Inr r, w')"
    by (auto simp: store_reserve_operation_def bind_Inr Let_def)
  have view1: "view w1 = view w" by (rule now_view [OF now])
  have key: "key_of d = operation_key cm"
    using key_of_operation_item [OF d] by (simp add: operation_key_def)
  from run [unfolded or_refused_Inr] show ?thesis
  proof
    assume put: "dy_put_item dy d unless_exists w1 = (Inr (), w') \<and> r = operation_record_new cm now"
    then have "\<not> present (view w) (operation_key cm) \<and> view w' = (view w)(operation_key cm \<mapsto> stored_item d)"
      using put_done [of d unless_exists w1 "()" w'] by (simp add: key view1 present_def)
    with put d show ?thesis by auto
  next
    assume "\<exists>c w2. dy_put_item dy d unless_exists w1 = (Inl (AwsError c), w2) \<and> c \<in> set [CONDITIONAL_FAILURE] \<and>
      bind (load_operation dy cm) (\<lambda>existing. bind (ensure (same_command existing cm) IdempotencyConflict)
        (\<lambda>_. ret existing)) w2 = (Inr r, w')"
    then obtain w2 where put: "dy_put_item dy d unless_exists w1 = (Inl (AwsError CONDITIONAL_FAILURE), w2)"
      and load: "load_operation dy cm w2 = (Inr r, w')" "same_command r cm"
      by (auto simp: bind_Inr)
    have "view w2 = view w \<or> \<not> present (view w) (operation_key cm)" "present (view w2) (operation_key cm)"
      using put_law [OF put] put_refused [OF put]
      by (auto simp: write_law_def allowed_def key view1 present_def)
    with load_operation_Inr [OF load(1)] load(2) show ?thesis by auto
  qed
qed

lemma reserve_effect_run:
  assumes "store_reserve_provider_effect dy x w = (Inr (y, here), w')"
  shows "(here \<and> y = x \<and> \<not> present (view w) (effect_key x) \<and> (\<exists>d. provider_effect_reservation_item x = Inr d \<and>
        view w' = (view w)(effect_key x \<mapsto> stored_item d))) \<or>
     (\<not> here \<and> same_effect y x \<and> (view w' = view w \<or> \<not> present (view w) (effect_key x)) \<and>
        present (view w') (effect_key x) \<and>
        (\<exists>d. view w' (effect_key x) = Some d \<and> provider_effect_reservation_from_item d = Inr y))"
proof -
  from assms obtain d where d: "provider_effect_reservation_item x = Inr d"
    and run: "or_refused [CONDITIONAL_FAILURE] (dy_put_item dy d unless_exists) (x, True)
         (bind (load_provider_effect_reservation dy x) (\<lambda>existing.
          bind (ensure (same_effect existing x) IdempotencyConflict) (\<lambda>_. ret (existing, False)))) w
       = (Inr (y, here), w')"
    by (auto simp: store_reserve_provider_effect_def bind_Inr)
  note key = key_of_reservation_item [OF d]
  from run [unfolded or_refused_Inr] show ?thesis
  proof
    assume put: "dy_put_item dy d unless_exists w = (Inr (), w') \<and> (y, here) = (x, True)"
    then show ?thesis
      using put_done [of d unless_exists w "()" w'] d by (simp add: key present_def)
  next
    assume "\<exists>c w2. dy_put_item dy d unless_exists w = (Inl (AwsError c), w2) \<and> c \<in> set [CONDITIONAL_FAILURE] \<and>
      bind (load_provider_effect_reservation dy x) (\<lambda>existing. bind (ensure (same_effect existing x) IdempotencyConflict)
        (\<lambda>_. ret (existing, False))) w2 = (Inr (y, here), w')"
    then obtain w2 where put: "dy_put_item dy d unless_exists w = (Inl (AwsError CONDITIONAL_FAILURE), w2)"
      and load: "load_provider_effect_reservation dy x w2 = (Inr y, w')" "same_effect y x" "\<not> here"
      by (auto simp: bind_Inr)
    have "view w2 = view w \<or> \<not> present (view w) (effect_key x)" "present (view w2) (effect_key x)"
      using put_law [OF put] put_refused [OF put]
      by (auto simp: write_law_def allowed_def key present_def)
    with load_effect_Inr [OF load(1)] load(2,3) show ?thesis by auto
  qed
qed

end

end
