(* ===== verification/ListingProofs.thy ===== *)
theory ListingProofs
  imports LifecycleListings StoreProofs
begin

text \<open>
  The listings: a cursor is read back as the key it stands for, a cursor of the caller never
  leaves the partition of the owner, and every record of a page belongs to the owner. The page
  after the first one of a listing by state is out of reach: its cursor is longer than the
  cursors the service accepts.
\<close>

section \<open>Documents of texts are read back\<close>

definition text_entry :: "string \<times> string \<Rightarrow> string" where
  "text_entry kv = json_text (fst kv) @ '':'' @ json_text (snd kv)"

lemma json_text_Cons: "json_text s = CHR 0x22 # concat (map json_ascii_char s) @ [CHR 0x22]"
  by (simp add: json_text_def)

lemma skip_ws_text: "skip_ws (json_text s @ r) = json_text s @ r"
  by (simp add: skip_ws_def json_text_Cons is_json_space_def code_def)

lemma skip_ws_punctuation: "skip_ws (CHR '':'' # s) = CHR '':'' # s" "skip_ws (CHR '','' # s) = CHR '','' # s"
  "skip_ws (CHR ''}'' # s) = CHR ''}'' # s" "skip_ws (CHR ''{'' # s) = CHR ''{'' # s" "skip_ws [] = []"
  by (simp_all add: skip_ws_def is_json_space_def code_def)

lemma parse_text: "parse_value (Suc n) (json_text s @ r) = Some (JText s, r)"
  by (simp add: json_text_Cons read_text_back)

lemma parse_entry:
  "parse_members (Suc (Suc m)) (json_text k @ CHR '':'' # json_text v @ CHR ''}'' # t) = Some ([(k, JText v)], t)"
  "parse_members (Suc (Suc m)) (json_text k @ CHR '':'' # json_text v @ CHR '','' # t) =
     map_option (apfst ((#) (k, JText v))) (parse_members (Suc m) (skip_ws t))"
  by (simp_all add: json_text_Cons [of k] read_text_back skip_ws_punctuation skip_ws_text parse_text
      del: parse_value.simps)

lemma parse_entries:
  "kvs \<noteq> [] \<Longrightarrow> length kvs < n \<Longrightarrow> parse_members n (join '','' (map text_entry kvs) @ CHR ''}'' # r) =
     Some (map (\<lambda>(k, v). (k, JText v)) kvs, r)"
proof (induction kvs arbitrary: n)
  case (Cons kv kvs)
  obtain m where n: "n = Suc (Suc m)" using Cons.prems by (cases n; cases "n - 1") auto
  obtain k v where kv: "kv = (k, v)" by fastforce
  show ?case
  proof (cases kvs)
    case Nil
    then show ?thesis by (simp add: kv text_entry_def n parse_entry del: parse_members.simps)
  next
    case (Cons kv' kvs')
    have "\<exists>t. join '','' (map text_entry kvs) @ CHR ''}'' # r = json_text (fst kv') @ t"
      by (cases kvs') (auto simp: Cons text_entry_def)
    then have "skip_ws (join '','' (map text_entry kvs) @ CHR ''}'' # r) = join '','' (map text_entry kvs) @ CHR ''}'' # r"
      using skip_ws_text by metis
    moreover have "join '','' (map text_entry (kv # kvs)) = json_text k @ CHR '':'' # json_text v @ CHR '','' #
        join '','' (map text_entry kvs)"
      by (simp add: Cons kv text_entry_def)
    ultimately show ?thesis
      using Cons.IH [of "Suc m"] Cons.prems n Cons by (simp add: parse_entry kv del: parse_members.simps list.map) simp
  qed
qed simp

text \<open>A key of texts, encoded and read back.\<close>

definition text_document :: "(string \<times> string) list \<Rightarrow> string" where
  "text_document kvs = CHR ''{'' # join '','' (map text_entry kvs) @ ''}''"

lemma length_json_text: "length s + 2 \<le> length (json_text s)"
proof -
  have one: "1 \<le> length (json_ascii_char c)" for c by (simp add: json_ascii_char_def json_char_def)
  have "length s \<le> length (concat (map json_ascii_char s))"
  proof (induction s)
    case (Cons c s)
    then show ?case using one [of c] by simp
  qed simp
  then show ?thesis by (simp add: json_text_def)
qed

lemma length_join: "length kvs \<le> length (join '','' (map text_entry kvs))"
proof (induction kvs rule: induct_list012)
  case (3 x y zs)
  then show ?case by (simp add: text_entry_def json_text_def)
qed (simp_all add: text_entry_def json_text_def)

lemma json_loads_text_document:
  assumes "kvs \<noteq> []"
  shows "json_loads (text_document kvs) = Some (JObject (map (\<lambda>(k, v). (k, JText v)) kvs))"
proof -
  obtain kv kvs' where kv: "kvs = kv # kvs'" using assms by (cases kvs) auto
  then obtain t where t: "join '','' (map text_entry kvs) @ CHR ''}'' # [] = json_text (fst kv) @ t"
    by (cases kvs') (auto simp: text_entry_def)
  let ?n = "2 * length (text_document kvs)"
  have "length kvs < ?n" using length_join [of kvs] by (simp add: text_document_def)
  note members = parse_entries [OF assms this, of "[]"]
  have skip: "skip_ws (join '','' (map text_entry kvs) @ ''}'') = join '','' (map text_entry kvs) @ ''}''"
    unfolding t by (rule skip_ws_text)
  obtain q where q: "join '','' (map text_entry kvs) @ ''}'' = CHR 0x22 # q"
    using t by (simp add: json_text_Cons)
  have "parse_value (Suc ?n) (text_document kvs) = map_option (apfst JObject) (parse_members ?n (CHR 0x22 # q))"
    using skip by (simp add: text_document_def q del: parse_members.simps)
  also have "\<dots> = Some (JObject (map (\<lambda>(k, v). (k, JText v)) kvs), [])"
    using members by (simp add: q)
  finally show ?thesis
    by (simp add: json_loads_def text_document_def skip_ws_punctuation)
qed

lemma json_dumps_texts:
  assumes "sorted (map fst kvs)"
  shows "json_dumps (PDict (map (\<lambda>(k, v). (k, PStr v)) kvs)) = Some (text_document kvs)"
proof -
  let ?ds = "map (\<lambda>x. (fst x, Some (json_text (snd x)))) kvs"
  have "sort_key fst ?ds = ?ds"
    by (rule sort_key_id_if_sorted) (use assms in \<open>simp add: comp_def case_prod_beta\<close>)
  then show ?thesis
    by (simp add: text_document_def text_entry_def [abs_def] comp_def case_prod_beta image_iff Let_def)
qed

lemma ascii_char: "code c < 128 \<Longrightarrow> list_all (\<lambda>c. code c < 128) (json_char c)"
  by (auto simp: json_char_def code_def hex_digit_def)

lemma json_text_ascii: "is_ascii (json_text s)"
proof -
  have hex: "code (hex_digit d) < 128" if "d < 16" for d using that by (auto simp: hex_digit_def)
  have "list_all (\<lambda>c. code c < 128) (json_ascii_char c)" for c
  proof -
    have "code c div 16 < 16" using code_less [of c] by (simp add: div_less_iff_less_mult)
    from ascii_char [of c] hex [OF this] hex [of "code c mod 16"] show ?thesis
      by (simp add: json_ascii_char_def) (simp add: code_def)
  qed
  then show ?thesis by (auto simp: is_ascii_def json_text_def list_all_iff code_def)
qed

lemma text_document_ascii: "is_ascii (text_document kvs)"
proof -
  have "is_ascii (join '','' (map text_entry kvs))"
  proof (induction kvs rule: induct_list012)
    case (2 x)
    then show ?case using json_text_ascii by (simp add: text_entry_def is_ascii_def code_def)
  next
    case (3 x y zs)
    then show ?case using json_text_ascii by (simp add: text_entry_def is_ascii_def code_def)
  qed (simp add: is_ascii_def)
  then show ?thesis by (simp add: text_document_def is_ascii_def code_def)
qed

section \<open>Cursors\<close>

lemma cursor_document_texts:
  "kvs \<noteq> [] \<Longrightarrow> cursor_document (''cur_'' @ b64_encode (map code (text_document kvs))) =
     Some (dict_merge [] (map (\<lambda>(k, v). (k, JText v)) kvs))"
  by (simp add: cursor_document_def starts_with_def b64_decode_encode list_all_iff code_less utf8_decode_ascii
      text_document_ascii json_loads_text_document)

lemma key_names_sorted: "''pk'' \<le> ''sk''" "''ownership_state_key'' \<le> ''pk''"
  "''membership_reference'' \<le> ''ownership_state_key''"
  by (simp_all add: less_eq_char_def less_char_def)

lemma cursor_read_back:
  assumes "starts_with prefix sk"
  shows "\<exists>c. cursor_encode [(''pk'', PStr pk), (''sk'', PStr sk)] = Inr c \<and>
    cursor_decode c pk prefix = Inr [(''pk'', pk), (''sk'', sk)]"
proof -
  let ?kvs = "[(''pk'', pk), (''sk'', sk)]"
  have "cursor_encode [(''pk'', PStr pk), (''sk'', PStr sk)] = Inr (''cur_'' @ b64_encode (map code (text_document ?kvs)))"
    using json_dumps_texts [of ?kvs] key_names_sorted by (simp add: cursor_encode_def del: json_dumps.simps)
  moreover have "cursor_decode (''cur_'' @ b64_encode (map code (text_document ?kvs))) pk prefix = Inr ?kvs"
    unfolding cursor_decode_def by (subst cursor_document_texts) (use assms in \<open>simp_all add: dict_merge_def text_member_def\<close>)
  ultimately show ?thesis by blast
qed

text \<open>
  A cursor of the listings is read back as the key it was made from, whatever characters the
  sort key has: the pages of a listing follow each other.
\<close>

theorem cursor_round_trip:
  assumes "starts_with prefix sk"
  shows "\<exists>c. cursor_encode [(''pk'', PStr pk), (''sk'', PStr sk)] = Inr c \<and>
    cursor_decode c pk prefix = Inr [(''pk'', pk), (''sk'', sk)]"
  by (rule cursor_read_back [OF assms])

lemma cursor_decode_Inr:
  assumes "cursor_decode c pk prefix = Inr key"
  shows "\<exists>sk. key = [(''pk'', pk), (''sk'', sk)] \<and> starts_with prefix sk"
proof -
  obtain d where d: "cursor_document c = Some d" using assms by (cases "cursor_document c") (simp_all add: cursor_decode_def)
  obtain sk where "text_member d ''sk'' = Some sk"
    using assms d by (cases "text_member d ''sk''") (simp_all add: cursor_decode_def)
  with assms d show ?thesis by (simp add: cursor_decode_def split: if_splits) blast
qed

text \<open>
  (C38) A cursor comes from the caller, and whatever it contains, the start key that is taken from it lies in
  the partition of the owner, among its members, and for a listing by state in that state's
  part of the index; everything else is refused.
\<close>

theorem cursor_confined:
  assumes "membership_cursor customer deployment state cursor = Inr key"
  shows "map_of key ''pk'' = Some (membership_pk customer deployment) \<and>
    (\<exists>sk. map_of key ''sk'' = Some sk \<and> starts_with ''SUBJECT#'' sk) \<and>
    (\<forall>st. state = Some st \<longrightarrow> map_of key ''ownership_state_key'' = Some (state_binding customer deployment st))"
proof (cases state)
  case None
  with assms cursor_decode_Inr [of cursor "membership_pk customer deployment" "''SUBJECT#''" key]
  obtain sk where "key = [(''pk'', membership_pk customer deployment), (''sk'', sk)]" "starts_with ''SUBJECT#'' sk"
    by (auto simp: membership_cursor_def)
  with None show ?thesis by simp
next
  case (Some st)
  then obtain d sk reference where d: "cursor_document cursor = Some d"
    and texts: "text_member d ''sk'' = Some sk" "text_member d ''membership_reference'' = Some reference"
      "text_member d ''pk'' = Some (membership_pk customer deployment)" "starts_with ''SUBJECT#'' sk"
      "text_member d ''ownership_state_key'' = Some (state_binding customer deployment st)"
    and key: "key = map (\<lambda>(k, v). (k, the (text_member d k))) d"
    using assms by (auto simp: membership_cursor_def state_cursor_decode_def split: option.splits if_splits)
  have "map_of key k = Some t" if t: "text_member d k = Some t" for k t
  proof -
    have gen: "map_of (map (\<lambda>(k, v). (k, the (text_member d k))) e) k = map_option (\<lambda>_. the (text_member d k)) (map_of e k)"
      for e by (induction e) auto
    obtain y where "map_of d k = Some y" using t by (cases "map_of d k") (simp_all add: text_member_def)
    then show ?thesis unfolding key gen using t by simp
  qed
  with texts Some show ?thesis by auto
qed

text \<open>The length of a cursor.\<close>

lemma length_b64_encode: "4 * length bs \<le> 3 * length (b64_encode bs)"
  by (induction bs rule: b64_encode.induct) simp_all

lemma length_text_document:
  "kvs \<noteq> [] \<Longrightarrow> length (text_document kvs) = Suc (sum_list (map (\<lambda>kv. Suc (length (text_entry kv))) kvs))"
proof -
  have "Suc (length (join '','' (map text_entry kvs))) = sum_list (map (\<lambda>kv. Suc (length (text_entry kv))) kvs)"
    if "kvs \<noteq> []" for kvs
    using that by (induction kvs rule: induct_list012) simp_all
  then show "kvs \<noteq> [] \<Longrightarrow> length (text_document kvs) = Suc (sum_list (map (\<lambda>kv. Suc (length (text_entry kv))) kvs))"
    by (simp add: text_document_def)
qed

lemma sort_key_texts: "sort_key fst (map (\<lambda>x. (fst x, f x)) kvs) = map (\<lambda>x. (fst x, f x)) (sort_key fst kvs)"
proof -
  have "insort_key fst (fst x, f x) (map (\<lambda>x. (fst x, f x)) ys) = map (\<lambda>x. (fst x, f x)) (insort_key fst x ys)" for x ys
    by (induction ys) simp_all
  then show ?thesis by (induction kvs) simp_all
qed

lemma json_dumps_document:
  "json_dumps (PDict (map (\<lambda>(k, v). (k, PStr v)) kvs)) = Some (text_document (sort_key fst kvs))"
  by (simp add: text_document_def text_entry_def [abs_def] comp_def case_prod_beta image_iff Let_def
      sort_key_texts [where f = "\<lambda>x. Some (json_text (snd x))"])

lemma distinct_dict_put: "distinct (map fst d) \<Longrightarrow> distinct (map fst (dict_put k v d))"
proof -
  have "fst ` set (dict_put k v d) = insert k (fst ` set d)" for d
  proof (induction d)
    case (Cons p d)
    then show ?case by (cases p; cases "fst p = k") auto
  qed simp
  then show "distinct (map fst d) \<Longrightarrow> distinct (map fst (dict_put k v d))" by (induction d) auto
qed

lemma distinct_dict_merge: "distinct (map fst d) \<Longrightarrow> distinct (map fst (dict_merge d e))"
proof (induction e arbitrary: d)
  case (Cons kv e)
  then show ?case using distinct_dict_put [of d "fst kv" "snd kv"] by (simp add: dict_merge_def case_prod_beta)
qed (simp add: dict_merge_def)

text \<open>The key of a page of a listing by state: four texts, whose lengths are known but for two.\<close>

lemma state_cursor_decode_Inr:
  assumes "state_cursor_decode c pk binding = Inr key"
  shows "distinct (map fst key) \<and>
    set (map fst key) = {''pk'', ''sk'', ''ownership_state_key'', ''membership_reference''} \<and>
    (''pk'', pk) \<in> set key \<and> (''ownership_state_key'', binding) \<in> set key \<and>
    (\<exists>ref. (''membership_reference'', ref) \<in> set key \<and> membership_reference_pattern ref) \<and>
    (\<exists>sk. (''sk'', sk) \<in> set key \<and> starts_with ''SUBJECT#'' sk)"
proof -
  obtain d sk ref where d: "cursor_document c = Some d"
    and texts: "text_member d ''sk'' = Some sk" "text_member d ''membership_reference'' = Some ref"
      "text_member d ''pk'' = Some pk" "starts_with ''SUBJECT#'' sk" "membership_reference_pattern ref"
      "text_member d ''ownership_state_key'' = Some binding"
    and keys: "set (map fst d) = {''pk'', ''sk'', ''ownership_state_key'', ''membership_reference''}"
    and key: "key = map (\<lambda>(k, v). (k, the (text_member d k))) d"
    using assms by (auto simp: state_cursor_decode_def split: option.splits if_splits)
  have "\<exists>ms. d = dict_merge [] ms"
    using d by (auto simp: cursor_document_def split: if_splits option.splits jvalue.splits)
  then have "distinct (map fst d)" using distinct_dict_merge [of "[]"] by auto
  moreover have fsts: "map fst key = map fst d" by (simp add: key comp_def case_prod_beta)
  moreover have "(k, t) \<in> set key" if t: "text_member d k = Some t" for k t
  proof -
    obtain v where "map_of d k = Some v" using t by (cases "map_of d k") (simp_all add: text_member_def)
    then have "(k, v) \<in> set d" by (rule map_of_SomeD)
    with t show ?thesis by (force simp: key)
  qed
  ultimately show ?thesis using keys texts by metis
qed

lemma length_text_entry: "length k + length v + 5 \<le> length (text_entry (k, v))"
  using length_json_text [of k] length_json_text [of v] by (simp add: text_entry_def)

lemma sum_over_keys:
  assumes "distinct (map fst kvs)" "set ps \<subseteq> set kvs" "distinct ps"
  shows "sum_list (map f ps) \<le> (sum_list (map f kvs) :: nat)"
proof -
  have "distinct kvs" using assms(1) by (simp add: distinct_map)
  with assms(2,3) show ?thesis
    by (simp add: sum_list_distinct_conv_sum_set sum_mono2)
qed

lemma membership_reference_length: "membership_reference_pattern r \<Longrightarrow> 36 \<le> length r"
  unfolding membership_reference_pattern_def by (elim match_prefixedE) simp

lemma cursor_pattern_length: "cursor_pattern c \<Longrightarrow> length c \<le> 260"
  unfolding cursor_pattern_def by (elim match_prefixedE) simp

lemma starts_with_length: "starts_with pre s \<Longrightarrow> length pre \<le> length s"
  by (auto simp: starts_with_def dest: arg_cong [of _ _ length])

text \<open>
  With identifiers of the lengths the service demands, the cursor of a further page of a listing
  by state has at least 351 characters.
\<close>

lemma state_cursor_long:
  assumes "next_cursor last_key (membership_cursor customer deployment (Some st)) = Inr (Some cursor)"
    and "length customer = 31" "length deployment = 30"
  shows "\<not> cursor_pattern cursor"
proof -
  let ?pk = "membership_pk customer deployment"
  let ?b = "state_binding customer deployment st"
  obtain encoded key where key: "state_cursor_decode encoded ?pk ?b = Inr key"
    and again: "cursor_encode (map (\<lambda>(k, v). (k, PStr v)) key) = Inr cursor"
    using assms(1) by (auto simp: next_cursor_def membership_cursor_def split: pyval.splits sum.splits)
  from state_cursor_decode_Inr [OF key] obtain ref sk where
    props: "distinct (map fst key)" "(''pk'', ?pk) \<in> set key" "(''ownership_state_key'', ?b) \<in> set key"
      "(''membership_reference'', ref) \<in> set key" "(''sk'', sk) \<in> set key"
    and ref: "membership_reference_pattern ref" and sk: "starts_with ''SUBJECT#'' sk"
    by blast
  let ?f = "\<lambda>kv. Suc (length (text_entry kv))"
  let ?ps = "[(''pk'', ?pk), (''ownership_state_key'', ?b), (''membership_reference'', ref), (''sk'', sk)]"
  have "6 \<le> length (membership_state_value st)" by (cases st) simp_all
  then have lengths: "length ?pk = 73" "75 \<le> length ?b" "36 \<le> length ref" "8 \<le> length sk"
    using assms(2,3) membership_reference_length [OF ref] starts_with_length [OF sk]
    by (simp_all add: membership_pk_def state_binding_def owner_prefix_def)
  have nonempty: "sort_key fst key \<noteq> []"
    using props(2) set_sort [of fst key] by (metis empty_iff empty_set)
  have "259 \<le> sum_list (map ?f ?ps)"
    using length_text_entry [of "''pk''" ?pk] length_text_entry [of "''ownership_state_key''" ?b]
      length_text_entry [of "''membership_reference''" ref] length_text_entry [of "''sk''" sk] lengths
    by simp
  also have "\<dots> \<le> sum_list (map ?f key)"
    by (rule sum_over_keys [OF props(1)]) (use props(2-5) in auto)
  also have "\<dots> = sum_list (map ?f (sort_key fst key))"
    by (simp add: sum_list_sort_key)
  also have "\<dots> < length (text_document (sort_key fst key))"
    using nonempty by (simp add: length_text_document)
  finally have "260 \<le> length (text_document (sort_key fst key))" by simp
  then have "346 \<le> length (b64_encode (map code (text_document (sort_key fst key))))"
    using length_b64_encode [of "map code (text_document (sort_key fst key))"] by simp
  moreover have "cursor = ''cur_'' @ b64_encode (map code (text_document (sort_key fst key)))"
    using again unfolding cursor_encode_def json_dumps_document by simp
  ultimately have "260 < length cursor" by simp
  then show ?thesis using cursor_pattern_length by force
qed

end
