(* ===== verification/StoreHistory.thy ===== *)
theory StoreHistory
  imports StoreProofs
begin

text \<open>
  Histories of the membership table. Each operation of the store asks for at most one write,
  which its arguments and its clock determine (\<open>call_request\<close>); so any number of processes that
  run operations of the store take the table through the steps below, in whatever way their
  calls interleave. \<open>known\<close> collects the memberships that were read on the way: the arguments of
  a transition are memberships that some process read before.
\<close>

section \<open>One write per operation\<close>

datatype store_call =
    ReserveCall lifecycle_command
  | EffectCall effect_reservation
  | CheckpointCall operation_record lifecycle_stage lifecycle_stage "op_evidence option"
  | CreateCall string string provider_receipt human_role datetime string
  | TransitionCall transition_query
  | RefreshCall membership_record int datetime string

fun run_call :: "'w dynamo \<Rightarrow> store_call \<Rightarrow> ('w, unit) io" where
  "run_call dy (ReserveCall cm) = bind (store_reserve_operation dy cm) (\<lambda>_. ret ())"
| "run_call dy (EffectCall x) = bind (store_reserve_provider_effect dy x) (\<lambda>_. ret ())"
| "run_call dy (CheckpointCall r s s' ev) = bind (store_checkpoint_operation dy r s s' ev) (\<lambda>_. ret ())"
| "run_call dy (CreateCall c d p role t ref) =
     bind (store_create_invited_membership dy c d p role t ref) (\<lambda>_. ret ())"
| "run_call dy (TransitionCall q) = bind (store_transition_membership dy q) (\<lambda>_. ret ())"
| "run_call dy (RefreshCall m n t ref) = bind (store_refresh_invitation dy m n t ref) (\<lambda>_. ret ())"

definition checkpoint_sets :: "lifecycle_stage \<Rightarrow> op_evidence \<Rightarrow> datetime \<Rightarrow> (string \<times> pyval) list" where
  "checkpoint_sets next_stage merged now =
     [(''stage'', PStr (lifecycle_stage_value next_stage)), (''evidence'', evidence_dict merged),
      (''updated_at'', PStr (timestamp_text (instant now)))]"

fun call_request :: "store_call \<Rightarrow> datetime \<Rightarrow> table_request option" where
  "call_request (ReserveCall cm) now =
     map_option (\<lambda>d. Single (Put d unless_exists)) (ok_of (operation_item (operation_record_new cm now)))"
| "call_request (EffectCall x) now =
     map_option (\<lambda>d. Single (Put d unless_exists)) (ok_of (provider_effect_reservation_item x))"
| "call_request (CheckpointCall r s s' ev) now =
     map_option (\<lambda>merged. Single (Update (operation_pk (or_customer_id r) (or_deployment_id r),
         idempotency_sk (or_idempotency_key r)) (checkpoint_sets s' merged now) [] (checkpoint_tests r s)))
       (ok_of (validated_operation_evidence
          (evidence_dict (dict_merge (or_evidence r) (case ev of Some e \<Rightarrow> e | None \<Rightarrow> []))) s'))"
| "call_request (CreateCall c d p role t ref) now =
     map_option (\<lambda>i. Single (Put (i @ [(''last_operation_reference'', PStr ref)]) unless_exists))
       (ok_of (membership_item (invited_membership c d p role t now)))"
| "call_request (TransitionCall q) now =
     (if removes_active_admin (tq_current q) (tq_next_state q) (tq_next_role q) \<and> tq_admin_replacement q = None
      then None
      else case tq_admin_replacement q of
          None \<Rightarrow> Some (Single (transition_write q now))
        | Some p \<Rightarrow> if replacement_ok p (tq_current q)
            then Some (Checked (member_key p) (replacement_tests p (tq_current q)) (transition_write q now))
            else None)"
| "call_request (RefreshCall m n t ref) now =
     (if mb_state m = INVITED \<and> mb_membership_version m = n \<and> is_aware t
      then Some (Single (Update (member_key m) (refresh_sets n t now ref) [] (refresh_tests m n))) else None)"

context conditional_table
begin

lemma writes_now: "(\<And>t. writes (k (Aware t)) R) \<Longrightarrow> writes (bind (adapter_now dy) k) R"
  unfolding writes_def bind_def adapter_now_def
  by (auto split: prod.splits) (metis clock_law)

lemma lawful_transition:
  assumes "\<And>rq. call_request (TransitionCall q) now = Some rq \<Longrightarrow> R rq"
    and "\<not> (removes_active_admin (tq_current q) (tq_next_state q) (tq_next_role q) \<and> tq_admin_replacement q = None)"
  shows "lawful (transition_call dy q now) R"
proof (cases "tq_admin_replacement q")
  case None
  with assms show ?thesis
    by (simp add: transition_call_def lawful_update transition_write_def)
next
  case (Some p)
  show ?thesis
  proof (cases "replacement_ok p (tq_current q) \<and> is_str (dy_name dy) \<and> dy_transact dy \<noteq> None")
    case True
    then obtain f where f: "dy_transact dy = Some f" by blast
    have "lawful (f (member_key p) (replacement_tests p (tq_current q)) (transition_write q now)
        (tq_operation_reference q)) R"
      by (rule lawful_law [OF transact_law [OF f]], assumption, rule assms(1)) (use Some True in simp)
    with True f Some show ?thesis by (simp add: transition_call_def)
  qed (use Some in \<open>auto simp: transition_call_def lawful_raise split: option.splits\<close>)
qed

lemma keeps_reads: "keeps (load_operation dy cm)" "keeps (load_provider_effect_reservation dy x)"
    "keeps (own_item dy k ref)"
  unfolding load_operation_def load_provider_effect_reservation_def own_item_def
  by (intro keeps_rules)+

lemma call_now: "call_request c (Aware t) = Some rq \<Longrightarrow> \<exists>now. is_aware now \<and> call_request c now = Some rq"
  by (intro exI [of _ "Aware t"]) simp

lemma writes_call: "writes (run_call dy c) (\<lambda>rq. \<exists>now. is_aware now \<and> call_request c now = Some rq)"
proof -
  let ?R = "\<lambda>c rq. \<exists>now. is_aware now \<and> call_request c now = Some rq"
  show ?thesis
  proof (cases c)
    case (ReserveCall cm)
    show ?thesis
      unfolding ReserveCall run_call.simps store_reserve_operation_def Let_def
      apply (rule writes_bind_last [OF writes_now keeps_simps(1)])
      subgoal for t
        by (rule writes_lift, rule writes_or_refused, rule lawful_put, rule call_now [of _ t], simp, intro keeps_rules keeps_reads)
      done
  next
    case (EffectCall x)
    show ?thesis
      unfolding EffectCall run_call.simps store_reserve_provider_effect_def
      by (rule writes_bind_last [OF writes_lift keeps_simps(1)], rule writes_or_refused, rule lawful_put,
          rule call_now [of _ 0], simp, intro keeps_rules keeps_reads)
  next
    case (CheckpointCall r s s' ev)
    show ?thesis
      unfolding CheckpointCall run_call.simps store_checkpoint_operation_def
      apply (rule writes_bind_last [OF writes_lift keeps_simps(1)], rule writes_now)
      subgoal for merged t
        by (rule writes_or_refused, rule lawful_update, rule call_now [of _ t], simp add: checkpoint_sets_def,
            intro keeps_rules keeps_reads)
      done
  next
    case (CreateCall cu d p role t ref)
    show ?thesis
      unfolding CreateCall run_call.simps store_create_invited_membership_def Let_def
      apply (rule writes_bind_last [OF writes_now keeps_simps(1)])
      subgoal for u
        by (rule writes_lift, rule writes_or_refused, rule lawful_put, rule call_now [of _ u], simp, intro keeps_rules keeps_reads)
      done
  next
    case (TransitionCall q)
    show ?thesis
      unfolding TransitionCall run_call.simps store_transition_membership_def
      apply (rule writes_bind_last [OF writes_now keeps_simps(1)], rule writes_ensure)
      subgoal for t
        by (rule writes_or_refused, rule lawful_transition, rule call_now [of _ t], simp, simp, intro keeps_rules keeps_reads)
      done
  next
    case (RefreshCall m n t ref)
    show ?thesis
      unfolding RefreshCall run_call.simps store_refresh_invitation_def
      apply (rule writes_bind_last [OF writes_ensure keeps_simps(1)], rule writes_now)
      subgoal for u
        by (rule writes_or_refused, rule lawful_update, rule call_now [of _ u], simp, intro keeps_rules keeps_reads)
      done
  qed
qed

end

text \<open>
  (C23) Each operation of the store changes the table by at most one request, the one its arguments
  and its clock determine, and only when the table allowed it at that moment; this holds
  however the call ends, also when the client fails without saying whether the write took
  place, and an operation never writes twice.
\<close>

theorem store_call_refines:
  assumes "conditional_table dy view" "run_call dy c w = (r, w')"
  shows "view w' = view w \<or> (\<exists>now rq. is_aware now \<and> call_request c now = Some rq \<and>
    request_allowed (view w) rq \<and> view w' = request_written (view w) rq)"
  using conditional_table.writes_call [OF assms(1)] assms(2)
  unfolding conditional_table.writes_def [OF assms(1)] by blast

end
