(* ===== verification/StoreInvariants.thy ===== *)
theory StoreInvariants
  imports StoreHistory
begin

text \<open>
  Invariants of the membership table over all histories: versions only grow, a version of a
  member is decided once, a claim on a provider effect is never lost or overwritten, and an
  owner that has an active administrator keeps one.
\<close>

section \<open>Steps\<close>

definition member_at :: "memory \<Rightarrow> item_key \<Rightarrow> membership_record option" where
  "member_at m k = Option.bind (m k) membership_fields"

text \<open>
  What the service guarantees of the arguments of a call, given the memberships read so far: a
  transition, and a refresh, get a membership that was read; the version they expect is that of
  an earlier or the same reading; a replacement administrator was read as well. All times are
  ones that Python can represent.
\<close>

fun call_ok :: "membership_record set \<Rightarrow> store_call \<Rightarrow> bool" where
  "call_ok known (TransitionCall q) \<longleftrightarrow> tq_current q \<in> known \<and>
     1 \<le> tq_expected_version q \<and> tq_expected_version q \<le> mb_membership_version (tq_current q) \<and>
     (\<forall>p. tq_admin_replacement q = Some p \<longrightarrow> p \<in> known)"
| "call_ok known (RefreshCall m n t ref) \<longleftrightarrow> m \<in> known \<and> instant t < max_instant"
| "call_ok known (CreateCall c d p role t ref) \<longleftrightarrow> instant t < max_instant"
| "call_ok known c \<longleftrightarrow> True"

text \<open>
  A history: a process reads a membership consistently, an operation of the store writes, or
  another program writes elsewhere in the table (approvals, say).
\<close>

inductive history :: "memory \<Rightarrow> memory \<Rightarrow> membership_record set \<Rightarrow> bool" for m0 where
  start: "history m0 m0 {}"
| read: "history m0 m known \<Longrightarrow> member_at m (membership_pk c d, sk) = Some r \<Longrightarrow> history m0 m (insert r known)"
| call: "history m0 m known \<Longrightarrow> call_ok known c \<Longrightarrow> is_aware now \<Longrightarrow> instant now < max_instant \<Longrightarrow>
    call_request c now = Some rq \<Longrightarrow> request_allowed m rq \<Longrightarrow> history m0 (request_written m rq) known"
| elsewhere: "history m0 m known \<Longrightarrow> (\<And>c d. pk \<noteq> membership_pk c d) \<Longrightarrow> (\<And>c d. pk \<noteq> operation_pk c d) \<Longrightarrow>
    (\<And>j. i = Some j \<Longrightarrow> carries_key (pk, sk) j) \<Longrightarrow> history m0 (m((pk, sk) := i)) known"

text \<open>Every item carries its key, and a membership sits under the key of its owner and subject.\<close>

definition keyed :: "memory \<Rightarrow> bool" where
  "keyed m \<longleftrightarrow> (\<forall>k d. m k = Some d \<longrightarrow> carries_key k d)
     \<and> (\<forall>c d sk r. member_at m (membership_pk c d, sk) = Some r \<longrightarrow> member_key r = (membership_pk c d, sk))"

section \<open>Effects of the writes on memberships\<close>

lemma keyed_item: "keyed m \<Longrightarrow> m k = Some d \<Longrightarrow> carries_key k d"
  unfolding keyed_def by blast

lemma keyed_present: "keyed m \<Longrightarrow> m k \<noteq> None \<Longrightarrow> present m k"
  by (auto simp: carries_key_def present_def unless_exists_def dest!: keyed_item)

lemma membership_fields_eq:
  assumes "\<And>a. a \<in> {''schema_version'', ''membership_reference'', ''subject'', ''customer_id'', ''deployment_id'',
     ''state'', ''role_id'', ''membership_version'', ''provider_user_reference'', ''provider_principal_key'',
     ''created_at'', ''updated_at'', ''invitation_expires_at''} \<Longrightarrow> map_of d a = map_of e a"
  shows "membership_fields d = membership_fields e"
  using assms by (simp add: membership_fields_def text_at_def time_at_def expiry_at_def)

lemma transition_fields:
  assumes "membership_fields i = Some r" "1 \<le> tq_expected_version q" "is_aware now" "instant now < max_instant"
  shows "membership_fields (updated_item (Some i) k (transition_sets q now) [''invitation_expires_at''])
    = Some (r\<lparr>mb_state := tq_next_state q, mb_role_id := tq_next_role q,
        mb_membership_version := tq_expected_version q + 1, mb_updated_at := now,
        mb_invitation_expires_at := None\<rparr>)"
proof -
  have at: "map_of (updated_item (Some i) k (transition_sets q now) [''invitation_expires_at'']) a =
     (if a = ''invitation_expires_at'' then None
      else (case map_of (transition_sets q now) a of Some v \<Rightarrow> Some (stored v) | None \<Rightarrow> map_of i a))" for a
    by (subst map_of_updated_item) (simp_all add: transition_sets_def)
  show ?thesis
    using assms
    by (auto simp: membership_fields_def bind_eq_Some_conv text_at_def time_at_def expiry_at_def
        at [unfolded transition_sets_def] transition_sets_def enum_simps)
qed

lemma refresh_fields:
  assumes "membership_fields i = Some r" "1 \<le> n" "is_aware now" "instant now < max_instant"
    "is_aware t" "instant t < max_instant"
  shows "membership_fields (updated_item (Some i) k (refresh_sets n t now ref) [])
    = Some (r\<lparr>mb_membership_version := n + 1, mb_updated_at := now, mb_invitation_expires_at := Some t\<rparr>)"
proof -
  have at: "map_of (updated_item (Some i) k (refresh_sets n t now ref) []) a =
     (case map_of (refresh_sets n t now ref) a of Some v \<Rightarrow> Some (stored v) | None \<Rightarrow> map_of i a)" for a
    by (subst map_of_updated_item) (simp_all add: refresh_sets_def)
  show ?thesis
    using assms
    by (auto simp: membership_fields_def bind_eq_Some_conv text_at_def time_at_def expiry_at_def
        at [unfolded refresh_sets_def] refresh_sets_def enum_simps)
qed

lemma integer_ok: "ok_of (integer v) = Some n \<Longrightarrow> 1 \<le> n"
  by (auto simp: integer_def ok_of_def split: option.splits if_splits)

lemma version_test:
  assumes "membership_fields i = Some r" "test_holds (Some i) (Equals ''membership_version'' (PInt n))"
  shows "mb_membership_version r = n"
proof -
  from assms(1) obtain v where v: "map_of i ''membership_version'' = Some v"
      "ok_of (integer v) = Some (mb_membership_version r)"
    by (auto simp: membership_fields_def bind_eq_Some_conv)
  moreover from assms(2) v(1) have "py_eq v (PInt n)" by simp
  ultimately show ?thesis
    by (cases v) (auto simp: py_eq_def integer_def ok_of_def split: if_splits option.splits)
qed

definition same_identity :: "membership_record \<Rightarrow> membership_record \<Rightarrow> bool" where
  "same_identity a b \<longleftrightarrow> mb_schema_version a = mb_schema_version b
     \<and> mb_membership_reference a = mb_membership_reference b \<and> mb_subject a = mb_subject b
     \<and> mb_customer_id a = mb_customer_id b \<and> mb_deployment_id a = mb_deployment_id b
     \<and> mb_provider_user_reference a = mb_provider_user_reference b
     \<and> mb_provider_principal_key a = mb_provider_principal_key b \<and> mb_created_at a = mb_created_at b"

text \<open>A later state of the same member: unless it is the very same record, the version has grown.\<close>

definition evolves :: "membership_record \<Rightarrow> membership_record \<Rightarrow> bool" where
  "evolves a b \<longleftrightarrow> same_identity a b \<and> mb_membership_version a \<le> mb_membership_version b
     \<and> (mb_membership_version a = mb_membership_version b \<longrightarrow> a = b)"

lemma evolves_refl [simp]: "evolves a a"
  by (simp add: evolves_def same_identity_def)

lemma evolves_trans: "evolves a b \<Longrightarrow> evolves b c \<Longrightarrow> evolves a c"
  by (auto simp: evolves_def same_identity_def)

lemma evolves_key: "evolves a b \<Longrightarrow> member_key b = member_key a"
  by (simp add: evolves_def same_identity_def member_key_def)

text \<open>Every membership that was read is in the table in its present state.\<close>

definition known_ok :: "memory \<Rightarrow> membership_record set \<Rightarrow> bool" where
  "known_ok m known \<longleftrightarrow> (\<forall>r \<in> known. \<exists>r'. member_at m (member_key r) = Some r' \<and> evolves r r')"

lemma known_okE:
  assumes "known_ok m known" "r \<in> known"
  obtains i r' where "m (member_key r) = Some i" "membership_fields i = Some r'" "evolves r r'"
  using assms by (auto simp: known_ok_def member_at_def bind_eq_Some_conv)

text \<open>
  What one write does: it puts one item with its key, in one of four ways. In the ledger it
  adds an item or advances an operation; a membership is added, or changed to the next version,
  and one that stops being an active administrator leaves another one of the same owner behind.
\<close>

definition advances :: "item \<Rightarrow> item \<Rightarrow> bool" where
  "advances j i \<longleftrightarrow> (\<forall>r. operation_from_item j = Inr r \<longrightarrow> (\<exists>s ev t.
     operation_from_item i = Inr (r\<lparr>or_stage := s, or_evidence := ev, or_updated_at := t\<rparr>)))"

definition is_active_admin :: "membership_record \<Rightarrow> bool" where
  "is_active_admin r \<longleftrightarrow> mb_state r = ACTIVE \<and> mb_role_id r = CUSTOMER_ADMIN"

definition same_owner :: "membership_record \<Rightarrow> membership_record \<Rightarrow> bool" where
  "same_owner a b \<longleftrightarrow> mb_customer_id a = mb_customer_id b \<and> mb_deployment_id a = mb_deployment_id b"

inductive effect_of :: "memory \<Rightarrow> item_key \<Rightarrow> item \<Rightarrow> bool" for m where
  reserved: "fst k = operation_pk c d \<Longrightarrow> m k = None \<Longrightarrow> carries_key k i \<Longrightarrow> effect_of m k i"
| advanced: "m (operation_pk c d, idempotency_sk key) = Some j \<Longrightarrow> advances j i \<Longrightarrow>
    carries_key (operation_pk c d, idempotency_sk key) i \<Longrightarrow> effect_of m (operation_pk c d, idempotency_sk key) i"
| created: "m (member_key r) = None \<Longrightarrow> membership_fields i = Some r \<Longrightarrow> carries_key (member_key r) i \<Longrightarrow>
    effect_of m (member_key r) i"
| changed: "member_at m (member_key r) = Some r \<Longrightarrow> membership_fields i = Some r' \<Longrightarrow> same_identity r r' \<Longrightarrow>
    mb_membership_version r' = mb_membership_version r + 1 \<Longrightarrow> carries_key (member_key r) i \<Longrightarrow>
    (is_active_admin r \<Longrightarrow> \<not> is_active_admin r' \<Longrightarrow>
       \<exists>p. member_at m (member_key p) = Some p \<and> member_key p \<noteq> member_key r \<and> same_owner p r \<and> is_active_admin p) \<Longrightarrow>
    effect_of m (member_key r) i"

lemma carries_key_update:
  assumes "keyed m" "m k = Some i" "distinct (map fst sets)" "{''pk'', ''sk''} \<inter> (set removes \<union> fst ` set sets) = {}"
  shows "carries_key k (updated_item (Some i) k sets removes)"
proof -
  have "map_of sets ''pk'' = None" "map_of sets ''sk'' = None"
    using assms(4) by (auto simp: map_of_eq_None_iff)
  moreover have "carries_key k i" using assms by (blast intro: keyed_item)
  ultimately show ?thesis
    using assms(3,4) by (simp add: carries_key_def map_of_updated_item)
qed

lemma membership_fields_version: "membership_fields i = Some r \<Longrightarrow> 1 \<le> mb_membership_version r"
  by (auto simp: membership_fields_def bind_eq_Some_conv dest: integer_ok)

lemma put_reservation:
  assumes "provider_effect_reservation_item x = Inr d"
  shows "carries_key (effect_key x) (stored_item d)"
  using assms by (auto simp: provider_effect_reservation_item_def carries_key_def effect_key_def split: sum.splits)

lemma put_operation:
  assumes "operation_item r = Inr d"
  shows "carries_key (operation_pk (or_customer_id r) (or_deployment_id r), idempotency_sk (or_idempotency_key r))
    (stored_item d)"
  using assms by (auto simp: operation_item_def carries_key_def split: sum.splits)

lemma put_membership:
  assumes "membership_item r = Inr d"
  shows "carries_key (member_key r) (stored_item (d @ e))"
  using membership_item_head [OF assms] by (auto simp: carries_key_def member_key_def)

text \<open>What the conditions of an update say of the item that is updated.\<close>

lemma update_member:
  assumes known: "known_ok m known" "r \<in> known" and tests: "list_all (test_holds (m (member_key r))) ts"
    and version: "Equals ''membership_version'' (PInt n) \<in> set ts" "n \<le> mb_membership_version r"
  obtains i where "m (member_key r) = Some i" "membership_fields i = Some r" "mb_membership_version r = n"
proof -
  obtain i r' where i: "m (member_key r) = Some i" "membership_fields i = Some r'" "evolves r r'"
    using known by (rule known_okE)
  from tests version(1) i(1) have "test_holds (Some i) (Equals ''membership_version'' (PInt n))"
    by (auto simp: list_all_iff simp del: test_holds.simps)
  with i(2) have "mb_membership_version r' = n" by (rule version_test)
  with i(3) version(2) have "r' = r" "mb_membership_version r = n" by (auto simp: evolves_def)
  with i that show ?thesis by blast
qed

lemma effect_changed:
  assumes "m (member_key r) = Some i" "membership_fields i = Some r" "keyed m"
    and "membership_fields i' = Some r'" "same_identity r r'"
    and "mb_membership_version r' = mb_membership_version r + 1" "carries_key (member_key r) i'"
    and "is_active_admin r \<Longrightarrow> \<not> is_active_admin r' \<Longrightarrow>
       \<exists>p. member_at m (member_key p) = Some p \<and> member_key p \<noteq> member_key r \<and> same_owner p r \<and> is_active_admin p"
  shows "effect_of m (member_key r) i'"
  using assms by (intro effect_of.changed) (simp_all add: member_at_def)

text \<open>A replacement whose conditions hold is an active administrator with a key of its own.\<close>

lemma replacement_stays:
  assumes "known_ok m known" "p \<in> known" "replacement_ok p r" "member_at m (member_key r) = Some r"
    and "list_all (test_holds (m (member_key p))) (replacement_tests p r)"
  shows "member_at m (member_key p) = Some p \<and> member_key p \<noteq> member_key r \<and> same_owner p r \<and> is_active_admin p"
proof -
  obtain i where i: "m (member_key p) = Some i" "membership_fields i = Some p"
    by (rule update_member [OF assms(1,2,5), of "mb_membership_version p"]) (simp_all add: replacement_tests_def)
  then have "member_at m (member_key p) = Some p" by (simp add: member_at_def)
  with assms(3,4) show ?thesis
    by (auto simp: replacement_ok_def same_owner_def is_active_admin_def)
qed

text \<open>Every write that an operation asks for, and that the table allows, is one of the four.\<close>

definition takes_effect :: "memory \<Rightarrow> memory \<Rightarrow> bool" where
  "takes_effect m m' \<longleftrightarrow> (\<exists>k i. m' = m(k \<mapsto> i) \<and> effect_of m k i)"

lemma takes_effectI: "m' = m(k \<mapsto> i) \<Longrightarrow> effect_of m k i \<Longrightarrow> takes_effect m m'"
  unfolding takes_effect_def by blast

lemma transition_effect:
  assumes "keyed m" "known_ok m known" "call_ok known (TransitionCall q)" "is_aware now" "instant now < max_instant"
    and "allowed m (transition_write q now)"
    and admin: "removes_active_admin (tq_current q) (tq_next_state q) (tq_next_role q) \<Longrightarrow>
       \<exists>p. p \<in> known \<and> replacement_ok p (tq_current q) \<and>
         list_all (test_holds (m (member_key p))) (replacement_tests p (tq_current q))"
  shows "takes_effect m (written m (transition_write q now))"
proof -
  let ?r = "tq_current q"
  let ?i = "updated_item (m (member_key ?r)) (member_key ?r) (transition_sets q now) [''invitation_expires_at'']"
  let ?r' = "?r\<lparr>mb_state := tq_next_state q, mb_role_id := tq_next_role q,
        mb_membership_version := tq_expected_version q + 1, mb_updated_at := now, mb_invitation_expires_at := None\<rparr>"
  have known: "?r \<in> known" and version: "1 \<le> tq_expected_version q" "tq_expected_version q \<le> mb_membership_version ?r"
    using assms(3) by simp_all
  have tests: "list_all (test_holds (m (member_key ?r)))
      (transition_tests ?r (tq_expected_state q) (tq_expected_version q))"
    using assms(6) by (simp add: allowed_def transition_write_def)
  obtain i where i: "m (member_key ?r) = Some i" "membership_fields i = Some ?r"
      "mb_membership_version ?r = tq_expected_version q"
    by (rule update_member [OF assms(2) known tests _ version(2)]) (simp_all add: transition_tests_def)
  have here: "member_at m (member_key ?r) = Some ?r" by (simp add: member_at_def i)
  have fields: "membership_fields ?i = Some ?r'"
    by (simp only: i(1), rule transition_fields [OF i(2) version(1) assms(4,5)])
  have carries: "carries_key (member_key ?r) ?i"
    by (simp only: i(1), rule carries_key_update [OF assms(1) i(1)]) (simp_all add: transition_sets_def)
  have "effect_of m (member_key ?r) ?i"
  proof (rule effect_changed [OF i(1,2) assms(1) fields _ _ carries])
    assume "is_active_admin ?r" "\<not> is_active_admin ?r'"
    then have "removes_active_admin ?r (tq_next_state q) (tq_next_role q)"
      by (simp add: is_active_admin_def removes_active_admin_def)
    from admin [OF this] obtain p where p: "p \<in> known" "replacement_ok p ?r"
        "list_all (test_holds (m (member_key p))) (replacement_tests p ?r)" by blast
    from replacement_stays [OF assms(2) p(1,2) here p(3)]
    show "\<exists>p. member_at m (member_key p) = Some p \<and> member_key p \<noteq> member_key ?r \<and> same_owner p ?r \<and> is_active_admin p"
      by blast
  qed (simp_all add: same_identity_def i(3))
  then show ?thesis by (rule takes_effectI [rotated]) (simp add: transition_write_def)
qed

lemma refresh_effect:
  assumes "keyed m" "known_ok m known" "call_ok known (RefreshCall r n t ref)" "is_aware now" "instant now < max_instant"
    and "is_aware t" "mb_state r = INVITED" "mb_membership_version r = n"
    and "allowed m (Update (member_key r) (refresh_sets n t now ref) [] (refresh_tests r n))"
  shows "takes_effect m (written m (Update (member_key r) (refresh_sets n t now ref) [] (refresh_tests r n)))"
proof -
  let ?i = "updated_item (m (member_key r)) (member_key r) (refresh_sets n t now ref) []"
  let ?r' = "r\<lparr>mb_membership_version := n + 1, mb_updated_at := now, mb_invitation_expires_at := Some t\<rparr>"
  have known: "r \<in> known" and t: "instant t < max_instant" using assms(3) by simp_all
  have tests: "list_all (test_holds (m (member_key r))) (refresh_tests r n)"
    using assms(9) by (simp add: allowed_def)
  obtain i where i: "m (member_key r) = Some i" "membership_fields i = Some r"
    by (rule update_member [OF assms(2) known tests, of n]) (simp_all add: refresh_tests_def assms(8))
  have "1 \<le> n" using membership_fields_version [OF i(2)] assms(8) by simp
  have fields: "membership_fields ?i = Some ?r'"
    by (simp only: i(1), rule refresh_fields [OF i(2) \<open>1 \<le> n\<close> assms(4,5,6) t])
  have carries: "carries_key (member_key r) ?i"
    by (simp only: i(1), rule carries_key_update [OF assms(1) i(1)]) (simp_all add: refresh_sets_def)
  have "effect_of m (member_key r) ?i"
    by (rule effect_changed [OF i assms(1) fields _ _ carries])
      (simp_all add: same_identity_def assms(8) is_active_admin_def)
  then show ?thesis by (rule takes_effectI [rotated]) simp
qed

lemma absent_item: "keyed m \<Longrightarrow> list_all (test_holds (m k)) unless_exists \<Longrightarrow> m k = None"
  using keyed_present by (fastforce simp: present_def)

lemma put_effect:
  assumes "keyed m" "allowed m (Put d unless_exists)" "key_of d = k" "m k = None \<Longrightarrow> effect_of m k (stored_item d)"
  shows "takes_effect m (written m (Put d unless_exists))"
  using assms absent_item [of m k] by (intro takes_effectI [of _ _ k]) (auto simp: allowed_def)

lemma checkpoint_fields:
  assumes "operation_from_item i = Inr r" "is_aware now" "instant now < max_instant"
    and ev: "validated_operation_evidence (evidence_dict e) s = Inr ev"
  shows "operation_from_item (updated_item (Some i) k (checkpoint_sets s ev now) [])
    = Inr (r\<lparr>or_stage := s, or_evidence := ev, or_updated_at := now\<rparr>)"
proof -
  have at: "map_of (updated_item (Some i) k (checkpoint_sets s ev now) []) a =
     (case map_of (checkpoint_sets s ev now) a of Some v \<Rightarrow> Some (stored v) | None \<Rightarrow> map_of i a)" for a
    by (subst map_of_updated_item) (simp_all add: checkpoint_sets_def)
  have "validated_operation_evidence (evidence_dict ev) s = Inr ev"
    using ev validated_evidence_again [OF ev] by simp
  with assms(1-3) show ?thesis
    by (auto simp: operation_from_item_def contract_def bind_eq_Some_conv text_at_def time_at_def
        at [unfolded checkpoint_sets_def] checkpoint_sets_def enum_simps split: option.splits)
qed

lemma checkpoint_effect:
  assumes "keyed m" "is_aware now" "instant now < max_instant"
    and ev: "validated_operation_evidence (evidence_dict e) s = Inr ev"
    and "allowed m (Update (operation_pk c d, idempotency_sk key) (checkpoint_sets s ev now) [] (checkpoint_tests r s'))"
  shows "takes_effect m (written m (Update (operation_pk c d, idempotency_sk key) (checkpoint_sets s ev now) []
    (checkpoint_tests r s')))"
proof -
  let ?k = "(operation_pk c d, idempotency_sk key)"
  obtain i where i: "m ?k = Some i"
    using assms(5) by (cases "m ?k") (auto simp: allowed_def checkpoint_tests_def)
  have carries: "carries_key ?k (updated_item (Some i) ?k (checkpoint_sets s ev now) [])"
    by (rule carries_key_update [OF assms(1) i]) (simp_all add: checkpoint_sets_def)
  have "advances i (updated_item (Some i) ?k (checkpoint_sets s ev now) [])"
    unfolding advances_def using checkpoint_fields [OF _ assms(2-4)] by blast
  from effect_of.advanced [of m c d key, OF i this carries]
  have "effect_of m ?k (updated_item (m ?k) ?k (checkpoint_sets s ev now) [])"
    unfolding i .
  then show ?thesis by (rule takes_effectI [rotated]) simp
qed

lemma create_effect:
  assumes "keyed m" "is_aware now" "instant now < max_instant" "instant t < max_instant"
    and item: "membership_item (invited_membership c d p role t now) = Inr i"
    and "allowed m (Put (i @ [(''last_operation_reference'', v)]) unless_exists)"
  shows "takes_effect m (written m (Put (i @ [(''last_operation_reference'', v)]) unless_exists))"
proof (rule put_effect [OF assms(1,6)])
  let ?r = "invited_membership c d p role t now"
  show "key_of (i @ [(''last_operation_reference'', v)]) = member_key ?r"
    by (rule key_of_membership_item [OF item])
  assume absent: "m (member_key ?r) = None"
  have "membership_fields (stored_item (i @ [(''last_operation_reference'', v)])) = Some ?r"
    by (rule membership_item_fields [OF item]) (use assms(3,4) in \<open>simp_all add: invited_membership_def member_times_ok_def\<close>)
  with absent show "effect_of m (member_key ?r) (stored_item (i @ [(''last_operation_reference'', v)]))"
    by (rule effect_of.created) (rule put_membership [OF item])
qed

lemma ok_of_Some [simp]: "ok_of r = Some x \<longleftrightarrow> r = Inr x"
  by (cases r) (simp_all add: ok_of_def)

lemma call_effect:
  assumes "keyed m" "known_ok m known" "call_ok known c" "is_aware now" "instant now < max_instant"
    and rq: "call_request c now = Some rq" "request_allowed m rq"
  shows "takes_effect m (request_written m rq)"
proof (cases c)
  case (ReserveCall cm)
  then obtain d where d: "operation_item (operation_record_new cm now) = Inr d" "rq = Single (Put d unless_exists)"
    using rq by auto
  have "takes_effect m (written m (Put d unless_exists))"
    using put_operation [OF d(1)] key_of_operation_item [OF d(1)] rq(2) d(2)
    by (intro put_effect [OF assms(1)]) (auto intro: effect_of.reserved)
  then show ?thesis by (simp add: d(2) request_written_def)
next
  case (EffectCall x)
  then obtain d where d: "provider_effect_reservation_item x = Inr d" "rq = Single (Put d unless_exists)"
    using rq by auto
  have "takes_effect m (written m (Put d unless_exists))"
    using put_reservation [OF d(1)] key_of_reservation_item [OF d(1)] rq(2) d(2)
    by (intro put_effect [OF assms(1)]) (auto intro: effect_of.reserved simp: effect_key_def)
  then show ?thesis by (simp add: d(2) request_written_def)
next
  case (CheckpointCall r s s' ev)
  then show ?thesis
    using rq by (auto simp: request_written_def simp del: written.simps intro!: checkpoint_effect [OF assms(1,4,5)])
next
  case (CreateCall cu d p role t ref)
  then show ?thesis
    using rq assms(3-5)
    by (auto simp: request_written_def simp del: written.simps intro!: create_effect [OF assms(1,4,5)])
next
  case (TransitionCall q)
  show ?thesis
  proof (cases "tq_admin_replacement q")
    case None
    with rq TransitionCall have w: "rq = Single (transition_write q now)"
      "\<not> removes_active_admin (tq_current q) (tq_next_state q) (tq_next_role q)"
      by (auto split: if_splits)
    with rq(2) assms(3) TransitionCall show ?thesis
      using transition_effect [OF assms(1,2) _ assms(4,5), of q] by (simp add: request_written_def)
  next
    case (Some p)
    with rq TransitionCall have w: "rq = Checked (member_key p) (replacement_tests p (tq_current q)) (transition_write q now)"
      "replacement_ok p (tq_current q)"
      by (auto split: if_splits)
    with rq(2) assms(3) TransitionCall Some show ?thesis
      using transition_effect [OF assms(1,2) _ assms(4,5), of q] by (auto simp: request_written_def)
  qed
next
  case (RefreshCall r n t ref)
  with rq have w: "rq = Single (Update (member_key r) (refresh_sets n t now ref) [] (refresh_tests r n))"
    "mb_state r = INVITED" "mb_membership_version r = n" "is_aware t"
    by (auto split: if_splits)
  with rq(2) assms(3) RefreshCall show ?thesis
    using refresh_effect [OF assms(1,2) _ assms(4,5)] by (simp add: request_written_def)
qed

section \<open>Invariants of histories\<close>

text \<open>The effects as changes of the members, the ledger and the claims.\<close>

definition members_evolve :: "memory \<Rightarrow> memory \<Rightarrow> bool" where
  "members_evolve m m' \<longleftrightarrow> (\<forall>r. member_at m (member_key r) = Some r \<longrightarrow>
     (\<exists>r'. member_at m' (member_key r) = Some r' \<and> evolves r r'))"

lemma members_evolve_refl: "members_evolve m m"
  by (auto simp: members_evolve_def intro: evolves_refl)

lemma members_evolveD:
  "members_evolve m m' \<Longrightarrow> member_at m (member_key r) = Some r \<Longrightarrow>
    \<exists>r'. member_at m' (member_key r) = Some r' \<and> evolves r r'"
  by (simp add: members_evolve_def)

lemma members_evolve_trans: "members_evolve a b \<Longrightarrow> members_evolve b c \<Longrightarrow> members_evolve a c"
  unfolding members_evolve_def by (metis evolves_key evolves_trans)

lemma member_at_upd: "member_at (m(k \<mapsto> i)) k' = (if k' = k then membership_fields i else member_at m k')"
  by (simp add: member_at_def)

lemma member_key_pk: "fst (member_key r) = membership_pk (mb_customer_id r) (mb_deployment_id r)"
  by (simp add: member_key_def)

lemma member_key_ledger: "member_key r \<noteq> (operation_pk c d, sk)"
  by (simp add: member_key_def)

lemma same_identity_evolves:
  "same_identity r r' \<Longrightarrow> mb_membership_version r' = mb_membership_version r + 1 \<Longrightarrow> evolves r r'"
  by (simp add: evolves_def)

lemma effect_members_evolve:
  assumes "effect_of m k i"
  shows "members_evolve m (m(k \<mapsto> i))"
  using assms
proof cases
  case (reserved c d)
  then have "member_key r \<noteq> k" for r using member_key_ledger [of r c d "snd k"] by (metis prod.collapse)
  then show ?thesis by (auto simp: members_evolve_def member_at_upd intro: evolves_refl)
next
  case (advanced c d key j)
  then show ?thesis
    by (auto simp: members_evolve_def member_at_upd member_key_ledger intro: evolves_refl)
next
  case (created r)
  then show ?thesis
    by (auto simp: members_evolve_def member_at_upd member_at_def [of m] intro: evolves_refl)
next
  case (changed r r')
  then have "evolves r r'" by (intro same_identity_evolves)
  with changed show ?thesis
    by (auto simp: members_evolve_def member_at_upd intro: evolves_refl)
qed

lemma effect_keyed:
  assumes "keyed m" "effect_of m k i"
  shows "keyed (m(k \<mapsto> i))"
proof -
  have carries: "carries_key k i" using assms(2) by cases auto
  have member: "member_key r = (membership_pk c d, sk)"
    if "member_at (m(k \<mapsto> i)) (membership_pk c d, sk) = Some r" for c d sk r
    using assms(2)
  proof cases
    case (reserved c' d')
    with that assms(1) show ?thesis
      by (cases "(membership_pk c d, sk) = k") (auto simp: member_at_upd keyed_def)
  next
    case (advanced c' d' key j)
    with that assms(1) show ?thesis by (auto simp: member_at_upd keyed_def)
  next
    case (created r')
    with that assms(1) show ?thesis by (auto simp: member_at_upd keyed_def split: if_splits)
  next
    case (changed r' r'')
    then have "member_key r'' = member_key r'" by (intro evolves_key same_identity_evolves)
    with changed that assms(1) show ?thesis by (auto simp: member_at_upd keyed_def split: if_splits)
  qed
  show ?thesis
    unfolding keyed_def using carries member keyed_item [OF assms(1)] by auto
qed

text \<open>The three kinds of step of a history.\<close>

lemma elsewhere_members:
  assumes "\<And>c d. pk \<noteq> membership_pk c d"
  shows "member_at (m((pk, sk) := i)) (membership_pk c d, sk') = member_at m (membership_pk c d, sk')"
  using assms [of c d] by (auto simp: member_at_def)

lemma elsewhere_keyed:
  assumes "keyed m" "\<And>c d. pk \<noteq> membership_pk c d" "\<And>j. i = Some j \<Longrightarrow> carries_key (pk, sk) j"
  shows "keyed (m((pk, sk) := i))"
  using assms unfolding keyed_def by (auto simp: elsewhere_members)

lemma elsewhere_evolve:
  assumes "\<And>c d. pk \<noteq> membership_pk c d"
  shows "members_evolve m (m((pk, sk) := i))"
  using assms by (auto simp: members_evolve_def member_key_def elsewhere_members intro: evolves_refl)

lemma known_evolve: "known_ok m known \<Longrightarrow> keyed m \<Longrightarrow> members_evolve m m' \<Longrightarrow> known_ok m' known"
  unfolding known_ok_def members_evolve_def by (metis evolves_key evolves_trans)

lemma known_ok_insert:
  "known_ok m known \<Longrightarrow> member_at m (member_key r) = Some r \<Longrightarrow> known_ok m (insert r known)"
  unfolding known_ok_def by (metis evolves_refl insert_iff)

lemma known_step:
  assumes "keyed m \<and> known_ok m known \<and> members_evolve m0 m" "members_evolve m m'" "keyed m'"
  shows "keyed m' \<and> known_ok m' known \<and> members_evolve m0 m'"
  using assms known_evolve members_evolve_trans by metis

lemma history_invariant:
  assumes "history m0 m known" "keyed m0"
  shows "keyed m \<and> known_ok m known \<and> members_evolve m0 m"
  using assms(1)
proof (induction rule: history.induct)
  case start
  then show ?case using assms(2) by (simp add: known_ok_def members_evolve_refl)
next
  case (read m known c d sk r)
  then have key: "member_key r = (membership_pk c d, sk)" unfolding keyed_def by blast
  have "known_ok m (insert r known)"
    by (rule known_ok_insert) (use read key in simp_all)
  with read.IH show ?case by simp
next
  case (call m known c now rq)
  then have "takes_effect m (request_written m rq)" by (intro call_effect) auto
  then obtain k i where eff: "request_written m rq = m(k \<mapsto> i)" "effect_of m k i"
    unfolding takes_effect_def by blast
  have "keyed m" using call.IH by simp
  show ?case
    unfolding eff(1) by (rule known_step [OF call.IH effect_members_evolve effect_keyed]) fact+
next
  case (elsewhere m known pk i sk)
  have "keyed m" using elsewhere.IH by simp
  show ?case
    by (rule known_step [OF elsewhere.IH elsewhere_evolve elsewhere_keyed]) fact+
qed

lemmas history_keyed = history_invariant [THEN conjunct1]

text \<open>
  (C36) However the operations of many processes interleave, a membership never disappears and never
  changes owner, subject, reference or provider account; its version never decreases, and two
  states of it with the same version are the same record, so that each version of a member
  was decided once.
\<close>

theorem members_only_evolve:
  assumes "history m0 m known" "keyed m0" "member_at m0 (member_key r) = Some r"
  shows "\<exists>r'. member_at m (member_key r) = Some r' \<and> same_identity r r' \<and>
    mb_membership_version r \<le> mb_membership_version r' \<and>
    (mb_membership_version r' = mb_membership_version r \<longrightarrow> r' = r)"
  using members_evolveD [OF history_invariant [OF assms(1,2), THEN conjunct2, THEN conjunct2] assms(3)]
  by (auto simp: evolves_def)

section \<open>Administrators, operations and claims\<close>

text \<open>
  A property of tables that every step keeps holds at the end of a history. The steps that it
  has to be kept by: one of the four effects on a table whose items carry their keys, and a
  write elsewhere.
\<close>

lemma history_keeps:
  assumes "history m0 m known" "keyed m0" "P m0"
    and effect: "\<And>m k i. keyed m \<Longrightarrow> effect_of m k i \<Longrightarrow> P m \<Longrightarrow> P (m(k \<mapsto> i))"
    and other: "\<And>m pk sk i. (\<And>c d. pk \<noteq> membership_pk c d) \<Longrightarrow> (\<And>c d. pk \<noteq> operation_pk c d) \<Longrightarrow> P m \<Longrightarrow>
      P (m((pk, sk) := i))"
  shows "P m"
  using assms(1)
proof (induction rule: history.induct)
  case (call m known c now rq)
  have m: "keyed m" "known_ok m known" using history_invariant [OF call.hyps(1) assms(2)] by simp_all
  have "takes_effect m (request_written m rq)" by (rule call_effect [OF m]) fact+
  then obtain k i where eff: "request_written m rq = m(k \<mapsto> i)" "effect_of m k i"
    unfolding takes_effect_def by blast
  show ?case unfolding eff(1) by (rule effect [OF m(1) eff(2) call.IH])
next
  case (elsewhere m known pk i sk)
  show ?case by (rule other) fact+
qed (use assms(3) in simp_all)

definition has_admin :: "memory \<Rightarrow> string \<Rightarrow> string \<Rightarrow> bool" where
  "has_admin m customer deployment \<longleftrightarrow> (\<exists>r. member_at m (member_key r) = Some r \<and>
     mb_customer_id r = customer \<and> mb_deployment_id r = deployment \<and> is_active_admin r)"

lemma has_adminI:
  "member_at m (member_key r) = Some r \<Longrightarrow> is_active_admin r \<Longrightarrow> mb_customer_id r = c \<Longrightarrow>
    mb_deployment_id r = d \<Longrightarrow> has_admin m c d"
  unfolding has_admin_def by blast

lemma effect_has_admin:
  assumes "effect_of m k i" "has_admin m c d"
  shows "has_admin (m(k \<mapsto> i)) c d"
proof -
  from assms(2) obtain a where a: "member_at m (member_key a) = Some a" "is_active_admin a"
      "mb_customer_id a = c" "mb_deployment_id a = d"
    unfolding has_admin_def by blast
  from members_evolveD [OF effect_members_evolve [OF assms(1)] a(1)]
  obtain b where b: "member_at (m(k \<mapsto> i)) (member_key a) = Some b" "evolves a b" by blast
  then have key: "member_key b = member_key a" and own: "mb_customer_id b = c" "mb_deployment_id b = d"
    using a(3,4) by (auto simp: evolves_key evolves_def same_identity_def)
  show ?thesis
  proof (cases "is_active_admin b")
    case True
    with b(1) own show ?thesis by (intro has_adminI [of _ b]) (simp_all add: key)
  next
    case False
    from assms(1) show ?thesis
    proof cases
      case (changed r r')
      show ?thesis
      proof (cases "member_key a = member_key r")
        case True
        with changed(2) a(1) have "r = a" by simp
        with changed(1,3) b(1) have "r' = b" by (simp add: member_at_upd)
        with changed(7) \<open>r = a\<close> False a(2)
        obtain p where p: "member_at m (member_key p) = Some p" "member_key p \<noteq> member_key r" "same_owner p r"
            "is_active_admin p" by blast
        with \<open>r = a\<close> a(3,4) changed(1) show ?thesis
          by (intro has_adminI [of _ p]) (simp_all add: member_at_upd same_owner_def)
      qed (use changed(1) b(1) a(1,2) False in \<open>simp add: member_at_upd\<close>)
    qed (use b(1) a(1,2) False in \<open>auto simp: member_at_upd member_key_ledger member_at_def split: if_splits\<close>)
  qed
qed

text \<open>
  (C4) An owner that has an active administrator keeps one, in every interleaving: two
  administrators who demote or suspend each other at the same time cannot both succeed, since
  the write that takes away one is a transaction with the check that the other still stands.
\<close>

theorem last_admin_stays:
  assumes "history m0 m known" "keyed m0" "has_admin m0 c d"
  shows "has_admin m c d"
  using assms
proof (rule history_keeps)
  fix m :: memory and pk sk and i :: "item option"
  assume "\<And>c d. pk \<noteq> membership_pk c d" "has_admin m c d"
  then show "has_admin (m((pk, sk) := i)) c d"
    by (auto simp: has_admin_def member_key_def elsewhere_members)
qed (rule effect_has_admin)

text \<open>Claims on provider effects.\<close>

lemma effect_keeps_claim:
  assumes "effect_of m k i" "m (operation_pk c d, provider_effect_reservation_sk op t n) = Some j"
  shows "(m(k \<mapsto> i)) (operation_pk c d, provider_effect_reservation_sk op t n) = Some j"
  using assms by cases (auto simp: member_key_def)

lemma claim_kept:
  assumes "history m0 m known" "keyed m0" "m0 (operation_pk c d, provider_effect_reservation_sk op t n) = Some j"
  shows "m (operation_pk c d, provider_effect_reservation_sk op t n) = Some j"
  using assms by (rule history_keeps) (rule effect_keeps_claim, auto)

lemma same_effect_key: "same_effect x y \<Longrightarrow> effect_key y = effect_key x"
  by (simp add: same_effect_def effect_key_def)

text \<open>
  (C17) Each provider effect has one winner. Once a process has won the claim on an effect (an
  operation on a member at a version), no later claim on the same effect is won, whatever
  happened to the table in between; the loser is told the very reservation of the winner.
\<close>

theorem one_winner:
  assumes table: "conditional_table dy view"
    and first: "store_reserve_provider_effect dy x w0 = (Inr (x', True), w1)" "effect_valid x"
    and between: "history (view w1) (view w2) known" "keyed (view w1)"
    and second: "store_reserve_provider_effect dy y w2 = (Inr (y', here), w3)" "same_effect x y"
  shows "\<not> here \<and> y' = x"
proof -
  from conditional_table.reserve_effect_run [OF table first(1)]
  obtain d where d: "provider_effect_reservation_item x = Inr d" "view w1 (effect_key x) = Some (stored_item d)"
    by auto
  have here: "view w2 (effect_key y) = Some (stored_item d)"
    using claim_kept [OF between] d(2) same_effect_key [OF second(2)] by (simp add: effect_key_def)
  have "keyed (view w2)" using history_invariant [OF between] by simp
  with here have "present (view w2) (effect_key y)" by (simp add: keyed_present)
  moreover have "provider_effect_reservation_from_item (stored_item d) = Inr x"
    by (rule reservation_read_back [OF d(1) first(2)])
  ultimately show ?thesis
    using conditional_table.reserve_effect_run [OF table second(1)] here by auto
qed

text \<open>Operations of the ledger.\<close>

definition op_at :: "memory \<Rightarrow> item_key \<Rightarrow> operation_record option" where
  "op_at m k = Option.bind (m k) (\<lambda>j. ok_of (operation_from_item j))"

definition same_operation :: "operation_record \<Rightarrow> operation_record \<Rightarrow> bool" where
  "same_operation a b \<longleftrightarrow> or_schema_version b = or_schema_version a
     \<and> or_operation_reference b = or_operation_reference a \<and> or_operation b = or_operation a
     \<and> or_customer_id b = or_customer_id a \<and> or_deployment_id b = or_deployment_id a
     \<and> or_actor_subject b = or_actor_subject a \<and> or_idempotency_key b = or_idempotency_key a
     \<and> or_request_digest b = or_request_digest a \<and> or_created_at b = or_created_at a"

lemma same_operationI: "same_operation a (a\<lparr>or_stage := s, or_evidence := ev, or_updated_at := t\<rparr>)"
  by (simp add: same_operation_def)

lemma same_operation_refl [simp]: "same_operation a a"
  by (simp add: same_operation_def)

lemma same_operation_trans: "same_operation a b \<Longrightarrow> same_operation b c \<Longrightarrow> same_operation a c"
  by (simp add: same_operation_def)

lemma effect_keeps_operation:
  assumes "effect_of m k i" "op_at m (operation_pk c d, idempotency_sk key) = Some r"
  shows "\<exists>r'. op_at (m(k \<mapsto> i)) (operation_pk c d, idempotency_sk key) = Some r' \<and> same_operation r r'"
  using assms
proof cases
  case (advanced c' d' key' j)
  then show ?thesis
    using assms(2) by (cases "(operation_pk c d, idempotency_sk key) = k")
      (auto simp: op_at_def advances_def intro: same_operationI)
qed (auto simp: op_at_def member_key_def)

lemma operation_kept:
  assumes "history m0 m known" "keyed m0" "op_at m0 (operation_pk c d, idempotency_sk key) = Some r"
  shows "\<exists>r'. op_at m (operation_pk c d, idempotency_sk key) = Some r' \<and> same_operation r r'"
proof -
  let ?P = "\<lambda>m. \<exists>r'. op_at m (operation_pk c d, idempotency_sk key) = Some r' \<and> same_operation r r'"
  show ?thesis
  proof (rule history_keeps [of m0 m known ?P, OF assms(1,2)])
    fix m k i assume eff: "effect_of m k i" and "?P m"
    then obtain q where q: "op_at m (operation_pk c d, idempotency_sk key) = Some q" "same_operation r q" by blast
    from effect_keeps_operation [OF eff q(1)] q(2) show "?P (m(k \<mapsto> i))" by (blast intro: same_operation_trans)
  next
    fix m :: memory and pk sk and i :: "item option"
    assume "\<And>c d. pk \<noteq> operation_pk c d" "?P m"
    moreover have "op_at (m((pk, sk) := i)) (operation_pk c d, idempotency_sk key)
        = op_at m (operation_pk c d, idempotency_sk key)"
      using calculation(1) [of c d] by (auto simp: op_at_def)
    ultimately show "?P (m((pk, sk) := i))" by simp
  qed (simp add: assms(3))
qed

text \<open>
  (C35) An idempotency key names one operation for good. Two reservations under the same key of an
  owner, with anything in between, return the same operation (reference, command, digest,
  actor and creation time), and the second succeeds only for the very command of the first.
\<close>

theorem one_operation:
  assumes table: "conditional_table dy view"
    and first: "store_reserve_operation dy cm w0 = (Inr r, w1)" "instant (or_created_at r) < max_instant"
    and between: "history (view w1) (view w2) known" "keyed (view w1)"
    and second: "store_reserve_operation dy cm' w2 = (Inr r', w3)" "operation_key cm' = operation_key cm"
  shows "same_operation r r' \<and> cm_operation cm' = cm_operation cm \<and>
    cm_actor_subject cm' = cm_actor_subject cm \<and> cm_request_digest cm' = cm_request_digest cm"
proof -
  note run1 = conditional_table.reserve_operation_run [OF table first(1)]
  have "op_at (view w1) (operation_key cm) = Some r"
  proof (rule disjE [OF conjunct2 [OF run1]])
    assume "\<exists>now d. r = operation_record_new cm now \<and> operation_item r = Inr d \<and>
        \<not> present (view w0) (operation_key cm) \<and> view w1 = (view w0)(operation_key cm \<mapsto> stored_item d)"
    then obtain now d where d: "r = operation_record_new cm now" "operation_item r = Inr d"
        "view w1 = (view w0)(operation_key cm \<mapsto> stored_item d)" by blast
    have "operation_from_item (stored_item d) = Inr r"
      by (rule operation_read_back [OF d(2)]) (use first(2) d(1) in \<open>simp_all add: operation_record_new_def\<close>)
    with d(3) show ?thesis by (simp add: op_at_def)
  qed (auto simp: op_at_def)
  then have "op_at (view w1) (operation_pk (cm_customer_id cm) (cm_deployment_id cm), idempotency_sk (cm_idempotency_key cm)) = Some r"
    by (simp add: operation_key_def)
  from operation_kept [OF between this] obtain q where
    q: "op_at (view w2) (operation_key cm') = Some q" "same_operation r q"
    unfolding second(2) operation_key_def [of cm] by blast
  have "keyed (view w2)" using history_invariant [OF between] by simp
  with q(1) have "present (view w2) (operation_key cm')"
    by (auto simp: op_at_def bind_eq_Some_conv intro: keyed_present)
  with conditional_table.reserve_operation_run [OF table second(1)] q(1)
  have r': "r' = q" "same_command r' cm'" by (auto simp: op_at_def)
  with q(2) run1 show ?thesis by (auto simp: same_operation_def same_command_def)
qed

end
