(* ===== verification/AdapterProofs.thy ===== *)
theory AdapterProofs
  imports LifecycleAdapters StoreInvariants
begin

text \<open>
  What the adapters guarantee. An audit event is acknowledged only when the table holds it, is
  never overwritten, and is acknowledged again with the same reference when it is emitted
  again; the event the service builds is one the sink accepts. Receipts of the identity provider come only
  from the account that is bound to the member and its owner, and the calls that change an
  account follow a reading of that account.
\<close>

section \<open>Audit events\<close>

lemma py_eq_stored [simp]: "py_eq (stored v) v"
proof -
  have "py_norm (stored v) = py_norm v"
  proof (induction v rule: stored.induct)
    case (4 d)
    then show ?case by (auto simp: case_prod_beta)
  qed auto
  then show ?thesis by (simp add: py_eq_def)
qed

lemma same_dict_iff:
  "same_dict d e \<longleftrightarrow> (\<forall>k. rel_option py_eq (map_of d k) (map_of e k))"
proof -
  have "same_dict d e \<longleftrightarrow> (\<forall>k \<in> fst ` set (d @ e). case (map_of d k, map_of e k) of
     (Some u, Some v) \<Rightarrow> py_eq u v | _ \<Rightarrow> False)"
    unfolding same_dict_def list_all_iff by (simp add: case_prod_beta)
  also have "\<dots> \<longleftrightarrow> (\<forall>k. rel_option py_eq (map_of d k) (map_of e k))"
  proof (intro iffI allI ballI)
    fix k assume all: "\<forall>k \<in> fst ` set (d @ e). case (map_of d k, map_of e k) of
     (Some u, Some v) \<Rightarrow> py_eq u v | _ \<Rightarrow> False"
    show "rel_option py_eq (map_of d k) (map_of e k)"
    proof (cases "k \<in> fst ` set (d @ e)")
      case True
      from bspec [OF all this] show ?thesis by (auto split: option.splits)
    next
      case False
      then have "map_of d k = None" "map_of e k = None" by (auto simp: map_of_eq_None_iff)
      then show ?thesis by simp
    qed
  next
    fix k assume all: "\<forall>k. rel_option py_eq (map_of d k) (map_of e k)" and "k \<in> fst ` set (d @ e)"
    then have "map_of d k \<noteq> None \<or> map_of e k \<noteq> None" by (auto simp: map_of_eq_None_iff image_Un)
    with all [rule_format, of k]
    show "case (map_of d k, map_of e k) of (Some u, Some v) \<Rightarrow> py_eq u v | _ \<Rightarrow> False"
      by (cases "map_of d k"; cases "map_of e k") auto
  qed
  finally show ?thesis .
qed

lemma same_dict_stored [simp]: "same_dict (stored_item d) d"
  by (auto simp: same_dict_iff option.rel_map split: option.split intro: option.rel_refl)

lemma audit_key: "key_of (audit_item own t decision e) =
    (audit_pk (fst own) (snd own), timestamp_text (instant t) @ ''#'' @ decision)"
  by (simp add: audit_item_def key_of_def py_get_def)

lemma lifecycle_event_accepted:
  assumes "lifecycle_event r auth = Inr e" "instant (or_created_at r) < max_instant"
  shows "audit_event_accepted (or_customer_id r, or_deployment_id r) e \<and>
    adapter_parse_timestamp (py_get e ''timestamp'') = Inr (Aware (instant (or_created_at r))) \<and>
    str_sat opaque_reference_pattern (py_get e ''decision_id'')"
proof -
  obtain cls m assurance approval after where e: "e =
       [(''event_schema_version'', PStr LIFECYCLE_AUDIT_EVENT_SCHEMA_VERSION),
        (''timestamp'', PStr (service_timestamp (or_created_at r))),
        (''decision_id'', PStr (lifecycle_decision_id r)),
        (''principal_type'', PStr ''user''),
        (''principal_reference'', PStr (reference_of [or_actor_subject r])),
        (''customer_reference'', PStr (reference_of [or_customer_id r])),
        (''deployment_reference'', PStr (reference_of [or_deployment_id r])),
        (''action'', PStr (lifecycle_operation_value (or_operation r))),
        (''resource_type'', PStr ''authorization_administration''),
        (''decision'', PStr ''allow''),
        (''reason_code'', PStr (evidence_or r ''reason_code'' ''approved_lifecycle_change'')),
        (''policy_version'', PStr POLICY_VERSION), (''policy_digest'', PStr POLICY_DIGEST),
        (''assurance'', PStr assurance),
        (''correlation_reference'', PStr (reference_of [or_operation_reference r])),
        (''approval_references'', PList [PStr approval]),
        (''before_membership_version'', PStr (evidence_or r ''before_membership_version'' ''0'')),
        (''after_membership_version'', PStr after)]"
    using assms(1) by (auto simp: lifecycle_event_def split: pyval.splits sum.splits)
  have "audit_event_accepted (or_customer_id r, or_deployment_id r) e"
    by (simp add: audit_event_accepted_def AUDIT_EVENT_FIELDS_def e py_get_def adapter_reference_def reference_of_def)
  moreover have "adapter_parse_timestamp (py_get e ''timestamp'') = Inr (Aware (instant (or_created_at r)))"
    using assms(2) by (simp add: e py_get_def service_timestamp_def)
  moreover have "str_sat opaque_reference_pattern (py_get e ''decision_id'')"
    by (simp add: e py_get_def lifecycle_decision_id_def reference_of_pattern)
  ultimately show ?thesis by blast
qed

text \<open>
  The sink accepts the event the service builds for an operation of its owner: the set of
  attributes, the references of the owner, the time and the decision identifier are the ones
  the adapter demands.
\<close>

theorem audit_event_fits:
  assumes "lifecycle_event r auth = Inr e" "instant (or_created_at r) < max_instant"
  shows "audit_event_accepted (or_customer_id r, or_deployment_id r) e \<and>
    adapter_parse_timestamp (py_get e ''timestamp'') = Inr (Aware (instant (or_created_at r))) \<and>
    str_sat opaque_reference_pattern (py_get e ''decision_id'')"
  by (rule lifecycle_event_accepted [OF assms])

definition audit_item_of :: "owner \<Rightarrow> event \<Rightarrow> item option" where
  "audit_item_of own e = map_option (\<lambda>t. audit_item own t (py_str (py_get e ''decision_id'')) e)
     (ok_of (adapter_parse_timestamp (py_get e ''timestamp'')))"

context conditional_table
begin

lemma audit_emit_run:
  assumes "audit_emit dy own e w = (Inr rc, w')"
  shows "\<exists>d. audit_item_of own e = Some d \<and>
    lr_receipt_reference rc = adapter_reference [fst (key_of d), snd (key_of d)] \<and>
    ((\<not> present (view w) (key_of d) \<and> view w' = (view w)(key_of d \<mapsto> stored_item d)) \<or>
     (view w' = view w \<and> (\<exists>i. view w (key_of d) = Some i \<and> same_dict i d)))"
proof -
  from assms obtain t w1 now where t: "adapter_parse_timestamp (py_get e ''timestamp'') = Inr t"
    and run: "or_refused [CONDITIONAL_FAILURE] (dy_put_item dy (audit_item own t (py_str (py_get e ''decision_id'')) e)
        unless_exists) ()
        (bind (dy_get_item dy (key_of (audit_item own t (py_str (py_get e ''decision_id'')) e))) (\<lambda>response.
           case response_item response of None \<Rightarrow> raise ContractError
           | Some existing \<Rightarrow> ensure (same_dict existing (audit_item own t (py_str (py_get e ''decision_id'')) e))
               ContractError)) w = (Inr (), w1)"
    and now: "adapter_now dy w1 = (Inr now, w')"
    and rc: "lr_receipt_reference rc = adapter_reference
        [fst (key_of (audit_item own t (py_str (py_get e ''decision_id'')) e)),
         snd (key_of (audit_item own t (py_str (py_get e ''decision_id'')) e))]"
    by (auto simp: audit_emit_def bind_Inr Let_def)
  let ?d = "audit_item own t (py_str (py_get e ''decision_id'')) e"
  note view1 = now_view [OF now]
  have "(\<not> present (view w) (key_of ?d) \<and> view w1 = (view w)(key_of ?d \<mapsto> stored_item ?d)) \<or>
     (view w1 = view w \<and> (\<exists>i. view w (key_of ?d) = Some i \<and> same_dict i ?d))"
    using run [unfolded or_refused_Inr]
  proof
    assume put: "dy_put_item dy ?d unless_exists w = (Inr (), w1) \<and> () = ()"
    then show ?thesis using put_done [of ?d unless_exists w "()" w1] by (simp add: present_def)
  next
    assume "\<exists>c w2. dy_put_item dy ?d unless_exists w = (Inl (AwsError c), w2) \<and> c \<in> set [CONDITIONAL_FAILURE] \<and>
      bind (dy_get_item dy (key_of ?d)) (\<lambda>response. case response_item response of None \<Rightarrow> raise ContractError
           | Some existing \<Rightarrow> ensure (same_dict existing ?d) ContractError) w2 = (Inr (), w1)"
    then obtain w2 resp i where put: "dy_put_item dy ?d unless_exists w = (Inl (AwsError CONDITIONAL_FAILURE), w2)"
      and got: "dy_get_item dy (key_of ?d) w2 = (Inr resp, w1)" "response_item resp = Some i" "same_dict i ?d"
      by (auto simp: bind_Inr split: option.splits)
    have "view w2 = view w \<or> (\<not> present (view w) (key_of ?d) \<and> view w2 = (view w)(key_of ?d \<mapsto> stored_item ?d))"
      using put_law [OF put] by (simp add: write_law_def request_written_def allowed_def present_def)
    with got get_law [OF got(1)] show ?thesis by auto
  qed
  with t rc view1 show ?thesis by (auto simp: audit_item_of_def)
qed

lemma held_put:
  assumes "present (view w) (key_of d)" "dy_put_item dy d unless_exists w = (x, w1)"
  shows "view w1 = view w \<and> (\<exists>err. x = Inl err \<and> sdk_error err)"
proof -
  have "\<not> request_allowed (view w) (Single (Put d unless_exists))"
    using assms(1) by (simp add: present_def allowed_def)
  with put_law [OF assms(2)] show ?thesis
    by (cases x) (auto simp: write_law_def)
qed

lemma get_held:
  assumes "view w k = Some i" "dy_get_item dy k w = (x, w1)"
  shows "view w1 = view w \<and> (\<forall>err. x = Inl err \<longrightarrow> sdk_error err) \<and>
    (\<forall>resp. x = Inr resp \<longrightarrow> response_item resp = Some i)"
  using get_law [OF assms(2)] assms(1) by auto

lemma audit_again:
  assumes item: "audit_item_of own e = Some d"
    and held: "present (view w) (key_of d)" "view w (key_of d) = Some i" "same_dict i d"
    and again: "audit_emit dy own e w = (r, w')" "audit_event_accepted own e"
      "str_sat opaque_reference_pattern (py_get e ''decision_id'')"
  shows "view w' = view w \<and> (case r of
    Inr rc \<Rightarrow> lr_receipt_reference rc = adapter_reference [fst (key_of d), snd (key_of d)]
  | Inl err \<Rightarrow> sdk_error err)"
proof -
  obtain t where t: "adapter_parse_timestamp (py_get e ''timestamp'') = Inr t"
      "d = audit_item own t (py_str (py_get e ''decision_id'')) e"
    using item by (auto simp: audit_item_of_def)
  let ?check = "bind (dy_get_item dy (key_of d)) (\<lambda>response. case response_item response of
      None \<Rightarrow> raise ContractError | Some existing \<Rightarrow> ensure (same_dict existing d) ContractError)"
  obtain x w1 where put: "dy_put_item dy d unless_exists w = (x, w1)" by fastforce
  from held_put [OF held(1) put] obtain err where err: "x = Inl err" "sdk_error err" and view1: "view w1 = view w"
    by blast
  obtain y w2 where get: "dy_get_item dy (key_of d) w1 = (y, w2)" by fastforce
  have got: "view w2 = view w" "\<And>f. y = Inl f \<Longrightarrow> sdk_error f" "\<And>resp. y = Inr resp \<Longrightarrow> response_item resp = Some i"
    using get_held [OF _ get] held(2) view1 by auto
  obtain now w3 where clock: "adapter_now dy w2 = (Inr now, w3)"
    by (cases "dy_clock dy w2") (auto simp: adapter_now_def)
  have view3: "view w3 = view w" using now_view [OF clock] got(1) by simp
  have refused: "or_refused [CONDITIONAL_FAILURE] (dy_put_item dy d unless_exists) () ?check w =
      (if err = AwsError CONDITIONAL_FAILURE then (case y of Inl f \<Rightarrow> (Inl f, w2) | Inr resp \<Rightarrow> (Inr (), w2))
       else (Inl err, w1))"
    using put err(1) get got(3) held(3)
    by (cases err; cases y) (auto simp: or_refused_def bind_def ensure_def ret_def)
  have run: "audit_emit dy own e w = bind (or_refused [CONDITIONAL_FAILURE] (dy_put_item dy d unless_exists) () ?check)
     (\<lambda>_. bind (adapter_now dy) (\<lambda>acknowledged. ret
       \<lparr>lr_schema_version = LIFECYCLE_AUDIT_RECEIPT_SCHEMA_VERSION,
        lr_decision_id = py_str (py_get e ''decision_id''),
        lr_receipt_reference = adapter_reference [fst (key_of d), snd (key_of d)],
        lr_acknowledged_at = acknowledged\<rparr>)) w"
    unfolding t(2) using again(2,3) t(1) by (simp add: audit_emit_def bind_def ensure_def ret_def lift_def Let_def)
  show ?thesis
    using again(1) unfolding run bind_def [of "or_refused _ _ _ _"] refused
    using err(2) got(2) view1 view3 got(1) clock
    by (cases y) (auto simp: bind_def ret_def split: if_splits)
qed

end

text \<open>
  (C25) An audit event is acknowledged only when the table holds it, under its time and decision,
  with every attribute as it was emitted; and emitting never changes an item that was there.
\<close>

theorem audit_durable:
  assumes "conditional_table dy view" "audit_emit dy own e w = (Inr rc, w')"
  shows "\<exists>d i. audit_item_of own e = Some d \<and> view w' (key_of d) = Some i \<and> same_dict i d \<and>
    lr_receipt_reference rc = adapter_reference [fst (key_of d), snd (key_of d)] \<and>
    (\<forall>k. present (view w) k \<longrightarrow> view w' k = view w k)"
proof -
  obtain d where d: "audit_item_of own e = Some d"
      "lr_receipt_reference rc = adapter_reference [fst (key_of d), snd (key_of d)]"
    and run: "(\<not> present (view w) (key_of d) \<and> view w' = (view w)(key_of d \<mapsto> stored_item d)) \<or>
     (view w' = view w \<and> (\<exists>i. view w (key_of d) = Some i \<and> same_dict i d))"
    using conditional_table.audit_emit_run [OF assms] by blast
  from run have "\<exists>i. view w' (key_of d) = Some i \<and> same_dict i d" by auto
  moreover from run have "\<forall>k. present (view w) k \<longrightarrow> view w' k = view w k" by auto
  ultimately show ?thesis using d by blast
qed

text \<open>
  Emitting again is idempotent. When the table holds the event already, a second emission
  writes nothing, and unless the client itself fails it is acknowledged with the same
  reference.
\<close>

theorem audit_idempotent:
  assumes table: "conditional_table dy view" and item: "audit_item_of own e = Some d"
    and held: "present (view w) (key_of d)" "view w (key_of d) = Some i" "same_dict i d"
    and again: "audit_emit dy own e w = (r, w')" "audit_event_accepted own e"
      "str_sat opaque_reference_pattern (py_get e ''decision_id'')"
  shows "view w' = view w \<and> (case r of
    Inr rc \<Rightarrow> lr_receipt_reference rc = adapter_reference [fst (key_of d), snd (key_of d)]
  | Inl err \<Rightarrow> sdk_error err)"
  using conditional_table.audit_again [OF assms] .

section \<open>The identity provider\<close>

lemma user_receipt_Inr:
  assumes "user_receipt pool v key digest c d expected = Inr rc"
  shows "\<exists>user vs. v = PDict user \<and> user_attribute_list user = Some vs \<and>
    py_eq (py_get user ''Username'') (PStr key) \<and> map_of (user_attributes vs) ''sub'' = Some (pr_subject rc) \<and>
    map_of (user_attributes vs) ''custom:customerId'' = Some c \<and>
    map_of (user_attributes vs) ''custom:deployment_id'' = Some d \<and> pr_state rc = user_state user \<and>
    pr_provider_user_reference rc = adapter_reference [pool, key, pr_subject rc] \<and>
    pr_provider_principal_key rc = key \<and> pr_principal_locator_digest rc = digest \<and>
    (\<forall>s. expected = Some s \<longrightarrow> pr_state rc = s)"
  using assms by (auto simp: user_receipt_def split: pyval.splits option.splits if_splits)

text \<open>The account a reading must have shown: the member's, of its owner.\<close>

definition bound_account :: "string \<Rightarrow> provider_identity \<Rightarrow> pyval \<Rightarrow> bool" where
  "bound_account pool p v \<longleftrightarrow> (case v of
       PDict user \<Rightarrow> (case user_attribute_list user of
           Some vs \<Rightarrow> py_eq (py_get user ''Username'') (PStr (pi_provider_principal_key p))
             \<and> map_of (user_attributes vs) ''sub'' = Some (pi_subject p)
             \<and> map_of (user_attributes vs) ''custom:customerId'' = Some (pi_customer_id p)
             \<and> map_of (user_attributes vs) ''custom:deployment_id'' = Some (pi_deployment_id p)
             \<and> adapter_reference [pool, pi_provider_principal_key p, pi_subject p] = pi_provider_user_reference p
         | None \<Rightarrow> False)
     | _ \<Rightarrow> False)"

lemma provider_get_Inr:
  assumes "provider_get cg key w = (Inr v, w')"
  shows "cg_get cg key w = (Inr v, w')"
proof -
  obtain x w1 where got: "cg_get cg key w = (x, w1)" by fastforce
  with assms show ?thesis
    by (cases x) (auto simp: provider_get_def bind_def raise_def ret_def split: pyval.splits)
qed

lemma read_bound_Inr:
  assumes "provider_read_bound cg p expected w = (Inr rc, w')"
  shows "\<exists>v. cg_get cg (pi_provider_principal_key p) w = (Inr v, w') \<and> bound_account (cg_pool cg) p v \<and>
    subject_pattern (pi_provider_principal_key p) \<and>
    rc = \<lparr>pr_subject = pi_subject p, pr_provider_user_reference = pi_provider_user_reference p,
      pr_provider_principal_key = pi_provider_principal_key p, pr_principal_locator_digest = zero_digest,
      pr_state = pr_state rc\<rparr> \<and> (\<forall>s. expected = Some s \<longrightarrow> pr_state rc = s)"
proof -
  from assms obtain v where pat: "subject_pattern (pi_provider_principal_key p)"
    and get: "provider_get cg (pi_provider_principal_key p) w = (Inr v, w')"
    and rc: "user_receipt (cg_pool cg) v (pi_provider_principal_key p) zero_digest (pi_customer_id p)
        (pi_deployment_id p) expected = Inr rc"
      "pr_provider_user_reference rc = pi_provider_user_reference p" "pr_subject rc = pi_subject p"
    by (auto simp: provider_read_bound_def bind_Inr request_key_def split: if_splits)
  have "cg_get cg (pi_provider_principal_key p) w = (Inr v, w')"
    by (rule provider_get_Inr [OF get])
  with user_receipt_Inr [OF rc(1)] rc(2,3) pat show ?thesis
    by (intro exI [of _ v]) (auto simp: bound_account_def)
qed

text \<open>A Cognito client that keeps a list of its calls, for the order of calls.\<close>

datatype account_call =
    GotUser string "exn + pyval"
  | CreatedUser string
  | ResentInvitation string
  | EnabledUser string
  | DisabledUser string
  | SignedOut string

definition noted :: "(exn + 'a \<Rightarrow> account_call) \<Rightarrow> ('w, 'a) io \<Rightarrow> ('w \<times> account_call list, 'a) io" where
  "noted f m = (\<lambda>(w, l). case m w of (r, w') \<Rightarrow> (r, (w', l @ [f r])))"

definition watched :: "'w cognito \<Rightarrow> ('w \<times> account_call list) cognito" where
  "watched cg =
     \<lparr>cg_create = (\<lambda>k attrs. noted (\<lambda>_. CreatedUser k) (cg_create cg k attrs)),
      cg_resend = (\<lambda>k. noted (\<lambda>_. ResentInvitation k) (cg_resend cg k)),
      cg_get = (\<lambda>k. noted (GotUser k) (cg_get cg k)),
      cg_enable = (\<lambda>k. noted (\<lambda>_. EnabledUser k) (cg_enable cg k)),
      cg_disable = (\<lambda>k. noted (\<lambda>_. DisabledUser k) (cg_disable cg k)),
      cg_sign_out = (\<lambda>k. noted (\<lambda>_. SignedOut k) (cg_sign_out cg k)), cg_pool = cg_pool cg\<rparr>"

text \<open>
  Every call that changes an account is on the account of the member, and comes right after a
  reading that showed it bound to the member and its owner.
\<close>

fun shows_account :: "string \<Rightarrow> provider_identity \<Rightarrow> account_call \<Rightarrow> bool" where
  "shows_account pool p (GotUser k r) =
     (k = pi_provider_principal_key p \<and> (case r of Inr v \<Rightarrow> bound_account pool p v | Inl e \<Rightarrow> False))"
| "shows_account pool p c = False"

fun changed_account :: "account_call \<Rightarrow> string option" where
  "changed_account (GotUser k r) = None"
| "changed_account (CreatedUser k) = Some k"
| "changed_account (ResentInvitation k) = Some k"
| "changed_account (EnabledUser k) = Some k"
| "changed_account (DisabledUser k) = Some k"
| "changed_account (SignedOut k) = Some k"

fun guarded :: "string \<Rightarrow> provider_identity \<Rightarrow> bool \<Rightarrow> account_call list \<Rightarrow> bool" where
  "guarded pool p shown [] = True"
| "guarded pool p shown (c # cs) = ((case changed_account c of
       Some k \<Rightarrow> shown \<and> k = pi_provider_principal_key p | None \<Rightarrow> True)
     \<and> guarded pool p (shows_account pool p c) cs)"

lemma noted_run: "noted f m (w, l) = (r, (w', l')) \<longleftrightarrow> m w = (r, w') \<and> l' = l @ [f r]"
  by (auto simp: noted_def split: prod.splits)

lemma watched_read_bound:
  assumes "provider_read_bound (watched cg) p expected (w, l) = (r, (w', l'))"
  shows "(l' = l \<and> (\<exists>e. r = Inl e)) \<or>
    (\<exists>x. l' = l @ [GotUser (pi_provider_principal_key p) x] \<and>
      ((\<exists>rc. r = Inr rc) \<longrightarrow> shows_account (cg_pool cg) p (GotUser (pi_provider_principal_key p) x)))"
proof (cases "subject_pattern (pi_provider_principal_key p)")
  case False
  with assms show ?thesis by (auto simp: provider_read_bound_def request_key_def bind_def lift_def)
next
  case True
  obtain x w1 where got: "cg_get cg (pi_provider_principal_key p) w = (x, w1)" by fastforce
  have end_of: "l' = l @ [GotUser (pi_provider_principal_key p) x]"
    using assms True got
    by (auto simp: provider_read_bound_def provider_get_def request_key_def watched_def noted_def bind_def lift_def
        ensure_def ret_def raise_def split: sum.splits pyval.splits if_splits)
  have "shows_account (cg_pool cg) p (GotUser (pi_provider_principal_key p) x)" if "r = Inr rc" for rc
    using read_bound_Inr [OF assms [unfolded that]] got by (auto simp: watched_def noted_run)
  with end_of show ?thesis by blast
qed

lemma guarded_append:
  "guarded pool p shown (cs @ [c]) \<longleftrightarrow> guarded pool p shown cs \<and>
    (case changed_account c of
       Some k \<Rightarrow> (if cs = [] then shown else shows_account pool p (last cs)) \<and> k = pi_provider_principal_key p
     | None \<Rightarrow> True)"
  by (induction cs arbitrary: shown) (auto split: option.splits)

text \<open>A reading of the account, one call that changes it, and what follows.\<close>

lemma guarded_change:
  assumes run: "bind (lift (request_key p)) (\<lambda>key. bind (provider_read_bound (watched cg) p expected) (\<lambda>_.
       bind (noted (\<lambda>_. c key) (m key)) (\<lambda>_. after key))) (w, []) = (r, (w', es))"
    and c: "\<And>key. changed_account (c key) = Some key"
    and after: "\<And>key w l r w' l'. after key (w, l) = (r, (w', l')) \<Longrightarrow> l' = l \<or> (\<exists>k x. l' = l @ [GotUser k x])"
  shows "guarded (cg_pool cg) p False es"
proof (cases "subject_pattern (pi_provider_principal_key p)")
  case False
  with run show ?thesis by (auto simp: request_key_def bind_def lift_def)
next
  case True
  let ?k = "pi_provider_principal_key p"
  obtain x w1 l1 where first: "provider_read_bound (watched cg) p expected (w, []) = (x, (w1, l1))"
    by (metis prod.collapse)
  from watched_read_bound [OF first] consider (silent) e where "l1 = []" "x = Inl e"
    | (read) y where "l1 = [GotUser ?k y]" "(\<exists>rc. x = Inr rc) \<longrightarrow> shows_account (cg_pool cg) p (GotUser ?k y)"
    by auto
  then show ?thesis
  proof cases
    case silent
    with run True first show ?thesis by (auto simp: request_key_def bind_def lift_def)
  next
    case (read y)
    show ?thesis
    proof (cases x)
      case (Inl e)
      with run True first read(1) show ?thesis
        by (auto simp: request_key_def bind_def lift_def)
    next
      case (Inr rc)
      obtain z w2 where change: "m ?k w1 = (z, w2)" by fastforce
      have shown: "guarded (cg_pool cg) p False (l1 @ [c ?k])"
        using read Inr c [of ?k] by (simp add: guarded_append del: guarded.simps(2)) simp
      show ?thesis
      proof (cases z)
        case (Inl e)
        then have "es = l1 @ [c ?k]"
          using run True first Inr change
          by (auto simp: request_key_def bind_def lift_def noted_def)
        with shown show ?thesis by simp
      next
        case z: (Inr u)
        then have "after ?k (w2, l1 @ [c ?k]) = (r, (w', es))"
          using run True first Inr change
          by (auto simp: request_key_def bind_def lift_def noted_def)
        then have "es = l1 @ [c ?k] \<or> (\<exists>k y. es = (l1 @ [c ?k]) @ [GotUser k y])"
          using after by blast
        then show ?thesis
          using shown guarded_append [of _ _ _ "l1 @ [c ?k]"] by (elim disjE exE) simp_all
      qed
    qed
  qed
qed

lemma watched_simps [simp]:
  "cg_resend (watched cg) = (\<lambda>k. noted (\<lambda>_. ResentInvitation k) (cg_resend cg k))"
  "cg_sign_out (watched cg) = (\<lambda>k. noted (\<lambda>_. SignedOut k) (cg_sign_out cg k))"
  "cg_pool (watched cg) = cg_pool cg"
  by (simp_all add: watched_def)

lemma watched_if:
  "(if b then cg_enable (watched cg) k else cg_disable (watched cg) k) =
     noted (\<lambda>_. if b then EnabledUser k else DisabledUser k) (if b then cg_enable cg k else cg_disable cg k)"
  by (cases b) (simp_all add: watched_def)

lemma watched_read_bound_end:
  "provider_read_bound (watched cg) p expected (w, l) = (r, (w', l')) \<Longrightarrow> l' = l \<or> (\<exists>k x. l' = l @ [GotUser k x])"
  using watched_read_bound [of cg p expected w l r w' l'] by auto

text \<open>
  (C24) Whatever the identity provider answers: an invitation is resent, an account enabled or
  disabled, and its sessions revoked only right after a reading that showed the account with
  the key of the member to be the member's (its subject and its reference) and bound to the member's customer and
  deployment; no other account is ever changed.
\<close>

theorem account_changes_guarded:
  assumes "provider_resend (watched cg) p (w, []) = (r1, (w1, resent))"
    and "provider_set_enabled (watched cg) p enabled (w, []) = (r2, (w2, switched))"
    and "provider_revoke_sessions (watched cg) p (w, []) = (r3, (w3, revoked))"
  shows "guarded (cg_pool cg) p False resent \<and> guarded (cg_pool cg) p False switched \<and>
    guarded (cg_pool cg) p False revoked"
proof (intro conjI)
  show "guarded (cg_pool cg) p False resent"
    by (rule guarded_change [OF assms(1) [unfolded provider_resend_def watched_simps]])
      (simp, erule watched_read_bound_end)
  show "guarded (cg_pool cg) p False switched"
    by (rule guarded_change [OF assms(2) [unfolded provider_set_enabled_def watched_if]])
      (simp, erule watched_read_bound_end)
  show "guarded (cg_pool cg) p False revoked"
    by (rule guarded_change [OF assms(3) [unfolded provider_revoke_sessions_def watched_simps]])
      (simp_all add: ret_def)
qed

text \<open>The receipts of the adapter are the ones the service accepts.\<close>

lemma adapter_reference_pattern: "opaque_reference_pattern (adapter_reference vs)"
  using reference_of_pattern [of vs] by (simp add: adapter_reference_def reference_of_def)

lemma hex_subject:
  assumes "list_all is_lower_hex s" "length s \<le> 250"
  shows "subject_pattern (''usr-'' @ s)"
proof -
  have "is_alnum c" if "is_lower_hex c" for c using that by (auto simp: char_class_defs)
  with assms show ?thesis by (auto simp: pattern_simps list_all_iff char_class_defs code_def)
qed

lemma provider_key_pattern:
  assumes "digest_pattern d"
  shows "subject_pattern (provider_key_of d)"
proof -
  from assms obtain h where h: "d = ''sha256:'' @ h" "list_all is_lower_hex h" "length h = 64"
    unfolding digest_pattern_def by (elim match_prefixedE) auto
  then have "after_colon d = h" by (simp add: after_colon_def)
  with h show ?thesis
    unfolding provider_key_of_def
    by (intro hex_subject) (auto simp: list_all_iff dest: in_set_takeD)
qed

lemma digest_ascii: "digest_pattern d \<Longrightarrow> is_ascii d"
  unfolding digest_pattern_def is_ascii_def
  by (elim match_prefixedE) (auto simp: list_all_iff char_class_defs code_def)

lemma zero_digest_pattern: "digest_pattern zero_digest"
  unfolding digest_pattern_def zero_digest_def
  by (rule match_prefixedI) (simp_all add: list_all_iff char_class_defs code_def)

lemma user_receipt_subject:
  "user_receipt pool v key digest c d expected = Inr rc \<Longrightarrow> subject_pattern (pr_subject rc)"
  by (auto simp: user_receipt_def split: pyval.splits option.splits if_splits)

text \<open>
  What the Cognito adapter returns as a receipt passes the checks of the service: for a new or a
  found account with the digest that was asked for, and for a member's account in the
  expected state with the subject and the reference that the membership has.
\<close>

theorem receipts_fit:
  assumes "provider_invite cg q w = (Inr rc, w')" "digest_pattern (iq_principal_locator_digest q)"
    and "provider_read_bound cg p (Some state) w2 = (Inr rc2, w2')"
  shows "validate_provider_receipt (Inst rc) ''invited'' (Some (iq_principal_locator_digest q)) None None = Inr rc \<and>
    validate_provider_receipt (Inst rc2) state None (Some (pi_subject p)) (Some (pi_provider_user_reference p)) = Inr rc2"
proof
  obtain resp where rc: "user_receipt (cg_pool cg) (response_get resp ''User'')
      (provider_key_of (iq_principal_locator_digest q)) (iq_principal_locator_digest q) (iq_customer_id q)
      (iq_deployment_id q) (Some ''invited'') = Inr rc"
    using assms(1) by (auto simp: provider_invite_def Let_def bind_Inr)
  from user_receipt_Inr [OF rc] user_receipt_subject [OF rc] provider_key_pattern [OF assms(2)] assms(2)
  show "validate_provider_receipt (Inst rc) ''invited'' (Some (iq_principal_locator_digest q)) None None = Inr rc"
    by (auto simp: validate_provider_receipt_def receipt_checks_def demand_def adapter_reference_pattern
        compare_digest_def digest_ascii)
  obtain v where rc2: "user_receipt (cg_pool cg) v (pi_provider_principal_key p) zero_digest (pi_customer_id p)
      (pi_deployment_id p) (Some state) = Inr rc2"
      "pr_subject rc2 = pi_subject p" "pr_provider_user_reference rc2 = pi_provider_user_reference p"
      "subject_pattern (pi_provider_principal_key p)"
    using assms(3) by (auto simp: provider_read_bound_def bind_Inr request_key_def split: if_splits)
  from user_receipt_Inr [OF rc2(1)] user_receipt_subject [OF rc2(1)] rc2(2-4) zero_digest_pattern
  have checks: "subject_pattern (pr_subject rc2) \<and> opaque_reference_pattern (pr_provider_user_reference rc2) \<and>
      subject_pattern (pr_provider_principal_key rc2) \<and> digest_pattern (pr_principal_locator_digest rc2) \<and>
      pr_state rc2 = state"
    using adapter_reference_pattern by auto
  then show "validate_provider_receipt (Inst rc2) state None (Some (pi_subject p))
      (Some (pi_provider_user_reference p)) = Inr rc2"
    using rc2(2,3) by (simp add: validate_provider_receipt_def receipt_checks_def demand_def)
qed

end
