(* ===== verification/LifecycleSystem.thy ===== *)
theory LifecycleSystem
  imports LifecycleProofs ListingProofs AdapterProofs
begin

text \<open>
  The service on its adapters: \<open>compose_enterprise_lifecycle_runtime\<close>, and what holds of the whole.
  A predicate on the world that every port keeps is kept by the operations of the service
  (locale \<open>kept_world\<close>); with the claims in the table as the predicate, a resent invitation
  reaches the identity provider at most once for a membership and version, however often and
  under whatever idempotency keys it is requested.
\<close>

section \<open>Composition\<close>

definition inst :: "('w, 'a) io \<Rightarrow> ('w, 'a pyref) io" where
  "inst m = bind m (\<lambda>x. ret (Inst x))"

definition compose_lifecycle_runtime ::
  "'w dynamo \<Rightarrow> 'w dynamo \<Rightarrow> 'w cognito \<Rightarrow> owner \<Rightarrow> 'w lifecycle_runtime" where
  "compose_lifecycle_runtime dy da cg own =
     \<lparr>rt_reserve_operation = (\<lambda>cm. inst (store_reserve_operation dy cm)),
      rt_reserve_provider_effect = (\<lambda>x. bind (store_reserve_provider_effect dy x) (\<lambda>(y, here).
         ret (Inst \<lparr>eo_reservation = Inst y, eo_applied_here = here\<rparr>))),
      rt_checkpoint_operation = (\<lambda>r s s' ev. bind (store_checkpoint_operation dy r s s' ev) (\<lambda>(u, here).
         ret (Inst \<lparr>co_record = Inst u, co_applied_here = here\<rparr>))),
      rt_list_memberships = (\<lambda>owner state cursor limit.
         bind (store_list_memberships dy (fst owner) (snd owner) state cursor limit) (\<lambda>(rs, c).
         ret (Inst \<lparr>mp_items = map Inst rs, mp_next_cursor = c\<rparr>))),
      rt_load_membership = (\<lambda>owner ref. bind (store_load_membership dy (fst owner) (snd owner) ref) (\<lambda>v.
         ret (case v of Some m \<Rightarrow> Inst m | None \<Rightarrow> NoneRef))),
      rt_create_invited_membership = (\<lambda>owner p role t ref.
         inst (store_create_invited_membership dy (fst owner) (snd owner) p role t ref)),
      rt_transition_membership = (\<lambda>q. inst (store_transition_membership dy q)),
      rt_refresh_invitation = (\<lambda>m n t ref. inst (store_refresh_invitation dy m n t ref)),
      rt_invite_user = (\<lambda>q. inst (provider_invite cg q)),
      rt_resend_invitation = (\<lambda>p. inst (provider_resend cg p)),
      rt_confirm_activation = (\<lambda>p. inst (provider_confirm cg p)),
      rt_set_user_enabled = (\<lambda>p enabled. inst (provider_set_enabled cg p enabled)),
      rt_revoke_sessions = (\<lambda>p. bind (provider_revoke_sessions cg p) (\<lambda>ref. ret (PStr ref))),
      rt_resolve_approval = (\<lambda>q. inst (approval_resolve dy q)),
      rt_emit_audit = (\<lambda>e. inst (audit_emit da own e)),
      rt_clock = inst (adapter_now dy),
      rt_list_events = Some (\<lambda>owner cursor limit. bind (audit_list_events da own owner cursor limit) (\<lambda>(es, c).
         ret (Inst \<lparr>lp_items = map Inst es, lp_next_cursor = c\<rparr>)))\<rparr>"

section \<open>What the ports keep, the service keeps\<close>

definition kept :: "('w \<Rightarrow> bool) \<Rightarrow> ('w \<Rightarrow> ('e + 'a) \<times> 'w) \<Rightarrow> bool" where
  "kept I m \<longleftrightarrow> (\<forall>w r w'. m w = (r, w') \<longrightarrow> I w \<longrightarrow> I w')"

named_theorems kept_rules \<open>computations that keep a predicate\<close>

lemma keptD: "kept I m \<Longrightarrow> m w = (r, w') \<Longrightarrow> I w \<Longrightarrow> I w'"
  by (simp add: kept_def)

lemma kept_ret [kept_rules]: "kept I (ret x)"
  by (simp add: kept_def ret_def)

lemma kept_raise [kept_rules]: "kept I (raise e)"
  by (simp add: kept_def raise_def)

lemma kept_lift [kept_rules]: "kept I (lift r)"
  by (simp add: kept_def lift_def)

lemma kept_ensure [kept_rules]: "kept I (ensure b e)"
  by (simp add: ensure_def kept_ret kept_raise)

lemma kept_bind [kept_rules]:
  assumes "kept I m" "\<And>x. kept I (k x)"
  shows "kept I (bind m k)"
  unfolding kept_def
proof (intro allI impI)
  fix w r w' assume b: "bind m k w = (r, w')" and "I w"
  obtain x w1 where m: "m w = (x, w1)" by fastforce
  have "I w1" by (rule keptD [OF assms(1) m \<open>I w\<close>])
  with b m assms(2) show "I w'" by (cases x) (auto simp: bind_def dest: keptD)
qed

lemma kept_catch [kept_rules]:
  assumes "kept I m" "\<And>e. kept I (h e)"
  shows "kept I (catch m h)"
  unfolding kept_def
proof (intro allI impI)
  fix w r w' assume b: "catch m h w = (r, w')" and "I w"
  obtain x w1 where m: "m w = (x, w1)" by fastforce
  have "I w1" by (rule keptD [OF assms(1) m \<open>I w\<close>])
  with b m assms(2) show "I w'" by (cases x) (auto simp: catch_def dest: keptD)
qed

lemma kept_if [kept_rules]: "(b \<Longrightarrow> kept I m) \<Longrightarrow> (\<not> b \<Longrightarrow> kept I m') \<Longrightarrow> kept I (if b then m else m')"
  by simp

lemma kept_option [kept_rules]:
  "(v = None \<Longrightarrow> kept I m) \<Longrightarrow> (\<And>x. v = Some x \<Longrightarrow> kept I (f x)) \<Longrightarrow>
     kept I (case v of None \<Rightarrow> m | Some x \<Rightarrow> f x)"
  by (cases v) simp_all

lemma kept_pyref [kept_rules]:
  "(v = NoneRef \<Longrightarrow> kept I a) \<Longrightarrow> (\<And>x. v = Inst x \<Longrightarrow> kept I (f x)) \<Longrightarrow> (v = Foreign \<Longrightarrow> kept I b) \<Longrightarrow>
     kept I (case v of NoneRef \<Rightarrow> a | Inst x \<Rightarrow> f x | Foreign \<Rightarrow> b)"
  by (cases v) simp_all

lemma kept_prod [kept_rules]: "(\<And>x y. p = (x, y) \<Longrightarrow> kept I (f x y)) \<Longrightarrow> kept I (case p of (x, y) \<Rightarrow> f x y)"
  by (cases p) simp

lemma kept_inst [kept_rules]: "kept I m \<Longrightarrow> kept I (inst m)"
  unfolding inst_def by (intro kept_rules)

locale kept_world =
  fixes rt :: "'w lifecycle_runtime" and I :: "'w \<Rightarrow> bool"
  assumes reserve_operation_kept [kept_rules]: "kept I (rt_reserve_operation rt cm)"
    and reserve_effect_kept [kept_rules]: "kept I (rt_reserve_provider_effect rt x)"
    and checkpoint_kept [kept_rules]: "kept I (rt_checkpoint_operation rt r s s' ev)"
    and list_kept [kept_rules]: "kept I (rt_list_memberships rt own st c n)"
    and load_kept [kept_rules]: "kept I (rt_load_membership rt own ref)"
    and create_kept [kept_rules]: "kept I (rt_create_invited_membership rt own p role t ref)"
    and transition_kept [kept_rules]: "kept I (rt_transition_membership rt q)"
    and refresh_kept [kept_rules]: "kept I (rt_refresh_invitation rt m k t ref)"
    and invite_kept [kept_rules]: "kept I (rt_invite_user rt iq)"
    and resend_kept [kept_rules]: "kept I (rt_resend_invitation rt who)"
    and confirm_kept [kept_rules]: "kept I (rt_confirm_activation rt who)"
    and enable_kept [kept_rules]: "kept I (rt_set_user_enabled rt who b)"
    and sign_out_kept [kept_rules]: "kept I (rt_revoke_sessions rt who)"
    and approval_kept [kept_rules]: "kept I (rt_resolve_approval rt aq)"
    and audit_kept [kept_rules]: "kept I (rt_emit_audit rt e)"
    and clock_kept [kept_rules]: "kept I (rt_clock rt)"
    and events_kept: "rt_list_events rt = Some f \<Longrightarrow> kept I (f own c n)"
begin

lemma service_now_kept [kept_rules]: "kept I (service_now rt)"
  unfolding service_now_def by (intro kept_rules)

lemma require_roles_kept [kept_rules]: "kept I (require_roles rt auth roles privileged)"
  unfolding require_roles_def by (intro kept_rules)

lemma require_admin_kept [kept_rules]: "kept I (require_admin rt auth privileged)"
  unfolding require_admin_def by (intro kept_rules)

lemma load_owned_kept [kept_rules]: "kept I (load_owned rt own ref)"
  unfolding load_owned_def by (intro kept_rules)

lemma reserve_kept [kept_rules]: "kept I (reserve rt cm)"
  unfolding reserve_def by (intro kept_rules)

lemma checkpoint_outcome_kept [kept_rules]: "kept I (service_checkpoint_outcome rt r s s' ev)"
  unfolding service_checkpoint_outcome_def by (intro kept_rules)

lemma service_checkpoint_kept [kept_rules]: "kept I (service_checkpoint rt r s s' ev)"
  unfolding service_checkpoint_def by (intro kept_rules)

lemma service_reserve_effect_kept [kept_rules]: "kept I (service_reserve_effect rt x)"
  unfolding service_reserve_effect_def by (intro kept_rules)

lemma resolve_approval_kept [kept_rules]: "kept I (resolve_approval rt ref op target digest actor subject own)"
  unfolding resolve_approval_def Let_def by (intro kept_rules)

lemma audit_and_complete_kept [kept_rules]: "kept I (audit_and_complete rt r auth)"
  unfolding audit_and_complete_def audit_step_def by (intro kept_rules)

lemma resend_validate_kept [kept_rules]: "kept I (resend_validate rt auth own ref req r)"
  unfolding resend_validate_def by (intro kept_rules)

lemma resend_claim_kept [kept_rules]: "kept I (resend_claim rt ref req r)"
  unfolding resend_claim_def by (intro kept_rules)

lemma resend_effect_kept [kept_rules]: "kept I (resend_effect rt own key r here)"
  unfolding resend_effect_def by (intro kept_rules)

lemma resend_membership_kept [kept_rules]: "kept I (resend_membership rt own r)"
  unfolding resend_membership_def by (intro kept_rules)

lemma resend_resume_kept [kept_rules]: "kept I (resend_resume rt auth own ref req key r)"
  unfolding resend_resume_def by (intro kept_rules)

lemma resend_invitation_kept [kept_rules]: "kept I (resend_invitation rt auth ref req key)"
  unfolding resend_invitation_def by (intro kept_rules)

lemma invite_validate_kept [kept_rules]: "kept I (invite_validate rt auth own req r)"
  unfolding invite_validate_def Let_def by (intro kept_rules)

lemma invite_provider_kept [kept_rules]: "kept I (invite_provider rt own req key r)"
  unfolding invite_provider_def Let_def by (intro kept_rules)

lemma invite_membership_kept [kept_rules]: "kept I (invite_membership rt own r)"
  unfolding invite_membership_def by (intro kept_rules)

lemma invite_user_kept [kept_rules]: "kept I (invite_user rt auth req key)"
  unfolding invite_user_def invite_resume_def by (intro kept_rules)

lemma invitation_open_kept [kept_rules]: "kept I (invitation_open rt op m)"
  unfolding invitation_open_def by (intro kept_rules)

lemma require_last_admin_safe_kept [kept_rules]: "kept I (require_last_admin_safe rt own m st role ref)"
  unfolding require_last_admin_safe_def by (intro kept_rules)

lemma transition_validate_kept [kept_rules]: "kept I (transition_validate rt auth own ref req op next_role r)"
  unfolding transition_validate_def by (intro kept_rules)

lemma provider_call_kept [kept_rules]: "kept I (provider_call rt op who)"
  unfolding provider_call_def by (intro kept_rules)

lemma apply_provider_effect_kept [kept_rules]: "kept I (apply_provider_effect rt r op own key expected)"
  unfolding apply_provider_effect_def by (intro kept_rules)

lemma recorded_replacement_kept [kept_rules]: "kept I (recorded_replacement rt r own)"
  unfolding recorded_replacement_def Let_def by (intro kept_rules)

lemma write_transition_kept [kept_rules]: "kept I (write_transition rt r current n st role p)"
  unfolding write_transition_def by (intro kept_rules)

lemma apply_membership_effect_kept [kept_rules]: "kept I (apply_membership_effect rt r own expected)"
  unfolding apply_membership_effect_def by (intro kept_rules)

lemma session_step_kept [kept_rules]: "kept I (session_step rt op own key r)"
  unfolding session_step_def by (intro kept_rules)

lemma transition_effects_kept [kept_rules]: "kept I (transition_effects rt op own key r)"
  unfolding transition_effects_def by (intro kept_rules)

lemma transition_kept_whole [kept_rules]: "kept I (transition rt auth ref req op key next_role)"
  unfolding transition_def transition_resume_def by (intro kept_rules)

lemma service_list_memberships_kept [kept_rules]: "kept I (service_list_memberships rt auth st c n)"
  unfolding service_list_memberships_def by (intro kept_rules)

end

section \<open>A deployment\<close>

text \<open>
  The membership table with its laws, an audit table and an identity provider, of which only is
  asked that they are other services: their calls do not touch the membership table.
\<close>

locale deployment = conditional_table dy view for dy :: "'w dynamo" and view :: "'w \<Rightarrow> memory" +
  fixes da :: "'w dynamo" and cg :: "'w cognito"
  assumes audit_put_apart: "dy_put_item da d ts w = (r, w') \<Longrightarrow> view w' = view w"
    and audit_get_apart: "dy_get_item da k w = (g, w') \<Longrightarrow> view w' = view w"
    and audit_query_apart: "dy_query da q w = (g, w') \<Longrightarrow> view w' = view w"
    and audit_clock_apart: "dy_clock da w = (t, w') \<Longrightarrow> view w' = view w"
    and create_apart: "cg_create cg key attrs w = (g, w') \<Longrightarrow> view w' = view w"
    and resend_apart: "cg_resend cg key w = (r, w') \<Longrightarrow> view w' = view w"
    and get_apart: "cg_get cg key w = (g, w') \<Longrightarrow> view w' = view w"
    and enable_apart: "cg_enable cg key w = (r, w') \<Longrightarrow> view w' = view w"
    and disable_apart: "cg_disable cg key w = (r, w') \<Longrightarrow> view w' = view w"
    and sign_out_apart: "cg_sign_out cg key w = (r, w') \<Longrightarrow> view w' = view w"

text \<open>What the operations of the store, and writes elsewhere, can make of a table.\<close>

inductive store_steps :: "memory \<Rightarrow> memory \<Rightarrow> bool" for m0 where
  store_start: "store_steps m0 m0"
| store_call: "store_steps m0 m \<Longrightarrow> is_aware now \<Longrightarrow> call_request c now = Some rq \<Longrightarrow> request_allowed m rq \<Longrightarrow>
    store_steps m0 (request_written m rq)"
| store_elsewhere: "store_steps m0 m \<Longrightarrow> (\<And>c d. pk \<noteq> operation_pk c d) \<Longrightarrow> store_steps m0 (m((pk, sk) := i))"

context deployment
begin

lemma keeps_catch: "keeps m \<Longrightarrow> (\<And>e. keeps (h e)) \<Longrightarrow> keeps (catch m h)"
  unfolding keeps_def catch_def by (fastforce split: prod.splits sum.splits)

lemma keeps_now: "keeps (adapter_now dy)" "keeps (adapter_now da)"
  using clock_law audit_clock_apart by (auto simp: keeps_def adapter_now_run)

lemma keeps_or_refused: "keeps call \<Longrightarrow> keeps after \<Longrightarrow> keeps (or_refused codes call ok after)"
  unfolding keeps_def or_refused_def by (fastforce split: prod.splits sum.splits option.splits if_splits)

lemma keeps_clients:
  "keeps (dy_query dy q)" "keeps (dy_put_item da d ts)" "keeps (dy_get_item da k)" "keeps (dy_query da q)"
  "keeps (cg_create cg key attrs)" "keeps (cg_resend cg key)" "keeps (cg_get cg key)" "keeps (cg_enable cg key)"
  "keeps (cg_disable cg key)" "keeps (cg_sign_out cg key)"
  using query_law audit_put_apart audit_get_apart audit_query_apart create_apart resend_apart get_apart
    enable_apart disable_apart sign_out_apart
  by (auto simp: keeps_def)

lemma keeps_prod: "(\<And>x y. p = (x, y) \<Longrightarrow> keeps (f x y)) \<Longrightarrow> keeps (case p of (x, y) \<Rightarrow> f x y)"
  by (cases p) simp

lemma keeps_list: "(v = [] \<Longrightarrow> keeps m) \<Longrightarrow> (\<And>x xs. v = x # xs \<Longrightarrow> keeps (f x xs)) \<Longrightarrow>
    keeps (case v of [] \<Rightarrow> m | x # xs \<Rightarrow> f x xs)"
  by (cases v) simp_all

lemma keeps_pyref: "keeps a \<Longrightarrow> (\<And>x. v = Inst x \<Longrightarrow> keeps (f x)) \<Longrightarrow> keeps b \<Longrightarrow>
    keeps (case v of NoneRef \<Rightarrow> a | Inst x \<Rightarrow> f x | Foreign \<Rightarrow> b)"
  by (cases v) simp_all

lemmas keeps_all = keeps_rules keeps_catch keeps_now keeps_or_refused keeps_clients keeps_prod keeps_list keeps_pyref

lemma keeps_provider_get: "keeps (provider_get cg key)"
  unfolding provider_get_def
  by (rule keeps_bind [OF keeps_clients(7)]) (auto split: pyval.split intro: keeps_rules)

lemma keeps_read_bound: "keeps (provider_read_bound cg p expected)"
  unfolding provider_read_bound_def by (intro keeps_all keeps_provider_get)

lemma keeps_adapters:
  "keeps (approval_resolve dy aq)" "keeps (audit_emit da own e)"
  "keeps (provider_invite cg iq)" "keeps (provider_confirm cg p)"
  "keeps (provider_resend cg p)" "keeps (provider_set_enabled cg p b)" "keeps (provider_revoke_sessions cg p)"
  "keeps (store_list_memberships dy c d st cur n)" "keeps (store_load_membership dy c d ref)"
  "keeps (audit_list_events da own o2 cur n)"
  unfolding approval_resolve_def audit_emit_def provider_invite_def provider_confirm_def provider_resend_def
    provider_set_enabled_def provider_revoke_sessions_def store_list_memberships_def store_load_membership_def
    audit_list_events_def on_error_code_def Let_def
  by (intro keeps_all keeps_provider_get keeps_read_bound)+

text \<open>Every port changes the membership table by one step of the store, or not at all.\<close>

definition stepwise :: "('w, 'a) io \<Rightarrow> bool" where
  "stepwise m \<longleftrightarrow> (\<forall>w r w'. m w = (r, w') \<longrightarrow> store_steps (view w) (view w'))"

lemma keeps_stepwise: "keeps m \<Longrightarrow> stepwise m"
  unfolding keeps_def stepwise_def by (metis store_start)

lemma run_call_stepwise: "stepwise (run_call dy c)"
  using writes_call [of c] unfolding writes_def stepwise_def
  by (metis store_start store_call)

lemma stepwise_call:
  assumes "run_call dy c = bind m (\<lambda>_. ret ())"
  shows "stepwise m"
  unfolding stepwise_def
proof (intro allI impI)
  fix w r w' assume "m w = (r, w')"
  then have "\<exists>r'. run_call dy c w = (r', w')" by (cases r) (simp_all add: assms bind_def ret_def)
  then show "store_steps (view w) (view w')" using run_call_stepwise [of c] unfolding stepwise_def by blast
qed

lemma stepwise_store:
  "stepwise (store_reserve_operation dy cm)" "stepwise (store_reserve_provider_effect dy x)"
  "stepwise (store_checkpoint_operation dy r s s' ev)"
  "stepwise (store_create_invited_membership dy c d p role t ref)"
  "stepwise (store_transition_membership dy q)" "stepwise (store_refresh_invitation dy m n t ref)"
  by (rule stepwise_call, rule run_call.simps)+

end

lemma store_steps_trans: "store_steps b c \<Longrightarrow> store_steps a b \<Longrightarrow> store_steps a c"
  by (induction rule: store_steps.induct) (auto intro: store_steps.intros)

lemma kept_steps:
  "(\<forall>w r w'. m w = (r, w') \<longrightarrow> store_steps (view w) (view w')) \<Longrightarrow> kept (\<lambda>w. store_steps m0 (view w)) m"
  unfolding kept_def using store_steps_trans by blast

sublocale deployment \<subseteq> stepping: kept_world "compose_lifecycle_runtime dy da cg own" "\<lambda>w. store_steps m0 (view w)"
  for own m0
proof -
  note port = stepwise_store [unfolded stepwise_def, THEN kept_steps]
    keeps_adapters [THEN keeps_stepwise, unfolded stepwise_def, THEN kept_steps]
    keeps_now [THEN keeps_stepwise, unfolded stepwise_def, THEN kept_steps]
  show "kept_world (compose_lifecycle_runtime dy da cg own) (\<lambda>w. store_steps m0 (view w))"
    by unfold_locales
      (simp_all add: compose_lifecycle_runtime_def,
       (intro kept_rules port)+, auto intro!: kept_rules port)
qed

section \<open>Claims\<close>

lemma put_claim:
  assumes "present m (effect_key x)" "allowed m (Put d unless_exists)"
  shows "written m (Put d unless_exists) (effect_key x) = m (effect_key x)"
  using assms by (auto simp: present_def allowed_def)

lemma call_claim:
  assumes "call_request c now = Some rq" "request_allowed m rq" "present m (effect_key x)"
  shows "request_written m rq (effect_key x) = m (effect_key x)"
proof (cases c)
  case (ReserveCall cm)
  with assms put_claim show ?thesis by (auto simp: request_written_def simp del: written.simps)
next
  case (EffectCall y)
  with assms put_claim show ?thesis by (auto simp: request_written_def simp del: written.simps)
next
  case (CheckpointCall r s s' ev)
  with assms(1) show ?thesis by (auto simp: request_written_def effect_key_def)
next
  case (CreateCall cu d p role t ref)
  with assms put_claim show ?thesis by (auto simp: request_written_def simp del: written.simps)
next
  case (TransitionCall q)
  with assms(1) show ?thesis
    by (auto simp: request_written_def effect_key_def transition_write_def member_key_def
        split: if_splits option.splits)
next
  case (RefreshCall r n t ref)
  with assms(1) show ?thesis
    by (auto simp: request_written_def effect_key_def member_key_def split: if_splits)
qed

lemma steps_claim:
  assumes "store_steps m m'" "present m (effect_key x)"
  shows "m' (effect_key x) = m (effect_key x) \<and> present m' (effect_key x)"
proof -
  from assms(1) have "m' (effect_key x) = m (effect_key x)"
  proof (induction rule: store_steps.induct)
    case (store_call m' now c rq)
    have "present m' (effect_key x)" using assms(2) store_call.IH by (simp add: present_def)
    from call_claim [OF store_call.hyps(3,4) this] store_call.IH show ?case by simp
  next
    case (store_elsewhere m' pk i sk)
    then show ?case by (auto simp: effect_key_def)
  qed simp
  with assms(2) show ?thesis by (simp add: present_def)
qed

text \<open>
  The claims that were there before, and those of the log: each is in the table, and no claim of
  the log is one that was there before.
\<close>

definition claims_kept :: "('w \<Rightarrow> memory) \<Rightarrow> effect_reservation set \<Rightarrow> 'w logging \<Rightarrow> bool" where
  "claims_kept view T s \<longleftrightarrow> (\<forall>x \<in> T. present (view (fst s)) (effect_key x)) \<and>
     (\<forall>x out. ReserveEffect x (Inr (Inst out)) \<in> set (snd s) \<longrightarrow> eo_applied_here out \<longrightarrow>
        effect_key x \<notin> effect_key ` T \<and> present (view (fst s)) (effect_key x))"

lemma claims_step:
  assumes "claims_kept view T (w, l)" "store_steps (view w) (view w')"
    and "\<And>x out. e = ReserveEffect x (Inr (Inst out)) \<Longrightarrow> eo_applied_here out \<Longrightarrow>
      effect_key x \<notin> effect_key ` T \<and> present (view w') (effect_key x)"
  shows "claims_kept view T (w', l @ [e])" and "claims_kept view T (w', l)"
  using assms steps_claim [OF assms(2)] by (auto simp: claims_kept_def)

lemma kept_unlogged:
  assumes "\<And>w r w'. m w = (r, w') \<Longrightarrow> store_steps (view w) (view w')"
  shows "kept (claims_kept view T) (unlogged m)"
  unfolding kept_def
proof (intro allI impI)
  fix s r s' assume run: "unlogged m s = (r, s')" and I: "claims_kept view T s"
  obtain w l where s: "s = (w, l)" by (cases s)
  obtain w' where m: "m w = (r, w')" and s': "s' = (w', l)"
    using run by (auto simp: s unlogged_def split: prod.splits)
  show "claims_kept view T s'"
    unfolding s' by (rule claims_step(2) [OF I [unfolded s] assms [OF m], where e = "WriteMembership undefined"]) simp
qed

lemma kept_recorded_claim:
  assumes "\<And>w r w'. m w = (r, w') \<Longrightarrow> store_steps (view w) (view w')"
    and "\<And>w r w' x out. m w = (r, w') \<Longrightarrow> f r = ReserveEffect x (Inr (Inst out)) \<Longrightarrow> eo_applied_here out \<Longrightarrow>
      \<not> present (view w) (effect_key x) \<and> present (view w') (effect_key x)"
  shows "kept (claims_kept view T) (recorded f m)"
  unfolding kept_def
proof (intro allI impI)
  fix s r s' assume run: "recorded f m s = (r, s')" and I: "claims_kept view T s"
  obtain w l where s: "s = (w, l)" by (cases s)
  obtain w' where m: "m w = (r, w')" and s': "s' = (w', l @ [f r])"
    using run by (auto simp: s recorded_def split: prod.splits)
  have new: "effect_key x \<notin> effect_key ` T \<and> present (view w') (effect_key x)"
    if "f r = ReserveEffect x (Inr (Inst out))" "eo_applied_here out" for x out
    using assms(2) [OF m that] I by (auto simp: claims_kept_def s)
  show "claims_kept view T s'"
    unfolding s' by (rule claims_step(1) [OF I [unfolded s] assms(1) [OF m] new])
qed

lemma kept_recorded:
  assumes "\<And>w r w'. m w = (r, w') \<Longrightarrow> store_steps (view w) (view w')" "\<And>r x v. f r \<noteq> ReserveEffect x v"
  shows "kept (claims_kept view T) (recorded f m)"
  by (rule kept_recorded_claim) (use assms in auto)

lemma kept_steps_run:
  assumes "\<And>m0. kept (\<lambda>w. store_steps m0 (view w)) m" "m w = (r, w')"
  shows "store_steps (view w) (view w')"
  by (rule keptD [OF assms store_start])

context deployment
begin

lemma claim_port:
  assumes "rt_reserve_provider_effect (compose_lifecycle_runtime dy da cg own) x w = (Inr (Inst out), w')"
    "eo_applied_here out"
  shows "\<not> present (view w) (effect_key x) \<and> present (view w') (effect_key x)"
proof -
  from assms obtain y where run: "store_reserve_provider_effect dy x w = (Inr (y, True), w')"
    by (auto simp: compose_lifecycle_runtime_def bind_Inr)
  from reserve_effect_run [OF this] obtain d where
    new: "\<not> present (view w) (effect_key x)" and d: "provider_effect_reservation_item x = Inr d"
    and w': "view w' = (view w)(effect_key x \<mapsto> stored_item d)" by auto
  have "carries_key (effect_key x) (stored_item d)" by (rule put_reservation [OF d])
  with w' have "present (view w') (effect_key x)"
    by (auto simp: present_def unless_exists_def carries_key_def simp del: map_of_stored_item)
  with new show ?thesis by simp
qed

end

sublocale deployment \<subseteq> claiming: kept_world "logged (compose_lifecycle_runtime dy da cg own)" "claims_kept view T"
  for own T
proof -
  note run = stepping.reserve_operation_kept [THEN kept_steps_run] stepping.checkpoint_kept [THEN kept_steps_run]
    stepping.list_kept [THEN kept_steps_run] stepping.load_kept [THEN kept_steps_run]
    stepping.create_kept [THEN kept_steps_run] stepping.transition_kept [THEN kept_steps_run]
    stepping.refresh_kept [THEN kept_steps_run] stepping.invite_kept [THEN kept_steps_run]
    stepping.resend_kept [THEN kept_steps_run] stepping.confirm_kept [THEN kept_steps_run]
    stepping.enable_kept [THEN kept_steps_run] stepping.sign_out_kept [THEN kept_steps_run]
    stepping.approval_kept [THEN kept_steps_run] stepping.audit_kept [THEN kept_steps_run]
    stepping.clock_kept [THEN kept_steps_run]
  show "kept_world (logged (compose_lifecycle_runtime dy da cg own)) (claims_kept view T)"
  proof unfold_locales
    fix x
    show "kept (claims_kept view T) (rt_reserve_provider_effect (logged (compose_lifecycle_runtime dy da cg own)) x)"
      by (auto simp: logged_def intro!: kept_recorded_claim
          intro: kept_steps_run [OF stepping.reserve_effect_kept] dest: claim_port)
  next
    fix f o2 c n
    assume "rt_list_events (logged (compose_lifecycle_runtime dy da cg own)) = Some f"
    then obtain g where g: "rt_list_events (compose_lifecycle_runtime dy da cg own) = Some g"
      and f: "f o2 c n = unlogged (g o2 c n)" by (auto simp: logged_def)
    show "kept (claims_kept view T) (f o2 c n)"
      unfolding f by (rule kept_unlogged [OF kept_steps_run [OF stepping.events_kept [OF g]]])
  qed (simp_all add: logged_def, (rule kept_unlogged kept_recorded, erule run, simp?)+)
qed

context deployment
begin

lemmas claiming_resend = claiming.resend_invitation_kept

end

lemma won_claim_key:
  assumes "won_claim auth ref req e"
  shows "\<exists>x out. e = ReserveEffect x (Inr (Inst out)) \<and> eo_applied_here out \<and>
    effect_key x = (operation_pk (the (str_view (ac_customer_id auth))) (py_str (ac_deployment_id auth)),
       provider_effect_reservation_sk RESEND_INVITATION ref (tr_expected_membership_version req))"
  using assms unfolding won_claim_def effect_key_def by auto

text \<open>
  (C16) One notification per membership and version. On the deployed runtime, once a call of
  \<open>resend_invitation\<close> has reached the identity provider, no later call for the same member at the
  same version reaches it: not for another caller of the deployment, another idempotency key or
  another approval, and whatever the store, other services or programs did to the table
  in between.
\<close>

theorem resend_once:
  assumes site: "deployment dy view da cg"
    and first: "resend_invitation (logged (compose_lifecycle_runtime dy da cg own)) auth ref req key (w, [])
      = (r1, (w1, es1))"
    and between: "store_steps (view w1) (view w2)"
    and second: "resend_invitation (logged (compose_lifecycle_runtime dy da cg own)) auth' ref req' key' (w2, [])
      = (r2, (w3, es2))"
    and same: "ac_customer_id auth' = ac_customer_id auth" "ac_deployment_id auth' = ac_deployment_id auth"
      "tr_expected_membership_version req' = tr_expected_membership_version req"
  shows "\<not> (\<exists>p p'. ProviderResend p \<in> set es1 \<and> ProviderResend p' \<in> set es2)"
proof
  assume "\<exists>p p'. ProviderResend p \<in> set es1 \<and> ProviderResend p' \<in> set es2"
  then obtain p p' where reached: "ProviderResend p \<in> set es1" and again: "ProviderResend p' \<in> set es2" by blast
  have kept: "kept (claims_kept view T) (resend_invitation (logged (compose_lifecycle_runtime dy da cg own)) a ref q k)"
    for T a q k
    by (rule deployment.claiming_resend [OF site])
  obtain x1 out1 where x1: "ReserveEffect x1 (Inr (Inst out1)) \<in> set es1" "eo_applied_here out1"
    and key1: "effect_key x1 = (operation_pk (the (str_view (ac_customer_id auth))) (py_str (ac_deployment_id auth)),
       provider_effect_reservation_sk RESEND_INVITATION ref (tr_expected_membership_version req))"
    using resend_quarantined [OF first] reached won_claim_key unfolding quarantined_def by metis
  obtain x2 out2 where x2: "ReserveEffect x2 (Inr (Inst out2)) \<in> set es2" "eo_applied_here out2"
    and key2: "effect_key x2 = effect_key x1"
    using resend_quarantined [OF second] again won_claim_key same key1 unfolding quarantined_def by metis
  have "claims_kept view {} (w1, es1)"
    by (rule keptD [OF kept first]) (simp add: claims_kept_def)
  with x1 have "present (view w1) (effect_key x1)" unfolding claims_kept_def by fastforce
  from steps_claim [OF between this] have "claims_kept view {x1} (w2, [])" by (simp add: claims_kept_def)
  from keptD [OF kept second this] have "claims_kept view {x1} (w3, es2)" .
  with x2 key2 show False unfolding claims_kept_def by fastforce
qed

section \<open>Services on the table\<close>

text \<open>Calls of the store of some kinds and nothing else, each a write that was allowed when it took place.\<close>

inductive store_calls :: "(store_call \<Rightarrow> bool) \<Rightarrow> memory \<Rightarrow> memory \<Rightarrow> bool" for ok m0 where
  no_call: "store_calls ok m0 m0"
| one_more: "store_calls ok m0 m \<Longrightarrow> ok c \<Longrightarrow> is_aware now \<Longrightarrow> call_request c now = Some rq \<Longrightarrow> request_allowed m rq \<Longrightarrow>
    store_calls ok m0 (request_written m rq)"

fun inviting_call :: "store_call \<Rightarrow> bool" where
  "inviting_call (ReserveCall cm) = True"
| "inviting_call (CheckpointCall r s s' ev) = True"
| "inviting_call (CreateCall c d p role t ref) = True"
| "inviting_call c = False"

fun resending_call :: "store_call \<Rightarrow> bool" where
  "resending_call (ReserveCall cm) = True"
| "resending_call (EffectCall x) = True"
| "resending_call (CheckpointCall r s s' ev) = True"
| "resending_call (RefreshCall m n t ref) = True"
| "resending_call c = False"

fun transiting_call :: "store_call \<Rightarrow> bool" where
  "transiting_call (ReserveCall cm) = True"
| "transiting_call (CheckpointCall r s s' ev) = True"
| "transiting_call (TransitionCall q) = True"
| "transiting_call c = False"

lemma store_calls_steps: "store_calls ok m0 m \<Longrightarrow> store_steps m0 m"
  by (induction rule: store_calls.induct) (auto intro: store_steps.intros)

text \<open>The runtime without the ports that some methods have no use for.\<close>

definition for_invitations :: "'w lifecycle_runtime \<Rightarrow> 'w lifecycle_runtime" where
  "for_invitations rt = rt\<lparr>rt_reserve_provider_effect := \<lambda>_. raise unavailable,
     rt_transition_membership := \<lambda>_. raise unavailable, rt_refresh_invitation := \<lambda>_ _ _ _. raise unavailable\<rparr>"

definition for_resends :: "'w lifecycle_runtime \<Rightarrow> 'w lifecycle_runtime" where
  "for_resends rt = rt\<lparr>rt_create_invited_membership := \<lambda>_ _ _ _ _. raise unavailable,
     rt_transition_membership := \<lambda>_. raise unavailable\<rparr>"

definition for_transitions :: "'w lifecycle_runtime \<Rightarrow> 'w lifecycle_runtime" where
  "for_transitions rt = rt\<lparr>rt_reserve_provider_effect := \<lambda>_. raise unavailable,
     rt_create_invited_membership := \<lambda>_ _ _ _ _. raise unavailable, rt_refresh_invitation := \<lambda>_ _ _ _. raise unavailable\<rparr>"

lemmas helper_defs = require_admin_def require_roles_def service_now_def load_owned_def reserve_def
  service_checkpoint_def service_checkpoint_outcome_def resolve_approval_def audit_and_complete_def audit_step_def

lemma invite_unused: "invite_user (for_invitations rt) = invite_user rt"
  by (intro ext) (simp add: for_invitations_def invite_user_def invite_resume_def invite_validate_def
      invite_provider_def invite_membership_def helper_defs
      cong del: if_weak_cong pyref.case_cong_weak option.case_cong_weak)

lemma resend_unused: "resend_invitation (for_resends rt) = resend_invitation rt"
  by (intro ext) (simp add: for_resends_def resend_invitation_def resend_resume_def resend_validate_def
      resend_claim_def resend_effect_def resend_membership_def service_reserve_effect_def helper_defs
      cong del: if_weak_cong pyref.case_cong_weak option.case_cong_weak)

lemma transition_unused: "transition (for_transitions rt) auth ref req = transition rt auth ref req"
  by (intro ext) (simp add: for_transitions_def transition_def transition_resume_def transition_validate_def
      invitation_open_def require_last_admin_safe_def transition_effects_def apply_provider_effect_def provider_call_def [abs_def]
      apply_membership_effect_def recorded_replacement_def write_transition_def [abs_def] session_step_def helper_defs
      cong del: if_weak_cong pyref.case_cong_weak option.case_cong_weak)

context deployment
begin

lemma calls_keeps: "keeps m \<Longrightarrow> kept (\<lambda>w. store_calls ok m0 (view w)) m"
  unfolding keeps_def kept_def by metis

lemma calls_port:
  assumes "run_call dy c = bind m (\<lambda>_. ret ())" "ok c"
  shows "kept (\<lambda>w. store_calls ok m0 (view w)) m"
  unfolding kept_def
proof (intro allI impI)
  fix w r w' assume "m w = (r, w')" and calls: "store_calls ok m0 (view w)"
  then have "\<exists>r'. run_call dy c w = (r', w')" by (cases r) (simp_all add: assms(1) bind_def ret_def)
  then show "store_calls ok m0 (view w')"
    using writes_call [of c] calls assms(2) unfolding writes_def by (metis one_more)
qed

lemmas calls_store =
  calls_port [OF run_call.simps(1)] calls_port [OF run_call.simps(2)] calls_port [OF run_call.simps(3)]
  calls_port [OF run_call.simps(4)] calls_port [OF run_call.simps(5)] calls_port [OF run_call.simps(6)]

lemmas calls_ports = calls_store keeps_adapters [THEN calls_keeps] keeps_now [THEN calls_keeps]

lemma keeps_listing: "keeps (service_list_memberships (compose_lifecycle_runtime dy da cg own) auth st cursor limit)"
proof -
  have list: "keeps (rt_list_memberships (compose_lifecycle_runtime dy da cg own) o1 st cursor n)" for o1 n
    unfolding compose_lifecycle_runtime_def lifecycle_runtime.simps
    by (intro keeps_bind keeps_adapters keeps_prod keeps_simps)
  have clock: "keeps (rt_clock (compose_lifecycle_runtime dy da cg own))"
    unfolding compose_lifecycle_runtime_def lifecycle_runtime.simps inst_def
    by (intro keeps_bind keeps_now keeps_simps)
  show ?thesis
    unfolding service_list_memberships_def require_admin_def require_roles_def service_now_def
    by (intro keeps_all list clock)
qed

end

sublocale deployment \<subseteq> inviting: kept_world "for_invitations (compose_lifecycle_runtime dy da cg own)"
  "\<lambda>w. store_calls inviting_call m0 (view w)" for own m0
  by unfold_locales
    (simp_all add: for_invitations_def compose_lifecycle_runtime_def,
     (intro kept_rules calls_ports; simp)+, auto intro!: kept_rules calls_ports)

sublocale deployment \<subseteq> resending: kept_world "for_resends (compose_lifecycle_runtime dy da cg own)"
  "\<lambda>w. store_calls resending_call m0 (view w)" for own m0
  by unfold_locales
    (simp_all add: for_resends_def compose_lifecycle_runtime_def,
     (intro kept_rules calls_ports; simp)+, auto intro!: kept_rules calls_ports)

sublocale deployment \<subseteq> transiting: kept_world "for_transitions (compose_lifecycle_runtime dy da cg own)"
  "\<lambda>w. store_calls transiting_call m0 (view w)" for own m0
  by unfold_locales
    (simp_all add: for_transitions_def compose_lifecycle_runtime_def,
     (intro kept_rules calls_ports; simp)+, auto intro!: kept_rules calls_ports)

context deployment
begin

lemma service_invites:
  "invite_user (compose_lifecycle_runtime dy da cg own) auth iq key w = (r, w') \<Longrightarrow>
    store_calls inviting_call (view w) (view w')"
  using keptD [OF inviting.invite_user_kept [unfolded invite_unused] _ no_call] .

lemma service_resends:
  "resend_invitation (compose_lifecycle_runtime dy da cg own) auth ref rq key w = (r, w') \<Longrightarrow>
    store_calls resending_call (view w) (view w')"
  using keptD [OF resending.resend_invitation_kept [unfolded resend_unused] _ no_call] .

lemma service_transits:
  "transition (compose_lifecycle_runtime dy da cg own) auth ref tq op key role w = (r, w') \<Longrightarrow>
    store_calls transiting_call (view w) (view w')"
  using keptD [OF transiting.transition_kept_whole [unfolded transition_unused] _ no_call] .

end

text \<open>
  (C22) The service changes the membership table only by operations of the store, each a single
  conditional write that was allowed when it took place, and nothing else in the table: an invitation by
  reservations, checkpoints and creations, a resend by reservations, claims, checkpoints and refreshes, every
  transition by reservations, checkpoints and transitions of the store, with their conditions on state, role, version and
  replacement; a listing changes nothing. This holds whether the method succeeds or fails.
\<close>

theorem service_refines_store:
  assumes site: "deployment dy view da cg"
    and "invite_user (compose_lifecycle_runtime dy da cg own) auth iq key w = (r1, w1)"
    and "resend_invitation (compose_lifecycle_runtime dy da cg own) auth ref rq key w = (r2, w2)"
    and "transition (compose_lifecycle_runtime dy da cg own) auth ref tq op key role w = (r3, w3)"
    and "service_list_memberships (compose_lifecycle_runtime dy da cg own) auth st cursor limit w = (r4, w4)"
  shows "store_calls inviting_call (view w) (view w1) \<and> store_calls resending_call (view w) (view w2) \<and>
    store_calls transiting_call (view w) (view w3) \<and> view w4 = view w"
proof -
  have "view w4 = view w"
    using deployment.keeps_listing [OF site] assms(5)
      conditional_table.keeps_def [OF deployment.axioms(1) [OF site]] by blast
  then show ?thesis
    using deployment.service_invites [OF site assms(2)] deployment.service_resends [OF site assms(3)]
      deployment.service_transits [OF site assms(4)] by simp
qed

section \<open>Listings\<close>

lemma require_admin_lengths:
  assumes "require_admin rt auth p w = (Inr owner, w')"
  shows "length (fst owner) = 31 \<and> length (snd owner) = 30"
proof -
  from assms obtain now where owner: "owner = owner_of auth" and ok: "role_checks auth [CUSTOMER_ADMIN] p now = Inr ()"
    by (auto simp: require_admin_def require_roles_def bind_Inr)
  have "str_sat customer_id_pattern (ac_customer_id auth) \<and> str_sat deployment_id_pattern (ac_deployment_id auth)"
    using role_checks_Inr [OF ok] by (auto simp: lifecycle_caller_def)
  then obtain c d where "str_view (ac_customer_id auth) = Some c" "customer_id_pattern c"
      "str_view (ac_deployment_id auth) = Some d" "deployment_id_pattern d"
    by (auto simp: str_sat_def split: option.splits)
  then show ?thesis
    unfolding owner owner_of_def customer_id_pattern_def deployment_id_pattern_def
    by (auto elim!: match_prefixedE)
qed

text \<open>
  (C37) A listing by state has one page. On the deployed adapters a successful listing that is
  filtered by state never carries a cursor: the cursor of a further page, the key of the
  index with both bindings of the owner, is longer than the service accepts, so that
  whenever there is a further page the service answers \<open>unavailable\<close> instead.
\<close>

theorem state_listing_single_page:
  assumes "service_list_memberships (compose_lifecycle_runtime dy da cg own) auth (Some st) cursor limit w
    = (Inr page, w')"
  shows "mp_next_cursor page = None"
proof (rule ccontr)
  assume "mp_next_cursor page \<noteq> None"
  then obtain c where c: "mp_next_cursor page = Some c" by blast
  obtain owner w1 w2 w3 rs where admin: "require_admin (compose_lifecycle_runtime dy da cg own) auth False w = (Inr owner, w1)"
    and listed: "store_list_memberships dy (fst owner) (snd owner) (Some st) cursor (int_of limit) w2 = (Inr (rs, Some c), w3)"
    and accepted: "cursor_pattern c"
    using assms c by (auto simp: service_list_memberships_def bind_Inr case_pyref_Inr cursor_ok_def
        compose_lifecycle_runtime_def)
  obtain last_key where "next_cursor last_key (membership_cursor (fst owner) (snd owner) (Some st)) = Inr (Some c)"
    using listed by (auto simp: store_list_memberships_def bind_Inr)
  from state_cursor_long [OF this] require_admin_lengths [OF admin] accepted show False by simp
qed

end
