(* ===== verification/LifecycleSite.thy ===== *)
theory LifecycleSite
  imports LifecycleSystem
begin

text \<open>
  A site in memory: a membership table and an audit table as in \<open>DynamoTable\<close>, and a user
  directory with the account life of the identity provider (creation once per name, enabling,
  disabling). It is a deployment; the samples of the system properties run on it.
\<close>

section \<open>Parts of a world\<close>

definition on_part :: "('w \<Rightarrow> 'p) \<Rightarrow> ('p \<Rightarrow> 'w \<Rightarrow> 'w) \<Rightarrow> ('p \<Rightarrow> 'r \<times> 'p) \<Rightarrow> 'w \<Rightarrow> 'r \<times> 'w" where
  "on_part part set_part m = (\<lambda>w. case m (part w) of (r, p) \<Rightarrow> (r, set_part p w))"

definition part_dynamo :: "('w \<Rightarrow> 'p) \<Rightarrow> ('p \<Rightarrow> 'w \<Rightarrow> 'w) \<Rightarrow> 'p dynamo \<Rightarrow> 'w dynamo" where
  "part_dynamo part set_part dy =
     \<lparr>dy_put_item = (\<lambda>d ts. on_part part set_part (dy_put_item dy d ts)),
      dy_update_item = (\<lambda>k sets removes ts. on_part part set_part (dy_update_item dy k sets removes ts)),
      dy_get_item = (\<lambda>k. on_part part set_part (dy_get_item dy k)),
      dy_query = (\<lambda>q. on_part part set_part (dy_query dy q)),
      dy_name = dy_name dy,
      dy_transact = map_option (\<lambda>f k ts wr token. on_part part set_part (f k ts wr token)) (dy_transact dy),
      dy_clock = on_part part set_part (dy_clock dy)\<rparr>"

lemma on_part_run: "on_part part set_part m w = (r, w') \<longleftrightarrow> (\<exists>p. m (part w) = (r, p) \<and> w' = set_part p w)"
  by (auto simp: on_part_def split: prod.splits)

lemma part_table:
  assumes "conditional_table dy view" "\<And>p w. part (set_part p w) = p"
  shows "conditional_table (part_dynamo part set_part dy) (\<lambda>w. view (part w))"
proof -
  note laws = conditional_table.put_law [OF assms(1)] conditional_table.put_refused [OF assms(1)]
    conditional_table.update_law [OF assms(1)] conditional_table.update_refused [OF assms(1)]
    conditional_table.transact_law [OF assms(1)] conditional_table.get_law [OF assms(1)]
    conditional_table.query_law [OF assms(1)] conditional_table.clock_law [OF assms(1)]
  show ?thesis
  proof unfold_locales
    fix f k ts wr token w r w'
    assume "dy_transact (part_dynamo part set_part dy) = Some f" "f k ts wr token w = (r, w')"
    then obtain g p where "dy_transact dy = Some g" "g k ts wr token (part w) = (r, p)" "w' = set_part p w"
      by (auto simp: part_dynamo_def on_part_run)
    with laws(5) show "write_law (view (part w)) (Checked k ts wr) r (view (part w'))"
      by (simp add: assms(2))
  qed (auto simp: part_dynamo_def on_part_run assms(2) dest: laws)
qed

section \<open>The directory\<close>

type_synonym directory = "string \<Rightarrow> item option"

definition NO_SUCH_USER :: string where "NO_SUCH_USER = ''UserNotFoundException''"

definition new_account :: "string \<Rightarrow> (string \<times> string) list \<Rightarrow> item" where
  "new_account key attrs =
     [(''Username'', PStr key), (''Enabled'', PBool True), (''UserStatus'', PStr ''FORCE_CHANGE_PASSWORD''),
      (''Attributes'', PList (map (\<lambda>(k, v). PDict [(''Name'', PStr k), (''Value'', PStr v)])
         ((''sub'', ''subject-'' @ key) # attrs)))]"

definition with_account :: "string \<Rightarrow> (item \<Rightarrow> directory \<Rightarrow> (exn + 'a) \<times> directory) \<Rightarrow> (directory, 'a) io" where
  "with_account key f = (\<lambda>u. case u key of Some d \<Rightarrow> f d u | None \<Rightarrow> (Inl (AwsError NO_SUCH_USER), u))"

definition switch_account :: "string \<Rightarrow> bool \<Rightarrow> (directory, unit) io" where
  "switch_account key b =
     with_account key (\<lambda>d u. (Inr (), u(key \<mapsto> dict_put ''Enabled'' (PBool b) d)))"

definition memory_directory :: "string \<Rightarrow> directory cognito" where
  "memory_directory pool =
     \<lparr>cg_create = (\<lambda>key attrs u. case u key of
        Some d \<Rightarrow> (Inl (AwsError USERNAME_EXISTS), u)
      | None \<Rightarrow> (Inr (PDict [(''User'', PDict (new_account key attrs))]), u(key \<mapsto> new_account key attrs))),
      cg_resend = (\<lambda>key. with_account key (\<lambda>d u. (Inr (), u))),
      cg_get = (\<lambda>key. with_account key (\<lambda>d u. (Inr (PDict d), u))),
      cg_enable = (\<lambda>key. switch_account key True), cg_disable = (\<lambda>key. switch_account key False),
      cg_sign_out = (\<lambda>key. with_account key (\<lambda>d u. (Inr (), u))), cg_pool = pool\<rparr>"

section \<open>The site\<close>

record site_world =
  sw_members :: memory_world
  sw_audit :: memory_world
  sw_users :: directory

definition part_cognito :: "('w \<Rightarrow> 'p) \<Rightarrow> ('p \<Rightarrow> 'w \<Rightarrow> 'w) \<Rightarrow> 'p cognito \<Rightarrow> 'w cognito" where
  "part_cognito part set_part cg =
     \<lparr>cg_create = (\<lambda>key attrs. on_part part set_part (cg_create cg key attrs)),
      cg_resend = (\<lambda>key. on_part part set_part (cg_resend cg key)),
      cg_get = (\<lambda>key. on_part part set_part (cg_get cg key)),
      cg_enable = (\<lambda>key. on_part part set_part (cg_enable cg key)),
      cg_disable = (\<lambda>key. on_part part set_part (cg_disable cg key)),
      cg_sign_out = (\<lambda>key. on_part part set_part (cg_sign_out cg key)), cg_pool = cg_pool cg\<rparr>"

definition site_members :: "(memory \<Rightarrow> table_query \<Rightarrow> pyval) \<Rightarrow> site_world dynamo" where
  "site_members answer = part_dynamo sw_members (\<lambda>p. sw_members_update (\<lambda>_. p)) (memory_table answer)"

definition site_audit :: "(memory \<Rightarrow> table_query \<Rightarrow> pyval) \<Rightarrow> site_world dynamo" where
  "site_audit answer = part_dynamo sw_audit (\<lambda>p. sw_audit_update (\<lambda>_. p)) (memory_table answer)"

definition site_users :: "string \<Rightarrow> site_world cognito" where
  "site_users pool = part_cognito sw_users (\<lambda>p. sw_users_update (\<lambda>_. p)) (memory_directory pool)"

definition site_view :: "site_world \<Rightarrow> memory" where
  "site_view w = mw_items (sw_members w)"

lemma site_table: "conditional_table (site_members answer) site_view"
  unfolding site_members_def site_view_def [abs_def]
  by (rule part_table) (simp_all add: mem.conditional_table_axioms)

interpretation site: deployment "site_members answer" site_view "site_audit answer'" "site_users pool"
  for answer answer' pool
proof -
  have "deployment_axioms site_view (site_audit answer') (site_users pool)"
    by unfold_locales
      (auto simp: site_audit_def site_users_def part_dynamo_def part_cognito_def on_part_run site_view_def)
  then show "deployment (site_members answer) site_view (site_audit answer') (site_users pool)"
    by (intro deployment.intro site_table)
qed

end
