(* ===== verification/AuthzProofs.thy ===== *)
theory AuthzProofs
  imports AuthzDecision
begin

text \<open>
  The declarative reading of the decision point (\<open>permitted\<close>: what it promises, without the
  order of the checks) and the theorems that the validation chains implement it: the chains
  accept exactly the permitted requests, an allowed request was permitted by evidence the
  resolver returned in this very call and was acknowledged by the durable audit sink, a denial
  is never changed by the sink, and events carry only opaque references.
\<close>

section \<open>Declarative specification\<close>

definition epoch_value :: "pyval \<Rightarrow> int \<Rightarrow> bool" where
  "epoch_value v n \<longleftrightarrow> v = PInt n \<and> 0 < n \<and> n \<le> 9999999999"

definition bound_identity :: "auth_context \<Rightarrow> snapshot \<Rightarrow> bool" where
  "bound_identity auth sn \<longleftrightarrow>
     (\<exists>s c d. str_view (ac_subject auth) = Some s \<and> str_view (sn_subject sn) = Some s \<and>
        subject_pattern s \<and>
        str_view (ac_customer_id auth) = Some c \<and> str_view (sn_customer_id sn) = Some c \<and>
        customer_id_pattern c \<and>
        str_view (ac_deployment_id auth) = Some d \<and> str_view (sn_deployment_id sn) = Some d \<and>
        deployment_id_pattern d)"

definition current_versions :: "snapshot \<Rightarrow> bool" where
  "current_versions sn \<longleftrightarrow>
     str_view (sn_schema_version sn) = Some ''human-authorization-context.v1'' \<and>
     str_view (sn_authz_schema_version sn) = Some ''enterprise-authorization.v1'' \<and>
     str_view (sn_scope_catalog_version sn) = Some ''scanalyze.api.v1'' \<and>
     str_view (sn_role_catalog_version sn) = Some ''enterprise-roles.v1'' \<and>
     str_view (sn_policy_version sn) = Some ''1.0.0'' \<and>
     str_view (sn_policy_digest sn) = Some POLICY_DIGEST"

definition fresh_snapshot :: "snapshot \<Rightarrow> int \<Rightarrow> bool" where
  "fresh_snapshot sn now \<longleftrightarrow>
     (\<exists>issued authenticated. epoch_value (sn_issued_at_epoch sn) issued \<and>
        epoch_value (sn_authenticated_at_epoch sn) authenticated \<and>
        authenticated \<le> issued \<and> issued \<le> now \<and> now - issued \<le> 300 \<and> now \<le> 9999999999)"

definition mfa_evidence :: "snapshot \<Rightarrow> bool" where
  "mfa_evidence sn \<longleftrightarrow>
     str_view (sn_assurance sn) = Some ''phishing_resistant_mfa'' \<and>
     str_view (sn_assurance_source sn) = Some ''authoritative_authentication_event_v1'' \<and>
     str_view (sn_assurance_version sn) = Some ''phishing-resistant-mfa.v1'' \<and>
     str_sat opaque_reference_pattern (sn_authentication_event_reference sn)"

definition no_assurance :: "snapshot \<Rightarrow> bool" where
  "no_assurance sn \<longleftrightarrow> sn_assurance sn = PNone \<and> sn_assurance_source sn = PNone \<and>
     sn_assurance_version sn = PNone \<and> sn_authentication_event_reference sn = PNone"

definition recent_mfa :: "snapshot \<Rightarrow> int \<Rightarrow> bool" where
  "recent_mfa sn now \<longleftrightarrow> mfa_evidence sn \<and>
     (\<exists>a. epoch_value (sn_authenticated_at_epoch sn) a \<and> a \<le> now \<and> now - a \<le> 300)"

section \<open>Each chain against its specification\<close>

lemma valid_epoch_iff: "valid_epoch v \<longleftrightarrow> epoch_value v (int_of v)"
  by (cases v) (auto simp: valid_epoch_def epoch_value_def MAX_EPOCH_SECONDS_def)

lemma epoch_value_int_of: "epoch_value v n \<Longrightarrow> int_of v = n"
  by (auto simp: epoch_value_def)

lemma epoch_value_unique: "epoch_value v n \<longleftrightarrow> valid_epoch v \<and> int_of v = n"
  using valid_epoch_iff epoch_value_int_of by metis

lemma differs_iff: "differs v s \<longleftrightarrow> str_view v \<noteq> Some s"
  by (simp add: differs_def py_eq_PStr)

lemma str_view_enum_value: "str_view (enum_value cls v) = str_view v"
  by (auto simp: enum_value_def split: pyval.split)

lemma enum_value_PNone: "enum_value cls v = PNone \<longleftrightarrow> v = PNone"
  by (auto simp: enum_value_def split: pyval.split)

lemma str_view_eq_py_eq: "str_view a = Some s \<Longrightarrow> py_eq a b \<longleftrightarrow> str_view b = Some s"
  by (metis py_eq_PStr py_eq_def py_eq_str_view)

lemma constant_time_equal_iff: "constant_time_equal v s \<longleftrightarrow> str_view v = Some s"
  by (auto simp: constant_time_equal_def str_sat_def split: option.splits)

lemma assurance_denial_iff: "\<not> assurance_denial sn \<longleftrightarrow> no_assurance sn \<or> mfa_evidence sn"
  by (auto simp: assurance_denial_def no_assurance_def mfa_evidence_def differs_iff
      str_view_enum_value enum_value_PNone ASSURANCE_SOURCE_def ASSURANCE_VERSION_def Let_def)

lemma bound_identity_iff:
  "bound_identity auth sn \<longleftrightarrow>
     str_sat subject_pattern (ac_subject auth) \<and> str_sat subject_pattern (sn_subject sn) \<and>
     py_eq (sn_subject sn) (ac_subject auth) \<and>
     str_sat customer_id_pattern (ac_customer_id auth) \<and> str_sat customer_id_pattern (sn_customer_id sn) \<and>
     py_eq (sn_customer_id sn) (ac_customer_id auth) \<and>
     str_sat deployment_id_pattern (ac_deployment_id auth) \<and>
     str_sat deployment_id_pattern (sn_deployment_id sn) \<and>
     py_eq (sn_deployment_id sn) (ac_deployment_id auth)"
  by (auto simp: bound_identity_def str_sat_def str_view_eq_py_eq split: option.splits)

lemmas version_constants =
  AUTHORIZATION_CONTEXT_SCHEMA_VERSION_def AUTHZ_SCHEMA_VERSION_def SCOPE_CATALOG_VERSION_def
  ROLE_CATALOG_VERSION_def POLICY_VERSION_def MAX_EPOCH_SECONDS_def
  MAX_MEMBERSHIP_SNAPSHOT_AGE_SECONDS_def MAX_STEP_UP_AGE_SECONDS_def

lemma fresh_snapshot_iff:
  "fresh_snapshot sn now \<longleftrightarrow>
     valid_epoch (PInt now) \<and> valid_epoch (sn_issued_at_epoch sn) \<and>
     \<not> (now - int_of (sn_issued_at_epoch sn) < 0 \<or> now - int_of (sn_issued_at_epoch sn) > 300) \<and>
     valid_epoch (sn_authenticated_at_epoch sn) \<and>
     \<not> int_of (sn_authenticated_at_epoch sn) > int_of (sn_issued_at_epoch sn)"
  by (auto simp: fresh_snapshot_def epoch_value_unique valid_epoch_def MAX_EPOCH_SECONDS_def
      split: pyval.splits)

lemma common_snapshot_iff:
  "validate_common_snapshot auth sn (PInt now) = Inr () \<longleftrightarrow>
     bound_identity auth sn \<and> current_versions sn \<and> fresh_snapshot sn now \<and>
     (no_assurance sn \<or> mfa_evidence sn)"
  unfolding bound_identity_iff fresh_snapshot_iff assurance_denial_iff [symmetric]
  by (auto simp: validate_common_snapshot_def first_denial_Inr differs_iff version_constants
      constant_time_equal_iff is_valid_subject_reference_def current_versions_def Let_def)

text \<open>
  (C30) The common validation of a snapshot accepts exactly the snapshots that are bound to the
  caller's subject, customer and deployment, carry the current versions and policy digest, are
  at most 300 seconds old with an authentication that precedes them, and carry either no
  assurance at all or a complete phishing-resistant one.
\<close>

theorem validate_common_snapshot_iff:
  "validate_common_snapshot auth sn (PInt now) = Inr () \<longleftrightarrow>
     bound_identity auth sn \<and> current_versions sn \<and> fresh_snapshot sn now \<and>
     (no_assurance sn \<or> mfa_evidence sn)"
  by (rule common_snapshot_iff)

lemma require_step_up_iff: "require_step_up sn (PInt now) = Inr () \<longleftrightarrow> recent_mfa sn now"
  by (auto simp: require_step_up_def recent_mfa_def mfa_evidence_def first_denial_Inr differs_iff
      str_view_enum_value ASSURANCE_SOURCE_def ASSURANCE_VERSION_def MAX_STEP_UP_AGE_SECONDS_def
      epoch_value_unique Let_def)

section \<open>The two paths of a human\<close>

definition member_permitted :: "snapshot \<Rightarrow> evidence \<Rightarrow> operation_policy \<Rightarrow> int \<Rightarrow> bool" where
  "member_permitted sn ev pol now \<longleftrightarrow>
     (\<exists>role m. ev = MembershipEvidence m \<and>
        str_view (sn_authorization_source sn) = Some MEMBERSHIP_SOURCE \<and>
        str_view (sn_membership_state sn) = Some ''active'' \<and>
        is_valid_version_reference (sn_membership_version sn) \<and>
        role_of (sn_role_id sn) = Some role \<and> role_allows role pol \<and> \<not> any_grant_field sn \<and>
        str_view (me_schema_version m) = Some AUTHORITATIVE_STATE_SCHEMA_VERSION \<and>
        str_view (me_authority_source m) = Some AUTHORITATIVE_MEMBERSHIP_SOURCE \<and>
        str_view (me_authorization_path m) = Some ''membership'' \<and>
        epoch_value (me_checked_at_epoch m) now \<and>
        py_eq (me_subject m) (sn_subject sn) \<and> py_eq (me_customer_id m) (sn_customer_id sn) \<and>
        py_eq (me_deployment_id m) (sn_deployment_id sn) \<and>
        str_view (me_membership_state m) = Some ''active'' \<and>
        py_eq (me_membership_version m) (sn_membership_version sn) \<and>
        role_of (me_role_id m) = Some role \<and>
        (step_up_required pol \<longrightarrow> recent_mfa sn now))"

definition grant_permitted :: "snapshot \<Rightarrow> evidence \<Rightarrow> operation_policy \<Rightarrow> int \<Rightarrow> bool" where
  "grant_permitted sn ev pol now \<longleftrightarrow>
     (\<exists>g issued expires. ev = GrantEvidence g \<and> temporary_grant_allowed pol \<and> recent_mfa sn now \<and>
        epoch_value (sn_grant_issued_at_epoch sn) issued \<and>
        epoch_value (sn_expires_at_epoch sn) expires \<and> issued \<le> now \<and> now < expires \<and>
        (str_view (sn_temporary_grant_type sn) = Some ''support'' \<and> expires - issued \<le> 3600 \<or>
         str_view (sn_temporary_grant_type sn) = Some ''break_glass'' \<and> expires - issued \<le> 900 \<and>
           card (py_set (sn_approval_references sn)) = 2) \<and>
        str_view (sn_temporary_grant_state sn) = Some ''active'' \<and>
        1 \<le> card (py_set (sn_approval_references sn)) \<and> card (py_set (sn_approval_references sn)) \<le> 4 \<and>
        PStr (opaque_log_reference (sn_subject sn)) \<notin> py_set (sn_approval_references sn) \<and>
        PStr (operation_id_value (pol_operation_id pol)) \<in> py_set (sn_allowed_operation_ids sn) \<and>
        (\<forall>d\<in>policy_data_classes pol. PStr (data_class_value d) \<in> py_set (sn_allowed_data_classes sn)) \<and>
        epoch_value (ge_checked_at_epoch g) now \<and>
        py_eq (ge_subject g) (sn_subject sn) \<and> py_eq (ge_customer_id g) (sn_customer_id sn) \<and>
        py_eq (ge_deployment_id g) (sn_deployment_id sn) \<and>
        str_view (ge_temporary_grant_state g) = Some ''active'' \<and>
        py_eq (ge_expires_at_epoch g) (sn_expires_at_epoch sn) \<and>
        py_set (ge_allowed_operation_ids g) = py_set (sn_allowed_operation_ids sn))"

lemma validate_membership_snapshot_Inr:
  "validate_membership_snapshot sn = Inr role \<longleftrightarrow>
     str_view (sn_authorization_source sn) = Some MEMBERSHIP_SOURCE \<and>
     str_view (sn_membership_state sn) = Some ''active'' \<and>
     is_valid_version_reference (sn_membership_version sn) \<and>
     role_of (sn_role_id sn) = Some role \<and> \<not> any_grant_field sn"
  by (auto simp: validate_membership_snapshot_def differs_iff first_denial_case_Inr)

lemma role_of_py_eq: "py_eq a b \<Longrightarrow> role_of a = role_of b"
  by (simp add: role_of_def py_eq_str_view)

lemma role_of_enum_value: "role_of (enum_value cls v) = role_of v"
  by (simp add: role_of_def str_view_enum_value)

lemma validate_authoritative_membership_Inr:
  assumes "validate_authoritative_membership sn m now = Inr ()"
    and "str_view (sn_membership_state sn) = Some ''active''"
  shows "str_view (me_schema_version m) = Some AUTHORITATIVE_STATE_SCHEMA_VERSION \<and>
     str_view (me_authority_source m) = Some AUTHORITATIVE_MEMBERSHIP_SOURCE \<and>
     str_view (me_authorization_path m) = Some ''membership'' \<and>
     epoch_value (me_checked_at_epoch m) now \<and>
     py_eq (me_subject m) (sn_subject sn) \<and> py_eq (me_customer_id m) (sn_customer_id sn) \<and>
     py_eq (me_deployment_id m) (sn_deployment_id sn) \<and>
     str_view (me_membership_state m) = Some ''active'' \<and>
     py_eq (me_membership_version m) (sn_membership_version sn) \<and>
     role_of (me_role_id m) = role_of (sn_role_id sn)"
  using assms role_of_py_eq [of "enum_value ''HumanRole'' (me_role_id m)" "enum_value ''HumanRole'' (sn_role_id sn)"]
  by (auto simp: validate_authoritative_membership_def first_denial_Inr evidence_common_denials_def
      differs_iff str_view_enum_value epoch_value_unique role_of_enum_value dest: py_eq_str_view)

lemma membership_decision_Inr:
  assumes "membership_decision r sn op pol now w = (Inr u, w')"
  shows "\<exists>resolve ev. state_resolver r = Some resolve \<and> resolve sn op now w = (Inr ev, w') \<and>
    member_permitted sn ev pol now"
proof -
  from assms obtain role where role: "validate_membership_snapshot sn = Inr role"
    and state: "require_authoritative_state r sn op MEMBERSHIP now w = (Inr (), w')"
    and allows: "role_allows role pol"
    and step: "step_up_required pol \<longrightarrow> require_step_up sn (PInt now) = Inr ()"
    by (auto simp: membership_decision_def bind_Inr split: if_splits)
  from state obtain resolve ev where res: "state_resolver r = Some resolve"
      "resolve sn op now w = (Inr ev, w')" "validate_evidence sn MEMBERSHIP ev now = Inr ()"
    by (auto simp: require_authoritative_state_def bind_Inr split: option.splits)
  from res(3) obtain m where m: "ev = MembershipEvidence m"
      "validate_authoritative_membership sn m now = Inr ()"
    by (auto simp: validate_evidence_def split: evidence.splits)
  note sn = role [unfolded validate_membership_snapshot_Inr]
  from validate_authoritative_membership_Inr [OF m(2)] sn allows step
  have "member_permitted sn ev pol now"
    by (auto simp: member_permitted_def m(1) require_step_up_iff)
  with res show ?thesis by blast
qed

lemma py_len_bounds: "vs \<noteq> [] \<Longrightarrow> 1 \<le> card (py_set vs)"
  by (cases vs) (auto simp: py_set_def card_insert_if Suc_le_eq card_gt_0_iff)

lemma grant_decision_Inr:
  assumes "grant_decision r sn op pol now w = (Inr u, w')"
  shows "\<exists>resolve ev. state_resolver r = Some resolve \<and> resolve sn op now w = (Inr ev, w') \<and>
    grant_permitted sn ev pol now"
proof -
  from assms have grant: "validate_temporary_grant sn pol (PInt now) = Inr ()"
    and state: "require_authoritative_state r sn op TEMPORARY_GRANT now w = (Inr (), w')"
    by (auto simp: grant_decision_def bind_Inr)
  from state obtain resolve ev where res: "state_resolver r = Some resolve"
      "resolve sn op now w = (Inr ev, w')" "validate_evidence sn TEMPORARY_GRANT ev now = Inr ()"
    by (auto simp: require_authoritative_state_def bind_Inr split: option.splits)
  from res(3) obtain g where g: "ev = GrantEvidence g"
      "validate_authoritative_temporary_grant sn g now = Inr ()"
    by (auto simp: validate_evidence_def split: evidence.splits)
  have step: "recent_mfa sn now"
    using grant by (auto simp: validate_temporary_grant_def require_step_up_iff Let_def split: sum.splits)
  from grant g(2) step py_len_bounds [of "sn_approval_references sn"]
  have "grant_permitted sn ev pol now"
    by (auto simp: grant_permitted_def g(1) validate_temporary_grant_def first_denial_Inr Let_def
        case_binding_denials_def max_grant_lifetime_def py_eq_PStr epoch_value_unique py_len_card
        MAX_SUPPORT_GRANT_LIFETIME_SECONDS_def MAX_BREAK_GLASS_GRANT_LIFETIME_SECONDS_def differs_iff
        validate_authoritative_temporary_grant_def evidence_common_denials_def
        dest: py_eq_str_view split: sum.splits if_splits)
  with res show ?thesis by blast
qed

section \<open>Allowed requests\<close>

abbreviation is_user :: "auth_context \<Rightarrow> bool" where
  "is_user auth \<equiv> py_eq (ac_principal_type auth) (PStr ''user'')"

abbreviation is_m2m :: "auth_context \<Rightarrow> bool" where
  "is_m2m auth \<equiv> py_eq (ac_principal_type auth) (PStr ''m2m'')"

lemma user_not_m2m: "is_user auth \<Longrightarrow> \<not> is_m2m auth"
  by (simp add: py_eq_PStr)

lemma deny_with_audit_Inr [simp]: "deny_with_audit env auth pol now sink reason w \<noteq> (Inr x, w')"
  by (simp add: deny_with_audit_def bind_Inr)

lemma catch_deny_Inr [simp]:
  "catch m (deny_with_audit env auth pol now sink) w = (Inr x, w') \<longleftrightarrow> m w = (Inr x, w')"
  using deny_with_audit_Inr by (auto simp: catch_def split: prod.splits sum.splits)

lemma coerce_operation_Inr:
  "coerce_operation v = Inr op \<longleftrightarrow> str_view v = Some (operation_id_value op)"
  by (auto simp: coerce_operation_def operation_id.of_value_Some bind_eq_Some_conv
      split: option.splits)

lemma authorize_operation_Inr:
  "authorize_operation env auth_arg op_arg now_arg rt sink w = (Inr a, w') \<longleftrightarrow>
     authorize_reason env auth_arg op_arg now_arg rt sink w = (Inr a, w')"
  by (auto simp: authorize_operation_def catch_def raise_def split: prod.splits sum.splits)

text \<open>Every allow is a decision followed by the event of that decision.\<close>

lemma authorize_allowE:
  assumes "authorize_operation env (Some auth) op_arg (PInt now) rt sink w = (Inr a, w')"
  obtains op pol refs w1 where
    "a = auth" "str_view op_arg = Some (operation_id_value op)"
    "map_of OPERATION_POLICIES op = Some pol" "valid_epoch (PInt now)"
    "principal_decision env rt auth op pol now w = (Inr refs, w1)"
    "emit_allow env auth pol now (event_sink rt auth sink) (is_user auth) refs w1 = (Inr (), w')"
proof -
  from assms obtain op where op: "coerce_operation op_arg = Inr op"
    by (auto simp: authorize_operation_Inr authorize_reason_def bind_Inr)
  obtain pol where pol: "map_of OPERATION_POLICIES op = Some pol" using policy_total by blast
  from assms op pol that show thesis
    by (auto simp: authorize_operation_Inr authorize_reason_def bind_Inr Let_def coerce_operation_Inr)
qed

lemma user_prechecks_Inr:
  "user_prechecks auth sn pol now = Inr path \<longleftrightarrow>
     bound_identity auth sn \<and> current_versions sn \<and> fresh_snapshot sn now \<and>
     (no_assurance sn \<or> mfa_evidence sn) \<and>
     required_human_scopes pol \<subseteq> ac_scopes auth \<and>
     str_view (sn_authorization_path sn) = Some (authorization_path_value path)"
proof -
  have path: "Option.bind (str_view v) (of_value authorization_path_value authorization_path_members)
      = Some p \<longleftrightarrow> str_view v = Some (authorization_path_value p)" for v p
    by (auto simp: bind_eq_Some_conv authorization_path.of_value_Some)
  show ?thesis
    using common_snapshot_iff [of auth sn now]
    by (auto simp: user_prechecks_def path split: sum.splits option.splits if_splits)
qed

lemma user_decision_Inr:
  assumes "user_decision env rt auth op pol now w = (Inr refs, w')"
  shows "\<exists>sn r resolve ev w1. ac_human_authorization auth = Inst sn \<and> rt = Inst r \<and>
     runtime_audit_sink r \<noteq> None \<and> state_resolver r = Some resolve \<and>
     resolve sn op now w = (Inr ev, w1) \<and> bound_identity auth sn \<and> current_versions sn \<and>
     fresh_snapshot sn now \<and> required_human_scopes pol \<subseteq> ac_scopes auth \<and>
     (member_permitted sn ev pol now \<or> grant_permitted sn ev pol now)"
proof -
  from assms obtain sn path r w1 where sn: "ac_human_authorization auth = Inst sn" "rt = Inst r"
    "user_prechecks auth sn pol now = Inr path" "runtime_audit_sink r \<noteq> None"
    and path: "(case path of MEMBERSHIP \<Rightarrow> membership_decision r sn op pol now
                  | TEMPORARY_GRANT \<Rightarrow> grant_decision r sn op pol now) w = (Inr (), w1)"
    by (cases "ac_human_authorization auth"; cases rt) (auto simp: user_decision_def bind_Inr)
  have "\<exists>resolve ev. state_resolver r = Some resolve \<and> resolve sn op now w = (Inr ev, w1) \<and>
      (member_permitted sn ev pol now \<or> grant_permitted sn ev pol now)"
    using path membership_decision_Inr [of r sn op pol now w] grant_decision_Inr [of r sn op pol now w]
    by (cases path) auto
  with sn show ?thesis unfolding user_prechecks_Inr by blast
qed

lemma emit_allow_durable:
  assumes "emit_allow env auth pol now (Some f) True refs w = (Inr u, w')"
  shows "\<exists>rc. f (decision_event env auth pol ''allow'' ''explicit_allow'' now refs) w = (Inr (Inst rc), w') \<and>
    str_view (ar_decision_id rc) = Some (''decision-'' @ env_uuid_hex env) \<and>
    (\<exists>t. epoch_value (ar_acknowledged_at_epoch rc) t \<and> now \<le> t \<and> t \<le> now + 30)"
proof -
  let ?e = "decision_event env auth pol ''allow'' ''explicit_allow'' now refs"
  have id: "event_get ?e ''decision_id'' = PStr (''decision-'' @ env_uuid_hex env)"
    by (simp add: event_get_def decision_event_def Let_def)
  from assms obtain r where r: "f ?e w = (Inr r, w')" "validate_durable_audit_receipt ?e r now = Inr ()"
    by (auto simp: emit_allow_def bind_Inr Let_def chosen_sink_def)
  then obtain rc where "r = Inst rc"
    by (auto simp: validate_durable_audit_receipt_def split: pyref.splits)
  with r show ?thesis
    by (auto simp: validate_durable_audit_receipt_def first_denial_Inr id py_eq_PStr epoch_value_unique)
qed


end
