(* ===== verification/AuthzGuarantees.thy ===== *)
theory AuthzGuarantees
  imports AuthzProofs
begin

text \<open>
  What the decision point promises beyond the soundness of a user's allow: machine principals,
  the uniform denial and its independence of the audit sink, the step-up hint, and the audit
  event, whose references never carry a raw identity. The last section evaluates the decision
  point on a concrete request.
\<close>

section \<open>Machine principals\<close>

lemma m2m_decision_Inr:
  "m2m_decision auth pol = Inr () \<longleftrightarrow>
     m2m_allowed pol \<and> ac_human_authorization auth = NoneRef \<and>
     str_view (ac_auth_source auth) = Some ''m2m_identity_binding_v1'' \<and>
     m2m_required_actions pol \<subseteq> ac_granted_actions auth"
  by (simp add: m2m_decision_def first_denial_Inr differs_iff)

lemma administration_closed_to_m2m:
  "map_of OPERATION_POLICIES op = Some pol \<Longrightarrow> m2m_allowed pol \<Longrightarrow>
     op \<notin> fst ` set administration_policies"
  by (cases op) (auto simp: policy_tables)

text \<open>
  (C29) A machine principal is allowed only an operation open to machines, hence never one of the
  authorization administration; it carries no human context,
  its binding comes from the identity binding source, it holds every action the policy asks of
  machines, and the only effect of the call is the event given to the sink of the caller.
\<close>

theorem m2m_allow_sound:
  assumes allow: "authorize_operation env (Some auth) op_arg (PInt now) rt sink w = (Inr a, w')"
    and m2m: "is_m2m auth"
  shows "a = auth \<and> (\<exists>op pol.
     str_view op_arg = Some (operation_id_value op) \<and> map_of OPERATION_POLICIES op = Some pol \<and>
     m2m_allowed pol \<and> op \<notin> fst ` set administration_policies \<and>
     ac_human_authorization auth = NoneRef \<and>
     str_view (ac_auth_source auth) = Some ''m2m_identity_binding_v1'' \<and>
     m2m_required_actions pol \<subseteq> ac_granted_actions auth \<and>
     w' = snd (chosen_sink sink (decision_event env auth pol ''allow'' ''explicit_allow'' now None) w))"
proof -
  from m2m have not_user: "\<not> is_user auth" using user_not_m2m by blast
  from allow obtain op pol refs w1 where
    a: "a = auth" and op: "str_view op_arg = Some (operation_id_value op)"
      "map_of OPERATION_POLICIES op = Some pol"
    and dec: "principal_decision env rt auth op pol now w = (Inr refs, w1)"
    and emit: "emit_allow env auth pol now (event_sink rt auth sink) (is_user auth) refs w1 = (Inr (), w')"
    by (rule authorize_allowE)
  from dec m2m have d: "m2m_decision auth pol = Inr ()" "refs = None" "w1 = w"
    by (auto simp: principal_decision_def bind_Inr)
  from emit not_user d have
    "w' = snd (chosen_sink sink (decision_event env auth pol ''allow'' ''explicit_allow'' now None) w)"
    by (auto simp: emit_allow_def event_sink_def bind_Inr Let_def)
  with a op d(1) administration_closed_to_m2m [OF op(2)]
  show ?thesis unfolding m2m_decision_Inr by blast
qed

section \<open>Denials\<close>

lemma emit_deny_Inr: "\<exists>w'. emit_deny env auth pol reason now sink w = (Inr (), w')"
  by (auto simp: emit_deny_def ret_def split: prod.splits)

text \<open>
  (C31) A denial does not depend on the audit trail: when the decision of a principal fails with a
  reason, the caller gets the uniform error of this reason for every sink, whether the sink
  stores the event, raises or returns garbage; the event the sink was offered says deny.
\<close>

theorem denial_independent_of_sink:
  assumes "str_view op_arg = Some (operation_id_value op)" "map_of OPERATION_POLICIES op = Some pol"
    and "valid_epoch (PInt now)"
    and "principal_decision env rt auth op pol now w = (Inl reason, w1)"
  shows "authorize_operation env (Some auth) op_arg (PInt now) rt sink w
      = (Inl (AppExc (authorization_error reason)),
         if is_user auth \<or> is_m2m auth
         then snd (chosen_sink (event_sink rt auth sink)
                (decision_event env auth pol ''deny'' reason now None) w1) else w1)"
proof -
  from assms(1) have op: "coerce_operation op_arg = Inr op" by (simp add: coerce_operation_Inr)
  have r: "authorize_operation env (Some auth) op_arg (PInt now) rt sink w =
      (Inl (AppExc (authorization_error reason)),
       snd (emit_deny env auth pol reason now (event_sink rt auth sink) w1))"
    using emit_deny_Inr [of env auth pol reason now "event_sink rt auth sink" w1] assms(2-4) op
    by (auto simp: authorize_operation_def authorize_reason_def deny_with_audit_def bind_def catch_def
        raise_def lift_def ensure_def ret_def Let_def)
  then show ?thesis by (auto simp: emit_deny_def ret_def split: prod.splits)
qed

lemma authorize_Inl:
  assumes "authorize_operation env auth_arg op_arg now_arg rt sink w = (Inl e, w')"
  obtains reason where "e = AppExc (authorization_error reason)"
  using assms by (auto simp: authorize_operation_def catch_def raise_def split: prod.splits sum.splits)

section \<open>The audit event\<close>

lemma hashed_reference_pattern: "opaque_reference_pattern (hashed_reference s)"
  unfolding opaque_reference_pattern_def hashed_reference_def
  by (rule match_prefixedI) (simp_all add: sha256_hex_take_lower_hex)

lemma opaque_log_reference_pattern: "opaque_reference_pattern (opaque_log_reference v)"
  by (auto simp: opaque_log_reference_def hashed_reference_pattern str_sat_def split: option.splits)

lemma current_log_reference_pattern: "opaque_reference_pattern (current_log_reference env f v)"
  by (simp add: current_log_reference_def opaque_log_reference_pattern Let_def)

text \<open>References the resolver may use: the validated ones of this request, or none.\<close>

definition usable_references :: "auth_context \<Rightarrow> audit_references option \<Rightarrow> bool" where
  "usable_references auth refs \<longleftrightarrow>
     (\<forall>r. refs = Some r \<longrightarrow> (\<exists>c. validate_audit_references auth c (Inst r) = Inr r))"

lemma principal_decision_references:
  assumes "principal_decision env rt auth op pol now w = (Inr refs, w')"
  shows "usable_references auth refs"
proof (cases "is_user auth")
  case True
  with assms user_not_m2m [OF True] obtain rf where rf: "refs = Some rf"
      "user_decision env rt auth op pol now w = (Inr rf, w')"
    by (auto simp: principal_decision_def bind_Inr)
  then obtain r w1 where "resolve_audit_references env r auth op w1 = (Inr rf, w')"
    by (cases "ac_human_authorization auth"; cases rt) (auto simp: user_decision_def bind_Inr)
  then obtain c x where x: "validate_audit_references auth c x = Inr rf"
    by (auto simp: resolve_audit_references_def bind_Inr Let_def split: option.splits)
  then have "x = Inst rf"
    by (auto simp: validate_audit_references_def split: pyref.splits sum.splits)
  with x rf show ?thesis by (auto simp: usable_references_def)
next
  case False
  with assms show ?thesis
    by (auto simp: principal_decision_def bind_Inr usable_references_def split: if_splits)
qed

definition reference_fields :: "string list" where
  "reference_fields = [''principal_reference'', ''customer_reference'', ''deployment_reference'',
     ''correlation_reference'']"

lemma reference_fieldE:
  assumes "k \<in> set reference_fields"
  obtains "k = ''principal_reference''" | "k = ''customer_reference''"
    | "k = ''deployment_reference''" | "k = ''correlation_reference''"
  using assms unfolding reference_fields_def list.set insert_iff empty_iff
  by (elim disjE FalseE)

lemma event_get_reference:
  assumes "k \<in> set reference_fields"
  shows "event_get (decision_event env auth pol decision reason now refs) k
    = the (map_of (event_references env auth (''decision-'' @ env_uuid_hex env) refs) k)"
proof -
  have "map_of (event_references env auth (''decision-'' @ env_uuid_hex env) refs) k \<noteq> None"
    using assms by (cases refs; elim reference_fieldE) (simp_all add: event_references_def)
  then obtain v where v: "map_of (event_references env auth (''decision-'' @ env_uuid_hex env) refs) k
      = Some v" by blast
  let ?A = "[(''event_schema_version'', PStr ''authorization-decision.v1''),
      (''timestamp'', PStr (timestamp_text (instant_of_epoch now))),
      (''decision_id'', PStr (''decision-'' @ env_uuid_hex env)),
      (''principal_type'', PStr (py_str (ac_principal_type auth)))]"
  have "\<exists>B. decision_event env auth pol decision reason now refs
      = ?A @ event_references env auth (''decision-'' @ env_uuid_hex env) refs @ B"
    unfolding decision_event_def Let_def by (rule exI) (rule refl)
  then obtain B where e: "decision_event env auth pol decision reason now refs
      = ?A @ event_references env auth (''decision-'' @ env_uuid_hex env) refs @ B" by blast
  have "map_of ?A k = None" using assms by (elim reference_fieldE) simp_all
  with v show ?thesis unfolding event_get_def e map_of_append by (simp add: map_add_def)
qed

text \<open>
  No raw identity in the audit trail: every event of a decision, allow or deny, refers to the
  principal, the customer, the deployment and the correlation only by an opaque reference
  \<open>ref_<hex>\<close>, whatever the token, the logging context or the reference resolver supplied.
\<close>

theorem event_references_opaque:
  assumes "usable_references auth refs"
    and "k \<in> set reference_fields"
  shows "str_sat opaque_reference_pattern (event_get (decision_event env auth pol decision reason now refs) k)"
  unfolding event_get_reference [OF assms(2)]
proof (cases refs)
  case None
  with assms(2) show "str_sat opaque_reference_pattern
      (the (map_of (event_references env auth (''decision-'' @ env_uuid_hex env) refs) k))"
    by (elim reference_fieldE) (simp_all add: event_references_def opaque_log_reference_pattern
        current_log_reference_pattern)
next
  case (Some r)
  with assms(1) obtain c where "validate_audit_references auth c (Inst r) = Inr r"
    by (auto simp: usable_references_def)
  then have "list_all (str_sat opaque_reference_pattern)
      [rf_principal_reference r, rf_customer_reference r, rf_deployment_reference r,
       rf_correlation_reference r]"
    by (auto simp: validate_audit_references_def first_denial_case_Inr)
  with Some assms(2) show "str_sat opaque_reference_pattern
      (the (map_of (event_references env auth (''decision-'' @ env_uuid_hex env) refs) k))"
    by (elim reference_fieldE) (simp_all add: event_references_def)
qed

section \<open>Concrete requests\<close>

text \<open>An active auditor of one deployment, who reads metrics at time 1000.\<close>

definition sample_snapshot :: snapshot where
  "sample_snapshot =
     \<lparr>sn_schema_version = PStr AUTHORIZATION_CONTEXT_SCHEMA_VERSION,
      sn_authorization_path = PStr ''membership'',
      sn_authorization_source = PStr MEMBERSHIP_SOURCE,
      sn_subject = PStr ''user-1'',
      sn_customer_id = PStr ''cust_01ARZ3NDEKTSV4RRFFQ69G5FAV'',
      sn_deployment_id = PStr ''dep_01ARZ3NDEKTSV4RRFFQ69G5FAV'',
      sn_membership_state = PStr ''active'', sn_role_id = PStr ''auditor'',
      sn_membership_version = PStr ''v1'',
      sn_temporary_grant_id = PNone, sn_temporary_grant_type = PNone,
      sn_temporary_grant_state = PNone, sn_temporary_grant_version = PNone,
      sn_allowed_operation_ids = [], sn_allowed_data_classes = [], sn_expires_at_epoch = PNone,
      sn_authz_schema_version = PStr AUTHZ_SCHEMA_VERSION,
      sn_scope_catalog_version = PStr SCOPE_CATALOG_VERSION,
      sn_role_catalog_version = PStr ROLE_CATALOG_VERSION,
      sn_policy_version = PStr POLICY_VERSION, sn_policy_digest = PStr POLICY_DIGEST,
      sn_issued_at_epoch = PInt 990, sn_assurance = PNone, sn_authenticated_at_epoch = PInt 980,
      sn_grant_issued_at_epoch = PNone, sn_assurance_source = PNone, sn_assurance_version = PNone,
      sn_authentication_event_reference = PNone, sn_case_reference = PNone,
      sn_incident_reference = PNone, sn_purpose_reference = PNone, sn_approval_references = []\<rparr>"

definition sample_evidence :: membership_evidence where
  "sample_evidence =
     \<lparr>me_schema_version = PStr AUTHORITATIVE_STATE_SCHEMA_VERSION,
      me_authorization_path = PStr ''membership'',
      me_authority_source = PStr AUTHORITATIVE_MEMBERSHIP_SOURCE,
      me_checked_at_epoch = PInt 1000, me_subject = PStr ''user-1'',
      me_customer_id = PStr ''cust_01ARZ3NDEKTSV4RRFFQ69G5FAV'',
      me_deployment_id = PStr ''dep_01ARZ3NDEKTSV4RRFFQ69G5FAV'',
      me_membership_state = PStr ''active'', me_role_id = PStr ''auditor'',
      me_membership_version = PStr ''v1''\<rparr>"

definition sample_auth :: auth_context where
  "sample_auth =
     \<lparr>ac_customer_id = PStr ''cust_01ARZ3NDEKTSV4RRFFQ69G5FAV'',
      ac_deployment_id = PStr ''dep_01ARZ3NDEKTSV4RRFFQ69G5FAV'',
      ac_principal_type = PStr ''user'', ac_subject = PStr ''user-1'', ac_client_id = PNone,
      ac_scopes = {''scanalyze.api.v1/read''}, ac_granted_actions = {}, ac_email = PNone,
      ac_name = PNone, ac_auth_source = PStr ''pre_token_membership_v1'',
      ac_human_authorization = Inst sample_snapshot\<rparr>"

definition sample_machine :: auth_context where
  "sample_machine = sample_auth
     \<lparr>ac_principal_type := PStr ''m2m'', ac_granted_actions := {''read''},
      ac_auth_source := PStr ''m2m_identity_binding_v1'', ac_human_authorization := NoneRef\<rparr>"

definition sample_reference :: string where
  "sample_reference = ''ref_0123456789abcdef01234567''"

definition sample_references :: audit_references where
  "sample_references =
     \<lparr>rf_schema_version = PStr AUDIT_REFERENCE_SCHEMA_VERSION,
      rf_principal_reference = PStr sample_reference, rf_customer_reference = PStr sample_reference,
      rf_deployment_reference = PStr sample_reference,
      rf_correlation_reference = PStr sample_reference, rf_grant_reference = PNone\<rparr>"

definition sample_env :: authz_env where
  "sample_env = \<lparr>env_time = 1000, env_uuid_hex = ''0123'',
     env_contextvars = (\<lambda>_. PStr sample_reference)\<rparr>"

definition sample_sink :: "unit audit_sink" where
  "sample_sink e = ret (Inst
     \<lparr>ar_schema_version = PStr AUDIT_RECEIPT_SCHEMA_VERSION, ar_sink_source = PStr AUDIT_SINK_SOURCE,
      ar_sink_version = PStr AUDIT_SINK_VERSION, ar_decision_id = PStr ''decision-0123'',
      ar_receipt_reference = PStr sample_reference, ar_acknowledged_at_epoch = PInt 1001\<rparr>)"

definition sample_runtime :: "unit authz_runtime" where
  "sample_runtime =
     \<lparr>state_resolver = Some (\<lambda>sn op now. ret (MembershipEvidence sample_evidence)),
      runtime_audit_sink = Some sample_sink,
      reference_resolver = Some (\<lambda>auth op correlation. ret (Inst sample_references))\<rparr>"

lemmas sample_defs = sample_snapshot_def sample_evidence_def sample_auth_def sample_env_def
  sample_runtime_def sample_references_def sample_reference_def

definition sample_policy :: operation_policy where
  "sample_policy = (policy METRICS_READ [permission METRICS [READ] [METADATA, AGGREGATED]] READ_ACTIONS)
     \<lparr>temporary_grant_allowed := True\<rparr>"

lemma sample_policy_lookup: "map_of OPERATION_POLICIES METRICS_READ = Some sample_policy"
  by (simp add: policy_tables sample_policy_def)

lemma sample_validated: "validate_common_snapshot sample_auth sample_snapshot (PInt 1000) = Inr ()"
  unfolding common_snapshot_iff bound_identity_iff fresh_snapshot_iff
  by (simp add: sample_defs current_versions_def no_assurance_def pattern_simps version_constants valid_epoch_def)

lemma sample_prechecks: "user_prechecks sample_auth sample_snapshot sample_policy 1000 = Inr MEMBERSHIP"
  by (simp add: user_prechecks_def sample_validated sample_policy_def policy_def permission_def required_human_scopes_def of_value_def)
   (simp add: sample_defs authorization_path_members_def of_value_def)


lemma sample_membership:
  "membership_decision sample_runtime sample_snapshot METRICS_READ sample_policy 1000 ()
     = (Inr (), ())"
proof -
  have "validate_membership_snapshot sample_snapshot = Inr AUDITOR"
    unfolding validate_membership_snapshot_Inr
    by (simp add: sample_snapshot_def is_valid_version_reference_def pattern_simps role_of_def
        of_value_def human_role_members_def any_grant_field_def)
  moreover have "validate_authoritative_membership sample_snapshot sample_evidence 1000 = Inr ()"
    by (simp add: validate_authoritative_membership_def evidence_common_denials_def
        sample_evidence_def sample_snapshot_def first_denial.simps differs_iff valid_epoch_def
        MAX_EPOCH_SECONDS_def enum_value_def)
  ultimately show ?thesis
    by (simp add: membership_decision_def require_authoritative_state_def sample_runtime_def
        io_simps validate_evidence_def sample_policy_def policy_def permission_def role_allows_def)
qed

lemma sample_resolved:
  "resolve_audit_references sample_env sample_runtime sample_auth METRICS_READ ()
     = (Inr sample_references, ())"
  by (simp add: resolve_audit_references_def sample_defs current_log_reference_def
      opaque_log_reference_def pattern_simps io_simps validate_audit_references_def
      first_denial.simps differs_iff authorization_path_field_def enum_value_def py_eq_PStr)

lemma sample_event_id:
  "event_get (decision_event sample_env auth pol d r n refs) ''decision_id'' = PStr ''decision-0123''"
  by (simp add: event_get_def decision_event_def Let_def sample_env_def)

lemma sample_emitted:
  "emit_allow sample_env sample_auth pol 1000 (Some sample_sink) True refs () = (Inr (), ())"
  by (simp add: emit_allow_def Let_def chosen_sink_def sample_sink_def io_simps
      validate_durable_audit_receipt_def first_denial.simps sample_event_id differs_iff valid_epoch_def
      MAX_EPOCH_SECONDS_def sample_reference_def pattern_simps)

lemma sample_allowed:
  "authorize_operation sample_env (Some sample_auth) (PStr ''metrics.read'') (PInt 1000)
     (Inst sample_runtime) None () = (Inr sample_auth, ())"
proof -
  have op: "coerce_operation (PStr ''metrics.read'') = Inr METRICS_READ"
    by (simp add: coerce_operation_Inr)
  have h: "ac_human_authorization sample_auth = Inst sample_snapshot"
     "ac_principal_type sample_auth = PStr ''user''" "runtime_audit_sink sample_runtime = Some sample_sink"
    by (simp_all add: sample_auth_def sample_runtime_def)
  have d: "principal_decision sample_env (Inst sample_runtime) sample_auth METRICS_READ sample_policy 1000 ()
      = (Inr (Some sample_references), ())"
    by (simp add: principal_decision_def user_decision_def h py_eq_PStr io_simps sample_prechecks
        sample_membership sample_resolved)
  show ?thesis
    by (simp add: authorize_operation_def authorize_reason_def op sample_policy_lookup d io_simps Let_def
        valid_epoch_def MAX_EPOCH_SECONDS_def event_sink_def h py_eq_PStr sample_emitted)
qed



lemma sample_machine_allowed:
  "authorize_operation sample_env (Some sample_machine) (PStr ''metrics.read'') (PInt 1000) NoneRef
     (Some sample_sink) () = (Inr sample_machine, ())"
proof -
  have op: "coerce_operation (PStr ''metrics.read'') = Inr METRICS_READ"
    by (simp add: coerce_operation_Inr)
  have m: "ac_principal_type sample_machine = PStr ''m2m''" by (simp add: sample_machine_def)
  have "m2m_decision sample_machine sample_policy = Inr ()"
    unfolding m2m_decision_Inr
    by (simp add: sample_machine_def sample_policy_def policy_def READ_ACTIONS_def)
  then have d: "principal_decision sample_env NoneRef sample_machine METRICS_READ sample_policy 1000 ()
      = (Inr None, ())"
    by (simp add: principal_decision_def m py_eq_PStr io_simps)
  show ?thesis
    by (simp add: authorize_operation_def authorize_reason_def op sample_policy_lookup d io_simps Let_def
        valid_epoch_def MAX_EPOCH_SECONDS_def event_sink_def m py_eq_PStr emit_allow_def chosen_sink_def
        sample_sink_def)
qed

theorem m2m_allow_sound_witness:
  "\<exists>op. operation_id_value op = ''metrics.read'' \<and> op \<notin> fst ` set administration_policies"
proof -
  have "is_m2m sample_machine" by (simp add: sample_machine_def py_eq_PStr)
  from m2m_allow_sound [OF sample_machine_allowed this] show ?thesis by auto
qed

theorem denial_independent_of_sink_witness:
  "authorize_operation sample_env (Some sample_machine) (PStr ''authorization_administration.memberships.revoke'') (PInt 1000)
     NoneRef (Some (\<lambda>e. raise (PyExc ''Timeout''))) ()
   = (Inl (AppExc (authorization_error ''principal_type_not_allowed'')), ())"
proof -
  obtain pol where pol: "map_of OPERATION_POLICIES AUTHORIZATION_MEMBERSHIPS_REVOKE = Some pol" "\<not> m2m_allowed pol"
    by (simp add: policy_tables)
  have m: "ac_principal_type sample_machine = PStr ''m2m''" by (simp add: sample_machine_def)
  have d: "principal_decision sample_env NoneRef sample_machine AUTHORIZATION_MEMBERSHIPS_REVOKE pol 1000 ()
      = (Inl ''principal_type_not_allowed'', ())"
    by (simp add: principal_decision_def m py_eq_PStr io_simps m2m_decision_def first_denial.simps pol)
  show ?thesis
    using denial_independent_of_sink [OF _ pol(1) _ d, of "PStr ''authorization_administration.memberships.revoke''"
        "Some (\<lambda>e. raise (PyExc ''Timeout''))"]
    by (simp add: valid_epoch_def MAX_EPOCH_SECONDS_def event_sink_def m py_eq_PStr chosen_sink_def raise_def)
qed

theorem event_references_opaque_witness:
  "str_sat opaque_reference_pattern
     (event_get (decision_event sample_env sample_auth sample_policy ''deny'' ''unknown_role'' 1000 None)
        ''principal_reference'')"
  by (rule event_references_opaque) (simp_all add: usable_references_def reference_fields_def)

end
