(* ===== verification/LifecycleWitness.thy ===== *)
theory LifecycleWitness
  imports LifecycleProofs AuthzGuarantees
begin

text \<open>
  A concrete runtime whose ports answer as they should, an administrator and a member, and
  whole requests evaluated over them: the hypotheses of the lifecycle properties hold together,
  and the service does complete its operations.
\<close>

section \<open>Sample data\<close>

definition sample_time :: datetime where "sample_time = Aware (instant_of_epoch 1000)"

definition sample_deadline :: datetime where "sample_deadline = Aware (instant_of_epoch 9000)"

definition admin_snapshot :: snapshot where
  "admin_snapshot = sample_snapshot
     \<lparr>sn_role_id := PEnum ''HumanRole'' ''CUSTOMER_ADMIN'' ''customer_admin'',
      sn_authorization_path := PEnum ''AuthorizationPath'' ''MEMBERSHIP'' ''membership'',
      sn_assurance := PEnum ''Assurance'' ''PHISHING_RESISTANT_MFA'' ''phishing_resistant_mfa'',
      sn_assurance_source := PEnum ''AssuranceSource'' ''AUTHORITATIVE_AUTHENTICATION_EVENT''
        ASSURANCE_SOURCE,
      sn_assurance_version := PEnum ''AssuranceVersion'' ''PHISHING_RESISTANT_MFA_V1'' ASSURANCE_VERSION,
      sn_authentication_event_reference := PStr sample_reference\<rparr>"

definition admin_auth :: auth_context where
  "admin_auth = sample_auth
     \<lparr>ac_auth_source := PStr ''cognito_jwt'', ac_human_authorization := Inst admin_snapshot\<rparr>"

definition sample_ref :: string where "sample_ref = ''mbr_0123456789abcdef0123456789abcdef''"
definition sample_approval :: string where "sample_approval = ''apr_0123456789abcdef''"
definition sample_key :: string where "sample_key = ''idem_0123456789abcdef''"

definition sample_member :: "membership_state \<Rightarrow> membership_record" where
  "sample_member state =
     \<lparr>mb_schema_version = MEMBERSHIP_SCHEMA_VERSION, mb_membership_reference = sample_ref,
      mb_subject = ''user-2'', mb_customer_id = ''cust_01ARZ3NDEKTSV4RRFFQ69G5FAV'',
      mb_deployment_id = ''dep_01ARZ3NDEKTSV4RRFFQ69G5FAV'', mb_state = state, mb_role_id = AUDITOR,
      mb_membership_version = 3, mb_provider_user_reference = sample_reference,
      mb_provider_principal_key = ''user-2'', mb_created_at = sample_time, mb_updated_at = sample_time,
      mb_invitation_expires_at = (if state = INVITED then Some sample_deadline else None)\<rparr>"

definition sample_receipt :: "string \<Rightarrow> string \<Rightarrow> provider_receipt" where
  "sample_receipt digest state =
     \<lparr>pr_subject = ''user-2'', pr_provider_user_reference = sample_reference,
      pr_provider_principal_key = ''user-2'', pr_principal_locator_digest = digest, pr_state = state\<rparr>"

definition granted :: "approval_query \<Rightarrow> approval_evidence" where
  "granted q =
     \<lparr>ap_schema_version = LIFECYCLE_APPROVAL_SCHEMA_VERSION,
      ap_approval_reference = aq_approval_reference q, ap_approver_subject = ''user-3'',
      ap_customer_id = aq_customer_id q, ap_deployment_id = aq_deployment_id q,
      ap_operation = aq_operation q, ap_target_reference = aq_target_reference q,
      ap_request_digest = aq_request_digest q, ap_state = ''approved'', ap_expires_at = sample_deadline\<rparr>"

definition checkpointed :: "operation_record \<Rightarrow> lifecycle_stage \<Rightarrow> op_evidence option \<Rightarrow> operation_record" where
  "checkpointed r next_stage evidence = r\<lparr>or_stage := next_stage,
     or_evidence := dict_merge (or_evidence r) (case evidence of Some e \<Rightarrow> e | None \<Rightarrow> [])\<rparr>"

text \<open>A member in state \<open>state\<close>; the ledger is empty.\<close>

definition sample_ports :: "membership_state \<Rightarrow> unit lifecycle_runtime" where
  "sample_ports state =
     \<lparr>rt_reserve_operation = (\<lambda>cm. ret (Inst (operation_record_new cm sample_time))),
      rt_reserve_provider_effect =
        (\<lambda>x. ret (Inst \<lparr>eo_reservation = Inst x, eo_applied_here = True\<rparr>)),
      rt_checkpoint_operation = (\<lambda>r s s' e. ret (Inst
        \<lparr>co_record = Inst (checkpointed r s' e), co_applied_here = True\<rparr>)),
      rt_list_memberships = (\<lambda>_ _ _ _. ret (Inst \<lparr>mp_items = [], mp_next_cursor = None\<rparr>)),
      rt_load_membership = (\<lambda>_ _. ret (Inst (sample_member state))),
      rt_create_invited_membership = (\<lambda>_ _ _ _ _. ret (Inst (sample_member INVITED))),
      rt_transition_membership = (\<lambda>q. ret (Inst ((sample_member (tq_next_state q))
         \<lparr>mb_membership_version := tq_expected_version q + 1, mb_role_id := tq_next_role q\<rparr>))),
      rt_refresh_invitation = (\<lambda>m n t ref. ret (Inst (m
         \<lparr>mb_membership_version := n + 1, mb_invitation_expires_at := Some t\<rparr>))),
      rt_invite_user = (\<lambda>q. ret (Inst (sample_receipt (iq_principal_locator_digest q) ''invited''))),
      rt_resend_invitation = (\<lambda>_. ret (Inst (sample_receipt (digest_of []) ''invited''))),
      rt_confirm_activation = (\<lambda>_. ret (Inst (sample_receipt (digest_of []) ''active''))),
      rt_set_user_enabled = (\<lambda>_ b. ret (Inst (sample_receipt (digest_of [])
         (if b then ''active'' else ''disabled'')))),
      rt_revoke_sessions = (\<lambda>_. ret (PStr sample_reference)),
      rt_resolve_approval = (\<lambda>q. ret (Inst (granted q))),
      rt_emit_audit = (\<lambda>e. ret (Inst
        \<lparr>lr_schema_version = LIFECYCLE_AUDIT_RECEIPT_SCHEMA_VERSION,
         lr_decision_id = (case map_of e ''decision_id'' of Some (PStr s) \<Rightarrow> s | _ \<Rightarrow> []),
         lr_receipt_reference = sample_reference, lr_acknowledged_at = sample_time\<rparr>)),
      rt_clock = ret (Inst sample_time), rt_list_events = None\<rparr>"

definition ports :: "membership_state \<Rightarrow> unit logging lifecycle_runtime" where
  "ports state = logged (sample_ports state)"

definition sample_owner_pair :: owner where
  "sample_owner_pair = (''cust_01ARZ3NDEKTSV4RRFFQ69G5FAV'', ''dep_01ARZ3NDEKTSV4RRFFQ69G5FAV'')"

lemmas ports_defs = ports_def logged_def sample_ports_def unlogged_def recorded_def

section \<open>One step after the other\<close>

lemma epoch_of_sample_time: "epoch_of_instant (instant_of_epoch 1000) = 1000"
  by (simp add: epoch_of_instant_def instant_of_epoch_def epoch_days_def day_us_def second_us_def)

lemma is_aware_sample [simp]: "is_aware sample_time" "is_aware sample_deadline"
  by (simp_all add: sample_time_def sample_deadline_def)

lemma sample_before_deadline [simp]: "instant sample_time < instant sample_deadline"
  by (simp add: sample_time_def sample_deadline_def instant_of_epoch_def epoch_days_def second_us_def)

lemma sample_now: "service_now (ports st) s = (Inr sample_time, s)"
  by (cases s) (simp add: service_now_def ports_defs io_simps)

lemma ascii_policy: "is_ascii POLICY_DIGEST"
  by (simp add: is_ascii_def POLICY_DIGEST_def code_def)

lemma sample_role_checks:
  "role_checks admin_auth [CUSTOMER_ADMIN] True sample_time = Inr ()"
  "role_checks admin_auth [CUSTOMER_ADMIN] False now = Inr ()"
proof -
  have "caller_identity_checks admin_auth = map Inr [True, True, True, True, True, True]"
    by (simp add: caller_identity_checks_def admin_auth_def sample_auth_def pattern_simps str_sat_def py_eq_PStr)
  moreover have "snapshot_checks admin_auth admin_snapshot [CUSTOMER_ADMIN] = map Inr (replicate 11 True)"
    by (simp add: snapshot_checks_def admin_auth_def sample_auth_def admin_snapshot_def sample_snapshot_def
        is_member_def py_eq_PStr role_in_def unhashable_def str_sat_def compare_digest_def version_constants
        ascii_policy numeral_eq_Suc)
  moreover have "privileged_checks admin_snapshot sample_time = map Inr (replicate 5 True)"
    by (simp add: privileged_checks_def admin_snapshot_def sample_snapshot_def is_member_def
        event_reference_check_def sample_reference_def pattern_simps sample_time_def epoch_of_sample_time
        MAX_PRIVILEGED_AUTH_AGE_SECONDS_def numeral_eq_Suc)
  ultimately show "role_checks admin_auth [CUSTOMER_ADMIN] True sample_time = Inr ()"
    "role_checks admin_auth [CUSTOMER_ADMIN] False now = Inr ()"
    by (simp_all add: role_checks_def demand_def admin_auth_def numeral_eq_Suc)
qed

lemma sample_owner: "owner_of admin_auth = sample_owner_pair"
  by (simp add: owner_of_def admin_auth_def sample_auth_def sample_owner_pair_def)

lemma sample_admin: "require_admin (ports st) admin_auth True s = (Inr sample_owner_pair, s)"
  by (simp add: require_admin_def require_roles_def bind_def sample_now lift_def ret_def sample_role_checks(1)
      sample_owner)

lemma hex_ascii: "list_all is_lower_hex s \<Longrightarrow> is_ascii s"
  by (auto simp: is_ascii_def list_all_iff char_class_defs)

lemma ascii_digest [simp]: "is_ascii (digest_of s)"
  using hex_ascii [OF sha256_hex_lower_hex [of s]] by (simp add: digest_of_def is_ascii_def code_def)

lemma ascii_reference [simp]: "is_ascii (reference_of vs)"
  using hex_ascii [OF sha256_hex_take_lower_hex [of 32 "join unit_separator vs"]]
  by (simp add: reference_of_def is_ascii_def code_def)

lemma ascii_sample_ref [simp]: "is_ascii sample_ref"
  by (simp add: sample_ref_def is_ascii_def code_def)

lemma sample_patterns [simp]:
  "membership_reference_pattern sample_ref" "idempotency_pattern sample_key"
  "approval_reference_pattern sample_approval" "opaque_reference_pattern sample_reference"
  "subject_pattern ''user-1''" "subject_pattern ''user-2''" "subject_pattern ''user-3''"
  by (simp_all add: sample_ref_def sample_key_def sample_approval_def sample_reference_def pattern_simps
      membership_reference_pattern_def idempotency_pattern_def approval_reference_pattern_def)

text \<open>The records the ledger of the sample hands out.\<close>

definition sound_record :: "operation_record \<Rightarrow> bool" where
  "sound_record r \<longleftrightarrow> or_schema_version r = LIFECYCLE_OPERATION_SCHEMA_VERSION \<and>
     (\<exists>s. or_request_digest r = digest_of s) \<and> evidence_well_formed (or_evidence r) \<and>
     or_created_at r = sample_time \<and> or_updated_at r = sample_time"

lemma evidence_dict_put:
  "evidence_well_formed d \<Longrightarrow> k \<noteq> [] \<Longrightarrow> v \<noteq> [] \<Longrightarrow> evidence_well_formed (dict_put k v d)"
  by (induction d) (auto simp: evidence_well_formed_def)

lemma evidence_dict_merge:
  "evidence_well_formed d \<Longrightarrow> evidence_well_formed e \<Longrightarrow> evidence_well_formed (dict_merge d e)"
proof (induction e arbitrary: d)
  case (Cons x e)
  obtain k v where x: "x = (k, v)" by fastforce
  with Cons.prems(2) have kv: "k \<noteq> []" "v \<noteq> []" and e: "evidence_well_formed e"
    by (simp_all add: evidence_well_formed_def)
  from Cons.IH [OF evidence_dict_put [OF Cons.prems(1) kv] e] x show ?case by (simp add: dict_merge_def)
qed (simp add: dict_merge_def)

lemma sample_checkpoint:
  assumes "sound_record r" "evidence_well_formed (case e of Some e' \<Rightarrow> e' | None \<Rightarrow> [])"
  shows "service_checkpoint_outcome (ports st) r s1 s2 e s = (Inr (checkpointed r s2 e, True), s)"
    and "sound_record (checkpointed r s2 e)"
proof -
  show sound: "sound_record (checkpointed r s2 e)"
    using assms by (auto simp: sound_record_def checkpointed_def intro: evidence_dict_merge)
  obtain d where d: "or_request_digest r = digest_of d" using assms(1) by (auto simp: sound_record_def)
  have "demand (checkpoint_checks r s2 e (checkpointed r s2 e)) unavailable = Inr ()"
    using assms(1) sound
    by (auto simp: demand_Inr checkpoint_checks_def checkpointed_def sound_record_def digest_of_pattern
        compare_digest_def not_before_def)
  then show "service_checkpoint_outcome (ports st) r s1 s2 e s = (Inr (checkpointed r s2 e, True), s)"
    by (cases s) (simp add: service_checkpoint_outcome_def ports_defs io_simps)
qed

lemma sample_service_checkpoint:
  "sound_record r \<Longrightarrow> evidence_well_formed (case e of Some e' \<Rightarrow> e' | None \<Rightarrow> []) \<Longrightarrow>
    service_checkpoint (ports st) r s1 s2 e s = (Inr (checkpointed r s2 e), s)"
  by (simp add: service_checkpoint_def bind_def sample_checkpoint ret_def)

lemma sample_load:
  "load_owned (ports st) sample_owner_pair ref s = (Inr (sample_member st), s)"
proof -
  have "demand (membership_checks (sample_member st) sample_owner_pair) unavailable = Inr ()"
    by (simp add: demand_Inr membership_checks_def sample_member_def sample_owner_pair_def)
  then show ?thesis
    by (cases s) (simp add: load_owned_def ports_defs io_simps validate_membership_def)
qed

lemma sample_reserve:
  assumes "cm_request_digest cm = digest_of d"
  shows "reserve (ports st) cm s = (Inr (operation_record_new cm sample_time), s)"
    and "sound_record (operation_record_new cm sample_time)"
proof -
  have "reserved_checks cm (operation_record_new cm sample_time) = Inr ()"
    using assms by (simp add: reserved_checks_def demand_def operation_record_new_def digest_of_pattern
        operation_reference_of_pattern compare_digest_def evidence_well_formed_def not_before_def)
  then show "reserve (ports st) cm s = (Inr (operation_record_new cm sample_time), s)"
    by (cases s) (simp add: reserve_def ports_defs io_simps)
  show "sound_record (operation_record_new cm sample_time)"
    using assms by (auto simp: sound_record_def operation_record_new_def evidence_well_formed_def)
qed

definition sample_query :: "lifecycle_operation \<Rightarrow> string \<Rightarrow> string \<Rightarrow> approval_query" where
  "sample_query op target digest =
     \<lparr>aq_approval_reference = sample_approval, aq_operation = op, aq_target_reference = target,
      aq_request_digest = digest, aq_customer_id = fst sample_owner_pair,
      aq_deployment_id = snd sample_owner_pair, aq_now = sample_time\<rparr>"

lemma sample_approved:
  assumes "is_ascii target" "is_ascii digest" "subject \<noteq> Some ''user-3''"
  shows "resolve_approval (ports st) sample_approval op target digest ''user-1'' subject sample_owner_pair (u, l)
    = (Inr (granted (sample_query op target digest)),
       (u, l @ [ResolveApproval (sample_query op target digest) (Inr (Inst (granted (sample_query op target digest))))]))"
proof -
  let ?q = "sample_query op target digest"
  have "demand (approval_checks_before ?q (granted ?q)) denied = Inr ()"
    using assms by (simp add: demand_Inr approval_checks_before_def granted_def sample_query_def compare_digest_def)
  moreover have "rt_resolve_approval (ports st) ?q (u, l)
      = (Inr (Inst (granted ?q)), (u, l @ [ResolveApproval ?q (Inr (Inst (granted ?q)))]))"
    by (simp add: ports_defs io_simps)
  moreover have "service_now (ports st) x = (Inr sample_time, x)" for x by (rule sample_now)
  ultimately show ?thesis
    using assms(3)
    by (simp add: resolve_approval_def bind_def catch_def lift_def ret_def raise_def ensure_def
        flip: sample_query_def) (auto simp: granted_def split: option.splits)
qed

definition sample_request :: transition_request where
  "sample_request = \<lparr>tr_expected_membership_version = 3, tr_approval_reference = sample_approval,
     tr_reason_code = ''rotation'', tr_replacement_membership_reference = None\<rparr>"

definition sample_command :: "lifecycle_operation \<Rightarrow> (string \<times> json) list \<Rightarrow> lifecycle_command" where
  "sample_command op payload =
     \<lparr>cm_operation = op, cm_customer_id = fst sample_owner_pair, cm_deployment_id = snd sample_owner_pair,
      cm_actor_subject = ''user-1'', cm_idempotency_key = sample_key,
      cm_request_digest = digest_of (canonical_document op payload)\<rparr>"

lemma sample_request_fields [simp]:
  "tr_expected_membership_version sample_request = 3" "tr_approval_reference sample_request = sample_approval"
  "tr_reason_code sample_request = ''rotation''" "tr_replacement_membership_reference sample_request = None"
  by (simp_all add: sample_request_def)

lemma sample_member_fields [simp]:
  "mb_membership_reference (sample_member st) = sample_ref" "mb_subject (sample_member st) = ''user-2''"
  "mb_state (sample_member st) = st" "mb_role_id (sample_member st) = AUDITOR"
  "mb_membership_version (sample_member st) = 3"
  "mb_provider_user_reference (sample_member st) = sample_reference"
  "mb_provider_principal_key (sample_member st) = ''user-2''"
  "mb_invitation_expires_at (sample_member st) = (if st = INVITED then Some sample_deadline else None)"
  by (simp_all add: sample_member_def)

lemma admin_subject [simp]: "ac_subject admin_auth = PStr ''user-1''"
  by (simp add: admin_auth_def sample_auth_def)

lemma sample_command: "lifecycle_command_of op admin_auth sample_key payload = Inr (sample_command op payload)"
  by (simp add: lifecycle_command_of_def sample_command_def admin_auth_def sample_auth_def sample_owner_pair_def)

definition sample_record :: "lifecycle_operation \<Rightarrow> (string \<times> json) list \<Rightarrow> operation_record" where
  "sample_record op payload = operation_record_new (sample_command op payload) sample_time"

lemma sample_reserved:
  "reserve (ports st) (sample_command op payload) s = (Inr (sample_record op payload), s)"
  "sound_record (sample_record op payload)"
  unfolding sample_record_def
  by (rule sample_reserve [where d = "canonical_document op payload"], simp add: sample_command_def)+

lemma sample_record_fields [simp]:
  "or_stage (sample_record op payload) = RESERVED" "or_evidence (sample_record op payload) = []"
  "or_request_digest (sample_record op payload) = digest_of (canonical_document op payload)"
  by (simp_all add: sample_record_def operation_record_new_def sample_command_def)

lemma checkpointed_fields [simp]:
  "or_stage (checkpointed r s e) = s"
  "or_evidence (checkpointed r s e) = dict_merge (or_evidence r) (case e of Some e \<Rightarrow> e | None \<Rightarrow> [])"
  "or_request_digest (checkpointed r s e) = or_request_digest r"
  by (simp_all add: checkpointed_def)

section \<open>A suspension, from the request to the audit event\<close>

abbreviation suspension :: operation_record where
  "suspension \<equiv> sample_record SUSPEND (transition_payload sample_ref sample_request None)"

definition suspension_query :: approval_query where
  "suspension_query = sample_query SUSPEND sample_ref (or_request_digest suspension)"

definition suspension_evidence :: op_evidence where
  "suspension_evidence = transition_evidence SUSPEND (granted suspension_query) (sample_member ACTIVE)
     ACTIVE SUSPENDED AUDITOR ''rotation'' None"

lemma suspension_validated:
  "transition_validate (ports ACTIVE) admin_auth sample_owner_pair sample_ref sample_request SUSPEND None suspension ((), l)
    = (Inr (checkpointed suspension APPROVAL_VALIDATED (Some suspension_evidence)),
       ((), l @ [ResolveApproval suspension_query (Inr (Inst (granted suspension_query)))]))"
  "sound_record (checkpointed suspension APPROVAL_VALIDATED (Some suspension_evidence))"
proof -
  have w: "evidence_well_formed suspension_evidence"
    by (simp add: suspension_evidence_def transition_evidence_def evidence_well_formed_def effect_order_def
        granted_def suspension_query_def sample_query_def sample_member_def sample_approval_def sample_ref_def
        sample_reference_def)
  from sample_checkpoint(2) [OF sample_reserved(2)] w
  show "sound_record (checkpointed suspension APPROVAL_VALIDATED (Some suspension_evidence))" by simp
  have plan: "transition_plan SUSPEND (sample_member ACTIVE) None = Inr (ACTIVE, SUSPENDED, AUDITOR)"
    by (simp add: transition_plan_def)
  show "transition_validate (ports ACTIVE) admin_auth sample_owner_pair sample_ref sample_request SUSPEND None suspension ((), l)
    = (Inr (checkpointed suspension APPROVAL_VALIDATED (Some suspension_evidence)),
       ((), l @ [ResolveApproval suspension_query (Inr (Inst (granted suspension_query)))]))"
    using w
    by (simp add: transition_validate_def bind_def sample_load ensure_def lift_def ret_def plan
        invitation_open_def require_last_admin_safe_def removes_admin_def sample_approved
        sample_service_checkpoint sample_reserved(2) suspension_query_def suspension_evidence_def py_eq_PStr)
qed

lemma suspension_recorded:
  "map_of suspension_evidence = [''approval_reference'' \<mapsto> sample_approval,
     ''membership_reference'' \<mapsto> sample_ref, ''subject'' \<mapsto> ''user-2'',
     ''provider_user_reference'' \<mapsto> sample_reference, ''provider_principal_key'' \<mapsto> ''user-2'',
     ''expected_state'' \<mapsto> ''active'', ''desired_state'' \<mapsto> ''suspended'', ''before_role_id'' \<mapsto> ''auditor'',
     ''after_role_id'' \<mapsto> ''auditor'', ''before_membership_version'' \<mapsto> show_int 3,
     ''reason_code'' \<mapsto> ''rotation'', ''effect_order'' \<mapsto> ''membership_before_provider'']"
  by (rule ext) (simp add: suspension_evidence_def transition_evidence_def effect_order_def provider_first_def
      provider_last_def granted_def suspension_query_def sample_query_def)

text \<open>A record in the middle of the suspension, with the evidence recorded after the decision.\<close>

definition suspending :: "lifecycle_stage \<Rightarrow> op_evidence \<Rightarrow> operation_record \<Rightarrow> bool" where
  "suspending st extra r \<longleftrightarrow> sound_record r \<and> or_stage r = st \<and>
     map_of (or_evidence r) = map_of suspension_evidence ++ map_of extra"

lemma suspending_checkpoint:
  assumes "suspending st extra r" "evidence_well_formed e" "distinct (map fst e)"
  shows "suspending st' (e @ extra) (checkpointed r st' (Some e))"
  using assms sample_checkpoint(2) [of r "Some e"]
  by (auto simp: suspending_def map_of_dict_merge)

lemma suspending_advance:
  assumes "suspending st extra r"
  shows "suspending st' extra (checkpointed r st' None)"
  using assms sample_checkpoint(2) [of r None]
  by (auto simp: suspending_def evidence_well_formed_def dict_merge_def)

lemma suspending_identity:
  assumes "suspending st extra r" "list_all (\<lambda>(k, v). k \<notin> {''subject'', ''provider_user_reference'',
    ''provider_principal_key'', ''membership_reference''}) extra"
  shows "provider_identity_of r sample_owner_pair sample_key = Inr
    \<lparr>pi_subject = ''user-2'', pi_provider_user_reference = sample_reference,
     pi_provider_principal_key = ''user-2'', pi_customer_id = fst sample_owner_pair,
     pi_deployment_id = snd sample_owner_pair, pi_idempotency_key = sample_key\<rparr>"
proof -
  have none: "map_of extra k = None" if "k \<in> {''subject'', ''provider_user_reference'',
      ''provider_principal_key'', ''membership_reference''}" for k
    using assms(2) that by (force simp: map_of_eq_None_iff list_all_iff)
  have "map_of extra ''subject'' = None" "map_of extra ''provider_user_reference'' = None"
      "map_of extra ''provider_principal_key'' = None"
    by (rule none, simp)+
  with assms(1) show ?thesis
    by (simp add: provider_identity_of_def evidence_at_def suspending_def map_add_def suspension_recorded)
qed

lemma suspending_membership:
  assumes "suspending APPROVAL_VALIDATED [] r"
  shows "\<exists>q r'. apply_membership_effect (ports ACTIVE) r sample_owner_pair APPROVAL_VALIDATED ((), l)
      = (Inr r', ((), l @ [WriteMembership q])) \<and> tq_current q = sample_member ACTIVE \<and>
    tq_next_state q = SUSPENDED \<and> suspending MEMBERSHIP_APPLIED [(''after_membership_version'', show_int 4)] r'"
proof -
  let ?e = "[(''after_membership_version'', show_int 4)]"
  let ?q = "\<lparr>tq_current = sample_member ACTIVE, tq_expected_state = ACTIVE, tq_expected_version = 3,
     tq_next_state = SUSPENDED, tq_next_role = AUDITOR, tq_operation_reference = or_operation_reference r,
     tq_admin_replacement = None\<rparr>"
  let ?m = "(sample_member SUSPENDED)\<lparr>mb_membership_version := 4, mb_role_id := AUDITOR\<rparr>"
  have map: "map_of (or_evidence r) = map_of suspension_evidence" and snd: "sound_record r"
    using assms by (auto simp: suspending_def)
  have valid: "validate_membership (Inst ?m) sample_owner_pair = Inr ?m"
    by (simp add: validate_membership_def demand_def membership_checks_def sample_member_def sample_owner_pair_def)
  have written: "rt_transition_membership (ports ACTIVE) ?q ((), l) = (Inr (Inst ?m), ((), l @ [WriteMembership ?q]))"
    by (simp add: ports_defs io_simps)
  have "apply_membership_effect (ports ACTIVE) r sample_owner_pair APPROVAL_VALIDATED ((), l)
      = (Inr (checkpointed r MEMBERSHIP_APPLIED (Some ?e)), ((), l @ [WriteMembership ?q]))"
    using snd
    by (simp add: apply_membership_effect_def bind_def lift_def evidence_at_def evidence_int_def evidence_or_def
        map suspension_recorded sample_load recorded_replacement_def write_transition_def catch_def ret_def
        state_of_text_def role_of_text_def membership_state_members_def human_role_members_def of_value_def
        written valid sample_service_checkpoint evidence_well_formed_def)
  moreover have "suspending MEMBERSHIP_APPLIED ?e (checkpointed r MEMBERSHIP_APPLIED (Some ?e))"
    using suspending_checkpoint [OF assms, of ?e] by (simp add: evidence_well_formed_def)
  ultimately show ?thesis by (intro exI [of _ ?q] exI) simp
qed

lemma sample_receipt_valid:
  "validate_provider_receipt (Inst (sample_receipt (digest_of d) st)) st None (Some ''user-2'') (Some sample_reference)
    = Inr (sample_receipt (digest_of d) st)"
  by (simp add: validate_provider_receipt_def demand_def receipt_checks_def sample_receipt_def digest_of_pattern)

lemma suspending_provider:
  assumes "suspending MEMBERSHIP_APPLIED [(''after_membership_version'', show_int 4)] r"
  shows "\<exists>p r'. apply_provider_effect (ports ACTIVE) r SUSPEND sample_owner_pair sample_key MEMBERSHIP_APPLIED ((), l)
      = (Inr r', ((), l @ [ProviderEnable p False])) \<and>
    suspending PROVIDER_APPLIED [(''after_membership_version'', show_int 4)] r'"
proof -
  note id = suspending_identity [OF assms, simplified]
  have call: "provider_call (ports ACTIVE) SUSPEND p ((), l)
      = (Inr (Inst (sample_receipt (digest_of []) ''disabled'')), ((), l @ [ProviderEnable p False]))" for p
    by (simp add: provider_call_def ports_defs io_simps)
  have at: "evidence_at r ''subject'' = Inr ''user-2''"
      "evidence_at r ''provider_user_reference'' = Inr sample_reference"
    using assms by (simp_all add: evidence_at_def suspending_def map_add_def suspension_recorded)
  have snd: "sound_record r" using assms by (simp add: suspending_def)
  have "\<exists>p. apply_provider_effect (ports ACTIVE) r SUSPEND sample_owner_pair sample_key MEMBERSHIP_APPLIED ((), l)
      = (Inr (checkpointed r PROVIDER_APPLIED None), ((), l @ [ProviderEnable p False]))"
    using snd
    by (simp add: apply_provider_effect_def bind_def catch_def lift_def id call at sample_receipt_valid
        sample_service_checkpoint evidence_well_formed_def)
  with suspending_advance [OF assms] show ?thesis by blast
qed

lemma suspending_sessions:
  assumes "suspending PROVIDER_APPLIED [(''after_membership_version'', show_int 4)] r"
  shows "\<exists>p r'. session_step (ports ACTIVE) SUSPEND sample_owner_pair sample_key r ((), l)
      = (Inr r', ((), l @ [ProviderSignOut p])) \<and>
    suspending SESSIONS_REVOKED [(''session_revocation_reference'', sample_reference),
      (''after_membership_version'', show_int 4)] r'"
proof -
  let ?e = "[(''session_revocation_reference'', sample_reference)]"
  note id = suspending_identity [OF assms, simplified]
  have call: "rt_revoke_sessions (ports ACTIVE) p ((), l)
      = (Inr (PStr sample_reference), ((), l @ [ProviderSignOut p]))" for p
    by (simp add: ports_defs io_simps)
  have snd: "sound_record r" "or_stage r = PROVIDER_APPLIED" using assms by (simp_all add: suspending_def)
  have wf: "evidence_well_formed ?e" by (simp add: evidence_well_formed_def sample_reference_def)
  have "\<exists>p. session_step (ports ACTIVE) SUSPEND sample_owner_pair sample_key r ((), l)
      = (Inr (checkpointed r SESSIONS_REVOKED (Some ?e)), ((), l @ [ProviderSignOut p]))"
    using snd wf
    by (simp add: session_step_def session_ready_stage_def provider_last_def bind_def catch_def lift_def id call
        ensure_def str_sat_def ret_def sample_service_checkpoint)
  with suspending_checkpoint [OF assms wf] show ?thesis by auto
qed

lemma suspending_audit:
  assumes "suspending SESSIONS_REVOKED [(''session_revocation_reference'', sample_reference),
      (''after_membership_version'', show_int 4)] r"
  shows "\<exists>e out. audit_and_complete (ports ACTIVE) r admin_auth ((), l)
      = (Inr out, ((), l @ [EmitAudit e])) \<and> lo_status out = ''completed''"
proof -
  let ?e = "[(''audit_receipt_reference'', sample_reference)]"
  have snd: "sound_record r" "or_stage r = SESSIONS_REVOKED" using assms by (simp_all add: suspending_def)
  have wf: "evidence_well_formed ?e" by (simp add: evidence_well_formed_def sample_reference_def)
  have "\<exists>e. lifecycle_event r admin_auth = Inr e \<and> map_of e ''decision_id'' = Some (PStr (lifecycle_decision_id r))"
    using assms by (simp add: lifecycle_event_def evidence_at_def suspending_def map_add_def suspension_recorded
        admin_auth_def admin_snapshot_def)
  then obtain e where e: "lifecycle_event r admin_auth = Inr e"
    "map_of e ''decision_id'' = Some (PStr (lifecycle_decision_id r))" by blast
  let ?rc = "\<lparr>lr_schema_version = LIFECYCLE_AUDIT_RECEIPT_SCHEMA_VERSION, lr_decision_id = lifecycle_decision_id r,
     lr_receipt_reference = sample_reference, lr_acknowledged_at = sample_time\<rparr>"
  have emit: "rt_emit_audit (ports ACTIVE) e ((), l) = (Inr (Inst ?rc), ((), l @ [EmitAudit e]))"
    by (simp add: ports_defs io_simps e)
  have rc: "demand (audit_receipt_checks (lifecycle_decision_id r) ?rc) unavailable = Inr ()"
    by (simp add: demand_def audit_receipt_checks_def lifecycle_decision_id_def compare_digest_def)
  note step = sample_checkpoint(2) [OF snd(1), of "Some ?e" AUDIT_COMMITTED, simplified, OF wf]
  have "audit_step (ports ACTIVE) r admin_auth ((), l)
      = (Inr (checkpointed r AUDIT_COMMITTED (Some ?e)), ((), l @ [EmitAudit e]))"
    using snd wf by (simp add: audit_step_def bind_def catch_def lift_def e(1) emit rc sample_now ensure_def ret_def
        not_before_def sample_service_checkpoint)
  then show ?thesis
    using snd(2) step
    by (simp add: audit_and_complete_def bind_def sample_service_checkpoint ensure_def ret_def completed_outcome_def
        evidence_well_formed_def)
qed

lemma suspension_run:
  "\<exists>wq p p' e out. transition_resume (ports ACTIVE) admin_auth sample_owner_pair sample_ref sample_request
      SUSPEND sample_key None suspension ((), []) = (Inr out, ((),
        [ResolveApproval suspension_query (Inr (Inst (granted suspension_query))), WriteMembership wq,
         ProviderEnable p False, ProviderSignOut p', EmitAudit e])) \<and> lo_status out = ''completed''"
proof -
  let ?r1 = "checkpointed suspension APPROVAL_VALIDATED (Some suspension_evidence)"
  let ?l1 = "[ResolveApproval suspension_query (Inr (Inst (granted suspension_query)))]"
  let ?e = "[(''after_membership_version'', show_int 4)]"
  have "distinct (map fst suspension_evidence)"
    by (simp add: suspension_evidence_def transition_evidence_def)
  with suspension_validated(2) have r1: "suspending APPROVAL_VALIDATED [] ?r1"
    by (simp add: suspending_def map_of_dict_merge)
  obtain wq r2 where r2: "suspending MEMBERSHIP_APPLIED ?e r2"
    "apply_membership_effect (ports ACTIVE) ?r1 sample_owner_pair APPROVAL_VALIDATED ((), ?l1)
       = (Inr r2, ((), ?l1 @ [WriteMembership wq]))"
    using suspending_membership [OF r1] by blast
  obtain p r3 where r3: "suspending PROVIDER_APPLIED ?e r3"
    "apply_provider_effect (ports ACTIVE) r2 SUSPEND sample_owner_pair sample_key MEMBERSHIP_APPLIED
       ((), ?l1 @ [WriteMembership wq]) = (Inr r3, ((), (?l1 @ [WriteMembership wq]) @ [ProviderEnable p False]))"
    using suspending_provider [OF r2(1)] by blast
  obtain p' r4 where r4: "suspending SESSIONS_REVOKED ((''session_revocation_reference'', sample_reference) # ?e) r4"
    "session_step (ports ACTIVE) SUSPEND sample_owner_pair sample_key r3
       ((), (?l1 @ [WriteMembership wq]) @ [ProviderEnable p False])
     = (Inr r4, ((), ((?l1 @ [WriteMembership wq]) @ [ProviderEnable p False]) @ [ProviderSignOut p']))"
    using suspending_sessions [OF r3(1)] by blast
  obtain e out where out: "audit_and_complete (ports ACTIVE) r4 admin_auth
       ((), ((?l1 @ [WriteMembership wq]) @ [ProviderEnable p False]) @ [ProviderSignOut p'])
     = (Inr out, ((), (((?l1 @ [WriteMembership wq]) @ [ProviderEnable p False]) @ [ProviderSignOut p']) @ [EmitAudit e]))"
    "lo_status out = ''completed''"
    using suspending_audit [OF r4(1)] by blast
  have order: "map_of (or_evidence ?r1) ''effect_order'' = Some ''membership_before_provider''"
    using r1 by (simp add: suspending_def suspension_recorded)
  have effects: "transition_effects (ports ACTIVE) SUSPEND sample_owner_pair sample_key ?r1 ((), ?l1)
     = (Inr r4, ((), ((?l1 @ [WriteMembership wq]) @ [ProviderEnable p False]) @ [ProviderSignOut p']))"
    using r2 r3 r4 by (simp add: transition_effects_def bind_def provider_first_def provider_last_def suspending_def ret_def)
  have "transition_resume (ports ACTIVE) admin_auth sample_owner_pair sample_ref sample_request
      SUSPEND sample_key None suspension ((), []) = (Inr out, ((),
        (((?l1 @ [WriteMembership wq]) @ [ProviderEnable p False]) @ [ProviderSignOut p']) @ [EmitAudit e]))"
    using order effects out
    by (simp add: transition_resume_def bind_def suspension_validated(1) ensure_def ret_def effect_order_def
        provider_first_def provider_last_def del: append_assoc checkpointed_fields(2))
  with out(2) show ?thesis by auto
qed

lemma suspension_request:
  "transition (ports ACTIVE) admin_auth sample_ref sample_request SUSPEND sample_key None s
    = transition_resume (ports ACTIVE) admin_auth sample_owner_pair sample_ref sample_request
      SUSPEND sample_key None suspension s"
  by (simp add: transition_def bind_def sample_admin ensure_def ret_def lift_def sample_command sample_reserved(1))

section \<open>The hypotheses of the lifecycle properties hold together\<close>

theorem privileged_caller_witness:
  "\<exists>out es sn. run_method (ports ACTIVE) admin_auth sample_key (Suspend sample_ref sample_request) ((), [])
      = (Inr out, ((), es)) \<and> lifecycle_caller admin_auth [CUSTOMER_ADMIN] sn \<and> recently_authenticated sn sample_time"
proof -
  obtain out es where "transition (ports ACTIVE) admin_auth sample_ref sample_request SUSPEND sample_key None ((), [])
      = (Inr out, ((), es))"
    using suspension_run unfolding suspension_request by force
  then have run: "run_method (ports ACTIVE) admin_auth sample_key (Suspend sample_ref sample_request) ((), [])
      = (Inr out, ((), es))" by (simp add: suspend_membership_def)
  from privileged_caller [OF run] run show ?thesis by (auto simp: sample_now)
qed

theorem load_owned_sound_witness:
  "load_owned (ports ACTIVE) sample_owner_pair sample_ref ((), []) = (Inr (sample_member ACTIVE), ((), [])) \<and>
   mb_customer_id (sample_member ACTIVE) = fst sample_owner_pair"
  using load_owned_sound [OF sample_load [of ACTIVE sample_ref "((), [])"]] sample_load by blast

theorem resolve_approval_sound_witness:
  "\<exists>q. grants q ''user-1'' (Some ''user-2'') (granted (sample_query SUSPEND sample_ref (digest_of ''x'')))"
  using resolve_approval_sound [OF sample_approved [of sample_ref "digest_of ''x''" "Some ''user-2''" ACTIVE SUSPEND "()" "[]"]]
  by auto

theorem checkpoint_sound_witness:
  "map_of (or_evidence (checkpointed suspension APPROVAL_VALIDATED (Some [(''a'', ''b'')]))) ''a'' = Some ''b''"
proof -
  have "service_checkpoint_outcome (ports ACTIVE) suspension RESERVED APPROVAL_VALIDATED (Some [(''a'', ''b'')]) ((), [])
     = (Inr (checkpointed suspension APPROVAL_VALIDATED (Some [(''a'', ''b'')]), True), ((), []))"
    by (rule sample_checkpoint(1) [OF sample_reserved(2)]) (simp add: evidence_well_formed_def)
  from checkpoint_sound [OF this] show ?thesis by (simp add: dict_merge_def)
qed

theorem transition_effect_order_witness:
  "\<exists>out es. transition (ports ACTIVE) admin_auth sample_ref sample_request SUSPEND sample_key None ((), [])
      = (Inr out, ((), es)) \<and> lo_status out = ''completed'' \<and> length es = 5 \<and>
    sorted_wrt (<) (map (transition_rank SUSPEND) es)"
proof -
  obtain out es where run: "transition (ports ACTIVE) admin_auth sample_ref sample_request SUSPEND sample_key None ((), [])
      = (Inr out, ((), es))" "lo_status out = ''completed''" "length es = 5"
    using suspension_run unfolding suspension_request by force
  with transition_effect_order [OF run(1) [unfolded ports_def]] show ?thesis by blast
qed

theorem approval_before_effects_witness:
  "\<exists>out es p. transition_resume (ports ACTIVE) admin_auth sample_owner_pair sample_ref sample_request
      SUSPEND sample_key None suspension ((), []) = (Inr out, ((), es)) \<and> ProviderEnable p False \<in> set es \<and>
    (\<exists>q a. ResolveApproval q (Inr (Inst a)) \<in> set es \<and> aq_operation q = SUSPEND \<and>
       ap_approver_subject a \<notin> {''user-1'', mb_subject (sample_member ACTIVE)})"
proof -
  obtain out es p where run: "transition_resume (ports ACTIVE) admin_auth sample_owner_pair sample_ref sample_request
      SUSPEND sample_key None suspension ((), []) = (Inr out, ((), es))" "ProviderEnable p False \<in> set es"
    using suspension_run by force
  have loaded: "mb_subject m = mb_subject (sample_member ACTIVE)"
    if "rt_load_membership (sample_ports ACTIVE) sample_owner_pair sample_ref w = (Inr (Inst m), w')" for w m w'
    using that by (simp add: sample_ports_def ret_def)
  have actor: "py_str (ac_subject admin_auth) = ''user-1''" by (simp add: admin_auth_def sample_auth_def)
  have "or_stage suspension = RESERVED" by simp
  from approval_before_effects [OF run(1) [unfolded ports_def] this run(2) _ loaded]
  obtain q a rest where "es = ResolveApproval q (Inr (Inst a)) # rest" "aq_operation q = SUSPEND"
    "grants q (py_str (ac_subject admin_auth)) (Some (mb_subject (sample_member ACTIVE))) a"
    by auto
  then have "ResolveApproval q (Inr (Inst a)) \<in> set es \<and> aq_operation q = SUSPEND \<and>
      ap_approver_subject a \<notin> {''user-1'', mb_subject (sample_member ACTIVE)}"
    unfolding actor grants_def by auto
  with run show ?thesis by blast
qed

definition replaying :: "unit logging lifecycle_runtime" where
  "replaying = (ports ACTIVE)\<lparr>rt_reserve_operation := (\<lambda>cm. ret (Inst
     (checkpointed (operation_record_new cm sample_time) COMPLETED None)))\<rparr>"

theorem completed_replay_witness:
  "\<exists>out. transition replaying admin_auth sample_ref sample_request SUSPEND sample_key None ((), [])
    = (Inr out, ((), [])) \<and> lo_status out = ''completed''"
proof -
  let ?cm = "sample_command SUSPEND (transition_payload sample_ref sample_request None)"
  have admin: "require_admin replaying admin_auth True s = (Inr sample_owner_pair, s)" for s
    using sample_admin [of ACTIVE s]
    by (simp add: replaying_def require_admin_def require_roles_def service_now_def)
  have sound: "sound_record (checkpointed suspension COMPLETED None)"
    by (rule sample_checkpoint(2) [OF sample_reserved(2)]) (simp add: evidence_well_formed_def)
  have "reserved_checks ?cm (checkpointed suspension COMPLETED None) = Inr ()"
    by (simp add: reserved_checks_def demand_def checkpointed_def sample_record_def operation_record_new_def
        sample_command_def digest_of_pattern operation_reference_of_pattern compare_digest_def
        evidence_well_formed_def not_before_def dict_merge_def)
  then have reserved: "reserve replaying ?cm s = (Inr (checkpointed suspension COMPLETED None), s)" for s
    by (simp add: reserve_def replaying_def bind_def catch_def ret_def lift_def flip: sample_record_def)
  show ?thesis
    by (simp add: completed_replay [OF admin _ _ sample_command reserved])
qed

theorem resend_quarantine_witness:
  "\<exists>res es. resend_invitation (ports INVITED) admin_auth sample_ref
      (transition_request.extend sample_request (resend_request.fields 3600)) sample_key ((), []) = (res, ((), es)) \<and>
    quarantined admin_auth sample_ref (transition_request.extend sample_request (resend_request.fields 3600)) es"
proof -
  obtain res u es where "resend_invitation (ports INVITED) admin_auth sample_ref
      (transition_request.extend sample_request (resend_request.fields 3600)) sample_key ((), []) = (res, (u, es))"
    by (rule prod_cases3 [of "resend_invitation (ports INVITED) admin_auth sample_ref
      (transition_request.extend sample_request (resend_request.fields 3600)) sample_key ((), [])"])
  with resend_quarantine [OF this [unfolded ports_def]] show ?thesis by auto
qed

theorem invite_effect_order_witness:
  "\<exists>res es. invite_user (ports INVITED) admin_auth
      \<lparr>iv_principal_locator = ''a@b.c'', iv_role_id = AUDITOR, iv_expires_in_seconds = 3600,
       iv_approval_reference = sample_approval\<rparr> sample_key ((), []) = (res, ((), es)) \<and>
    sorted_wrt (<) (map invite_rank es)"
proof -
  obtain res u es where "invite_user (ports INVITED) admin_auth
      \<lparr>iv_principal_locator = ''a@b.c'', iv_role_id = AUDITOR, iv_expires_in_seconds = 3600,
       iv_approval_reference = sample_approval\<rparr> sample_key ((), []) = (res, (u, es))"
    by (rule prod_cases3 [of "invite_user (ports INVITED) admin_auth
      \<lparr>iv_principal_locator = ''a@b.c'', iv_role_id = AUDITOR, iv_expires_in_seconds = 3600,
       iv_approval_reference = sample_approval\<rparr> sample_key ((), [])"])
  with invite_effect_order [OF this [unfolded ports_def]] show ?thesis by auto
qed

end
