(* ===== verification/StoreWitness.thy ===== *)
theory StoreWitness
  imports StoreInvariants
begin

text \<open>
  Concrete runs of the store on the table in memory: two administrators of one owner, a
  suspension of one of them against the other, claims and reservations, so that the hypotheses
  of the properties of the store hold together.
\<close>

section \<open>Sample data\<close>

definition admin_member :: "string \<Rightarrow> string \<Rightarrow> membership_record" where
  "admin_member subject reference =
     \<lparr>mb_schema_version = ''enterprise-membership.v1'', mb_membership_reference = reference,
      mb_subject = subject, mb_customer_id = ''cust'', mb_deployment_id = ''dep'', mb_state = ACTIVE,
      mb_role_id = CUSTOMER_ADMIN, mb_membership_version = 2, mb_provider_user_reference = subject,
      mb_provider_principal_key = subject, mb_created_at = Aware 5, mb_updated_at = Aware 6,
      mb_invitation_expires_at = None\<rparr>"

definition anna :: membership_record where "anna = admin_member ''anna'' ''mbr_a''"
definition berta :: membership_record where "berta = admin_member ''berta'' ''mbr_b''"

definition member_item :: "membership_record \<Rightarrow> item" where
  "member_item r = stored_item (the (ok_of (membership_item r)))"

definition two_admins :: memory where
  "two_admins = Map.empty(member_key anna \<mapsto> member_item anna, member_key berta \<mapsto> member_item berta)"

definition suspend_anna :: transition_query where
  "suspend_anna = \<lparr>tq_current = anna, tq_expected_state = ACTIVE, tq_expected_version = 2,
     tq_next_state = SUSPENDED, tq_next_role = CUSTOMER_ADMIN, tq_operation_reference = ''op'',
     tq_admin_replacement = Some berta\<rparr>"

lemma sample_member_item: "membership_item (admin_member s ref) = Inr (the (ok_of (membership_item (admin_member s ref))))"
  by (simp add: membership_item_def adapter_timestamp_def admin_member_def)

lemma sample_fields:
  "membership_fields (member_item (admin_member s ref)) = Some (admin_member s ref)"
  unfolding member_item_def
  by (rule membership_item_fields [OF sample_member_item])
    (simp_all add: admin_member_def member_times_ok_def max_instant_def)

lemma sample_carries: "carries_key (member_key (admin_member s ref)) (member_item (admin_member s ref))"
  using put_membership [OF sample_member_item, of s ref "[]"] by (simp add: member_item_def)

lemma different_keys: "member_key berta \<noteq> member_key anna"
  by (simp add: member_key_def anna_def berta_def admin_member_def)

lemma keyed_empty: "keyed Map.empty"
  by (simp add: keyed_def member_at_def)

lemma keyed_two_admins: "keyed two_admins"
proof -
  have "keyed (Map.empty(member_key anna \<mapsto> member_item anna))"
    by (intro effect_keyed keyed_empty effect_of.created)
      (simp_all add: anna_def sample_fields sample_carries)
  then show ?thesis
    unfolding two_admins_def
    by (rule effect_keyed) (rule effect_of.created,
      use different_keys in \<open>simp_all add: berta_def sample_fields sample_carries\<close>)
qed

lemma sample_members:
  "member_at two_admins (member_key anna) = Some anna" "member_at two_admins (member_key berta) = Some berta"
  using different_keys by (simp_all add: two_admins_def member_at_def anna_def berta_def sample_fields)

definition suspension_checked :: "datetime \<Rightarrow> table_request" where
  "suspension_checked now = Checked (member_key berta) (replacement_tests berta anna) (transition_write suspend_anna now)"

lemma suspension_call: "call_request (TransitionCall suspend_anna) now = Some (suspension_checked now)"
  by (simp add: suspend_anna_def removes_active_admin_def replacement_ok_def anna_def berta_def admin_member_def
      suspension_checked_def)

lemma suspension_allowed: "request_allowed two_admins (suspension_checked now)"
proof -
  have item: "two_admins (member_key anna) = Some (member_item anna)"
      "two_admins (member_key berta) = Some (member_item berta)"
    using different_keys by (simp_all add: two_admins_def)
  have "list_all (test_holds (Some (member_item berta))) (replacement_tests berta anna)"
    by (simp add: replacement_tests_def member_item_def membership_item_def adapter_timestamp_def
        anna_def berta_def admin_member_def py_eq_def)
  moreover have "list_all (test_holds (Some (member_item anna))) (transition_tests anna ACTIVE 2)"
    by (simp add: transition_tests_def member_item_def membership_item_def adapter_timestamp_def
        anna_def admin_member_def py_eq_def)
  ultimately show ?thesis
    by (simp add: suspension_checked_def allowed_def transition_write_def suspend_anna_def item)
qed

definition one_suspended :: memory where
  "one_suspended = request_written two_admins (suspension_checked (Aware 9))"

text \<open>Both administrators are read; then one is suspended against the other.\<close>

lemma suspension_history: "history two_admins one_suspended {berta, anna}"
proof -
  have key: "member_key (admin_member s ref) = (membership_pk ''cust'' ''dep'', subject_sk s)" for s ref
    by (simp add: member_key_def admin_member_def)
  have "history two_admins two_admins {anna}"
    by (rule history.read [OF history.start]) (use sample_members(1) in \<open>simp add: anna_def key\<close>)
  then have "history two_admins two_admins {berta, anna}"
    by (rule history.read) (use sample_members(2) in \<open>simp add: berta_def key\<close>)
  then show ?thesis
    unfolding one_suspended_def
    by (rule history.call [where c = "TransitionCall suspend_anna" and now = "Aware 9"])
      (simp_all only: suspension_call suspension_allowed,
       simp_all add: suspend_anna_def anna_def admin_member_def max_instant_def)
qed

theorem members_only_evolve_witness:
  "\<exists>r'. member_at one_suspended (member_key anna) = Some r' \<and> same_identity anna r' \<and>
    mb_membership_version anna \<le> mb_membership_version r' \<and>
    (mb_membership_version r' = mb_membership_version anna \<longrightarrow> r' = anna)"
  by (rule members_only_evolve [OF suspension_history keyed_two_admins sample_members(1)])

theorem last_admin_stays_witness: "has_admin one_suspended ''cust'' ''dep''"
  by (rule last_admin_stays [OF suspension_history keyed_two_admins],
      rule has_adminI [OF sample_members(1)]) (simp_all add: anna_def admin_member_def is_active_admin_def)

section \<open>Round trips\<close>

definition sample_cm :: lifecycle_command where
  "sample_cm = \<lparr>cm_operation = SUSPEND, cm_customer_id = ''cust'', cm_deployment_id = ''dep'',
     cm_actor_subject = ''anna'', cm_idempotency_key = ''key'', cm_request_digest = ''digest''\<rparr>"

definition sample_op :: operation_record where "sample_op = operation_record_new sample_cm (Aware 5)"

definition sample_effect :: "string \<Rightarrow> effect_reservation" where
  "sample_effect winner =
     \<lparr>er_schema_version = PROVIDER_EFFECT_RESERVATION_SCHEMA_VERSION, er_operation = SUSPEND,
      er_customer_id = ''cust'', er_deployment_id = ''dep'',
      er_target_reference = ''mbr_0123456789abcdef0123456789abcdef'', er_expected_membership_version = 2,
      er_approval_reference = ''apr_0123456789abcdef'',
      er_request_digest = ''sha256:'' @ replicate 64 CHR ''0'', er_actor_subject = ''anna'',
      er_winner_operation_reference = winner, er_created_at = Aware 5\<rparr>"

definition op_a :: string where "op_a = ''op_0123456789abcdef0123456789abcdef''"
definition op_b :: string where "op_b = ''op_ffffffffffffffffffffffffffffffff''"

lemma sample_op_item: "operation_item sample_op = Inr (the (ok_of (operation_item sample_op)))"
  by (simp add: operation_item_def sample_op_def operation_record_new_def validated_operation_evidence_def
      evidence_dict_def adapter_timestamp_def AUDITED_OPERATION_STAGES_def)

lemma sample_effect_item:
  "provider_effect_reservation_item (sample_effect w) = Inr (the (ok_of (provider_effect_reservation_item (sample_effect w))))"
  by (simp add: provider_effect_reservation_item_def sample_effect_def adapter_timestamp_def)

lemma sample_effect_valid: "effect_valid (sample_effect op_a)"
  by (simp add: effect_valid_def sample_effect_def op_a_def pattern_simps max_instant_def list_all_iff char_class_defs)

theorem operation_round_trip_witness:
  "operation_from_item (stored_item (the (ok_of (operation_item sample_op)))) = Inr sample_op"
  by (rule operation_round_trip [OF sample_op_item])
    (simp_all add: sample_op_def operation_record_new_def max_instant_def)

theorem membership_round_trip_witness:
  "membership_from_item (stored_item (the (ok_of (membership_item anna)))) = Inr anna \<and>
   membership_from_item (stored_item (the (ok_of (membership_item anna)) @ [(''last_operation_reference'', PNone)])) = Inr anna"
  unfolding anna_def
  by (rule membership_round_trip [OF sample_member_item])
    (simp_all add: admin_member_def member_times_ok_def max_instant_def)

theorem reservation_round_trip_witness:
  "provider_effect_reservation_from_item (stored_item (the (ok_of (provider_effect_reservation_item (sample_effect op_a)))))
   = Inr (sample_effect op_a)"
  by (rule reservation_round_trip [OF sample_effect_item sample_effect_valid])

section \<open>Operations on the table in memory\<close>

definition table :: "memory_world dynamo" where "table = memory_table (\<lambda>_ _. PNone)"

definition empty_world :: memory_world where "empty_world = \<lparr>mw_items = Map.empty, mw_time = 5\<rparr>"

lemma table_ok: "conditional_table table mw_items"
  unfolding table_def by (rule mem.conditional_table_axioms)

definition claimed :: memory_world where
  "claimed = empty_world\<lparr>mw_items := Map.empty(effect_key (sample_effect op_a) \<mapsto>
     stored_item (the (ok_of (provider_effect_reservation_item (sample_effect op_a)))))\<rparr>"

lemma key_of_sample_effect:
  "key_of (the (ok_of (provider_effect_reservation_item (sample_effect w)))) = effect_key (sample_effect w)"
  by (rule key_of_reservation_item [OF sample_effect_item])

lemma first_claim:
  "store_reserve_provider_effect table (sample_effect op_a) empty_world = (Inr (sample_effect op_a, True), claimed)"
  by (subst store_reserve_provider_effect_def, subst sample_effect_item)
    (simp add: io_simps or_refused_def table_def memory_table_def memory_request_def allowed_def unless_exists_def
      empty_world_def claimed_def request_written_def key_of_sample_effect)

lemma keyed_claimed: "keyed (mw_items claimed)"
  unfolding claimed_def
  by (simp, rule effect_keyed [OF keyed_empty effect_of.reserved])
    (simp_all add: effect_key_def put_reservation [OF sample_effect_item, unfolded effect_key_def])

lemma second_claim:
  "store_reserve_provider_effect table (sample_effect op_b) claimed = (Inr (sample_effect op_a, False), claimed)"
proof -
  let ?k = "effect_key (sample_effect op_a)"
  let ?i = "stored_item (the (ok_of (provider_effect_reservation_item (sample_effect op_a))))"
  have key: "effect_key (sample_effect op_b) = ?k" by (simp add: effect_key_def sample_effect_def)
  have present: "\<not> list_all (test_holds (Some ?i)) unless_exists"
    using keyed_present [OF keyed_claimed, of ?k] by (simp add: present_def claimed_def)
  have "load_provider_effect_reservation table (sample_effect op_b) claimed = (Inr (sample_effect op_a), claimed)"
    using key reservation_read_back [OF sample_effect_item sample_effect_valid]
    by (simp add: load_provider_effect_reservation_def io_simps table_def memory_table_def response_item_def
        response_get_def py_get_def claimed_def effect_key_def)
  moreover have "same_effect (sample_effect op_a) (sample_effect op_b)"
    by (simp add: same_effect_def sample_effect_def)
  ultimately show ?thesis
    using present
    by (subst store_reserve_provider_effect_def, subst sample_effect_item)
      (simp add: io_simps or_refused_def table_def memory_table_def memory_request_def allowed_def
        key_of_sample_effect key claimed_def)
qed

theorem one_winner_witness: "\<not> False \<and> sample_effect op_a = sample_effect op_a"
  by (rule one_winner [OF table_ok first_claim sample_effect_valid history.start keyed_claimed second_claim])
    (simp add: same_effect_def sample_effect_def)

definition reserved_world :: memory_world where
  "reserved_world = empty_world\<lparr>mw_items := Map.empty(operation_key sample_cm \<mapsto>
     stored_item (the (ok_of (operation_item sample_op)))), mw_time := 6\<rparr>"

lemma key_of_sample_op: "key_of (the (ok_of (operation_item sample_op))) = operation_key sample_cm"
  using key_of_operation_item [OF sample_op_item] by (simp add: sample_op_def operation_key_def)

lemma or_refused_ok: "call w = (Inr u, w') \<Longrightarrow> or_refused codes call ok after w = (Inr ok, w')"
  by (simp add: or_refused_def)

lemma table_put:
  "mw_items w (key_of d) = None \<Longrightarrow> dy_put_item table d unless_exists w =
    (Inr (), w\<lparr>mw_items := (mw_items w)(key_of d \<mapsto> stored_item d)\<rparr>)"
  by (simp add: table_def memory_table_def memory_request_def allowed_def unless_exists_def request_written_def)

lemma table_now: "adapter_now table w = (Inr (Aware (mw_time w)), w\<lparr>mw_time := mw_time w + 1\<rparr>)"
  by (simp add: adapter_now_def table_def memory_table_def)

lemma first_reservation: "store_reserve_operation table sample_cm empty_world = (Inr sample_op, reserved_world)"
proof -
  have op: "operation_record_new sample_cm (Aware (mw_time empty_world)) = sample_op"
    by (simp add: sample_op_def empty_world_def)
  show ?thesis
    unfolding store_reserve_operation_def bind_def [of "adapter_now table"] table_now op Let_def prod.case sum.case
    by (subst bind_def, subst sample_op_item, simp add: lift_def, rule or_refused_ok, subst table_put)
      (simp_all add: key_of_sample_op empty_world_def reserved_world_def)
qed

lemma keyed_reserved: "keyed (mw_items reserved_world)"
  unfolding reserved_world_def
  by (simp, rule effect_keyed [OF keyed_empty effect_of.reserved])
    (use put_operation [OF sample_op_item] in \<open>simp_all add: operation_key_def sample_op_def\<close>)

lemma table_put_refused:
  "present (mw_items w) (key_of d) \<Longrightarrow> dy_put_item table d unless_exists w = (Inl (AwsError CONDITIONAL_FAILURE), w)"
  by (simp add: table_def memory_table_def memory_request_def allowed_def present_def)

lemma table_get: "mw_items w k = Some i \<Longrightarrow> dy_get_item table k w = (Inr (PDict [(''Item'', PDict i)]), w)"
  by (simp add: table_def memory_table_def)

lemma or_refused_after:
  "call w = (Inl (AwsError CONDITIONAL_FAILURE), w') \<Longrightarrow> or_refused [CONDITIONAL_FAILURE] call ok after w = after w'"
  by (simp add: or_refused_def)

lemma load_reserved:
  "mw_items w = mw_items reserved_world \<Longrightarrow> load_operation table sample_cm w = (Inr sample_op, w)"
proof -
  assume items: "mw_items w = mw_items reserved_world"
  have "operation_from_item (stored_item (the (ok_of (operation_item sample_op)))) = Inr sample_op"
    by (rule operation_read_back [OF sample_op_item])
      (simp_all add: sample_op_def operation_record_new_def max_instant_def)
  moreover have "mw_items w (operation_pk (cm_customer_id sample_cm) (cm_deployment_id sample_cm),
      idempotency_sk (cm_idempotency_key sample_cm)) = Some (stored_item (the (ok_of (operation_item sample_op))))"
    unfolding items by (simp add: reserved_world_def operation_key_def)
  ultimately show ?thesis
    by (simp add: load_operation_def bind_def table_get response_item_def response_get_def py_get_def lift_def)
qed

definition retried_world :: memory_world where "retried_world = reserved_world\<lparr>mw_time := 7\<rparr>"

lemma second_reservation:
  "store_reserve_operation table sample_cm reserved_world = (Inr sample_op, retried_world)"
proof -
  let ?r = "operation_record_new sample_cm (Aware (mw_time reserved_world))"
  have item: "operation_item ?r = Inr (the (ok_of (operation_item ?r)))"
    by (simp add: operation_item_def operation_record_new_def validated_operation_evidence_def
      evidence_dict_def adapter_timestamp_def AUDITED_OPERATION_STAGES_def)
  have key: "key_of (the (ok_of (operation_item ?r))) = operation_key sample_cm"
    using key_of_operation_item [OF item] by (simp add: operation_key_def)
  have present: "present (mw_items (reserved_world\<lparr>mw_time := mw_time reserved_world + 1\<rparr>)) (operation_key sample_cm)"
    by (simp, rule keyed_present [OF keyed_reserved]) (simp add: reserved_world_def)
  have same: "same_command sample_op sample_cm" by (simp add: sample_op_def)
  show ?thesis
    unfolding store_reserve_operation_def bind_def [of "adapter_now table"] table_now Let_def prod.case sum.case
    by (subst bind_def, subst item, simp only: lift_def prod.case sum.case, subst or_refused_after,
        rule table_put_refused, subst key, rule present)
      (simp add: bind_def load_reserved same ensure_def ret_def, simp add: retried_world_def reserved_world_def)
qed

theorem one_operation_witness:
  "same_operation sample_op sample_op \<and> cm_operation sample_cm = cm_operation sample_cm \<and>
    cm_actor_subject sample_cm = cm_actor_subject sample_cm \<and> cm_request_digest sample_cm = cm_request_digest sample_cm"
  by (rule one_operation [OF table_ok first_reservation _ history.start keyed_reserved second_reservation])
    (simp_all add: sample_op_def operation_record_new_def max_instant_def)

theorem store_call_refines_witness:
  "mw_items reserved_world = mw_items empty_world \<or> (\<exists>now rq. is_aware now \<and>
    call_request (ReserveCall sample_cm) now = Some rq \<and> request_allowed (mw_items empty_world) rq \<and>
    mw_items reserved_world = request_written (mw_items empty_world) rq)"
  by (rule store_call_refines [OF table_ok, of "ReserveCall sample_cm" _ "Inr ()"])
    (simp add: first_reservation bind_def ret_def)

end
