(* ===== verification/SystemWitness.thy ===== *)
theory SystemWitness
  imports LifecycleSite LifecycleWitness StoreWitness
begin

text \<open>
  Concrete runs of the adapters and of the service on the site in memory, at which the
  hypotheses of their properties hold together.
\<close>

section \<open>Audit events\<close>

definition audited :: operation_record where
  "audited = (sample_record SUSPEND (transition_payload sample_ref sample_request None))
     \<lparr>or_stage := SESSIONS_REVOKED,
      or_evidence := [(''approval_reference'', sample_approval), (''after_membership_version'', ''4'')]\<rparr>"

definition audited_event :: event where
  "audited_event = the (ok_of (lifecycle_event audited admin_auth))"

lemma audited_event: "lifecycle_event audited admin_auth = Inr audited_event"
  by (simp add: audited_event_def lifecycle_event_def evidence_at_def audited_def admin_auth_def admin_snapshot_def)

lemma audited_facts: "(or_customer_id audited, or_deployment_id audited) = sample_owner_pair"
    "instant (or_created_at audited) < max_instant"
  by (simp_all add: audited_def sample_record_def operation_record_new_def sample_command_def sample_time_def
      instant_of_epoch_def epoch_days_def second_us_def max_instant_def)

theorem audit_event_fits_witness:
  "audit_event_accepted sample_owner_pair audited_event \<and>
    adapter_parse_timestamp (py_get audited_event ''timestamp'') = Inr (Aware (instant (or_created_at audited))) \<and>
    str_sat opaque_reference_pattern (py_get audited_event ''decision_id'')"
  using audit_event_fits [OF audited_event audited_facts(2)] unfolding audited_facts(1) .

lemmas audited_accepted =
  lifecycle_event_accepted [OF audited_event audited_facts(2), unfolded audited_facts(1)]

definition audited_item :: item where
  "audited_item = audit_item sample_owner_pair (Aware (instant (or_created_at audited)))
     (py_str (py_get audited_event ''decision_id'')) audited_event"

lemma audited_item: "audit_item_of sample_owner_pair audited_event = Some audited_item"
  using audited_accepted by (simp add: audit_item_of_def audited_item_def)

definition audited_world :: memory_world where
  "audited_world = \<lparr>mw_items = Map.empty(key_of audited_item \<mapsto> stored_item audited_item), mw_time = 6\<rparr>"

lemma audited_emit:
  "\<exists>rc. audit_emit table sample_owner_pair audited_event empty_world = (Inr rc, audited_world)"
proof -
  have "or_refused [CONDITIONAL_FAILURE] (dy_put_item table audited_item unless_exists) () after empty_world
      = (Inr (), empty_world\<lparr>mw_items := Map.empty(key_of audited_item \<mapsto> stored_item audited_item)\<rparr>)" for after
    by (rule or_refused_ok, subst table_put) (simp_all add: empty_world_def)
  then show ?thesis
    using audited_accepted
    by (simp add: audit_emit_def bind_def ensure_def ret_def lift_def Let_def table_now
        empty_world_def audited_world_def flip: audited_item_def)
qed

theorem audit_durable_witness:
  "\<exists>d i. audit_item_of sample_owner_pair audited_event = Some d \<and>
    mw_items audited_world (key_of d) = Some i \<and> same_dict i d"
  using audited_emit audit_durable [OF table_ok] by blast

lemma audited_held:
  "\<exists>i. mw_items audited_world (key_of audited_item) = Some i \<and> same_dict i audited_item \<and>
     present (mw_items audited_world) (key_of audited_item)"
proof -
  obtain rc where "audit_emit table sample_owner_pair audited_event empty_world = (Inr rc, audited_world)"
    using audited_emit by blast
  from conditional_table.audit_emit_run [OF table_ok this] audited_item
  have "same_dict (stored_item audited_item) audited_item"
    by (auto simp: empty_world_def audited_world_def present_def unless_exists_def)
  then show ?thesis
    by (simp add: audited_world_def present_def unless_exists_def audited_item_def audit_item_def)
qed

theorem audit_idempotent_witness:
  "\<exists>r w'. audit_emit table sample_owner_pair audited_event audited_world = (r, w') \<and>
    mw_items w' = mw_items audited_world"
proof -
  obtain i where i: "present (mw_items audited_world) (key_of audited_item)"
      "mw_items audited_world (key_of audited_item) = Some i" "same_dict i audited_item"
    using audited_held by blast
  obtain r w' where run: "audit_emit table sample_owner_pair audited_event audited_world = (r, w')" by fastforce
  from audit_idempotent [OF table_ok audited_item i run] audited_accepted run show ?thesis by blast
qed

section \<open>Accounts\<close>

definition new_user :: invite_query where
  "new_user = \<lparr>iq_principal_locator = ''user@example.com'', iq_principal_locator_digest = ''sha256:aaaaaaaaaaaaaaaaaaaaaaaaaaaaaaaaaaaaaaaaaaaaaaaaaaaaaaaaaaaaaaaa'',
     iq_customer_id = ''cust'', iq_deployment_id = ''dep'', iq_idempotency_key = sample_key\<rparr>"

definition new_user_key :: string where "new_user_key = provider_key_of (iq_principal_locator_digest new_user)"

definition invited_account :: provider_identity where
  "invited_account = \<lparr>pi_subject = ''subject-'' @ new_user_key,
     pi_provider_user_reference = adapter_reference [''pool'', new_user_key, ''subject-'' @ new_user_key],
     pi_provider_principal_key = new_user_key, pi_customer_id = ''cust'', pi_deployment_id = ''dep'',
     pi_idempotency_key = sample_key\<rparr>"

lemma new_user_key: "new_user_key = ''usr-aaaaaaaaaaaaaaaaaaaaaaaaaaaaaaaa''"
  by (simp add: new_user_key_def provider_key_of_def after_colon_def new_user_def)

lemma new_user_patterns:
  "subject_pattern (''subject-'' @ new_user_key)" "subject_pattern new_user_key"
  by (simp_all add: new_user_key pattern_simps)

definition new_user_account :: item where
  "new_user_account = new_account new_user_key [(''email'', iq_principal_locator new_user),
     (''email_verified'', ''false''), (''custom:customerId'', ''cust''), (''custom:deployment_id'', ''dep'')]"

definition directory_after :: directory where
  "directory_after = Map.empty(new_user_key \<mapsto> new_user_account)"

lemma new_user_receipt:
  "\<exists>rc. user_receipt ''pool'' (PDict new_user_account) new_user_key digest ''cust'' ''dep''
      (Some ''invited'') = Inr rc \<and> pr_subject rc = pi_subject invited_account \<and>
    pr_provider_user_reference rc = pi_provider_user_reference invited_account"
  using new_user_patterns(1)
  by (simp add: user_receipt_def new_user_account_def new_account_def user_attribute_list_def py_get_def
      py_eq_PStr user_attributes_def List.map_filter_def user_state_def invited_account_def)

lemma new_user_invited:
  "\<exists>rc. provider_invite (memory_directory ''pool'') new_user Map.empty = (Inr rc, directory_after)"
proof -
  let ?d = "iq_principal_locator_digest new_user"
  have "cg_create (memory_directory ''pool'') new_user_key [(''email'', iq_principal_locator new_user),
      (''email_verified'', ''false''), (''custom:customerId'', ''cust''), (''custom:deployment_id'', ''dep'')] Map.empty
    = (Inr (PDict [(''User'', PDict new_user_account)]), directory_after)"
    by (simp add: memory_directory_def directory_after_def new_user_account_def)
  moreover have "provider_key_of ?d = new_user_key" by (simp add: new_user_key_def)
  moreover have "?d \<noteq> []" "iq_principal_locator new_user \<noteq> []" "iq_customer_id new_user = ''cust''"
      "iq_deployment_id new_user = ''dep''"
    by (simp_all add: new_user_def)
  moreover have "cg_pool (memory_directory ''pool'') = ''pool''" by (simp add: memory_directory_def)
  ultimately show ?thesis
    using new_user_receipt [of ?d]
    by (auto simp: provider_invite_def Let_def bind_def ensure_def ret_def on_error_code_def catch_def
        lift_def response_get_def py_get_def)
qed

lemma new_user_read:
  "\<exists>rc. provider_read_bound (memory_directory ''pool'') invited_account (Some ''invited'') directory_after
    = (Inr rc, directory_after)"
proof -
  have "cg_get (memory_directory ''pool'') new_user_key directory_after
      = (Inr (PDict new_user_account), directory_after)"
    by (simp add: memory_directory_def with_account_def directory_after_def)
  moreover have "request_key invited_account = Inr new_user_key" "pi_provider_principal_key invited_account = new_user_key"
      "pi_customer_id invited_account = ''cust''" "pi_deployment_id invited_account = ''dep''"
    by (simp_all add: request_key_def invited_account_def new_user_patterns)
  moreover have "cg_pool (memory_directory ''pool'') = ''pool''" by (simp add: memory_directory_def)
  ultimately show ?thesis
    using new_user_receipt [of zero_digest]
    by (auto simp: provider_read_bound_def bind_def lift_def provider_get_def ret_def ensure_def)
qed

theorem receipts_fit_witness:
  "\<exists>rc rc2. provider_invite (memory_directory ''pool'') new_user Map.empty = (Inr rc, directory_after) \<and>
    validate_provider_receipt (Inst rc) ''invited'' (Some (iq_principal_locator_digest new_user)) None None = Inr rc \<and>
    validate_provider_receipt (Inst rc2) ''invited'' None (Some (pi_subject invited_account))
      (Some (pi_provider_user_reference invited_account)) = Inr rc2"
proof -
  obtain rc rc2 where runs: "provider_invite (memory_directory ''pool'') new_user Map.empty = (Inr rc, directory_after)"
    "provider_read_bound (memory_directory ''pool'') invited_account (Some ''invited'') directory_after
      = (Inr rc2, directory_after)"
    using new_user_invited new_user_read by blast
  have "digest_pattern (iq_principal_locator_digest new_user)"
    by (simp add: new_user_def pattern_simps digest_pattern_def)
  from receipts_fit [OF runs(1) this runs(2)] runs(1) show ?thesis by blast
qed

theorem account_changes_guarded_witness:
  "\<exists>r w' calls. provider_set_enabled (watched (memory_directory ''pool'')) invited_account False (directory_after, [])
      = (r, (w', calls)) \<and> guarded ''pool'' invited_account False calls"
proof -
  obtain r1 w1 c1 where 1: "provider_resend (watched (memory_directory ''pool'')) invited_account (directory_after, [])
    = (r1, (w1, c1))" by (rule prod_cases3)
  obtain r2 w2 c2 where 2: "provider_set_enabled (watched (memory_directory ''pool'')) invited_account False (directory_after, [])
    = (r2, (w2, c2))" by (rule prod_cases3)
  obtain r3 w3 c3 where 3: "provider_revoke_sessions (watched (memory_directory ''pool'')) invited_account (directory_after, [])
    = (r3, (w3, c3))" by (rule prod_cases3)
  have "cg_pool (memory_directory ''pool'') = ''pool''" by (simp add: memory_directory_def)
  with account_changes_guarded [OF 1 2 3] 2 show ?thesis by auto
qed

section \<open>Cursors\<close>

theorem cursor_round_trip_witness:
  "\<exists>c. cursor_encode [(''pk'', PStr ''MEMBERSHIP#c''), (''sk'', PStr ''SUBJECT#anna'')] = Inr c \<and>
    cursor_decode c ''MEMBERSHIP#c'' ''SUBJECT#'' = Inr [(''pk'', ''MEMBERSHIP#c''), (''sk'', ''SUBJECT#anna'')]"
  by (rule cursor_round_trip) (simp add: starts_with_def)

theorem cursor_confined_witness:
  "\<exists>c key. membership_cursor ''cust'' ''dep'' None c = Inr key \<and>
    map_of key ''pk'' = Some (membership_pk ''cust'' ''dep'')"
proof -
  obtain c where c: "cursor_decode c (membership_pk ''cust'' ''dep'') ''SUBJECT#''
      = Inr [(''pk'', membership_pk ''cust'' ''dep''), (''sk'', ''SUBJECT#anna'')]"
    using cursor_read_back [of "''SUBJECT#''" "''SUBJECT#anna''" "membership_pk ''cust'' ''dep''"]
    by (auto simp: starts_with_def)
  then have "membership_cursor ''cust'' ''dep'' None c
      = Inr [(''pk'', membership_pk ''cust'' ''dep''), (''sk'', ''SUBJECT#anna'')]"
    by (simp add: membership_cursor_def)
  from cursor_confined [OF this] this show ?thesis by blast
qed

section \<open>The service on the site\<close>

abbreviation site_runtime :: "site_world lifecycle_runtime" where
  "site_runtime \<equiv> compose_lifecycle_runtime (site_members (\<lambda>_ _. PDict [(''Items'', PList [])])) (site_audit (\<lambda>_ _. PNone))
     (site_users ''pool'') sample_owner_pair"

definition new_site :: site_world where
  "new_site = \<lparr>sw_members = empty_world, sw_audit = empty_world, sw_users = directory_after\<rparr>"

lemma site_ok: "deployment (site_members answer) site_view (site_audit answer') (site_users pool)"
  by (rule site.deployment_axioms)

theorem resend_once_witness:
  "\<exists>r1 w1 es1 r2 w3 es2.
     resend_invitation (logged site_runtime) admin_auth sample_ref
       (transition_request.extend sample_request (resend_request.fields 3600)) sample_key (new_site, []) = (r1, (w1, es1)) \<and>
     resend_invitation (logged site_runtime) admin_auth sample_ref
       (transition_request.extend sample_request (resend_request.fields 3600)) (sample_key @ ''x'') (w1, []) = (r2, (w3, es2)) \<and>
     \<not> (\<exists>p p'. ProviderResend p \<in> set es1 \<and> ProviderResend p' \<in> set es2)"
proof -
  let ?req = "transition_request.extend sample_request (resend_request.fields 3600)"
  obtain r1 w1 es1 where 1: "resend_invitation (logged site_runtime) admin_auth sample_ref ?req sample_key (new_site, [])
    = (r1, (w1, es1))" by (rule prod_cases3)
  obtain r2 w3 es2 where 2: "resend_invitation (logged site_runtime) admin_auth sample_ref ?req (sample_key @ ''x'') (w1, [])
    = (r2, (w3, es2))" by (rule prod_cases3)
  from resend_once [OF site_ok 1 store_start 2] 1 2 show ?thesis by blast
qed

theorem service_refines_store_witness:
  "\<exists>r w'. transition site_runtime admin_auth sample_ref sample_request SUSPEND sample_key None new_site = (r, w') \<and>
     store_calls transiting_call (site_view new_site) (site_view w')"
proof -
  obtain r1 w1 where 1: "invite_user site_runtime admin_auth undefined sample_key new_site = (r1, w1)" by fastforce
  obtain r2 w2 where 2: "resend_invitation site_runtime admin_auth sample_ref
    (transition_request.extend sample_request (resend_request.fields 3600)) sample_key new_site = (r2, w2)" by fastforce
  obtain r3 w3 where 3: "transition site_runtime admin_auth sample_ref sample_request SUSPEND sample_key None new_site
    = (r3, w3)" by fastforce
  obtain r4 w4 where 4: "service_list_memberships site_runtime admin_auth None None (PInt 5) new_site = (r4, w4)" by fastforce
  from service_refines_store [OF site_ok 1 2 3 4] 3 show ?thesis by blast
qed

lemma site_clock: "\<exists>w'. service_now site_runtime w = (Inr (Aware (mw_time (sw_members w))), w')"
  by (simp add: service_now_def compose_lifecycle_runtime_def inst_def adapter_now_def bind_def catch_def ret_def
      ensure_def lift_def site_members_def part_dynamo_def on_part_def memory_table_def)

lemma site_query: "dy_query (site_members answer) q w = (Inr (answer (mw_items (sw_members w)) q), w)"
  by (simp add: site_members_def part_dynamo_def on_part_def memory_table_def)

lemma site_listing:
  "\<exists>w'. service_list_memberships site_runtime admin_auth (Some ACTIVE) None (PInt 5) new_site
     = (Inr \<lparr>mp_items = [], mp_next_cursor = None\<rparr>, w')"
proof -
  obtain w1 where now: "service_now site_runtime new_site = (Inr (Aware (mw_time (sw_members new_site))), w1)"
    using site_clock by blast
  have admin: "require_admin site_runtime admin_auth False new_site = (Inr sample_owner_pair, w1)"
    by (simp add: require_admin_def require_roles_def bind_def now lift_def ret_def sample_role_checks(2) sample_owner)
  have "store_list_memberships (site_members (\<lambda>_ _. PDict [(''Items'', PList [])])) c d (Some ACTIVE) None 5 w1
      = (Inr ([], None), w1)" for c d
    by (simp add: store_list_memberships_def bind_def lift_def start_key_def site_query response_items_def
        response_get_def py_get_def ensure_def ret_def next_cursor_def)
  then have "rt_list_memberships site_runtime own (Some ACTIVE) None 5 w1
      = (Inr (Inst \<lparr>mp_items = [], mp_next_cursor = None\<rparr>), w1)" for own
    by (simp add: compose_lifecycle_runtime_def bind_def ret_def)
  then show ?thesis
    by (simp add: service_list_memberships_def bind_def admin ensure_def cursor_ok_def limit_ok_def catch_def
        lift_def ret_def)
qed

theorem state_listing_single_page_witness:
  "\<exists>page w'. service_list_memberships site_runtime admin_auth (Some ACTIVE) None (PInt 5) new_site = (Inr page, w') \<and>
    mp_next_cursor page = None"
proof -
  obtain w' where "service_list_memberships site_runtime admin_auth (Some ACTIVE) None (PInt 5) new_site
     = (Inr \<lparr>mp_items = [], mp_next_cursor = None\<rparr>, w')"
    using site_listing by blast
  from state_listing_single_page [OF this] this show ?thesis by blast
qed

end
