(* ===== verification/ObjectAuthorization.thy ===== *)
theory ObjectAuthorization
  imports AuthzDecision PyText
begin

text \<open>
  \<open>app/authorization.py\<close>: who may touch a stored object. An \<open>ObjectOwnership\<close> is the pair of
  customer and deployment; it comes from the caller's context or from the record, and an object
  is authorized when both agree. The functions only read, so they are pure; the logging is left
  out. The theorems: the exact condition of an authorization, one and the same answer for every
  record that is not the caller's, injective storage keys, and all-or-nothing batches.
\<close>

section \<open>Ownership\<close>

definition owner_customer_pattern :: "string \<Rightarrow> bool" where
  "owner_customer_pattern = match_headed [] is_alnum (\<lambda>c. is_alnum c \<or> c \<in> set ''_.-'') 1 127"

definition owner_deployment_pattern :: "string \<Rightarrow> bool" where
  "owner_deployment_pattern = match_prefixed ''dep_'' is_crockford 26 26"

declare owner_customer_pattern_def [pattern_simps] owner_deployment_pattern_def [pattern_simps]

definition KNOWN_PRINCIPAL_TYPES :: "string list" where
  "KNOWN_PRINCIPAL_TYPES = [''user'', ''m2m'', ''local_mock'']"

definition OWNERSHIP_SCHEMA_VERSION :: int where "OWNERSHIP_SCHEMA_VERSION = 1"

datatype object_action = OBJECT_READ | OBJECT_WRITE | OBJECT_EXPORT

fun object_action_value :: "object_action \<Rightarrow> string" where
  "object_action_value OBJECT_READ = ''read''"
| "object_action_value OBJECT_WRITE = ''write''"
| "object_action_value OBJECT_EXPORT = ''export''"

definition object_action_members :: "object_action list" where
  "object_action_members = [OBJECT_READ, OBJECT_WRITE, OBJECT_EXPORT]"

interpretation object_action: str_enum object_action_value object_action_members
proof
  show "m \<in> set object_action_members" for m by (cases m) (simp_all add: object_action_members_def)
qed (simp add: object_action_members_def)

record object_ownership =
  ow_customer_id :: string
  ow_deployment_id :: string

text \<open>The constructor with its \<open>__post_init__\<close>; \<open>None\<close> is the \<open>ValueError\<close>.\<close>

definition object_ownership_new :: "pyval \<Rightarrow> pyval \<Rightarrow> object_ownership option" where
  "object_ownership_new customer deployment =
     (if str_sat owner_customer_pattern customer \<and> str_sat owner_deployment_pattern deployment
      then Some \<lparr>ow_customer_id = the (str_view customer), ow_deployment_id = the (str_view deployment)\<rparr>
      else None)"

definition invalid_principal :: app_error where
  "invalid_principal = AppError ''FORBIDDEN'' ''Principal is not authorized for this operation'' 403 []"

definition hidden_object :: "string \<Rightarrow> app_error" where
  "hidden_object kind = AppError ''NOT_FOUND'' (kind @ '' not found'') 404 []"

definition ownership_from_auth :: "auth_context option \<Rightarrow> app_error + object_ownership" where
  "ownership_from_auth auth_arg = (case auth_arg of
       None \<Rightarrow> Inl invalid_principal
     | Some auth \<Rightarrow>
         if \<not> str_sat (\<lambda>t. t \<in> set KNOWN_PRINCIPAL_TYPES) (ac_principal_type auth)
         then Inl invalid_principal
         else (case object_ownership_new (ac_customer_id auth) (ac_deployment_id auth) of
                 None \<Rightarrow> Inl invalid_principal
               | Some own \<Rightarrow> Inr own))"

definition partition :: "object_ownership \<Rightarrow> string" where
  "partition own = ''CUSTOMER#'' @ ow_customer_id own @ ''#DEPLOYMENT#'' @ ow_deployment_id own"

definition valid_object_id :: "string \<Rightarrow> bool" where
  "valid_object_id s \<longleftrightarrow> py_strip s \<noteq> [] \<and> CHR ''#'' \<notin> set s"

definition batch_partition :: "object_ownership \<Rightarrow> pyval \<Rightarrow> exn + string" where
  "batch_partition own batch_id = (if \<not> str_sat valid_object_id batch_id then Inl (PyExc ''ValueError'')
     else Inr (partition own @ ''#BATCH#'' @ the (str_view batch_id)))"

definition document_prefix :: "object_ownership \<Rightarrow> pyval \<Rightarrow> exn + string" where
  "document_prefix own document_id = (if \<not> str_sat valid_object_id document_id then Inl (PyExc ''ValueError'')
     else Inr (''customers/'' @ ow_customer_id own @ ''/deployments/'' @ ow_deployment_id own @
               ''/documents/'' @ the (str_view document_id) @ ''/''))"

definition record_fields :: "object_ownership \<Rightarrow> (string \<times> pyval) list" where
  "record_fields own =
     [(''customer_id'', PStr (ow_customer_id own)), (''deployment_id'', PStr (ow_deployment_id own)),
      (''ownership_schema_version'', PInt OWNERSHIP_SCHEMA_VERSION),
      (''ownership_key'', PStr (partition own))]"

section \<open>Actions\<close>

fun required_actions :: "object_action \<Rightarrow> string set" where
  "required_actions OBJECT_READ = {''read''}"
| "required_actions OBJECT_WRITE = {''write''}"
| "required_actions OBJECT_EXPORT = {''read'', ''admin''}"

definition coerce_action :: "pyval \<Rightarrow> app_error + object_action" where
  "coerce_action v =
     (case Option.bind (str_view v) (of_value object_action_value object_action_members) of
       Some a \<Rightarrow> Inr a
     | None \<Rightarrow> Inl invalid_principal)"

definition m2m_forbidden :: app_error where
  "m2m_forbidden = AppError ''FORBIDDEN'' ''M2M principal is not authorized for this operation'' 403 []"

definition authorize_m2m_actions :: "auth_context \<Rightarrow> string set \<Rightarrow> app_error + auth_context" where
  "authorize_m2m_actions auth required =
     (if \<not> py_eq (ac_principal_type auth) (PStr ''m2m'') then Inr auth
      else if \<not> required \<subseteq> ac_granted_actions auth then Inl m2m_forbidden
      else Inr auth)"

section \<open>Records\<close>

type_synonym stored_record = "(string \<times> pyval) list"

definition has_key :: "stored_record \<Rightarrow> string \<Rightarrow> bool" where
  "has_key r k \<longleftrightarrow> map_of r k \<noteq> None"

text \<open>\<open>key in record and record.get(key) != expected\<close>\<close>

definition conflicts :: "stored_record \<Rightarrow> string \<Rightarrow> string \<Rightarrow> bool" where
  "conflicts r k expected \<longleftrightarrow> has_key r k \<and> \<not> py_eq (py_get r k) (PStr expected)"

definition record_ownership :: "stored_record \<Rightarrow> string \<Rightarrow> app_error + object_ownership" where
  "record_ownership r kind =
     (if \<not> py_eq (py_get r ''ownership_schema_version'') (PInt OWNERSHIP_SCHEMA_VERSION)
      then Inl (hidden_object kind)
      else case object_ownership_new (py_get r ''customer_id'') (py_get r ''deployment_id'') of
             None \<Rightarrow> Inl (hidden_object kind)
           | Some own \<Rightarrow>
               if list_ex (\<lambda>k. conflicts r k (ow_customer_id own)) [''tenantId'', ''tenant_id'', ''customerId'']
               then Inl (hidden_object kind)
               else if conflicts r ''deploymentId'' (ow_deployment_id own) then Inl (hidden_object kind)
               else if conflicts r ''ownership_key'' (partition own) then Inl (hidden_object kind)
               else Inr own)"

definition authorize_owned_record ::
  "auth_context option \<Rightarrow> stored_record pyref \<Rightarrow> pyval \<Rightarrow> string \<Rightarrow> app_error + object_ownership" where
  "authorize_owned_record auth_arg rec required_action object_kind =
     (case ownership_from_auth auth_arg of
        Inl e \<Rightarrow> Inl e
      | Inr expected \<Rightarrow> (case coerce_action required_action of
          Inl e \<Rightarrow> Inl e
        | Inr act \<Rightarrow> (case authorize_m2m_actions (the auth_arg) (required_actions act) of
            Inl e \<Rightarrow> Inl e
          | Inr _ \<Rightarrow> (case rec of
              Inst r \<Rightarrow> (case record_ownership r object_kind of
                Inl e \<Rightarrow> Inl e
              | Inr actual \<Rightarrow> if actual \<noteq> expected then Inl (hidden_object object_kind) else Inr actual)
            | _ \<Rightarrow> Inl (hidden_object object_kind)))))"

definition authorize_document ::
  "auth_context option \<Rightarrow> stored_record pyref \<Rightarrow> pyval \<Rightarrow> app_error + object_ownership" where
  "authorize_document auth_arg rec required_action =
     authorize_owned_record auth_arg rec required_action ''Document''"

definition authorize_batch ::
  "auth_context option \<Rightarrow> stored_record pyref \<Rightarrow> pyval \<Rightarrow> app_error + object_ownership" where
  "authorize_batch auth_arg rec required_action =
     authorize_owned_record auth_arg rec required_action ''Batch''"

text \<open>The loop over the members of a batch.\<close>

fun authorize_members ::
  "auth_context option \<Rightarrow> pyval \<Rightarrow> stored_record pyref list \<Rightarrow> pyval \<Rightarrow> app_error + unit" where
  "authorize_members auth_arg batch_id [] required_action = Inr ()"
| "authorize_members auth_arg batch_id (rec # recs) required_action =
     (case authorize_document auth_arg rec required_action of
        Inl _ \<Rightarrow> Inl (hidden_object ''Batch'')
      | Inr _ \<Rightarrow> (case rec of
          Inst r \<Rightarrow> if \<not> py_eq (py_get r ''batchId'') batch_id then Inl (hidden_object ''Batch'')
                    else authorize_members auth_arg batch_id recs required_action
        | _ \<Rightarrow> Inl (hidden_object ''Batch'')))"

definition authorize_batch_membership ::
  "auth_context option \<Rightarrow> stored_record pyref \<Rightarrow> stored_record pyref list \<Rightarrow> pyval
    \<Rightarrow> app_error + object_ownership" where
  "authorize_batch_membership auth_arg batch recs required_action =
     (case authorize_batch auth_arg batch required_action of
        Inl e \<Rightarrow> Inl e
      | Inr own \<Rightarrow>
          (let batch_id = (case batch of Inst r \<Rightarrow> py_get r ''batchId'' | _ \<Rightarrow> PNone)
           in if \<not> str_sat (\<lambda>s. s \<noteq> []) batch_id then Inl (hidden_object ''Batch'')
              else case authorize_members auth_arg batch_id recs required_action of
                     Inl e \<Rightarrow> Inl e
                   | Inr _ \<Rightarrow> Inr own))"

section \<open>Route dependencies\<close>

definition require_access :: "string set \<Rightarrow> auth_context \<Rightarrow> app_error + auth_context" where
  "require_access acts auth = (if \<not> py_eq (ac_principal_type auth) (PStr ''m2m'') then Inl invalid_principal
     else authorize_m2m_actions auth acts)"

definition require_read_access :: "auth_context \<Rightarrow> app_error + auth_context" where
  "require_read_access = require_access {''read''}"

definition require_write_access :: "auth_context \<Rightarrow> app_error + auth_context" where
  "require_write_access = require_access {''write''}"

definition require_export_access :: "auth_context \<Rightarrow> app_error + auth_context" where
  "require_export_access = require_access {''read'', ''admin''}"

text \<open>
  The dependency of a reviewed operation: the runtime is the application's, when it is an
  \<open>EnterpriseAuthorizationRuntime\<close>, and the request goes to the decision point.
\<close>

definition require_operation ::
  "operation_id \<Rightarrow> authz_env \<Rightarrow> 'w authz_runtime pyref \<Rightarrow> auth_context \<Rightarrow> ('w, auth_context) io" where
  "require_operation op env app_runtime auth =
     (let runtime = (case app_runtime of Foreign \<Rightarrow> NoneRef | _ \<Rightarrow> app_runtime)
      in case operation_policy_for (PEnum ''OperationId'' [] (operation_id_value op)) of
           Inl e \<Rightarrow> raise (AppExc e)
         | Inr pol \<Rightarrow> authorize_operation env (Some auth)
             (PEnum ''OperationId'' [] (operation_id_value (pol_operation_id pol))) PNone runtime None)"

section \<open>What an authorization means\<close>

text \<open>The record binds this owner, and none of its redundant fields says otherwise.\<close>

definition record_binds :: "stored_record \<Rightarrow> object_ownership \<Rightarrow> bool" where
  "record_binds r own \<longleftrightarrow>
     py_eq (py_get r ''ownership_schema_version'') (PInt 1) \<and>
     str_view (py_get r ''customer_id'') = Some (ow_customer_id own) \<and>
     str_view (py_get r ''deployment_id'') = Some (ow_deployment_id own) \<and>
     (\<forall>k \<in> {''tenantId'', ''tenant_id'', ''customerId''}.
        has_key r k \<longrightarrow> str_view (py_get r k) = Some (ow_customer_id own)) \<and>
     (has_key r ''deploymentId'' \<longrightarrow> str_view (py_get r ''deploymentId'') = Some (ow_deployment_id own)) \<and>
     (has_key r ''ownership_key'' \<longrightarrow> str_view (py_get r ''ownership_key'') = Some (partition own))"

definition valid_owner :: "object_ownership \<Rightarrow> bool" where
  "valid_owner own \<longleftrightarrow> owner_customer_pattern (ow_customer_id own) \<and>
     owner_deployment_pattern (ow_deployment_id own)"

lemma object_ownership_new_Some:
  "object_ownership_new c d = Some own \<longleftrightarrow>
     valid_owner own \<and> str_view c = Some (ow_customer_id own) \<and> str_view d = Some (ow_deployment_id own)"
  by (cases own) (auto simp: object_ownership_new_def valid_owner_def str_sat_def split: option.splits)

lemma record_ownership_Inr:
  "record_ownership r kind = Inr own \<longleftrightarrow> valid_owner own \<and> record_binds r own"
  unfolding record_ownership_def if_Inl_Inr case_option_Inr object_ownership_new_Some record_binds_def
  by (auto simp: conflicts_def py_eq_PStr OWNERSHIP_SCHEMA_VERSION_def)

lemma record_ownership_Inl: "record_ownership r kind = Inl e \<Longrightarrow> e = hidden_object kind"
  by (auto simp: record_ownership_def split: option.splits if_splits)

lemma record_ownership_unbound:
  "\<not> (valid_owner own \<and> record_binds r own) \<Longrightarrow> record_ownership r kind \<noteq> Inr own"
  by (simp add: record_ownership_Inr)

lemma ownership_from_auth_Inr:
  "ownership_from_auth auth_arg = Inr own \<longleftrightarrow> (\<exists>auth. auth_arg = Some auth \<and>
     str_sat (\<lambda>t. t \<in> set KNOWN_PRINCIPAL_TYPES) (ac_principal_type auth) \<and> valid_owner own \<and>
     str_view (ac_customer_id auth) = Some (ow_customer_id own) \<and>
     str_view (ac_deployment_id auth) = Some (ow_deployment_id own))"
  unfolding ownership_from_auth_def case_option_Inr if_Inl_Inr object_ownership_new_Some by auto

lemma coerce_action_Inr: "coerce_action v = Inr a \<longleftrightarrow> str_view v = Some (object_action_value a)"
  by (auto simp: coerce_action_def object_action.of_value_Some bind_eq_Some_conv split: option.splits)

lemma authorize_m2m_actions_Inr:
  "authorize_m2m_actions auth acts = Inr a \<longleftrightarrow>
     a = auth \<and> (py_eq (ac_principal_type auth) (PStr ''m2m'') \<longrightarrow> acts \<subseteq> ac_granted_actions auth)"
  by (auto simp: authorize_m2m_actions_def)

text \<open>What the caller must be for an action, before any record is looked at.\<close>

definition caller_may :: "auth_context option \<Rightarrow> pyval \<Rightarrow> object_ownership \<Rightarrow> bool" where
  "caller_may auth_arg required_action own \<longleftrightarrow> (\<exists>auth act. auth_arg = Some auth \<and>
     ownership_from_auth auth_arg = Inr own \<and> str_view required_action = Some (object_action_value act) \<and>
     (py_eq (ac_principal_type auth) (PStr ''m2m'') \<longrightarrow> required_actions act \<subseteq> ac_granted_actions auth))"

lemma authorize_owned_record_caller:
  assumes "caller_may auth_arg required_action own"
  shows "authorize_owned_record auth_arg rec required_action kind =
    (case rec of Inst r \<Rightarrow> if valid_owner own \<and> record_binds r own then Inr own else Inl (hidden_object kind)
     | _ \<Rightarrow> Inl (hidden_object kind))"
proof -
  from assms obtain auth act where h: "auth_arg = Some auth" "ownership_from_auth auth_arg = Inr own"
    "coerce_action required_action = Inr act"
    "authorize_m2m_actions (the auth_arg) (required_actions act) = Inr auth"
    by (auto simp: caller_may_def coerce_action_Inr authorize_m2m_actions_Inr)
  show ?thesis
  proof (cases rec)
    case (Inst r)
    then show ?thesis
      using record_ownership_Inl [of r kind] record_ownership_Inr [of r kind own]
      by (cases "record_ownership r kind") (auto simp: authorize_owned_record_def h(2-4))
  qed (simp_all add: authorize_owned_record_def h(2-4))
qed

lemma authorize_owned_record_denied:
  assumes "\<nexists>own. caller_may auth_arg required_action own"
  shows "authorize_owned_record auth_arg rec required_action kind \<noteq> Inr own"
proof
  assume a: "authorize_owned_record auth_arg rec required_action kind = Inr own"
  then obtain own' act x where h: "ownership_from_auth auth_arg = Inr own'"
      "coerce_action required_action = Inr act"
      "authorize_m2m_actions (the auth_arg) (required_actions act) = Inr x"
    unfolding authorize_owned_record_def case_sum_Inr by blast
  from h(1) obtain auth where "auth_arg = Some auth" by (auto simp: ownership_from_auth_Inr)
  with h assms show False
    by (auto simp: caller_may_def coerce_action_Inr authorize_m2m_actions_Inr)
qed

text \<open>
  (C28) An object is authorized exactly when the caller has a known principal type and a valid
  binding, holds the actions when it is a machine, and the record binds the caller's own
  customer and deployment with no conflicting alias; the result is the caller's ownership.
\<close>

theorem authorize_owned_record_iff:
  "authorize_owned_record auth_arg rec required_action kind = Inr own \<longleftrightarrow>
     caller_may auth_arg required_action own \<and> (\<exists>r. rec = Inst r \<and> record_binds r own)"
proof (cases "\<exists>o'. caller_may auth_arg required_action o'")
  case True
  then obtain own' where c: "caller_may auth_arg required_action own'" by blast
  then have "caller_may auth_arg required_action own \<longleftrightarrow> own = own'" "valid_owner own'"
    by (auto simp: caller_may_def ownership_from_auth_Inr)
  then show ?thesis
    unfolding authorize_owned_record_caller [OF c] by (auto split: pyref.splits)
next
  case False
  then show ?thesis using authorize_owned_record_denied by blast
qed

text \<open>
  Foreign objects are invisible: to a caller who may act, a record that is missing, malformed,
  stored under another schema or bound to another customer or deployment all get the same
  \<open>404\<close>, so the answer tells nothing about objects of others.
\<close>

theorem foreign_object_hidden:
  assumes "caller_may auth_arg required_action own"
    and "\<forall>r. rec = Inst r \<longrightarrow> \<not> record_binds r own"
  shows "authorize_owned_record auth_arg rec required_action kind
    = Inl (AppError ''NOT_FOUND'' (kind @ '' not found'') 404 [])"
  using assms(2) unfolding authorize_owned_record_caller [OF assms(1)]
  by (auto simp: hidden_object_def split: pyref.splits)

section \<open>Storage keys\<close>

lemma owner_chars:
  assumes "valid_owner own"
  shows "CHR ''#'' \<notin> set (ow_customer_id own)" "CHR ''#'' \<notin> set (ow_deployment_id own)"
    "CHR ''/'' \<notin> set (ow_customer_id own)" "CHR ''/'' \<notin> set (ow_deployment_id own)"
proof -
  note v = assms [unfolded valid_owner_def owner_customer_pattern_def owner_deployment_pattern_def]
  show "CHR ''#'' \<notin> set (ow_customer_id own)" "CHR ''/'' \<notin> set (ow_customer_id own)"
    by (rule match_headed_avoids [OF conjunct1 [OF v]], simp_all add: char_class_defs)+
  show "CHR ''#'' \<notin> set (ow_deployment_id own)" "CHR ''/'' \<notin> set (ow_deployment_id own)"
    by (rule match_prefixed_avoids [OF conjunct2 [OF v]], simp_all add: char_class_defs)+
qed

lemma batch_partition_Inr:
  "batch_partition own (PStr b) = Inr k \<longleftrightarrow> valid_object_id b \<and> k = ''CUSTOMER#'' @
     (ow_customer_id own @ CHR ''#'' # ''DEPLOYMENT#'' @ ow_deployment_id own @ CHR ''#'' # (''BATCH#'' @ b))"
  by (auto simp: batch_partition_def partition_def)

lemma document_prefix_Inr:
  "document_prefix own (PStr d) = Inr k \<longleftrightarrow> valid_object_id d \<and> k = ''customers/'' @
     (ow_customer_id own @ CHR ''/'' # ''deployments/'' @ ow_deployment_id own @ CHR ''/'' #
       (''documents/'' @ d @ ''/''))"
  by (auto simp: document_prefix_def)

text \<open>
  Storage isolation: the batch partitions and the document prefixes of valid owners are
  injective in owner and object, so two owners never share a key, and the fields written for an
  owner are read back as exactly this owner.
\<close>

theorem storage_keys_injective:
  assumes "valid_owner own" "valid_owner own'"
  shows "(partition own = partition own' \<longleftrightarrow> own = own') \<and>
    (batch_partition own (PStr b) = Inr k \<and> batch_partition own' (PStr b') = Inr k
       \<longrightarrow> own = own' \<and> b = b') \<and>
    (document_prefix own (PStr d) = Inr p \<and> document_prefix own' (PStr d') = Inr p
       \<longrightarrow> own = own' \<and> d = d') \<and>
    record_ownership (record_fields own) kind = Inr own"
proof -
  note c = owner_chars [OF assms(1)] and c' = owner_chars [OF assms(2)]
  have eqI: "ow_customer_id own = ow_customer_id own' \<Longrightarrow> ow_deployment_id own = ow_deployment_id own'
      \<Longrightarrow> own = own'" by (cases own; cases own') simp
  have part: "partition own = partition own' \<longleftrightarrow> own = own'"
    using append_sep_eq [OF c(1) c'(1), of "''DEPLOYMENT#'' @ ow_deployment_id own"
        "''DEPLOYMENT#'' @ ow_deployment_id own'"] eqI
    by (auto simp: partition_def)
  have batch: "batch_partition own (PStr b) = Inr k \<and> batch_partition own' (PStr b') = Inr k
       \<longrightarrow> own = own' \<and> b = b'"
    unfolding batch_partition_Inr
    using append_sep_eq2 [OF c(1) c'(1) c(2) c'(2), of "''DEPLOYMENT#''" "''BATCH#'' @ b" "''BATCH#'' @ b'"] eqI
    by (metis same_append_eq)
  have doc: "document_prefix own (PStr d) = Inr p \<and> document_prefix own' (PStr d') = Inr p
       \<longrightarrow> own = own' \<and> d = d'"
    unfolding document_prefix_Inr
    using append_sep_eq2 [OF c(3) c'(3) c(4) c'(4), of "''deployments/''"
        "''documents/'' @ d @ ''/''" "''documents/'' @ d' @ ''/''"] eqI
    by (metis same_append_eq append_same_eq)
  have "record_binds (record_fields own) own"
    by (simp add: record_binds_def record_fields_def py_get_def has_key_def OWNERSHIP_SCHEMA_VERSION_def)
  with assms(1) have "record_ownership (record_fields own) kind = Inr own"
    by (simp add: record_ownership_Inr)
  with part batch doc show ?thesis by blast
qed

section \<open>Batches\<close>

lemma authorize_members_Inr:
  assumes "caller_may auth_arg required_action own"
  shows "authorize_members auth_arg batch_id recs required_action = Inr () \<longleftrightarrow>
    (\<forall>rec \<in> set recs. \<exists>r. rec = Inst r \<and> record_binds r own \<and> py_eq (py_get r ''batchId'') batch_id)"
proof (induction recs)
  case (Cons rec recs)
  have "valid_owner own" using assms by (auto simp: caller_may_def ownership_from_auth_Inr)
  with Cons show ?case
    by (cases rec) (auto simp: authorize_document_def authorize_owned_record_caller [OF assms])
qed simp

lemma authorize_members_Inl:
  "authorize_members auth_arg batch_id recs required_action = Inl e \<Longrightarrow> e = hidden_object ''Batch''"
  by (induction recs) (auto split: sum.splits pyref.splits if_splits)

text \<open>
  (C32) A batch is authorized exactly when the batch and every one of its members belong to the
  caller and every member names this batch; one member that does not denies the whole batch,
  with the answer a missing batch gets.
\<close>

theorem authorize_batch_membership_iff:
  assumes "caller_may auth_arg required_action own"
  shows "authorize_batch_membership auth_arg batch recs required_action =
    (if (\<exists>b. batch = Inst b \<and> record_binds b own \<and> str_sat (\<lambda>s. s \<noteq> []) (py_get b ''batchId'') \<and>
           (\<forall>rec \<in> set recs. \<exists>r. rec = Inst r \<and> record_binds r own \<and>
              py_eq (py_get r ''batchId'') (py_get b ''batchId'')))
     then Inr own else Inl (AppError ''NOT_FOUND'' ''Batch not found'' 404 []))"
proof -
  have v: "valid_owner own" using assms by (auto simp: caller_may_def ownership_from_auth_Inr)
  show ?thesis
  proof (cases batch)
    case (Inst b)
    show ?thesis
      using authorize_members_Inr [OF assms, of "py_get b ''batchId''" recs]
        authorize_members_Inl [of auth_arg "py_get b ''batchId''" recs required_action] v
      by (cases "authorize_members auth_arg (py_get b ''batchId'') recs required_action")
        (auto simp: authorize_batch_membership_def authorize_batch_def Inst hidden_object_def Let_def
          authorize_owned_record_caller [OF assms])
  qed (simp_all add: authorize_batch_membership_def authorize_batch_def hidden_object_def
      authorize_owned_record_caller [OF assms])
qed

section \<open>Concrete callers\<close>

definition sample_owner :: object_ownership where
  "sample_owner = \<lparr>ow_customer_id = ''acme'', ow_deployment_id = ''dep_01ARZ3NDEKTSV4RRFFQ69G5FAV''\<rparr>"

definition sample_other :: object_ownership where
  "sample_other = \<lparr>ow_customer_id = ''other'', ow_deployment_id = ''dep_01ARZ3NDEKTSV4RRFFQ69G5FAV''\<rparr>"

definition sample_caller :: auth_context where
  "sample_caller = \<lparr>ac_customer_id = PStr ''acme'', ac_deployment_id = PStr ''dep_01ARZ3NDEKTSV4RRFFQ69G5FAV'',
     ac_principal_type = PStr ''m2m'', ac_subject = PNone, ac_client_id = PStr ''client'',
     ac_scopes = {}, ac_granted_actions = {''read''}, ac_email = PNone, ac_name = PNone,
     ac_auth_source = PStr ''m2m_identity_binding_v1'', ac_human_authorization = NoneRef\<rparr>"

lemma sample_owner_valid: "valid_owner sample_owner" "valid_owner sample_other"
  by (simp_all add: valid_owner_def sample_owner_def sample_other_def pattern_simps)

lemma sample_caller_may: "caller_may (Some sample_caller) (PStr ''read'') sample_owner"
proof -
  have "ownership_from_auth (Some sample_caller) = Inr sample_owner"
    by (simp add: ownership_from_auth_Inr sample_owner_valid)
      (simp add: sample_caller_def sample_owner_def KNOWN_PRINCIPAL_TYPES_def)
  moreover have "ac_granted_actions sample_caller = {''read''}" by (simp add: sample_caller_def)
  ultimately show ?thesis
    unfolding caller_may_def by (intro exI [of _ sample_caller] exI [of _ OBJECT_READ]) simp
qed

theorem foreign_object_hidden_witness:
  "authorize_owned_record (Some sample_caller) (Inst (record_fields sample_other)) (PStr ''read'') ''Document''
   = Inl (AppError ''NOT_FOUND'' (''Document'' @ '' not found'') 404 [])"
  by (rule foreign_object_hidden [OF sample_caller_may])
    (simp add: record_binds_def record_fields_def py_get_def sample_owner_def sample_other_def)

theorem storage_keys_injective_witness:
  "partition sample_owner \<noteq> partition sample_other \<and>
   record_ownership (record_fields sample_owner) ''Document'' = Inr sample_owner"
proof -
  have "sample_owner \<noteq> sample_other" by (simp add: sample_owner_def sample_other_def)
  then show ?thesis
    using storage_keys_injective [OF sample_owner_valid, of b k b' d p d' "''Document''"] by blast
qed

theorem authorize_batch_membership_iff_witness:
  "authorize_batch_membership (Some sample_caller)
     (Inst ((''batchId'', PStr ''b1'') # record_fields sample_owner))
     [Inst ((''batchId'', PStr ''b1'') # record_fields sample_owner),
      Inst ((''batchId'', PStr ''b2'') # record_fields sample_owner)] (PStr ''read'')
   = Inl (AppError ''NOT_FOUND'' ''Batch not found'' 404 [])"
  unfolding authorize_batch_membership_iff [OF sample_caller_may]
  by (simp add: py_get_def py_eq_PStr)

end
