(* ===== verification/OperationLedger.thy ===== *)
theory OperationLedger
  imports DynamoTable PyTime Sha256 "HOL-Library.List_Lexorder" "HOL-Library.Char_ord"
begin

text \<open>
  The idempotency ledger of the document journey, \<open>app/repositories/operations.py\<close>: one record
  per owner, actor, operation and idempotency key, created under a condition and moved between
  its states by compare-and-swap writes. The table is a \<open>dynamo\<close>; only the laws of
  \<open>conditional_table\<close> are relied on.
\<close>

section \<open>Constants and states\<close>

definition OPERATION_SCHEMA_VERSION :: string where
  "OPERATION_SCHEMA_VERSION = ''scanalyze.document-journey-operation.v1''"

definition hex_digest :: "string \<Rightarrow> bool" where
  "hex_digest s \<longleftrightarrow> match_prefixed ''sha256:'' is_lower_hex 64 64 s \<or> match_prefixed [] is_lower_hex 64 64 s"

definition ledger_identifier_pattern :: "string \<Rightarrow> bool" where
  "ledger_identifier_pattern =
     match_headed [] is_alnum (\<lambda>c. is_alnum c \<or> c \<in> set ''._:@-'') 0 127"

definition failure_code_pattern :: "string \<Rightarrow> bool" where
  "failure_code_pattern = match_headed [] is_upper (\<lambda>c. is_upper c \<or> is_digit c \<or> c = CHR ''_'') 0 63"

definition resource_id_pattern :: "string \<Rightarrow> bool" where
  "resource_id_pattern = match_prefixed [] is_lower_hex 32 32"

definition MAX_DURABLE_RESPONSE_BYTES :: nat where "MAX_DURABLE_RESPONSE_BYTES = 2048"
definition MAX_SCALAR_STRING_LENGTH :: nat where "MAX_SCALAR_STRING_LENGTH = 512"

definition DOCUMENT_CONTENT_TYPES :: "string list" where
  "DOCUMENT_CONTENT_TYPES = [''application/pdf'', ''image/jpeg'', ''image/png'', ''image/tiff'']"

definition OPERATION_RESOURCE_TYPES :: "(string \<times> string) list" where
  "OPERATION_RESOURCE_TYPES = [(''batches.create'', ''batch''), (''documents.create'', ''document'')]"

definition DURABLE_RESPONSE_FIELDS :: "string \<Rightarrow> string list option" where
  "DURABLE_RESPONSE_FIELDS resource_type =
     (if resource_type = ''batch'' then Some [''schemaVersion'', ''contractVersion'', ''operation'',
        ''batchId'', ''status'', ''createdAt'']
      else if resource_type = ''document'' then Some [''schemaVersion'', ''contractVersion'',
        ''operation'', ''documentId'', ''batchId'', ''status'', ''createdAt'', ''contentType'']
      else None)"

definition DURABLE_RESPONSE_REQUIRED_FIELDS :: "string \<Rightarrow> string list option" where
  "DURABLE_RESPONSE_REQUIRED_FIELDS resource_type =
     map_option (\<lambda>fs. if resource_type = ''document'' then filter (\<lambda>f. f \<noteq> ''batchId'') fs else fs)
       (DURABLE_RESPONSE_FIELDS resource_type)"

definition FORBIDDEN_RESPONSE_FIELD_FRAGMENTS :: "string list" where
  "FORBIDDEN_RESPONSE_FIELD_FRAGMENTS =
     [''authorization'', ''body'', ''bucket'', ''capability'', ''cookie'', ''customer'', ''deployment'',
      ''filename'', ''header'', ''idempotency'', ''metadata'', ''objectkey'', ''payload'', ''presigned'',
      ''secret'', ''storagekey'', ''subject'', ''token'', ''upload'', ''uri'', ''url'']"

datatype operation_state =
    PENDING | SUCCEEDED | FAILED_RETRYABLE | FAILED_TERMINAL | UNKNOWN_OR_QUARANTINED | EXPIRED

fun operation_state_value :: "operation_state \<Rightarrow> string" where
  "operation_state_value PENDING = ''PENDING''"
| "operation_state_value SUCCEEDED = ''SUCCEEDED''"
| "operation_state_value FAILED_RETRYABLE = ''FAILED_RETRYABLE''"
| "operation_state_value FAILED_TERMINAL = ''FAILED_TERMINAL''"
| "operation_state_value UNKNOWN_OR_QUARANTINED = ''UNKNOWN_OR_QUARANTINED''"
| "operation_state_value EXPIRED = ''EXPIRED''"

definition operation_state_members :: "operation_state list" where
  "operation_state_members =
     [PENDING, SUCCEEDED, FAILED_RETRYABLE, FAILED_TERMINAL, UNKNOWN_OR_QUARANTINED, EXPIRED]"

interpretation operation_state: str_enum operation_state_value operation_state_members
proof
  show "m \<in> set operation_state_members" for m by (cases m) (simp_all add: operation_state_members_def)
qed (simp add: operation_state_members_def)

fun ALLOWED_TRANSITIONS :: "operation_state \<Rightarrow> operation_state list" where
  "ALLOWED_TRANSITIONS PENDING =
     [SUCCEEDED, FAILED_RETRYABLE, FAILED_TERMINAL, UNKNOWN_OR_QUARANTINED, EXPIRED]"
| "ALLOWED_TRANSITIONS FAILED_RETRYABLE = [PENDING, FAILED_TERMINAL, UNKNOWN_OR_QUARANTINED, EXPIRED]"
| "ALLOWED_TRANSITIONS SUCCEEDED = [EXPIRED]"
| "ALLOWED_TRANSITIONS FAILED_TERMINAL = [EXPIRED]"
| "ALLOWED_TRANSITIONS UNKNOWN_OR_QUARANTINED = [EXPIRED]"
| "ALLOWED_TRANSITIONS EXPIRED = []"

definition FAILURE_STATES :: "operation_state list" where
  "FAILURE_STATES = [FAILED_RETRYABLE, FAILED_TERMINAL, UNKNOWN_OR_QUARANTINED]"

definition COMPLETED_STATES :: "operation_state list" where
  "COMPLETED_STATES = [SUCCEEDED, FAILED_TERMINAL, UNKNOWN_OR_QUARANTINED, EXPIRED]"

section \<open>Scalars\<close>

definition validated_identifier :: "pyval \<Rightarrow> exn + string" where
  "validated_identifier v = (case str_view v of
       Some s \<Rightarrow> if ledger_identifier_pattern s then Inr s else Inl OperationContractError
     | None \<Rightarrow> Inl OperationContractError)"

definition validated_resource_id :: "pyval \<Rightarrow> exn + string" where
  "validated_resource_id v = (case str_view v of
       Some s \<Rightarrow> if resource_id_pattern s then Inr s else Inl OperationContractError
     | None \<Rightarrow> Inl OperationContractError)"

text \<open>\<open>value.removeprefix("sha256:")\<close>\<close>

definition bare_digest :: "string \<Rightarrow> string" where
  "bare_digest s = (if starts_with ''sha256:'' s then drop 7 s else s)"

definition normalized_digest :: "pyval \<Rightarrow> exn + string" where
  "normalized_digest v = (case str_view v of
       Some s \<Rightarrow> if hex_digest s then Inr (''sha256:'' @ bare_digest s) else Inl OperationContractError
     | None \<Rightarrow> Inl OperationContractError)"

definition ledger_digest :: "string \<Rightarrow> string" where
  "ledger_digest s = ''sha256:'' @ sha256_hex s"

definition aware_utc :: "datetime \<Rightarrow> exn + datetime" where
  "aware_utc t = (if is_aware t then Inr (Aware (instant t)) else Inl OperationContractError)"

definition ledger_timestamp :: "datetime \<Rightarrow> exn + string" where
  "ledger_timestamp t = (case aware_utc t of Inl e \<Rightarrow> Inl e | Inr u \<Rightarrow> Inr (timestamp_text (instant u)))"

definition ledger_parse_timestamp :: "pyval \<Rightarrow> exn + datetime" where
  "ledger_parse_timestamp v = (case str_view v of
       None \<Rightarrow> Inl OperationContractError
     | Some text \<Rightarrow> (case parse_iso (replace_z text) of
           Invalid_Time \<Rightarrow> Inl OperationContractError
         | Out_Of_Range \<Rightarrow> Inl (PyExc ''OverflowError'')
         | Parsed d \<Rightarrow> aware_utc d))"

definition state_of :: "pyval \<Rightarrow> exn + operation_state" where
  "state_of v = (case Option.bind (str_view v) (of_value operation_state_value operation_state_members) of
       Some st \<Rightarrow> Inr st | None \<Rightarrow> Inl OperationContractError)"

fun number_of :: "pyval \<Rightarrow> int option" where
  "number_of (PBool b) = Some (if b then 1 else 0)"
| "number_of (PInt n) = Some n"
| "number_of (PDec n t) = Some n"
| "number_of (PStr s) = py_int s"
| "number_of (PEnum cls m s) = py_int s"
| "number_of v = None"

definition positive_integer :: "pyval \<Rightarrow> exn + int" where
  "positive_integer v = (case number_of v of
       None \<Rightarrow> Inl OperationContractError
     | Some n \<Rightarrow> if (case v of PBool b \<Rightarrow> True | _ \<Rightarrow> False) \<or> n < 1 \<or> show_int n \<noteq> py_str v
                then Inl OperationContractError else Inr n)"

section \<open>Identities and records\<close>

record operation_identity =
  oi_contract_version :: string
  oi_operation :: string
  oi_actor_digest :: string
  oi_customer_id :: string
  oi_deployment_id :: string
  oi_key_digest :: string

text \<open>\<open>OperationIdentity(...)\<close> with the checks of \<open>__post_init__\<close>.\<close>

definition operation_identity_new ::
  "string \<Rightarrow> string \<Rightarrow> string \<Rightarrow> string \<Rightarrow> string \<Rightarrow> string \<Rightarrow> exn + operation_identity" where
  "operation_identity_new contract operation actor customer deployment key =
     (if \<not> (list_all ledger_identifier_pattern [contract, customer, deployment]
            \<and> map_of OPERATION_RESOURCE_TYPES operation \<noteq> None)
      then Inl OperationContractError
      else (case normalized_digest (PStr actor) of Inl e \<Rightarrow> Inl e
      | Inr a \<Rightarrow> (case normalized_digest (PStr key) of Inl e \<Rightarrow> Inl e
      | Inr k \<Rightarrow> Inr \<lparr>oi_contract_version = contract, oi_operation = operation, oi_actor_digest = a,
          oi_customer_id = customer, oi_deployment_id = deployment, oi_key_digest = k\<rparr>)))"

text \<open>A durable response after validation: texts, or \<open>None\<close> for a missing batch.\<close>

type_synonym durable_response = "(string \<times> string option) list"

record ledger_record =
  led_schema_version :: string
  led_contract_version :: string
  led_operation :: string
  led_actor_digest :: string
  led_customer_id :: string
  led_deployment_id :: string
  led_key_digest :: string
  led_request_digest :: string
  led_resource_type :: string
  led_resource_id :: string
  led_durable_response :: durable_response
  led_state :: operation_state
  led_version :: int
  led_created_at :: datetime
  led_updated_at :: datetime
  led_expires_at :: datetime
  led_completed_at :: "datetime option"
  led_failure_code :: "string option"

definition ledger_identity :: "ledger_record \<Rightarrow> exn + operation_identity" where
  "ledger_identity r = operation_identity_new (led_contract_version r) (led_operation r)
     (led_actor_digest r) (led_customer_id r) (led_deployment_id r) (led_key_digest r)"

record reservation_outcome =
  ro_record :: ledger_record
  ro_created_here :: bool

definition unit_separator_text :: string where "unit_separator_text = [char_of (31 :: nat)]"

definition ledger_key :: "operation_identity \<Rightarrow> item_key" where
  "ledger_key i =
     (''GUG354#OWNER#'' @ bare_digest (ledger_digest (oi_customer_id i @ unit_separator_text @ oi_deployment_id i)),
      ''CONTRACT#'' @ bare_digest (ledger_digest (oi_contract_version i)) @ ''#OPERATION#'' @ oi_operation i
        @ ''#ACTOR#'' @ bare_digest (oi_actor_digest i) @ ''#KEY#'' @ bare_digest (oi_key_digest i))"

section \<open>Durable responses\<close>

text \<open>\<open>str.isalnum\<close> of a character, among the code points below 256.\<close>

definition py_isalnum :: "char \<Rightarrow> bool" where
  "py_isalnum c \<longleftrightarrow> is_alnum c \<or> code c \<in> {170, 178, 179, 181, 185, 186, 188, 189, 190} \<or>
     (192 \<le> code c \<and> code c \<noteq> 215 \<and> code c \<noteq> 247)"

definition normalized_field_name :: "string \<Rightarrow> string" where
  "normalized_field_name s = filter py_isalnum (py_lower s)"

fun has_fragment :: "string \<Rightarrow> string \<Rightarrow> bool" where
  "has_fragment p [] = (p = [])"
| "has_fragment p (c # s) = (starts_with p (c # s) \<or> has_fragment p s)"

definition forbidden_name :: "string \<Rightarrow> bool" where
  "forbidden_name s \<longleftrightarrow> list_ex (\<lambda>f. has_fragment f (normalized_field_name s)) FORBIDDEN_RESPONSE_FIELD_FRAGMENTS"

fun no_forbidden_names :: "pyval \<Rightarrow> bool" where
  "no_forbidden_names (PDict d) = list_all (\<lambda>(k, v). \<not> forbidden_name k \<and> no_forbidden_names v) d"
| "no_forbidden_names (PList vs) = list_all no_forbidden_names vs"
| "no_forbidden_names v = True"

text \<open>
  The scalar checks together: after them every value is a text of bounded length, or \<open>None\<close> for
  the batch of a document.
\<close>

definition durable_scalar :: "string \<Rightarrow> string \<Rightarrow> pyval \<Rightarrow> exn + string option" where
  "durable_scalar resource_type name v = (case str_view v of
       Some s \<Rightarrow> if length s \<le> MAX_SCALAR_STRING_LENGTH then Inr (Some s) else Inl OperationContractError
     | None \<Rightarrow> if v = PNone \<and> name = ''batchId'' \<and> resource_type = ''document'' then Inr None
               else Inl OperationContractError)"

fun durable_scalars :: "string \<Rightarrow> (string \<times> pyval) list \<Rightarrow> exn + durable_response" where
  "durable_scalars resource_type [] = Inr []"
| "durable_scalars resource_type ((k, v) # d) = (case durable_scalar resource_type k v of
       Inl e \<Rightarrow> Inl e
     | Inr s \<Rightarrow> (case durable_scalars resource_type d of Inl e \<Rightarrow> Inl e | Inr r \<Rightarrow> Inr ((k, s) # r)))"

definition response_text :: "durable_response \<Rightarrow> string \<Rightarrow> string option" where
  "response_text r k = Option.bind (map_of r k) id"

text \<open>The size of the response as canonical JSON in UTF-8.\<close>

definition durable_json :: "durable_response \<Rightarrow> string" where
  "durable_json r = json_flat (sort_key fst (map (\<lambda>(k, v). (k, case v of Some s \<Rightarrow> JStr s | None \<Rightarrow> JNull)) r))"

definition utf8_length :: "string \<Rightarrow> nat" where
  "utf8_length s = sum_list (map (\<lambda>c. if code c < 128 then 1 else 2) s)"

definition resource_field :: "string \<Rightarrow> string" where
  "resource_field resource_type = (if resource_type = ''batch'' then ''batchId'' else ''documentId'')"

definition expected_schema_status :: "string \<Rightarrow> string \<times> string" where
  "expected_schema_status resource_type =
     (if resource_type = ''batch'' then (''scanalyze.batch-create-result.v1'', ''OPEN'')
      else (''scanalyze.document-create-result.v1'', ''UPLOAD_PENDING''))"

text \<open>
  The checks on the values, before and after the one of \<open>createdAt\<close>. (The patterns of
  \<open>schemaVersion\<close>, \<open>status\<close> and \<open>contentType\<close> are implied by the closed values demanded next and
  are not repeated.)
\<close>

definition durable_binding_ok :: "operation_identity \<Rightarrow> string \<Rightarrow> string \<Rightarrow> durable_response \<Rightarrow> bool" where
  "durable_binding_ok i resource_type resource_id r \<longleftrightarrow>
     response_text r ''contractVersion'' = Some (oi_contract_version i) \<and>
     response_text r ''operation'' = Some (oi_operation i) \<and>
     response_text r (resource_field resource_type) = Some resource_id \<and>
     response_text r ''schemaVersion'' = Some (fst (expected_schema_status resource_type)) \<and>
     response_text r ''status'' = Some (snd (expected_schema_status resource_type))"

definition durable_content_ok :: "string \<Rightarrow> durable_response \<Rightarrow> bool" where
  "durable_content_ok resource_type r \<longleftrightarrow>
     (case response_text r ''batchId'' of Some b \<Rightarrow> resource_id_pattern b | None \<Rightarrow> True) \<and>
     (resource_type = ''document'' \<longrightarrow>
        (case response_text r ''contentType'' of Some c \<Rightarrow> c \<in> set DOCUMENT_CONTENT_TYPES | None \<Rightarrow> False))"

definition text_value :: "string option \<Rightarrow> pyval" where
  "text_value v = (case v of Some s \<Rightarrow> PStr s | None \<Rightarrow> PNone)"

definition validated_durable_response ::
  "pyval \<Rightarrow> operation_identity \<Rightarrow> string \<Rightarrow> string \<Rightarrow> exn + durable_response" where
  "validated_durable_response v i resource_type resource_id =
     (case (v, DURABLE_RESPONSE_FIELDS resource_type, DURABLE_RESPONSE_REQUIRED_FIELDS resource_type) of
        (PDict d, Some permitted, Some required) \<Rightarrow>
          if \<not> no_forbidden_names v \<or> \<not> (set required \<subseteq> set (map fst d) \<and> set (map fst d) \<subseteq> set permitted)
          then Inl OperationContractError
          else (case durable_scalars resource_type d of Inl e \<Rightarrow> Inl e
            | Inr r \<Rightarrow>
              if \<not> durable_binding_ok i resource_type resource_id r then Inl OperationContractError
              else (case ledger_parse_timestamp (text_value (response_text r ''createdAt'')) of
                  Inl e \<Rightarrow> Inl e
                | Inr t \<Rightarrow> if \<not> durable_content_ok resource_type r
                      \<or> MAX_DURABLE_RESPONSE_BYTES < utf8_length (durable_json r)
                    then Inl OperationContractError else Inr r))
      | _ \<Rightarrow> Inl OperationContractError)"

definition validated_failure_code :: "pyval \<Rightarrow> exn + string" where
  "validated_failure_code v = (case str_view v of
       Some s \<Rightarrow> if failure_code_pattern s then Inr s else Inl OperationContractError
     | None \<Rightarrow> Inl OperationContractError)"

section \<open>Items\<close>

definition durable_dict :: "durable_response \<Rightarrow> pyval" where
  "durable_dict r = PDict (map (\<lambda>(k, v). (k, text_value v)) r)"

text \<open>\<open>_operation_item\<close>; the record's identity and digest are checked again on the way.\<close>

definition ledger_item :: "ledger_record \<Rightarrow> exn + item" where
  "ledger_item r = (case ledger_identity r of Inl e \<Rightarrow> Inl e | Inr i \<Rightarrow>
     (case normalized_digest (PStr (led_request_digest r)) of Inl e \<Rightarrow> Inl e | Inr request \<Rightarrow>
     (case ledger_timestamp (led_created_at r) of Inl e \<Rightarrow> Inl e | Inr created \<Rightarrow>
     (case ledger_timestamp (led_updated_at r) of Inl e \<Rightarrow> Inl e | Inr updated \<Rightarrow>
     (case ledger_timestamp (led_expires_at r) of Inl e \<Rightarrow> Inl e | Inr expires \<Rightarrow>
     (case (case led_completed_at r of None \<Rightarrow> Inr [] | Some t \<Rightarrow> (case ledger_timestamp t of
          Inl e \<Rightarrow> Inl e | Inr c \<Rightarrow> Inr [(''completed_at'', PStr c)])) of Inl e \<Rightarrow> Inl e | Inr completed \<Rightarrow>
     (case (case led_failure_code r of None \<Rightarrow> Inr [] | Some f \<Rightarrow> (case validated_failure_code (PStr f) of
          Inl e \<Rightarrow> Inl e | Inr c \<Rightarrow> Inr [(''failure_code'', PStr c)])) of Inl e \<Rightarrow> Inl e | Inr failed \<Rightarrow>
       Inr ([(''pk'', PStr (fst (ledger_key i))), (''sk'', PStr (snd (ledger_key i))),
             (''schema_version'', PStr OPERATION_SCHEMA_VERSION),
             (''contract_version'', PStr (oi_contract_version i)), (''operation'', PStr (oi_operation i)),
             (''actor_digest'', PStr (oi_actor_digest i)), (''customer_id'', PStr (oi_customer_id i)),
             (''deployment_id'', PStr (oi_deployment_id i)), (''key_digest'', PStr (oi_key_digest i)),
             (''request_digest'', PStr request), (''resource_type'', PStr (led_resource_type r)),
             (''resource_id'', PStr (led_resource_id r)),
             (''durable_response'', durable_dict (led_durable_response r)),
             (''state'', PStr (operation_state_value (led_state r))), (''version'', PInt (led_version r)),
             (''created_at'', PStr created), (''updated_at'', PStr updated), (''expires_at'', PStr expires)]
            @ completed @ failed))))))))"

definition LEDGER_ITEM_FIELDS :: "string list" where
  "LEDGER_ITEM_FIELDS =
     [''pk'', ''sk'', ''schema_version'', ''contract_version'', ''operation'', ''actor_digest'',
      ''customer_id'', ''deployment_id'', ''key_digest'', ''request_digest'', ''resource_type'',
      ''resource_id'', ''durable_response'', ''state'', ''version'', ''created_at'', ''updated_at'',
      ''expires_at'']"

definition LEDGER_OPTIONAL_FIELDS :: "string list" where
  "LEDGER_OPTIONAL_FIELDS = [''completed_at'', ''failure_code'']"

text \<open>The consistency of a stored record: its times, and what its state says of them.\<close>

definition ledger_record_ok :: "ledger_record \<Rightarrow> bool" where
  "ledger_record_ok r \<longleftrightarrow>
     instant (led_created_at r) \<le> instant (led_updated_at r) \<and>
     instant (led_created_at r) < instant (led_expires_at r) \<and>
     (case led_completed_at r of None \<Rightarrow> True
      | Some c \<Rightarrow> instant (led_created_at r) \<le> instant c \<and> instant c \<le> instant (led_updated_at r)) \<and>
     (led_state r \<in> set FAILURE_STATES \<longleftrightarrow> led_failure_code r \<noteq> None) \<and>
     (led_state r \<in> set COMPLETED_STATES \<longleftrightarrow> led_completed_at r \<noteq> None) \<and>
     (if led_state r = EXPIRED then instant (led_expires_at r) \<le> instant (led_updated_at r)
      else instant (led_updated_at r) < instant (led_expires_at r))"

text \<open>\<open>f(item.get(name)) if item.get(name) is not None else None\<close>\<close>

definition optional_value :: "item \<Rightarrow> string \<Rightarrow> (pyval \<Rightarrow> exn + 'a) \<Rightarrow> exn + 'a option" where
  "optional_value d k f = (if py_get d k = PNone then Inr None
     else (case f (py_get d k) of Inl e \<Rightarrow> Inl e | Inr x \<Rightarrow> Inr (Some x)))"

definition item_identity :: "item \<Rightarrow> exn + operation_identity" where
  "item_identity d =
     (case validated_identifier (py_get d ''contract_version'') of Inl e \<Rightarrow> Inl e | Inr contract \<Rightarrow>
     (case normalized_digest (py_get d ''actor_digest'') of Inl e \<Rightarrow> Inl e | Inr actor \<Rightarrow>
     (case validated_identifier (py_get d ''customer_id'') of Inl e \<Rightarrow> Inl e | Inr customer \<Rightarrow>
     (case validated_identifier (py_get d ''deployment_id'') of Inl e \<Rightarrow> Inl e | Inr deployment \<Rightarrow>
     (case normalized_digest (py_get d ''key_digest'') of Inl e \<Rightarrow> Inl e | Inr key \<Rightarrow>
       operation_identity_new contract (py_str (py_get d ''operation'')) actor customer deployment key)))))"

definition item_record :: "item \<Rightarrow> operation_identity \<Rightarrow> exn + ledger_record" where
  "item_record d i =
     (case normalized_digest (py_get d ''request_digest'') of Inl e \<Rightarrow> Inl e | Inr request \<Rightarrow>
     (case validated_identifier (py_get d ''resource_type'') of Inl e \<Rightarrow> Inl e | Inr rtype \<Rightarrow>
     (case validated_resource_id (py_get d ''resource_id'') of Inl e \<Rightarrow> Inl e | Inr rid \<Rightarrow>
     (case validated_durable_response (py_get d ''durable_response'') i rtype rid of Inl e \<Rightarrow> Inl e | Inr resp \<Rightarrow>
     (case state_of (py_get d ''state'') of Inl e \<Rightarrow> Inl e | Inr st \<Rightarrow>
     (case positive_integer (py_get d ''version'') of Inl e \<Rightarrow> Inl e | Inr n \<Rightarrow>
     (case ledger_parse_timestamp (py_get d ''created_at'') of Inl e \<Rightarrow> Inl e | Inr created \<Rightarrow>
     (case ledger_parse_timestamp (py_get d ''updated_at'') of Inl e \<Rightarrow> Inl e | Inr updated \<Rightarrow>
     (case ledger_parse_timestamp (py_get d ''expires_at'') of Inl e \<Rightarrow> Inl e | Inr expires \<Rightarrow>
     (case optional_value d ''completed_at'' ledger_parse_timestamp of Inl e \<Rightarrow> Inl e | Inr completed \<Rightarrow>
     (case optional_value d ''failure_code'' validated_failure_code of Inl e \<Rightarrow> Inl e | Inr failed \<Rightarrow>
       Inr \<lparr>led_schema_version = OPERATION_SCHEMA_VERSION, led_contract_version = oi_contract_version i,
        led_operation = oi_operation i, led_actor_digest = oi_actor_digest i,
        led_customer_id = oi_customer_id i, led_deployment_id = oi_deployment_id i,
        led_key_digest = oi_key_digest i, led_request_digest = request, led_resource_type = rtype,
        led_resource_id = rid, led_durable_response = resp, led_state = st, led_version = n,
        led_created_at = created, led_updated_at = updated, led_expires_at = expires,
        led_completed_at = completed, led_failure_code = failed\<rparr>)))))))))))"

definition ledger_record_from_item :: "pyval \<Rightarrow> exn + ledger_record" where
  "ledger_record_from_item v = (case v of
       PDict d \<Rightarrow>
         if \<not> (set LEDGER_ITEM_FIELDS \<subseteq> set (map fst d)
               \<and> set (map fst d) \<subseteq> set (LEDGER_ITEM_FIELDS @ LEDGER_OPTIONAL_FIELDS))
            \<or> \<not> py_eq (py_get d ''schema_version'') (PStr OPERATION_SCHEMA_VERSION)
         then Inl OperationContractError
         else (case item_identity d of Inl e \<Rightarrow> Inl e | Inr i \<Rightarrow>
           if \<not> (py_eq (py_get d ''pk'') (PStr (fst (ledger_key i)))
                 \<and> py_eq (py_get d ''sk'') (PStr (snd (ledger_key i))))
           then Inl OperationContractError
           else (case item_record d i of Inl e \<Rightarrow> Inl e | Inr r \<Rightarrow>
             if ledger_record_ok r then Inr r else Inl OperationContractError))
     | _ \<Rightarrow> Inl OperationContractError)"

section \<open>The repository\<close>

definition ledger_load :: "'w dynamo \<Rightarrow> operation_identity \<Rightarrow> ('w, ledger_record option) io" where
  "ledger_load dy i =
     bind (dy_get_item dy (ledger_key i)) (\<lambda>response. case response of
       PDict d \<Rightarrow> (case map_of d ''Item'' of
           None \<Rightarrow> ret None
         | Some v \<Rightarrow> bind (lift (ledger_record_from_item v)) (\<lambda>r.
             bind (ensure (ledger_identity r = Inr i) OperationContractError) (\<lambda>_. ret (Some r))))
     | _ \<Rightarrow> raise OperationContractError)"

definition ledger_candidate ::
  "operation_identity \<Rightarrow> string \<Rightarrow> string \<Rightarrow> string \<Rightarrow> durable_response \<Rightarrow> datetime \<Rightarrow> datetime \<Rightarrow> ledger_record" where
  "ledger_candidate i request rtype rid resp now expires =
     \<lparr>led_schema_version = OPERATION_SCHEMA_VERSION, led_contract_version = oi_contract_version i,
      led_operation = oi_operation i, led_actor_digest = oi_actor_digest i,
      led_customer_id = oi_customer_id i, led_deployment_id = oi_deployment_id i,
      led_key_digest = oi_key_digest i, led_request_digest = request, led_resource_type = rtype,
      led_resource_id = rid, led_durable_response = resp, led_state = PENDING, led_version = 1,
      led_created_at = now, led_updated_at = now, led_expires_at = expires,
      led_completed_at = None, led_failure_code = None\<rparr>"

text \<open>\<open>current == candidate\<close> on the records, whose responses are dictionaries.\<close>

definition same_record :: "ledger_record \<Rightarrow> ledger_record \<Rightarrow> bool" where
  "same_record r q \<longleftrightarrow> r\<lparr>led_durable_response := []\<rparr> = q\<lparr>led_durable_response := []\<rparr> \<and>
     dict_eq (led_durable_response r) (led_durable_response q)"

text \<open>The error of a computation as a value, \<open>None\<close> when it succeeds.\<close>

definition attempt :: "('w, 'a) io \<Rightarrow> ('w, exn option) io" where
  "attempt m = catch (bind m (\<lambda>_. ret None)) (\<lambda>e. ret (Some e))"

definition reserve_arguments ::
  "operation_identity \<Rightarrow> pyval \<Rightarrow> pyval \<Rightarrow> pyval \<Rightarrow> pyval \<Rightarrow> datetime \<Rightarrow> datetime \<Rightarrow> exn + ledger_record" where
  "reserve_arguments i request rtype rid response now expires =
     (case normalized_digest request of Inl e \<Rightarrow> Inl e | Inr request' \<Rightarrow>
     (case validated_identifier rtype of Inl e \<Rightarrow> Inl e | Inr rtype' \<Rightarrow>
     (case validated_resource_id rid of Inl e \<Rightarrow> Inl e | Inr rid' \<Rightarrow>
     if map_of OPERATION_RESOURCE_TYPES (oi_operation i) \<noteq> Some rtype' then Inl OperationContractError else
     (case aware_utc now of Inl e \<Rightarrow> Inl e | Inr now' \<Rightarrow>
     (case aware_utc expires of Inl e \<Rightarrow> Inl e | Inr expires' \<Rightarrow>
     if instant expires' \<le> instant now' then Inl OperationContractError else
     (case validated_durable_response response i rtype' rid' of Inl e \<Rightarrow> Inl e | Inr resp \<Rightarrow>
     (case ledger_parse_timestamp (text_value (response_text resp ''createdAt'')) of Inl e \<Rightarrow> Inl e | Inr t \<Rightarrow>
     if t \<noteq> now' then Inl OperationContractError
     else Inr (ledger_candidate i request' rtype' rid' resp now' expires'))))))))"

definition ledger_reserve ::
  "'w dynamo \<Rightarrow> operation_identity \<Rightarrow> pyval \<Rightarrow> pyval \<Rightarrow> pyval \<Rightarrow> pyval \<Rightarrow> datetime \<Rightarrow> datetime
    \<Rightarrow> ('w, reservation_outcome) io" where
  "ledger_reserve dy i request rtype rid response now expires =
     bind (lift (reserve_arguments i request rtype rid response now expires)) (\<lambda>candidate.
     bind (attempt (bind (lift (ledger_item candidate)) (\<lambda>d. dy_put_item dy d unless_exists))) (\<lambda>failure.
       case failure of
         None \<Rightarrow> ret \<lparr>ro_record = candidate, ro_created_here = True\<rparr>
       | Some error \<Rightarrow>
           bind (catch (ledger_load dy i) (\<lambda>e. raise
             (if e = OperationContractError then e else OperationPersistenceAmbiguous))) (\<lambda>found.
           case found of
             None \<Rightarrow> raise OperationPersistenceAmbiguous
           | Some current \<Rightarrow>
               bind (ensure (led_request_digest current = led_request_digest candidate
                       \<and> led_resource_type current = led_resource_type candidate) OperationConflict) (\<lambda>_.
               ret \<lparr>ro_record = current, ro_created_here =
                 (error_code error \<noteq> Some CONDITIONAL_FAILURE \<and> same_record current candidate)\<rparr>))))"

definition matches_transition ::
  "ledger_record \<Rightarrow> durable_response \<Rightarrow> string option \<Rightarrow> datetime option \<Rightarrow> bool" where
  "matches_transition r response failure completed \<longleftrightarrow>
     dict_eq (led_durable_response r) response \<and> led_failure_code r = failure \<and>
     (case completed of None \<Rightarrow> True | Some c \<Rightarrow> led_completed_at r = Some c)"

text \<open>The arguments of a transition after the checks that come before the read.\<close>

record transition_arguments =
  ta_expected :: operation_state
  ta_version :: int
  ta_next :: operation_state
  ta_failure :: "string option"
  ta_completed :: "datetime option"
  ta_updated :: datetime

definition transition_arguments_new ::
  "operation_state \<Rightarrow> int \<Rightarrow> operation_state \<Rightarrow> pyval \<Rightarrow> datetime option \<Rightarrow> datetime \<Rightarrow> exn + transition_arguments" where
  "transition_arguments_new expected n next_state failure completed updated =
     (case positive_integer (PInt n) of Inl e \<Rightarrow> Inl e | Inr n' \<Rightarrow>
     (case aware_utc updated of Inl e \<Rightarrow> Inl e | Inr updated' \<Rightarrow>
     (case (case completed of None \<Rightarrow> Inr None | Some c \<Rightarrow> (case aware_utc c of Inl e \<Rightarrow> Inl e | Inr c' \<Rightarrow> Inr (Some c'))) of
        Inl e \<Rightarrow> Inl e | Inr completed' \<Rightarrow>
     (case (if next_state \<in> set FAILURE_STATES
            then (case validated_failure_code failure of Inl e \<Rightarrow> Inl e | Inr f \<Rightarrow> Inr (Some f))
            else if failure \<noteq> PNone then Inl OperationContractError else Inr None) of
        Inl e \<Rightarrow> Inl e | Inr failure' \<Rightarrow>
       Inr \<lparr>ta_expected = expected, ta_version = n', ta_next = next_state, ta_failure = failure',
            ta_completed = completed', ta_updated = updated'\<rparr>))))"

definition effective_completed :: "transition_arguments \<Rightarrow> ledger_record \<Rightarrow> datetime option" where
  "effective_completed a current =
     (if ta_next a \<in> set COMPLETED_STATES \<and> ta_completed a = None
      then Some (case led_completed_at current of Some c \<Rightarrow> c | None \<Rightarrow> ta_updated a)
      else ta_completed a)"

text \<open>
  What the read decides: nothing left to do (the transition was applied before), a refusal, or
  the write.
\<close>

definition transition_checks :: "transition_arguments \<Rightarrow> ledger_record \<Rightarrow> exn + unit" where
  "transition_checks a current =
     (if led_state current \<noteq> ta_expected a \<or> led_version current \<noteq> ta_version a then Inl OperationConflict
      else if ta_next a \<notin> set (ALLOWED_TRANSITIONS (ta_expected a)) then Inl OperationContractError
      else if instant (ta_updated a) < instant (led_updated_at current) then Inl OperationContractError
      else if (case ta_completed a of None \<Rightarrow> False
               | Some c \<Rightarrow> \<not> (instant (led_created_at current) \<le> instant c \<and> instant c \<le> instant (ta_updated a)))
           then Inl OperationContractError
      else if instant (led_expires_at current) \<le> instant (ta_updated a) \<and> ta_next a \<noteq> EXPIRED
           then Inl OperationConflict
      else if ta_next a = EXPIRED \<and> instant (ta_updated a) < instant (led_expires_at current)
           then Inl OperationContractError
      else Inr ())"

definition ledger_tests :: "operation_identity \<Rightarrow> transition_arguments \<Rightarrow> ledger_record \<Rightarrow> test list" where
  "ledger_tests i a current =
     [Equals ''state'' (PStr (operation_state_value (ta_expected a))),
      Equals ''version'' (PInt (ta_version a)),
      Equals ''schema_version'' (PStr OPERATION_SCHEMA_VERSION),
      Equals ''contract_version'' (PStr (oi_contract_version i)),
      Equals ''operation'' (PStr (oi_operation i)), Equals ''actor_digest'' (PStr (oi_actor_digest i)),
      Equals ''customer_id'' (PStr (oi_customer_id i)), Equals ''deployment_id'' (PStr (oi_deployment_id i)),
      Equals ''key_digest'' (PStr (oi_key_digest i)),
      Equals ''request_digest'' (PStr (led_request_digest current)),
      Equals ''resource_type'' (PStr (led_resource_type current)),
      Equals ''resource_id'' (PStr (led_resource_id current))]"

definition ledger_sets ::
  "transition_arguments \<Rightarrow> durable_response \<Rightarrow> datetime option \<Rightarrow> (string \<times> pyval) list" where
  "ledger_sets a response completed =
     [(''state'', PStr (operation_state_value (ta_next a))), (''version'', PInt (ta_version a + 1)),
      (''updated_at'', PStr (timestamp_text (instant (ta_updated a)))),
      (''durable_response'', durable_dict response)]
     @ (case ta_failure a of None \<Rightarrow> [] | Some f \<Rightarrow> [(''failure_code'', PStr f)])
     @ (case completed of None \<Rightarrow> [] | Some c \<Rightarrow> [(''completed_at'', PStr (timestamp_text (instant c)))])"

definition ledger_removes :: "transition_arguments \<Rightarrow> datetime option \<Rightarrow> string list" where
  "ledger_removes a completed =
     (if ta_failure a = None then [''failure_code''] else [])
     @ (if completed = None then [''completed_at''] else [])"

text \<open>The write and the reading that decides its outcome.\<close>

definition transition_write_verified ::
  "'w dynamo \<Rightarrow> operation_identity \<Rightarrow> transition_arguments \<Rightarrow> ledger_record \<Rightarrow> durable_response
    \<Rightarrow> datetime option \<Rightarrow> ('w, ledger_record) io" where
  "transition_write_verified dy i a current response completed =
     bind (attempt (dy_update_item dy (ledger_key i) (ledger_sets a response completed)
             (ledger_removes a completed) (ledger_tests i a current))) (\<lambda>failure.
     bind (catch (ledger_load dy i) (\<lambda>_. raise OperationPersistenceAmbiguous)) (\<lambda>verified.
       case verified of
         Some r \<Rightarrow>
           if led_state r = ta_next a \<and> led_version r = ta_version a + 1
           then bind (ensure (matches_transition r response (ta_failure a) completed) OperationConflict) (\<lambda>_. ret r)
           else raise (if Option.bind failure error_code = Some CONDITIONAL_FAILURE
                       then OperationConflict else OperationPersistenceAmbiguous)
       | None \<Rightarrow> raise (if Option.bind failure error_code = Some CONDITIONAL_FAILURE
                       then OperationConflict else OperationPersistenceAmbiguous)))"

definition transition_response ::
  "operation_identity \<Rightarrow> ledger_record \<Rightarrow> pyval \<Rightarrow> exn + durable_response" where
  "transition_response i current response =
     (case (if response = PNone then Inr (led_durable_response current)
            else validated_durable_response response i (led_resource_type current) (led_resource_id current)) of
        Inl e \<Rightarrow> Inl e
      | Inr r \<Rightarrow> if dict_eq r (led_durable_response current) then Inr r else Inl OperationContractError)"

definition ledger_transition ::
  "'w dynamo \<Rightarrow> operation_identity \<Rightarrow> operation_state \<Rightarrow> int \<Rightarrow> operation_state \<Rightarrow> pyval \<Rightarrow> pyval
    \<Rightarrow> datetime option \<Rightarrow> datetime \<Rightarrow> ('w, ledger_record) io" where
  "ledger_transition dy i expected n next_state response failure completed updated =
     bind (lift (transition_arguments_new expected n next_state failure completed updated)) (\<lambda>a.
     bind (ledger_load dy i) (\<lambda>found. case found of
       None \<Rightarrow> raise OperationConflict
     | Some current \<Rightarrow>
         bind (lift (transition_response i current response)) (\<lambda>resp.
         let done_at = effective_completed a current in
         bind (ensure (ta_next a \<in> set COMPLETED_STATES \<or> done_at = None) OperationContractError) (\<lambda>_.
         if led_state current = ta_next a \<and> led_version current = ta_version a + 1
         then bind (ensure (matches_transition current resp (ta_failure a) (ta_completed a)) OperationConflict)
                (\<lambda>_. ret current)
         else bind (lift (transition_checks a current)) (\<lambda>_.
                transition_write_verified dy i a current resp done_at)))))"

end
