(* ===== verification/JourneyContract.thy ===== *)
theory JourneyContract
  imports OperationLedger ObjectAuthorization
begin

text \<open>
  The part of \<open>app/journey_contract.py\<close> the journey service computes with: owner scopes,
  idempotency keys, canonical requests and their digests, and the durable responses. A request is
  the record the closed pydantic model has validated.
\<close>

section \<open>Vocabulary\<close>

definition CONTRACT_VERSION :: string where
  "CONTRACT_VERSION = ''scanalyze.document-journey.v1''"

definition null_char :: char where "null_char = char_of (0 :: nat)"

definition CANONICAL_REQUEST_DOMAIN :: string where
  "CANONICAL_REQUEST_DOMAIN = ''scanalyze.document-journey.canonical-request.v1'' @ [null_char]"

definition IDEMPOTENCY_KEY_DOMAIN :: string where
  "IDEMPOTENCY_KEY_DOMAIN = ''scanalyze.document-journey.idempotency-key.v1'' @ [null_char]"

definition ACTOR_IDENTITY_DOMAIN :: string where
  "ACTOR_IDENTITY_DOMAIN = ''scanalyze.document-journey.actor.v1'' @ [null_char]"

datatype operation_kind = BATCH_CREATE | DOCUMENT_CREATE

fun operation_kind_value :: "operation_kind \<Rightarrow> string" where
  "operation_kind_value BATCH_CREATE = ''batches.create''"
| "operation_kind_value DOCUMENT_CREATE = ''documents.create''"

text \<open>\<open>_digest\<close> of the contract module: a domain, then the value.\<close>

definition domain_digest :: "string \<Rightarrow> string \<Rightarrow> string" where
  "domain_digest domain v = ''sha256:'' @ sha256_hex (domain @ v)"

section \<open>Idempotency keys\<close>

text \<open>
  \<open>_UUID4_RE\<close>. The parsed UUID of such a text has version 4 and prints as the same text, so the
  checks that follow it add nothing.
\<close>

definition uuid4_pattern :: "string \<Rightarrow> bool" where
  "uuid4_pattern s \<longleftrightarrow> length s = 36 \<and>
     list_all (\<lambda>(i, c). if i \<in> {8, 13, 18, 23} then c = CHR ''-''
        else if i = 14 then c = CHR ''4''
        else if i = 19 then c \<in> set ''89ab''
        else is_lower_hex c) (zip [0..<36] s)"

definition idempotency_key_digest :: "pyval \<Rightarrow> exn + string" where
  "idempotency_key_digest v = (case str_view v of
       Some s \<Rightarrow> if uuid4_pattern s then Inr (domain_digest IDEMPOTENCY_KEY_DOMAIN s) else Inl JourneyContractError
     | None \<Rightarrow> Inl JourneyContractError)"

section \<open>Owner scopes\<close>

record owner_scope =
  os_actor_digest :: string
  os_customer_id :: string
  os_deployment_id :: string

definition journey_customer_pattern :: "string \<Rightarrow> bool" where
  "journey_customer_pattern = match_headed [] is_alnum (\<lambda>c. is_alnum c \<or> c \<in> set ''_.-'') 1 127"

definition journey_deployment_pattern :: "string \<Rightarrow> bool" where
  "journey_deployment_pattern = match_prefixed ''dep_'' is_crockford 26 26"

text \<open>The actor whose identity is pseudonymised: the subject of a person, the client of a machine.\<close>

definition journey_actor :: "auth_context \<Rightarrow> (string \<times> pyval) option" where
  "journey_actor auth = (case str_view (ac_principal_type auth) of
       Some t \<Rightarrow> if t = ''user'' \<or> t = ''local_mock'' then Some (t, ac_subject auth)
                 else if t = ''m2m'' then Some (t, ac_client_id auth) else None
     | None \<Rightarrow> None)"

definition actor_frame :: "string \<Rightarrow> string \<Rightarrow> string" where
  "actor_frame principal_type actor =
     json_flat [(''principalType'', JStr principal_type), (''reference'', JStr (py_strip actor))]"

definition owner_scope_from_auth :: "auth_context \<Rightarrow> exn + owner_scope" where
  "owner_scope_from_auth auth = (case journey_actor auth of
       None \<Rightarrow> Inl JourneyContractError
     | Some (principal_type, actor) \<Rightarrow>
         if \<not> str_sat (\<lambda>s. py_strip s \<noteq> []) actor \<or> \<not> str_sat journey_customer_pattern (ac_customer_id auth)
            \<or> \<not> str_sat journey_deployment_pattern (ac_deployment_id auth)
         then Inl JourneyContractError
         else Inr \<lparr>os_actor_digest = domain_digest ACTOR_IDENTITY_DOMAIN (actor_frame principal_type (the (str_view actor))),
                os_customer_id = the (str_view (ac_customer_id auth)),
                os_deployment_id = the (str_view (ac_deployment_id auth))\<rparr>)"

section \<open>Requests\<close>

record document_request =
  dr_filename :: "string option"
  dr_content_type :: string
  dr_content_length :: "int option"
  dr_batch_id :: "string option"

text \<open>What the closed model has checked: the bounds the service relies on.\<close>

definition document_request_ok :: "document_request \<Rightarrow> bool" where
  "document_request_ok rq \<longleftrightarrow> dr_content_type rq \<in> set DOCUMENT_CONTENT_TYPES \<and>
     (case dr_batch_id rq of None \<Rightarrow> True | Some b \<Rightarrow> resource_id_pattern b) \<and>
     (case dr_content_length rq of None \<Rightarrow> True | Some n \<Rightarrow> 0 \<le> n \<and> n \<le> 512 * 1024 * 1024)"

text \<open>\<open>model_dump(mode="json", by_alias=True, exclude_none=True)\<close>, in the order of the keys.\<close>

definition optional_member :: "string \<Rightarrow> 'v option \<Rightarrow> (string \<times> 'v) list" where
  "optional_member k v = (case v of None \<Rightarrow> [] | Some x \<Rightarrow> [(k, x)])"

definition document_request_json :: "document_request \<Rightarrow> (string \<times> json) list" where
  "document_request_json rq =
     optional_member ''batchId'' (map_option JStr (dr_batch_id rq))
     @ optional_member ''contentLength'' (map_option JInt (dr_content_length rq))
     @ [(''contentType'', JStr (dr_content_type rq))]
     @ optional_member ''filename'' (map_option JStr (dr_filename rq))"

definition request_frame :: "operation_kind \<Rightarrow> (string \<times> json) list \<Rightarrow> string" where
  "request_frame kind request = json_object
     [(''contractVersion'', json_string CONTRACT_VERSION), (''operation'', json_string (operation_kind_value kind)),
      (''request'', json_flat request)]"

definition canonical_request_digest :: "operation_kind \<Rightarrow> (string \<times> json) list \<Rightarrow> string" where
  "canonical_request_digest kind request = domain_digest CANONICAL_REQUEST_DOMAIN (request_frame kind request)"

section \<open>Durable responses\<close>

text \<open>The JSON form of \<open>BatchDurableResponse\<close> and \<open>DocumentDurableResponse\<close>; \<open>created\<close> is the time as text.\<close>

definition batch_durable :: "string \<Rightarrow> string \<Rightarrow> item" where
  "batch_durable batch_id created =
     [(''schemaVersion'', PStr ''scanalyze.batch-create-result.v1''), (''contractVersion'', PStr CONTRACT_VERSION),
      (''operation'', PStr (operation_kind_value BATCH_CREATE)), (''batchId'', PStr batch_id),
      (''status'', PStr ''OPEN''), (''createdAt'', PStr created)]"

definition document_durable :: "string \<Rightarrow> document_request \<Rightarrow> string \<Rightarrow> item" where
  "document_durable document_id rq created =
     [(''schemaVersion'', PStr ''scanalyze.document-create-result.v1''), (''contractVersion'', PStr CONTRACT_VERSION),
      (''operation'', PStr (operation_kind_value DOCUMENT_CREATE)), (''documentId'', PStr document_id)]
     @ optional_member ''batchId'' (map_option PStr (dr_batch_id rq))
     @ [(''status'', PStr ''UPLOAD_PENDING''), (''contentType'', PStr (dr_content_type rq)), (''createdAt'', PStr created)]"

section \<open>The limiter\<close>

text \<open>
  \<open>BoundedIntervalLimiter\<close>: the claims in the order of insertion. A claim that is too early is
  told how many seconds remain (at least one); when the store is full, the oldest claim goes.
\<close>

type_synonym limiter_claims = "(string \<times> datetime) list"

definition seconds_up :: "int \<Rightarrow> int" where
  "seconds_up us = - ((- us) div 1000000)"

fun oldest_claim :: "limiter_claims \<Rightarrow> string option" where
  "oldest_claim [] = None"
| "oldest_claim ((k, t) # cs) = Some (fst (fold (\<lambda>(k', t') (k0, t0). if instant t' < instant t0 then (k', t') else (k0, t0))
     cs (k, t)))"

definition without_claim :: "string option \<Rightarrow> limiter_claims \<Rightarrow> limiter_claims" where
  "without_claim k cs = filter (\<lambda>(k', t). Some k' \<noteq> k) cs"

definition limiter_claim :: "nat \<Rightarrow> string \<Rightarrow> datetime \<Rightarrow> int \<Rightarrow> limiter_claims \<Rightarrow> (exn + int option) \<times> limiter_claims" where
  "limiter_claim max_entries key now interval claims =
     (if key = [] \<or> interval < 1 then (Inl (PyExc ''ValueError''), claims)
      else let remaining = (case map_of claims key of None \<Rightarrow> 0
             | Some previous \<Rightarrow> interval * 1000000 - (int (instant now) - int (instant previous)))
           in if 0 < remaining then (Inr (Some (max 1 (seconds_up remaining))), claims)
              else let kept = (if max_entries \<le> length claims then without_claim (oldest_claim claims) claims else claims)
                   in (Inr None, dict_put key now kept))"

end
