(* ===== verification/DocumentStatus.thy ===== *)
theory DocumentStatus
  imports PyText PyTime Sha256
begin

text \<open>
  The public status of a document, \<open>adapt_internal_document_status\<close> of
  \<open>app/journey_contract.py\<close>: what the pipeline stored about a document is projected to the
  reviewed lifecycle, stage and failure metadata, and anything else is refused.
\<close>

section \<open>The public vocabulary\<close>

datatype document_lifecycle = UPLOAD_PENDING | SUBMITTED | PROCESSING | COMPLETED | FAILED

datatype pipeline_stage = INGEST | OCR | CLASSIFY | BANK_EXTRACT | PERSONAL_EXTRACT | VALIDATE | TERMINAL

datatype stage_state = PENDING | RUNNING | SUCCEEDED | FAILED

datatype processing_condition = ACTIVE | NOT_APPLICABLE

datatype failure_disposition = RETRYABLE | TERMINAL

datatype safe_failure_code = DOCUMENT_PROCESSING_FAILED | OCR_FAILED | ENQUEUE_FAILED

text \<open>Times are instants in microseconds of UTC; they need not lie in Python's range after the conversion.\<close>

record document_status =
  ds_batch_id :: "string option"
  ds_document_id :: string
  ds_lifecycle :: document_lifecycle
  ds_current_stage :: pipeline_stage
  ds_stage_state :: stage_state
  ds_processing_condition :: processing_condition
  ds_created_at :: int
  ds_updated_at :: int
  ds_terminal_at :: "int option"
  ds_correlation_reference :: "string option"
  ds_attempt :: "int option"
  ds_failure_disposition :: "failure_disposition option"
  ds_safe_failure_code :: "safe_failure_code option"

section \<open>The checks of the response model\<close>

text \<open>
  \<open>DocumentStatusResponse._consistent_status\<close>, and the bounds of its fields; the patterns of the
  identifiers and of the reference.
\<close>

definition hex_id_pattern :: "string \<Rightarrow> bool" where
  "hex_id_pattern = match_prefixed [] is_lower_hex 32 32"

definition status_reference_pattern :: "string \<Rightarrow> bool" where
  "status_reference_pattern = match_headed [] is_alnum (\<lambda>c. is_alnum c \<or> c \<in> set ''._:-'') 7 127"

definition status_fields_ok :: "document_status \<Rightarrow> bool" where
  "status_fields_ok s \<longleftrightarrow>
     (case ds_batch_id s of None \<Rightarrow> True | Some b \<Rightarrow> hex_id_pattern b) \<and> hex_id_pattern (ds_document_id s) \<and>
     (case ds_correlation_reference s of None \<Rightarrow> True | Some r \<Rightarrow> status_reference_pattern r) \<and>
     (case ds_attempt s of None \<Rightarrow> True | Some n \<Rightarrow> 0 \<le> n \<and> n \<le> 1000)"

definition is_terminal :: "document_lifecycle \<Rightarrow> bool" where
  "is_terminal l \<longleftrightarrow> l = COMPLETED \<or> l = document_lifecycle.FAILED"

definition status_times_ok :: "document_status \<Rightarrow> bool" where
  "status_times_ok s \<longleftrightarrow> ds_created_at s \<le> ds_updated_at s \<and>
     (case ds_terminal_at s of None \<Rightarrow> True
      | Some t \<Rightarrow> is_terminal (ds_lifecycle s) \<longrightarrow> ds_created_at s \<le> t \<and> t \<le> ds_updated_at s)"

definition retryable_enqueue_failure :: "document_status \<Rightarrow> bool" where
  "retryable_enqueue_failure s \<longleftrightarrow>
     ds_lifecycle s = SUBMITTED \<and> ds_current_stage s = INGEST \<and> ds_stage_state s = stage_state.FAILED \<and>
     ds_processing_condition s = NOT_APPLICABLE \<and> ds_failure_disposition s = Some RETRYABLE \<and>
     ds_safe_failure_code s = Some ENQUEUE_FAILED"

definition REVIEWED_PROCESSING_STATES :: "(pipeline_stage \<times> stage_state) list" where
  "REVIEWED_PROCESSING_STATES =
     [(OCR, RUNNING), (OCR, SUCCEEDED), (CLASSIFY, PENDING), (CLASSIFY, SUCCEEDED), (BANK_EXTRACT, RUNNING),
      (BANK_EXTRACT, SUCCEEDED), (PERSONAL_EXTRACT, RUNNING), (PERSONAL_EXTRACT, SUCCEEDED), (VALIDATE, SUCCEEDED)]"

definition terminal_consistent :: "document_status \<Rightarrow> bool" where
  "terminal_consistent s \<longleftrightarrow>
     (is_terminal (ds_lifecycle s) \<longleftrightarrow> ds_terminal_at s \<noteq> None) \<and>
     (if is_terminal (ds_lifecycle s)
      then ds_current_stage s = pipeline_stage.TERMINAL \<and> ds_processing_condition s = NOT_APPLICABLE
      else ds_current_stage s \<noteq> pipeline_stage.TERMINAL)"

definition stage_consistent :: "document_status \<Rightarrow> bool" where
  "stage_consistent s \<longleftrightarrow>
     (ds_lifecycle s = UPLOAD_PENDING \<longrightarrow>
        ds_current_stage s = INGEST \<and> ds_stage_state s = PENDING \<and> ds_processing_condition s = ACTIVE) \<and>
     (ds_lifecycle s = SUBMITTED \<and> \<not> retryable_enqueue_failure s \<longrightarrow>
        ds_current_stage s = INGEST \<and> (ds_stage_state s = PENDING \<or> ds_stage_state s = RUNNING) \<and>
        ds_processing_condition s = ACTIVE) \<and>
     (ds_lifecycle s = PROCESSING \<longrightarrow>
        (ds_current_stage s, ds_stage_state s) \<in> set REVIEWED_PROCESSING_STATES \<and>
        ds_processing_condition s = ACTIVE)"

definition failure_consistent :: "document_status \<Rightarrow> bool" where
  "failure_consistent s \<longleftrightarrow>
     (if ds_lifecycle s = COMPLETED
      then ds_stage_state s = SUCCEEDED \<and> ds_failure_disposition s = None \<and> ds_safe_failure_code s = None
      else if ds_lifecycle s = document_lifecycle.FAILED
      then ds_stage_state s = stage_state.FAILED \<and> ds_failure_disposition s = Some failure_disposition.TERMINAL \<and>
           (ds_safe_failure_code s = Some DOCUMENT_PROCESSING_FAILED \<or> ds_safe_failure_code s = Some OCR_FAILED)
      else if retryable_enqueue_failure s then True
      else ds_failure_disposition s = None \<and> ds_safe_failure_code s = None \<and>
           ds_stage_state s \<noteq> stage_state.FAILED \<and> ds_processing_condition s \<noteq> NOT_APPLICABLE)"

definition consistent_status :: "document_status \<Rightarrow> bool" where
  "consistent_status s \<longleftrightarrow>
     status_times_ok s \<and> terminal_consistent s \<and> stage_consistent s \<and> failure_consistent s"

section \<open>Stored values\<close>

definition STATUS_ADAPTER :: "(string \<times> document_lifecycle \<times> pipeline_stage \<times> stage_state) list" where
  "STATUS_ADAPTER =
     [(''CREATED'', UPLOAD_PENDING, INGEST, PENDING),
      (''SUBMITTED'', SUBMITTED, INGEST, RUNNING),
      (''OCR'', PROCESSING, OCR, RUNNING),
      (''OCR_COMPLETED'', PROCESSING, OCR, SUCCEEDED),
      (''CLASSIFY_PENDING'', PROCESSING, CLASSIFY, PENDING),
      (''CLASSIFY_COMPLETED'', PROCESSING, CLASSIFY, SUCCEEDED),
      (''BANK_EXTRACTING'', PROCESSING, BANK_EXTRACT, RUNNING),
      (''BANK_EXTRACTED'', PROCESSING, BANK_EXTRACT, SUCCEEDED),
      (''PERSONAL_EXTRACTING'', PROCESSING, PERSONAL_EXTRACT, RUNNING),
      (''PERSONAL_EXTRACTED'', PROCESSING, PERSONAL_EXTRACT, SUCCEEDED),
      (''COMPLETED'', COMPLETED, pipeline_stage.TERMINAL, SUCCEEDED),
      (''FAILED'', document_lifecycle.FAILED, pipeline_stage.TERMINAL, stage_state.FAILED),
      (''OCR_FAILED'', document_lifecycle.FAILED, pipeline_stage.TERMINAL, stage_state.FAILED)]"

definition STAGE_STATE_ADAPTERS :: "(string \<times> (string \<times> stage_state) list) list" where
  "STAGE_STATE_ADAPTERS =
     [(''ingest'', [(''ENQUEUE_PENDING'', PENDING), (''ENQUEUED'', RUNNING), (''ENQUEUE_FAILED'', stage_state.FAILED)]),
      (''ocr'', [(''IN_PROGRESS'', RUNNING), (''COMPLETED'', SUCCEEDED)]),
      (''classify'', [(''ENQUEUED'', RUNNING), (''PENDING_HANDOFF'', PENDING), (''COMPLETED'', SUCCEEDED)]),
      (''bank_extract'', [(''ENQUEUED'', RUNNING), (''WRITING'', RUNNING), (''COMPLETED'', SUCCEEDED)]),
      (''personal_extract'', [(''ENQUEUED'', RUNNING), (''WRITING'', RUNNING), (''COMPLETED'', SUCCEEDED)]),
      (''validate'', [(''DONE'', SUCCEEDED)]), (''persist'', [(''DONE'', SUCCEEDED)]), (''notify'', [(''DONE'', SUCCEEDED)])]"

definition TERMINAL_STAGE_RAW_STATE_ALLOWLIST :: "(string \<times> string list) list" where
  "TERMINAL_STAGE_RAW_STATE_ALLOWLIST =
     [(''ingest'', [''ENQUEUED'']), (''ocr'', [''COMPLETED'']), (''classify'', [''COMPLETED'']),
      (''bank_extract'', [''COMPLETED'']), (''personal_extract'', [''COMPLETED'']), (''validate'', [''DONE'']),
      (''persist'', [''DONE'']), (''notify'', [''DONE''])]"

text \<open>\<open>_parse_aware\<close>: a time with an offset, as an instant.\<close>

definition parse_aware :: "pyval \<Rightarrow> int option" where
  "parse_aware v = Option.bind (str_view v) (\<lambda>text. case parse_iso_fields (replace_z text) of
       Some (t, Some off) \<Rightarrow> Some (int t - off * 1000000)
     | _ \<Rightarrow> None)"

definition normalize_hex_id :: "pyval \<Rightarrow> string option" where
  "normalize_hex_id v = Option.bind (str_view v) (\<lambda>s.
     let compact = py_lower (filter (\<lambda>c. c \<noteq> CHR ''-'') s) in if hex_id_pattern compact then Some compact else None)"

definition plain_reference_pattern :: "string \<Rightarrow> bool" where
  "plain_reference_pattern = match_prefixed ''ref_'' is_lower_hex 32 32"

definition public_reference :: "string \<Rightarrow> string" where
  "public_reference s = (if plain_reference_pattern s then s else ''ref_'' @ take 32 (sha256_hex s))"

text \<open>\<open>_correlation_reference\<close>: \<open>None\<close> where it raises.\<close>

definition correlation_reference :: "(string \<times> pyval) list \<Rightarrow> string option option" where
  "correlation_reference d =
     (let v = (if py_truthy (py_get d ''correlationReference'') then py_get d ''correlationReference''
               else py_get d ''correlationId'')
      in if v = PNone then Some None
         else (case str_view v of
             Some s \<Rightarrow> if s = [] then None else Some (Some (public_reference s))
           | None \<Rightarrow> None))"

section \<open>Stage evidence\<close>

text \<open>
  The evidence of the stages: name, the stored mapping and the projected state. Every failed check
  of the adapter raises the same exception, so each part below is an option or a condition.
\<close>

type_synonym stage_evidence = "(string \<times> (string \<times> pyval) list \<times> stage_state) list"

fun read_stages :: "(string \<times> pyval) list \<Rightarrow> stage_evidence option" where
  "read_stages [] = Some []"
| "read_stages ((name, v) # rest) = (case (map_of STAGE_STATE_ADAPTERS name, v) of
     (Some adapter, PDict raw) \<Rightarrow>
       if raw = [] \<or> map_of raw ''state'' \<noteq> None then None
       else (case Option.bind (str_view (py_get raw ''status'')) (map_of adapter) of
           None \<Rightarrow> None
         | Some st \<Rightarrow> map_option (\<lambda>ev. (name, raw, st) # ev) (read_stages rest))
   | _ \<Rightarrow> None)"

definition stage_names :: "stage_evidence \<Rightarrow> string list" where
  "stage_names ev = map fst ev"

definition raw_status :: "stage_evidence \<Rightarrow> string \<Rightarrow> string option" where
  "raw_status ev name = Option.bind (map_of ev name) (\<lambda>(raw, st). str_view (py_get raw ''status''))"

definition state_at :: "stage_evidence \<Rightarrow> string \<Rightarrow> stage_state option" where
  "state_at ev name = map_option snd (map_of ev name)"

definition REVIEWED_DOMAINS :: "string list" where
  "REVIEWED_DOMAINS = [''bank'', ''personal'', ''gov'']"

definition reviewed_domain :: "pyval \<Rightarrow> string option" where
  "reviewed_domain v = Option.bind (str_view v) (\<lambda>s. if s \<in> set REVIEWED_DOMAINS then Some s else None)"

definition authoritative_domain :: "pyval \<Rightarrow> pyval \<Rightarrow> string option" where
  "authoritative_domain stored_domain route = (case reviewed_domain stored_domain of
       Some s \<Rightarrow> Some s | None \<Rightarrow> reviewed_domain route)"

definition upper_domain :: "string \<Rightarrow> string" where
  "upper_domain s = map (\<lambda>c. if is_lower c then char_of (code c - 32) else c) s"

definition status_domain :: "string \<Rightarrow> string option" where
  "status_domain internal = List.find (\<lambda>dom. starts_with (upper_domain dom @ ''_EXTRACT'') internal) REVIEWED_DOMAINS"

definition evidence_domains :: "stage_evidence \<Rightarrow> string list" where
  "evidence_domains ev = map (\<lambda>n. if n = ''bank_extract'' then ''bank'' else ''personal'')
     (filter (\<lambda>n. n = ''bank_extract'' \<or> n = ''personal_extract'') (stage_names ev))"

definition domain_gate :: "(string \<times> pyval) list \<Rightarrow> string \<Rightarrow> stage_evidence \<Rightarrow> bool" where
  "domain_gate d internal ev \<longleftrightarrow>
     (let stored_domain = py_get d ''processing_domain''; route = py_get d ''documentRoute'';
          authority = authoritative_domain stored_domain route
      in (stored_domain = PNone \<or> reviewed_domain stored_domain \<noteq> None) \<and>
         (route = PNone \<or> str_sat (\<lambda>s. s \<in> set (REVIEWED_DOMAINS @ [''platform'', ''default''])) route) \<and>
         (reviewed_domain stored_domain \<noteq> None \<and> reviewed_domain route \<noteq> None \<longrightarrow>
            reviewed_domain stored_domain = reviewed_domain route) \<and>
         (authority \<noteq> None \<and> status_domain internal \<noteq> None \<longrightarrow> authority = status_domain internal) \<and>
         card (set (evidence_domains ev)) \<le> 1 \<and>
         (case authority of None \<Rightarrow> True
          | Some domain \<Rightarrow> evidence_domains ev = [] \<or> set (evidence_domains ev) = {domain}))"

definition failed_stages :: "stage_evidence \<Rightarrow> string list" where
  "failed_stages ev = map fst (filter (\<lambda>(n, raw, st). st = stage_state.FAILED) ev)"

definition failure_gate :: "string \<Rightarrow> stage_evidence \<Rightarrow> bool" where
  "failure_gate internal ev \<longleftrightarrow> failed_stages ev = [] \<or>
     (internal = ''SUBMITTED'' \<and> set (failed_stages ev) = {''ingest''} \<and> raw_status ev ''ingest'' = Some ''ENQUEUE_FAILED'')"

definition BRANCH_STAGES :: "string list" where "BRANCH_STAGES = [''bank_extract'', ''personal_extract'']"
definition COMMON_STAGES :: "string list" where "COMMON_STAGES = [''ingest'', ''ocr'', ''classify'']"

text \<open>Per internal status in processing: the stages allowed, the current stage and what it must say.\<close>

definition PROCESSING_EVIDENCE :: "(string \<times> string list \<times> string \<times> string) list" where
  "PROCESSING_EVIDENCE =
     [(''OCR'', [''ingest'', ''ocr''], ''ocr'', ''IN_PROGRESS''),
      (''OCR_COMPLETED'', COMMON_STAGES @ BRANCH_STAGES, ''ocr'', ''COMPLETED''),
      (''CLASSIFY_PENDING'', COMMON_STAGES, ''classify'', ''PENDING_HANDOFF''),
      (''CLASSIFY_COMPLETED'', COMMON_STAGES @ BRANCH_STAGES, ''classify'', ''COMPLETED''),
      (''BANK_EXTRACTING'', COMMON_STAGES @ [''bank_extract''], ''bank_extract'', ''WRITING''),
      (''BANK_EXTRACTED'', COMMON_STAGES @ [''bank_extract'', ''validate''], ''bank_extract'', ''COMPLETED''),
      (''PERSONAL_EXTRACTING'', COMMON_STAGES @ [''personal_extract''], ''personal_extract'', ''WRITING''),
      (''PERSONAL_EXTRACTED'', COMMON_STAGES @ [''personal_extract'', ''validate''], ''personal_extract'', ''COMPLETED'')]"

definition handoff_stages :: "string \<Rightarrow> stage_evidence \<Rightarrow> string list" where
  "handoff_stages internal ev =
     (if internal = ''OCR_COMPLETED'' then filter (\<lambda>n. n \<in> set (''classify'' # BRANCH_STAGES)) (stage_names ev)
      else if internal = ''CLASSIFY_COMPLETED'' then filter (\<lambda>n. n \<in> set BRANCH_STAGES) (stage_names ev)
      else [])"

definition processing_gate :: "string \<Rightarrow> stage_evidence \<Rightarrow> bool" where
  "processing_gate internal ev \<longleftrightarrow> (case map_of PROCESSING_EVIDENCE internal of
       None \<Rightarrow> False
     | Some (permitted, current, expected) \<Rightarrow>
         set (stage_names ev) \<subseteq> set permitted \<and>
         card (set (filter (\<lambda>n. n \<in> set BRANCH_STAGES) (stage_names ev))) \<le> 1 \<and>
         card (set (handoff_stages internal ev)) \<le> 1 \<and>
         list_all (\<lambda>n. raw_status ev n = Some ''ENQUEUED'') (handoff_stages internal ev) \<and>
         current \<in> set (stage_names ev) \<and> current \<notin> set (handoff_stages internal ev) \<and>
         raw_status ev current = Some expected)"

definition lifecycle_gate :: "string \<Rightarrow> document_lifecycle \<Rightarrow> stage_evidence \<Rightarrow> bool" where
  "lifecycle_gate internal lifecycle ev \<longleftrightarrow>
     (if lifecycle = UPLOAD_PENDING then ev = []
      else if internal = ''SUBMITTED'' then set (stage_names ev) = {''ingest''}
      else if lifecycle = PROCESSING then processing_gate internal ev
      else True)"

section \<open>The projection\<close>

text \<open>What the projection adds to lifecycle and times.\<close>

record status_projection =
  sp_stage :: pipeline_stage
  sp_state :: stage_state
  sp_condition :: processing_condition
  sp_terminal_at :: "int option"
  sp_disposition :: "failure_disposition option"
  sp_code :: "safe_failure_code option"

definition active_projection :: "pipeline_stage \<Rightarrow> stage_state \<Rightarrow> status_projection" where
  "active_projection stage st = \<lparr>sp_stage = stage, sp_state = st, sp_condition = ACTIVE, sp_terminal_at = None,
     sp_disposition = None, sp_code = None\<rparr>"

definition submitted_projection :: "pipeline_stage \<Rightarrow> stage_evidence \<Rightarrow> status_projection option" where
  "submitted_projection stage ev = (case map_of ev ''ingest'' of
       None \<Rightarrow> None
     | Some (raw, st) \<Rightarrow>
         (case raw_status ev ''ingest'' of
            None \<Rightarrow> None
          | Some status \<Rightarrow>
              if status \<notin> {''ENQUEUE_PENDING'', ''ENQUEUED'', ''ENQUEUE_FAILED''} then None
              else Some (if status = ''ENQUEUE_FAILED''
                then (active_projection stage st)\<lparr>sp_condition := NOT_APPLICABLE,
                       sp_disposition := Some RETRYABLE, sp_code := Some ENQUEUE_FAILED\<rparr>
                else active_projection stage st)))"

definition EXTRACT_STAGES :: "(string \<times> string) list" where
  "EXTRACT_STAGES = [(''BANK_EXTRACTING'', ''bank_extract''), (''BANK_EXTRACTED'', ''bank_extract''),
     (''PERSONAL_EXTRACTING'', ''personal_extract''), (''PERSONAL_EXTRACTED'', ''personal_extract'')]"

definition extract_consistent :: "string \<Rightarrow> stage_evidence \<Rightarrow> bool" where
  "extract_consistent internal ev \<longleftrightarrow> (case map_of EXTRACT_STAGES internal of
       None \<Rightarrow> True
     | Some expected \<Rightarrow>
         (let present_stages = set (filter (\<lambda>n. n \<in> set BRANCH_STAGES) (stage_names ev))
          in (present_stages = {} \<or> present_stages = {expected}) \<and>
             (case state_at ev expected of
                None \<Rightarrow> True
              | Some st \<Rightarrow> if internal = ''BANK_EXTRACTING'' \<or> internal = ''PERSONAL_EXTRACTING''
                  then st = PENDING \<or> st = RUNNING else st = SUCCEEDED)))"

definition processing_projection ::
  "string \<Rightarrow> pipeline_stage \<Rightarrow> stage_state \<Rightarrow> stage_evidence \<Rightarrow> status_projection option" where
  "processing_projection internal stage st ev =
     (if ''notify'' \<in> set (stage_names ev) \<or> ''persist'' \<in> set (stage_names ev) \<or> \<not> extract_consistent internal ev
      then None
      else (case state_at ev ''validate'' of
          None \<Rightarrow> Some (active_projection stage st)
        | Some validate_state \<Rightarrow>
            if internal \<noteq> ''BANK_EXTRACTED'' \<and> internal \<noteq> ''PERSONAL_EXTRACTED'' then None
            else Some (active_projection VALIDATE validate_state)))"

definition terminal_projection :: "stage_state \<Rightarrow> int \<Rightarrow> document_lifecycle \<Rightarrow> safe_failure_code option \<Rightarrow> status_projection" where
  "terminal_projection st at lifecycle failure =
     \<lparr>sp_stage = pipeline_stage.TERMINAL, sp_state = st, sp_condition = NOT_APPLICABLE, sp_terminal_at = Some at,
      sp_disposition = (if lifecycle = document_lifecycle.FAILED then Some failure_disposition.TERMINAL else None),
      sp_code = failure\<rparr>"

definition ocr_failure_gate :: "stage_evidence \<Rightarrow> bool" where
  "ocr_failure_gate ev \<longleftrightarrow> set (stage_names ev) \<subseteq> {''ingest'', ''ocr''} \<and> ''ocr'' \<in> set (stage_names ev) \<and>
     list_all (\<lambda>n. raw_status ev n = Some (if n = ''ingest'' then ''ENQUEUED'' else ''IN_PROGRESS'')) (stage_names ev)"

text \<open>The completion time of a document that went through the whole pipeline, if its evidence agrees.\<close>

definition completion_time :: "(string \<times> pyval) list \<Rightarrow> string \<Rightarrow> stage_evidence \<Rightarrow> int option" where
  "completion_time d internal ev =
     (if \<not> list_all (\<lambda>n. case (raw_status ev n, map_of TERMINAL_STAGE_RAW_STATE_ALLOWLIST n) of
            (Some s, Some permitted) \<Rightarrow> s \<in> set permitted | _ \<Rightarrow> False) (stage_names ev)
      then None
      else (case (parse_aware (py_get d ''completedAt''), map_of ev ''persist'') of
          (Some t, Some (raw, st)) \<Rightarrow>
            if st = SUCCEEDED \<and> py_eq (py_get raw ''finalStatus'') (PStr internal)
               \<and> parse_aware (py_get raw ''completedAt'') = Some t
               \<and> (case py_get d ''validation'' of
                    PDict v \<Rightarrow> py_eq (py_get v ''status'') (PStr (if internal = ''COMPLETED'' then ''PASS'' else ''FAIL''))
                  | _ \<Rightarrow> False)
               \<and> (case state_at ev ''notify'' of None \<Rightarrow> True | Some s \<Rightarrow> s = SUCCEEDED)
            then Some t else None
        | _ \<Rightarrow> None))"

definition project_status ::
  "(string \<times> pyval) list \<Rightarrow> string \<Rightarrow> document_lifecycle \<Rightarrow> pipeline_stage \<Rightarrow> stage_state \<Rightarrow> int \<Rightarrow> stage_evidence
    \<Rightarrow> status_projection option" where
  "project_status d internal lifecycle stage st updated ev =
     (if internal = ''SUBMITTED'' then submitted_projection stage ev
      else if lifecycle = PROCESSING then processing_projection internal stage st ev
      else if internal = ''OCR_FAILED'' then
        (if ocr_failure_gate ev then Some (terminal_projection st updated lifecycle (Some OCR_FAILED)) else None)
      else if is_terminal lifecycle then
        map_option (\<lambda>t. terminal_projection st t lifecycle
            (if lifecycle = document_lifecycle.FAILED then Some DOCUMENT_PROCESSING_FAILED else None))
          (completion_time d internal ev)
      else Some (active_projection stage st))"

definition attempt_counter :: "pyval \<Rightarrow> int option option" where
  "attempt_counter v = (case v of PNone \<Rightarrow> Some None
     | PInt n \<Rightarrow> if 0 \<le> n \<and> n \<le> 1000 then Some (Some n) else None
     | _ \<Rightarrow> None)"

text \<open>The stages of a record: \<open>record.get("stages", {})\<close> has to be a mapping.\<close>

definition stored_stages :: "(string \<times> pyval) list \<Rightarrow> stage_evidence option" where
  "stored_stages d = (case map_of d ''stages'' of
       None \<Rightarrow> Some []
     | Some (PDict stages) \<Rightarrow> read_stages stages
     | Some _ \<Rightarrow> None)"

definition status_response :: "(string \<times> pyval) list \<Rightarrow> document_lifecycle \<Rightarrow> int \<Rightarrow> int \<Rightarrow> status_projection \<Rightarrow> document_status option" where
  "status_response d lifecycle created updated p =
     Option.bind (attempt_counter (py_get d ''attempt'')) (\<lambda>attempt.
     Option.bind (if py_get d ''batchId'' = PNone then Some None else map_option Some (normalize_hex_id (py_get d ''batchId''))) (\<lambda>batch.
     Option.bind (normalize_hex_id (py_get d ''documentId'')) (\<lambda>document.
     Option.bind (correlation_reference d) (\<lambda>reference.
       Some \<lparr>ds_batch_id = batch, ds_document_id = document, ds_lifecycle = lifecycle, ds_current_stage = sp_stage p,
         ds_stage_state = sp_state p, ds_processing_condition = sp_condition p, ds_created_at = created,
         ds_updated_at = updated, ds_terminal_at = sp_terminal_at p, ds_correlation_reference = reference,
         ds_attempt = attempt, ds_failure_disposition = sp_disposition p, ds_safe_failure_code = sp_code p\<rparr>))))"

text \<open>The response before the checks of its model, and \<open>adapt_internal_document_status\<close>.\<close>

definition projected_status :: "(string \<times> pyval) list \<Rightarrow> datetime \<Rightarrow> document_status option" where
  "projected_status d now =
     Option.bind (str_view (py_get d ''status'')) (\<lambda>internal.
     Option.bind (map_of STATUS_ADAPTER internal) (\<lambda>(lifecycle, stage, st).
     Option.bind (parse_aware (py_get d ''createdAt'')) (\<lambda>created.
     Option.bind (parse_aware (py_get d ''updatedAt'')) (\<lambda>updated.
     Option.bind (if is_aware now then Some (int (instant now)) else None) (\<lambda>reference_now.
     Option.bind (stored_stages d) (\<lambda>ev.
       if \<not> domain_gate d internal ev \<or> \<not> failure_gate internal ev \<or> \<not> lifecycle_gate internal lifecycle ev
          \<or> reference_now < updated
       then None
       else Option.bind (project_status d internal lifecycle stage st updated ev) (status_response d lifecycle created updated)))))))"

definition adapt_internal_document_status :: "(string \<times> pyval) list \<Rightarrow> datetime \<Rightarrow> exn + document_status" where
  "adapt_internal_document_status d now = (case projected_status d now of
       None \<Rightarrow> Inl UnsupportedInternalState
     | Some s \<Rightarrow> if status_fields_ok s \<and> consistent_status s then Inr s else Inl UnsupportedInternalState)"

end
