(* ===== verification/JourneyService.thy ===== *)
theory JourneyService
  imports JourneyContract DocumentStatus
begin

text \<open>
  The create and reconcile operations of \<open>app/services/journey.py\<close>, over the operation ledger and
  the two business repositories. The calls of the SDK, the clock, the generator of identifiers and
  the settings are the ports of the service.
\<close>

section \<open>Ports\<close>

text \<open>
  \<open>jp_table\<close> is the documents table as the ledger uses it. The \<open>put\<close> fields are \<open>table.put_item\<close>
  under the condition that the key attribute does not exist, the \<open>get\<close> fields are the item of a
  consistent \<open>table.get_item\<close> by resource identifier (\<open>PNone\<close> when there is none).
  \<open>jp_document_key\<close> is \<open>DocumentsRepository._key_for\<close>, \<open>jp_claim\<close> the limiter, \<open>jp_presign\<close>
  \<open>s3.generate_presigned_url\<close>; \<open>jp_dump_time\<close> and \<open>jp_model_time\<close> are pydantic's rendering of a time
  and its test that a text is an aware time.
\<close>

record 'w journey_ports =
  jp_table :: "'w dynamo"
  jp_batch_put :: "item \<Rightarrow> ('w, unit) io"
  jp_batch_get :: "string \<Rightarrow> ('w, pyval) io"
  jp_document_put :: "item \<Rightarrow> ('w, unit) io"
  jp_document_get :: "string \<Rightarrow> ('w, pyval) io"
  jp_clock :: "'w \<Rightarrow> datetime \<times> 'w"
  jp_new_id :: "'w \<Rightarrow> pyval \<times> 'w"
  jp_claim :: "string \<Rightarrow> datetime \<Rightarrow> int \<Rightarrow> ('w, int option) io"
  jp_presign :: "item \<Rightarrow> int \<Rightarrow> ('w, pyval) io"
  jp_document_key :: "string \<Rightarrow> item"
  jp_dump_time :: "datetime \<Rightarrow> string"
  jp_model_time :: "string \<Rightarrow> bool"
  jp_raw_bucket :: pyval
  jp_processing_domain :: pyval
  jp_retention_seconds :: nat
  jp_grace_seconds :: pyval
  jp_upload_ttl :: nat
  jp_refresh_interval :: int
  jp_reconcile_interval :: int

section \<open>Errors\<close>

definition unknown_write_error :: exn where
  "unknown_write_error = AppExc (AppError ''UNKNOWN_WRITE_OUTCOME'' ''Write outcome requires reconciliation.'' 500 [])"

definition unavailable_error :: exn where
  "unavailable_error = AppExc (AppError ''SERVICE_UNAVAILABLE'' ''The service is temporarily unavailable.'' 503 [])"

definition state_conflict_error :: exn where
  "state_conflict_error = AppExc (AppError ''STATE_CONFLICT'' ''The document state does not allow this operation.'' 409 [])"

definition internal_contract_error :: exn where
  "internal_contract_error = AppExc (AppError ''INTERNAL_ERROR'' ''The service could not complete the request.'' 500 [])"

definition not_found_error :: "string \<Rightarrow> exn" where
  "not_found_error message = AppExc (AppError ''NOT_FOUND'' message 404 [])"

definition expired_operation_error :: "operation_identity \<Rightarrow> exn" where
  "expired_operation_error i = AppExc (AppError ''EXPIRED_OPERATION'' ''Operation key is expired.'' 409
     [(''operation'', PStr (oi_operation i))])"

definition idempotency_conflict_error :: "operation_identity \<Rightarrow> exn" where
  "idempotency_conflict_error i = AppExc (AppError ''IDEMPOTENCY_CONFLICT'' ''Idempotency key is already bound.'' 409
     [(''operation'', PStr (oi_operation i))])"

definition upstream_error :: exn where
  "upstream_error = AppExc (AppError ''UPSTREAM_ERROR'' ''Upload capability is unavailable.'' 502 [])"

definition rate_limited_error :: "string \<Rightarrow> int \<Rightarrow> exn" where
  "rate_limited_error message retry_after = AppExc (AppError ''RATE_LIMITED'' message 429
     [(''retryAfterSeconds'', PInt retry_after)])"

text \<open>The repositories' translation of a refused put.\<close>

definition repository_put :: "string \<Rightarrow> (item \<Rightarrow> ('w, unit) io) \<Rightarrow> item \<Rightarrow> ('w, unit) io" where
  "repository_put kind put d = catch (put d) (\<lambda>e. raise
     (if error_code e = Some CONDITIONAL_FAILURE
      then AppExc (AppError ''CONFLICT'' (kind @ '' already exists'') 409 []) else e))"

definition repo_create_batch :: "'w journey_ports \<Rightarrow> item \<Rightarrow> object_ownership \<Rightarrow> ('w, unit) io" where
  "repo_create_batch jp d own = repository_put ''Batch'' (jp_batch_put jp) (dict_merge d (record_fields own))"

definition repo_create_document :: "'w journey_ports \<Rightarrow> item \<Rightarrow> object_ownership \<Rightarrow> ('w, unit) io" where
  "repo_create_document jp d own =
     (let item = dict_merge d (record_fields own)
      in if py_get item ''batchId'' = PNone then repository_put ''Document'' (jp_document_put jp) item
         else bind (lift (batch_partition own (py_get item ''batchId''))) (\<lambda>key.
           repository_put ''Document'' (jp_document_put jp) (dict_put ''ownership_batch_key'' (PStr key) item)))"

section \<open>Helpers of the service\<close>

definition journey_now :: "'w journey_ports \<Rightarrow> ('w, datetime) io" where
  "journey_now jp = (\<lambda>w. case jp_clock jp w of (t, w') \<Rightarrow>
     if is_aware t then (Inr (Aware (instant t)), w') else (Inl internal_contract_error, w'))"

definition new_resource_id :: "'w journey_ports \<Rightarrow> ('w, string) io" where
  "new_resource_id jp = (\<lambda>w. case jp_new_id jp w of (v, w') \<Rightarrow>
     (if str_sat resource_id_pattern v then Inr (the (str_view v)) else Inl internal_contract_error, w'))"

text \<open>\<open>now + timedelta(seconds=...)\<close>\<close>

definition after_seconds :: "datetime \<Rightarrow> nat \<Rightarrow> exn + datetime" where
  "after_seconds t n = (if add_seconds (instant t) n < max_instant then Inr (Aware (add_seconds (instant t) n))
     else Inl (PyExc ''OverflowError''))"

definition journey_owner :: "auth_context option \<Rightarrow> exn + object_ownership \<times> owner_scope" where
  "journey_owner auth_arg = (case ownership_from_auth auth_arg of
       Inl e \<Rightarrow> Inl (AppExc e)
     | Inr own \<Rightarrow> (case Option.bind auth_arg (\<lambda>auth. case owner_scope_from_auth auth of Inl e \<Rightarrow> None | Inr s \<Rightarrow> Some s) of
         None \<Rightarrow> Inl (AppExc (AppError ''AUTHORIZATION_DENIED'' ''Principal is not authorized.'' 403 []))
       | Some scope \<Rightarrow> Inr (own, scope)))"

definition malformed_key_error :: exn where
  "malformed_key_error = AppExc (AppError ''MALFORMED_REQUEST'' ''Idempotency key is invalid.'' 400
     [(''field'', PStr ''Idempotency-Key'')])"

definition journey_identity :: "owner_scope \<Rightarrow> operation_kind \<Rightarrow> pyval \<Rightarrow> exn + operation_identity" where
  "journey_identity scope kind raw_key = (case idempotency_key_digest raw_key of
       Inl e \<Rightarrow> Inl malformed_key_error
     | Inr key \<Rightarrow> (case operation_identity_new CONTRACT_VERSION (operation_kind_value kind) (os_actor_digest scope)
           (os_customer_id scope) (os_deployment_id scope) key of
         Inl e \<Rightarrow> Inl malformed_key_error | Inr i \<Rightarrow> Inr i))"

definition journey_binding :: "owner_scope \<Rightarrow> operation_kind \<Rightarrow> string \<Rightarrow> item" where
  "journey_binding scope kind request_digest =
     [(''journey_resource_schema_version'', PInt 1), (''journey_contract_version'', PStr CONTRACT_VERSION),
      (''journey_operation'', PStr (operation_kind_value kind)), (''journey_actor_digest'', PStr (os_actor_digest scope)),
      (''journey_request_digest'', PStr request_digest)]"

text \<open>\<open>_reserve\<close>: the ledger's errors as public ones; others pass.\<close>

definition journey_reserve ::
  "'w journey_ports \<Rightarrow> operation_identity \<Rightarrow> string \<Rightarrow> string \<Rightarrow> string \<Rightarrow> item \<Rightarrow> datetime \<Rightarrow> ('w, reservation_outcome) io" where
  "journey_reserve jp i request_digest rtype rid durable now =
     catch (bind (lift (after_seconds now (jp_retention_seconds jp))) (\<lambda>expires.
              ledger_reserve (jp_table jp) i (PStr request_digest) (PStr rtype) (PStr rid) (PDict durable) now expires))
       (\<lambda>e. raise (case e of OperationConflict \<Rightarrow> idempotency_conflict_error i
          | OperationPersistenceAmbiguous \<Rightarrow> unknown_write_error
          | OperationContractError \<Rightarrow> internal_contract_error
          | _ \<Rightarrow> e))"

definition transition_to :: "'w journey_ports \<Rightarrow> operation_identity \<Rightarrow> operation_state \<Rightarrow> ledger_record \<Rightarrow> operation_state
    \<Rightarrow> pyval \<Rightarrow> datetime option \<Rightarrow> datetime \<Rightarrow> ('w, ledger_record) io" where
  "transition_to jp i expected r next_state failure completed updated =
     ledger_transition (jp_table jp) i expected (led_version r) next_state (durable_dict (led_durable_response r))
       failure completed updated"

definition transition_success :: "'w journey_ports \<Rightarrow> operation_identity \<Rightarrow> ledger_record \<Rightarrow> ('w, ledger_record) io" where
  "transition_success jp i pending =
     bind (journey_now jp) (\<lambda>now.
     catch (transition_to jp i operation_state.PENDING pending operation_state.SUCCEEDED PNone (Some now) now)
       (\<lambda>e. case e of
          OperationConflict \<Rightarrow>
            bind (catch (ledger_load (jp_table jp) i) (\<lambda>_. raise unknown_write_error)) (\<lambda>current. case current of
              Some r \<Rightarrow> if led_state r = operation_state.SUCCEEDED then ret r else raise unknown_write_error
            | None \<Rightarrow> raise unknown_write_error)
        | OperationPersistenceAmbiguous \<Rightarrow> raise unknown_write_error
        | OperationContractError \<Rightarrow> raise unknown_write_error
        | _ \<Rightarrow> raise e))"

definition mark_unknown :: "'w journey_ports \<Rightarrow> operation_identity \<Rightarrow> ledger_record \<Rightarrow> ('w, ledger_record option) io" where
  "mark_unknown jp i pending =
     bind (journey_now jp) (\<lambda>now.
     catch (bind (transition_to jp i operation_state.PENDING pending UNKNOWN_OR_QUARANTINED (PStr ''UNKNOWN_WRITE_OUTCOME'') (Some now) now)
              (\<lambda>r. ret (Some r)))
       (\<lambda>e. if e = OperationConflict
            then bind (catch (ledger_load (jp_table jp) i) (\<lambda>_. ret None)) (\<lambda>current. case current of
                Some r \<Rightarrow> ret (if led_state r = UNKNOWN_OR_QUARANTINED then Some r else None)
              | None \<Rightarrow> ret None)
            else ret None))"

definition expire :: "'w journey_ports \<Rightarrow> ledger_record \<Rightarrow> operation_identity \<Rightarrow> datetime \<Rightarrow> ('w, ledger_record) io" where
  "expire jp r i now =
     (if instant now < instant (led_expires_at r) \<or> led_state r = EXPIRED then ret r
      else catch (transition_to jp i (led_state r) r EXPIRED PNone None now)
        (\<lambda>e. if e = OperationConflict
             then bind (ledger_load (jp_table jp) i) (\<lambda>current. case current of
                 Some q \<Rightarrow> if led_state q = EXPIRED then ret q else raise unknown_write_error
               | None \<Rightarrow> raise unknown_write_error)
             else raise unknown_write_error))"

text \<open>\<open>resource.get(name) == value\<close> for a value of the ledger.\<close>

definition attribute_is :: "item \<Rightarrow> string \<Rightarrow> string \<Rightarrow> bool" where
  "attribute_is d k v \<longleftrightarrow> py_eq (py_get d k) (PStr v)"

definition attribute_matches :: "item \<Rightarrow> string \<Rightarrow> string option \<Rightarrow> bool" where
  "attribute_matches d k v \<longleftrightarrow> py_eq (py_get d k) (text_value v)"

definition business_binding_matches :: "ledger_record \<Rightarrow> pyval \<Rightarrow> bool" where
  "business_binding_matches r resource = (case resource of
       PDict d \<Rightarrow>
         attribute_is d (resource_field (led_resource_type r)) (led_resource_id r) \<and>
         attribute_is d ''customer_id'' (led_customer_id r) \<and> attribute_is d ''deployment_id'' (led_deployment_id r) \<and>
         py_eq (py_get d ''ownership_schema_version'') (PInt 1) \<and>
         attribute_is d ''journey_contract_version'' (led_contract_version r) \<and>
         attribute_is d ''journey_operation'' (led_operation r) \<and>
         attribute_is d ''journey_actor_digest'' (led_actor_digest r) \<and>
         attribute_is d ''journey_request_digest'' (led_request_digest r) \<and>
         py_eq (py_get d ''journey_resource_schema_version'') (PInt 1) \<and>
         attribute_matches d ''createdAt'' (response_text (led_durable_response r) ''createdAt'') \<and>
         (if led_resource_type r = ''batch'' then attribute_is d ''status'' ''OPEN''
          else (case py_get d ''input'' of
              PDict input \<Rightarrow> attribute_matches input ''contentType'' (response_text (led_durable_response r) ''contentType'') \<and>
                attribute_matches d ''batchId'' (response_text (led_durable_response r) ''batchId'') \<and>
                attribute_is d ''status'' ''CREATED''
            | _ \<Rightarrow> False))
     | _ \<Rightarrow> False)"

definition resource_get :: "'w journey_ports \<Rightarrow> ledger_record \<Rightarrow> ('w, pyval) io" where
  "resource_get jp r = (if led_resource_type r = ''batch'' then jp_batch_get jp (led_resource_id r)
     else jp_document_get jp (led_resource_id r))"

definition reconcile_business_record ::
  "'w journey_ports \<Rightarrow> operation_identity \<Rightarrow> ledger_record \<Rightarrow> ('w, ledger_record option) io" where
  "reconcile_business_record jp i pending =
     bind (catch (resource_get jp pending) (\<lambda>_. raise unknown_write_error)) (\<lambda>resource.
       if resource = PNone then ret None
       else if \<not> business_binding_matches pending resource
       then bind (mark_unknown jp i pending) (\<lambda>_. raise unknown_write_error)
       else bind (transition_success jp i pending) (\<lambda>r. ret (Some r)))"

definition write_business_once ::
  "'w journey_ports \<Rightarrow> operation_identity \<Rightarrow> ledger_record \<Rightarrow> ('w, unit) io \<Rightarrow> ('w, ledger_record) io" where
  "write_business_once jp i pending writer =
     bind (attempt writer) (\<lambda>failure. case failure of
       None \<Rightarrow> transition_success jp i pending
     | Some e \<Rightarrow> bind (reconcile_business_record jp i pending) (\<lambda>reconciled. case reconciled of
           Some r \<Rightarrow> ret r
         | None \<Rightarrow> bind (mark_unknown jp i pending) (\<lambda>_. raise unknown_write_error)))"

definition resolve_existing :: "'w journey_ports \<Rightarrow> operation_identity \<Rightarrow> ledger_record \<Rightarrow> ('w, ledger_record) io" where
  "resolve_existing jp i found =
     bind (journey_now jp) (\<lambda>now. bind (expire jp found i now) (\<lambda>r. case led_state r of
       operation_state.SUCCEEDED \<Rightarrow> ret r
     | operation_state.PENDING \<Rightarrow> bind (reconcile_business_record jp i r) (\<lambda>reconciled. case reconciled of
           Some q \<Rightarrow> ret q | None \<Rightarrow> raise unknown_write_error)
     | EXPIRED \<Rightarrow> raise (expired_operation_error i)
     | FAILED_RETRYABLE \<Rightarrow> raise unavailable_error
     | FAILED_TERMINAL \<Rightarrow> raise state_conflict_error
     | UNKNOWN_OR_QUARANTINED \<Rightarrow> raise unknown_write_error))"

section \<open>Creating a batch\<close>

record create_response =
  cr_replayed :: bool
  cr_response :: durable_response

text \<open>
  \<open>BatchDurableResponse.model_validate\<close> and its sibling: the closed values, the identifiers and the
  time; the ledger has checked all of them but for the parser of the time.
\<close>

definition durable_model_ok :: "'w journey_ports \<Rightarrow> operation_kind \<Rightarrow> durable_response \<Rightarrow> bool" where
  "durable_model_ok jp kind r \<longleftrightarrow>
     (let batch = (kind = BATCH_CREATE); rtype = (if batch then ''batch'' else ''document'')
      in response_text r ''schemaVersion'' = Some (fst (expected_schema_status rtype)) \<and>
         response_text r ''contractVersion'' = Some CONTRACT_VERSION \<and>
         response_text r ''operation'' = Some (operation_kind_value kind) \<and>
         response_text r ''status'' = Some (snd (expected_schema_status rtype)) \<and>
         (case response_text r (resource_field rtype) of Some b \<Rightarrow> resource_id_pattern b | None \<Rightarrow> False) \<and>
         (case response_text r ''batchId'' of Some b \<Rightarrow> resource_id_pattern b | None \<Rightarrow> True) \<and>
         (case response_text r ''createdAt'' of Some t \<Rightarrow> jp_model_time jp t | None \<Rightarrow> False) \<and>
         (batch \<or> (case response_text r ''contentType'' of Some c \<Rightarrow> c \<in> set DOCUMENT_CONTENT_TYPES | None \<Rightarrow> False)))"

definition journey_response :: "'w journey_ports \<Rightarrow> operation_kind \<Rightarrow> ledger_record \<Rightarrow> exn + durable_response" where
  "journey_response jp kind r = (if durable_model_ok jp kind (led_durable_response r)
     then Inr (led_durable_response r) else Inl internal_contract_error)"

definition batch_item :: "object_ownership \<Rightarrow> owner_scope \<Rightarrow> string \<Rightarrow> string \<Rightarrow> datetime \<Rightarrow> item" where
  "batch_item own scope request_digest batch_id now =
     [(''batch_id'', PStr batch_id), (''batchId'', PStr batch_id), (''tenantId'', PStr (ow_customer_id own))]
     @ record_fields own
     @ [(''createdAt'', PStr (timestamp_text (instant now))), (''status'', PStr ''OPEN''), (''metadata'', PDict []),
        (''source'', PStr ''document-journey-v2'')]
     @ journey_binding scope BATCH_CREATE request_digest"

definition app_lift :: "app_error + 'a \<Rightarrow> ('w, 'a) io" where
  "app_lift r = (case r of Inl e \<Rightarrow> raise (AppExc e) | Inr x \<Rightarrow> ret x)"

definition object_write :: pyval where "object_write = PEnum ''ObjectAction'' ''WRITE'' (object_action_value OBJECT_WRITE)"
definition object_read :: pyval where "object_read = PEnum ''ObjectAction'' ''READ'' (object_action_value OBJECT_READ)"

definition create_batch :: "'w journey_ports \<Rightarrow> auth_context option \<Rightarrow> pyval \<Rightarrow> ('w, create_response) io" where
  "create_batch jp auth raw_key =
     bind (lift (journey_owner auth)) (\<lambda>(own, scope).
     bind (app_lift (authorize_batch auth (Inst (record_fields own)) object_write)) (\<lambda>_.
     let request_digest = canonical_request_digest BATCH_CREATE [] in
     bind (lift (journey_identity scope BATCH_CREATE raw_key)) (\<lambda>i.
     bind (journey_now jp) (\<lambda>now.
     bind (new_resource_id jp) (\<lambda>batch_id.
     bind (journey_reserve jp i request_digest ''batch'' batch_id (batch_durable batch_id (jp_dump_time jp now)) now) (\<lambda>outcome.
     bind (if ro_created_here outcome
           then write_business_once jp i (ro_record outcome)
                  (repo_create_batch jp (batch_item own scope request_digest batch_id now) own)
           else resolve_existing jp i (ro_record outcome)) (\<lambda>r.
     bind (lift (journey_response jp BATCH_CREATE r)) (\<lambda>response.
       ret \<lparr>cr_replayed = (\<not> ro_created_here outcome), cr_response = response\<rparr>))))))))"

section \<open>Reading a resource of the journey\<close>

definition stored_ref :: "pyval \<Rightarrow> item pyref" where
  "stored_ref v = (case v of PNone \<Rightarrow> NoneRef | PDict d \<Rightarrow> Inst d | _ \<Rightarrow> Foreign)"

definition authorize_journey_record ::
  "auth_context option \<Rightarrow> owner_scope \<Rightarrow> pyval \<Rightarrow> operation_kind \<Rightarrow> string \<Rightarrow> pyval \<Rightarrow> exn + item" where
  "authorize_journey_record auth scope resource kind resource_id action =
     (case (if kind = BATCH_CREATE then authorize_batch auth (stored_ref resource) action
            else authorize_document auth (stored_ref resource) action) of
        Inl e \<Rightarrow> Inl (AppExc e)
      | Inr own \<Rightarrow> (case resource of
          PDict d \<Rightarrow>
            if attribute_is d (if kind = BATCH_CREATE then ''batchId'' else ''documentId'') resource_id
               \<and> attribute_is d ''journey_contract_version'' CONTRACT_VERSION
               \<and> attribute_is d ''journey_operation'' (operation_kind_value kind)
               \<and> attribute_is d ''journey_actor_digest'' (os_actor_digest scope)
               \<and> py_eq (py_get d ''journey_resource_schema_version'') (PInt 1)
            then Inr d else Inl (not_found_error ''Resource not found.'')
        | _ \<Rightarrow> Inl (not_found_error ''Resource not found.'')))"

definition journey_document ::
  "'w journey_ports \<Rightarrow> auth_context option \<Rightarrow> owner_scope \<Rightarrow> string \<Rightarrow> pyval \<Rightarrow> ('w, item) io" where
  "journey_document jp auth scope document_id action =
     bind (jp_document_get jp document_id) (\<lambda>resource.
       lift (authorize_journey_record auth scope resource DOCUMENT_CREATE document_id action))"

definition get_document_status ::
  "'w journey_ports \<Rightarrow> auth_context option \<Rightarrow> string \<Rightarrow> ('w, document_status) io" where
  "get_document_status jp auth document_id =
     bind (lift (journey_owner auth)) (\<lambda>(own, scope).
     bind (journey_document jp auth scope document_id object_read) (\<lambda>d.
     bind (journey_now jp) (\<lambda>now.
       catch (lift (adapt_internal_document_status d now)) (\<lambda>_. raise
         (AppExc (AppError ''UNSUPPORTED_STATE'' ''Document state is unsupported.'' 500 []))))))"

section \<open>Upload capabilities\<close>

record upload_capability =
  uc_url :: string
  uc_expires_at :: datetime
  uc_content_type :: string

text \<open>Whether \<open>".." in key.split("/")\<close>.\<close>

fun has_dotdot :: "string \<Rightarrow> string \<Rightarrow> bool" where
  "has_dotdot seg [] = (seg = ''..'')"
| "has_dotdot seg (c # s) = (if c = CHR ''/'' then seg = ''..'' \<or> has_dotdot [] s else has_dotdot (seg @ [c]) s)"

text \<open>The locator of the object, when it is the caller's own.\<close>

definition upload_locator :: "'w journey_ports \<Rightarrow> object_ownership \<Rightarrow> string \<Rightarrow> item \<Rightarrow> exn + string \<times> string" where
  "upload_locator jp own document_id input =
     (case document_prefix own (PStr document_id) of Inl e \<Rightarrow> Inl e
      | Inr prefix \<Rightarrow> (case (str_view (py_get input ''key''), str_view (py_get input ''contentType'')) of
          (Some key, Some content_type) \<Rightarrow>
            if \<not> py_eq (py_get input ''bucket'') (jp_raw_bucket jp) \<or> \<not> starts_with prefix key \<or> has_dotdot [] key
            then Inl (not_found_error ''Document not found.'') else Inr (key, content_type)
        | _ \<Rightarrow> Inl (not_found_error ''Document not found.'')))"

definition presigned :: "'w journey_ports \<Rightarrow> string \<Rightarrow> string \<Rightarrow> datetime \<Rightarrow> ('w, upload_capability) io" where
  "presigned jp key content_type now =
     catch (bind (jp_presign jp [(''Bucket'', jp_raw_bucket jp), (''Key'', PStr key), (''ContentType'', PStr content_type)]
                   (int (jp_upload_ttl jp))) (\<lambda>url.
            bind (lift (after_seconds now (jp_upload_ttl jp))) (\<lambda>expires.
            bind (ensure (str_sat (\<lambda>u. starts_with ''https://'' u \<and> 9 \<le> length u \<and> length u \<le> 8192) url
                    \<and> content_type \<in> set DOCUMENT_CONTENT_TYPES) upstream_error) (\<lambda>_.
              ret \<lparr>uc_url = the (str_view url), uc_expires_at = expires, uc_content_type = content_type\<rparr>))))
       (\<lambda>_. raise upstream_error)"

definition refresh_limited :: "'w journey_ports \<Rightarrow> owner_scope \<Rightarrow> string \<Rightarrow> datetime \<Rightarrow> bool \<Rightarrow> ('w, unit) io" where
  "refresh_limited jp scope document_id now enforce =
     (if \<not> enforce then ret ()
      else bind (jp_claim jp (''capability:'' @ os_actor_digest scope @ '':'' @ document_id) now (jp_refresh_interval jp))
        (\<lambda>retry_after. case retry_after of None \<Rightarrow> ret ()
          | Some n \<Rightarrow> raise (rate_limited_error ''Capability refresh is rate limited.'' n)))"

definition mint_upload_capability ::
  "'w journey_ports \<Rightarrow> auth_context option \<Rightarrow> owner_scope \<Rightarrow> string \<Rightarrow> bool \<Rightarrow> ('w, upload_capability) io" where
  "mint_upload_capability jp auth scope document_id enforce =
     bind (journey_document jp auth scope document_id object_write) (\<lambda>d.
     bind (ensure (attribute_is d ''status'' ''CREATED'' \<and> py_get d ''stages'' = PDict []) state_conflict_error) (\<lambda>_.
     bind (journey_now jp) (\<lambda>now.
     bind (refresh_limited jp scope document_id now enforce) (\<lambda>_.
     bind (lift (case py_get d ''input'' of PDict input \<Rightarrow> Inr input | _ \<Rightarrow> Inl internal_contract_error)) (\<lambda>input.
     bind (app_lift (ownership_from_auth auth)) (\<lambda>own.
     bind (lift (upload_locator jp own document_id input)) (\<lambda>(key, content_type).
       presigned jp key content_type now)))))))"

definition refresh_upload_capability ::
  "'w journey_ports \<Rightarrow> auth_context option \<Rightarrow> string \<Rightarrow> ('w, upload_capability) io" where
  "refresh_upload_capability jp auth document_id =
     bind (lift (journey_owner auth)) (\<lambda>(own, scope). mint_upload_capability jp auth scope document_id True)"

section \<open>Creating a document\<close>

text \<open>\<open>sanitize_filename\<close> of \<open>services/documents.py\<close>.\<close>

fun last_segment :: "char set \<Rightarrow> string \<Rightarrow> string \<Rightarrow> string" where
  "last_segment seps seg [] = seg"
| "last_segment seps seg (c # s) = (if c \<in> seps then last_segment seps [] s else last_segment seps (seg @ [c]) s)"

definition safe_filename_char :: "char \<Rightarrow> bool" where
  "safe_filename_char c \<longleftrightarrow> is_alnum c \<or> c = CHR ''.'' \<or> c = CHR ''-''"

definition sanitize_filename :: "string \<Rightarrow> string" where
  "sanitize_filename raw =
     (let name = filter safe_filename_char (last_segment {CHR ''/'', CHR 0x5C} [] (py_strip raw));
          parts = split_at (CHR ''.'') [] name
      in if name = [] then ''upload.bin''
         else if 128 < length name
         then (if 1 < length parts then take 100 (join ''_'' (butlast parts)) @ ''.'' @ take 10 (last parts) else take 128 name)
         else name)"

definition document_item ::
  "'w journey_ports \<Rightarrow> object_ownership \<Rightarrow> owner_scope \<Rightarrow> string \<Rightarrow> document_request \<Rightarrow> string \<Rightarrow> string \<Rightarrow> pyval
    \<Rightarrow> datetime \<Rightarrow> exn + item" where
  "document_item jp own scope request_digest rq document_id filename reference now =
     (case document_prefix own (PStr document_id) of Inl e \<Rightarrow> Inl e
      | Inr prefix \<Rightarrow>
          (let input = [(''filename'', PStr filename), (''contentType'', PStr (dr_content_type rq)),
                 (''bucket'', jp_raw_bucket jp), (''key'', PStr (prefix @ filename))]
                 @ optional_member ''contentLength'' (map_option PInt (dr_content_length rq));
               d = [(''documentId'', PStr document_id), (''tenantId'', PStr (ow_customer_id own))]
                 @ record_fields own
                 @ [(''createdAt'', PStr (timestamp_text (instant now))), (''updatedAt'', PStr (timestamp_text (instant now))),
                    (''status'', PStr ''CREATED''), (''version'', PInt 1), (''correlationReference'', reference),
                    (''input'', PDict input), (''stages'', PDict []), (''artifacts'', PDict []),
                    (''documentRoute'', if py_truthy (jp_processing_domain jp) then jp_processing_domain jp else PStr ''platform''),
                    (''source'', PStr (if dr_batch_id rq \<noteq> None then ''document-journey-v2-batch'' else ''document-journey-v2-single''))]
                 @ journey_binding scope DOCUMENT_CREATE request_digest
                 @ (if jp_processing_domain jp = PNone then [] else [(''processing_domain'', jp_processing_domain jp)])
           in case dr_batch_id rq of
                None \<Rightarrow> Inr (dict_merge d (jp_document_key jp document_id))
              | Some b \<Rightarrow> (case batch_partition own (PStr b) of Inl e \<Rightarrow> Inl e
                  | Inr key \<Rightarrow> Inr (dict_merge (d @ [(''batchId'', PStr b), (''ownership_batch_key'', PStr key)])
                        (jp_document_key jp document_id)))))"

definition semantic_error :: exn where
  "semantic_error = AppExc (AppError ''SEMANTIC_VALIDATION_FAILED'' ''Document metadata is invalid.'' 422 [])"

definition storage_unconfigured_error :: exn where
  "storage_unconfigured_error = AppExc (AppError ''SERVICE_UNAVAILABLE'' ''Document storage is not configured.'' 503 [])"

definition document_filename :: "document_request \<Rightarrow> exn + string" where
  "document_filename rq =
     (let name = sanitize_filename (case dr_filename rq of Some f \<Rightarrow> (if f = [] then ''upload.bin'' else f) | None \<Rightarrow> ''upload.bin'')
      in if name = ''.'' \<or> name = ''..'' \<or> CHR ''/'' \<in> set name \<or> CHR 0x5C \<in> set name
         then Inl semantic_error else Inr name)"

text \<open>The batch a document is created in has to be the caller's own.\<close>

definition check_batch :: "'w journey_ports \<Rightarrow> auth_context option \<Rightarrow> owner_scope \<Rightarrow> string option \<Rightarrow> ('w, unit) io" where
  "check_batch jp auth scope batch_id = (case batch_id of
       None \<Rightarrow> ret ()
     | Some b \<Rightarrow> bind (jp_batch_get jp b) (\<lambda>resource.
         bind (lift (authorize_journey_record auth scope resource BATCH_CREATE b object_write)) (\<lambda>_. ret ())))"

text \<open>The capability of the answer: only a replay may go without one, and only when the upload window is closed.\<close>

definition replay_capability :: "bool \<Rightarrow> ('w, upload_capability) io \<Rightarrow> ('w, upload_capability option) io" where
  "replay_capability created_here mint =
     catch (bind mint (\<lambda>c. ret (Some c)))
       (\<lambda>e. case e of
          AppExc a \<Rightarrow> if created_here \<or> err_code a \<noteq> ''STATE_CONFLICT'' then raise e else ret None
        | _ \<Rightarrow> raise e)"

text \<open>\<open>reference\<close> is \<open>current_log_reference("correlationId", document_id)\<close>, a function of the logging context.\<close>

definition create_document ::
  "'w journey_ports \<Rightarrow> (string \<Rightarrow> pyval) \<Rightarrow> auth_context option \<Rightarrow> pyval \<Rightarrow> document_request
    \<Rightarrow> ('w, create_response \<times> upload_capability option) io" where
  "create_document jp reference auth raw_key rq =
     bind (lift (journey_owner auth)) (\<lambda>(own, scope).
     bind (app_lift (authorize_document auth (Inst (record_fields own)) object_write)) (\<lambda>_.
     bind (ensure (str_sat (\<lambda>b. b \<noteq> []) (jp_raw_bucket jp)) storage_unconfigured_error) (\<lambda>_.
     bind (lift (document_filename rq)) (\<lambda>filename.
     bind (check_batch jp auth scope (dr_batch_id rq)) (\<lambda>_.
     let request_digest = canonical_request_digest DOCUMENT_CREATE (document_request_json rq) in
     bind (lift (journey_identity scope DOCUMENT_CREATE raw_key)) (\<lambda>i.
     bind (journey_now jp) (\<lambda>now.
     bind (new_resource_id jp) (\<lambda>document_id.
     bind (journey_reserve jp i request_digest ''document'' document_id
             (document_durable document_id rq (jp_dump_time jp now)) now) (\<lambda>outcome.
     bind (if ro_created_here outcome
           then bind (lift (document_item jp own scope request_digest rq document_id filename (reference document_id) now)) (\<lambda>d.
                  write_business_once jp i (ro_record outcome) (repo_create_document jp d own))
           else resolve_existing jp i (ro_record outcome)) (\<lambda>r.
     bind (lift (journey_response jp DOCUMENT_CREATE r)) (\<lambda>response.
     bind (replay_capability (ro_created_here outcome)
             (mint_upload_capability jp auth scope (the (response_text response ''documentId'')) (\<not> ro_created_here outcome)))
       (\<lambda>capability.
         ret (\<lparr>cr_replayed = (\<not> ro_created_here outcome), cr_response = response\<rparr>, capability)))))))))))))"

section \<open>Reconciliation\<close>

datatype reconciliation_failure_code =
  CREATE_FAILED_RETRYABLE | CREATE_FAILED_TERMINAL | UNKNOWN_WRITE_OUTCOME | OPERATION_EXPIRED

fun reconciliation_failure :: "operation_state \<Rightarrow> reconciliation_failure_code option" where
  "reconciliation_failure FAILED_RETRYABLE = Some CREATE_FAILED_RETRYABLE"
| "reconciliation_failure FAILED_TERMINAL = Some CREATE_FAILED_TERMINAL"
| "reconciliation_failure UNKNOWN_OR_QUARANTINED = Some UNKNOWN_WRITE_OUTCOME"
| "reconciliation_failure EXPIRED = Some OPERATION_EXPIRED"
| "reconciliation_failure s = None"

record reconciliation =
  rr_operation :: operation_kind
  rr_state :: operation_state
  rr_response :: "durable_response option"
  rr_failure :: "reconciliation_failure_code option"
  rr_created_at :: datetime
  rr_updated_at :: datetime
  rr_completed_at :: "datetime option"
  rr_expires_at :: datetime

text \<open>\<open>ReconciliationResponse._consistent_state\<close>\<close>

definition reconciliation_times_ok :: "reconciliation \<Rightarrow> bool" where
  "reconciliation_times_ok r \<longleftrightarrow> instant (rr_created_at r) \<le> instant (rr_updated_at r) \<and>
     instant (rr_created_at r) < instant (rr_expires_at r) \<and>
     (rr_state r = EXPIRED \<longleftrightarrow> instant (rr_expires_at r) \<le> instant (rr_updated_at r)) \<and>
     (case rr_completed_at r of None \<Rightarrow> True
      | Some c \<Rightarrow> instant (rr_created_at r) \<le> instant c \<and> instant c \<le> instant (rr_updated_at r))"

definition reconciliation_outcome_ok :: "reconciliation \<Rightarrow> bool" where
  "reconciliation_outcome_ok r \<longleftrightarrow>
     (if rr_state r = operation_state.SUCCEEDED
      then rr_response r \<noteq> None \<and> rr_completed_at r \<noteq> None \<and> rr_failure r = None
      else rr_response r = None) \<and>
     (case rr_response r of None \<Rightarrow> True
      | Some d \<Rightarrow> response_text d ''operation'' = Some (operation_kind_value (rr_operation r))) \<and>
     (reconciliation_failure (rr_state r) \<noteq> None \<longrightarrow> rr_failure r = reconciliation_failure (rr_state r)) \<and>
     (rr_state r \<in> {FAILED_TERMINAL, UNKNOWN_OR_QUARANTINED, EXPIRED} \<longrightarrow> rr_completed_at r \<noteq> None) \<and>
     (rr_state r = FAILED_RETRYABLE \<longrightarrow> rr_completed_at r = None) \<and>
     (rr_state r = operation_state.PENDING \<longrightarrow> rr_failure r = None \<and> rr_completed_at r = None)"

definition reconciliation_of :: "'w journey_ports \<Rightarrow> operation_kind \<Rightarrow> ledger_record \<Rightarrow> exn + reconciliation" where
  "reconciliation_of jp kind r =
     (case (if led_state r = operation_state.SUCCEEDED
            then (case journey_response jp kind r of Inl e \<Rightarrow> Inl e | Inr d \<Rightarrow> Inr (Some d)) else Inr None) of
        Inl e \<Rightarrow> Inl e
      | Inr response \<Rightarrow>
          (let answer = \<lparr>rr_operation = kind, rr_state = led_state r, rr_response = response,
                 rr_failure = reconciliation_failure (led_state r), rr_created_at = led_created_at r,
                 rr_updated_at = led_updated_at r, rr_completed_at = led_completed_at r, rr_expires_at = led_expires_at r\<rparr>
           in if reconciliation_times_ok answer \<and> reconciliation_outcome_ok answer
              then Inr answer else Inl internal_contract_error))"

definition pending_is_stale :: "'w journey_ports \<Rightarrow> ledger_record \<Rightarrow> datetime \<Rightarrow> exn + bool" where
  "pending_is_stale jp r now = (case jp_grace_seconds jp of
       PInt n \<Rightarrow> if n < 1 then Inl internal_contract_error
         else (case after_seconds (led_updated_at r) (nat n) of Inl e \<Rightarrow> Inl e | Inr t \<Rightarrow> Inr (instant t \<le> instant now))
     | _ \<Rightarrow> Inl internal_contract_error)"

definition reconcile_pending ::
  "'w journey_ports \<Rightarrow> operation_identity \<Rightarrow> ledger_record \<Rightarrow> datetime \<Rightarrow> ('w, ledger_record) io" where
  "reconcile_pending jp i r now =
     bind (reconcile_business_record jp i r) (\<lambda>completed. case completed of
       Some q \<Rightarrow> ret q
     | None \<Rightarrow> bind (lift (pending_is_stale jp r now)) (\<lambda>stale.
         if \<not> stale then ret r
         else bind (mark_unknown jp i r) (\<lambda>quarantined. case quarantined of
             None \<Rightarrow> raise unknown_write_error | Some q \<Rightarrow> ret q)))"

definition reconcile :: "'w journey_ports \<Rightarrow> auth_context option \<Rightarrow> operation_kind \<Rightarrow> pyval \<Rightarrow> ('w, reconciliation) io" where
  "reconcile jp auth kind raw_key =
     bind (lift (journey_owner auth)) (\<lambda>(own, scope).
     bind (journey_now jp) (\<lambda>now.
     bind (jp_claim jp (''reconcile:'' @ os_actor_digest scope @ '':'' @ operation_kind_value kind) now
             (jp_reconcile_interval jp)) (\<lambda>retry_after.
     bind (case retry_after of None \<Rightarrow> ret () | Some n \<Rightarrow> raise (rate_limited_error ''Reconciliation is rate limited.'' n)) (\<lambda>_.
     bind (lift (journey_identity scope kind raw_key)) (\<lambda>i.
     bind (catch (ledger_load (jp_table jp) i) (\<lambda>e. raise
            (if e = OperationContractError then internal_contract_error else unavailable_error))) (\<lambda>found.
     bind (lift (case found of None \<Rightarrow> Inl (not_found_error ''Operation not found.'') | Some r \<Rightarrow> Inr r)) (\<lambda>loaded.
     bind (expire jp loaded i now) (\<lambda>r.
     bind (if led_state r = operation_state.PENDING then reconcile_pending jp i r now else ret r) (\<lambda>r.
       lift (reconciliation_of jp kind r))))))))))"

end
