(* ===== verification/LedgerProofs.thy ===== *)
theory LedgerProofs
  imports OperationLedger TableProofs
begin

text \<open>
  The ledger against the contract of the table: records are read back as they were written, an
  allowed transition turns the record that was read into its successor, and every history of
  reservations and transitions only moves records forward along the allowed transitions.
\<close>

section \<open>Values that have been checked once\<close>

lemma hex_text_bare:
  assumes "match_prefixed [] is_lower_hex 64 64 x"
  shows "bare_digest x = x"
proof -
  have "CHR ''s'' \<notin> set x" by (rule match_prefixed_avoids [OF assms]) (simp_all add: char_class_defs)
  moreover have "starts_with ''sha256:'' x \<Longrightarrow> CHR ''s'' \<in> set (take 7 x)"
    by (simp add: starts_with_def eval_nat_numeral)
  ultimately show ?thesis using set_take_subset [of 7 x] by (auto simp: bare_digest_def)
qed

lemma bare_digest_prefixed [simp]: "bare_digest (''sha256:'' @ x) = x"
  using starts_with_append [of "''sha256:''" x] by (simp add: bare_digest_def)

lemma normalized_digest_again:
  assumes "normalized_digest v = Inr s"
  shows "normalized_digest (PStr s) = Inr s"
proof -
  obtain t where t: "hex_digest t" and s: "s = ''sha256:'' @ bare_digest t"
    using assms by (auto simp: normalized_digest_def split: option.splits if_splits)
  have hex: "match_prefixed [] is_lower_hex 64 64 (bare_digest t)"
    using t unfolding hex_digest_def
  proof
    assume "match_prefixed ''sha256:'' is_lower_hex 64 64 t"
    then show ?thesis by (elim match_prefixedE) (simp add: match_prefixed_def del: append_Cons)
  qed (simp add: hex_text_bare)
  then have "hex_digest s"
    unfolding s hex_digest_def by (intro disjI1 match_prefixedI) (simp_all add: match_prefixed_def)
  then show ?thesis by (simp add: normalized_digest_def s del: append_Cons)
qed

lemma normalized_digest_view: "str_view v = str_view u \<Longrightarrow> normalized_digest v = normalized_digest u"
  by (simp add: normalized_digest_def)

lemma validated_identifier_again: "validated_identifier v = Inr s \<Longrightarrow> validated_identifier (PStr s) = Inr s"
  by (auto simp: validated_identifier_def split: option.splits if_splits)

lemma validated_identifier_Inr: "validated_identifier v = Inr s \<Longrightarrow> str_view v = Some s \<and> ledger_identifier_pattern s"
  by (auto simp: validated_identifier_def split: option.splits if_splits)

lemma validated_resource_id_again: "validated_resource_id v = Inr s \<Longrightarrow> validated_resource_id (PStr s) = Inr s"
  by (auto simp: validated_resource_id_def split: option.splits if_splits)

lemma validated_failure_code_again: "validated_failure_code v = Inr s \<Longrightarrow> validated_failure_code (PStr s) = Inr s"
  by (auto simp: validated_failure_code_def split: option.splits if_splits)

lemma durable_scalar_again: "durable_scalar t k v = Inr s \<Longrightarrow> durable_scalar t k (text_value s) = Inr s"
  by (auto simp: durable_scalar_def text_value_def split: option.splits if_splits)

lemma durable_scalars_again:
  "durable_scalars t d = Inr r \<Longrightarrow>
    map fst r = map fst d \<and> durable_scalars t (map (\<lambda>(k, v). (k, text_value v)) r) = Inr r"
  by (induction d arbitrary: r) (auto split: sum.splits simp: durable_scalar_again)

lemma text_dict_names:
  "no_forbidden_names (durable_dict r) \<longleftrightarrow> list_all (\<lambda>k. \<not> forbidden_name k) (map fst r)"
  by (auto simp: durable_dict_def text_value_def list_all_iff split: option.splits)

lemma dict_names: "no_forbidden_names (PDict d) \<Longrightarrow> list_all (\<lambda>k. \<not> forbidden_name k) (map fst d)"
  by (auto simp: list_all_iff)

lemma durable_response_again:
  assumes "validated_durable_response v i t rid = Inr r"
  shows "validated_durable_response (durable_dict r) i t rid = Inr r"
proof -
  obtain d permitted required where d: "v = PDict d" "DURABLE_RESPONSE_FIELDS t = Some permitted"
      "DURABLE_RESPONSE_REQUIRED_FIELDS t = Some required" "no_forbidden_names v"
      "set required \<subseteq> set (map fst d)" "set (map fst d) \<subseteq> set permitted" "durable_scalars t d = Inr r"
    using assms by (auto simp: validated_durable_response_def split: pyval.splits option.splits if_splits sum.splits)
  note again = durable_scalars_again [OF d(7)]
  have names: "map fst (map (\<lambda>(k, v). (k, text_value v)) r) = map fst d"
    using again by (simp add: comp_def case_prod_beta)
  have "no_forbidden_names (durable_dict r)"
    using dict_names d(1,4) again unfolding text_dict_names by metis
  then show ?thesis
    using assms d again names unfolding validated_durable_response_def durable_dict_def
    by (simp del: set_map)
qed

lemma stored_durable_dict [simp]: "stored (durable_dict r) = durable_dict r"
  by (auto simp: durable_dict_def text_value_def split: option.splits)

lemma aware_utc_Inr: "aware_utc t = Inr u \<longleftrightarrow> is_aware t \<and> u = t"
  by (auto simp: aware_utc_def)

lemma ledger_timestamp_Inr: "ledger_timestamp t = Inr s \<longleftrightarrow> is_aware t \<and> s = timestamp_text (instant t)"
  by (auto simp: ledger_timestamp_def aware_utc_def)

lemma ledger_parse_text [simp]:
  "t < max_instant \<Longrightarrow> ledger_parse_timestamp (PStr (timestamp_text t)) = Inr (Aware t)"
  by (simp add: ledger_parse_timestamp_def parse_iso_timestamp_text aware_utc_def)

text \<open>A time that was read is one that Python can represent.\<close>

lemma parse_iso_bound: "parse_iso s = Parsed (Aware t) \<Longrightarrow> t < max_instant"
  by (auto simp: parse_iso_def to_utc_def Let_def split: option.splits if_splits)

lemma ledger_parse_bound: "ledger_parse_timestamp v = Inr t \<Longrightarrow> is_aware t \<and> instant t < max_instant"
  by (auto simp: ledger_parse_timestamp_def aware_utc_def split: option.splits parsed_time.splits if_splits
      dest!: parse_iso_bound elim!: is_aware.elims)

lemma state_of_text [simp]: "state_of (PStr (operation_state_value s)) = Inr s"
  by (simp add: state_of_def operation_state.of_value_val)

lemma state_of_Inr: "state_of v = Inr s \<longleftrightarrow> str_view v = Some (operation_state_value s)"
  by (cases "str_view v") (auto simp: state_of_def operation_state.of_value_Some split: option.splits)

lemma positive_integer_stored [simp]: "1 \<le> n \<Longrightarrow> positive_integer (PDec n (show_int n)) = Inr n"
  by (simp add: positive_integer_def)

lemma positive_integer_Inr: "positive_integer v = Inr n \<Longrightarrow> 1 \<le> n"
  by (auto simp: positive_integer_def split: option.splits if_splits)

lemma positive_integer_PInt: "positive_integer (PInt n) = Inr k \<longleftrightarrow> k = n \<and> 1 \<le> n"
  by (auto simp: positive_integer_def)

text \<open>The number of an attribute that the condition \<open>version = n\<close> was true of.\<close>

lemma positive_integer_eq: "positive_integer v = Inr k \<Longrightarrow> py_eq v (PInt n) \<Longrightarrow> k = n"
  by (cases v) (auto simp: positive_integer_def py_eq_def split: if_splits)

section \<open>Records and their items\<close>

definition record_identity :: "ledger_record \<Rightarrow> operation_identity" where
  "record_identity r = \<lparr>oi_contract_version = led_contract_version r, oi_operation = led_operation r,
     oi_actor_digest = led_actor_digest r, oi_customer_id = led_customer_id r,
     oi_deployment_id = led_deployment_id r, oi_key_digest = led_key_digest r\<rparr>"

text \<open>An identity that has been through its own checks.\<close>

definition proper_identity :: "operation_identity \<Rightarrow> bool" where
  "proper_identity i \<longleftrightarrow> operation_identity_new (oi_contract_version i) (oi_operation i) (oi_actor_digest i)
     (oi_customer_id i) (oi_deployment_id i) (oi_key_digest i) = Inr i"

lemma operation_identity_new_proper: "operation_identity_new c op a cu de k = Inr i \<Longrightarrow> proper_identity i"
  by (auto simp: operation_identity_new_def proper_identity_def normalized_digest_again split: if_splits sum.splits)

lemma ledger_identity_proper: "ledger_identity r = Inr (record_identity r) \<longleftrightarrow> proper_identity (record_identity r)"
  by (simp add: ledger_identity_def proper_identity_def record_identity_def)

definition timely :: "datetime \<Rightarrow> bool" where
  "timely t \<longleftrightarrow> is_aware t \<and> instant t < max_instant"

text \<open>The records the ledger holds.\<close>

definition ledger_valid :: "ledger_record \<Rightarrow> bool" where
  "ledger_valid r \<longleftrightarrow> led_schema_version r = OPERATION_SCHEMA_VERSION \<and> proper_identity (record_identity r) \<and>
     normalized_digest (PStr (led_request_digest r)) = Inr (led_request_digest r) \<and>
     validated_identifier (PStr (led_resource_type r)) = Inr (led_resource_type r) \<and>
     validated_resource_id (PStr (led_resource_id r)) = Inr (led_resource_id r) \<and>
     validated_durable_response (durable_dict (led_durable_response r)) (record_identity r)
       (led_resource_type r) (led_resource_id r) = Inr (led_durable_response r) \<and>
     1 \<le> led_version r \<and> timely (led_created_at r) \<and> timely (led_updated_at r) \<and> timely (led_expires_at r) \<and>
     (case led_completed_at r of None \<Rightarrow> True | Some t \<Rightarrow> timely t) \<and>
     (case led_failure_code r of None \<Rightarrow> True | Some f \<Rightarrow> validated_failure_code (PStr f) = Inr f) \<and>
     ledger_record_ok r"

text \<open>What the reader answers is always such a record.\<close>

lemma optional_value_Inr:
  "optional_value d k f = Inr v \<longleftrightarrow> (case v of None \<Rightarrow> py_get d k = PNone
     | Some x \<Rightarrow> py_get d k \<noteq> PNone \<and> f (py_get d k) = Inr x)"
  by (auto simp: optional_value_def split: sum.splits option.splits)

lemma item_identity_proper: "item_identity d = Inr i \<Longrightarrow> proper_identity i"
  by (auto simp: item_identity_def split: sum.splits dest: operation_identity_new_proper)

lemma item_record_identity: "item_record d i = Inr r \<Longrightarrow> record_identity r = i"
  by (auto simp: item_record_def record_identity_def split: sum.splits)

lemma ledger_from_itemE:
  assumes "ledger_record_from_item v = Inr r"
  obtains d where "v = PDict d" "item_identity d = Inr (record_identity r)"
    "item_record d (record_identity r) = Inr r" "ledger_record_ok r"
    "set LEDGER_ITEM_FIELDS \<subseteq> set (map fst d)" "set (map fst d) \<subseteq> set (LEDGER_ITEM_FIELDS @ LEDGER_OPTIONAL_FIELDS)"
    "py_eq (py_get d ''schema_version'') (PStr OPERATION_SCHEMA_VERSION)"
    "py_eq (py_get d ''pk'') (PStr (fst (ledger_key (record_identity r))))"
    "py_eq (py_get d ''sk'') (PStr (snd (ledger_key (record_identity r))))"
proof -
  obtain d i where d: "v = PDict d" "item_identity d = Inr i" "item_record d i = Inr r" "ledger_record_ok r"
    "set LEDGER_ITEM_FIELDS \<subseteq> set (map fst d)" "set (map fst d) \<subseteq> set (LEDGER_ITEM_FIELDS @ LEDGER_OPTIONAL_FIELDS)"
    "py_eq (py_get d ''schema_version'') (PStr OPERATION_SCHEMA_VERSION)"
    "py_eq (py_get d ''pk'') (PStr (fst (ledger_key i)))" "py_eq (py_get d ''sk'') (PStr (snd (ledger_key i)))"
    using assms by (auto simp only: ledger_record_from_item_def split: pyval.splits if_splits sum.splits)
  moreover have "i = record_identity r" using item_record_identity [OF d(3)] by simp
  ultimately show thesis by (intro that) simp_all
qed

lemma ledger_from_itemI:
  assumes "item_identity d = Inr i" "item_record d i = Inr r" "ledger_record_ok r"
    "set LEDGER_ITEM_FIELDS \<subseteq> set (map fst d)" "set (map fst d) \<subseteq> set (LEDGER_ITEM_FIELDS @ LEDGER_OPTIONAL_FIELDS)"
    "py_eq (py_get d ''schema_version'') (PStr OPERATION_SCHEMA_VERSION)"
    "py_eq (py_get d ''pk'') (PStr (fst (ledger_key i)))" "py_eq (py_get d ''sk'') (PStr (snd (ledger_key i)))"
  shows "ledger_record_from_item (PDict d) = Inr r"
  using assms unfolding ledger_record_from_item_def by (simp del: set_map set_append)

text \<open>The attributes a record is read from, one by one.\<close>

lemma item_record_Inr:
  "item_record d i = Inr r \<longleftrightarrow> record_identity r = i \<and> led_schema_version r = OPERATION_SCHEMA_VERSION \<and>
     normalized_digest (py_get d ''request_digest'') = Inr (led_request_digest r) \<and>
     validated_identifier (py_get d ''resource_type'') = Inr (led_resource_type r) \<and>
     validated_resource_id (py_get d ''resource_id'') = Inr (led_resource_id r) \<and>
     validated_durable_response (py_get d ''durable_response'') i (led_resource_type r) (led_resource_id r)
       = Inr (led_durable_response r) \<and>
     state_of (py_get d ''state'') = Inr (led_state r) \<and>
     positive_integer (py_get d ''version'') = Inr (led_version r) \<and>
     ledger_parse_timestamp (py_get d ''created_at'') = Inr (led_created_at r) \<and>
     ledger_parse_timestamp (py_get d ''updated_at'') = Inr (led_updated_at r) \<and>
     ledger_parse_timestamp (py_get d ''expires_at'') = Inr (led_expires_at r) \<and>
     optional_value d ''completed_at'' ledger_parse_timestamp = Inr (led_completed_at r) \<and>
     optional_value d ''failure_code'' validated_failure_code = Inr (led_failure_code r)"
  unfolding item_record_def record_identity_def
  by (cases r; cases i) (auto split: sum.splits)

lemma ledger_from_item_valid:
  assumes "ledger_record_from_item v = Inr r"
  shows "ledger_valid r"
  using assms
proof (rule ledger_from_itemE)
  fix d
  assume "item_identity d = Inr (record_identity r)" "item_record d (record_identity r) = Inr r" "ledger_record_ok r"
  then show ?thesis
    unfolding item_record_Inr ledger_valid_def timely_def
    by (auto simp: optional_value_Inr item_identity_proper split: option.splits
        dest: normalized_digest_again validated_identifier_again validated_resource_id_again durable_response_again
          positive_integer_Inr ledger_parse_bound validated_failure_code_again)
qed

definition ledger_attributes :: "ledger_record \<Rightarrow> item" where
  "ledger_attributes r =
     [(''pk'', PStr (fst (ledger_key (record_identity r)))), (''sk'', PStr (snd (ledger_key (record_identity r)))),
      (''schema_version'', PStr OPERATION_SCHEMA_VERSION),
      (''contract_version'', PStr (led_contract_version r)), (''operation'', PStr (led_operation r)),
      (''actor_digest'', PStr (led_actor_digest r)), (''customer_id'', PStr (led_customer_id r)),
      (''deployment_id'', PStr (led_deployment_id r)), (''key_digest'', PStr (led_key_digest r)),
      (''request_digest'', PStr (led_request_digest r)), (''resource_type'', PStr (led_resource_type r)),
      (''resource_id'', PStr (led_resource_id r)),
      (''durable_response'', durable_dict (led_durable_response r)),
      (''state'', PStr (operation_state_value (led_state r))), (''version'', PInt (led_version r)),
      (''created_at'', PStr (timestamp_text (instant (led_created_at r)))),
      (''updated_at'', PStr (timestamp_text (instant (led_updated_at r)))),
      (''expires_at'', PStr (timestamp_text (instant (led_expires_at r))))]
     @ (case led_completed_at r of None \<Rightarrow> [] | Some t \<Rightarrow> [(''completed_at'', PStr (timestamp_text (instant t)))])
     @ (case led_failure_code r of None \<Rightarrow> [] | Some f \<Rightarrow> [(''failure_code'', PStr f)])"

lemma ledger_item_attributes:
  assumes "ledger_valid r"
  shows "ledger_item r = Inr (ledger_attributes r)"
proof -
  have i: "ledger_identity r = Inr (record_identity r)"
    using assms by (simp add: ledger_identity_proper ledger_valid_def)
  have times: "ledger_timestamp t = Inr (timestamp_text (instant t))" if "timely t" for t
    using that by (simp add: ledger_timestamp_Inr timely_def)
  show ?thesis
    using assms
    by (auto simp: ledger_item_def i times ledger_valid_def ledger_attributes_def record_identity_def
        split: option.splits sum.splits)
qed

lemma attributes_lookup:
  "map_of (ledger_attributes r) ''pk'' = Some (PStr (fst (ledger_key (record_identity r))))"
  "map_of (ledger_attributes r) ''sk'' = Some (PStr (snd (ledger_key (record_identity r))))"
  "map_of (ledger_attributes r) ''schema_version'' = Some (PStr OPERATION_SCHEMA_VERSION)"
  "map_of (ledger_attributes r) ''contract_version'' = Some (PStr (led_contract_version r))"
  "map_of (ledger_attributes r) ''operation'' = Some (PStr (led_operation r))"
  "map_of (ledger_attributes r) ''actor_digest'' = Some (PStr (led_actor_digest r))"
  "map_of (ledger_attributes r) ''customer_id'' = Some (PStr (led_customer_id r))"
  "map_of (ledger_attributes r) ''deployment_id'' = Some (PStr (led_deployment_id r))"
  "map_of (ledger_attributes r) ''key_digest'' = Some (PStr (led_key_digest r))"
  "map_of (ledger_attributes r) ''request_digest'' = Some (PStr (led_request_digest r))"
  "map_of (ledger_attributes r) ''resource_type'' = Some (PStr (led_resource_type r))"
  "map_of (ledger_attributes r) ''resource_id'' = Some (PStr (led_resource_id r))"
  "map_of (ledger_attributes r) ''durable_response'' = Some (durable_dict (led_durable_response r))"
  "map_of (ledger_attributes r) ''state'' = Some (PStr (operation_state_value (led_state r)))"
  "map_of (ledger_attributes r) ''version'' = Some (PInt (led_version r))"
  "map_of (ledger_attributes r) ''created_at'' = Some (PStr (timestamp_text (instant (led_created_at r))))"
  "map_of (ledger_attributes r) ''updated_at'' = Some (PStr (timestamp_text (instant (led_updated_at r))))"
  "map_of (ledger_attributes r) ''expires_at'' = Some (PStr (timestamp_text (instant (led_expires_at r))))"
  "map_of (ledger_attributes r) ''completed_at'' =
     map_option (\<lambda>t. PStr (timestamp_text (instant t))) (led_completed_at r)"
  "map_of (ledger_attributes r) ''failure_code'' = map_option PStr (led_failure_code r)"
  by (simp_all add: ledger_attributes_def split: option.split)

lemma attributes_fields:
  "fst ` set (ledger_attributes r) = set LEDGER_ITEM_FIELDS \<union>
     (if led_completed_at r = None then {} else {''completed_at''}) \<union>
     (if led_failure_code r = None then {} else {''failure_code''})"
  unfolding LEDGER_ITEM_FIELDS_def ledger_attributes_def
  by (cases "led_completed_at r"; cases "led_failure_code r") (simp_all add: insert_commute)

lemma ledger_attributes_head: "key_of (ledger_attributes r) = ledger_key (record_identity r)"
  by (simp add: key_of_def py_get_def attributes_lookup)

lemma identity_fields:
  "proper_identity i \<Longrightarrow> validated_identifier (PStr (oi_contract_version i)) = Inr (oi_contract_version i) \<and>
     validated_identifier (PStr (oi_customer_id i)) = Inr (oi_customer_id i) \<and>
     validated_identifier (PStr (oi_deployment_id i)) = Inr (oi_deployment_id i) \<and>
     normalized_digest (PStr (oi_actor_digest i)) = Inr (oi_actor_digest i) \<and>
     normalized_digest (PStr (oi_key_digest i)) = Inr (oi_key_digest i)"
  by (cases i) (auto simp: proper_identity_def operation_identity_new_def validated_identifier_def
      split: if_splits sum.splits)

lemma item_identity_Inr:
  assumes "proper_identity i"
    and "\<And>k s. (k, s) \<in> {(''contract_version'', oi_contract_version i), (''operation'', oi_operation i),
      (''actor_digest'', oi_actor_digest i), (''customer_id'', oi_customer_id i),
      (''deployment_id'', oi_deployment_id i), (''key_digest'', oi_key_digest i)} \<Longrightarrow> py_get d k = PStr s"
  shows "item_identity d = Inr i"
proof -
  have "py_get d ''contract_version'' = PStr (oi_contract_version i)" "py_get d ''operation'' = PStr (oi_operation i)"
    "py_get d ''actor_digest'' = PStr (oi_actor_digest i)" "py_get d ''customer_id'' = PStr (oi_customer_id i)"
    "py_get d ''deployment_id'' = PStr (oi_deployment_id i)" "py_get d ''key_digest'' = PStr (oi_key_digest i)"
    by (rule assms(2), simp)+
  then show ?thesis
    using identity_fields [OF assms(1)] assms(1) by (simp add: item_identity_def proper_identity_def)
qed

lemma ledger_read_back:
  assumes "ledger_valid r"
  shows "ledger_record_from_item (PDict (stored_item (ledger_attributes r))) = Inr r"
proof -
  define d where "d = stored_item (ledger_attributes r)"
  have got: "py_get d k = (case map_of (ledger_attributes r) k of None \<Rightarrow> PNone | Some v \<Rightarrow> stored v)" for k
    by (simp add: d_def py_get_def split: option.splits)
  have fields: "fst ` set d = fst ` set (ledger_attributes r)" by (force simp: d_def stored_item_def)
  have times: "instant (led_created_at r) < max_instant" "Aware (instant (led_created_at r)) = led_created_at r"
      "instant (led_updated_at r) < max_instant" "Aware (instant (led_updated_at r)) = led_updated_at r"
      "instant (led_expires_at r) < max_instant" "Aware (instant (led_expires_at r)) = led_expires_at r"
    using assms by (simp_all add: ledger_valid_def timely_def)
  have identity: "item_identity d = Inr (record_identity r)"
    by (rule item_identity_Inr)
      (use assms in \<open>auto simp: ledger_valid_def got attributes_lookup record_identity_def\<close>)
  have "case led_completed_at r of None \<Rightarrow> True | Some t \<Rightarrow> timely t"
    "case led_failure_code r of None \<Rightarrow> True | Some f \<Rightarrow> validated_failure_code (PStr f) = Inr f"
    using assms unfolding ledger_valid_def by blast+
  then have completed: "optional_value d ''completed_at'' ledger_parse_timestamp = Inr (led_completed_at r)"
    and failed: "optional_value d ''failure_code'' validated_failure_code = Inr (led_failure_code r)"
    unfolding optional_value_Inr got by (auto simp: attributes_lookup timely_def split: option.splits)
  have names: "set LEDGER_ITEM_FIELDS \<subseteq> set (map fst d)"
    "set (map fst d) \<subseteq> set (LEDGER_ITEM_FIELDS @ LEDGER_OPTIONAL_FIELDS)"
    by (auto simp: fields attributes_fields LEDGER_OPTIONAL_FIELDS_def)
  have "item_record d (record_identity r) = Inr r"
    unfolding item_record_Inr using assms
    by (simp add: ledger_valid_def completed failed times got attributes_lookup)
  then show ?thesis
    unfolding d_def [symmetric]
    by (rule ledger_from_itemI [OF identity _ _ names])
      (use assms in \<open>simp_all add: ledger_valid_def attributes_lookup got\<close>)
qed

text \<open>
  (C39) Whatever the reader accepts is a valid record, every valid record can be written, and what
  is written is read back as the very same record, under the key of its identity: identity,
  digests, response, state, version and all times.
\<close>

theorem ledger_round_trip:
  "(\<forall>v. ledger_record_from_item v = Inr r \<longrightarrow> ledger_valid r) \<and>
    (ledger_valid r \<longrightarrow> (\<exists>d. ledger_item r = Inr d \<and> key_of d = ledger_key (record_identity r) \<and>
      ledger_record_from_item (PDict (stored_item d)) = Inr r))"
  by (auto intro: ledger_from_item_valid simp: ledger_item_attributes ledger_attributes_head ledger_read_back)

section \<open>A transition of a record\<close>

definition advance ::
  "transition_arguments \<Rightarrow> durable_response \<Rightarrow> datetime option \<Rightarrow> ledger_record \<Rightarrow> ledger_record" where
  "advance a response completed r = r\<lparr>led_durable_response := response, led_state := ta_next a,
     led_version := ta_version a + 1, led_updated_at := ta_updated a, led_completed_at := completed,
     led_failure_code := ta_failure a\<rparr>"

lemma advance_simps [simp]:
  "record_identity (advance a response completed r) = record_identity r"
  "led_schema_version (advance a response completed r) = led_schema_version r"
  "led_request_digest (advance a response completed r) = led_request_digest r"
  "led_resource_type (advance a response completed r) = led_resource_type r"
  "led_resource_id (advance a response completed r) = led_resource_id r"
  "led_durable_response (advance a response completed r) = response"
  "led_state (advance a response completed r) = ta_next a"
  "led_version (advance a response completed r) = ta_version a + 1"
  "led_created_at (advance a response completed r) = led_created_at r"
  "led_updated_at (advance a response completed r) = ta_updated a"
  "led_expires_at (advance a response completed r) = led_expires_at r"
  "led_completed_at (advance a response completed r) = completed"
  "led_failure_code (advance a response completed r) = ta_failure a"
  by (simp_all add: advance_def record_identity_def)

text \<open>The checks a transition passes before it writes, together.\<close>

record ledger_transition_call =
  tc_expected :: operation_state
  tc_version :: int
  tc_next :: operation_state
  tc_response :: pyval
  tc_failure :: pyval
  tc_completed :: "datetime option"
  tc_updated :: datetime

definition ledger_transition_plan ::
  "operation_identity \<Rightarrow> ledger_transition_call \<Rightarrow> ledger_record \<Rightarrow> transition_arguments \<Rightarrow> durable_response
    \<Rightarrow> datetime option \<Rightarrow> bool" where
  "ledger_transition_plan i c current a response completed \<longleftrightarrow>
     transition_arguments_new (tc_expected c) (tc_version c) (tc_next c) (tc_failure c) (tc_completed c) (tc_updated c)
       = Inr a \<and>
     transition_response i current (tc_response c) = Inr response \<and>
     completed = effective_completed a current \<and> (ta_next a \<in> set COMPLETED_STATES \<or> completed = None) \<and>
     transition_checks a current = Inr ()"

lemma transition_arguments_Inr:
  assumes "transition_arguments_new expected n next_state failure completed updated = Inr a"
  shows "ta_expected a = expected" "ta_version a = n" "1 \<le> n" "ta_next a = next_state" "is_aware updated"
    "ta_updated a = updated" "ta_completed a = completed"
    "case ta_completed a of None \<Rightarrow> True | Some c \<Rightarrow> is_aware c"
    "ta_next a \<in> set FAILURE_STATES \<longleftrightarrow> ta_failure a \<noteq> None"
    "case ta_failure a of None \<Rightarrow> True | Some f \<Rightarrow> validated_failure_code (PStr f) = Inr f"
  using assms
  by (auto simp: transition_arguments_new_def positive_integer_PInt aware_utc_Inr validated_failure_code_again
      split: sum.splits if_splits option.splits)

lemma transition_response_Inr:
  assumes "transition_response i current v = Inr response" "ledger_valid current" "record_identity current = i"
  shows "dict_eq response (led_durable_response current)"
    and "validated_durable_response (durable_dict response) i (led_resource_type current) (led_resource_id current)
      = Inr response"
  using assms
  by (auto simp: transition_response_def ledger_valid_def durable_response_again split: sum.splits if_splits)

lemma transition_checks_Inr:
  assumes "transition_checks a current = Inr ()"
  shows "led_state current = ta_expected a" "led_version current = ta_version a"
    "ta_next a \<in> set (ALLOWED_TRANSITIONS (led_state current))"
    "instant (led_updated_at current) \<le> instant (ta_updated a)"
    "case ta_completed a of None \<Rightarrow> True | Some c \<Rightarrow>
       instant (led_created_at current) \<le> instant c \<and> instant c \<le> instant (ta_updated a)"
    "ta_next a = EXPIRED \<longleftrightarrow> instant (led_expires_at current) \<le> instant (ta_updated a)"
  using assms by (auto simp: transition_checks_def split: if_splits option.splits)

lemma completed_within:
  assumes "ledger_valid current" "transition_checks a current = Inr ()"
    "effective_completed a current = Some c"
  shows "instant (led_created_at current) \<le> instant c \<and> instant c \<le> instant (ta_updated a)"
proof -
  have "instant (led_created_at current) \<le> instant (led_updated_at current)"
    "case led_completed_at current of None \<Rightarrow> True | Some t \<Rightarrow>
       instant (led_created_at current) \<le> instant t \<and> instant t \<le> instant (led_updated_at current)"
    using assms(1) unfolding ledger_valid_def ledger_record_ok_def by blast+
  then show ?thesis
    using transition_checks_Inr(4,5) [OF assms(2)] assms(3)
    by (auto simp: effective_completed_def split: if_splits option.splits)
qed

lemma advance_valid:
  assumes "ledger_transition_plan i c current a response completed" "ledger_valid current" "record_identity current = i"
    "instant (tc_updated c) < max_instant"
  shows "ledger_valid (advance a response completed current)"
proof -
  note plan = assms(1) [unfolded ledger_transition_plan_def]
  note args = transition_arguments_Inr [OF plan [THEN conjunct1]]
  have checks: "transition_checks a current = Inr ()" and resp: "transition_response i current (tc_response c) = Inr response"
    and completed: "completed = effective_completed a current"
    and state: "ta_next a \<in> set COMPLETED_STATES \<or> completed = None"
    using plan by blast+
  have valid: "proper_identity i" "led_schema_version current = OPERATION_SCHEMA_VERSION"
    "normalized_digest (PStr (led_request_digest current)) = Inr (led_request_digest current)"
    "validated_identifier (PStr (led_resource_type current)) = Inr (led_resource_type current)"
    "validated_resource_id (PStr (led_resource_id current)) = Inr (led_resource_id current)"
    "timely (led_created_at current)" "timely (led_updated_at current)" "timely (led_expires_at current)"
    "case led_completed_at current of None \<Rightarrow> True | Some t \<Rightarrow> timely t"
    "instant (led_created_at current) \<le> instant (led_updated_at current)"
    "instant (led_created_at current) < instant (led_expires_at current)"
    using assms(2,3) unfolding ledger_valid_def ledger_record_ok_def by blast+
  have updated: "timely (ta_updated a)" using args assms(4) by (simp add: timely_def)
  have done_at: "timely t" if "completed = Some t" for t
  proof -
    have "is_aware t"
      using that args(5,6,8) valid(9)
      by (auto simp: completed effective_completed_def timely_def split: if_splits option.splits)
    then show ?thesis
      using completed_within [OF assms(2) checks, of t] that updated by (auto simp: completed timely_def)
  qed
  have within: "instant (led_created_at current) \<le> instant t \<and> instant t \<le> instant (ta_updated a)"
    if "completed = Some t" for t
    using completed_within [OF assms(2) checks] that by (simp add: completed)
  have finished: "ta_next a \<in> set COMPLETED_STATES \<longleftrightarrow> completed \<noteq> None"
    using state by (auto simp: completed effective_completed_def split: if_splits)
  have times: "instant (led_created_at current) \<le> instant (ta_updated a)"
    using valid(10) transition_checks_Inr(4) [OF checks] by simp
  have "ledger_record_ok (advance a response completed current)"
    unfolding ledger_record_ok_def advance_simps
    using within times valid(11) args(9) finished transition_checks_Inr(6) [OF checks]
    by (auto split: option.splits)
  then show ?thesis
    unfolding ledger_valid_def advance_simps
    using valid updated done_at args(2,3,10) assms(3)
      transition_response_Inr(2) [OF resp assms(2,3)]
    by (simp split: option.splits)
qed

text \<open>Reading the item after the write.\<close>

lemma item_identity_cong:
  assumes "\<And>k. k \<in> {''contract_version'', ''operation'', ''actor_digest'', ''customer_id'', ''deployment_id'',
      ''key_digest''} \<Longrightarrow> py_get d k = py_get e k"
  shows "item_identity d = item_identity e"
proof -
  have "py_get d ''contract_version'' = py_get e ''contract_version''" "py_get d ''operation'' = py_get e ''operation''"
    "py_get d ''actor_digest'' = py_get e ''actor_digest''" "py_get d ''customer_id'' = py_get e ''customer_id''"
    "py_get d ''deployment_id'' = py_get e ''deployment_id''" "py_get d ''key_digest'' = py_get e ''key_digest''"
    by (rule assms, simp)+
  then show ?thesis by (simp only: item_identity_def)
qed

definition LEDGER_UPDATED_FIELDS :: "string list" where
  "LEDGER_UPDATED_FIELDS = [''state'', ''version'', ''updated_at'', ''durable_response'', ''failure_code'', ''completed_at'']"

definition ledger_update :: "transition_arguments \<Rightarrow> durable_response \<Rightarrow> datetime option \<Rightarrow> item_key \<Rightarrow> item \<Rightarrow> item" where
  "ledger_update a response completed k d =
     updated_item (Some d) k (ledger_sets a response completed) (ledger_removes a completed)"

lemma ledger_sets_distinct: "distinct (map fst (ledger_sets a response completed))"
  by (simp add: ledger_sets_def split: option.split)

lemma ledger_update_keeps:
  "k \<notin> set LEDGER_UPDATED_FIELDS \<Longrightarrow> map_of (ledger_update a response completed key d) k = map_of d k"
  unfolding ledger_update_def
  by (subst map_of_updated_item [OF ledger_sets_distinct])
    (auto simp: LEDGER_UPDATED_FIELDS_def ledger_sets_def ledger_removes_def split: option.split)

lemma ledger_update_sets:
  "map_of (ledger_update a response completed key d) ''state'' = Some (PStr (operation_state_value (ta_next a)))"
  "map_of (ledger_update a response completed key d) ''version'' = Some (PDec (ta_version a + 1) (show_int (ta_version a + 1)))"
  "map_of (ledger_update a response completed key d) ''updated_at'' = Some (PStr (timestamp_text (instant (ta_updated a))))"
  "map_of (ledger_update a response completed key d) ''durable_response'' = Some (durable_dict response)"
  "map_of (ledger_update a response completed key d) ''failure_code'' = map_option PStr (ta_failure a)"
  "map_of (ledger_update a response completed key d) ''completed_at'' =
     map_option (\<lambda>t. PStr (timestamp_text (instant t))) completed"
  unfolding ledger_update_def
  by (simp_all only: map_of_updated_item [OF ledger_sets_distinct])
    (auto simp: ledger_sets_def ledger_removes_def split: option.split)

lemma ledger_update_reads:
  assumes "ledger_record_from_item (PDict d) = Inr r" "ledger_valid (advance a response completed r)"
  shows "ledger_record_from_item (PDict (ledger_update a response completed key d)) = Inr (advance a response completed r)"
  using assms(1)
proof (rule ledger_from_itemE)
  fix d'
  assume "PDict d = PDict d'" and identity: "item_identity d' = Inr (record_identity r)"
    and attributes: "item_record d' (record_identity r) = Inr r" and "ledger_record_ok r"
    and names: "set LEDGER_ITEM_FIELDS \<subseteq> set (map fst d')" "set (map fst d') \<subseteq> set (LEDGER_ITEM_FIELDS @ LEDGER_OPTIONAL_FIELDS)"
    and schema: "py_eq (py_get d' ''schema_version'') (PStr OPERATION_SCHEMA_VERSION)"
    and keys: "py_eq (py_get d' ''pk'') (PStr (fst (ledger_key (record_identity r))))"
      "py_eq (py_get d' ''sk'') (PStr (snd (ledger_key (record_identity r))))"
  then have [simp]: "d' = d" by simp
  define u where "u = ledger_update a response completed key d"
  have kept: "py_get u k = py_get d k" if "k \<notin> set LEDGER_UPDATED_FIELDS" for k
    unfolding u_def py_get_def by (simp add: ledger_update_keeps [OF that])
  have kept_fields: "py_get u ''schema_version'' = py_get d ''schema_version''" "py_get u ''pk'' = py_get d ''pk''"
    "py_get u ''sk'' = py_get d ''sk''" "py_get u ''request_digest'' = py_get d ''request_digest''"
    "py_get u ''resource_type'' = py_get d ''resource_type''" "py_get u ''resource_id'' = py_get d ''resource_id''"
    "py_get u ''created_at'' = py_get d ''created_at''" "py_get u ''expires_at'' = py_get d ''expires_at''"
    by (rule kept, simp add: LEDGER_UPDATED_FIELDS_def)+
  have new: "py_get u ''state'' = PStr (operation_state_value (ta_next a))"
    "py_get u ''version'' = PDec (ta_version a + 1) (show_int (ta_version a + 1))"
    "py_get u ''updated_at'' = PStr (timestamp_text (instant (ta_updated a)))"
    "py_get u ''durable_response'' = durable_dict response"
    "py_get u ''failure_code'' = (case ta_failure a of None \<Rightarrow> PNone | Some f \<Rightarrow> PStr f)"
    "py_get u ''completed_at'' = (case completed of None \<Rightarrow> PNone | Some t \<Rightarrow> PStr (timestamp_text (instant t)))"
    unfolding u_def py_get_def by (simp_all add: ledger_update_sets split: option.split)
  have identity_u: "item_identity u = Inr (record_identity r)"
    using identity by (subst item_identity_cong [of u d]) (auto intro: kept simp: LEDGER_UPDATED_FIELDS_def)
  have dom_u: "set (map fst u) = dom (map_of u)" and dom_d: "set (map fst d) = dom (map_of d)"
    by (simp_all add: dom_map_of_conv_image_fst)
  have names_u: "set LEDGER_ITEM_FIELDS \<subseteq> set (map fst u)"
    "set (map fst u) \<subseteq> set (LEDGER_ITEM_FIELDS @ LEDGER_OPTIONAL_FIELDS)"
  proof -
    have "\<exists>v. map_of u k = Some v" if "k \<in> set LEDGER_ITEM_FIELDS" for k
    proof (cases "k \<in> set LEDGER_UPDATED_FIELDS")
      case False
      then show ?thesis
        using names(1) that ledger_update_keeps [OF False] unfolding u_def by (auto simp: dom_d simp del: set_map)
    next
      case True
      then have "k = ''state'' \<or> k = ''version'' \<or> k = ''updated_at'' \<or> k = ''durable_response''"
        using that by (auto simp: LEDGER_UPDATED_FIELDS_def LEDGER_ITEM_FIELDS_def)
      then show ?thesis unfolding u_def by (auto simp: ledger_update_sets)
    qed
    then show "set LEDGER_ITEM_FIELDS \<subseteq> set (map fst u)" unfolding dom_u by blast
    have "k \<in> set (LEDGER_ITEM_FIELDS @ LEDGER_OPTIONAL_FIELDS)" if "k \<in> dom (map_of u)" for k
    proof (cases "k \<in> set LEDGER_UPDATED_FIELDS")
      case False
      then have "k \<in> dom (map_of d)" using that ledger_update_keeps [OF False] unfolding u_def by (simp add: dom_def)
      then show ?thesis using names(2) by (simp add: dom_d subsetD del: set_map set_append)
    next
      case True
      then show ?thesis
        by (auto simp: LEDGER_UPDATED_FIELDS_def LEDGER_ITEM_FIELDS_def LEDGER_OPTIONAL_FIELDS_def)
    qed
    then show "set (map fst u) \<subseteq> set (LEDGER_ITEM_FIELDS @ LEDGER_OPTIONAL_FIELDS)" unfolding dom_u by blast
  qed
  note valid = assms(2) [unfolded ledger_valid_def advance_simps timely_def]
  have optional: "optional_value u ''completed_at'' ledger_parse_timestamp = Inr completed"
    "optional_value u ''failure_code'' validated_failure_code = Inr (ta_failure a)"
    unfolding optional_value_Inr new using valid by (auto split: option.splits)
  have "item_record u (record_identity r) = Inr (advance a response completed r)"
    using attributes valid unfolding item_record_Inr advance_simps optional kept_fields new
    by simp
  then show "ledger_record_from_item (PDict (ledger_update a response completed key d)) = Inr (advance a response completed r)"
    unfolding u_def [symmetric]
    by (rule ledger_from_itemI [OF identity_u _ _ names_u])
      (use valid schema keys in \<open>simp_all add: kept_fields\<close>)
qed

end
