(* ===== verification/LedgerHistory.thy ===== *)
theory LedgerHistory
  imports LedgerProofs
begin

text \<open>
  Histories of the operation ledger: processes read records, reserve keys and apply transitions
  to records that some process read before, in any interleaving, while other programs write
  elsewhere in the documents table. Along every history a record only moves forward, one version
  and one allowed transition at a time.
\<close>

section \<open>The records of a table\<close>

definition ledger_at :: "memory \<Rightarrow> operation_identity \<Rightarrow> ledger_record option" where
  "ledger_at m i = (case m (ledger_key i) of None \<Rightarrow> None
     | Some d \<Rightarrow> (case ledger_record_from_item (PDict d) of Inl e \<Rightarrow> None
       | Inr r \<Rightarrow> if ledger_identity r = Inr i then Some r else None))"

lemma reader_identity: "ledger_record_from_item v = Inr r \<Longrightarrow> ledger_identity r = Inr (record_identity r)"
  by (drule ledger_from_item_valid) (simp add: ledger_identity_proper ledger_valid_def)

lemma ledger_at_Some:
  "ledger_at m i = Some r \<longleftrightarrow>
     (\<exists>d. m (ledger_key i) = Some d \<and> ledger_record_from_item (PDict d) = Inr r \<and> record_identity r = i)"
  by (auto simp: ledger_at_def reader_identity split: option.splits sum.splits)

lemma ledger_at_valid: "ledger_at m i = Some r \<Longrightarrow> ledger_valid r \<and> record_identity r = i"
  by (auto simp: ledger_at_Some dest: ledger_from_item_valid)

text \<open>One transition, and the evolution of a record: as many transitions as versions.\<close>

definition ledger_step :: "operation_state \<Rightarrow> operation_state \<Rightarrow> bool" where
  "ledger_step s t \<longleftrightarrow> t \<in> set (ALLOWED_TRANSITIONS s)"

definition same_reservation :: "ledger_record \<Rightarrow> ledger_record \<Rightarrow> bool" where
  "same_reservation r q \<longleftrightarrow> record_identity q = record_identity r \<and>
     led_request_digest q = led_request_digest r \<and> led_resource_type q = led_resource_type r \<and>
     led_resource_id q = led_resource_id r \<and> dict_eq (led_durable_response q) (led_durable_response r) \<and>
     led_created_at q = led_created_at r \<and> led_expires_at q = led_expires_at r"

definition ledger_evolves :: "ledger_record \<Rightarrow> ledger_record \<Rightarrow> bool" where
  "ledger_evolves r q \<longleftrightarrow> same_reservation r q \<and> instant (led_updated_at r) \<le> instant (led_updated_at q) \<and>
     (\<exists>n. led_version q = led_version r + int n \<and> (ledger_step ^^ n) (led_state r) (led_state q) \<and> (n = 0 \<longrightarrow> q = r))"

lemma same_reservation_refl [simp]: "same_reservation r r"
  by (simp add: same_reservation_def)

lemma same_reservation_trans: "same_reservation a b \<Longrightarrow> same_reservation b c \<Longrightarrow> same_reservation a c"
  by (simp add: same_reservation_def dict_eq_iff)

lemma ledger_evolves_refl [simp]: "ledger_evolves r r"
  by (auto simp: ledger_evolves_def intro!: exI [of _ 0])

lemma ledger_evolves_trans:
  assumes "ledger_evolves a b" "ledger_evolves b c"
  shows "ledger_evolves a c"
proof -
  obtain n k where n: "led_version b = led_version a + int n" "(ledger_step ^^ n) (led_state a) (led_state b)" "n = 0 \<longrightarrow> b = a"
    and k: "led_version c = led_version b + int k" "(ledger_step ^^ k) (led_state b) (led_state c)" "k = 0 \<longrightarrow> c = b"
    using assms unfolding ledger_evolves_def by blast
  have "(ledger_step ^^ (n + k)) (led_state a) (led_state c)" by (rule relpowp_trans [OF n(2) k(2)])
  then have "\<exists>j. led_version c = led_version a + int j \<and> (ledger_step ^^ j) (led_state a) (led_state c) \<and> (j = 0 \<longrightarrow> c = a)"
    using n(1,3) k(1,3) by (intro exI [of _ "n + k"]) simp
  then show ?thesis
    using assms same_reservation_trans [of a b c] unfolding ledger_evolves_def by auto
qed

lemma ledger_evolves_same_version:
  "ledger_evolves a b \<Longrightarrow> led_version b = led_version a \<Longrightarrow> b = a"
  by (auto simp: ledger_evolves_def)

lemma ledger_evolves_identity: "ledger_evolves a b \<Longrightarrow> record_identity b = record_identity a"
  by (simp add: ledger_evolves_def same_reservation_def)

lemma advance_evolves:
  assumes "ledger_transition_plan i c current a response completed" "ledger_valid current" "record_identity current = i"
  shows "ledger_evolves current (advance a response completed current)"
proof -
  have checks: "transition_checks a current = Inr ()" and resp: "transition_response i current (tc_response c) = Inr response"
    using assms(1) unfolding ledger_transition_plan_def by blast+
  have "(ledger_step ^^ 1) (led_state current) (ta_next a)"
    using transition_checks_Inr(3) [OF checks] by (simp add: ledger_step_def eq_OO)
  then have "\<exists>n. led_version (advance a response completed current) = led_version current + int n \<and>
      (ledger_step ^^ n) (led_state current) (led_state (advance a response completed current)) \<and>
      (n = 0 \<longrightarrow> advance a response completed current = current)"
    using transition_checks_Inr(2) [OF checks] by (intro exI [of _ 1]) (simp add: eq_OO)
  then show ?thesis
    using transition_checks_Inr(4) [OF checks] transition_response_Inr(1) [OF resp assms(2,3)]
    unfolding ledger_evolves_def same_reservation_def by simp
qed

section \<open>Steps\<close>

definition ledger_transition_request ::
  "operation_identity \<Rightarrow> transition_arguments \<Rightarrow> ledger_record \<Rightarrow> durable_response \<Rightarrow> datetime option \<Rightarrow> table_request" where
  "ledger_transition_request i a current response completed = Single (Update (ledger_key i)
     (ledger_sets a response completed) (ledger_removes a completed) (ledger_tests i a current))"

text \<open>The arguments of a reservation.\<close>

record reserve_call =
  rc_identity :: operation_identity
  rc_request :: pyval
  rc_type :: pyval
  rc_id :: pyval
  rc_response :: pyval
  rc_now :: datetime
  rc_expires :: datetime

definition reserve_plan :: "reserve_call \<Rightarrow> ledger_record \<Rightarrow> bool" where
  "reserve_plan c r \<longleftrightarrow> reserve_arguments (rc_identity c) (rc_request c) (rc_type c) (rc_id c) (rc_response c)
     (rc_now c) (rc_expires c) = Inr r"

text \<open>Python's own bound on times, and that the identity was constructed.\<close>

definition reserve_call_ok :: "reserve_call \<Rightarrow> bool" where
  "reserve_call_ok c \<longleftrightarrow> proper_identity (rc_identity c) \<and> instant (rc_now c) < max_instant \<and>
     instant (rc_expires c) < max_instant"

inductive ledger_history :: "memory \<Rightarrow> memory \<Rightarrow> ledger_record set \<Rightarrow> bool" for m0 where
  start: "ledger_history m0 m0 {}"
| read: "ledger_history m0 m known \<Longrightarrow> ledger_at m i = Some r \<Longrightarrow> ledger_history m0 m (insert r known)"
| reserve: "ledger_history m0 m known \<Longrightarrow> reserve_call_ok c \<Longrightarrow> reserve_plan c r \<Longrightarrow> ledger_item r = Inr d \<Longrightarrow>
    request_allowed m (Single (Put d unless_exists)) \<Longrightarrow>
    ledger_history m0 (request_written m (Single (Put d unless_exists))) known"
| transition: "ledger_history m0 m known \<Longrightarrow> current \<in> known \<Longrightarrow> record_identity current = i \<Longrightarrow>
    ledger_transition_plan i c current a response completed \<Longrightarrow> instant (tc_updated c) < max_instant \<Longrightarrow>
    request_allowed m (ledger_transition_request i a current response completed) \<Longrightarrow>
    ledger_history m0 (request_written m (ledger_transition_request i a current response completed)) known"
| elsewhere: "ledger_history m0 m known \<Longrightarrow> (\<And>i. k \<noteq> ledger_key i) \<Longrightarrow> (\<And>j. item = Some j \<Longrightarrow> carries_key k j) \<Longrightarrow>
    ledger_history m0 (m(k := item)) known"

lemma reserve_plan_record:
  assumes "reserve_plan c r"
  shows "record_identity r = rc_identity c" "led_state r = PENDING" "led_version r = 1"
    "led_created_at r = rc_now c" "led_updated_at r = rc_now c" "led_expires_at r = rc_expires c"
    "normalized_digest (rc_request c) = Inr (led_request_digest r)"
  using assms
  by (auto simp: reserve_plan_def reserve_arguments_def ledger_candidate_def record_identity_def aware_utc_Inr
      split: sum.splits if_splits)

lemma reserve_plan_valid:
  assumes "reserve_plan c r" "reserve_call_ok c"
  shows "ledger_valid r"
proof -
  have resp: "validated_durable_response (durable_dict (led_durable_response r)) (rc_identity c) (led_resource_type r) (led_resource_id r)
      = Inr (led_durable_response r)"
    and times: "is_aware (rc_now c)" "is_aware (rc_expires c)" "instant (rc_now c) < instant (rc_expires c)"
    and rest: "led_schema_version r = OPERATION_SCHEMA_VERSION"
      "normalized_digest (PStr (led_request_digest r)) = Inr (led_request_digest r)"
      "validated_identifier (PStr (led_resource_type r)) = Inr (led_resource_type r)"
      "validated_resource_id (PStr (led_resource_id r)) = Inr (led_resource_id r)"
      "led_completed_at r = None" "led_failure_code r = None"
    using assms(1)
    by (auto simp: reserve_plan_def reserve_arguments_def ledger_candidate_def aware_utc_Inr durable_response_again
        normalized_digest_again validated_identifier_again validated_resource_id_again
        split: sum.splits if_splits)
  show ?thesis
    using reserve_plan_record [OF assms(1)] resp times rest assms(2)
    by (simp add: ledger_valid_def reserve_call_ok_def timely_def ledger_record_ok_def FAILURE_STATES_def COMPLETED_STATES_def)
qed

section \<open>What a step does\<close>

definition carrying :: "memory \<Rightarrow> bool" where
  "carrying m \<longleftrightarrow> (\<forall>k d. m k = Some d \<longrightarrow> carries_key k d)"

definition ledger_known :: "memory \<Rightarrow> ledger_record set \<Rightarrow> bool" where
  "ledger_known m known \<longleftrightarrow>
     (\<forall>r\<in>known. \<exists>q. ledger_at m (record_identity r) = Some q \<and> ledger_evolves r q)"

definition ledgers_evolve :: "memory \<Rightarrow> memory \<Rightarrow> bool" where
  "ledgers_evolve m m' \<longleftrightarrow>
     (\<forall>i r. ledger_at m i = Some r \<longrightarrow> (\<exists>q. ledger_at m' i = Some q \<and> ledger_evolves r q))"

lemma ledgers_evolve_refl [simp]: "ledgers_evolve m m"
  by (auto simp: ledgers_evolve_def)

lemma ledgers_evolve_trans: "ledgers_evolve a b \<Longrightarrow> ledgers_evolve b c \<Longrightarrow> ledgers_evolve a c"
  unfolding ledgers_evolve_def by (metis ledger_evolves_trans)

lemma ledger_known_evolve:
  assumes "ledger_known m known" "ledgers_evolve m m'"
  shows "ledger_known m' known"
  unfolding ledger_known_def
proof
  fix r assume "r \<in> known"
  then obtain q where q: "ledger_at m (record_identity r) = Some q" "ledger_evolves r q"
    using assms(1) unfolding ledger_known_def by blast
  then obtain p where "ledger_at m' (record_identity r) = Some p" "ledger_evolves q p"
    using assms(2) unfolding ledgers_evolve_def by blast
  with q(2) show "\<exists>q. ledger_at m' (record_identity r) = Some q \<and> ledger_evolves r q"
    using ledger_evolves_trans by blast
qed

lemma carrying_absent:
  assumes "carrying m" "list_all (test_holds (m k)) unless_exists"
  shows "m k = None"
proof (rule ccontr)
  assume "m k \<noteq> None"
  then obtain d where "m k = Some d" by blast
  moreover from this have "carries_key k d" using assms(1) unfolding carrying_def by blast
  ultimately show False using assms(2) by (simp add: unless_exists_def carries_key_def)
qed

lemma carrying_upd: "carrying m \<Longrightarrow> carries_key k d \<Longrightarrow> carrying (m(k \<mapsto> d))"
  by (simp add: carrying_def)

text \<open>A reservation: a record where there was none.\<close>

lemma reserve_written:
  assumes "carrying m" "ledger_valid r" "ledger_item r = Inr d"
    "request_allowed m (Single (Put d unless_exists))"
  shows "m (ledger_key (record_identity r)) = None"
    and "request_written m (Single (Put d unless_exists)) = m(ledger_key (record_identity r) \<mapsto> stored_item d)"
    and "ledger_record_from_item (PDict (stored_item d)) = Inr r"
    and "carries_key (ledger_key (record_identity r)) (stored_item d)"
proof -
  have d: "d = ledger_attributes r" using assms(2,3) ledger_item_attributes by simp
  show "m (ledger_key (record_identity r)) = None"
    by (rule carrying_absent [OF assms(1)]) (use assms(4) in \<open>simp add: allowed_def d ledger_attributes_head\<close>)
  show "request_written m (Single (Put d unless_exists)) = m(ledger_key (record_identity r) \<mapsto> stored_item d)"
    by (simp add: request_written_def d ledger_attributes_head)
  show "ledger_record_from_item (PDict (stored_item d)) = Inr r" using assms(2) by (simp add: d ledger_read_back)
  show "carries_key (ledger_key (record_identity r)) (stored_item d)"
    by (simp add: carries_key_def d attributes_lookup)
qed

text \<open>A write to a key without a record leaves all records alone.\<close>

lemma fresh_evolve:
  assumes "m k = None"
  shows "ledgers_evolve m (m(k \<mapsto> d))"
  unfolding ledgers_evolve_def
proof (intro allI impI)
  fix i r assume r: "ledger_at m i = Some r"
  then have "ledger_key i \<noteq> k" using assms by (auto simp: ledger_at_Some)
  with r have "ledger_at (m(k \<mapsto> d)) i = Some r" by (simp add: ledger_at_def)
  then show "\<exists>q. ledger_at (m(k \<mapsto> d)) i = Some q \<and> ledger_evolves r q" by auto
qed

text \<open>A transition: the very record that was read, and its successor.\<close>

lemma version_tested:
  assumes "list_all (test_holds (m (ledger_key i))) (ledger_tests i a current)" "ledger_at m i = Some q"
  shows "led_version q = ta_version a"
proof -
  obtain d where d: "m (ledger_key i) = Some d" "ledger_record_from_item (PDict d) = Inr q"
    using assms(2) by (auto simp: ledger_at_Some)
  have "positive_integer (py_get d ''version'') = Inr (led_version q)"
    using d(2) by (elim ledger_from_itemE) (simp add: item_record_Inr)
  moreover have "py_eq (py_get d ''version'') (PInt (ta_version a))"
    using assms(1) d(1) by (auto simp: ledger_tests_def py_get_def split: option.splits)
  ultimately show ?thesis by (rule positive_integer_eq)
qed

lemma transition_written:
  assumes "ledger_known m known" "current \<in> known" "record_identity current = i"
    "ledger_transition_plan i c current a response completed"
    "request_allowed m (ledger_transition_request i a current response completed)"
  obtains d where "m (ledger_key i) = Some d" "ledger_record_from_item (PDict d) = Inr current"
    "request_written m (ledger_transition_request i a current response completed) =
       m(ledger_key i \<mapsto> ledger_update a response completed (ledger_key i) d)"
proof -
  obtain q where q: "ledger_at m i = Some q" "ledger_evolves current q"
    using assms(1-3) unfolding ledger_known_def by blast
  have tests: "list_all (test_holds (m (ledger_key i))) (ledger_tests i a current)"
    using assms(5) by (simp add: ledger_transition_request_def allowed_def)
  have "led_version current = ta_version a"
    using assms(4) transition_checks_Inr(2) unfolding ledger_transition_plan_def by blast
  then have "q = current"
    using ledger_evolves_same_version [OF q(2)] version_tested [OF tests q(1)] by simp
  then obtain d where "m (ledger_key i) = Some d" "ledger_record_from_item (PDict d) = Inr current"
    using q(1) by (auto simp: ledger_at_Some)
  then show thesis
    by (intro that) (auto simp: request_written_def ledger_transition_request_def ledger_update_def)
qed

lemma successor_evolve:
  assumes "m (ledger_key i) = Some d" "ledger_record_from_item (PDict d) = Inr current" "record_identity current = i"
    "ledger_record_from_item (PDict d') = Inr q" "ledger_evolves current q"
  shows "ledgers_evolve m (m(ledger_key i \<mapsto> d'))"
  unfolding ledgers_evolve_def
proof (intro allI impI)
  fix j r assume r: "ledger_at m j = Some r"
  show "\<exists>p. ledger_at (m(ledger_key i \<mapsto> d')) j = Some p \<and> ledger_evolves r p"
  proof (cases "ledger_key j = ledger_key i")
    case True
    then have "r = current" "j = i" using r assms(1-3) by (auto simp: ledger_at_Some)
    moreover have "record_identity q = i" using ledger_evolves_identity [OF assms(5)] assms(3) by simp
    ultimately show ?thesis using assms(4,5) by (auto simp: ledger_at_Some)
  next
    case False
    then have "ledger_at (m(ledger_key i \<mapsto> d')) j = Some r" using r by (simp add: ledger_at_def)
    then show ?thesis by auto
  qed
qed

lemma ledger_update_carries:
  "carries_key k d \<Longrightarrow> carries_key k (ledger_update a response completed key d)"
  using ledger_update_keeps [of "''pk''" a response completed key d]
    ledger_update_keeps [of "''sk''" a response completed key d]
  by (simp add: carries_key_def LEDGER_UPDATED_FIELDS_def)

section \<open>The invariant of histories\<close>

definition ledger_sound :: "memory \<Rightarrow> memory \<Rightarrow> ledger_record set \<Rightarrow> bool" where
  "ledger_sound m0 m known \<longleftrightarrow> carrying m \<and> ledger_known m known \<and> ledgers_evolve m0 m"

lemma ledger_sound_step:
  assumes "ledger_sound m0 m known" "ledgers_evolve m m'" "carrying m'"
  shows "ledger_sound m0 m' known"
  using assms ledger_known_evolve ledgers_evolve_trans unfolding ledger_sound_def by metis

lemma ledger_history_sound:
  assumes "ledger_history m0 m known" "carrying m0"
  shows "ledger_sound m0 m known"
  using assms(1)
proof (induction rule: ledger_history.induct)
  case start
  then show ?case using assms(2) by (simp add: ledger_sound_def ledger_known_def)
next
  case (read m known i r)
  then have "record_identity r = i" using ledger_at_valid by blast
  with read show ?case by (auto simp: ledger_sound_def ledger_known_def)
next
  case (reserve m known c r d)
  have "carrying m" using reserve.IH by (simp add: ledger_sound_def)
  note w = reserve_written [OF this reserve_plan_valid [OF reserve(3,2)] reserve(4,5)]
  show ?case
    unfolding w(2)
    by (rule ledger_sound_step [OF reserve.IH fresh_evolve carrying_upd]) fact+
next
  case (transition m known current i c a response completed)
  have sound: "carrying m" "ledger_known m known" using transition.IH by (simp_all add: ledger_sound_def)
  obtain d where d: "m (ledger_key i) = Some d" "ledger_record_from_item (PDict d) = Inr current"
    "request_written m (ledger_transition_request i a current response completed) =
       m(ledger_key i \<mapsto> ledger_update a response completed (ledger_key i) d)"
    by (rule transition_written [OF sound(2) transition(2,3,4,6)])
  have valid: "ledger_valid current" by (rule ledger_from_item_valid [OF d(2)])
  have "ledger_record_from_item (PDict (ledger_update a response completed (ledger_key i) d))
      = Inr (advance a response completed current)"
    by (rule ledger_update_reads [OF d(2) advance_valid [OF transition(4) valid transition(3,5)]])
  then have "ledgers_evolve m (m(ledger_key i \<mapsto> ledger_update a response completed (ledger_key i) d))"
    using advance_evolves [OF transition(4) valid transition(3)] d(1,2) transition(3)
    by (intro successor_evolve [of m i d current])
  moreover have "carries_key (ledger_key i) d" using sound(1) d(1) unfolding carrying_def by blast
  ultimately show ?case
    unfolding d(3) using carrying_upd [OF sound(1) ledger_update_carries]
    by (intro ledger_sound_step [OF transition.IH])
next
  case (elsewhere m known k item)
  have "ledger_at (m(k := item)) i = ledger_at m i" for i
    using elsewhere(2) [of i] by (simp add: ledger_at_def)
  then have "ledgers_evolve m (m(k := item))" by (auto simp: ledgers_evolve_def)
  moreover have "carrying (m(k := item))"
    using elsewhere.IH elsewhere(3) by (cases item) (auto simp: ledger_sound_def carrying_def)
  ultimately show ?case by (rule ledger_sound_step [OF elsewhere.IH])
qed

lemma completed_step: "s \<in> set COMPLETED_STATES \<Longrightarrow> ledger_step s t \<Longrightarrow> t = EXPIRED"
  by (cases s) (auto simp: ledger_step_def COMPLETED_STATES_def)

lemma completed_stays:
  "(ledger_step ^^ n) s t \<Longrightarrow> s \<in> set COMPLETED_STATES \<Longrightarrow> t = s \<or> t = EXPIRED"
proof (induction n arbitrary: t)
  case (Suc n)
  then obtain u where u: "(ledger_step ^^ n) s u" "ledger_step u t" by auto
  then have "u \<in> set COMPLETED_STATES" using Suc by (auto simp: COMPLETED_STATES_def)
  with u(2) show ?case using completed_step by blast
qed simp

text \<open>
  (C18) However reservations, transitions and other writes to the table interleave, an operation in
  the ledger never disappears and never changes what it was reserved for: owner, actor, key,
  request digest, resource, durable response, time of creation and deadline. Its version grows
  by one per allowed transition, equal versions are equal records, and once it has completed it
  can only expire.
\<close>

theorem ledger_only_evolves:
  assumes "ledger_history m0 m known" "carrying m0" "ledger_at m0 i = Some r"
  shows "\<exists>q. ledger_at m i = Some q \<and> ledger_evolves r q \<and>
    (led_state r \<in> set COMPLETED_STATES \<longrightarrow> led_state q = led_state r \<or> led_state q = EXPIRED)"
proof -
  obtain q where q: "ledger_at m i = Some q" "ledger_evolves r q"
    using ledger_history_sound [OF assms(1,2)] assms(3) unfolding ledger_sound_def ledgers_evolve_def by blast
  from q(2) obtain n where "(ledger_step ^^ n) (led_state r) (led_state q)" unfolding ledger_evolves_def by blast
  with q completed_stays show ?thesis by blast
qed

end
