(* ===== verification/LedgerRuns.thy ===== *)
theory LedgerRuns
  imports LedgerHistory
begin

text \<open>
  The operations of \<open>DynamoOperationsRepository\<close> on any table that keeps the contract: what each
  run writes, what its outcome tells the caller, and that runs are histories.
\<close>

section \<open>Reading\<close>

lemma attempt_run: "attempt m w = (r, w') \<longleftrightarrow>
    (\<exists>x. m w = (Inr x, w') \<and> r = Inr None) \<or> (\<exists>e. m w = (Inl e, w') \<and> r = Inr (Some e))"
  by (cases "m w"; cases "fst (m w)") (auto simp: attempt_def io_simps)

context conditional_table
begin

lemma load_view: "ledger_load dy i w = (r, w') \<Longrightarrow> view w' = view w"
  using get_law unfolding ledger_load_def
  by (auto simp: io_simps split: prod.splits sum.splits pyval.splits option.splits if_splits)

lemma load_response:
  assumes "dy_get_item dy k w = (Inr resp, w')"
  shows "response_item resp = view w k" "view w' = view w"
    "response_get resp ''Item'' = PNone \<or> view w k \<noteq> None"
  using get_law [OF assms] by auto

lemma load_Inr:
  assumes "ledger_load dy i w = (Inr found, w')"
  shows "found = ledger_at (view w) i" "view w' = view w" "found = None \<Longrightarrow> view w (ledger_key i) = None"
proof -
  show "view w' = view w" by (rule load_view [OF assms])
  obtain resp w1 where get: "dy_get_item dy (ledger_key i) w = (Inr resp, w1)"
    using assms unfolding ledger_load_def bind_Inr by blast
  obtain d where d: "resp = PDict d"
    using assms get unfolding ledger_load_def by (auto simp: io_simps split: pyval.splits)
  note law = load_response [OF get]
  show found: "found = ledger_at (view w) i" and "found = None \<Longrightarrow> view w (ledger_key i) = None"
  proof -
    have "(found = None \<and> map_of d ''Item'' = None) \<or>
        (\<exists>v r. map_of d ''Item'' = Some v \<and> ledger_record_from_item v = Inr r \<and> ledger_identity r = Inr i \<and> found = Some r)"
      using assms get d unfolding ledger_load_def
      by (auto simp: io_simps split: option.splits sum.splits if_splits)
    then have "(found = None \<and> view w (ledger_key i) = None) \<or>
        (\<exists>r. found = Some r \<and> ledger_at (view w) i = Some r)"
    proof
      assume "found = None \<and> map_of d ''Item'' = None"
      then show ?thesis using law(1) by (simp add: response_item_def response_get_def d py_get_def)
    next
      assume "\<exists>v r. map_of d ''Item'' = Some v \<and> ledger_record_from_item v = Inr r \<and> ledger_identity r = Inr i \<and> found = Some r"
      then obtain v r where r: "map_of d ''Item'' = Some v" "ledger_record_from_item v = Inr r"
        "ledger_identity r = Inr i" "found = Some r" by blast
      obtain e where "v = PDict e" using r(2) by (rule ledger_from_itemE)
      then show ?thesis
        using r law(1) [symmetric] by (simp add: response_item_def response_get_def d py_get_def ledger_at_def)
    qed
    then show "found = ledger_at (view w) i" "found = None \<Longrightarrow> view w (ledger_key i) = None"
      by (auto simp: ledger_at_def)
  qed
qed

text \<open>A record the table holds is found, unless the client fails.\<close>

lemma load_found:
  assumes "ledger_load dy i w = (r, w')" "ledger_at (view w) i = Some q"
  shows "r = Inr (Some q) \<or> (\<exists>e. r = Inl e \<and> sdk_error e)"
proof -
  obtain g w1 where get: "dy_get_item dy (ledger_key i) w = (g, w1)" by (cases "dy_get_item dy (ledger_key i) w")
  show ?thesis
  proof (cases g)
    case (Inl e)
    then show ?thesis using get_law [OF get] assms(1) get by (auto simp: ledger_load_def io_simps)
  next
    case (Inr resp)
    obtain d where d: "view w (ledger_key i) = Some d" "ledger_record_from_item (PDict d) = Inr q" "record_identity q = i"
      using assms(2) by (auto simp: ledger_at_Some)
    have "response_item resp = Some d" using load_response(1) [of "ledger_key i" w resp w1] get Inr d by simp
    then obtain e where "resp = PDict e" "map_of e ''Item'' = Some (PDict d)"
      by (auto simp: response_item_def response_get_def py_get_def split: pyval.splits option.splits)
    then show ?thesis
      using assms(1) get Inr d reader_identity [OF d(2)] by (simp add: ledger_load_def io_simps)
  qed
qed

end

section \<open>Reservations\<close>

definition run_reserve :: "'w dynamo \<Rightarrow> reserve_call \<Rightarrow> ('w, reservation_outcome) io" where
  "run_reserve dy c = ledger_reserve dy (rc_identity c) (rc_request c) (rc_type c) (rc_id c) (rc_response c)
     (rc_now c) (rc_expires c)"

text \<open>What is made of the reading after a write that failed with the error \<open>e\<close>.\<close>

definition reserve_verdict :: "ledger_record \<Rightarrow> exn \<Rightarrow> exn + ledger_record option \<Rightarrow> exn + reservation_outcome" where
  "reserve_verdict p e g = (case g of
       Inl x \<Rightarrow> Inl (if x = OperationContractError then x else OperationPersistenceAmbiguous)
     | Inr None \<Rightarrow> Inl OperationPersistenceAmbiguous
     | Inr (Some q) \<Rightarrow> if led_request_digest q = led_request_digest p \<and> led_resource_type q = led_resource_type p
         then Inr \<lparr>ro_record = q, ro_created_here = (error_code e \<noteq> Some CONDITIONAL_FAILURE \<and> same_record q p)\<rparr>
         else Inl OperationConflict)"

lemma same_record_refl [simp]: "same_record r r"
  by (simp add: same_record_def)

lemma same_record_fields:
  assumes "same_record r q"
  shows "led_resource_id r = led_resource_id q \<and> led_state r = led_state q \<and> led_version r = led_version q \<and>
    led_created_at r = led_created_at q"
proof -
  have "r\<lparr>led_durable_response := []\<rparr> = q\<lparr>led_durable_response := []\<rparr>" using assms by (simp add: same_record_def)
  then show ?thesis by (cases r; cases q) simp
qed

lemma plan_resource_id: "reserve_plan c p \<Longrightarrow> validated_resource_id (rc_id c) = Inr (led_resource_id p)"
  by (auto simp: reserve_plan_def reserve_arguments_def ledger_candidate_def split: sum.splits if_splits)

lemma error_code_conditional: "error_code e = Some CONDITIONAL_FAILURE \<longleftrightarrow> e = AwsError CONDITIONAL_FAILURE"
  by (cases e) auto

lemma run_reserve_cases:
  assumes "run_reserve dy c w = (r, w')" "reserve_call_ok c"
  obtains (invalid) e where "r = Inl e" "w' = w"
  | (written) p d where "reserve_plan c p" "ledger_item p = Inr d" "dy_put_item dy d unless_exists w = (Inr (), w')"
      "r = Inr \<lparr>ro_record = p, ro_created_here = True\<rparr>"
  | (failed) p d e w1 g where "reserve_plan c p" "ledger_item p = Inr d"
      "dy_put_item dy d unless_exists w = (Inl e, w1)" "ledger_load dy (rc_identity c) w1 = (g, w')"
      "r = reserve_verdict p e g"
proof (cases "\<exists>p. reserve_plan c p")
  case False
  then obtain e where "reserve_arguments (rc_identity c) (rc_request c) (rc_type c) (rc_id c) (rc_response c)
      (rc_now c) (rc_expires c) = Inl e"
    unfolding reserve_plan_def by (metis sum.exhaust_sel)
  with assms(1) show thesis by (intro invalid) (auto simp: run_reserve_def ledger_reserve_def io_simps)
next
  case True
  then obtain p where p: "reserve_plan c p" by blast
  obtain d where d: "ledger_item p = Inr d" using ledger_item_attributes [OF reserve_plan_valid [OF p assms(2)]] by blast
  obtain x w1 where put: "dy_put_item dy d unless_exists w = (x, w1)" by (cases "dy_put_item dy d unless_exists w")
  obtain g w2 where load: "ledger_load dy (rc_identity c) w1 = (g, w2)" by (cases "ledger_load dy (rc_identity c) w1")
  show thesis
  proof (cases x)
    case (Inr u)
    with assms(1) p d put show thesis
      by (intro written) (auto simp: run_reserve_def ledger_reserve_def reserve_plan_def attempt_def io_simps)
  next
    case (Inl e)
    have "w' = w2 \<and> r = reserve_verdict p e g"
      using assms(1) p d put Inl load
      unfolding run_reserve_def ledger_reserve_def reserve_plan_def reserve_verdict_def
      by (auto simp: attempt_def io_simps split: sum.splits option.splits if_splits)
    with p d put Inl load show thesis by (intro failed) auto
  qed
qed

context conditional_table
begin

lemma reserve_put:
  assumes "reserve_plan c p" "reserve_call_ok c" "ledger_item p = Inr d" "carrying (view w)"
    "dy_put_item dy d unless_exists w = (x, w1)" "view w1 \<noteq> view w \<or> (\<exists>u. x = Inr u)"
  shows "request_allowed (view w) (Single (Put d unless_exists))"
    and "view w1 = request_written (view w) (Single (Put d unless_exists))"
    and "view w (ledger_key (rc_identity c)) = None"
    and "ledger_at (view w1) (rc_identity c) = Some p"
proof -
  note law = put_law [OF assms(5)]
  show a: "request_allowed (view w) (Single (Put d unless_exists))"
    and v: "view w1 = request_written (view w) (Single (Put d unless_exists))"
    using law assms(6) by (cases x; auto simp: write_law_def)+
  have i: "record_identity p = rc_identity c" by (rule reserve_plan_record [OF assms(1)])
  note w = reserve_written [OF assms(4) reserve_plan_valid [OF assms(1,2)] assms(3) a]
  show "view w (ledger_key (rc_identity c)) = None" using w(1) i by simp
  show "ledger_at (view w1) (rc_identity c) = Some p"
    using w(3) i unfolding v w(2) by (simp add: ledger_at_Some)
qed

lemma reserve_run_view:
  assumes "run_reserve dy c w = (r, w')" "reserve_call_ok c" "carrying (view w)"
  shows "view w' = view w \<or> (\<exists>p d. reserve_plan c p \<and> ledger_item p = Inr d \<and>
      request_allowed (view w) (Single (Put d unless_exists)) \<and>
      view w' = request_written (view w) (Single (Put d unless_exists)))"
  using assms(1,2)
proof (cases rule: run_reserve_cases)
  case (written p d)
  then show ?thesis using reserve_put(1,2) [OF written(1) assms(2) written(2) assms(3) written(3)] by blast
next
  case (failed p d e w1 g)
  have "view w' = view w1" by (rule load_view [OF failed(4)])
  then show ?thesis
    using failed reserve_put(1,2) [OF failed(1) assms(2) failed(2) assms(3) failed(3)] by fastforce
qed simp

text \<open>
  Whoever wrote is told so, or that the outcome is ambiguous, unless the client reported a refusal: then the
  record is returned as one that was there.
\<close>

lemma reserve_run_wrote:
  assumes "run_reserve dy c w = (r, w')" "reserve_call_ok c" "carrying (view w)" "view w' \<noteq> view w"
  shows "view w (ledger_key (rc_identity c)) = None \<and> (\<exists>p d. reserve_plan c p \<and> ledger_item p = Inr d \<and>
    request_allowed (view w) (Single (Put d unless_exists)) \<and>
    view w' = request_written (view w) (Single (Put d unless_exists)) \<and>
    (r = Inl OperationPersistenceAmbiguous \<or> r = Inr \<lparr>ro_record = p,
       ro_created_here = (fst (dy_put_item dy d unless_exists w) \<noteq> Inl (AwsError CONDITIONAL_FAILURE))\<rparr>))"
  using assms(1,2)
proof (cases rule: run_reserve_cases)
  case (written p d)
  then show ?thesis
    using reserve_put(1-3) [OF written(1) assms(2) written(2) assms(3) written(3)] by auto
next
  case (failed p d e w1 g)
  have same: "view w' = view w1" by (rule load_view [OF failed(4)])
  with assms(4) have new: "view w1 \<noteq> view w \<or> (\<exists>u. Inl e = Inr u)" by simp
  note put = reserve_put [OF failed(1) assms(2) failed(2) assms(3) failed(3) new]
  have "g = Inr (Some p) \<or> (\<exists>x. g = Inl x \<and> sdk_error x)" by (rule load_found [OF failed(4) put(4)])
  then have "r = Inl OperationPersistenceAmbiguous \<or> r = Inr \<lparr>ro_record = p,
      ro_created_here = (fst (dy_put_item dy d unless_exists w) \<noteq> Inl (AwsError CONDITIONAL_FAILURE))\<rparr>"
    unfolding failed(5) reserve_verdict_def by (auto simp: failed(3) error_code_conditional)
  with put(1-3) failed(1,2) same show ?thesis by metis
qed (use assms(4) in simp)

lemma reserve_run_result:
  assumes "run_reserve dy c w = (Inr out, w')" "reserve_call_ok c" "carrying (view w)"
  shows "ledger_at (view w') (rc_identity c) = Some (ro_record out) \<and>
    (\<exists>p. reserve_plan c p \<and> led_request_digest (ro_record out) = led_request_digest p \<and>
       led_resource_type (ro_record out) = led_resource_type p \<and> (ro_created_here out \<longrightarrow> same_record (ro_record out) p))"
  using assms(1,2)
proof (cases rule: run_reserve_cases)
  case (written p d)
  then show ?thesis using reserve_put(4) [OF written(1) assms(2) written(2) assms(3) written(3)] by auto
next
  case (failed p d e w1 g)
  then obtain q where g: "g = Inr (Some q)" by (auto simp: reserve_verdict_def split: sum.splits option.splits)
  have "ledger_at (view w') (rc_identity c) = Some q"
    using load_Inr(1,2) [of "rc_identity c" w1 "Some q" w'] failed(4) by (simp add: g)
  with failed(1,5) show ?thesis by (auto simp: reserve_verdict_def g split: if_splits)
qed simp

end

section \<open>Transitions\<close>

definition run_transition :: "'w dynamo \<Rightarrow> operation_identity \<Rightarrow> ledger_transition_call \<Rightarrow> ('w, ledger_record) io" where
  "run_transition dy i c = ledger_transition dy i (tc_expected c) (tc_version c) (tc_next c) (tc_response c)
     (tc_failure c) (tc_completed c) (tc_updated c)"

definition transition_applied :: "transition_arguments \<Rightarrow> durable_response \<Rightarrow> datetime option \<Rightarrow> ledger_record \<Rightarrow> bool" where
  "transition_applied a response completed q \<longleftrightarrow> led_state q = ta_next a \<and> led_version q = ta_version a + 1 \<and>
     matches_transition q response (ta_failure a) completed"

text \<open>What is made of the reading after the write, whose error, if any, is \<open>failure\<close>.\<close>

definition transition_verdict :: "transition_arguments \<Rightarrow> durable_response \<Rightarrow> datetime option \<Rightarrow> exn option
    \<Rightarrow> exn + ledger_record option \<Rightarrow> exn + ledger_record" where
  "transition_verdict a response completed failure g = (case g of
       Inl e \<Rightarrow> Inl OperationPersistenceAmbiguous
     | Inr found \<Rightarrow> (case found of
           Some q \<Rightarrow> if transition_applied a response completed q then Inr q
             else if led_state q = ta_next a \<and> led_version q = ta_version a + 1 then Inl OperationConflict
             else Inl (if Option.bind failure error_code = Some CONDITIONAL_FAILURE
                       then OperationConflict else OperationPersistenceAmbiguous)
         | None \<Rightarrow> Inl (if Option.bind failure error_code = Some CONDITIONAL_FAILURE
                       then OperationConflict else OperationPersistenceAmbiguous)))"

lemma write_verified_run:
  assumes "transition_write_verified dy i a current response completed w = (r, w')"
  obtains x w1 g where "dy_update_item dy (ledger_key i) (ledger_sets a response completed)
      (ledger_removes a completed) (ledger_tests i a current) w = (x, w1)"
    "ledger_load dy i w1 = (g, w')"
    "r = transition_verdict a response completed (case x of Inl e \<Rightarrow> Some e | Inr u \<Rightarrow> None) g"
proof -
  obtain x w1 where update: "dy_update_item dy (ledger_key i) (ledger_sets a response completed)
      (ledger_removes a completed) (ledger_tests i a current) w = (x, w1)" by (metis prod.exhaust_sel)
  obtain g w2 where load: "ledger_load dy i w1 = (g, w2)" by (metis prod.exhaust_sel)
  have "w' = w2 \<and> r = transition_verdict a response completed (case x of Inl e \<Rightarrow> Some e | Inr u \<Rightarrow> None) g"
    using assms update load
    unfolding transition_write_verified_def transition_verdict_def transition_applied_def
    by (cases x) (auto simp: attempt_def io_simps split: sum.splits option.splits if_splits)
  with update load show thesis by (intro that) auto
qed

context conditional_table
begin

text \<open>The part of a transition up to the reading and the checks of its arguments, and the rest.\<close>

definition transition_rest :: "operation_identity \<Rightarrow> transition_arguments \<Rightarrow> ledger_record \<Rightarrow> durable_response
    \<Rightarrow> ('w, ledger_record) io" where
  "transition_rest i a current response =
     (if led_state current = ta_next a \<and> led_version current = ta_version a + 1
      then bind (ensure (matches_transition current response (ta_failure a) (ta_completed a)) OperationConflict)
             (\<lambda>_. ret current)
      else bind (lift (transition_checks a current)) (\<lambda>_.
             transition_write_verified dy i a current response (effective_completed a current)))"

lemma run_transition_read:
  assumes "run_transition dy i c w = (r, w')"
  obtains (stopped) e where "r = Inl e" "view w' = view w"
  | (found) current a response w0 where "ledger_at (view w) i = Some current" "view w0 = view w"
      "transition_arguments_new (tc_expected c) (tc_version c) (tc_next c) (tc_failure c) (tc_completed c) (tc_updated c)
         = Inr a"
      "transition_response i current (tc_response c) = Inr response"
      "ta_next a \<in> set COMPLETED_STATES \<or> effective_completed a current = None"
      "transition_rest i a current response w0 = (r, w')"
proof (cases "transition_arguments_new (tc_expected c) (tc_version c) (tc_next c) (tc_failure c) (tc_completed c) (tc_updated c)")
  case (Inl e)
  then show thesis using assms by (intro stopped [of e]) (auto simp: run_transition_def ledger_transition_def io_simps)
next
  case args: (Inr a)
  obtain g0 w0 where load: "ledger_load dy i w = (g0, w0)" by (metis prod.exhaust_sel)
  have same: "view w0 = view w" by (rule load_view [OF load])
  note start = assms [unfolded run_transition_def ledger_transition_def]
  consider (bad) e where "g0 = Inl e" | (none) "g0 = Inr None" | (some) current where "g0 = Inr (Some current)"
    by (metis option.exhaust sum.exhaust)
  then show thesis
  proof cases
    case (bad e)
    then show thesis using start args load same by (intro stopped [of e]) (auto simp: io_simps)
  next
    case none
    then show thesis using start args load same by (intro stopped [of OperationConflict]) (auto simp: io_simps)
  next
    case (some current)
    then have at: "ledger_at (view w) i = Some current" using load_Inr(1) [of i w "Some current" w0] load by simp
    show thesis
    proof (cases "transition_response i current (tc_response c)")
      case (Inl e)
      then show thesis using start args load same some by (intro stopped [of e]) (auto simp: io_simps)
    next
      case resp: (Inr response)
      show thesis
      proof (cases "ta_next a \<in> set COMPLETED_STATES \<or> effective_completed a current = None")
        case False
        then show thesis using start args load same some resp
          by (intro stopped [of OperationContractError]) (auto simp: io_simps Let_def)
      next
        case True
        then have "transition_rest i a current response w0 = (r, w')"
          using start args load some resp by (simp add: io_simps Let_def transition_rest_def)
        then show thesis by (rule found [OF at same args resp True])
      qed
    qed
  qed
qed

lemma run_transition_cases:
  assumes "run_transition dy i c w = (r, w')"
  obtains (stopped) e where "r = Inl e" "view w' = view w"
  | (repeated) current a where "r = Inr current" "view w' = view w" "ledger_at (view w) i = Some current"
      "transition_arguments_new (tc_expected c) (tc_version c) (tc_next c) (tc_failure c) (tc_completed c) (tc_updated c)
         = Inr a"
      "led_state current = ta_next a" "led_version current = ta_version a + 1" "led_failure_code current = ta_failure a"
  | (attempted) current a response completed x w0 w1 g where "ledger_at (view w) i = Some current" "view w0 = view w"
      "ledger_transition_plan i c current a response completed"
      "dy_update_item dy (ledger_key i) (ledger_sets a response completed)
         (ledger_removes a completed) (ledger_tests i a current) w0 = (x, w1)"
      "ledger_load dy i w1 = (g, w')"
      "r = transition_verdict a response completed (case x of Inl e \<Rightarrow> Some e | Inr u \<Rightarrow> None) g"
  using assms
proof (cases rule: run_transition_read)
  case (found current a response w0)
  note rest = found(6) [unfolded transition_rest_def]
  consider (same) "led_state current = ta_next a" "led_version current = ta_version a + 1"
    | (refused) e where "transition_checks a current = Inl e" "\<not> (led_state current = ta_next a \<and> led_version current = ta_version a + 1)"
    | (fresh) "transition_checks a current = Inr ()" "\<not> (led_state current = ta_next a \<and> led_version current = ta_version a + 1)"
    by (cases "transition_checks a current") auto
  then show thesis
  proof cases
    case same
    with rest consider "r = Inl OperationConflict" "w' = w0"
      | "r = Inr current" "w' = w0" "led_failure_code current = ta_failure a"
      by (auto simp: io_simps matches_transition_def split: if_splits)
    then show thesis using stopped repeated [OF _ _ found(1,3)] found(2) same by cases auto
  next
    case (refused e)
    with rest found(2) show thesis by (intro stopped [of e]) (auto simp: io_simps)
  next
    case fresh
    with found have plan: "ledger_transition_plan i c current a response (effective_completed a current)"
      by (simp add: ledger_transition_plan_def)
    have "transition_write_verified dy i a current response (effective_completed a current) w0 = (r, w')"
      using rest fresh by (simp add: io_simps)
    then show thesis by (rule write_verified_run) (rule attempted [OF found(1,2) plan])
  qed
qed (rule stopped)

lemma reserve_run_created:
  assumes "run_reserve dy c w = (Inr out, w')" "reserve_call_ok c" "carrying (view w)"
  shows "ledger_at (view w') (rc_identity c) = Some (ro_record out) \<and>
    normalized_digest (rc_request c) = Inr (led_request_digest (ro_record out)) \<and>
    (ro_created_here out \<longrightarrow> validated_resource_id (rc_id c) = Inr (led_resource_id (ro_record out)) \<and>
       led_state (ro_record out) = PENDING \<and> led_version (ro_record out) = 1)"
proof -
  obtain p where p: "reserve_plan c p" "ledger_at (view w') (rc_identity c) = Some (ro_record out)"
    "led_request_digest (ro_record out) = led_request_digest p"
    "ro_created_here out \<longrightarrow> same_record (ro_record out) p"
    using reserve_run_result [OF assms] by blast
  then show ?thesis
    using plan_resource_id [OF p(1)] reserve_plan_record(2,3,7) [OF p(1)] same_record_fields [of "ro_record out" p]
    by auto
qed

lemma transition_update:
  assumes at: "ledger_at (view w) i = Some current" and w0: "view w0 = view w"
    and plan: "ledger_transition_plan i c current a response completed" and time: "instant (tc_updated c) < max_instant"
    and update: "dy_update_item dy (ledger_key i) (ledger_sets a response completed)
      (ledger_removes a completed) (ledger_tests i a current) w0 = (x, w1)"
    and effect: "view w1 \<noteq> view w \<or> (\<exists>u. x = Inr u)"
  shows "request_allowed (view w) (ledger_transition_request i a current response completed)"
    and "view w1 = request_written (view w) (ledger_transition_request i a current response completed)"
    and "ledger_at (view w1) i = Some (advance a response completed current)"
proof -
  note law = update_law [OF update]
  show allowed: "request_allowed (view w) (ledger_transition_request i a current response completed)"
    and written: "view w1 = request_written (view w) (ledger_transition_request i a current response completed)"
    using law effect w0 by (cases x; auto simp: write_law_def ledger_transition_request_def)+
  have valid: "ledger_valid current" "record_identity current = i" using ledger_at_valid [OF at] by blast+
  have known: "ledger_known (view w) {current}" using at valid(2) by (simp add: ledger_known_def)
  obtain d where d: "ledger_record_from_item (PDict d) = Inr current"
    "view w1 = (view w)(ledger_key i \<mapsto> ledger_update a response completed (ledger_key i) d)"
    using transition_written [OF known _ valid(2) plan allowed] written by auto
  show "ledger_at (view w1) i = Some (advance a response completed current)"
    using ledger_update_reads [OF d(1) advance_valid [OF plan valid time], of "ledger_key i"] valid(2)
    unfolding d(2) by (simp add: ledger_at_Some)
qed

lemma advance_applied: "transition_applied a response completed (advance a response completed current)"
  by (simp add: transition_applied_def matches_transition_def split: option.split)

lemma run_transition_view:
  assumes "run_transition dy i c w = (r, w')" "instant (tc_updated c) < max_instant"
  shows "view w' = view w \<or> (\<exists>current a response completed. ledger_at (view w) i = Some current \<and>
    ledger_transition_plan i c current a response completed \<and>
    request_allowed (view w) (ledger_transition_request i a current response completed) \<and>
    view w' = request_written (view w) (ledger_transition_request i a current response completed))"
  using assms(1)
proof (cases rule: run_transition_cases)
  case (attempted current a response completed x w0 w1 g)
  have "view w' = view w1" by (rule load_view [OF attempted(5)])
  then show ?thesis
    using attempted(1,3) transition_update(1,2) [OF attempted(1-3) assms(2) attempted(4)] by metis
qed simp_all

lemma run_transition_wrote:
  assumes "run_transition dy i c w = (r, w')" "instant (tc_updated c) < max_instant" "view w' \<noteq> view w"
  shows "\<exists>current a response completed.
    ledger_at (view w) i = Some current \<and> ledger_transition_plan i c current a response completed \<and>
    request_allowed (view w) (ledger_transition_request i a current response completed) \<and>
    view w' = request_written (view w) (ledger_transition_request i a current response completed) \<and>
    (r = Inl OperationPersistenceAmbiguous \<or> r = Inr (advance a response completed current))"
  using assms(1)
proof (cases rule: run_transition_cases)
  case (attempted current a response completed x w0 w1 g)
  have same: "view w' = view w1" by (rule load_view [OF attempted(5)])
  with assms(3) have "view w1 \<noteq> view w \<or> (\<exists>u. x = Inr u)" by simp
  note update = transition_update [OF attempted(1-3) assms(2) attempted(4) this]
  have "r = Inl OperationPersistenceAmbiguous \<or> r = Inr (advance a response completed current)"
    using load_found [OF attempted(5) update(3)] advance_applied [of a response completed current]
    unfolding attempted(6) transition_verdict_def by auto
  with attempted(1,3) update(1,2) same show ?thesis by metis
qed (use assms(3) in simp_all)

lemma run_transition_result:
  assumes "run_transition dy i c w = (Inr q, w')"
  shows "ledger_at (view w') i = Some q \<and> led_state q = tc_next c \<and> led_version q = tc_version c + 1"
  using assms
proof (cases rule: run_transition_cases)
  case (repeated current a)
  then show ?thesis using transition_arguments_Inr [OF repeated(4)] by auto
next
  case (attempted current a response completed x w0 w1 g)
  then have "g = Inr (Some q)" "transition_applied a response completed q"
    by (auto simp: transition_verdict_def split: sum.splits option.splits if_splits)
  moreover have "transition_arguments_new (tc_expected c) (tc_version c) (tc_next c) (tc_failure c) (tc_completed c)
      (tc_updated c) = Inr a" using attempted(3) by (simp add: ledger_transition_plan_def)
  ultimately show ?thesis
    using load_Inr(1,2) [of i w1 "Some q" w'] attempted(5) transition_arguments_Inr
    by (auto simp: transition_applied_def)
qed simp

end

section \<open>What changed\<close>

lemma ledger_at_upd:
  assumes "ledger_at (m(ledger_key i \<mapsto> d)) j = Some q" "ledger_record_from_item (PDict d) = Inr p" "record_identity p = i"
  shows "(j = i \<and> q = p) \<or> ledger_at m j = Some q"
proof (cases "ledger_key j = ledger_key i")
  case True
  with assms show ?thesis by (auto simp: ledger_at_Some)
next
  case False
  with assms(1) show ?thesis by (simp add: ledger_at_def)
qed

context conditional_table
begin

text \<open>The records after a run: those before it, a new pending one, or the successor of one.\<close>

lemma run_reserve_at:
  assumes "run_reserve dy c w = (r, w')" "reserve_call_ok c" "carrying (view w)" "ledger_at (view w') j = Some q"
  shows "ledger_at (view w) j = Some q \<or> led_state q = PENDING"
  using reserve_run_view [OF assms(1-3)]
proof
  assume "view w' = view w"
  with assms(4) show ?thesis by simp
next
  assume "\<exists>p d. reserve_plan c p \<and> ledger_item p = Inr d \<and>
    request_allowed (view w) (Single (Put d unless_exists)) \<and>
    view w' = request_written (view w) (Single (Put d unless_exists))"
  then obtain p d where p: "reserve_plan c p" "ledger_item p = Inr d"
    "request_allowed (view w) (Single (Put d unless_exists))"
    "view w' = request_written (view w) (Single (Put d unless_exists))" by blast
  note written = reserve_written [OF assms(3) reserve_plan_valid [OF p(1) assms(2)] p(2,3)]
  show ?thesis
    using ledger_at_upd [OF _ written(3) refl, of "view w" j q] assms(4) reserve_plan_record(2) [OF p(1)]
    unfolding p(4) written(2) by auto
qed

lemma run_transition_at:
  assumes "run_transition dy i c w = (r, w')" "instant (tc_updated c) < max_instant" "ledger_at (view w') j = Some q"
  shows "ledger_at (view w) j = Some q \<or>
    (j = i \<and> led_state q = tc_next c \<and> (\<exists>current. ledger_at (view w) i = Some current \<and> same_reservation current q))"
  using run_transition_view [OF assms(1,2)]
proof
  assume "view w' = view w"
  with assms(3) show ?thesis by simp
next
  assume "\<exists>current a response completed. ledger_at (view w) i = Some current \<and>
    ledger_transition_plan i c current a response completed \<and>
    request_allowed (view w) (ledger_transition_request i a current response completed) \<and>
    view w' = request_written (view w) (ledger_transition_request i a current response completed)"
  then obtain current a response completed where at: "ledger_at (view w) i = Some current"
    and plan: "ledger_transition_plan i c current a response completed"
    and allowed: "request_allowed (view w) (ledger_transition_request i a current response completed)"
    and written: "view w' = request_written (view w) (ledger_transition_request i a current response completed)" by blast
  have valid: "ledger_valid current" "record_identity current = i" using ledger_at_valid [OF at] by blast+
  have known: "ledger_known (view w) {current}" using at valid(2) by (simp add: ledger_known_def)
  obtain d where d: "ledger_record_from_item (PDict d) = Inr current"
    "view w' = (view w)(ledger_key i \<mapsto> ledger_update a response completed (ledger_key i) d)"
    using transition_written [OF known _ valid(2) plan allowed] written by auto
  have reads: "ledger_record_from_item (PDict (ledger_update a response completed (ledger_key i) d))
      = Inr (advance a response completed current)"
    by (rule ledger_update_reads [OF d(1) advance_valid [OF plan valid assms(2)]])
  have "ta_next a = tc_next c" using plan transition_arguments_Inr(4) unfolding ledger_transition_plan_def by blast
  moreover have "same_reservation current (advance a response completed current)"
    using advance_evolves [OF plan valid] by (simp add: ledger_evolves_def)
  ultimately show ?thesis
    using ledger_at_upd [OF assms(3) [unfolded d(2)] reads] valid(2) at by auto
qed

end

section \<open>Properties of the operations\<close>

text \<open>
  (C19) A reservation changes the table by at most one write, that of the new record of its arguments,
  under the condition that the key is new, and by nothing else. Whoever wrote the record is told that it was
  created here, or that the outcome is ambiguous, also when the client reported a failure after the write had
  been applied, with one exception: when the response is lost and the client's own retry is refused, the
  writer is told that the record was there before. Every record that is returned is the one the table
  holds, for the same request.
\<close>

theorem reserve_outcome:
  assumes "conditional_table dy view" "reserve_call_ok c" "carrying (view w)" "run_reserve dy c w = (r, w')"
  shows "(view w' = view w \<or> (\<exists>p d. reserve_plan c p \<and> ledger_item p = Inr d \<and>
      request_allowed (view w) (Single (Put d unless_exists)) \<and>
      view w' = request_written (view w) (Single (Put d unless_exists)) \<and>
      (r = Inl OperationPersistenceAmbiguous \<or> r = Inr \<lparr>ro_record = p,
         ro_created_here = (fst (dy_put_item dy d unless_exists w) \<noteq> Inl (AwsError CONDITIONAL_FAILURE))\<rparr>))) \<and>
    (\<forall>out. r = Inr out \<longrightarrow> ledger_at (view w') (rc_identity c) = Some (ro_record out) \<and>
      normalized_digest (rc_request c) = Inr (led_request_digest (ro_record out)) \<and>
      (ro_created_here out \<longrightarrow> validated_resource_id (rc_id c) = Inr (led_resource_id (ro_record out)) \<and>
         led_state (ro_record out) = PENDING \<and> led_version (ro_record out) = 1))"
  using conditional_table.reserve_run_wrote [OF assms(1,4,2,3)]
    conditional_table.reserve_run_created [OF assms(1) _ assms(2,3)] assms(4) by blast

text \<open>
  (C20) A transition changes the table by at most one write, the conditional update its arguments and
  the stored record determine, and by nothing else. Whoever applied it gets the successor of the record, or is
  told that the outcome is ambiguous; a refusal of any kind left the table as it was. A record that
  is returned is in the state asked for, at the next version, and is the one the table holds.
\<close>

theorem transition_outcome:
  assumes "conditional_table dy view" "instant (tc_updated c) < max_instant" "run_transition dy i c w = (r, w')"
  shows "(view w' = view w \<or> (\<exists>current a response completed.
      ledger_at (view w) i = Some current \<and> ledger_transition_plan i c current a response completed \<and>
      request_allowed (view w) (ledger_transition_request i a current response completed) \<and>
      view w' = request_written (view w) (ledger_transition_request i a current response completed) \<and>
      (r = Inl OperationPersistenceAmbiguous \<or> r = Inr (advance a response completed current)))) \<and>
    (\<forall>q. r = Inr q \<longrightarrow> ledger_at (view w') i = Some q \<and> led_state q = tc_next c \<and> led_version q = tc_version c + 1)"
  using conditional_table.run_transition_wrote [OF assms(1,3,2)]
    conditional_table.run_transition_result [OF assms(1)] assms(3) by blast

section \<open>Runs are histories\<close>

datatype ledger_op = ReserveOp reserve_call | TransitionOp operation_identity ledger_transition_call

fun run_ledger :: "'w dynamo \<Rightarrow> ledger_op \<Rightarrow> ('w, unit) io" where
  "run_ledger dy (ReserveOp c) = bind (run_reserve dy c) (\<lambda>_. ret ())"
| "run_ledger dy (TransitionOp i c) = bind (run_transition dy i c) (\<lambda>_. ret ())"

fun ledger_op_ok :: "ledger_op \<Rightarrow> bool" where
  "ledger_op_ok (ReserveOp c) \<longleftrightarrow> reserve_call_ok c"
| "ledger_op_ok (TransitionOp i c) \<longleftrightarrow> instant (tc_updated c) < max_instant"

lemma bind_ret_view: "bind m (\<lambda>_. ret u) w = (r, w') \<Longrightarrow> \<exists>x. m w = (x, w')"
  by (auto simp: io_simps split: prod.splits sum.splits)

lemma history_carrying: "ledger_history m0 m known \<Longrightarrow> carrying m0 \<Longrightarrow> carrying m"
  using ledger_history_sound unfolding ledger_sound_def by blast

lemma reserve_history:
  assumes "conditional_table dy view" "ledger_history m0 (view w) known" "carrying m0" "reserve_call_ok c"
    "run_reserve dy c w = (r, w')"
  shows "ledger_history m0 (view w') known"
  using conditional_table.reserve_run_view [OF assms(1,5,4) history_carrying [OF assms(2,3)]]
    ledger_history.reserve [OF assms(2,4)] assms(2) by metis

lemma transition_history:
  assumes "conditional_table dy view" "ledger_history m0 (view w) known" "instant (tc_updated c) < max_instant"
    "run_transition dy i c w = (r, w')"
  shows "\<exists>known'. known \<subseteq> known' \<and> ledger_history m0 (view w') known'"
  using conditional_table.run_transition_view [OF assms(1,4,3)]
proof
  assume "view w' = view w"
  with assms(2) show ?thesis by auto
next
  assume "\<exists>current a response completed. ledger_at (view w) i = Some current \<and>
    ledger_transition_plan i c current a response completed \<and>
    request_allowed (view w) (ledger_transition_request i a current response completed) \<and>
    view w' = request_written (view w) (ledger_transition_request i a current response completed)"
  then obtain current a response completed where at: "ledger_at (view w) i = Some current"
    and plan: "ledger_transition_plan i c current a response completed"
    and allowed: "request_allowed (view w) (ledger_transition_request i a current response completed)"
    and written: "view w' = request_written (view w) (ledger_transition_request i a current response completed)" by blast
  have "record_identity current = i" using ledger_at_valid [OF at] by blast
  then have "ledger_history m0 (view w') (insert current known)"
    unfolding written
    by (intro ledger_history.transition [OF ledger_history.read [OF assms(2) at] _ _ plan assms(3) allowed]) simp_all
  then show ?thesis by blast
qed

text \<open>
  The specification of the repository on its records: a reservation adds the pending record of its arguments under
  a free identity, a transition replaces the record of its identity by the successor.
\<close>

fun ledger_effect :: "ledger_op \<Rightarrow> (operation_identity \<Rightarrow> ledger_record option) \<Rightarrow>
    (operation_identity \<Rightarrow> ledger_record option) \<Rightarrow> bool" where
  "ledger_effect (ReserveOp c) records records' \<longleftrightarrow> (\<exists>p. reserve_plan c p \<and> records (rc_identity c) = None \<and>
     records' = records(rc_identity c \<mapsto> p))"
| "ledger_effect (TransitionOp i c) records records' \<longleftrightarrow> (\<exists>current a response completed. records i = Some current \<and>
     ledger_transition_plan i c current a response completed \<and>
     records' = records(i \<mapsto> advance a response completed current))"

fun op_identity :: "ledger_op \<Rightarrow> operation_identity" where
  "op_identity (ReserveOp c) = rc_identity c"
| "op_identity (TransitionOp i c) = i"

lemma ledger_at_replaced:
  assumes "ledger_record_from_item (PDict d) = Inr p" "record_identity p = i"
    and "m (ledger_key i) = None \<or> ledger_at m i \<noteq> None"
  shows "ledger_at (m(ledger_key i \<mapsto> d)) = (ledger_at m)(i \<mapsto> p)"
proof
  fix j
  show "ledger_at (m(ledger_key i \<mapsto> d)) j = ((ledger_at m)(i \<mapsto> p)) j"
  proof (cases "j = i")
    case True
    then show ?thesis using assms(1,2) by (simp add: ledger_at_Some)
  next
    case False
    show ?thesis
    proof (cases "ledger_key j = ledger_key i")
      case True
      have "ledger_at m j = None"
        using assms(3) False True by (cases "ledger_at m j") (auto simp: ledger_at_Some)
      moreover have "ledger_at (m(ledger_key i \<mapsto> d)) j = None"
        using assms(1,2) False True by (cases "ledger_at (m(ledger_key i \<mapsto> d)) j") (auto simp: ledger_at_Some)
      ultimately show ?thesis using False by simp
    qed (use False in \<open>simp add: ledger_at_def\<close>)
  qed
qed

lemma reservation_effect:
  assumes "conditional_table dy view" "reserve_call_ok c" "carrying (view w)" "run_reserve dy c w = (r, w')"
    and "view w' \<noteq> view w"
  shows "(\<forall>k. k \<noteq> ledger_key (rc_identity c) \<longrightarrow> view w' k = view w k) \<and>
    ledger_effect (ReserveOp c) (ledger_at (view w)) (ledger_at (view w'))"
proof -
  obtain p d where p: "view w (ledger_key (rc_identity c)) = None" "reserve_plan c p" "ledger_item p = Inr d"
    "request_allowed (view w) (Single (Put d unless_exists))"
    "view w' = request_written (view w) (Single (Put d unless_exists))"
    using conditional_table.reserve_run_wrote [OF assms(1,4,2,3,5)] by blast
  note written = reserve_written [OF assms(3) reserve_plan_valid [OF p(2) assms(2)] p(3,4)]
  have i: "record_identity p = rc_identity c" by (rule reserve_plan_record [OF p(2)])
  have view: "view w' = (view w)(ledger_key (rc_identity c) \<mapsto> stored_item d)" using written(2) p(5) i by simp
  have "ledger_at (view w') = (ledger_at (view w))(rc_identity c \<mapsto> p)"
    unfolding view by (rule ledger_at_replaced [OF written(3) i]) (simp add: p(1))
  moreover have "ledger_at (view w) (rc_identity c) = None" by (simp add: ledger_at_def p(1))
  ultimately show ?thesis using p(2) by (auto simp: view)
qed

lemma advance_effect:
  assumes "conditional_table dy view" "instant (tc_updated c) < max_instant" "run_transition dy i c w = (r, w')"
    and "view w' \<noteq> view w"
  shows "(\<forall>k. k \<noteq> ledger_key i \<longrightarrow> view w' k = view w k) \<and>
    ledger_effect (TransitionOp i c) (ledger_at (view w)) (ledger_at (view w'))"
proof -
  obtain current a response completed where at: "ledger_at (view w) i = Some current"
    and plan: "ledger_transition_plan i c current a response completed"
    and allowed: "request_allowed (view w) (ledger_transition_request i a current response completed)"
    and written: "view w' = request_written (view w) (ledger_transition_request i a current response completed)"
    using conditional_table.run_transition_wrote [OF assms(1,3,2,4)] by blast
  have valid: "ledger_valid current" "record_identity current = i" using ledger_at_valid [OF at] by blast+
  have known: "ledger_known (view w) {current}" using at valid(2) by (simp add: ledger_known_def)
  obtain d where d: "ledger_record_from_item (PDict d) = Inr current"
    "view w' = (view w)(ledger_key i \<mapsto> ledger_update a response completed (ledger_key i) d)"
    using transition_written [OF known _ valid(2) plan allowed] written by auto
  have "ledger_record_from_item (PDict (ledger_update a response completed (ledger_key i) d))
      = Inr (advance a response completed current)"
    by (rule ledger_update_reads [OF d(1) advance_valid [OF plan valid assms(2)]])
  then have "ledger_at (view w') = (ledger_at (view w))(i \<mapsto> advance a response completed current)"
    unfolding d(2) by (rule ledger_at_replaced) (simp_all add: valid(2) at)
  with at plan show ?thesis by (auto simp: d(2))
qed

text \<open>
  (C21) The repository implements its specification. Every run of a reservation or a transition, however it
  ends, touches no item but the one of its own identity, and on the records it has no effect or exactly
  the one of the specification for its arguments: the pending record under a free identity, or the successor of the
  record. So a process that runs operations takes the table through steps of a history, and what holds along
  all histories holds for every interleaving of such runs.
\<close>

theorem ledger_runs_are_histories:
  assumes "conditional_table dy view" "ledger_history m0 (view w) known" "carrying m0" "ledger_op_ok op"
    "run_ledger dy op w = (r, w')"
  shows "(\<forall>k. k \<noteq> ledger_key (op_identity op) \<longrightarrow> view w' k = view w k) \<and>
    (view w' = view w \<or> ledger_effect op (ledger_at (view w)) (ledger_at (view w'))) \<and>
    (\<exists>known'. known \<subseteq> known' \<and> ledger_history m0 (view w') known')"
proof (cases op)
  case (ReserveOp c)
  then obtain x where run: "run_reserve dy c w = (x, w')" using assms(5) bind_ret_view by (metis run_ledger.simps(1))
  have ok: "reserve_call_ok c" using assms(4) ReserveOp by simp
  show ?thesis
    using reserve_history [OF assms(1-3) ok run]
      reservation_effect [OF assms(1) ok history_carrying [OF assms(2,3)] run] unfolding ReserveOp op_identity.simps
    by (cases "view w' = view w") (auto simp del: ledger_effect.simps)
next
  case (TransitionOp i c)
  then obtain x where run: "run_transition dy i c w = (x, w')" using assms(5) bind_ret_view by (metis run_ledger.simps(2))
  have ok: "instant (tc_updated c) < max_instant" using assms(4) TransitionOp by simp
  show ?thesis
    using transition_history [OF assms(1,2) ok run] advance_effect [OF assms(1) ok run]
    unfolding TransitionOp op_identity.simps by (cases "view w' = view w") (auto simp del: ledger_effect.simps)
qed

text \<open>
  (C5) An idempotency key of an actor stands for one resource for good: whatever happens to the table
  after a reservation succeeded, a later reservation under the same identity answers with the
  same request digest, resource, response, time and deadline, succeeds only for the same request,
  and is told that it created the operation only if it proposed the very same resource at the same
  time.
\<close>

theorem one_resource_per_key:
  assumes "conditional_table dy view" "reserve_call_ok c" "reserve_call_ok c'" "rc_identity c' = rc_identity c"
    "carrying (view w)" "run_reserve dy c w = (Inr out, w1)"
    "ledger_history (view w1) (view w2) known" "run_reserve dy c' w2 = (Inr out', w3)"
  shows "same_reservation (ro_record out) (ro_record out') \<and>
    normalized_digest (rc_request c') = normalized_digest (rc_request c) \<and>
    (ro_created_here out' \<longrightarrow> validated_resource_id (rc_id c') = Inr (led_resource_id (ro_record out)) \<and>
       rc_now c' = led_created_at (ro_record out))"
proof -
  note first = conditional_table.reserve_run_created [OF assms(1,6,2,5)]
  have "ledger_history (view w) (view w1) {}"
    by (rule reserve_history [OF assms(1) ledger_history.start assms(5,2,6)])
  then have carrying: "carrying (view w1)" by (rule history_carrying) fact
  obtain q where q: "ledger_at (view w2) (rc_identity c) = Some q" "ledger_evolves (ro_record out) q"
    using ledger_history_sound [OF assms(7) carrying] first unfolding ledger_sound_def ledgers_evolve_def by blast
  have carrying2: "carrying (view w2)" by (rule history_carrying [OF assms(7) carrying])
  have "view w2 (ledger_key (rc_identity c')) \<noteq> None" using q(1) assms(4) by (auto simp: ledger_at_Some)
  then have "view w3 = view w2"
    using conditional_table.reserve_run_wrote [OF assms(1,8,3) carrying2] by argo
  then have again: "q = ro_record out'"
    using conditional_table.reserve_run_created [OF assms(1,8,3) carrying2] q(1) assms(4) by simp
  obtain p where p: "reserve_plan c' p" "ro_created_here out' \<longrightarrow> same_record (ro_record out') p"
    using conditional_table.reserve_run_result [OF assms(1,8,3) carrying2] by blast
  have same: "same_reservation (ro_record out) (ro_record out')"
    using q(2) unfolding again ledger_evolves_def by blast
  show ?thesis
    using same first conditional_table.reserve_run_created [OF assms(1,8,3) carrying2] p(2)
      same_record_fields [of "ro_record out'" p] reserve_plan_record(4) [OF p(1)]
    by (auto simp: same_reservation_def)
qed

end
