(* ===== verification/JourneyProofs.thy ===== *)
theory JourneyProofs
  imports JourneyService LedgerRuns
begin

text \<open>
  The journey service over a ledger and two business tables that keep their contracts: a create is
  acknowledged only when its business record exists, an operation has at most one business
  record, and every run is a history of the ledger.
\<close>

section \<open>The site of the service\<close>

type_synonym business = "string \<times> string \<Rightarrow> item option"

text \<open>A put under the condition that the key be new, as its outcome and the records before and after.\<close>

definition business_put :: "business \<Rightarrow> string \<times> string \<Rightarrow> item \<Rightarrow> exn + unit \<Rightarrow> business \<Rightarrow> bool" where
  "business_put b k d r b' \<longleftrightarrow> (case r of
       Inr u \<Rightarrow> b k = None \<and> b' = b(k \<mapsto> stored_item d)
     | Inl e \<Rightarrow> b' = b \<or> (b k = None \<and> b' = b(k \<mapsto> stored_item d)))"

definition business_value :: "item option \<Rightarrow> pyval" where
  "business_value d = (case d of None \<Rightarrow> PNone | Some i \<Rightarrow> PDict i)"

definition business_id :: "string \<Rightarrow> item \<Rightarrow> string" where
  "business_id name d = py_str (py_get d name)"

text \<open>
  \<open>view\<close> is the ledger's part of the documents table, \<open>bview\<close> the batches and the documents by
  kind and identifier. The keys of the ledger are disjoint from those of documents, so neither
  part touches the other.
\<close>

locale journey_site =
  fixes jp :: "'w journey_ports" and view :: "'w \<Rightarrow> memory" and bview :: "'w \<Rightarrow> business"
  assumes ledger_table: "conditional_table (jp_table jp) view"
    and ledger_frame: "dy_put_item (jp_table jp) d ts w = (r, w') \<Longrightarrow> bview w' = bview w"
      "dy_update_item (jp_table jp) k sets removes ts w = (r, w') \<Longrightarrow> bview w' = bview w"
      "dy_get_item (jp_table jp) k w = (g, w') \<Longrightarrow> bview w' = bview w"
    and batch_put: "jp_batch_put jp d w = (r, w') \<Longrightarrow>
      view w' = view w \<and> business_put (bview w) (''batch'', business_id ''batch_id'' d) d r (bview w')"
    and document_put: "jp_document_put jp d w = (r, w') \<Longrightarrow>
      view w' = view w \<and> business_put (bview w) (''document'', business_id ''documentId'' d) d r (bview w')"
    and batch_get: "jp_batch_get jp b w = (g, w') \<Longrightarrow> view w' = view w \<and> bview w' = bview w \<and>
      (\<forall>v. g = Inr v \<longrightarrow> v = business_value (bview w (''batch'', b)))"
    and document_get: "jp_document_get jp b w = (g, w') \<Longrightarrow> view w' = view w \<and> bview w' = bview w \<and>
      (\<forall>v. g = Inr v \<longrightarrow> v = business_value (bview w (''document'', b)))"
    and clock_law: "jp_clock jp w = (t, w') \<Longrightarrow> view w' = view w \<and> bview w' = bview w \<and> instant t < max_instant"
    and id_law: "jp_new_id jp w = (v, w') \<Longrightarrow> view w' = view w \<and> bview w' = bview w"
    and claim_law: "jp_claim jp key now n w = (c, w') \<Longrightarrow> view w' = view w \<and> bview w' = bview w"
    and presign_law: "jp_presign jp d n w = (u, w') \<Longrightarrow> view w' = view w \<and> bview w' = bview w"
    and document_key_law: "distinct (map fst (jp_document_key jp b))"
      "map_of (jp_document_key jp b) ''documentId'' \<in> {None, Some (PStr b)}"
begin

section \<open>Runs that leave the records alone\<close>

definition calm :: "('w, 'a) io \<Rightarrow> bool" where
  "calm m \<longleftrightarrow> (\<forall>w r w'. m w = (r, w') \<longrightarrow> view w' = view w \<and> bview w' = bview w)"

definition frame :: "('w, 'a) io \<Rightarrow> bool" where
  "frame m \<longleftrightarrow> (\<forall>w r w'. m w = (r, w') \<longrightarrow> bview w' = bview w)"

lemma calmD: "calm m \<Longrightarrow> m w = (r, w') \<Longrightarrow> view w' = view w \<and> bview w' = bview w"
  by (simp add: calm_def)

lemma calm_simps: "calm (ret x)" "calm (raise e)" "calm (lift y)" "calm (ensure b e)" "calm (app_lift z)"
  by (auto simp: calm_def io_simps app_lift_def split: sum.splits)

lemma calm_bind: "calm m \<Longrightarrow> (\<And>x. calm (k x)) \<Longrightarrow> calm (bind m k)"
  unfolding calm_def bind_def by (auto split: prod.splits sum.splits)

lemma calm_catch: "calm m \<Longrightarrow> (\<And>e. calm (h e)) \<Longrightarrow> calm (catch m h)"
  unfolding calm_def catch_def by (auto split: prod.splits sum.splits)

lemma frame_simps: "frame (ret x)" "frame (raise e)" "frame (lift y)" "frame (ensure b e)"
  by (auto simp: frame_def io_simps)

lemma frame_bind: "frame m \<Longrightarrow> (\<And>x. frame (k x)) \<Longrightarrow> frame (bind m k)"
  unfolding frame_def bind_def by (auto split: prod.splits sum.splits)

lemma frame_catch: "frame m \<Longrightarrow> (\<And>e. frame (h e)) \<Longrightarrow> frame (catch m h)"
  unfolding frame_def catch_def by (auto split: prod.splits sum.splits)

lemma frame_attempt: "frame m \<Longrightarrow> frame (attempt m)"
  unfolding attempt_def by (intro frame_catch frame_bind frame_simps)

lemma frame_case_option: "frame m \<Longrightarrow> (\<And>x. frame (f x)) \<Longrightarrow> frame (case v of None \<Rightarrow> m | Some x \<Rightarrow> f x)"
  by (cases v) simp_all

lemma frame_if: "frame m \<Longrightarrow> frame n \<Longrightarrow> frame (if b then m else n)"
  by simp

lemma frame_client:
  "frame (dy_put_item (jp_table jp) d ts)" "frame (dy_get_item (jp_table jp) k)"
  "frame (dy_update_item (jp_table jp) k sets removes ts)"
  using ledger_frame by (auto simp: frame_def)

lemmas frame_rules = frame_bind frame_catch frame_attempt frame_simps frame_case_option frame_if frame_client

lemma frame_load: "frame (ledger_load (jp_table jp) i)"
  unfolding ledger_load_def by (intro frame_rules) (auto split: pyval.splits intro!: frame_rules)

lemma frame_reserve: "frame (ledger_reserve (jp_table jp) i request rtype rid response now expires)"
  unfolding ledger_reserve_def by (intro frame_rules frame_load)

lemma frame_transition: "frame (ledger_transition (jp_table jp) i s n s' response failure completed updated)"
  unfolding ledger_transition_def transition_write_verified_def Let_def by (intro frame_rules frame_load)

lemma now_calm: "calm (journey_now jp)"
  using clock_law by (auto simp: calm_def journey_now_def split: prod.splits if_splits)

lemma now_run: "journey_now jp w = (Inr now, w') \<Longrightarrow> is_aware now \<and> instant now < max_instant"
  using clock_law by (auto simp: journey_now_def split: prod.splits if_splits)

lemma new_id_calm: "calm (new_resource_id jp)"
  using id_law by (auto simp: calm_def new_resource_id_def split: prod.splits)

end

section \<open>Histories in sequence\<close>

lemma ledger_history_append:
  assumes "ledger_history m m' known'" "ledger_history m0 m known"
  shows "ledger_history m0 m' (known \<union> known')"
  using assms(1)
proof (induction rule: ledger_history.induct)
  case start
  then show ?case using assms(2) by simp
next
  case (read m1 known1 i r)
  then show ?case using ledger_history.read [OF read.IH] by simp
next
  case (reserve m1 known1 c r d)
  then show ?case using ledger_history.reserve [OF reserve.IH] by blast
next
  case (transition m1 known1 current i c a response completed)
  then show ?case using ledger_history.transition [OF transition.IH] by blast
next
  case (elsewhere m1 known1 k item)
  then show ?case using ledger_history.elsewhere [OF elsewhere.IH] by blast
qed

definition ledger_reaches :: "memory \<Rightarrow> memory \<Rightarrow> bool" where
  "ledger_reaches m m' \<longleftrightarrow> (\<exists>known. ledger_history m m' known)"

lemma ledger_reaches_refl [simp]: "ledger_reaches m m"
  using ledger_history.start unfolding ledger_reaches_def by blast

lemma ledger_reaches_trans: "ledger_reaches a b \<Longrightarrow> ledger_reaches b c \<Longrightarrow> ledger_reaches a c"
  unfolding ledger_reaches_def using ledger_history_append by blast

lemma ledger_reaches_carrying: "ledger_reaches m m' \<Longrightarrow> carrying m \<Longrightarrow> carrying m'"
  unfolding ledger_reaches_def using history_carrying by blast

lemma ledger_reaches_evolves:
  assumes "ledger_reaches m m'" "carrying m" "ledger_at m i = Some r"
  shows "\<exists>q. ledger_at m' i = Some q \<and> ledger_evolves r q"
  using assms ledger_history_sound unfolding ledger_reaches_def ledger_sound_def ledgers_evolve_def by blast

lemma ledger_valid_type:
  "ledger_valid r \<Longrightarrow> led_resource_type r = ''batch'' \<or> led_resource_type r = ''document''"
  by (auto simp: ledger_valid_def validated_durable_response_def DURABLE_RESPONSE_FIELDS_def
      split: pyval.splits option.splits if_splits)

section \<open>The invariant of the service\<close>

text \<open>The business record of an operation.\<close>

definition resource_key :: "ledger_record \<Rightarrow> string \<times> string" where
  "resource_key r = (led_resource_type r, led_resource_id r)"

lemma same_reservation_key: "same_reservation r q \<Longrightarrow> resource_key q = resource_key r"
  by (simp add: same_reservation_def resource_key_def)

text \<open>Every operation that succeeded has its business record.\<close>

definition backed :: "memory \<Rightarrow> business \<Rightarrow> bool" where
  "backed m b \<longleftrightarrow> (\<forall>i r. ledger_at m i = Some r \<longrightarrow> led_state r = operation_state.SUCCEEDED \<longrightarrow> b (resource_key r) \<noteq> None)"

definition journey_sound :: "memory \<Rightarrow> business \<Rightarrow> bool" where
  "journey_sound m b \<longleftrightarrow> carrying m \<and> backed m b"

lemma backed_more: "backed m b \<Longrightarrow> b \<subseteq>\<^sub>m b' \<Longrightarrow> backed m b'"
  unfolding backed_def by (metis domIff map_le_def)

context journey_site
begin

text \<open>A step: the ledger moved along a history, business records were only added.\<close>

definition step :: "'w \<Rightarrow> 'w \<Rightarrow> bool" where
  "step w w' \<longleftrightarrow> ledger_reaches (view w) (view w') \<and> bview w \<subseteq>\<^sub>m bview w' \<and> journey_sound (view w') (bview w')"

definition sound :: "'w \<Rightarrow> bool" where
  "sound w \<longleftrightarrow> journey_sound (view w) (bview w)"

lemma step_refl: "sound w \<Longrightarrow> step w w"
  by (simp add: step_def sound_def)

lemma step_trans: "step u v \<Longrightarrow> step v w \<Longrightarrow> step u w"
  unfolding step_def using ledger_reaches_trans map_le_trans by blast

lemma step_sound: "step w w' \<Longrightarrow> sound w'"
  by (simp add: step_def sound_def)

lemma step_calm: "calm m \<Longrightarrow> m w = (r, w') \<Longrightarrow> sound w \<Longrightarrow> step w w'"
  using calmD [of m w r w'] by (simp add: step_def sound_def)

lemma step_at:
  assumes "step w w'" "sound w" "ledger_at (view w) i = Some r"
  shows "\<exists>q. ledger_at (view w') i = Some q \<and> ledger_evolves r q"
  using assms ledger_reaches_evolves unfolding step_def sound_def journey_sound_def by blast

lemma step_present: "step w w' \<Longrightarrow> bview w k \<noteq> None \<Longrightarrow> bview w' k \<noteq> None"
  unfolding step_def map_le_def by (metis domIff)

lemma load_step:
  assumes "ledger_load (jp_table jp) i w = (r, w')" "sound w"
  shows "step w w' \<and> view w' = view w"
proof -
  have "view w' = view w" by (rule conditional_table.load_view [OF ledger_table assms(1)])
  moreover have "bview w' = bview w" using frame_load assms(1) unfolding frame_def by blast
  ultimately show ?thesis using assms(2) by (simp add: step_def sound_def)
qed

text \<open>A transition; to success only when the business record is there.\<close>

lemma transition_step:
  assumes run: "transition_to jp i s r s' failure completed updated w = (res, w')"
    and time: "instant updated < max_instant" and sound: "sound w"
    and present: "s' = operation_state.SUCCEEDED \<Longrightarrow> (\<And>q. ledger_at (view w) i = Some q \<Longrightarrow> bview w (resource_key q) \<noteq> None)"
  shows "step w w'" and "res = Inr q \<Longrightarrow> ledger_at (view w') i = Some q \<and> led_state q = s'"
proof -
  define c where "c = \<lparr>tc_expected = s, tc_version = led_version r, tc_next = s',
    tc_response = durable_dict (led_durable_response r), tc_failure = failure, tc_completed = completed, tc_updated = updated\<rparr>"
  have call: "run_transition (jp_table jp) i c w = (res, w')"
    using run by (simp add: run_transition_def transition_to_def c_def)
  have timec: "instant (tc_updated c) < max_instant" and next_c: "tc_next c = s'" using time by (simp_all add: c_def)
  have carrying: "carrying (view w)" and backed: "backed (view w) (bview w)"
    using sound by (simp_all add: sound_def journey_sound_def)
  have b: "bview w' = bview w"
    using frame_transition run unfolding frame_def transition_to_def by blast
  obtain known where known: "ledger_history (view w) (view w') known"
    using transition_history [OF ledger_table ledger_history.start timec call] by blast
  have "backed (view w') (bview w')"
    unfolding backed_def b
  proof (intro allI impI)
    fix j q
    assume q: "ledger_at (view w') j = Some q" "led_state q = operation_state.SUCCEEDED"
    from conditional_table.run_transition_at [OF ledger_table call timec q(1)]
    show "bview w (resource_key q) \<noteq> None"
      using backed q(2) present next_c same_reservation_key unfolding backed_def by metis
  qed
  then show "step w w'"
    using known carrying history_carrying [OF known carrying]
    by (auto simp: step_def journey_sound_def ledger_reaches_def b)
  show "res = Inr q \<Longrightarrow> ledger_at (view w') i = Some q \<and> led_state q = s'"
    using conditional_table.run_transition_result [OF ledger_table, of i c w q w'] call next_c by blast
qed

text \<open>
  Triples: from a sound world that satisfies \<open>P\<close> a run is a step, a result satisfies \<open>Q\<close> and an
  error \<open>E\<close>. Assertions speak of the ledger and the business records.
\<close>

definition triple :: "(memory \<Rightarrow> business \<Rightarrow> bool) \<Rightarrow> ('w, 'a) io \<Rightarrow> ('a \<Rightarrow> memory \<Rightarrow> business \<Rightarrow> bool)
    \<Rightarrow> (exn \<Rightarrow> memory \<Rightarrow> business \<Rightarrow> bool) \<Rightarrow> bool" where
  "triple P m Q E \<longleftrightarrow> (\<forall>w r w'. sound w \<longrightarrow> P (view w) (bview w) \<longrightarrow> m w = (r, w') \<longrightarrow>
     step w w' \<and> (case r of Inr x \<Rightarrow> Q x (view w') (bview w') | Inl e \<Rightarrow> E e (view w') (bview w')))"

lemma tripleI:
  assumes "\<And>w r w'. sound w \<Longrightarrow> P (view w) (bview w) \<Longrightarrow> m w = (r, w') \<Longrightarrow> step w w'"
    and "\<And>w x w'. sound w \<Longrightarrow> P (view w) (bview w) \<Longrightarrow> m w = (Inr x, w') \<Longrightarrow> Q x (view w') (bview w')"
    and "\<And>w e w'. sound w \<Longrightarrow> P (view w) (bview w) \<Longrightarrow> m w = (Inl e, w') \<Longrightarrow> E e (view w') (bview w')"
  shows "triple P m Q E"
  using assms unfolding triple_def by (auto split: sum.splits)

lemma triple_run:
  assumes "triple P m Q E" "sound w" "P (view w) (bview w)" "m w = (r, w')"
  shows "step w w'" "r = Inr x \<Longrightarrow> Q x (view w') (bview w')" "r = Inl e \<Longrightarrow> E e (view w') (bview w')"
  using assms unfolding triple_def by (auto split: sum.splits)

lemma triple_ret: "(\<And>m b. P m b \<Longrightarrow> Q x m b) \<Longrightarrow> triple P (ret x) Q E"
  by (rule tripleI) (auto simp: ret_run step_refl)

lemma triple_raise: "(\<And>m b. P m b \<Longrightarrow> E e m b) \<Longrightarrow> triple P (raise e) Q E"
  by (rule tripleI) (auto simp: raise_run step_refl)

lemma triple_lift:
  "(\<And>x m b. y = Inr x \<Longrightarrow> P m b \<Longrightarrow> Q x m b) \<Longrightarrow> (\<And>e m b. y = Inl e \<Longrightarrow> P m b \<Longrightarrow> E e m b) \<Longrightarrow> triple P (lift y) Q E"
  by (rule tripleI) (auto simp: lift_run step_refl)

lemma triple_bind:
  assumes "triple P m Q E" "\<And>x. triple (Q x) (k x) R E"
  shows "triple P (bind m k) R E"
  unfolding triple_def
proof (intro allI impI)
  fix w r w'
  assume w: "sound w" "P (view w) (bview w)" and run: "bind m k w = (r, w')"
  obtain x w1 where m: "m w = (x, w1)" by (metis prod.exhaust_sel)
  note first = triple_run [OF assms(1) w m]
  show "step w w' \<and> (case r of Inr x \<Rightarrow> R x (view w') (bview w') | Inl e \<Rightarrow> E e (view w') (bview w'))"
  proof (cases x)
    case (Inl e)
    with run m first show ?thesis by (auto simp: bind_run)
  next
    case (Inr y)
    with run m have k: "k y w1 = (r, w')" by (simp add: bind_run)
    note second = triple_run [OF assms(2) step_sound [OF first(1)] first(2) [OF Inr] k]
    show ?thesis using step_trans [OF first(1) second(1)] second(2,3) by (cases r) simp_all
  qed
qed

lemma triple_catch:
  assumes "triple P m Q F" "\<And>e. triple (F e) (h e) Q E"
  shows "triple P (catch m h) Q E"
  unfolding triple_def
proof (intro allI impI)
  fix w r w'
  assume w: "sound w" "P (view w) (bview w)" and run: "catch m h w = (r, w')"
  obtain x w1 where m: "m w = (x, w1)" by (metis prod.exhaust_sel)
  note first = triple_run [OF assms(1) w m]
  show "step w w' \<and> (case r of Inr x \<Rightarrow> Q x (view w') (bview w') | Inl e \<Rightarrow> E e (view w') (bview w'))"
  proof (cases x)
    case (Inr y)
    with run m first show ?thesis by (auto simp: catch_run)
  next
    case (Inl e)
    with run m have k: "h e w1 = (r, w')" by (simp add: catch_run)
    note second = triple_run [OF assms(2) step_sound [OF first(1)] first(3) [OF Inl] k]
    show ?thesis using step_trans [OF first(1) second(1)] second(2,3) by (cases r) simp_all
  qed
qed

lemma triple_pre: "triple P m Q E \<Longrightarrow> (\<And>m b. P' m b \<Longrightarrow> P m b) \<Longrightarrow> triple P' m Q E"
  unfolding triple_def by blast

lemma triple_post:
  assumes "triple P m Q E" "\<And>x m b. Q x m b \<Longrightarrow> Q' x m b" "\<And>e m b. E e m b \<Longrightarrow> E' e m b"
  shows "triple P m Q' E'"
  by (rule tripleI) (use triple_run [OF assms(1)] assms(2,3) in blast)+

lemma triple_calm: "calm m \<Longrightarrow> triple P m (\<lambda>x. P) (\<lambda>e. P)"
  by (rule tripleI) (auto dest: calmD intro: step_calm)

lemma triple_fact: "(c \<Longrightarrow> triple P m Q E) \<Longrightarrow> triple (\<lambda>m b. c \<and> P m b) m Q E"
  by (auto simp: triple_def)

lemma triple_load:
  "triple P (ledger_load (jp_table jp) i) (\<lambda>found m b. P m b \<and> found = ledger_at m i) (\<lambda>e. P)"
proof (rule tripleI)
  fix w r w'
  assume "sound w" "P (view w) (bview w)" "ledger_load (jp_table jp) i w = (r, w')"
  then show "step w w'" using load_step by blast
next
  fix w x w'
  assume w: "sound w" "P (view w) (bview w)" "ledger_load (jp_table jp) i w = (Inr x, w')"
  have "bview w' = bview w" using frame_load w(3) unfolding frame_def by blast
  with w show "P (view w') (bview w') \<and> x = ledger_at (view w') i"
    using conditional_table.load_Inr(1,2) [OF ledger_table w(3)] by simp
next
  fix w e w'
  assume w: "sound w" "P (view w) (bview w)" "ledger_load (jp_table jp) i w = (Inl e, w')"
  have "bview w' = bview w" using frame_load w(3) unfolding frame_def by blast
  with w show "P (view w') (bview w')" using conditional_table.load_view [OF ledger_table w(3)] by simp
qed

text \<open>Assertions that steps keep.\<close>

definition held :: "operation_identity \<Rightarrow> ledger_record \<Rightarrow> memory \<Rightarrow> business \<Rightarrow> bool" where
  "held i r m b \<longleftrightarrow> ledger_at m i = Some r"

definition succeeded :: "operation_identity \<Rightarrow> ledger_record \<Rightarrow> memory \<Rightarrow> business \<Rightarrow> bool" where
  "succeeded i r m b \<longleftrightarrow> ledger_at m i = Some r \<and> led_state r = operation_state.SUCCEEDED"

definition anything :: "memory \<Rightarrow> business \<Rightarrow> bool" where
  "anything m b \<longleftrightarrow> True"

lemma triple_now:
  "triple P (journey_now jp) (\<lambda>now m b. instant now < max_instant \<and> P m b) (\<lambda>e. P)"
  by (rule tripleI) (auto dest: calmD [OF now_calm] now_run intro: step_calm [OF now_calm])

lemma triple_transition:
  assumes "instant updated < max_instant" "s' \<noteq> operation_state.SUCCEEDED"
  shows "triple anything (transition_to jp i s r s' failure completed updated)
    (\<lambda>q m b. ledger_at m i = Some q \<and> led_state q = s') (\<lambda>e. anything)"
  by (rule tripleI) (auto intro: transition_step(1) dest: transition_step(2) simp: assms anything_def)

lemma triple_transition_success:
  assumes "instant updated < max_instant"
  shows "triple (\<lambda>m b. held i r m b \<and> b (resource_key r) \<noteq> None)
    (transition_to jp i operation_state.PENDING r operation_state.SUCCEEDED failure completed updated)
    (succeeded i) (\<lambda>e. anything)"
proof (rule tripleI)
  fix w x w'
  assume w: "sound w" "held i r (view w) (bview w) \<and> bview w (resource_key r) \<noteq> None"
    "transition_to jp i operation_state.PENDING r operation_state.SUCCEEDED failure completed updated w = (x, w')"
  show "step w w'"
    by (rule transition_step(1) [OF w(3) assms w(1)]) (use w(2) in \<open>auto simp: held_def\<close>)
next
  fix w q w'
  assume w: "sound w" "held i r (view w) (bview w) \<and> bview w (resource_key r) \<noteq> None"
    "transition_to jp i operation_state.PENDING r operation_state.SUCCEEDED failure completed updated w = (Inr q, w')"
  have "ledger_at (view w') i = Some q \<and> led_state q = operation_state.SUCCEEDED"
    by (rule transition_step(2) [OF w(3) assms w(1)]) (use w(2) in \<open>auto simp: held_def\<close>)
  then show "succeeded i q (view w') (bview w')" by (simp add: succeeded_def)
qed (simp add: anything_def)

section \<open>The helpers of the service\<close>

lemma triple_any: "triple P m (\<lambda>x. anything) (\<lambda>e. anything) \<Longrightarrow> (\<And>m b. P' m b \<Longrightarrow> P m b) \<Longrightarrow>
    triple P' m (\<lambda>x. anything) (\<lambda>e. anything)"
  by (rule triple_pre)

lemma triple_error: "triple P (raise e) Q (\<lambda>e. anything)"
  by (rule triple_raise) (simp add: anything_def)

lemma triple_reload:
  "triple P (bind (catch (ledger_load (jp_table jp) i) (\<lambda>_. raise e)) (\<lambda>current. case current of
      Some r \<Rightarrow> if led_state r = s then ret r else raise e' | None \<Rightarrow> raise e'))
    (\<lambda>q m b. ledger_at m i = Some q \<and> led_state q = s) (\<lambda>e. anything)"
proof (rule triple_bind [OF triple_catch [OF triple_load triple_error]])
  fix current
  show "triple (\<lambda>m b. P m b \<and> current = ledger_at m i) (case current of
      Some r \<Rightarrow> if led_state r = s then ret r else raise e' | None \<Rightarrow> raise e')
    (\<lambda>q m b. ledger_at m i = Some q \<and> led_state q = s) (\<lambda>e. anything)"
    by (cases current) (auto intro!: triple_error triple_ret)
qed

lemma triple_success:
  "triple (\<lambda>m b. held i r m b \<and> b (resource_key r) \<noteq> None) (transition_success jp i r) (succeeded i) (\<lambda>e. anything)"
  unfolding transition_success_def
proof (rule triple_bind [OF triple_post [OF triple_now]], assumption, simp add: anything_def, rule triple_fact, rule triple_catch)
  fix now
  assume "instant now < max_instant"
  then show "triple (\<lambda>m b. held i r m b \<and> b (resource_key r) \<noteq> None)
      (transition_to jp i operation_state.PENDING r operation_state.SUCCEEDED PNone (Some now) now)
      (succeeded i) (\<lambda>e. anything)"
    by (rule triple_transition_success)
next
  fix e
  show "triple anything (case e of
          OperationConflict \<Rightarrow>
            bind (catch (ledger_load (jp_table jp) i) (\<lambda>_. raise unknown_write_error)) (\<lambda>current. case current of
              Some r \<Rightarrow> if led_state r = operation_state.SUCCEEDED then ret r else raise unknown_write_error
            | None \<Rightarrow> raise unknown_write_error)
        | OperationPersistenceAmbiguous \<Rightarrow> raise unknown_write_error
        | OperationContractError \<Rightarrow> raise unknown_write_error
        | _ \<Rightarrow> raise e) (succeeded i) (\<lambda>e. anything)"
    unfolding succeeded_def by (cases e) (simp_all add: triple_error triple_reload)
qed

lemma triple_quarantine:
  "triple P (mark_unknown jp i r) (\<lambda>x m b. \<forall>q. x = Some q \<longrightarrow> held i q m b) (\<lambda>e. anything)"
  unfolding mark_unknown_def
proof (rule triple_bind [OF triple_post [OF triple_now]], assumption, simp add: anything_def, rule triple_fact, rule triple_catch)
  fix now
  assume "instant now < max_instant"
  then show "triple P (bind (transition_to jp i operation_state.PENDING r UNKNOWN_OR_QUARANTINED
        (PStr ''UNKNOWN_WRITE_OUTCOME'') (Some now) now) (\<lambda>r. ret (Some r)))
      (\<lambda>x m b. \<forall>q. x = Some q \<longrightarrow> held i q m b) (\<lambda>e. anything)"
    by (intro triple_bind [OF triple_pre [OF triple_transition]] triple_ret) (simp_all add: anything_def held_def)
next
  fix e
  have "triple (\<lambda>m b. current = None \<or> current = ledger_at m i)
      (case current of Some r \<Rightarrow> ret (if led_state r = UNKNOWN_OR_QUARANTINED then Some r else None)
      | None \<Rightarrow> ret None) (\<lambda>x m b. \<forall>q. x = Some q \<longrightarrow> held i q m b) (\<lambda>e. anything)" for current
    by (cases current) (auto intro!: triple_ret simp: held_def)
  moreover have "triple anything (catch (ledger_load (jp_table jp) i) (\<lambda>_. ret None))
      (\<lambda>current m b. current = None \<or> current = ledger_at m i) (\<lambda>e. anything)"
    by (rule triple_catch [OF triple_post [OF triple_load] triple_ret]) (simp_all add: anything_def)
  ultimately show "triple anything (if e = OperationConflict
            then bind (catch (ledger_load (jp_table jp) i) (\<lambda>_. ret None)) (\<lambda>current. case current of
                Some r \<Rightarrow> ret (if led_state r = UNKNOWN_OR_QUARANTINED then Some r else None)
              | None \<Rightarrow> ret None)
            else ret None) (\<lambda>x m b. \<forall>q. x = Some q \<longrightarrow> held i q m b) (\<lambda>e. anything)"
    by (auto intro!: triple_bind triple_ret)
qed

lemma triple_mark_unknown: "triple P (mark_unknown jp i r) (\<lambda>x. anything) (\<lambda>e. anything)"
  by (rule triple_post [OF triple_quarantine]) (simp_all add: anything_def)

lemma triple_expire:
  assumes "instant now < max_instant"
  shows "triple (held i r) (expire jp r i now) (held i) (\<lambda>e. anything)"
proof (cases "instant now < instant (led_expires_at r) \<or> led_state r = EXPIRED")
  case True
  then show ?thesis by (simp add: expire_def triple_ret)
next
  case False
  have handler: "triple anything (if e = OperationConflict
             then bind (ledger_load (jp_table jp) i) (\<lambda>current. case current of
                 Some q \<Rightarrow> if led_state q = EXPIRED then ret q else raise unknown_write_error
               | None \<Rightarrow> raise unknown_write_error)
             else raise unknown_write_error) (held i) (\<lambda>e. anything)" for e
  proof (cases "e = OperationConflict")
    case True
    have "triple (\<lambda>m b. anything m b \<and> current = ledger_at m i) (case current of
        Some q \<Rightarrow> if led_state q = EXPIRED then ret q else raise unknown_write_error
      | None \<Rightarrow> raise unknown_write_error) (held i) (\<lambda>e. anything)" for current
      by (cases current) (auto intro!: triple_error triple_ret simp: held_def)
    then have "triple anything (bind (ledger_load (jp_table jp) i) (\<lambda>current. case current of
          Some q \<Rightarrow> if led_state q = EXPIRED then ret q else raise unknown_write_error
        | None \<Rightarrow> raise unknown_write_error)) (held i) (\<lambda>e. anything)"
      by (rule triple_bind [OF triple_load])
    with True show ?thesis by simp
  qed (simp add: triple_error)
  have "triple (held i r) (transition_to jp i (led_state r) r EXPIRED PNone None now) (held i) (\<lambda>e. anything)"
    by (rule triple_post [OF triple_pre [OF triple_transition [OF assms]]]) (simp_all add: anything_def held_def)
  from triple_catch [OF this handler] show ?thesis using False by (simp add: expire_def)
qed

lemma triple_resource_get:
  "triple (held i r) (resource_get jp r)
    (\<lambda>v m b. held i r m b \<and> (v \<noteq> PNone \<longrightarrow> b (resource_key r) \<noteq> None)) (\<lambda>e. held i r)"
proof -
  have calm: "calm (resource_get jp r)" using batch_get document_get by (auto simp: calm_def resource_get_def)
  show ?thesis
  proof (rule tripleI)
    fix w x w'
    assume w: "sound w" "held i r (view w) (bview w)" "resource_get jp r w = (Inr x, w')"
    have "led_resource_type r = ''batch'' \<or> led_resource_type r = ''document''"
      using w(2) ledger_at_valid ledger_valid_type unfolding held_def by blast
    then have "x = business_value (bview w (resource_key r))"
      using w(3) batch_get document_get by (auto simp: resource_get_def resource_key_def split: if_splits)
    with w(2) calmD [OF calm w(3)]
    show "held i r (view w') (bview w') \<and> (x \<noteq> PNone \<longrightarrow> bview w' (resource_key r) \<noteq> None)"
      by (auto simp: business_value_def split: option.splits)
  qed (use calm in \<open>auto dest: calmD intro: step_calm\<close>)
qed

lemma triple_reconcile_business:
  "triple (held i r) (reconcile_business_record jp i r)
    (\<lambda>q m b. case q of None \<Rightarrow> held i r m b | Some p \<Rightarrow> succeeded i p m b) (\<lambda>e. anything)"
  unfolding reconcile_business_record_def
proof (rule triple_bind [OF triple_catch [OF triple_resource_get triple_error]])
  fix resource
  show "triple (\<lambda>m b. held i r m b \<and> (resource \<noteq> PNone \<longrightarrow> b (resource_key r) \<noteq> None))
    (if resource = PNone then ret None
       else if \<not> business_binding_matches r resource
       then bind (mark_unknown jp i r) (\<lambda>_. raise unknown_write_error)
       else bind (transition_success jp i r) (\<lambda>r. ret (Some r)))
    (\<lambda>q m b. case q of None \<Rightarrow> held i r m b | Some p \<Rightarrow> succeeded i p m b) (\<lambda>e. anything)"
  proof (cases "resource = PNone")
    case True
    then show ?thesis by (simp add: triple_ret)
  next
    case False
    then show ?thesis
      by (auto intro!: triple_bind [OF triple_mark_unknown] triple_error
          triple_bind [OF triple_pre [OF triple_success]] triple_ret)
  qed
qed

lemma triple_resolve:
  "triple (held i r) (resolve_existing jp i r) (succeeded i) (\<lambda>e. anything)"
  unfolding resolve_existing_def
proof (rule triple_bind [OF triple_post [OF triple_now]], assumption, simp add: anything_def, rule triple_fact,
    rule triple_bind [OF triple_expire], assumption)
  fix q
  have pending: "triple (held i q) (bind (reconcile_business_record jp i q) (\<lambda>reconciled. case reconciled of
      Some q \<Rightarrow> ret q | None \<Rightarrow> raise unknown_write_error)) (succeeded i) (\<lambda>e. anything)"
    by (rule triple_bind [OF triple_reconcile_business]) (auto intro!: triple_ret triple_error split: option.split)
  show "triple (held i q) (case led_state q of
       operation_state.SUCCEEDED \<Rightarrow> ret q
     | operation_state.PENDING \<Rightarrow> bind (reconcile_business_record jp i q) (\<lambda>reconciled. case reconciled of
           Some q \<Rightarrow> ret q | None \<Rightarrow> raise unknown_write_error)
     | EXPIRED \<Rightarrow> raise (expired_operation_error i)
     | FAILED_RETRYABLE \<Rightarrow> raise unavailable_error
     | FAILED_TERMINAL \<Rightarrow> raise state_conflict_error
     | UNKNOWN_OR_QUARANTINED \<Rightarrow> raise unknown_write_error) (succeeded i) (\<lambda>e. anything)"
    by (cases "led_state q") (auto intro: triple_error pending triple_ret simp: held_def succeeded_def)
qed

section \<open>Reservations and business writes\<close>

lemma after_seconds_bound: "after_seconds t n = Inr u \<Longrightarrow> instant u < max_instant"
  by (auto simp: after_seconds_def split: if_splits)

text \<open>The reservation of the service, and what its outcome says.\<close>

definition reserved :: "operation_identity \<Rightarrow> string \<Rightarrow> string \<Rightarrow> reservation_outcome \<Rightarrow> memory \<Rightarrow> business \<Rightarrow> bool" where
  "reserved i rtype rid out m b \<longleftrightarrow> held i (ro_record out) m b \<and> led_resource_type (ro_record out) = rtype \<and>
     (ro_created_here out \<longrightarrow> led_resource_id (ro_record out) = rid)"

lemma reserve_call_step:
  assumes "run_reserve (jp_table jp) c w = (r, w')" "reserve_call_ok c" "sound w"
  shows "step w w'"
proof -
  have carrying: "carrying (view w)" and backed: "backed (view w) (bview w)"
    using assms(3) by (simp_all add: sound_def journey_sound_def)
  have b: "bview w' = bview w"
    using frame_reserve assms(1) unfolding frame_def run_reserve_def by blast
  have history: "ledger_history (view w) (view w') {}"
    by (rule reserve_history [OF ledger_table ledger_history.start carrying assms(2,1)])
  have "backed (view w') (bview w')"
    using conditional_table.run_reserve_at [OF ledger_table assms(1,2) carrying] backed
    unfolding backed_def b by force
  then show ?thesis
    using history history_carrying [OF history carrying]
    by (auto simp: step_def journey_sound_def ledger_reaches_def b)
qed

lemma triple_reserve:
  assumes "proper_identity i" "instant now < max_instant"
  shows "triple P (journey_reserve jp i digest rtype rid durable now) (reserved i rtype rid) (\<lambda>e. anything)"
  unfolding journey_reserve_def
proof (rule triple_catch [of _ _ _ "\<lambda>e. anything", OF triple_bind [of _ _ "\<lambda>u m b. instant u < max_instant"] triple_error])
  show "triple P (lift (after_seconds now (jp_retention_seconds jp))) (\<lambda>u m b. instant u < max_instant) (\<lambda>e. anything)"
    by (rule triple_lift) (auto simp: anything_def dest: after_seconds_bound)
next
  fix expires
  define c where "c = \<lparr>rc_identity = i, rc_request = PStr digest, rc_type = PStr rtype, rc_id = PStr rid,
    rc_response = PDict durable, rc_now = now, rc_expires = expires\<rparr>"
  have call: "ledger_reserve (jp_table jp) i (PStr digest) (PStr rtype) (PStr rid) (PDict durable) now expires
      = run_reserve (jp_table jp) c" by (simp add: run_reserve_def c_def)
  show "triple (\<lambda>m b. instant expires < max_instant)
      (ledger_reserve (jp_table jp) i (PStr digest) (PStr rtype) (PStr rid) (PDict durable) now expires)
      (reserved i rtype rid) (\<lambda>e. anything)"
    unfolding call
  proof (rule tripleI)
    fix w r w'
    assume w: "sound w" "instant expires < max_instant" "run_reserve (jp_table jp) c w = (r, w')"
    then have ok: "reserve_call_ok c" using assms by (simp add: reserve_call_ok_def c_def)
    show "step w w'" by (rule reserve_call_step [OF w(3) ok w(1)])
  next
    fix w out w'
    assume w: "sound w" "instant expires < max_instant" "run_reserve (jp_table jp) c w = (Inr out, w')"
    then have ok: "reserve_call_ok c" using assms by (simp add: reserve_call_ok_def c_def)
    have carrying: "carrying (view w)" using w(1) by (simp add: sound_def journey_sound_def)
    obtain p where p: "reserve_plan c p" "ledger_at (view w') (rc_identity c) = Some (ro_record out)"
      "led_resource_type (ro_record out) = led_resource_type p" "ro_created_here out \<longrightarrow> same_record (ro_record out) p"
      using conditional_table.reserve_run_result [OF ledger_table w(3) ok carrying] by blast
    have "led_resource_type p = rtype" "led_resource_id p = rid"
      using p(1) by (auto simp: reserve_plan_def reserve_arguments_def ledger_candidate_def c_def
          validated_identifier_def validated_resource_id_def split: sum.splits if_splits)
    then show "reserved i rtype rid out (view w') (bview w')"
      using p same_record_fields by (auto simp: reserved_def held_def c_def)
  qed (simp add: anything_def)
qed

lemma put_step:
  assumes "sound w" "view w' = view w" "business_put (bview w) k d r (bview w')"
  shows "step w w'" and "r = Inr u \<Longrightarrow> bview w' k \<noteq> None"
proof -
  have more: "bview w \<subseteq>\<^sub>m bview w'"
    using assms(3) by (cases r) (auto simp: business_put_def map_le_def)
  then show "step w w'"
    using assms(1,2) backed_more [OF _ more] by (simp add: step_def sound_def journey_sound_def)
  show "r = Inr u \<Longrightarrow> bview w' k \<noteq> None" using assms(3) by (simp add: business_put_def)
qed

lemma triple_put:
  assumes "\<And>w r w'. put d w = (r, w') \<Longrightarrow> view w' = view w \<and> business_put (bview w) k d r (bview w')"
  shows "triple (held i r) (repository_put kind put d) (\<lambda>u m b. held i r m b \<and> b k \<noteq> None) (\<lambda>e. held i r)"
  unfolding repository_put_def
proof (rule triple_catch)
  show "triple (held i r) (put d) (\<lambda>u m b. held i r m b \<and> b k \<noteq> None) (\<lambda>e. held i r)"
  proof (rule tripleI)
    fix w x w'
    assume "sound w" "put d w = (x, w')"
    then show "step w w'" using assms put_step(1) by blast
  next
    fix w u w'
    assume "sound w" "held i r (view w) (bview w)" "put d w = (Inr u, w')"
    then show "held i r (view w') (bview w') \<and> bview w' k \<noteq> None"
      using assms put_step(2) [of w w' k d "Inr u" u] by (simp add: held_def)
  next
    fix w e w'
    assume "held i r (view w) (bview w)" "put d w = (Inl e, w')"
    then show "held i r (view w') (bview w')" using assms by (simp add: held_def)
  qed
qed (rule triple_raise)

text \<open>A writer of the business record of \<open>r\<close>.\<close>

definition writes_resource :: "operation_identity \<Rightarrow> ledger_record \<Rightarrow> ('w, unit) io \<Rightarrow> bool" where
  "writes_resource i r writer \<longleftrightarrow>
     triple (held i r) writer (\<lambda>u m b. held i r m b \<and> b (resource_key r) \<noteq> None) (\<lambda>e. held i r)"

definition after_write :: "operation_identity \<Rightarrow> ledger_record \<Rightarrow> exn option \<Rightarrow> ('w, ledger_record) io" where
  "after_write i r failure = (case failure of
       None \<Rightarrow> transition_success jp i r
     | Some e \<Rightarrow> bind (reconcile_business_record jp i r) (\<lambda>reconciled. case reconciled of
           Some r \<Rightarrow> ret r
         | None \<Rightarrow> bind (mark_unknown jp i r) (\<lambda>_. raise unknown_write_error)))"

lemma write_once_after: "write_business_once jp i r writer = bind (attempt writer) (after_write i r)"
  by (simp add: write_business_once_def after_write_def [abs_def])

lemma triple_after_write:
  "triple (\<lambda>m b. held i r m b \<and> (failure = None \<longrightarrow> b (resource_key r) \<noteq> None)) (after_write i r failure)
     (succeeded i) (\<lambda>e. anything)"
  unfolding after_write_def
proof (cases failure)
  case None
  then show "triple (\<lambda>m b. held i r m b \<and> (failure = None \<longrightarrow> b (resource_key r) \<noteq> None)) (case failure of
       None \<Rightarrow> transition_success jp i r
     | Some e \<Rightarrow> bind (reconcile_business_record jp i r) (\<lambda>reconciled. case reconciled of
           Some r \<Rightarrow> ret r
         | None \<Rightarrow> bind (mark_unknown jp i r) (\<lambda>_. raise unknown_write_error))) (succeeded i) (\<lambda>e. anything)"
    using triple_success by simp
next
  case (Some e)
  have "triple (\<lambda>m b. case x of None \<Rightarrow> held i r m b | Some p \<Rightarrow> succeeded i p m b) (case x of
         Some r \<Rightarrow> ret r
       | None \<Rightarrow> bind (mark_unknown jp i r) (\<lambda>_. raise unknown_write_error)) (succeeded i) (\<lambda>e. anything)" for x
    by (cases x) (auto intro: triple_ret triple_bind [OF triple_mark_unknown triple_error])
  with Some show "triple (\<lambda>m b. held i r m b \<and> (failure = None \<longrightarrow> b (resource_key r) \<noteq> None)) (case failure of
       None \<Rightarrow> transition_success jp i r
     | Some e \<Rightarrow> bind (reconcile_business_record jp i r) (\<lambda>reconciled. case reconciled of
           Some r \<Rightarrow> ret r
         | None \<Rightarrow> bind (mark_unknown jp i r) (\<lambda>_. raise unknown_write_error))) (succeeded i) (\<lambda>e. anything)"
    by (auto intro!: triple_bind [OF triple_pre [OF triple_reconcile_business]])
qed

lemma triple_attempt:
  assumes "writes_resource i r writer"
  shows "triple (held i r) (attempt writer)
    (\<lambda>failure m b. held i r m b \<and> (failure = None \<longrightarrow> b (resource_key r) \<noteq> None)) (\<lambda>e. anything)"
  unfolding attempt_def
  by (rule triple_catch [OF triple_bind [OF assms [unfolded writes_resource_def] triple_ret] triple_ret]) auto

lemma triple_write_once:
  assumes "writes_resource i r writer"
  shows "triple (held i r) (write_business_once jp i r writer) (succeeded i) (\<lambda>e. anything)"
  unfolding write_once_after by (rule triple_bind [OF triple_attempt [OF assms] triple_after_write])

lemma batch_writer:
  assumes "resource_key r = (''batch'', rid)" "business_id ''batch_id'' (dict_merge d (record_fields own)) = rid"
  shows "writes_resource i r (repo_create_batch jp d own)"
  unfolding writes_resource_def repo_create_batch_def assms(1)
  by (rule triple_put) (drule batch_put, simp only: assms(2))

lemma document_writer:
  assumes "resource_key r = (''document'', rid)" "business_id ''documentId'' (dict_merge d (record_fields own)) = rid"
  shows "writes_resource i r (repo_create_document jp d own)"
proof -
  have put: "triple (held i r) (repository_put ''Document'' (jp_document_put jp) item)
      (\<lambda>u m b. held i r m b \<and> b (resource_key r) \<noteq> None) (\<lambda>e. held i r)"
    if "business_id ''documentId'' item = rid" for item
    unfolding assms(1) by (rule triple_put) (drule document_put, simp only: that)
  have "business_id ''documentId'' (dict_put ''ownership_batch_key'' v (dict_merge d (record_fields own))) = rid" for v
    using assms(2) by (simp add: business_id_def py_get_def)
  then show ?thesis
    unfolding writes_resource_def repo_create_document_def Let_def
    by (auto simp del: not_None_eq intro!: put assms(2) triple_bind [OF triple_lift [of _ "held i r" "\<lambda>x. held i r" "\<lambda>e. held i r"]])
qed

end

end
