(* ===== verification/JourneyCreate.thy ===== *)
theory JourneyCreate
  imports JourneyProofs
begin

text \<open>
  The operations of the journey service as wholes: what an acknowledged create and a reconciled
  success promise, and which business records a run may add.
\<close>

section \<open>The operation a call addresses\<close>

definition addressed :: "auth_context option \<Rightarrow> operation_kind \<Rightarrow> pyval \<Rightarrow> operation_identity option" where
  "addressed auth kind raw_key = (case journey_owner auth of
       Inl e \<Rightarrow> None
     | Inr (own, scope) \<Rightarrow> (case journey_identity scope kind raw_key of Inl e \<Rightarrow> None | Inr i \<Rightarrow> Some i))"

lemma addressed_Some:
  "journey_owner auth = Inr (own, scope) \<Longrightarrow> journey_identity scope kind raw_key = Inr i \<Longrightarrow>
    addressed auth kind raw_key = Some i"
  by (simp add: addressed_def)

lemma journey_identity_proper: "journey_identity scope kind raw_key = Inr i \<Longrightarrow> proper_identity i"
  by (auto simp: journey_identity_def split: sum.splits dest: operation_identity_new_proper)

text \<open>The kind of resource of an operation and the key of the resource in its answer.\<close>

definition kind_type :: "operation_kind \<Rightarrow> string" where
  "kind_type kind = (if kind = BATCH_CREATE then ''batch'' else ''document'')"

definition answered_key :: "operation_kind \<Rightarrow> durable_response \<Rightarrow> string \<times> string" where
  "answered_key kind resp = (kind_type kind, the (response_text resp (resource_field (kind_type kind))))"

lemma answered_resource:
  assumes "ledger_valid r" "journey_response jp kind r = Inr resp"
  shows "resource_key r = answered_key kind resp" "resp = led_durable_response r"
    "response_text resp (resource_field (kind_type kind)) \<noteq> None"
proof -
  have resp: "resp = led_durable_response r" and ok: "durable_model_ok jp kind resp"
    using assms(2) by (auto simp: journey_response_def split: if_splits)
  have type: "led_resource_type r = ''batch'' \<or> led_resource_type r = ''document''"
    by (rule ledger_valid_type [OF assms(1)])
  have "durable_binding_ok (record_identity r) (led_resource_type r) (led_resource_id r) resp"
    using assms(1) resp
    by (auto simp: ledger_valid_def validated_durable_response_def split: pyval.splits option.splits sum.splits if_splits)
  then have bound: "response_text resp (resource_field (led_resource_type r)) = Some (led_resource_id r)"
    "response_text resp ''schemaVersion'' = Some (fst (expected_schema_status (led_resource_type r)))"
    by (auto simp: durable_binding_ok_def)
  have "response_text resp ''schemaVersion'' = Some (fst (expected_schema_status (kind_type kind)))"
    using ok by (auto simp: durable_model_ok_def kind_type_def Let_def)
  with bound(2) type have "led_resource_type r = kind_type kind"
    by (auto simp: expected_schema_status_def kind_type_def split: if_splits)
  with bound(1) show "resource_key r = answered_key kind resp" "resp = led_durable_response r"
    "response_text resp (resource_field (kind_type kind)) \<noteq> None"
    using resp by (simp_all add: resource_key_def answered_key_def)
qed

text \<open>An acknowledged operation: its record has succeeded and holds the answer.\<close>

definition acknowledged :: "'w journey_ports \<Rightarrow> operation_identity option \<Rightarrow> operation_kind \<Rightarrow> durable_response
    \<Rightarrow> memory \<Rightarrow> bool" where
  "acknowledged jp i kind resp m \<longleftrightarrow> (\<exists>j r. i = Some j \<and> ledger_at m j = Some r \<and>
     led_state r = operation_state.SUCCEEDED \<and> journey_response jp kind r = Inr resp)"

lemma acknowledged_backed:
  assumes "acknowledged jp i kind resp m" "backed m b"
  shows "b (answered_key kind resp) \<noteq> None"
proof -
  obtain j r where r: "ledger_at m j = Some r" "led_state r = operation_state.SUCCEEDED" "journey_response jp kind r = Inr resp"
    using assms(1) by (auto simp: acknowledged_def)
  have "resource_key r = answered_key kind resp"
    by (rule answered_resource(1) [OF _ r(3)]) (use ledger_at_valid [OF r(1)] in simp)
  with r assms(2) show ?thesis unfolding backed_def by metis
qed

section \<open>Creates\<close>

context journey_site
begin

lemma triple_lift_then:
  "(\<And>x. y = Inr x \<Longrightarrow> triple P (k x) Q (\<lambda>e. anything)) \<Longrightarrow> triple P (bind (lift y) k) Q (\<lambda>e. anything)"
  by (cases y) (auto simp: triple_def bind_run lift_run anything_def step_refl)

lemma triple_lift_pair:
  "(\<And>a b. y = Inr (a, b) \<Longrightarrow> triple P (k a b) Q (\<lambda>e. anything)) \<Longrightarrow>
    triple P (bind (lift y) (\<lambda>(a, b). k a b)) Q (\<lambda>e. anything)"
  by (rule triple_lift_then) (auto split: prod.splits)

lemma triple_keep: "calm m \<Longrightarrow> triple P m (\<lambda>x. P) (\<lambda>e. anything)"
  by (rule triple_post [OF triple_calm]) (simp_all add: anything_def)

lemma triple_calm_then:
  "calm m \<Longrightarrow> (\<And>x. triple P (k x) Q (\<lambda>e. anything)) \<Longrightarrow> triple P (bind m k) Q (\<lambda>e. anything)"
  by (rule triple_bind [OF triple_keep])

lemma triple_now_then:
  assumes "\<And>now. instant now < max_instant \<Longrightarrow> triple P (k now) Q (\<lambda>e. anything)"
  shows "triple P (bind (journey_now jp) k) Q (\<lambda>e. anything)"
  by (rule triple_bind [OF triple_post [OF triple_now]], assumption, simp add: anything_def, rule triple_fact)
    (rule assms)

lemma triple_answer:
  assumes "i = Some j"
  shows "triple (succeeded j r) (bind (lift (journey_response jp kind r)) (\<lambda>response. ret (f response)))
    (\<lambda>out m b. \<exists>resp. out = f resp \<and> acknowledged jp i kind resp m) (\<lambda>e. anything)"
  by (rule triple_lift_then, rule triple_ret) (use assms in \<open>auto simp: acknowledged_def succeeded_def\<close>)

lemma triple_outcome:
  assumes "resource_key (ro_record out) = (rtype, rid) \<Longrightarrow>
    triple (held i (ro_record out)) body (succeeded i) (\<lambda>e. anything)"
  shows "triple (reserved i rtype rid out) (if ro_created_here out then body else resolve_existing jp i (ro_record out))
    (succeeded i) (\<lambda>e. anything)"
proof (cases "ro_created_here out")
  case False
  moreover have "triple (reserved i rtype rid out) (resolve_existing jp i (ro_record out)) (succeeded i) (\<lambda>e. anything)"
    by (rule triple_pre [OF triple_resolve]) (simp add: reserved_def)
  ultimately show ?thesis by simp
next
  case True
  have "triple (reserved i rtype rid out) body (succeeded i) (\<lambda>e. anything)"
  proof (cases "resource_key (ro_record out) = (rtype, rid)")
    case True
    show ?thesis by (rule triple_pre [OF assms [OF True]]) (simp add: reserved_def)
  next
    case False
    with \<open>ro_created_here out\<close> show ?thesis by (auto simp: triple_def reserved_def resource_key_def)
  qed
  with True show ?thesis by simp
qed

lemma batch_item_id: "business_id ''batch_id'' (dict_merge (batch_item own scope digest rid now) (record_fields own')) = rid"
  by (simp add: business_id_def py_get_def map_of_dict_merge record_fields_def batch_item_def map_add_def)

lemma triple_create_batch:
  "triple P (create_batch jp auth raw_key)
    (\<lambda>out m b. acknowledged jp (addressed auth BATCH_CREATE raw_key) BATCH_CREATE (cr_response out) m) (\<lambda>e. anything)"
  unfolding create_batch_def Let_def
proof (rule triple_lift_pair, rule triple_calm_then [OF calm_simps(5)], rule triple_lift_then, rule triple_now_then,
    rule triple_calm_then [OF new_id_calm], rule triple_bind [OF triple_reserve], erule journey_identity_proper,
    assumption, rule triple_bind [OF triple_outcome])
  fix own scope i now rid out
  assume "resource_key (ro_record out) = (''batch'', rid)"
  then show "triple (held i (ro_record out)) (write_business_once jp i (ro_record out)
      (repo_create_batch jp (batch_item own scope (canonical_request_digest BATCH_CREATE []) rid now) own))
      (succeeded i) (\<lambda>e. anything)"
    by (intro triple_write_once batch_writer [OF _ batch_item_id])
next
  fix own scope i out r
  assume scope: "journey_owner auth = Inr (own, scope)" "journey_identity scope BATCH_CREATE raw_key = Inr i"
  show "triple (succeeded i r) (bind (lift (journey_response jp BATCH_CREATE r)) (\<lambda>response.
           ret \<lparr>cr_replayed = (\<not> ro_created_here out), cr_response = response\<rparr>))
      (\<lambda>out m b. acknowledged jp (addressed auth BATCH_CREATE raw_key) BATCH_CREATE (cr_response out) m) (\<lambda>e. anything)"
    by (rule triple_post [OF triple_answer [OF addressed_Some [OF scope]]]) auto
qed

text \<open>Reading the caller's records and minting a capability leave the records alone.\<close>

lemma calm_case_option: "calm m \<Longrightarrow> (\<And>x. calm (f x)) \<Longrightarrow> calm (case v of None \<Rightarrow> m | Some x \<Rightarrow> f x)"
  by (cases v) simp_all

lemma calm_if: "calm m \<Longrightarrow> calm n \<Longrightarrow> calm (if c then m else n)"
  by simp

lemma calm_gets: "calm (jp_batch_get jp k)" "calm (jp_document_get jp k)" "calm (jp_claim jp key now n)"
    "calm (jp_presign jp d ttl)"
  using batch_get document_get claim_law presign_law by (auto simp: calm_def)

lemmas calm_rules = calm_bind calm_catch calm_simps calm_case_option calm_if calm_gets now_calm new_id_calm

lemma calm_check_batch: "calm (check_batch jp auth scope b)"
  unfolding check_batch_def by (intro calm_rules)

lemma calm_mint: "calm (mint_upload_capability jp auth scope rid enforce)"
  unfolding mint_upload_capability_def journey_document_def refresh_limited_def presigned_def
  by (intro calm_rules) (auto split: prod.split intro!: calm_rules)

lemma calm_replay: "calm m \<Longrightarrow> calm (replay_capability here m)"
  unfolding replay_capability_def by (intro calm_rules) (auto split: exn.splits intro!: calm_rules)

lemma document_item_id:
  assumes "document_item jp own scope digest rq rid filename reference now = Inr d"
  shows "business_id ''documentId'' (dict_merge d (record_fields own')) = rid"
proof -
  obtain e where "d = dict_merge e (jp_document_key jp rid)" "map_of e ''documentId'' = Some (PStr rid)"
    using assms by (auto simp: document_item_def Let_def split: sum.splits option.splits)
  then have "map_of d ''documentId'' = Some (PStr rid)"
    using document_key_law(2) [of rid] map_of_dict_merge [OF document_key_law(1), of e rid]
    by (elim insertE emptyE) (simp_all only: map_add_def option.case)
  then show ?thesis
    by (simp add: business_id_def py_get_def map_of_dict_merge record_fields_def map_add_def)
qed

lemma triple_create_document:
  "triple P (create_document jp reference auth raw_key rq)
    (\<lambda>out m b. acknowledged jp (addressed auth DOCUMENT_CREATE raw_key) DOCUMENT_CREATE (cr_response (fst out)) m)
    (\<lambda>e. anything)"
  unfolding create_document_def Let_def
proof (rule triple_lift_pair, rule triple_calm_then [OF calm_simps(5)], rule triple_calm_then [OF calm_simps(4)],
    rule triple_lift_then, rule triple_calm_then [OF calm_check_batch], rule triple_lift_then, rule triple_now_then,
    rule triple_calm_then [OF new_id_calm], rule triple_bind [OF triple_reserve], erule journey_identity_proper,
    assumption, rule triple_bind [OF triple_outcome], rule triple_lift_then)
  fix own scope filename i now rid out d
  assume key: "resource_key (ro_record out) = (''document'', rid)"
    and item: "document_item jp own scope (canonical_request_digest DOCUMENT_CREATE (document_request_json rq)) rq rid filename
      (reference rid) now = Inr d"
  show "triple (held i (ro_record out)) (write_business_once jp i (ro_record out) (repo_create_document jp d own))
      (succeeded i) (\<lambda>e. anything)"
    by (intro triple_write_once document_writer [OF key document_item_id [OF item]])
next
  fix own scope i out r
  assume scope: "journey_owner auth = Inr (own, scope)" "journey_identity scope DOCUMENT_CREATE raw_key = Inr i"
  show "triple (succeeded i r) (bind (lift (journey_response jp DOCUMENT_CREATE r)) (\<lambda>response.
     bind (replay_capability (ro_created_here out)
             (mint_upload_capability jp auth scope (the (response_text response ''documentId'')) (\<not> ro_created_here out)))
       (\<lambda>capability. ret (\<lparr>cr_replayed = (\<not> ro_created_here out), cr_response = response\<rparr>, capability))))
      (\<lambda>out m b. acknowledged jp (addressed auth DOCUMENT_CREATE raw_key) DOCUMENT_CREATE (cr_response (fst out)) m)
      (\<lambda>e. anything)"
    by (rule triple_lift_then, rule triple_calm_then [OF calm_replay [OF calm_mint]], rule triple_ret)
      (auto simp: acknowledged_def succeeded_def addressed_Some [OF scope])
qed

section \<open>Reconciliation\<close>

lemma triple_reconcile_pending:
  "triple (held i r) (reconcile_pending jp i r now) (held i) (\<lambda>e. anything)"
  unfolding reconcile_pending_def
proof (rule triple_bind [OF triple_reconcile_business])
  fix completed
  have stale: "triple (held i r) (bind (lift (pending_is_stale jp r now)) (\<lambda>stale.
         if \<not> stale then ret r
         else bind (mark_unknown jp i r) (\<lambda>quarantined. case quarantined of
             None \<Rightarrow> raise unknown_write_error | Some q \<Rightarrow> ret q))) (held i) (\<lambda>e. anything)"
  proof (rule triple_lift_then)
    fix stale
    have "triple (\<lambda>m b. \<forall>q. x = Some q \<longrightarrow> held i q m b)
        (case x of None \<Rightarrow> raise unknown_write_error | Some q \<Rightarrow> ret q) (held i) (\<lambda>e. anything)" for x
      by (cases x) (simp_all add: triple_error triple_ret)
    from triple_bind [OF triple_quarantine this]
    show "triple (held i r) (if \<not> stale then ret r
         else bind (mark_unknown jp i r) (\<lambda>quarantined. case quarantined of
             None \<Rightarrow> raise unknown_write_error | Some q \<Rightarrow> ret q)) (held i) (\<lambda>e. anything)"
      by (simp add: triple_ret)
  qed
  show "triple (\<lambda>m b. case completed of None \<Rightarrow> held i r m b | Some p \<Rightarrow> succeeded i p m b)
     (case completed of
       Some q \<Rightarrow> ret q
     | None \<Rightarrow> bind (lift (pending_is_stale jp r now)) (\<lambda>stale.
         if \<not> stale then ret r
         else bind (mark_unknown jp i r) (\<lambda>quarantined. case quarantined of
             None \<Rightarrow> raise unknown_write_error | Some q \<Rightarrow> ret q))) (held i) (\<lambda>e. anything)"
  proof (cases completed)
    case None
    with stale show ?thesis by simp
  next
    case (Some q)
    then show ?thesis by (auto intro!: triple_ret simp: succeeded_def held_def)
  qed
qed

text \<open>The answer of a reconciliation is the record as it stands.\<close>

definition reported :: "operation_identity option \<Rightarrow> operation_kind \<Rightarrow> reconciliation \<Rightarrow> memory \<Rightarrow> business \<Rightarrow> bool" where
  "reported i kind ans m b \<longleftrightarrow>
     (\<exists>j r. i = Some j \<and> ledger_at m j = Some r \<and> reconciliation_of jp kind r = Inr ans)"

lemma triple_reconcile:
  "triple P (reconcile jp auth kind raw_key) (reported (addressed auth kind raw_key) kind) (\<lambda>e. anything)"
  unfolding reconcile_def
proof (rule triple_lift_pair, rule triple_now_then, rule triple_calm_then [OF calm_gets(3)], rule triple_calm_then,
    (rule calm_case_option; rule calm_simps), rule triple_lift_then,
    rule triple_bind [OF triple_catch [OF triple_load triple_error]])
  fix own scope now i found
  assume scope: "journey_owner auth = Inr (own, scope)" "journey_identity scope kind raw_key = Inr i"
    and now: "instant now < max_instant"
  have report: "triple (held i r) (lift (reconciliation_of jp kind r)) (reported (addressed auth kind raw_key) kind)
      (\<lambda>e. anything)" for r
    by (rule triple_lift) (auto simp: reported_def held_def addressed_Some [OF scope] anything_def)
  have pending: "triple (held i r) (if led_state r = operation_state.PENDING then reconcile_pending jp i r now else ret r)
      (held i) (\<lambda>e. anything)" for r
    by (simp add: triple_reconcile_pending triple_ret)
  show "triple (\<lambda>m b. P m b \<and> found = ledger_at m i)
     (bind (lift (case found of None \<Rightarrow> Inl (not_found_error ''Operation not found.'') | Some r \<Rightarrow> Inr r)) (\<lambda>loaded.
     bind (expire jp loaded i now) (\<lambda>r.
     bind (if led_state r = operation_state.PENDING then reconcile_pending jp i r now else ret r) (\<lambda>r.
       lift (reconciliation_of jp kind r))))) (reported (addressed auth kind raw_key) kind) (\<lambda>e. anything)"
  proof (rule triple_lift_then)
    fix loaded
    assume "(case found of None \<Rightarrow> Inl (not_found_error ''Operation not found.'') | Some r \<Rightarrow> Inr r) = Inr loaded"
    then have "found = Some loaded" by (simp split: option.splits)
    then have pre: "P m b \<and> found = ledger_at m i \<Longrightarrow> held i loaded m b" for m b by (simp add: held_def)
    have "triple (held i loaded) (bind (expire jp loaded i now) (\<lambda>r.
     bind (if led_state r = operation_state.PENDING then reconcile_pending jp i r now else ret r) (\<lambda>r.
       lift (reconciliation_of jp kind r)))) (reported (addressed auth kind raw_key) kind) (\<lambda>e. anything)"
      by (rule triple_bind [OF triple_expire [OF now] triple_bind [OF pending report]])
    from triple_pre [OF this pre]
    show "triple (\<lambda>m b. P m b \<and> found = ledger_at m i) (bind (expire jp loaded i now) (\<lambda>r.
     bind (if led_state r = operation_state.PENDING then reconcile_pending jp i r now else ret r) (\<lambda>r.
       lift (reconciliation_of jp kind r)))) (reported (addressed auth kind raw_key) kind) (\<lambda>e. anything)" .
  qed
qed

end

lemma reconciled_acknowledged:
  assumes "reconciliation_of jp kind r = Inr ans" "rr_state ans = operation_state.SUCCEEDED"
  shows "\<exists>resp. rr_response ans = Some resp \<and> journey_response jp kind r = Inr resp \<and>
    led_state r = operation_state.SUCCEEDED"
  using assms by (auto simp: reconciliation_of_def Let_def split: if_splits sum.splits)

end
