(* ===== verification/JourneyRuns.thy ===== *)
theory JourneyRuns
  imports JourneyCreate
begin

text \<open>
  Sequences of calls of the journey service. A call adds at most one business record, the one its
  ledger record names, so an operation never has two; whatever was acknowledged stays there, and a
  replay answers what the first call answered.
\<close>

context journey_site
begin

section \<open>The one business record a call may add\<close>

definition one_write :: "operation_identity option \<Rightarrow> 'w \<Rightarrow> 'w \<Rightarrow> bool" where
  "one_write i w w' \<longleftrightarrow> bview w' = bview w \<or>
     (\<exists>j q d. i = Some j \<and> ledger_at (view w') j = Some q \<and> bview w (resource_key q) = None \<and>
        bview w' = (bview w)(resource_key q \<mapsto> d))"

definition modest :: "operation_identity option \<Rightarrow> (memory \<Rightarrow> business \<Rightarrow> bool) \<Rightarrow> ('w, 'a) io \<Rightarrow> bool" where
  "modest i P m \<longleftrightarrow> (\<forall>w r w'. sound w \<longrightarrow> P (view w) (bview w) \<longrightarrow> m w = (r, w') \<longrightarrow> one_write i w w')"

lemma modest_frame: "frame m \<Longrightarrow> modest i P m"
  by (auto simp: modest_def frame_def one_write_def)

lemma calm_frame: "calm m \<Longrightarrow> frame m"
  by (auto simp: calm_def frame_def)

lemma modest_after:
  assumes "frame m" "triple P m Q (\<lambda>e. anything)" "\<And>x. modest i (Q x) (k x)"
  shows "modest i P (bind m k)"
  unfolding modest_def
proof (intro allI impI)
  fix w r w'
  assume w: "sound w" "P (view w) (bview w)" "bind m k w = (r, w')"
  then consider e where "m w = (Inl e, w')" | x w1 where "m w = (Inr x, w1)" "k x w1 = (r, w')"
    by (auto simp: bind_run)
  then show "one_write i w w'"
  proof cases
    case 1
    then show ?thesis using assms(1) by (auto simp: frame_def one_write_def)
  next
    case 2
    have b: "bview w1 = bview w" using assms(1) 2(1) by (auto simp: frame_def)
    note first = triple_run(1,2) [OF assms(2) w(1,2) 2(1)]
    have "one_write i w1 w'"
      using assms(3) [of x] step_sound [OF first(1)] first(2) [OF refl] 2(2) unfolding modest_def by blast
    with b show ?thesis by (simp add: one_write_def)
  qed
qed

lemma one_write_step:
  assumes "one_write i w w1" "step w1 w'" "sound w1" "bview w' = bview w1"
  shows "one_write i w w'"
  using assms(1) unfolding one_write_def assms(4)
proof (elim disjE exE conjE)
  fix j q d
  assume q: "i = Some j" "ledger_at (view w1) j = Some q" "bview w (resource_key q) = None"
    "bview w1 = (bview w)(resource_key q \<mapsto> d)"
  obtain q' where q': "ledger_at (view w') j = Some q'" "ledger_evolves q q'"
    using step_at [OF assms(2,3) q(2)] by blast
  have "resource_key q' = resource_key q"
    using q'(2) same_reservation_key by (simp add: ledger_evolves_def)
  with q q'(1) show "bview w1 = bview w \<or> (\<exists>j q d. i = Some j \<and> ledger_at (view w') j = Some q \<and>
      bview w (resource_key q) = None \<and> bview w1 = (bview w)(resource_key q \<mapsto> d))"
    by auto
qed simp

lemma modest_then:
  assumes "modest i P m" "triple P m Q (\<lambda>e. anything)" "\<And>x. frame (k x)" "\<And>x. triple (Q x) (k x) R (\<lambda>e. anything)"
  shows "modest i P (bind m k)"
  unfolding modest_def
proof (intro allI impI)
  fix w r w'
  assume w: "sound w" "P (view w) (bview w)" "bind m k w = (r, w')"
  then consider e where "m w = (Inl e, w')" | x w1 where "m w = (Inr x, w1)" "k x w1 = (r, w')"
    by (auto simp: bind_run)
  then show "one_write i w w'"
  proof cases
    case 1
    then show ?thesis using assms(1) w(1,2) by (auto simp: modest_def)
  next
    case 2
    note first = triple_run(1,2) [OF assms(2) w(1,2) 2(1)]
    note sound = step_sound [OF first(1)]
    have "one_write i w w1" using assms(1) w(1,2) 2(1) unfolding modest_def by blast
    moreover have "bview w' = bview w1" using assms(3) 2(2) unfolding frame_def by blast
    ultimately show ?thesis
      using one_write_step triple_run(1) [OF assms(4) sound first(2) [OF refl] 2(2)] sound by blast
  qed
qed

section \<open>Everything but the business write leaves the business records alone\<close>

lemma frame_to: "frame (transition_to jp i s r s' failure completed updated)"
  unfolding transition_to_def by (rule frame_transition)

lemmas frame_more = frame_rules frame_load frame_to calm_frame [OF now_calm] calm_frame [OF calm_gets(1)]
  calm_frame [OF calm_gets(2)]

lemma frame_success: "frame (transition_success jp i r)"
  unfolding transition_success_def by (intro frame_more) (auto split: exn.split intro!: frame_more)

lemma frame_mark: "frame (mark_unknown jp i r)"
  unfolding mark_unknown_def by (intro frame_more)

lemma frame_expire: "frame (expire jp r i now)"
  unfolding expire_def by (intro frame_more)

lemma frame_reconcile_business: "frame (reconcile_business_record jp i r)"
  unfolding reconcile_business_record_def resource_get_def by (intro frame_more frame_success frame_mark)

lemma frame_after: "frame (after_write i r failure)"
  unfolding after_write_def by (intro frame_more frame_success frame_mark frame_reconcile_business)

lemma frame_resolve: "frame (resolve_existing jp i r)"
  unfolding resolve_existing_def
  by (intro frame_more frame_expire) (auto split: operation_state.split intro!: frame_more frame_reconcile_business)

lemma frame_journey_reserve: "frame (journey_reserve jp i digest rtype rid durable now)"
  unfolding journey_reserve_def by (intro frame_more frame_reserve)

lemma frame_reconcile: "frame (reconcile jp auth kind raw_key)"
  unfolding reconcile_def reconcile_pending_def
  by (intro frame_more frame_expire frame_reconcile_business frame_mark calm_frame [OF calm_gets(3)])
    (auto split: prod.split intro!: frame_more frame_expire frame_reconcile_business frame_mark calm_frame [OF calm_gets(3)])

section \<open>The writers\<close>

text \<open>A writer of one key: it puts a record there or changes nothing.\<close>

definition puts_at :: "string \<times> string \<Rightarrow> ('w, unit) io \<Rightarrow> bool" where
  "puts_at k m \<longleftrightarrow> (\<forall>w x w'. m w = (x, w') \<longrightarrow> view w' = view w \<and>
     (bview w' = bview w \<or> (bview w k = None \<and> (\<exists>d. bview w' = (bview w)(k \<mapsto> d)))))"

lemma puts_repository:
  assumes "\<And>w r w'. put d w = (r, w') \<Longrightarrow> view w' = view w \<and> business_put (bview w) k d r (bview w')"
  shows "puts_at k (repository_put kind put d)"
  unfolding puts_at_def repository_put_def
  by (auto simp: catch_run raise_run business_put_def dest!: assms split: sum.splits)

lemma puts_lift: "(\<And>x. puts_at k (f x)) \<Longrightarrow> puts_at k (bind (lift y) f)"
  unfolding puts_at_def by (cases y) (force simp: bind_run lift_run)+

lemma puts_batch:
  assumes "business_id ''batch_id'' (dict_merge d (record_fields own)) = rid"
  shows "puts_at (''batch'', rid) (repo_create_batch jp d own)"
  unfolding repo_create_batch_def by (rule puts_repository) (drule batch_put, simp only: assms)

lemma puts_document:
  assumes "business_id ''documentId'' (dict_merge d (record_fields own)) = rid"
  shows "puts_at (''document'', rid) (repo_create_document jp d own)"
proof -
  have put: "puts_at (''document'', rid) (repository_put ''Document'' (jp_document_put jp) item)"
    if "business_id ''documentId'' item = rid" for item
    by (rule puts_repository) (drule document_put, simp only: that)
  have "business_id ''documentId'' (dict_put ''ownership_batch_key'' v (dict_merge d (record_fields own))) = rid" for v
    using assms by (simp add: business_id_def py_get_def)
  then show ?thesis unfolding repo_create_document_def Let_def by (auto intro!: put puts_lift assms)
qed

lemma modest_write:
  assumes "puts_at (resource_key r) writer" "writes_resource i r writer"
  shows "modest (Some i) (held i r) (write_business_once jp i r writer)"
  unfolding write_once_after
proof (rule modest_then [OF _ triple_attempt [OF assms(2)] frame_after triple_after_write])
  show "modest (Some i) (held i r) (attempt writer)"
    unfolding modest_def
  proof (intro allI impI)
    fix w x w'
    assume w: "held i r (view w) (bview w)" "attempt writer w = (x, w')"
    obtain y where "writer w = (y, w')"
      using w(2) by (auto simp: attempt_def catch_run bind_run ret_run)
    with assms(1) have "view w' = view w \<and> (bview w' = bview w \<or>
        (bview w (resource_key r) = None \<and> (\<exists>d. bview w' = (bview w)(resource_key r \<mapsto> d))))"
      unfolding puts_at_def by blast
    with w(1) show "one_write (Some i) w w'" by (auto simp: one_write_def held_def)
  qed
qed

lemma modest_outcome:
  assumes "resource_key (ro_record out) = (rtype, rid) \<Longrightarrow> modest i (held j (ro_record out)) body"
  shows "modest i (reserved j rtype rid out) (if ro_created_here out then body else resolve_existing jp j (ro_record out))"
proof (cases "ro_created_here out")
  case False
  then show ?thesis by (simp add: modest_frame frame_resolve)
next
  case True
  then show ?thesis
    using assms by (auto simp: modest_def reserved_def resource_key_def)
qed

section \<open>The creates\<close>

lemma modest_lift:
  "(\<And>x. y = Inr x \<Longrightarrow> modest i P (k x)) \<Longrightarrow> modest i P (bind (lift y) k)"
  by (cases y) (auto simp: modest_def bind_run lift_run one_write_def)

lemma modest_lift_pair:
  "(\<And>a b. y = Inr (a, b) \<Longrightarrow> modest i P (k a b)) \<Longrightarrow> modest i P (bind (lift y) (\<lambda>(a, b). k a b))"
  by (rule modest_lift) (auto split: prod.splits)

lemma modest_calm: "calm m \<Longrightarrow> (\<And>x. modest i P (k x)) \<Longrightarrow> modest i P (bind m k)"
  by (rule modest_after [OF calm_frame triple_keep])

lemma modest_now:
  assumes "\<And>now. instant now < max_instant \<Longrightarrow> modest i P (k now)"
  shows "modest i P (bind (journey_now jp) k)"
  by (rule modest_after [OF calm_frame [OF now_calm] triple_post [OF triple_now]], assumption, simp add: anything_def)
    (use assms in \<open>auto simp: modest_def\<close>)

lemma modest_create_batch: "modest (addressed auth BATCH_CREATE raw_key) P (create_batch jp auth raw_key)"
  unfolding create_batch_def Let_def
proof (rule modest_lift_pair, rule modest_calm [OF calm_simps(5)], rule modest_lift, rule modest_now,
    rule modest_calm [OF new_id_calm], rule modest_after [OF frame_journey_reserve triple_reserve],
    erule journey_identity_proper, assumption)
  fix own scope i now rid and out :: reservation_outcome
  assume scope: "journey_owner auth = Inr (own, scope)" "journey_identity scope BATCH_CREATE raw_key = Inr i"
  let ?body = "write_business_once jp i (ro_record out)
      (repo_create_batch jp (batch_item own scope (canonical_request_digest BATCH_CREATE []) rid now) own)"
  have outcome: "resource_key (ro_record out) = (''batch'', rid) \<Longrightarrow> modest (Some i) (held i (ro_record out)) ?body"
      "resource_key (ro_record out) = (''batch'', rid) \<Longrightarrow> triple (held i (ro_record out)) ?body (succeeded i) (\<lambda>e. anything)"
    by (intro modest_write triple_write_once batch_writer [OF _ batch_item_id]; simp add: puts_batch batch_item_id)+
  show "modest (addressed auth BATCH_CREATE raw_key) (reserved i ''batch'' rid out)
      (bind (if ro_created_here out then ?body else resolve_existing jp i (ro_record out))
        (\<lambda>r. bind (lift (journey_response jp BATCH_CREATE r)) (\<lambda>response.
           ret \<lparr>cr_replayed = (\<not> ro_created_here out), cr_response = response\<rparr>)))"
    unfolding addressed_Some [OF scope]
    by (rule modest_then [OF modest_outcome [OF outcome(1)] triple_outcome [OF outcome(2)]])
      (auto intro!: frame_rules triple_lift_then triple_ret [where Q = "\<lambda>x. anything"] simp: anything_def)
qed

lemma modest_create_document:
  "modest (addressed auth DOCUMENT_CREATE raw_key) P (create_document jp reference auth raw_key rq)"
  unfolding create_document_def Let_def
proof (rule modest_lift_pair, rule modest_calm [OF calm_simps(5)], rule modest_calm [OF calm_simps(4)],
    rule modest_lift, rule modest_calm [OF calm_check_batch], rule modest_lift, rule modest_now,
    rule modest_calm [OF new_id_calm], rule modest_after [OF frame_journey_reserve triple_reserve],
    erule journey_identity_proper, assumption)
  fix own scope filename i now rid and out :: reservation_outcome
  assume scope: "journey_owner auth = Inr (own, scope)" "journey_identity scope DOCUMENT_CREATE raw_key = Inr i"
  let ?item = "document_item jp own scope (canonical_request_digest DOCUMENT_CREATE (document_request_json rq)) rq rid
      filename (reference rid) now"
  let ?body = "bind (lift ?item) (\<lambda>d. write_business_once jp i (ro_record out) (repo_create_document jp d own))"
  have outcome: "modest (Some i) (held i (ro_record out)) ?body \<and>
      triple (held i (ro_record out)) ?body (succeeded i) (\<lambda>e. anything)"
    if key: "resource_key (ro_record out) = (''document'', rid)"
  proof -
    have "puts_at (''document'', rid) (repo_create_document jp d own) \<and>
        writes_resource i (ro_record out) (repo_create_document jp d own)" if "?item = Inr d" for d
      using puts_document document_writer [OF key] document_item_id [OF that] by blast
    then show ?thesis
      by (intro conjI modest_lift modest_write triple_lift_then triple_write_once) (simp_all add: key)
  qed
  show "modest (addressed auth DOCUMENT_CREATE raw_key) (reserved i ''document'' rid out)
      (bind (if ro_created_here out then ?body else resolve_existing jp i (ro_record out))
        (\<lambda>r. bind (lift (journey_response jp DOCUMENT_CREATE r)) (\<lambda>response.
     bind (replay_capability (ro_created_here out)
             (mint_upload_capability jp auth scope (the (response_text response ''documentId'')) (\<not> ro_created_here out)))
       (\<lambda>capability. ret (\<lparr>cr_replayed = (\<not> ro_created_here out), cr_response = response\<rparr>, capability)))))"
    unfolding addressed_Some [OF scope]
    by (rule modest_then [OF modest_outcome triple_outcome], use outcome in blast, use outcome in blast)
      (auto intro!: frame_rules calm_frame [OF calm_replay [OF calm_mint]] triple_lift_then
        triple_calm_then [OF calm_replay [OF calm_mint]] triple_ret [where Q = "\<lambda>x. anything"] simp: anything_def)
qed

end

section \<open>Calls in sequence\<close>

datatype journey_call =
    BatchCall "auth_context option" pyval
  | DocumentCall "string \<Rightarrow> pyval" "auth_context option" pyval document_request
  | ReconcileCall "auth_context option" operation_kind pyval

fun call_address :: "journey_call \<Rightarrow> operation_identity option" where
  "call_address (BatchCall auth key) = addressed auth BATCH_CREATE key"
| "call_address (DocumentCall reference auth key rq) = addressed auth DOCUMENT_CREATE key"
| "call_address (ReconcileCall auth kind key) = addressed auth kind key"

text \<open>What the caller learns: an error, the answer of a create, or the state of a reconciliation.\<close>

fun journey_run :: "'w journey_ports \<Rightarrow> journey_call \<Rightarrow> ('w, durable_response option) io" where
  "journey_run jp (BatchCall auth key) = bind (create_batch jp auth key) (\<lambda>out. ret (Some (cr_response out)))"
| "journey_run jp (DocumentCall reference auth key rq) =
     bind (create_document jp reference auth key rq) (\<lambda>out. ret (Some (cr_response (fst out))))"
| "journey_run jp (ReconcileCall auth kind key) = bind (reconcile jp auth kind key) (\<lambda>ans. ret (rr_response ans))"

fun call_kind :: "journey_call \<Rightarrow> operation_kind" where
  "call_kind (BatchCall auth key) = BATCH_CREATE"
| "call_kind (DocumentCall reference auth key rq) = DOCUMENT_CREATE"
| "call_kind (ReconcileCall auth kind key) = kind"

fun journey_runs :: "'w journey_ports \<Rightarrow> journey_call list \<Rightarrow> 'w \<Rightarrow> 'w" where
  "journey_runs jp [] w = w"
| "journey_runs jp (c # cs) w = journey_runs jp cs (snd (journey_run jp c w))"

lemma reconciliation_response:
  assumes "reconciliation_of jp kind r = Inr ans" "rr_response ans = Some resp"
  shows "led_state r = operation_state.SUCCEEDED \<and> journey_response jp kind r = Inr resp"
  using assms by (auto simp: reconciliation_of_def Let_def split: if_splits sum.splits)

context journey_site
begin

lemma triple_call:
  "triple anything (journey_run jp c)
    (\<lambda>x m b. \<forall>resp. x = Some resp \<longrightarrow> acknowledged jp (call_address c) (call_kind c) resp m) (\<lambda>e. anything)"
proof (cases c)
  case (BatchCall auth key)
  show ?thesis unfolding BatchCall journey_run.simps
    by (rule triple_bind [OF triple_create_batch triple_ret]) simp
next
  case (DocumentCall reference auth key rq)
  show ?thesis unfolding DocumentCall journey_run.simps
    by (rule triple_bind [OF triple_create_document triple_ret]) simp
next
  case (ReconcileCall auth kind key)
  show ?thesis unfolding ReconcileCall journey_run.simps
    by (rule triple_bind [OF triple_reconcile triple_ret])
      (auto simp: reported_def acknowledged_def dest: reconciliation_response)
qed

lemma modest_call: "modest (call_address c) anything (journey_run jp c)"
proof (cases c)
  case (BatchCall auth key)
  show ?thesis unfolding BatchCall journey_run.simps call_address.simps
    by (rule modest_then [OF modest_create_batch triple_create_batch frame_simps(1)
        triple_ret [where Q = "\<lambda>x. anything"]]) (simp add: anything_def)
next
  case (DocumentCall reference auth key rq)
  show ?thesis unfolding DocumentCall journey_run.simps call_address.simps
    by (rule modest_then [OF modest_create_document triple_create_document frame_simps(1)
        triple_ret [where Q = "\<lambda>x. anything"]]) (simp add: anything_def)
next
  case (ReconcileCall auth kind key)
  show ?thesis unfolding ReconcileCall journey_run.simps
    by (intro modest_frame frame_rules frame_reconcile)
qed

lemma call_run:
  assumes "sound w" "journey_run jp c w = (r, w')"
  shows "step w w'" "one_write (call_address c) w w'"
    "r = Inr (Some resp) \<Longrightarrow> acknowledged jp (call_address c) (call_kind c) resp (view w')"
proof -
  have any: "anything (view w) (bview w)" by (simp add: anything_def)
  note run = triple_run [OF triple_call assms(1) any assms(2)]
  show "step w w'" by (rule run(1))
  show "r = Inr (Some resp) \<Longrightarrow> acknowledged jp (call_address c) (call_kind c) resp (view w')" using run(2) by blast
  show "one_write (call_address c) w w'" using modest_call assms any unfolding modest_def by blast
qed

lemma calls_step: "sound w \<Longrightarrow> step w (journey_runs jp cs w)"
proof (induction cs arbitrary: w)
  case (Cons c cs)
  have first: "step w (snd (journey_run jp c w))" using call_run(1) [OF Cons.prems] by (metis prod.collapse)
  show ?case using step_trans [OF first Cons.IH [OF step_sound [OF first]]] by simp
qed (simp add: step_refl)

text \<open>A business record that calls added is the resource of the operation that one of them addressed.\<close>

lemma calls_owned:
  assumes "sound w" "bview (journey_runs jp cs w) k \<noteq> None" "bview w k = None"
  shows "\<exists>c\<in>set cs. \<exists>i r. call_address c = Some i \<and> ledger_at (view (journey_runs jp cs w)) i = Some r \<and> resource_key r = k"
  using assms
proof (induction cs arbitrary: w)
  case (Cons c cs)
  let ?w1 = "snd (journey_run jp c w)"
  have run: "journey_run jp c w = (fst (journey_run jp c w), ?w1)" by simp
  have sound: "sound ?w1" by (rule step_sound [OF call_run(1) [OF Cons.prems(1) run]])
  show ?case
  proof (cases "bview ?w1 k")
    case None
    with Cons.IH [OF sound _ None] Cons.prems(2) show ?thesis by auto
  next
    case (Some d)
    with call_run(2) [OF Cons.prems(1) run] Cons.prems(3)
    obtain i q where q: "call_address c = Some i" "ledger_at (view ?w1) i = Some q" "resource_key q = k"
      by (auto simp: one_write_def split: if_splits)
    obtain q' where "ledger_at (view (journey_runs jp cs ?w1)) i = Some q'" "ledger_evolves q q'"
      using step_at [OF calls_step [OF sound] sound q(2)] by blast
    moreover from this(2) have "resource_key q' = resource_key q"
      using same_reservation_key by (simp add: ledger_evolves_def)
    ultimately show ?thesis using q(1,3) by auto
  qed
qed simp

lemma calls_acknowledged:
  assumes "sound w" "journey_run jp c w = (Inr (Some resp), w')" "sound w'"
  shows "bview (journey_runs jp cs w') (answered_key (call_kind c) resp) \<noteq> None"
proof -
  have "acknowledged jp (call_address c) (call_kind c) resp (view w')" by (rule call_run(3) [OF assms(1,2) refl])
  moreover have "backed (view w') (bview w')" using assms(3) by (simp add: sound_def journey_sound_def)
  ultimately have "bview w' (answered_key (call_kind c) resp) \<noteq> None" by (rule acknowledged_backed)
  then show ?thesis using step_present [OF calls_step [OF assms(3)]] by blast
qed

lemma calls_replay:
  assumes "sound w" "journey_run jp c w = (Inr (Some resp), w1)"
    and "journey_run jp c' (journey_runs jp cs w1) = (Inr (Some resp'), w2)"
    and "call_address c' = call_address c"
  shows "dict_eq resp' resp"
proof -
  have sound1: "sound w1" by (rule step_sound [OF call_run(1) [OF assms(1,2)]])
  note step = calls_step [OF sound1, of cs]
  have step2: "step w1 w2" by (rule step_trans [OF step call_run(1) [OF step_sound [OF step] assms(3)]])
  obtain i r where r: "call_address c = Some i" "ledger_at (view w1) i = Some r" "journey_response jp (call_kind c) r = Inr resp"
    using call_run(3) [OF assms(1,2) refl] by (auto simp: acknowledged_def)
  obtain r' where r': "ledger_at (view w2) i = Some r'" "journey_response jp (call_kind c') r' = Inr resp'"
    using call_run(3) [OF step_sound [OF step] assms(3) refl] r(1) assms(4) by (auto simp: acknowledged_def)
  obtain q where "ledger_at (view w2) i = Some q" "ledger_evolves r q" using step_at [OF step2 sound1 r(2)] by blast
  with r' have "same_reservation r r'" by (simp add: ledger_evolves_def)
  then have "dict_eq (led_durable_response r') (led_durable_response r)" by (simp add: same_reservation_def)
  with r(3) r'(2) show ?thesis by (auto simp: journey_response_def split: if_splits)
qed

end

section \<open>Properties\<close>

text \<open>
  (C6) What is acknowledged is there: when a create or a reconciliation answers with a durable
  response, the business record it names exists, and it exists after any further calls.
\<close>

theorem acknowledged_resource_exists:
  assumes "journey_site jp view bview" "journey_sound (view w) (bview w)"
    and "journey_run jp c w = (Inr (Some resp), w')"
  shows "bview (journey_runs jp cs w') (answered_key (call_kind c) resp) \<noteq> None"
proof -
  have sound: "journey_site.sound view bview w" using assms(2) by (simp add: journey_site.sound_def [OF assms(1)])
  show ?thesis
    by (rule journey_site.calls_acknowledged [OF assms(1) sound assms(3)
      journey_site.step_sound [OF assms(1) journey_site.call_run(1) [OF assms(1) sound assms(3)]]])
qed

text \<open>
  (C7) One business record per idempotency key: after any sequence of calls, each business record
  they added is the one named by the ledger record of an operation that one of the calls addressed,
  and the ledger has a single record per operation.
\<close>

theorem business_records_owned:
  assumes "journey_site jp view bview" "journey_sound (view w) (bview w)"
    and "bview (journey_runs jp cs w) k \<noteq> None" "bview w k = None"
  shows "\<exists>c\<in>set cs. \<exists>i r. call_address c = Some i \<and> ledger_at (view (journey_runs jp cs w)) i = Some r \<and> resource_key r = k"
proof -
  have sound: "journey_site.sound view bview w" using assms(2) by (simp add: journey_site.sound_def [OF assms(1)])
  show ?thesis by (rule journey_site.calls_owned [OF assms(1) sound assms(3,4)])
qed

text \<open>
  (C8) Replays answer the same: when two calls address the same operation and both answer with a
  durable response, whatever calls ran in between, the responses are equal.
\<close>

theorem replay_answers_the_same:
  assumes "journey_site jp view bview" "journey_sound (view w) (bview w)"
    and "journey_run jp c w = (Inr (Some resp), w1)" "journey_run jp c' (journey_runs jp cs w1) = (Inr (Some resp'), w2)"
    and "call_address c' = call_address c"
  shows "dict_eq resp' resp"
proof -
  have sound: "journey_site.sound view bview w" using assms(2) by (simp add: journey_site.sound_def [OF assms(1)])
  show ?thesis by (rule journey_site.calls_replay [OF assms(1) sound assms(3-5)])
qed

end
