(* ===== verification/LedgerProgress.thy ===== *)
theory LedgerProgress
  imports LedgerRuns
begin

text \<open>
  Progress of the ledger: on a table whose calls are answered, a reservation of a new key and a
  transition that passes the checks succeed, and what they leave is read back. (On any table the
  other theories show what the outcomes mean; here nothing fails.)
\<close>

section \<open>Records as they were written\<close>

text \<open>A record as it was written.\<close>

definition written_at :: "memory \<Rightarrow> operation_identity \<Rightarrow> ledger_record \<Rightarrow> bool" where
  "written_at m i r \<longleftrightarrow> ledger_valid r \<and> record_identity r = i \<and> m (ledger_key i) = Some (stored_item (ledger_attributes r))"

lemma written_at_ledger: "written_at m i r \<Longrightarrow> ledger_at m i = Some r"
  by (auto simp: written_at_def ledger_at_Some ledger_read_back)

lemma written_tests:
  assumes "written_at m i current" "led_state current = ta_expected a" "led_version current = ta_version a"
  shows "list_all (test_holds (m (ledger_key i))) (ledger_tests i a current)"
proof -
  have i: "record_identity current = i" and at: "m (ledger_key i) = Some (stored_item (ledger_attributes current))"
    using assms(1) by (simp_all add: written_at_def)
  have fields: "oi_contract_version i = led_contract_version current" "oi_operation i = led_operation current"
    "oi_actor_digest i = led_actor_digest current" "oi_customer_id i = led_customer_id current"
    "oi_deployment_id i = led_deployment_id current" "oi_key_digest i = led_key_digest current"
    using i by (auto simp: record_identity_def)
  show ?thesis
    unfolding at ledger_tests_def fields
    by (simp add: attributes_lookup assms(2,3) py_eq_def)
qed

text \<open>A transition of the record just reserved to success.\<close>

lemma success_plan:
  assumes "led_state p = operation_state.PENDING" "led_version p = 1" "led_completed_at p = None"
    "instant (led_updated_at p) \<le> t" "instant (led_created_at p) \<le> t" "t < instant (led_expires_at p)"
    "ledger_valid p" "record_identity p = i"
  defines "c \<equiv> \<lparr>tc_expected = operation_state.PENDING, tc_version = led_version p, tc_next = operation_state.SUCCEEDED,
      tc_response = durable_dict (led_durable_response p), tc_failure = PNone, tc_completed = Some (Aware t),
      tc_updated = Aware t\<rparr>"
    and "a \<equiv> \<lparr>ta_expected = operation_state.PENDING, ta_version = 1, ta_next = operation_state.SUCCEEDED, ta_failure = None,
      ta_completed = Some (Aware t), ta_updated = Aware t\<rparr>"
  shows "ledger_transition_plan i c p a (led_durable_response p) (Some (Aware t))"
proof -
  have "positive_integer (PInt 1) = Inr 1" by (simp add: positive_integer_PInt)
  then have "transition_arguments_new (tc_expected c) (tc_version c) (tc_next c) (tc_failure c) (tc_completed c) (tc_updated c) = Inr a"
    by (simp add: c_def a_def assms(2) transition_arguments_new_def aware_utc_def FAILURE_STATES_def)
  moreover have "validated_durable_response (durable_dict (led_durable_response p)) i (led_resource_type p) (led_resource_id p)
      = Inr (led_durable_response p)"
    using assms(7,8) by (simp add: ledger_valid_def)
  then have "transition_response i p (tc_response c) = Inr (led_durable_response p)"
    by (simp add: transition_response_def c_def durable_dict_def dict_eq_iff)
  moreover have "transition_checks a p = Inr ()"
    using assms(1-6) by (simp add: transition_checks_def a_def)
  ultimately show ?thesis by (simp add: ledger_transition_plan_def effective_completed_def COMPLETED_STATES_def a_def)
qed

section \<open>A table that answers\<close>

locale available_table = conditional_table +
  assumes put_answers: "request_allowed (view w) (Single (Put d ts)) \<Longrightarrow> \<exists>w'. dy_put_item dy d ts w = (Inr (), w')"
    and update_answers: "request_allowed (view w) (Single (Update k sets removes ts)) \<Longrightarrow>
      \<exists>w'. dy_update_item dy k sets removes ts w = (Inr (), w')"
    and get_answers: "\<exists>g w'. dy_get_item dy k w = (Inr (PDict g), w')"
begin

lemma load_answers:
  assumes "ledger_at (view w) i = Some q"
  shows "\<exists>w'. ledger_load dy i w = (Inr (Some q), w') \<and> view w' = view w"
proof -
  obtain r w' where load: "ledger_load dy i w = (r, w')" by fastforce
  obtain g w1 where get: "dy_get_item dy (ledger_key i) w = (Inr (PDict g), w1)" using get_answers by blast
  have "r = Inr (Some q)"
  proof (rule disjE [OF load_found [OF load assms]])
    assume "\<exists>e. r = Inl e \<and> sdk_error e"
    then obtain e where e: "r = Inl e" "sdk_error e" by blast
    then have "e = OperationContractError \<or> (\<exists>v. ledger_record_from_item v = Inl e)"
      using load get by (auto simp: ledger_load_def io_simps split: option.splits sum.splits if_splits)
    moreover have "\<not> (\<exists>v. map_of g ''Item'' = Some v \<and> ledger_record_from_item v = Inl e)"
      using load_response(1) [OF get] assms
      by (auto simp: ledger_at_Some response_item_def response_get_def py_get_def split: pyval.splits option.splits)
    ultimately show ?thesis
      using load get e by (auto simp: ledger_load_def io_simps split: option.splits sum.splits if_splits)
  qed
  then show ?thesis using load load_view [OF load] by blast
qed

lemma put_writes:
  assumes "view w (key_of d) = None"
  shows "\<exists>w'. dy_put_item dy d unless_exists w = (Inr (), w') \<and> view w' = (view w)(key_of d \<mapsto> stored_item d)"
proof -
  have "request_allowed (view w) (Single (Put d unless_exists))"
    using assms by (simp add: allowed_def unless_exists_def)
  then obtain w' where "dy_put_item dy d unless_exists w = (Inr (), w')" using put_answers by blast
  then show ?thesis using put_done by blast
qed

section \<open>Reservations\<close>

lemma reserve_answers:
  assumes "reserve_plan c p" "reserve_call_ok c" "view w (ledger_key (rc_identity c)) = None"
  shows "\<exists>w'. run_reserve dy c w = (Inr \<lparr>ro_record = p, ro_created_here = True\<rparr>, w') \<and>
    written_at (view w') (rc_identity c) p"
proof -
  have valid: "ledger_valid p" by (rule reserve_plan_valid [OF assms(1,2)])
  have i: "record_identity p = rc_identity c" by (rule reserve_plan_record [OF assms(1)])
  have item: "ledger_item p = Inr (ledger_attributes p)" by (rule ledger_item_attributes [OF valid])
  have key: "key_of (ledger_attributes p) = ledger_key (rc_identity c)" by (simp add: ledger_attributes_head i)
  obtain w' where w': "dy_put_item dy (ledger_attributes p) unless_exists w = (Inr (), w')"
    "view w' = (view w)(ledger_key (rc_identity c) \<mapsto> stored_item (ledger_attributes p))"
    using put_writes [of w "ledger_attributes p"] assms(3) unfolding key by blast
  then have "run_reserve dy c w = (Inr \<lparr>ro_record = p, ro_created_here = True\<rparr>, w')"
    using assms(1) item by (simp add: run_reserve_def ledger_reserve_def reserve_plan_def attempt_def io_simps)
  with w'(2) valid i show ?thesis by (simp add: written_at_def)
qed

text \<open>A reservation of a key that is taken, for the same request, answers the record that holds it.\<close>

lemma reserve_finds:
  assumes "reserve_plan c p" "reserve_call_ok c" "carrying (view w)" "ledger_at (view w) (rc_identity c) = Some q"
    and "led_request_digest q = led_request_digest p" "led_resource_type q = led_resource_type p"
  shows "\<exists>b w'. run_reserve dy c w = (Inr \<lparr>ro_record = q, ro_created_here = b\<rparr>, w') \<and> (b \<longrightarrow> same_record q p) \<and>
    view w' = view w"
proof -
  have item: "ledger_item p = Inr (ledger_attributes p)"
    by (rule ledger_item_attributes [OF reserve_plan_valid [OF assms(1,2)]])
  obtain x w1 where put: "dy_put_item dy (ledger_attributes p) unless_exists w = (x, w1)" by fastforce
  have taken: "view w (ledger_key (rc_identity c)) \<noteq> None" using assms(4) by (auto simp: ledger_at_Some)
  have same: "view w1 = view w \<and> \<not> (\<exists>u. x = Inr u)"
    using reserve_put(3) [OF assms(1,2) item assms(3) put] taken by blast
  then obtain e where e: "x = Inl e" by (cases x) auto
  obtain w2 where load: "ledger_load dy (rc_identity c) w1 = (Inr (Some q), w2)" "view w2 = view w1"
    using load_answers assms(4) same by metis
  have "run_reserve dy c w = (Inr \<lparr>ro_record = q,
      ro_created_here = (error_code e \<noteq> Some CONDITIONAL_FAILURE \<and> same_record q p)\<rparr>, w2)"
    using assms(1,5,6) item put e load(1)
    by (simp add: run_reserve_def ledger_reserve_def reserve_plan_def attempt_def io_simps)
  with load(2) same show ?thesis by auto
qed

section \<open>Transitions\<close>

lemma transition_answers:
  assumes "written_at (view w) i current" "ledger_transition_plan i c current a response completed"
    and "instant (tc_updated c) < max_instant" "led_state current \<noteq> ta_next a"
  shows "\<exists>w'. run_transition dy i c w = (Inr (advance a response completed current), w')"
proof -
  have args: "transition_arguments_new (tc_expected c) (tc_version c) (tc_next c) (tc_failure c) (tc_completed c) (tc_updated c) = Inr a"
    and resp: "transition_response i current (tc_response c) = Inr response"
    and completed: "completed = effective_completed a current"
    and state: "ta_next a \<in> set COMPLETED_STATES \<or> effective_completed a current = None"
    and checks: "transition_checks a current = Inr ()"
    using assms(2) unfolding ledger_transition_plan_def by (elim conjE, simp)+
  note at = written_at_ledger [OF assms(1)]
  obtain w1 where load: "ledger_load dy i w = (Inr (Some current), w1)" "view w1 = view w"
    using load_answers [OF at] by blast
  have "request_allowed (view w1) (Single (Update (ledger_key i) (ledger_sets a response completed)
      (ledger_removes a completed) (ledger_tests i a current)))"
    using written_tests [OF assms(1) transition_checks_Inr(1,2) [OF checks]] load(2) by (simp add: allowed_def)
  then obtain w2 where update: "dy_update_item dy (ledger_key i) (ledger_sets a response completed)
      (ledger_removes a completed) (ledger_tests i a current) w1 = (Inr (), w2)"
    using update_answers by blast
  have "ledger_at (view w2) i = Some (advance a response completed current)"
    by (rule transition_update(3) [OF at load(2) assms(2,3) update]) simp
  then obtain w3 where "ledger_load dy i w2 = (Inr (Some (advance a response completed current)), w3)"
    using load_answers by blast
  then have "transition_write_verified dy i a current response (effective_completed a current) w1
      = (Inr (advance a response completed current), w3)"
    using update advance_applied [of a response completed current] unfolding completed [symmetric]
    by (simp add: transition_write_verified_def attempt_def io_simps transition_applied_def)
  then have "run_transition dy i c w = (Inr (advance a response completed current), w3)"
    using args resp state checks load(1) assms(4)
    unfolding run_transition_def ledger_transition_def Let_def by (simp add: io_simps)
  then show ?thesis by blast
qed

end

interpretation answering: available_table "memory_table answer" mw_items for answer
  by unfold_locales (auto simp: memory_table_def memory_request_def)

end
