(* ===== verification/JourneyProgress.thy ===== *)
theory JourneyProgress
  imports JourneyRuns LedgerProgress
begin

text \<open>
  Progress of the journey service: on a site whose services answer, the creation of a batch under a
  new idempotency key is acknowledged, unless the retention period passes meanwhile.
\<close>

section \<open>The size of a response\<close>

definition plain_char :: "char \<Rightarrow> bool" where
  "plain_char c \<longleftrightarrow> 32 \<le> code c \<and> code c < 128 \<and> code c \<noteq> 34 \<and> code c \<noteq> 92"

lemma plain_text_chars: "plain_char c \<Longrightarrow> is_alnum c \<or> c \<in> set ''/._:@- '' \<or> plain_char c"
  by simp

lemma plain_json_char: "plain_char c \<Longrightarrow> json_char c = [c]"
  by (simp add: plain_char_def json_char_def)

lemma utf8_length_append [simp]: "utf8_length (s @ t) = utf8_length s + utf8_length t"
  by (simp add: utf8_length_def)

lemma plain_json_string: "list_all plain_char s \<Longrightarrow> utf8_length (json_string s) = length s + 2"
proof -
  assume plain: "list_all plain_char s"
  then have "concat (map json_char s) = s" by (induction s) (simp_all add: plain_json_char)
  moreover have "utf8_length s = length s" using plain by (induction s) (auto simp: utf8_length_def plain_char_def)
  moreover have "utf8_length [CHR 0x22] = 1" by (simp add: utf8_length_def code_def)
  ultimately show ?thesis by (simp only: json_string_def utf8_length_append)
qed

lemma utf8_length_join:
  "utf8_length (join '','' xs) \<le> sum_list (map (\<lambda>x. utf8_length x + 1) xs)"
  by (induction "'',''" xs rule: join.induct) (simp_all add: utf8_length_def code_def)

definition plain_member :: "string \<times> json \<Rightarrow> nat" where
  "plain_member kv = length (fst kv) + (case snd kv of JStr s \<Rightarrow> length s | _ \<Rightarrow> 0) + 6"

lemma plain_json_flat:
  assumes "\<And>k v. (k, v) \<in> set kvs \<Longrightarrow> list_all plain_char k \<and> (\<exists>s. v = JStr s \<and> list_all plain_char s)"
  shows "utf8_length (json_flat kvs) \<le> 2 + sum_list (map plain_member kvs)"
proof -
  have "utf8_length '':'' = 1" by (simp add: utf8_length_def code_def)
  then have "utf8_length (json_string k @ '':'' @ json_value v) + 1 = plain_member (k, v)" if "(k, v) \<in> set kvs" for k v
    using assms [OF that] by (auto simp: plain_json_string plain_member_def simp del: append.simps append_Cons)
  then have "sum_list (map (\<lambda>(k, v). utf8_length (json_string k @ '':'' @ json_value v) + 1) kvs)
      = sum_list (map plain_member kvs)"
    by (intro arg_cong [where f = sum_list] map_cong) auto
  moreover have "utf8_length ''{'' = 1" "utf8_length ''}'' = 1" by (simp_all add: utf8_length_def code_def)
  ultimately show ?thesis
    using utf8_length_join [of "map (\<lambda>(k, v). json_string k @ '':'' @ json_value v) kvs"]
    by (simp add: json_flat_def json_object_def comp_def case_prod_unfold del: append.simps append_Cons)
qed

text \<open>A response all of whose values are plain texts.\<close>

definition texts :: "(string \<times> string) list \<Rightarrow> durable_response" where
  "texts kvs = map (\<lambda>(k, s). (k, Some s)) kvs"

lemma plain_response_size:
  assumes "\<And>k s. (k, s) \<in> set kvs \<Longrightarrow> list_all plain_char k \<and> list_all plain_char s"
  shows "utf8_length (durable_json (texts kvs)) \<le> 2 + sum_list (map (\<lambda>(k, s). length k + length s + 6) kvs)"
proof -
  let ?js = "map (\<lambda>(k, v). (k, case v of Some s \<Rightarrow> JStr s | None \<Rightarrow> JNull)) (texts kvs)"
  have "utf8_length (durable_json (texts kvs)) \<le> 2 + sum_list (map plain_member (sort_key fst ?js))"
    unfolding durable_json_def by (rule plain_json_flat) (use assms in \<open>auto simp: texts_def\<close>)
  also have "sum_list (map plain_member (sort_key fst ?js)) = sum_list (map plain_member ?js)"
    by (rule sum_list_sort_key)
  also have "map plain_member ?js = map (\<lambda>(k, s). length k + length s + 6) kvs"
    by (auto simp: texts_def plain_member_def)
  finally show ?thesis .
qed

lemma plain_digits: "list_all is_digit s \<Longrightarrow> list_all plain_char s"
  by (induction s) (auto simp: is_digit_def plain_char_def)

lemma plain_timestamp: "list_all plain_char (timestamp_text t)" and length_timestamp: "length (timestamp_text t) \<le> 27"
proof -
  have "list_all plain_char (pad_digits w n)" for w n by (rule plain_digits [OF pad_digits_all])
  then show "list_all plain_char (timestamp_text t)"
    by (simp add: timestamp_text_def iso_date_def iso_time_def Let_def plain_char_def code_def split: prod.split)
  show "length (timestamp_text t) \<le> 27"
    by (simp add: timestamp_text_def iso_date_def iso_time_def Let_def split: prod.split)
qed

lemma plain_resource_id: "resource_id_pattern s \<Longrightarrow> list_all plain_char s \<and> length s = 32"
  by (auto simp: resource_id_pattern_def match_prefixed_def list_all_iff is_lower_hex_def is_digit_def plain_char_def)

section \<open>The reservation of a batch\<close>

definition batch_texts :: "string \<Rightarrow> string \<Rightarrow> (string \<times> string) list" where
  "batch_texts rid created =
     [(''schemaVersion'', ''scanalyze.batch-create-result.v1''), (''contractVersion'', CONTRACT_VERSION),
      (''operation'', ''batches.create''), (''batchId'', rid), (''status'', ''OPEN''), (''createdAt'', created)]"

lemma batch_durable_texts: "PDict (batch_durable rid created) = durable_dict (texts (batch_texts rid created))"
  by (simp add: batch_durable_def durable_dict_def texts_def batch_texts_def text_value_def)

lemma batch_response_ok:
  assumes "resource_id_pattern rid" "t < max_instant" "oi_contract_version i = CONTRACT_VERSION"
    "oi_operation i = ''batches.create''"
  shows "validated_durable_response (PDict (batch_durable rid (timestamp_text t))) i ''batch'' rid
    = Inr (texts (batch_texts rid (timestamp_text t)))"
proof -
  let ?r = "texts (batch_texts rid (timestamp_text t))"
  note rid = plain_resource_id [OF assms(1)]
  have names: "no_forbidden_names (durable_dict ?r)"
    unfolding text_dict_names by (simp add: texts_def batch_texts_def) code_simp
  have fields: "set (map fst (batch_durable rid (timestamp_text t))) = set (the (DURABLE_RESPONSE_FIELDS ''batch''))"
    by (simp add: batch_durable_def DURABLE_RESPONSE_FIELDS_def)
  have scalars: "durable_scalars ''batch'' (batch_durable rid (timestamp_text t)) = Inr ?r"
    using rid length_timestamp [of t]
    by (simp add: batch_durable_def durable_scalar_def texts_def batch_texts_def MAX_SCALAR_STRING_LENGTH_def
        CONTRACT_VERSION_def)
  have binding: "durable_binding_ok i ''batch'' rid ?r"
    using assms(3,4)
    by (simp add: durable_binding_ok_def texts_def batch_texts_def response_text_def resource_field_def
        expected_schema_status_def)
  have created: "response_text ?r ''createdAt'' = Some (timestamp_text t)" "response_text ?r ''batchId'' = Some rid"
    by (simp_all add: texts_def batch_texts_def response_text_def)
  have "utf8_length (durable_json ?r) \<le> 2 + sum_list (map (\<lambda>(k, s). length k + length s + 6) (batch_texts rid (timestamp_text t)))"
    by (rule plain_response_size)
      (auto simp: batch_texts_def CONTRACT_VERSION_def rid plain_timestamp, simp_all add: plain_char_def code_def)
  also have "\<dots> \<le> MAX_DURABLE_RESPONSE_BYTES"
    using rid length_timestamp [of t] by (simp add: batch_texts_def CONTRACT_VERSION_def MAX_DURABLE_RESPONSE_BYTES_def)
  finally have size: "utf8_length (durable_json ?r) \<le> MAX_DURABLE_RESPONSE_BYTES" .
  have names': "no_forbidden_names (PDict (batch_durable rid (timestamp_text t)))"
    using names by (simp only: batch_durable_texts)
  show ?thesis
    unfolding validated_durable_response_def prod.case pyval.case
    using names' fields scalars binding size created assms(1,2)
    by (simp add: DURABLE_RESPONSE_FIELDS_def DURABLE_RESPONSE_REQUIRED_FIELDS_def durable_content_ok_def text_value_def)
qed

lemma batch_plan:
  assumes "resource_id_pattern rid" "oi_contract_version i = CONTRACT_VERSION" "oi_operation i = ''batches.create''"
    and "normalized_digest (PStr digest) = Inr digest" "now < max_instant" "now < expires"
  shows "reserve_arguments i (PStr digest) (PStr ''batch'') (PStr rid) (PDict (batch_durable rid (timestamp_text now)))
      (Aware now) (Aware expires)
    = Inr (ledger_candidate i digest ''batch'' rid (texts (batch_texts rid (timestamp_text now))) (Aware now) (Aware expires))"
proof -
  have "response_text (texts (batch_texts rid (timestamp_text now))) ''createdAt'' = Some (timestamp_text now)"
    by (simp add: texts_def batch_texts_def response_text_def)
  moreover have "validated_identifier (PStr ''batch'') = Inr ''batch''" by code_simp
  ultimately show ?thesis
    using assms batch_response_ok [OF assms(1,5,2,3)]
    by (simp add: reserve_arguments_def validated_resource_id_def OPERATION_RESOURCE_TYPES_def aware_utc_def text_value_def)
qed

section \<open>A site whose services answer\<close>

text \<open>
  \<open>time\<close> is the time of the site, which never runs back and is what its clock reads; pydantic writes times as the service does and reads them.
\<close>

locale journey_site_up = journey_site jp view bview
  for jp :: "'w journey_ports" and view :: "'w \<Rightarrow> memory" and bview :: "'w \<Rightarrow> business" +
  fixes time :: "'w \<Rightarrow> nat"
  assumes ledger_up: "available_table (jp_table jp) view"
    and ledger_time: "dy_put_item (jp_table jp) d ts w = (r, w') \<Longrightarrow> time w \<le> time w'"
      "dy_update_item (jp_table jp) k sets removes ts w = (r, w') \<Longrightarrow> time w \<le> time w'"
      "dy_get_item (jp_table jp) k w = (g, w') \<Longrightarrow> time w \<le> time w'"
    and clock_up: "\<exists>w'. jp_clock jp w = (Aware (time w'), w') \<and> time w \<le> time w'"
    and ids_up: "\<exists>s w'. jp_new_id jp w = (PStr s, w') \<and> resource_id_pattern s \<and> time w \<le> time w'"
    and batch_up: "bview w (''batch'', business_id ''batch_id'' d) = None \<Longrightarrow> \<exists>w'. jp_batch_put jp d w = (Inr (), w')"
    and business_time: "jp_batch_put jp d w = (r, w') \<Longrightarrow> time w \<le> time w'"
      "jp_batch_get jp b w = (g, w') \<Longrightarrow> time w \<le> time w'" "jp_document_get jp b w = (g, w') \<Longrightarrow> time w \<le> time w'"
    and times_up: "add_seconds (time w) (jp_retention_seconds jp) < max_instant"
    and dump_up: "jp_dump_time jp t = timestamp_text (instant t)" "n < max_instant \<Longrightarrow> jp_model_time jp (timestamp_text n)"
    and retention_up: "0 < jp_retention_seconds jp"
begin

lemma now_up: "\<exists>w'. journey_now jp w = (Inr (Aware (time w')), w') \<and> view w' = view w \<and> bview w' = bview w \<and> time w \<le> time w'"
proof -
  obtain w' where w': "jp_clock jp w = (Aware (time w'), w')" "time w \<le> time w'" using clock_up by blast
  then show ?thesis using clock_law [OF w'(1)] by (simp add: journey_now_def)
qed

lemma id_up:
  "\<exists>s w'. jp_new_id jp w = (PStr s, w') \<and> new_resource_id jp w = (Inr s, w') \<and> resource_id_pattern s \<and>
    view w' = view w \<and> bview w' = bview w \<and> time w \<le> time w'"
proof -
  obtain s w' where "jp_new_id jp w = (PStr s, w')" "resource_id_pattern s" "time w \<le> time w'"
    using ids_up by blast
  then show ?thesis using id_law by (auto simp: new_resource_id_def)
qed

text \<open>Runs never go back in time.\<close>

definition forward :: "('w, 'a) io \<Rightarrow> bool" where
  "forward m \<longleftrightarrow> (\<forall>w r w'. m w = (r, w') \<longrightarrow> time w \<le> time w')"

lemma forward_simps: "forward (ret x)" "forward (raise e)" "forward (lift y)" "forward (ensure b e)"
  by (auto simp: forward_def io_simps)

lemma forward_bind: "forward m \<Longrightarrow> (\<And>x. forward (k x)) \<Longrightarrow> forward (bind m k)"
  unfolding forward_def bind_def by (auto split: prod.splits sum.splits) (meson order.trans)+

lemma forward_catch: "forward m \<Longrightarrow> (\<And>e. forward (h e)) \<Longrightarrow> forward (catch m h)"
  unfolding forward_def catch_def by (auto split: prod.splits sum.splits) (meson order.trans)+

lemma forward_attempt: "forward m \<Longrightarrow> forward (attempt m)"
  unfolding attempt_def by (intro forward_catch forward_bind forward_simps)

lemma forward_case_option: "forward m \<Longrightarrow> (\<And>x. forward (f x)) \<Longrightarrow> forward (case v of None \<Rightarrow> m | Some x \<Rightarrow> f x)"
  by (cases v) simp_all

lemma forward_if: "forward m \<Longrightarrow> forward n \<Longrightarrow> forward (if b then m else n)"
  by simp

lemma forward_calls:
  "forward (dy_put_item (jp_table jp) d ts)" "forward (dy_get_item (jp_table jp) k)"
  "forward (dy_update_item (jp_table jp) k sets removes ts)" "forward (jp_batch_put jp d)"
  "forward (jp_batch_get jp b)" "forward (jp_document_get jp b)"
  using ledger_time business_time by (auto simp: forward_def)

lemma forward_now: "forward (journey_now jp)"
  unfolding forward_def by (metis now_up prod.inject)

lemmas forward_rules = forward_bind forward_catch forward_attempt forward_simps forward_case_option forward_if
  forward_calls forward_now

lemma forward_load: "forward (ledger_load (jp_table jp) i)"
  unfolding ledger_load_def by (intro forward_rules) (auto split: pyval.splits intro!: forward_rules)

lemma forward_journey_reserve: "forward (journey_reserve jp i digest rtype rid durable now)"
  unfolding journey_reserve_def ledger_reserve_def by (intro forward_rules forward_load)

lemma forward_to: "forward (transition_to jp i s r s' failure completed updated)"
  unfolding transition_to_def ledger_transition_def transition_write_verified_def Let_def
  by (intro forward_rules forward_load)

lemma forward_success: "forward (transition_success jp i r)"
  unfolding transition_success_def
  by (intro forward_rules forward_to) (auto split: exn.split intro!: forward_rules forward_load)

section \<open>The creation of a batch\<close>

lemma reserve_up:
  assumes "proper_identity i" "oi_contract_version i = CONTRACT_VERSION" "oi_operation i = ''batches.create''"
    and "normalized_digest (PStr digest) = Inr digest" "resource_id_pattern rid" "view w (ledger_key i) = None"
    and "now = time w0"
  shows "\<exists>p w'. journey_reserve jp i digest ''batch'' rid (batch_durable rid (jp_dump_time jp (Aware now))) (Aware now) w
      = (Inr \<lparr>ro_record = p, ro_created_here = True\<rparr>, w') \<and> written_at (view w') i p \<and>
    p = ledger_candidate i digest ''batch'' rid (texts (batch_texts rid (timestamp_text now))) (Aware now)
      (Aware (add_seconds now (jp_retention_seconds jp))) \<and> bview w' = bview w \<and> time w \<le> time w'"
proof -
  let ?expires = "add_seconds now (jp_retention_seconds jp)"
  let ?p = "ledger_candidate i digest ''batch'' rid (texts (batch_texts rid (timestamp_text now))) (Aware now) (Aware ?expires)"
  define c where "c = \<lparr>rc_identity = i, rc_request = PStr digest, rc_type = PStr ''batch'', rc_id = PStr rid,
    rc_response = PDict (batch_durable rid (timestamp_text now)), rc_now = Aware now, rc_expires = Aware ?expires\<rparr>"
  have expires: "?expires < max_instant" "now < ?expires"
    using times_up [of w0] retention_up assms(7) by (simp_all add: add_seconds_def second_us_def)
  have plan: "reserve_plan c ?p"
    using batch_plan [OF assms(5,2,3,4) _ expires(2)] expires by (simp add: reserve_plan_def c_def)
  have ok: "reserve_call_ok c" using assms(1) expires by (simp add: reserve_call_ok_def c_def)
  obtain w' where w': "run_reserve (jp_table jp) c w = (Inr \<lparr>ro_record = ?p, ro_created_here = True\<rparr>, w')"
    "written_at (view w') i ?p"
    using available_table.reserve_answers [OF ledger_up plan ok] assms(6) by (auto simp: c_def)
  have run: "journey_reserve jp i digest ''batch'' rid (batch_durable rid (jp_dump_time jp (Aware now))) (Aware now) w
      = (Inr \<lparr>ro_record = ?p, ro_created_here = True\<rparr>, w')"
    using w'(1) expires(1)
    by (simp add: journey_reserve_def after_seconds_def dump_up catch_def bind_def lift_def run_reserve_def c_def)
  then have "bview w' = bview w" using frame_journey_reserve unfolding frame_def by blast
  moreover have "time w \<le> time w'" using run forward_journey_reserve unfolding forward_def by blast
  ultimately show ?thesis using run w'(2) by blast
qed

text \<open>A record that has succeeded with a request.\<close>

definition completed_at :: "'w \<Rightarrow> operation_identity \<Rightarrow> ledger_record \<Rightarrow> string \<Rightarrow> bool" where
  "completed_at w i q digest \<longleftrightarrow> ledger_at (view w) i = Some q \<and> led_state q = operation_state.SUCCEEDED \<and>
     led_resource_type q = ''batch'' \<and> led_request_digest q = digest"

lemma success_up:
  assumes p: "p = ledger_candidate i digest ''batch'' rid resp (Aware now) (Aware expires)"
    and "written_at (view w) i p" "now \<le> time w" "expires < max_instant"
  shows "(\<exists>q w'. transition_success jp i p w = (Inr q, w') \<and> led_durable_response q = resp \<and>
        completed_at w' i q digest \<and> instant (led_expires_at q) = expires) \<or>
    (\<exists>r w'. transition_success jp i p w = (r, w') \<and> expires \<le> time w')"
proof -
  obtain w1 where now: "journey_now jp w = (Inr (Aware (time w1)), w1)" "view w1 = view w" "time w \<le> time w1"
    using now_up by blast
  define t where "t = time w1"
  obtain r w2 where r: "transition_success jp i p w = (r, w2)" by fastforce
  show ?thesis
  proof (cases "t < expires")
    case False
    have "time w1 \<le> time w2"
    proof -
      obtain K where K: "transition_success jp i p = bind (journey_now jp) K" "\<And>x. forward (K x)"
        by (rule that) (auto simp: transition_success_def intro!: forward_rules forward_to forward_load split: exn.split)
      then have "K (Aware t) w1 = (r, w2)" using r now by (simp add: bind_def t_def)
      then show ?thesis using K(2) unfolding forward_def by blast
    qed
    with False r show ?thesis by (auto simp: t_def)
  next
    case True
    have written: "written_at (view w1) i p" using assms(2) now(2) by simp
    have fields: "led_state p = operation_state.PENDING" "led_version p = 1" "led_completed_at p = None"
      "instant (led_updated_at p) \<le> t" "instant (led_created_at p) \<le> t" "t < instant (led_expires_at p)"
      "led_durable_response p = resp" "led_resource_type p = ''batch''" "led_request_digest p = digest"
      "instant (led_expires_at p) = expires"
      using True assms(3) now(3) by (simp_all add: p ledger_candidate_def t_def)
    have valid: "ledger_valid p" "record_identity p = i" using assms(2) by (simp_all add: written_at_def)
    define c where "c = \<lparr>tc_expected = operation_state.PENDING, tc_version = led_version p, tc_next = operation_state.SUCCEEDED,
      tc_response = durable_dict (led_durable_response p), tc_failure = PNone, tc_completed = Some (Aware t),
      tc_updated = Aware t\<rparr>"
    define a where "a = \<lparr>ta_expected = operation_state.PENDING, ta_version = 1, ta_next = operation_state.SUCCEEDED,
      ta_failure = None, ta_completed = Some (Aware t), ta_updated = Aware t\<rparr>"
    have plan: "ledger_transition_plan i c p a (led_durable_response p) (Some (Aware t))"
      unfolding c_def a_def by (rule success_plan [OF fields(1-6) valid])
    let ?q = "advance a (led_durable_response p) (Some (Aware t)) p"
    have "instant (tc_updated c) < max_instant" "led_state p \<noteq> ta_next a"
      using True assms(4) fields(1) by (simp_all add: c_def a_def)
    then obtain w3 where run: "run_transition (jp_table jp) i c w1 = (Inr ?q, w3)"
      using available_table.transition_answers [OF ledger_up written plan] by blast
    have "ledger_at (view w3) i = Some ?q"
      using conditional_table.run_transition_result [OF ledger_table run] by blast
    then have "completed_at w3 i ?q digest" using fields by (simp add: completed_at_def a_def)
    moreover have "transition_success jp i p w = (Inr ?q, w3)"
      using now(1) run by (simp add: transition_success_def bind_def catch_def transition_to_def run_transition_def c_def t_def)
    ultimately show ?thesis using fields(7,10) by auto
  qed
qed

text \<open>The answer of a batch passes the response model.\<close>

lemma batch_answer:
  assumes "led_durable_response q = texts (batch_texts rid (timestamp_text t))" "resource_id_pattern rid" "t < max_instant"
  shows "journey_response jp BATCH_CREATE q = Inr (texts (batch_texts rid (timestamp_text t)))"
proof -
  have "durable_model_ok jp BATCH_CREATE (led_durable_response q)"
    using assms
    by (simp add: durable_model_ok_def texts_def batch_texts_def response_text_def resource_field_def
        expected_schema_status_def dump_up)
  with assms(1) show ?thesis by (simp add: journey_response_def)
qed

lemma request_digest_normal: "normalized_digest (PStr (canonical_request_digest kind rq)) = Inr (canonical_request_digest kind rq)"
proof -
  have "match_prefixed ''sha256:'' is_lower_hex 64 64 (''sha256:'' @ sha256_hex x)" for x
    by (simp add: match_prefixed_def sha256_hex_lower_hex)
  then show ?thesis
    by (simp add: normalized_digest_def hex_digest_def canonical_request_digest_def domain_digest_def del: append_Cons append.simps)
qed

lemma create_batch_up:
  assumes owner: "journey_owner auth = Inr (own, scope)" and may: "authorize_batch auth (Inst (record_fields own)) object_write = Inr own'"
    and key: "journey_identity scope BATCH_CREATE raw_key = Inr i" and new: "view w (ledger_key i) = None"
    and fresh: "\<And>w1 s w2. bview w1 = bview w \<Longrightarrow> jp_new_id jp w1 = (PStr s, w2) \<Longrightarrow> bview w (''batch'', s) = None"
  shows "\<exists>r w'. create_batch jp auth raw_key w = (r, w') \<and>
    ((\<exists>out q. r = Inr out \<and> \<not> cr_replayed out \<and> completed_at w' i q (canonical_request_digest BATCH_CREATE []) \<and>
        journey_response jp BATCH_CREATE q = Inr (cr_response out) \<and>
        add_seconds (time w) (jp_retention_seconds jp) \<le> instant (led_expires_at q)) \<or>
     add_seconds (time w) (jp_retention_seconds jp) \<le> time w')"
proof -
  have i: "proper_identity i" "oi_contract_version i = CONTRACT_VERSION" "oi_operation i = ''batches.create''"
    using journey_identity_proper [OF key] key
    by (auto simp: journey_identity_def operation_identity_new_def split: sum.splits if_splits)
  define digest where "digest = canonical_request_digest BATCH_CREATE []"
  obtain w1 where w1: "journey_now jp w = (Inr (Aware (time w1)), w1)" "view w1 = view w" "time w \<le> time w1"
      "bview w1 = bview w"
    using now_up by blast
  obtain rid w2 where w2: "new_resource_id jp w1 = (Inr rid, w2)" "resource_id_pattern rid" "view w2 = view w1"
    "bview w2 = bview w1" "bview w1 (''batch'', rid) = None" "time w1 \<le> time w2"
  proof -
    obtain rid w2 where drawn: "jp_new_id jp w1 = (PStr rid, w2)" and w2: "new_resource_id jp w1 = (Inr rid, w2)"
      "resource_id_pattern rid" "view w2 = view w1" "bview w2 = bview w1" "time w1 \<le> time w2"
      using id_up [of w1] by blast
    have "bview w1 (''batch'', rid) = None" using fresh [OF w1(4) drawn] by (simp only: w1(4))
    with w2 show thesis by (intro that)
  qed
  let ?expires = "add_seconds (time w1) (jp_retention_seconds jp)"
  let ?resp = "texts (batch_texts rid (timestamp_text (time w1)))"
  obtain p w3 where w3: "journey_reserve jp i digest ''batch'' rid (batch_durable rid (jp_dump_time jp (Aware (time w1))))
      (Aware (time w1)) w2 = (Inr \<lparr>ro_record = p, ro_created_here = True\<rparr>, w3)" "written_at (view w3) i p"
    "p = ledger_candidate i digest ''batch'' rid ?resp (Aware (time w1)) (Aware ?expires)" "bview w3 = bview w2" "time w2 \<le> time w3"
    using reserve_up [OF i, of digest rid w2 "time w1" w1] w2 w1(2) new by (auto simp: digest_def request_digest_normal)
  define d where "d = dict_merge (batch_item own scope digest rid (Aware (time w1))) (record_fields own)"
  have id: "business_id ''batch_id'' d = rid" by (simp add: d_def batch_item_id)
  obtain w4 where w4: "jp_batch_put jp d w3 = (Inr (), w4)"
    using batch_up [of w3 d] w2(4,5) w3(4) id by auto
  have view4: "view w4 = view w3" and time4: "time w3 \<le> time w4"
    using batch_put [OF w4] business_time(1) [OF w4] by simp_all
  have writer: "repo_create_batch jp (batch_item own scope digest rid (Aware (time w1))) own w3 = (Inr (), w4)"
    using w4 by (simp add: repo_create_batch_def repository_put_def catch_def d_def)
  obtain r w5 where success: "transition_success jp i p w4 = (r, w5)"
    and done_or_late: "(\<exists>q. r = Inr q \<and> led_durable_response q = ?resp \<and> completed_at w5 i q digest \<and>
        instant (led_expires_at q) = ?expires) \<or> ?expires \<le> time w5"
    using success_up [OF w3(3), of w4] w3(2) view4 w2(6) w3(5) time4 times_up [of w1] by force
  have run: "create_batch jp auth raw_key w = (case r of
      Inl e \<Rightarrow> (Inl e, w5)
    | Inr q \<Rightarrow> (case journey_response jp BATCH_CREATE q of Inl e \<Rightarrow> (Inl e, w5)
        | Inr resp \<Rightarrow> (Inr \<lparr>cr_replayed = False, cr_response = resp\<rparr>, w5)))"
    using owner may key w1(1) w2(1) w3(1) writer success
    by (simp add: create_batch_def app_lift_def bind_def lift_def ret_def write_business_once_def attempt_def catch_def
        flip: digest_def w3(3) split: sum.split)
  have late: "add_seconds (time w) (jp_retention_seconds jp) \<le> ?expires" using w1(3) by (simp add: add_seconds_def)
  from done_or_late show ?thesis
  proof
    assume "\<exists>q. r = Inr q \<and> led_durable_response q = ?resp \<and> completed_at w5 i q digest \<and>
        instant (led_expires_at q) = ?expires"
    then obtain q where q: "r = Inr q" "led_durable_response q = ?resp" "completed_at w5 i q digest"
        "instant (led_expires_at q) = ?expires" by blast
    have "time w1 < max_instant" using times_up [of w1] by (simp add: add_seconds_def)
    then have answer: "journey_response jp BATCH_CREATE q = Inr ?resp" by (rule batch_answer [OF q(2) w2(2)])
    then have "create_batch jp auth raw_key w = (Inr \<lparr>cr_replayed = False, cr_response = ?resp\<rparr>, w5)"
      unfolding run q(1) by simp
    with q(3,4) answer late show ?thesis unfolding digest_def by fastforce
  next
    assume "?expires \<le> time w5"
    with late have "add_seconds (time w) (jp_retention_seconds jp) \<le> time w5" by simp
    moreover have "\<exists>r'. create_batch jp auth raw_key w = (r', w5)" unfolding run by (auto split: sum.split)
    ultimately show ?thesis by blast
  qed
qed

section \<open>The replay of a completed creation\<close>

lemma reserve_again:
  assumes "sound w" "proper_identity i" "oi_contract_version i = CONTRACT_VERSION" "oi_operation i = ''batches.create''"
    and "normalized_digest (PStr digest) = Inr digest" "resource_id_pattern rid" "completed_at w i q digest" "now = time w0"
  shows "\<exists>w'. journey_reserve jp i digest ''batch'' rid (batch_durable rid (jp_dump_time jp (Aware now))) (Aware now) w
      = (Inr \<lparr>ro_record = q, ro_created_here = False\<rparr>, w') \<and> view w' = view w \<and> time w \<le> time w'"
proof -
  let ?expires = "add_seconds now (jp_retention_seconds jp)"
  define p where
    "p = ledger_candidate i digest ''batch'' rid (texts (batch_texts rid (timestamp_text now))) (Aware now) (Aware ?expires)"
  define c where "c = \<lparr>rc_identity = i, rc_request = PStr digest, rc_type = PStr ''batch'', rc_id = PStr rid,
    rc_response = PDict (batch_durable rid (timestamp_text now)), rc_now = Aware now, rc_expires = Aware ?expires\<rparr>"
  have expires: "?expires < max_instant" "now < ?expires"
    using times_up [of w0] retention_up assms(8) by (simp_all add: add_seconds_def second_us_def)
  have plan: "reserve_plan c p"
    using batch_plan [OF assms(6,3,4,5) _ expires(2)] expires by (simp add: reserve_plan_def c_def p_def)
  have ok: "reserve_call_ok c" using assms(2) expires by (simp add: reserve_call_ok_def c_def)
  have carrying: "carrying (view w)" using assms(1) by (simp add: sound_def journey_sound_def)
  have at: "ledger_at (view w) i = Some q" "led_state q = operation_state.SUCCEEDED" "led_resource_type q = ''batch''"
    "led_request_digest q = digest" using assms(7) by (simp_all add: completed_at_def)
  have "led_request_digest q = led_request_digest p" "led_resource_type q = led_resource_type p" "rc_identity c = i"
    using at by (simp_all add: p_def ledger_candidate_def c_def)
  then obtain b w2 where found: "run_reserve (jp_table jp) c w = (Inr \<lparr>ro_record = q, ro_created_here = b\<rparr>, w2)"
    "b \<longrightarrow> same_record q p" "view w2 = view w"
    using available_table.reserve_finds [OF ledger_up plan ok carrying] at(1) by metis
  have "\<not> same_record q p"
    using same_record_fields [of q p] at(2) by (auto simp: p_def ledger_candidate_def)
  with found(1,2) have "run_reserve (jp_table jp) c w = (Inr \<lparr>ro_record = q, ro_created_here = False\<rparr>, w2)" by simp
  then have run: "journey_reserve jp i digest ''batch'' rid (batch_durable rid (jp_dump_time jp (Aware now))) (Aware now) w
      = (Inr \<lparr>ro_record = q, ro_created_here = False\<rparr>, w2)"
    using expires(1)
    by (simp add: journey_reserve_def after_seconds_def dump_up catch_def bind_def lift_def run_reserve_def c_def)
  then have "time w \<le> time w2" using forward_journey_reserve unfolding forward_def by blast
  with run found(3) show ?thesis by auto
qed

lemma create_batch_again:
  assumes "sound w" and owner: "journey_owner auth = Inr (own, scope)"
    and may: "authorize_batch auth (Inst (record_fields own)) object_write = Inr own'"
    and key: "journey_identity scope BATCH_CREATE raw_key = Inr i"
    and completed: "completed_at w i q (canonical_request_digest BATCH_CREATE [])"
    and answer: "journey_response jp BATCH_CREATE q = Inr resp"
  shows "\<exists>r w'. create_batch jp auth raw_key w = (r, w') \<and>
    (r = Inr \<lparr>cr_replayed = True, cr_response = resp\<rparr> \<or> instant (led_expires_at q) \<le> time w')"
proof -
  have i: "proper_identity i" "oi_contract_version i = CONTRACT_VERSION" "oi_operation i = ''batches.create''"
    using journey_identity_proper [OF key] key
    by (auto simp: journey_identity_def operation_identity_new_def split: sum.splits if_splits)
  define digest where "digest = canonical_request_digest BATCH_CREATE []"
  obtain w1 where w1: "journey_now jp w = (Inr (Aware (time w1)), w1)" "view w1 = view w" "bview w1 = bview w"
    using now_up by blast
  obtain rid w2 where w2: "new_resource_id jp w1 = (Inr rid, w2)" "resource_id_pattern rid" "view w2 = view w1"
    "bview w2 = bview w1"
    using id_up [of w1] by blast
  have "sound w2" "completed_at w2 i q digest"
    using assms(1) completed w1 w2 by (simp_all add: sound_def completed_at_def digest_def)
  then obtain w3 where w3: "journey_reserve jp i digest ''batch'' rid (batch_durable rid (jp_dump_time jp (Aware (time w1))))
      (Aware (time w1)) w2 = (Inr \<lparr>ro_record = q, ro_created_here = False\<rparr>, w3)" "view w3 = view w2"
    using reserve_again [OF _ i _ w2(2), of w2 digest q "time w1" w1] by (auto simp: digest_def request_digest_normal)
  obtain r w4 where resolve: "resolve_existing jp i q w3 = (r, w4)" by fastforce
  have run: "create_batch jp auth raw_key w = (case r of
      Inl e \<Rightarrow> (Inl e, w4)
    | Inr q \<Rightarrow> (case journey_response jp BATCH_CREATE q of Inl e \<Rightarrow> (Inl e, w4)
        | Inr resp \<Rightarrow> (Inr \<lparr>cr_replayed = True, cr_response = resp\<rparr>, w4)))"
    using owner may key w1(1) w2(1) w3(1) resolve
    by (simp add: create_batch_def app_lift_def bind_def lift_def ret_def flip: digest_def split: sum.split)
  obtain w5 where now: "journey_now jp w3 = (Inr (Aware (time w5)), w5)" using now_up by blast
  show ?thesis
  proof (cases "time w5 < instant (led_expires_at q)")
    case True
    then have "resolve_existing jp i q w3 = (Inr q, w5)"
      using now completed by (simp add: resolve_existing_def bind_def expire_def ret_def completed_at_def)
    then show ?thesis using resolve answer unfolding run by auto
  next
    case False
    have "forward (bind (expire jp q i (Aware (time w5))) (\<lambda>r. case led_state r of
       operation_state.SUCCEEDED \<Rightarrow> ret r
     | operation_state.PENDING \<Rightarrow> bind (reconcile_business_record jp i r) (\<lambda>reconciled. case reconciled of
           Some q \<Rightarrow> ret q | None \<Rightarrow> raise unknown_write_error)
     | EXPIRED \<Rightarrow> raise (expired_operation_error i)
     | FAILED_RETRYABLE \<Rightarrow> raise unavailable_error
     | FAILED_TERMINAL \<Rightarrow> raise state_conflict_error
     | UNKNOWN_OR_QUARANTINED \<Rightarrow> raise unknown_write_error))"
      unfolding expire_def reconcile_business_record_def resource_get_def mark_unknown_def
      by (intro forward_rules forward_to forward_load)
        (auto split: operation_state.split intro!: forward_rules forward_to forward_load forward_success)
    then have "time w5 \<le> time w4"
      using resolve now unfolding forward_def resolve_existing_def by (simp add: bind_run) metis
    with False have "instant (led_expires_at q) \<le> time w4" by simp
    moreover have "\<exists>r'. create_batch jp auth raw_key w = (r', w4)" unfolding run by (auto split: sum.split)
    ultimately show ?thesis by blast
  qed
qed

end

text \<open>
  (C9) Progress: on a site whose services answer, an authorized caller that creates a batch under a
  new idempotency key, drawing a new identifier, is acknowledged by this very call, unless the retention period of the
  operation passes while the call runs.
\<close>

theorem create_batch_succeeds:
  assumes "journey_site_up jp view bview time" "journey_owner auth = Inr (own, scope)"
    and "authorize_batch auth (Inst (record_fields own)) object_write = Inr own'"
    and "journey_identity scope BATCH_CREATE raw_key = Inr i" "view w (ledger_key i) = None"
    and "\<And>w1 s w2. bview w1 = bview w \<Longrightarrow> jp_new_id jp w1 = (PStr s, w2) \<Longrightarrow> bview w (''batch'', s) = None"
  shows "\<exists>r w'. create_batch jp auth raw_key w = (r, w') \<and>
    ((\<exists>out. r = Inr out \<and> \<not> cr_replayed out) \<or> add_seconds (time w) (jp_retention_seconds jp) \<le> time w')"
proof -
  have "\<exists>r w'. create_batch jp auth raw_key w = (r, w') \<and>
    ((\<exists>out q. r = Inr out \<and> \<not> cr_replayed out \<and>
        journey_site_up.completed_at view w' i q (canonical_request_digest BATCH_CREATE []) \<and>
        journey_response jp BATCH_CREATE q = Inr (cr_response out) \<and>
        add_seconds (time w) (jp_retention_seconds jp) \<le> instant (led_expires_at q)) \<or>
     add_seconds (time w) (jp_retention_seconds jp) \<le> time w')"
  proof (rule journey_site_up.create_batch_up [OF assms(1-5)])
    fix w1 s w2
    assume "bview w1 = bview w" "jp_new_id jp w1 = (PStr s, w2)"
    then show "bview w (''batch'', s) = None" by (rule assms(6))
  qed
  then show ?thesis by blast
qed

end
