(* ===== verification/JourneySite.thy ===== *)
theory JourneySite
  imports JourneyProgress LifecycleSite
begin

text \<open>
  A site of the journey in memory: the ledger's table, the business records by kind and identifier,
  a clock, a counter that names resources and the limiter of \<open>JourneyContract\<close>. It is a
  \<open>journey_site\<close> whose services answer; the samples of the journey's properties run on it.
\<close>

section \<open>The world\<close>

record journey_world =
  jw_ledger :: memory_world
  jw_business :: business
  jw_now :: nat
  jw_drawn :: nat
  jw_claims :: limiter_claims

definition SITE_RETENTION :: nat where "SITE_RETENTION = 86400"

text \<open>The last instant of the site: its retention period still fits Python's times.\<close>

definition SITE_END :: nat where "SITE_END = max_instant - 86400 * 1000000 - 1"

definition journey_view :: "journey_world \<Rightarrow> memory" where
  "journey_view w = mw_items (jw_ledger w)"

definition journey_time :: "journey_world \<Rightarrow> nat" where
  "journey_time w = min (jw_now w) SITE_END"

definition journey_ledger :: "journey_world dynamo" where
  "journey_ledger = part_dynamo jw_ledger (\<lambda>p. jw_ledger_update (\<lambda>_. p)) (memory_table (\<lambda>_ _. PNone))"

definition business_put_at :: "string \<Rightarrow> string \<Rightarrow> item \<Rightarrow> (journey_world, unit) io" where
  "business_put_at kind name d = (\<lambda>w. let k = (kind, business_id name d) in
     if jw_business w k = None then (Inr (), w\<lparr>jw_business := (jw_business w)(k \<mapsto> stored_item d)\<rparr>)
     else (Inl (AwsError CONDITIONAL_FAILURE), w))"

definition business_get_at :: "string \<Rightarrow> string \<Rightarrow> (journey_world, pyval) io" where
  "business_get_at kind rid = (\<lambda>w. (Inr (business_value (jw_business w (kind, rid))), w))"

definition site_ports :: "journey_world journey_ports" where
  "site_ports = \<lparr>jp_table = journey_ledger,
     jp_batch_put = business_put_at ''batch'' ''batch_id'', jp_batch_get = business_get_at ''batch'',
     jp_document_put = business_put_at ''document'' ''documentId'', jp_document_get = business_get_at ''document'',
     jp_clock = (\<lambda>w. (Aware (min (jw_now w + 1) SITE_END), w\<lparr>jw_now := jw_now w + 1\<rparr>)),
     jp_new_id = (\<lambda>w. (PStr (pad_digits 32 (jw_drawn w)), w\<lparr>jw_drawn := jw_drawn w + 1\<rparr>)),
     jp_claim = (\<lambda>key now n. on_part jw_claims (\<lambda>p. jw_claims_update (\<lambda>_. p)) (limiter_claim 4096 key now n)),
     jp_presign = (\<lambda>d ttl w. (Inr (PStr ''https://storage.example/upload''), w)),
     jp_document_key = (\<lambda>rid. [(''documentId'', PStr rid)]),
     jp_dump_time = (\<lambda>t. timestamp_text (instant t)),
     jp_model_time = (\<lambda>s. case parse_iso (replace_z s) of Parsed t \<Rightarrow> is_aware t | _ \<Rightarrow> False),
     jp_raw_bucket = PStr ''raw'', jp_processing_domain = PNone, jp_retention_seconds = SITE_RETENTION,
     jp_grace_seconds = PInt 60, jp_upload_ttl = 900, jp_refresh_interval = 10, jp_reconcile_interval = 1\<rparr>"

section \<open>The contracts\<close>

lemma part_available:
  assumes "available_table dy view" "\<And>p w. part (set_part p w) = p"
  shows "available_table (part_dynamo part set_part dy) (\<lambda>w. view (part w))"
proof -
  have table: "conditional_table dy view" using assms(1) by (rule available_table.axioms)
  note laws = available_table.put_answers [OF assms(1)] available_table.update_answers [OF assms(1)]
    available_table.get_answers [OF assms(1)]
  have "available_table_axioms (part_dynamo part set_part dy) (\<lambda>w. view (part w))"
  proof (unfold_locales, goal_cases)
    case (1 w d ts)
    from laws(1) [OF this] show ?case by (auto simp: part_dynamo_def on_part_run)
  next
    case (2 w k sets ts removes)
    from laws(2) [OF this] show ?case by (auto simp: part_dynamo_def on_part_run)
  next
    case (3 k w)
    from laws(3) [of k "part w"] show ?case by (auto simp: part_dynamo_def on_part_run)
  qed
  with part_table [of dy view part set_part, OF table assms(2)] show ?thesis by (intro available_table.intro) auto
qed

lemma journey_ledger_available: "available_table journey_ledger journey_view"
  unfolding journey_ledger_def journey_view_def [abs_def]
  by (rule part_available) (simp_all add: answering.available_table_axioms)

lemma journey_ledger_frame:
  "dy_put_item journey_ledger d ts w = (r, w') \<Longrightarrow> jw_business w' = jw_business w \<and> jw_now w' = jw_now w"
  "dy_update_item journey_ledger k sets removes ts w = (r, w') \<Longrightarrow> jw_business w' = jw_business w \<and> jw_now w' = jw_now w"
  "dy_get_item journey_ledger k w = (g, w') \<Longrightarrow> jw_business w' = jw_business w \<and> jw_now w' = jw_now w"
  by (auto simp: journey_ledger_def part_dynamo_def on_part_run)

lemma business_put_at_run:
  "business_put_at kind name d w = (r, w') \<Longrightarrow> journey_view w' = journey_view w \<and> jw_now w' = jw_now w \<and>
    business_put (jw_business w) (kind, business_id name d) d r (jw_business w')"
  by (auto simp: business_put_at_def Let_def journey_view_def business_put_def split: if_splits)

interpretation journey: journey_site site_ports journey_view jw_business
proof (rule journey_site.intro)
  show "conditional_table (jp_table site_ports) journey_view"
    using available_table.axioms(1) [OF journey_ledger_available] by (simp add: site_ports_def)
qed (auto simp: site_ports_def business_get_at_def journey_view_def on_part_run SITE_END_def max_instant_def min_def
    dest: journey_ledger_frame business_put_at_run split: if_splits)

interpretation journey: journey_site_up site_ports journey_view jw_business journey_time
proof (rule journey_site_up.intro [OF journey.journey_site_axioms journey_site_up_axioms.intro])
  show "available_table (jp_table site_ports) journey_view"
    using journey_ledger_available by (simp add: site_ports_def)
next
  fix w
  show "\<exists>w'. jp_clock site_ports w = (Aware (journey_time w'), w') \<and> journey_time w \<le> journey_time w'"
    by (auto simp: site_ports_def journey_time_def)
next
  fix w :: journey_world
  show "\<exists>s w'. jp_new_id site_ports w = (PStr s, w') \<and> resource_id_pattern s \<and> journey_time w \<le> journey_time w'"
    using pad_digits_all [of 32 "jw_drawn w"]
    by (auto simp: site_ports_def journey_time_def resource_id_pattern_def match_prefixed_def is_lower_hex_def list_all_iff)
next
  show "add_seconds (journey_time w) (jp_retention_seconds site_ports) < max_instant" for w
    by (simp add: site_ports_def journey_time_def SITE_END_def SITE_RETENTION_def add_seconds_def second_us_def
        max_instant_def min_def)
next
  show "\<exists>w'. jp_batch_put site_ports d w = (Inr (), w')" if "jw_business w (''batch'', business_id ''batch_id'' d) = None" for d w
    using that by (simp add: site_ports_def business_put_at_def)
qed (auto simp: site_ports_def journey_time_def business_get_at_def SITE_RETENTION_def parse_iso_timestamp_text
    dest: journey_ledger_frame business_put_at_run)

end
