(* ===== verification/StatusProofs.thy ===== *)
theory StatusProofs
  imports DocumentStatus
begin

text \<open>
  The projection of a stored document to its public status: what it builds always passes the
  checks of the response model but for the order of the stored times, and a terminal status
  rests on complete evidence.
\<close>

section \<open>Evidence that was read\<close>

lemma read_stages_entry:
  "read_stages d = Some ev \<Longrightarrow> (n, raw, st) \<in> set ev \<Longrightarrow>
    \<exists>adapter s. map_of STAGE_STATE_ADAPTERS n = Some adapter \<and> str_view (py_get raw ''status'') = Some s \<and>
      map_of adapter s = Some st"
  by (induction d arbitrary: ev)
    (auto simp: bind_eq_Some_conv split: option.splits pyval.splits if_splits)

lemma stored_stages_entry:
  "stored_stages d = Some ev \<Longrightarrow> map_of ev n = Some (raw, st) \<Longrightarrow>
    \<exists>adapter s. map_of STAGE_STATE_ADAPTERS n = Some adapter \<and> raw_status ev n = Some s \<and>
      str_view (py_get raw ''status'') = Some s \<and> map_of adapter s = Some st"
  using read_stages_entry map_of_SomeD
  by (fastforce simp: stored_stages_def raw_status_def split: option.splits pyval.splits)

lemma ingest_states:
  assumes "stored_stages d = Some ev" "map_of ev ''ingest'' = Some (raw, st)"
  shows "raw_status ev ''ingest'' = Some ''ENQUEUE_PENDING'' \<and> st = PENDING \<or>
    raw_status ev ''ingest'' = Some ''ENQUEUED'' \<and> st = RUNNING \<or>
    raw_status ev ''ingest'' = Some ''ENQUEUE_FAILED'' \<and> st = stage_state.FAILED"
  using stored_stages_entry [OF assms] by (auto simp: STAGE_STATE_ADAPTERS_def split: if_splits)

lemma validate_state: "stored_stages d = Some ev \<Longrightarrow> state_at ev ''validate'' = Some st \<Longrightarrow> st = SUCCEEDED"
  using stored_stages_entry [of d ev "''validate''"]
  by (auto simp: state_at_def STAGE_STATE_ADAPTERS_def split: if_splits)

section \<open>The projection\<close>

lemma projected_statusE:
  assumes "projected_status d now = Some s"
  obtains internal lifecycle stage st created updated ev p where
    "str_view (py_get d ''status'') = Some internal" "map_of STATUS_ADAPTER internal = Some (lifecycle, stage, st)"
    "parse_aware (py_get d ''createdAt'') = Some created" "parse_aware (py_get d ''updatedAt'') = Some updated"
    "is_aware now" "updated \<le> int (instant now)" "stored_stages d = Some ev" "domain_gate d internal ev"
    "failure_gate internal ev" "lifecycle_gate internal lifecycle ev"
    "project_status d internal lifecycle stage st updated ev = Some p" "status_response d lifecycle created updated p = Some s"
  using assms by (auto simp: projected_status_def bind_eq_Some_conv split: if_splits)

lemma status_response_fields:
  assumes "status_response d lifecycle created updated p = Some s"
  shows "ds_lifecycle s = lifecycle" "ds_current_stage s = sp_stage p" "ds_stage_state s = sp_state p"
    "ds_processing_condition s = sp_condition p" "ds_created_at s = created" "ds_updated_at s = updated"
    "ds_terminal_at s = sp_terminal_at p" "ds_failure_disposition s = sp_disposition p" "ds_safe_failure_code s = sp_code p"
  using assms by (auto simp: status_response_def bind_eq_Some_conv)

text \<open>The shapes a projection can have.\<close>

datatype projection_shape = Waiting | Submitted stage_state | EnqueueFailed | Working pipeline_stage stage_state
  | Done int | Rejected int safe_failure_code

fun shape_lifecycle :: "projection_shape \<Rightarrow> document_lifecycle" where
  "shape_lifecycle Waiting = UPLOAD_PENDING"
| "shape_lifecycle (Submitted st) = SUBMITTED"
| "shape_lifecycle EnqueueFailed = SUBMITTED"
| "shape_lifecycle (Working stage st) = PROCESSING"
| "shape_lifecycle (Done t) = COMPLETED"
| "shape_lifecycle (Rejected t c) = document_lifecycle.FAILED"

fun shape_projection :: "projection_shape \<Rightarrow> status_projection" where
  "shape_projection Waiting = active_projection INGEST PENDING"
| "shape_projection (Submitted st) = active_projection INGEST st"
| "shape_projection EnqueueFailed = (active_projection INGEST stage_state.FAILED)\<lparr>sp_condition := NOT_APPLICABLE,
     sp_disposition := Some RETRYABLE, sp_code := Some ENQUEUE_FAILED\<rparr>"
| "shape_projection (Working stage st) = active_projection stage st"
| "shape_projection (Done t) = terminal_projection SUCCEEDED t COMPLETED None"
| "shape_projection (Rejected t c) = terminal_projection stage_state.FAILED t document_lifecycle.FAILED (Some c)"

fun shape_ok :: "projection_shape \<Rightarrow> bool" where
  "shape_ok (Submitted st) \<longleftrightarrow> st = PENDING \<or> st = RUNNING"
| "shape_ok (Working stage st) \<longleftrightarrow> (stage, st) \<in> set REVIEWED_PROCESSING_STATES"
| "shape_ok (Rejected t c) \<longleftrightarrow> c = DOCUMENT_PROCESSING_FAILED \<or> c = OCR_FAILED"
| "shape_ok x \<longleftrightarrow> True"

lemma submitted_shape:
  assumes "stored_stages d = Some ev" "submitted_projection INGEST ev = Some p"
  shows "\<exists>x. shape_ok x \<and> shape_lifecycle x = SUBMITTED \<and> p = shape_projection x"
proof -
  obtain raw st where ev: "map_of ev ''ingest'' = Some (raw, st)"
    using assms(2) by (auto simp: submitted_projection_def split: option.splits)
  from ingest_states [OF assms(1) ev] show ?thesis
  proof (elim disjE conjE)
    assume "raw_status ev ''ingest'' = Some ''ENQUEUE_PENDING''" "st = PENDING"
    then show ?thesis using assms(2) ev by (intro exI [of _ "Submitted PENDING"]) (auto simp: submitted_projection_def)
  next
    assume "raw_status ev ''ingest'' = Some ''ENQUEUED''" "st = RUNNING"
    then show ?thesis using assms(2) ev by (intro exI [of _ "Submitted RUNNING"]) (auto simp: submitted_projection_def)
  next
    assume "raw_status ev ''ingest'' = Some ''ENQUEUE_FAILED''" "st = stage_state.FAILED"
    then show ?thesis using assms(2) ev by (intro exI [of _ EnqueueFailed]) (auto simp: submitted_projection_def)
  qed
qed

lemma processing_shape:
  assumes "stored_stages d = Some ev" "processing_projection internal stage st ev = Some p"
    "(stage, st) \<in> set REVIEWED_PROCESSING_STATES"
  shows "\<exists>x. shape_ok x \<and> shape_lifecycle x = PROCESSING \<and> p = shape_projection x"
proof (cases "state_at ev ''validate''")
  case None
  then show ?thesis using assms(2,3)
    by (intro exI [of _ "Working stage st"]) (auto simp: processing_projection_def split: if_splits)
next
  case (Some v)
  with validate_state [OF assms(1)] have "v = SUCCEEDED" by blast
  with Some assms(2) show ?thesis
    by (intro exI [of _ "Working VALIDATE SUCCEEDED"])
      (auto simp: processing_projection_def REVIEWED_PROCESSING_STATES_def split: if_splits)
qed

lemma status_adapter_cases:
  assumes "map_of STATUS_ADAPTER internal = Some (lifecycle, stage, st)"
  obtains "internal = ''CREATED''" "lifecycle = UPLOAD_PENDING" "stage = INGEST" "st = PENDING"
  | "internal = ''SUBMITTED''" "lifecycle = SUBMITTED" "stage = INGEST"
  | "internal \<noteq> ''SUBMITTED''" "lifecycle = PROCESSING" "(stage, st) \<in> set REVIEWED_PROCESSING_STATES"
  | "internal = ''COMPLETED''" "lifecycle = COMPLETED" "st = SUCCEEDED"
  | "internal = ''FAILED''" "lifecycle = document_lifecycle.FAILED" "st = stage_state.FAILED"
  | "internal = ''OCR_FAILED''" "lifecycle = document_lifecycle.FAILED" "st = stage_state.FAILED"
  using assms by (auto simp: STATUS_ADAPTER_def REVIEWED_PROCESSING_STATES_def split: if_splits)

lemma project_shape:
  assumes "map_of STATUS_ADAPTER internal = Some (lifecycle, stage, st)" "stored_stages d = Some ev"
    "project_status d internal lifecycle stage st updated ev = Some p"
  shows "\<exists>x. shape_ok x \<and> shape_lifecycle x = lifecycle \<and> p = shape_projection x"
  using assms(1)
proof (cases rule: status_adapter_cases)
  case 1
  with assms(3) show ?thesis
    by (intro exI [of _ Waiting]) (simp add: project_status_def is_terminal_def)
next
  case 2
  with assms(3) have "submitted_projection INGEST ev = Some p" by (simp add: project_status_def)
  with submitted_shape [OF assms(2)] 2 show ?thesis by simp
next
  case 3
  with assms(3) have "processing_projection internal stage st ev = Some p" by (simp add: project_status_def)
  with processing_shape [OF assms(2)] 3 show ?thesis by simp
next
  case 4
  with assms(3) obtain t where "p = terminal_projection SUCCEEDED t COMPLETED None"
    by (auto simp: project_status_def is_terminal_def)
  with 4 show ?thesis by (intro exI [of _ "Done t"]) simp
next
  case 5
  with assms(3) obtain t where "p = shape_projection (Rejected t DOCUMENT_PROCESSING_FAILED)"
    by (auto simp: project_status_def is_terminal_def)
  with 5 show ?thesis by (intro exI [of _ "Rejected t DOCUMENT_PROCESSING_FAILED"]) simp
next
  case 6
  with assms(3) have "p = shape_projection (Rejected updated OCR_FAILED)"
    by (simp add: project_status_def split: if_splits)
  with 6 show ?thesis by (intro exI [of _ "Rejected updated OCR_FAILED"]) simp
qed

lemma shape_consistent:
  assumes "shape_ok x" "ds_lifecycle s = shape_lifecycle x" "ds_current_stage s = sp_stage (shape_projection x)"
    "ds_stage_state s = sp_state (shape_projection x)" "ds_processing_condition s = sp_condition (shape_projection x)"
    "ds_terminal_at s = sp_terminal_at (shape_projection x)"
    "ds_failure_disposition s = sp_disposition (shape_projection x)" "ds_safe_failure_code s = sp_code (shape_projection x)"
  shows "terminal_consistent s \<and> stage_consistent s \<and> failure_consistent s"
  using assms
  by (cases x)
    (auto simp: terminal_consistent_def stage_consistent_def failure_consistent_def is_terminal_def
      retryable_enqueue_failure_def active_projection_def terminal_projection_def REVIEWED_PROCESSING_STATES_def)

section \<open>Fields\<close>

lemma normalize_hex_id_pattern: "normalize_hex_id v = Some s \<Longrightarrow> hex_id_pattern s"
  by (auto simp: normalize_hex_id_def bind_eq_Some_conv Let_def split: if_splits)

lemma hex_reference:
  assumes "list_all is_lower_hex r" "length r = 32"
  shows "status_reference_pattern (''ref_'' @ r)"
proof -
  have "list_all (\<lambda>c. is_alnum c \<or> c \<in> set ''._:-'') r"
    using assms(1) by (auto simp: list_all_iff char_class_defs)
  then show ?thesis
    using assms(2) by (simp add: status_reference_pattern_def match_headed_def char_class_defs)
qed

lemma public_reference_pattern: "status_reference_pattern (public_reference s)"
proof (cases "plain_reference_pattern s")
  case True
  then obtain q where q: "s = ''ref_'' @ q" "list_all is_lower_hex q" "length q = 32"
    unfolding plain_reference_pattern_def by (elim match_prefixedE) auto
  show ?thesis using hex_reference [OF q(2,3)] True by (simp add: public_reference_def q(1))
next
  case False
  then show ?thesis
    using hex_reference [OF sha256_hex_take_lower_hex [of 32 s]] by (simp add: public_reference_def)
qed

lemma correlation_reference_pattern: "correlation_reference d = Some (Some r) \<Longrightarrow> status_reference_pattern r"
  by (auto simp: correlation_reference_def Let_def public_reference_pattern split: if_splits option.splits)

lemma status_response_fields_ok:
  assumes "status_response d lifecycle created updated p = Some s"
  shows "status_fields_ok s"
  using assms
  by (auto simp: status_response_def status_fields_ok_def bind_eq_Some_conv attempt_counter_def
      normalize_hex_id_pattern correlation_reference_pattern split: option.splits pyval.splits if_splits)

section \<open>Properties\<close>

lemma projected_consistent:
  assumes "projected_status d now = Some s"
  shows "status_fields_ok s \<and> terminal_consistent s \<and> stage_consistent s \<and> failure_consistent s"
  using assms
proof (rule projected_statusE)
  fix internal lifecycle stage st created updated ev p
  assume adapter: "map_of STATUS_ADAPTER internal = Some (lifecycle, stage, st)" and stages: "stored_stages d = Some ev"
    and project: "project_status d internal lifecycle stage st updated ev = Some p"
    and response: "status_response d lifecycle created updated p = Some s"
  obtain x where x: "shape_ok x" "shape_lifecycle x = lifecycle" "p = shape_projection x"
    using project_shape [OF adapter stages project] by blast
  show ?thesis
    using shape_consistent [OF x(1)] status_response_fields [OF response] x(2,3)
      status_response_fields_ok [OF response] by simp
qed

text \<open>
  (C27) The projection never contradicts the checks of the response model: a stored document is
  projected to a status exactly when its evidence is a reviewed one and its times are in order;
  lifecycle, stage, condition and failure metadata that the adapter derives are always
  consistent, and all fields have their reviewed shape.
\<close>

theorem status_projection_exact:
  "adapt_internal_document_status d now = Inr s \<longleftrightarrow> projected_status d now = Some s \<and> status_times_ok s"
  using projected_consistent [of d now s]
  by (auto simp: adapt_internal_document_status_def consistent_status_def split: option.splits if_splits)

text \<open>What a terminal status rests on.\<close>

definition persisted_as :: "(string \<times> pyval) list \<Rightarrow> string \<Rightarrow> stage_evidence \<Rightarrow> int \<Rightarrow> bool" where
  "persisted_as d internal ev t \<longleftrightarrow> (\<exists>raw. map_of ev ''persist'' = Some (raw, SUCCEEDED) \<and>
     py_eq (py_get raw ''finalStatus'') (PStr internal) \<and> parse_aware (py_get raw ''completedAt'') = Some t) \<and>
   (\<exists>v. py_get d ''validation'' = PDict v \<and>
      py_eq (py_get v ''status'') (PStr (if internal = ''COMPLETED'' then ''PASS'' else ''FAIL''))) \<and>
   (\<forall>n raw st. map_of ev n = Some (raw, st) \<longrightarrow> st \<noteq> stage_state.FAILED \<and> st \<noteq> PENDING)"

lemma completion_time_persisted:
  assumes "stored_stages d = Some ev" "completion_time d internal ev = Some t"
  shows "persisted_as d internal ev t"
proof -
  have settled: "st \<noteq> stage_state.FAILED \<and> st \<noteq> PENDING" if entry: "map_of ev n = Some (raw, st)" for n raw st
  proof -
    have "n \<in> set (stage_names ev)" using map_of_SomeD [OF entry] by (force simp: stage_names_def)
    moreover have "list_all (\<lambda>n. case (raw_status ev n, map_of TERMINAL_STAGE_RAW_STATE_ALLOWLIST n) of
          (Some s, Some permitted) \<Rightarrow> s \<in> set permitted | _ \<Rightarrow> False) (stage_names ev)"
      using assms(2) by (auto simp: completion_time_def split: if_splits)
    ultimately have "case (raw_status ev n, map_of TERMINAL_STAGE_RAW_STATE_ALLOWLIST n) of
        (Some s, Some permitted) \<Rightarrow> s \<in> set permitted | _ \<Rightarrow> False" by (simp add: list_all_iff)
    with stored_stages_entry [OF assms(1) entry] show ?thesis
      by (auto simp: STAGE_STATE_ADAPTERS_def TERMINAL_STAGE_RAW_STATE_ALLOWLIST_def split: if_splits)
  qed
  show ?thesis
    using assms(2) settled
    by (auto simp: completion_time_def persisted_as_def split: if_splits option.splits pyval.splits)
qed

text \<open>A status shown as completed or as failed by processing takes its time from the persist stage.\<close>

lemma terminal_time:
  assumes "map_of STATUS_ADAPTER internal = Some (lifecycle, stage, st)"
    and "project_status d internal lifecycle stage st updated ev = Some p"
    and "status_response d lifecycle created updated p = Some s"
    and "ds_lifecycle s = COMPLETED \<or> ds_safe_failure_code s = Some DOCUMENT_PROCESSING_FAILED"
  shows "\<exists>t. completion_time d internal ev = Some t \<and> ds_terminal_at s = Some t \<and>
    internal = (if ds_lifecycle s = COMPLETED then ''COMPLETED'' else ''FAILED'')"
proof -
  note fields = status_response_fields [OF assms(3)]
  show ?thesis
    using assms(1)
  proof (cases rule: status_adapter_cases)
    case 1
    with assms(2) fields assms(4) show ?thesis
      by (auto simp: project_status_def is_terminal_def active_projection_def)
  next
    case 2
    with assms(2) fields assms(4) show ?thesis
      by (auto simp: project_status_def submitted_projection_def active_projection_def split: option.splits if_splits)
  next
    case 3
    with assms(2) fields assms(4) show ?thesis
      by (auto simp: project_status_def processing_projection_def active_projection_def split: option.splits if_splits)
  next
    case 4
    with assms(2) fields show ?thesis
      by (auto simp: project_status_def is_terminal_def terminal_projection_def)
  next
    case 5
    with assms(2) fields show ?thesis
      by (auto simp: project_status_def is_terminal_def terminal_projection_def)
  next
    case 6
    with assms(2) fields assms(4) show ?thesis
      by (auto simp: project_status_def terminal_projection_def split: if_splits)
  qed
qed

text \<open>
  (C26) A document is shown as completed only when its persist stage is done, recorded this very final
  status at this very time, its validation passed, no stage is pending or failed, and the time of
  completion lies between its creation and its last update, which is not in the future; it is shown
  as failed by processing only under the same evidence with a failed validation.
\<close>

theorem terminal_status_persisted:
  assumes "adapt_internal_document_status d now = Inr s"
    "ds_lifecycle s = COMPLETED \<or> ds_safe_failure_code s = Some DOCUMENT_PROCESSING_FAILED"
  shows "\<exists>ev t. stored_stages d = Some ev \<and> ds_terminal_at s = Some t \<and>
    persisted_as d (if ds_lifecycle s = COMPLETED then ''COMPLETED'' else ''FAILED'') ev t \<and>
    ds_created_at s \<le> t \<and> t \<le> ds_updated_at s \<and> ds_updated_at s \<le> int (instant now)"
proof -
  have projected: "projected_status d now = Some s" and ok: "status_fields_ok s" "consistent_status s"
    using assms(1) by (auto simp: adapt_internal_document_status_def split: option.splits if_splits)
  from projected show ?thesis
  proof (rule projected_statusE)
    fix internal lifecycle stage st created updated ev p
    assume adapter: "map_of STATUS_ADAPTER internal = Some (lifecycle, stage, st)" and stages: "stored_stages d = Some ev"
      and project: "project_status d internal lifecycle stage st updated ev = Some p"
      and response: "status_response d lifecycle created updated p = Some s"
      and now: "updated \<le> int (instant now)"
    note fields = status_response_fields [OF response]
    obtain t where t: "completion_time d internal ev = Some t" "ds_terminal_at s = Some t"
      and internal: "internal = (if ds_lifecycle s = COMPLETED then ''COMPLETED'' else ''FAILED'')"
      using terminal_time [OF adapter project response assms(2)] by blast
    have "is_terminal (ds_lifecycle s)"
      using ok(2) t(2) by (simp add: consistent_status_def terminal_consistent_def)
    then have "ds_created_at s \<le> t \<and> t \<le> ds_updated_at s"
      using ok(2) t(2) by (simp add: consistent_status_def status_times_ok_def)
    moreover have "persisted_as d (if ds_lifecycle s = COMPLETED then ''COMPLETED'' else ''FAILED'') ev t"
      using completion_time_persisted [OF stages t(1)] internal by simp
    ultimately show ?thesis using stages t(2) now fields by auto
  qed
qed

end
