(* ===== verification/JourneyWitness.thy ===== *)
theory JourneyWitness
  imports JourneySite StatusProofs LifecycleWitness StoreWitness
begin

text \<open>
  Concrete runs of the operation ledger on the table in memory and of the journey service on the
  site in memory, and a stored document, at which the hypotheses of their properties hold together.
\<close>

section \<open>The ledger\<close>

definition ledger_sample_identity :: operation_identity where
  "ledger_sample_identity = \<lparr>oi_contract_version = CONTRACT_VERSION, oi_operation = ''batches.create'',
     oi_actor_digest = ''sha256:'' @ replicate 64 CHR ''a'', oi_customer_id = ''acme'',
     oi_deployment_id = ''dep_01ARZ3NDEKTSV4RRFFQ69G5FAV'', oi_key_digest = ''sha256:'' @ replicate 64 CHR ''b''\<rparr>"

definition ledger_sample_digest :: string where "ledger_sample_digest = ''sha256:'' @ replicate 64 CHR ''c''"

lemma sample_digests:
  "normalized_digest (PStr (''sha256:'' @ replicate 64 CHR ''a'')) = Inr (''sha256:'' @ replicate 64 CHR ''a'')"
  "normalized_digest (PStr (''sha256:'' @ replicate 64 CHR ''b'')) = Inr (''sha256:'' @ replicate 64 CHR ''b'')"
  "normalized_digest (PStr (''sha256:'' @ replicate 64 CHR ''c'')) = Inr (''sha256:'' @ replicate 64 CHR ''c'')"
  by code_simp+

lemma ledger_sample_proper: "proper_identity ledger_sample_identity"
proof -
  have "list_all ledger_identifier_pattern [CONTRACT_VERSION, ''acme'', ''dep_01ARZ3NDEKTSV4RRFFQ69G5FAV'']" by code_simp
  then show ?thesis
    by (simp add: proper_identity_def ledger_sample_identity_def operation_identity_new_def OPERATION_RESOURCE_TYPES_def
        sample_digests [simplified])
qed

definition ledger_sample_id :: string where "ledger_sample_id = replicate 32 CHR ''0''"

definition ledger_sample_call :: reserve_call where
  "ledger_sample_call = \<lparr>rc_identity = ledger_sample_identity, rc_request = PStr ledger_sample_digest, rc_type = PStr ''batch'',
     rc_id = PStr ledger_sample_id, rc_response = PDict (batch_durable ledger_sample_id (timestamp_text 1000)),
     rc_now = Aware 1000, rc_expires = Aware 9000\<rparr>"

definition ledger_sample_record :: ledger_record where
  "ledger_sample_record = ledger_candidate ledger_sample_identity ledger_sample_digest ''batch'' ledger_sample_id
     (texts (batch_texts ledger_sample_id (timestamp_text 1000))) (Aware 1000) (Aware 9000)"

lemma ledger_sample_plan: "reserve_plan ledger_sample_call ledger_sample_record"
proof -
  have "resource_id_pattern ledger_sample_id" by code_simp
  then show ?thesis
    using batch_plan [of ledger_sample_id ledger_sample_identity ledger_sample_digest 1000 9000] sample_digests(3)
    by (simp add: reserve_plan_def ledger_sample_call_def ledger_sample_record_def ledger_sample_identity_def
        ledger_sample_digest_def max_instant_def)
qed

lemma ledger_sample_ok: "reserve_call_ok ledger_sample_call"
  using ledger_sample_proper by (simp add: reserve_call_ok_def ledger_sample_call_def max_instant_def)

lemma ledger_sample_valid: "ledger_valid ledger_sample_record" "record_identity ledger_sample_record = ledger_sample_identity"
  using reserve_plan_valid [OF ledger_sample_plan ledger_sample_ok] reserve_plan_record(1) [OF ledger_sample_plan]
  by (simp_all add: ledger_sample_call_def)

theorem ledger_round_trip_witness:
  "\<exists>d. ledger_item ledger_sample_record = Inr d \<and> ledger_record_from_item (PDict (stored_item d)) = Inr ledger_sample_record"
  using ledger_round_trip [of ledger_sample_record] ledger_sample_valid(1) by blast

lemma empty_carrying: "carrying (mw_items empty_world)"
  by (simp add: carrying_def empty_world_def)

lemma ledger_sample_reserved:
  "\<exists>w1. run_reserve table ledger_sample_call empty_world = (Inr \<lparr>ro_record = ledger_sample_record, ro_created_here = True\<rparr>, w1) \<and>
    written_at (mw_items w1) ledger_sample_identity ledger_sample_record \<and> carrying (mw_items w1)"
proof -
  obtain w1 where w1: "run_reserve table ledger_sample_call empty_world = (Inr \<lparr>ro_record = ledger_sample_record, ro_created_here = True\<rparr>, w1)"
    "written_at (mw_items w1) ledger_sample_identity ledger_sample_record"
    using answering.reserve_answers [OF ledger_sample_plan ledger_sample_ok, of empty_world]
    by (auto simp: table_def empty_world_def ledger_sample_call_def)
  moreover have "ledger_history (mw_items empty_world) (mw_items w1) {}"
    by (rule reserve_history [OF table_ok ledger_history.start empty_carrying ledger_sample_ok w1(1)])
  then have "carrying (mw_items w1)" using history_carrying empty_carrying by blast
  ultimately show ?thesis by blast
qed

text \<open>
  A reservation whose first response is lost: the request is sent again, meets the record of the first
  attempt and is refused. The record is in the table, and the one who wrote it is told that it was there before.
\<close>

lemma lossy_load: "ledger_load (lossy_table answer) = ledger_load (memory_table answer)"
  by (simp add: fun_eq_iff ledger_load_def lossy_table_def)

lemma memory_load: "ledger_load (memory_table answer) i w = (r, w') \<Longrightarrow> w' = w"
  by (auto simp: ledger_load_def memory_table_def io_simps split: option.splits sum.splits if_splits pyval.splits)

lemma ledger_sample_lost:
  fixes answer
  defines "w1 \<equiv> empty_world\<lparr>mw_items := [ledger_key ledger_sample_identity \<mapsto> stored_item (ledger_attributes ledger_sample_record)]\<rparr>"
  shows "run_reserve (lossy_table answer) ledger_sample_call empty_world =
    (Inr \<lparr>ro_record = ledger_sample_record, ro_created_here = False\<rparr>, w1)"
proof -
  let ?d = "ledger_attributes ledger_sample_record"
  have item: "ledger_item ledger_sample_record = Inr ?d" by (rule ledger_item_attributes [OF ledger_sample_valid(1)])
  have key: "key_of ?d = ledger_key ledger_sample_identity" by (simp add: ledger_attributes_head ledger_sample_valid(2))
  have "dy_put_item (lossy_table answer) ?d unless_exists empty_world = (Inl (AwsError CONDITIONAL_FAILURE), w1)"
    unfolding w1_def lossy_put
    by (simp add: key allowed_def attributes_lookup unless_exists_def request_written_def empty_world_def)
  moreover have "ledger_at (mw_items w1) ledger_sample_identity = Some ledger_sample_record"
    by (rule written_at_ledger) (simp add: written_at_def ledger_sample_valid w1_def)
  then obtain w2 where "ledger_load (memory_table answer) ledger_sample_identity w1 = (Inr (Some ledger_sample_record), w2)"
    using answering.load_answers by blast
  then have "ledger_load (lossy_table answer) ledger_sample_identity w1 = (Inr (Some ledger_sample_record), w1)"
    by (auto simp: lossy_load dest: memory_load)
  ultimately show ?thesis
    using ledger_sample_plan item
    by (simp add: run_reserve_def ledger_reserve_def reserve_plan_def attempt_def io_simps ledger_sample_call_def error_code_conditional)
qed

theorem reserve_outcome_witness:
  "\<exists>w1 d. run_reserve (lossy_table (\<lambda>_ _. PNone)) ledger_sample_call empty_world =
      (Inr \<lparr>ro_record = ledger_sample_record, ro_created_here = False\<rparr>, w1) \<and>
    mw_items w1 = request_written (mw_items empty_world) (Single (Put d unless_exists)) \<and>
    ledger_at (mw_items w1) ledger_sample_identity = Some ledger_sample_record"
proof -
  obtain w1 where w1: "mw_items w1 \<noteq> mw_items empty_world"
    "run_reserve (lossy_table (\<lambda>_ _. PNone)) ledger_sample_call empty_world =
      (Inr \<lparr>ro_record = ledger_sample_record, ro_created_here = False\<rparr>, w1)"
    using ledger_sample_lost [of "\<lambda>_ _. PNone"] by (fastforce simp: empty_world_def)
  have "rc_identity ledger_sample_call = ledger_sample_identity" by (simp add: ledger_sample_call_def)
  with reserve_outcome [OF lossy.conditional_table_axioms ledger_sample_ok empty_carrying w1(2)] w1 show ?thesis
    by auto
qed

definition ledger_sample_success :: ledger_transition_call where
  "ledger_sample_success = \<lparr>tc_expected = operation_state.PENDING, tc_version = led_version ledger_sample_record,
     tc_next = operation_state.SUCCEEDED, tc_response = durable_dict (led_durable_response ledger_sample_record),
     tc_failure = PNone, tc_completed = Some (Aware 2000), tc_updated = Aware 2000\<rparr>"

lemma ledger_sample_succeeds:
  assumes "written_at (mw_items w1) ledger_sample_identity ledger_sample_record"
  shows "\<exists>q w2. run_transition table ledger_sample_identity ledger_sample_success w1 = (Inr q, w2)"
proof -
  have fields: "led_state ledger_sample_record = operation_state.PENDING" "led_version ledger_sample_record = 1"
    "led_completed_at ledger_sample_record = None" "instant (led_updated_at ledger_sample_record) \<le> 2000"
    "instant (led_created_at ledger_sample_record) \<le> 2000" "2000 < instant (led_expires_at ledger_sample_record)"
    by (simp_all add: ledger_sample_record_def ledger_candidate_def)
  show ?thesis
    using answering.transition_answers [where answer = "\<lambda>_ _. PNone", OF assms success_plan [OF fields ledger_sample_valid, folded ledger_sample_success_def]]
    by (auto simp: table_def ledger_sample_success_def max_instant_def fields)
qed

theorem transition_outcome_witness:
  "\<exists>w1 q w2. run_transition table ledger_sample_identity ledger_sample_success w1 = (Inr q, w2) \<and>
    ledger_at (mw_items w2) ledger_sample_identity = Some q \<and> led_state q = operation_state.SUCCEEDED \<and> led_version q = 2"
proof -
  obtain w1 :: memory_world where "written_at (mw_items w1) ledger_sample_identity ledger_sample_record"
    using ledger_sample_reserved by blast
  then obtain q w2 where run: "run_transition table ledger_sample_identity ledger_sample_success w1 = (Inr q, w2)"
    using ledger_sample_succeeds by blast
  have "instant (tc_updated ledger_sample_success) < max_instant" by (simp add: ledger_sample_success_def max_instant_def)
  from transition_outcome [OF table_ok this run] run show ?thesis
    by (auto simp: ledger_sample_success_def ledger_sample_record_def ledger_candidate_def)
qed

theorem ledger_runs_are_histories_witness:
  "\<exists>w1. run_ledger table (ReserveOp ledger_sample_call) empty_world = (Inr (), w1) \<and>
    ledger_effect (ReserveOp ledger_sample_call) (ledger_at (mw_items empty_world)) (ledger_at (mw_items w1)) \<and>
    (\<exists>known. ledger_history (mw_items empty_world) (mw_items w1) known)"
proof -
  obtain w1 where w1: "run_reserve table ledger_sample_call empty_world = (Inr \<lparr>ro_record = ledger_sample_record, ro_created_here = True\<rparr>, w1)"
    "written_at (mw_items w1) ledger_sample_identity ledger_sample_record"
    using ledger_sample_reserved by blast
  then have run: "run_ledger table (ReserveOp ledger_sample_call) empty_world = (Inr (), w1)" by (simp add: io_simps)
  have "mw_items w1 \<noteq> mw_items empty_world" using w1(2) by (auto simp: written_at_def empty_world_def)
  then show ?thesis
    using ledger_runs_are_histories [OF table_ok ledger_history.start empty_carrying _ run] ledger_sample_ok run
    by (auto simp del: ledger_effect.simps)
qed

theorem ledger_only_evolves_witness:
  "\<exists>m m' q. ledger_at m ledger_sample_identity = Some ledger_sample_record \<and> ledger_at m' ledger_sample_identity = Some q \<and>
    ledger_evolves ledger_sample_record q \<and> led_state q = operation_state.SUCCEEDED"
proof -
  obtain w1 :: memory_world where w1: "written_at (mw_items w1) ledger_sample_identity ledger_sample_record" "carrying (mw_items w1)"
    using ledger_sample_reserved by blast
  then obtain q w2 where run: "run_transition table ledger_sample_identity ledger_sample_success w1 = (Inr q, w2)"
    using ledger_sample_succeeds by blast
  have time: "instant (tc_updated ledger_sample_success) < max_instant" by (simp add: ledger_sample_success_def max_instant_def)
  obtain known where history: "ledger_history (mw_items w1) (mw_items w2) known"
    using transition_history [OF table_ok ledger_history.start time run] by blast
  have "ledger_at (mw_items w2) ledger_sample_identity = Some q \<and> led_state q = operation_state.SUCCEEDED"
    using conditional_table.run_transition_result [OF table_ok run] by (simp add: ledger_sample_success_def)
  with ledger_only_evolves [OF history w1(2) written_at_ledger [OF w1(1)]] written_at_ledger [OF w1(1)]
  show ?thesis by auto
qed

theorem one_resource_per_key_witness:
  "\<exists>w1 out' w3. run_reserve table ledger_sample_call w1 = (Inr out', w3) \<and> same_reservation ledger_sample_record (ro_record out')"
proof -
  obtain w1 where w1: "run_reserve table ledger_sample_call empty_world = (Inr \<lparr>ro_record = ledger_sample_record, ro_created_here = True\<rparr>, w1)"
    "written_at (mw_items w1) ledger_sample_identity ledger_sample_record" "carrying (mw_items w1)"
    using ledger_sample_reserved by blast
  have at: "ledger_at (mw_items w1) (rc_identity ledger_sample_call) = Some ledger_sample_record"
    using written_at_ledger [OF w1(2)] by (simp add: ledger_sample_call_def)
  obtain b w3 where w3: "run_reserve table ledger_sample_call w1 = (Inr \<lparr>ro_record = ledger_sample_record, ro_created_here = b\<rparr>, w3)"
    using answering.reserve_finds [where answer = "\<lambda>_ _. PNone", OF ledger_sample_plan ledger_sample_ok w1(3) at refl refl]
    unfolding table_def by blast
  have "same_reservation ledger_sample_record ledger_sample_record"
    using one_resource_per_key [OF table_ok ledger_sample_ok ledger_sample_ok refl empty_carrying w1(1) ledger_history.start w3]
    by simp
  with w3 show ?thesis by (metis reservation_outcome.select_convs(1))
qed

section \<open>The status of a document\<close>

lemma first_date: "eat_date ''0001-01-01T00:00:00+00:00'' = Some (1, ''T00:00:00+00:00'')"
proof -
  have "eat_digits 4 ''0001-01-01T00:00:00+00:00'' = Some (1, ''-01-01T00:00:00+00:00'')"
    "eat_digits 2 ''01-01T00:00:00+00:00'' = Some (1, ''-01T00:00:00+00:00'')"
    "eat_digits 2 ''01T00:00:00+00:00'' = Some (1, ''T00:00:00+00:00'')" by code_simp+
  moreover have "ymd_to_ord 1 1 1 = 1" "days_in_month 1 1 = 31"
    by (simp_all add: ymd_to_ord_def days_in_month_def month_starts_def days_before_year_def)
  ultimately show ?thesis by (simp add: eat_date_def eat_def)
qed

lemma first_hour: "eat_time ''00:00:00+00:00'' = Some (0, ''+00:00'')"
proof -
  have "eat_digits 2 ''00:00:00+00:00'' = Some (0, '':00:00+00:00'')" "eat_digits 2 ''00:00+00:00'' = Some (0, '':00+00:00'')"
    "eat_digits 2 ''00+00:00'' = Some (0, ''+00:00'')" by code_simp+
  then show ?thesis by (simp add: eat_time_def eat_def eat_fraction_def)
qed

lemma first_instant: "parse_aware (PStr ''0001-01-01T00:00:00Z'') = Some 0"
proof -
  have "eat_digits 2 ''00:00'' = Some (0, '':00'')" "eat_digits 2 ''00'' = Some (0, [])" by code_simp+
  then have "eat_offset ''+00:00'' = Some (Some 0)" by (simp add: eat_offset_def eat_def)
  moreover have "replace_z ''0001-01-01T00:00:00Z'' = ''0001-01-01T00:00:00+00:00''" by code_simp
  ultimately show ?thesis using first_date first_hour by (simp add: parse_aware_def parse_iso_fields_def)
qed

definition finished_document :: item where
  "finished_document =
     [(''documentId'', PStr (replicate 32 CHR ''d'')), (''status'', PStr ''COMPLETED''),
      (''createdAt'', PStr ''0001-01-01T00:00:00Z''), (''updatedAt'', PStr ''0001-01-01T00:00:00Z''),
      (''completedAt'', PStr ''0001-01-01T00:00:00Z''), (''validation'', PDict [(''status'', PStr ''PASS'')]),
      (''stages'', PDict [(''persist'', PDict [(''status'', PStr ''DONE''), (''finalStatus'', PStr ''COMPLETED''),
         (''completedAt'', PStr ''0001-01-01T00:00:00Z'')])])]"

definition finished_evidence :: stage_evidence where
  "finished_evidence = [(''persist'', [(''status'', PStr ''DONE''), (''finalStatus'', PStr ''COMPLETED''),
     (''completedAt'', PStr ''0001-01-01T00:00:00Z'')], stage_state.SUCCEEDED)]"

lemma finished_stages: "stored_stages finished_document = Some finished_evidence"
  by code_simp

lemma finished_gates:
  "domain_gate finished_document ''COMPLETED'' finished_evidence" "failure_gate ''COMPLETED'' finished_evidence"
  "lifecycle_gate ''COMPLETED'' document_lifecycle.COMPLETED finished_evidence"
  "map_of STATUS_ADAPTER ''COMPLETED'' = Some (document_lifecycle.COMPLETED, pipeline_stage.TERMINAL, stage_state.SUCCEEDED)"
  "normalize_hex_id (PStr (replicate 32 CHR ''d'')) = Some (replicate 32 CHR ''d'')"
  by code_simp+

lemma finished_time: "completion_time finished_document ''COMPLETED'' finished_evidence = Some 0"
  by (simp add: completion_time_def finished_document_def finished_evidence_def first_instant py_get_def stage_names_def
      raw_status_def state_at_def TERMINAL_STAGE_RAW_STATE_ALLOWLIST_def)

lemma finished_shown:
  "\<exists>s. adapt_internal_document_status finished_document (Aware 0) = Inr s \<and> ds_lifecycle s = document_lifecycle.COMPLETED"
proof -
  have "\<exists>s. projected_status finished_document (Aware 0) = Some s \<and> ds_lifecycle s = document_lifecycle.COMPLETED \<and>
      ds_created_at s = 0 \<and> ds_updated_at s = 0 \<and> ds_terminal_at s = Some 0"
    unfolding projected_status_def finished_stages bind.simps
    using finished_gates finished_time first_instant
    by (simp add: finished_document_def py_get_def project_status_def terminal_projection_def status_response_def
        attempt_counter_def correlation_reference_def is_terminal_def)
  then obtain s where s: "projected_status finished_document (Aware 0) = Some s" "ds_lifecycle s = document_lifecycle.COMPLETED"
    "ds_created_at s = 0" "ds_updated_at s = 0" "ds_terminal_at s = Some 0" by blast
  then have "status_times_ok s" by (simp add: status_times_ok_def)
  with s(1,2) projected_consistent [OF s(1)] show ?thesis
    by (auto simp: adapt_internal_document_status_def consistent_status_def)
qed

theorem terminal_status_persisted_witness:
  "\<exists>s ev t. adapt_internal_document_status finished_document (Aware 0) = Inr s \<and>
    stored_stages finished_document = Some ev \<and> persisted_as finished_document ''COMPLETED'' ev t"
proof -
  obtain s where s: "adapt_internal_document_status finished_document (Aware 0) = Inr s" "ds_lifecycle s = document_lifecycle.COMPLETED"
    using finished_shown by blast
  from terminal_status_persisted [OF s(1)] s show ?thesis by auto
qed

section \<open>The journey\<close>

definition writer :: auth_context where
  "writer = sample_caller\<lparr>ac_granted_actions := {''write''}\<rparr>"

definition writer_scope :: owner_scope where
  "writer_scope = \<lparr>os_actor_digest = domain_digest ACTOR_IDENTITY_DOMAIN (actor_frame ''m2m'' ''client''),
     os_customer_id = ''acme'', os_deployment_id = ''dep_01ARZ3NDEKTSV4RRFFQ69G5FAV''\<rparr>"

definition idempotency_key :: pyval where "idempotency_key = PStr ''00000000-0000-4000-8000-000000000000''"

lemma writer_owner: "journey_owner (Some writer) = Inr (sample_owner, writer_scope)"
proof -
  have owner: "ownership_from_auth (Some writer) = Inr sample_owner"
    by (simp add: ownership_from_auth_Inr sample_owner_valid)
      (simp add: writer_def sample_caller_def sample_owner_def KNOWN_PRINCIPAL_TYPES_def)
  have "journey_customer_pattern ''acme''" "journey_deployment_pattern ''dep_01ARZ3NDEKTSV4RRFFQ69G5FAV''"
    "py_strip ''client'' \<noteq> []" by code_simp+
  then have "owner_scope_from_auth writer = Inr writer_scope"
    by (simp add: owner_scope_from_auth_def writer_def sample_caller_def journey_actor_def writer_scope_def)
  with owner show ?thesis by (simp add: journey_owner_def)
qed

lemma writer_may: "authorize_batch (Some writer) (Inst (record_fields sample_owner)) object_write = Inr sample_owner"
proof -
  have "ownership_from_auth (Some writer) = Inr sample_owner"
    by (simp add: ownership_from_auth_Inr sample_owner_valid)
      (simp add: writer_def sample_caller_def sample_owner_def KNOWN_PRINCIPAL_TYPES_def)
  moreover have "ac_granted_actions writer = {''write''}" by (simp add: writer_def)
  ultimately have "caller_may (Some writer) object_write sample_owner"
    unfolding caller_may_def by (intro exI [of _ writer] exI [of _ OBJECT_WRITE]) (simp add: object_write_def)
  moreover have "record_binds (record_fields sample_owner) sample_owner"
    by (simp add: record_binds_def record_fields_def py_get_def has_key_def OWNERSHIP_SCHEMA_VERSION_def)
  ultimately show ?thesis
    using sample_owner_valid(1) by (simp add: authorize_batch_def authorize_owned_record_caller)
qed

lemma domain_digest_normal: "normalized_digest (PStr (domain_digest d x)) = Inr (domain_digest d x)"
proof -
  have "match_prefixed ''sha256:'' is_lower_hex 64 64 (''sha256:'' @ sha256_hex y)" for y
    by (simp add: match_prefixed_def sha256_hex_lower_hex)
  then show ?thesis
    by (simp add: normalized_digest_def hex_digest_def domain_digest_def del: append_Cons append.simps)
qed

definition writer_identity :: operation_identity where
  "writer_identity = \<lparr>oi_contract_version = CONTRACT_VERSION, oi_operation = ''batches.create'',
     oi_actor_digest = os_actor_digest writer_scope, oi_customer_id = ''acme'',
     oi_deployment_id = ''dep_01ARZ3NDEKTSV4RRFFQ69G5FAV'',
     oi_key_digest = domain_digest IDEMPOTENCY_KEY_DOMAIN (py_str idempotency_key)\<rparr>"

lemma writer_key: "journey_identity writer_scope BATCH_CREATE idempotency_key = Inr writer_identity"
proof -
  have "uuid4_pattern (py_str idempotency_key)" by code_simp
  then have key: "idempotency_key_digest idempotency_key = Inr (oi_key_digest writer_identity)"
    by (simp add: idempotency_key_digest_def writer_identity_def idempotency_key_def)
  have "list_all ledger_identifier_pattern [CONTRACT_VERSION, ''acme'', ''dep_01ARZ3NDEKTSV4RRFFQ69G5FAV'']" by code_simp
  then have "operation_identity_new CONTRACT_VERSION ''batches.create'' (os_actor_digest writer_scope) ''acme''
      ''dep_01ARZ3NDEKTSV4RRFFQ69G5FAV'' (oi_key_digest writer_identity) = Inr writer_identity"
    by (simp add: operation_identity_new_def OPERATION_RESOURCE_TYPES_def writer_scope_def writer_identity_def
        domain_digest_normal)
  with key show ?thesis by (simp add: journey_identity_def writer_scope_def)
qed

definition journey_start :: journey_world where
  "journey_start = \<lparr>jw_ledger = empty_world, jw_business = Map.empty, jw_now = SITE_END, jw_drawn = 0, jw_claims = []\<rparr>"

lemma journey_start_sound: "journey_sound (journey_view journey_start) (jw_business journey_start)"
  by (simp add: journey_sound_def carrying_def backed_def ledger_at_def journey_view_def journey_start_def empty_world_def)

lemma journey_start_new: "journey_view journey_start (ledger_key writer_identity) = None"
  by (simp add: journey_view_def journey_start_def empty_world_def)

lemma journey_start_fresh:
  "jw_business w1 = jw_business journey_start \<Longrightarrow> jp_new_id site_ports w1 = (PStr s, w2) \<Longrightarrow>
    jw_business journey_start (''batch'', s) = None"
  by (simp add: journey_start_def)

theorem create_batch_succeeds_witness:
  "\<exists>r w'. create_batch site_ports (Some writer) idempotency_key journey_start = (r, w') \<and>
    ((\<exists>out. r = Inr out \<and> \<not> cr_replayed out) \<or>
     add_seconds (journey_time journey_start) (jp_retention_seconds site_ports) \<le> journey_time w')"
proof (rule create_batch_succeeds [OF journey.journey_site_up_axioms writer_owner writer_may writer_key journey_start_new])
  fix w1 s w2
  assume "jw_business w1 = jw_business journey_start" "jp_new_id site_ports w1 = (PStr s, w2)"
  then show "jw_business journey_start (''batch'', s) = None" by (rule journey_start_fresh)
qed

definition batch_call :: journey_call where "batch_call = BatchCall (Some writer) idempotency_key"

text \<open>The clock of the site stands at its end, so the retention period never passes.\<close>

lemma journey_start_created:
  "\<exists>out w' q. create_batch site_ports (Some writer) idempotency_key journey_start = (Inr out, w') \<and>
    journey.completed_at w' writer_identity q (canonical_request_digest BATCH_CREATE []) \<and>
    journey_response site_ports BATCH_CREATE q = Inr (cr_response out) \<and> SITE_END < instant (led_expires_at q)"
proof -
  have late: "SITE_END < add_seconds (journey_time journey_start) (jp_retention_seconds site_ports)"
    by (simp add: journey_time_def journey_start_def site_ports_def add_seconds_def SITE_RETENTION_def second_us_def)
  have "\<exists>r w'. create_batch site_ports (Some writer) idempotency_key journey_start = (r, w') \<and>
    ((\<exists>out q. r = Inr out \<and> \<not> cr_replayed out \<and>
        journey.completed_at w' writer_identity q (canonical_request_digest BATCH_CREATE []) \<and>
        journey_response site_ports BATCH_CREATE q = Inr (cr_response out) \<and>
        add_seconds (journey_time journey_start) (jp_retention_seconds site_ports) \<le> instant (led_expires_at q)) \<or>
     add_seconds (journey_time journey_start) (jp_retention_seconds site_ports) \<le> journey_time w')"
  proof (rule journey.create_batch_up [OF writer_owner writer_may writer_key journey_start_new])
    fix w1 s w2
    assume "jw_business w1 = jw_business journey_start" "jp_new_id site_ports w1 = (PStr s, w2)"
    then show "jw_business journey_start (''batch'', s) = None" by (rule journey_start_fresh)
  qed
  moreover have "journey_time w \<le> SITE_END" for w by (simp add: journey_time_def)
  ultimately show ?thesis using late by (meson le_less_trans less_le_trans not_less)
qed

lemma batch_call_runs:
  "\<exists>resp w' q. journey_run site_ports batch_call journey_start = (Inr (Some resp), w') \<and>
    journey.completed_at w' writer_identity q (canonical_request_digest BATCH_CREATE []) \<and>
    journey_response site_ports BATCH_CREATE q = Inr resp \<and> SITE_END < instant (led_expires_at q)"
  using journey_start_created by (fastforce simp: batch_call_def bind_def ret_def)

theorem acknowledged_resource_exists_witness:
  "\<exists>resp w'. journey_run site_ports batch_call journey_start = (Inr (Some resp), w') \<and>
    jw_business (journey_runs site_ports [batch_call] w') (answered_key BATCH_CREATE resp) \<noteq> None"
proof -
  obtain resp w' where run: "journey_run site_ports batch_call journey_start = (Inr (Some resp), w')"
    using batch_call_runs by blast
  from acknowledged_resource_exists [OF journey.journey_site_axioms journey_start_sound run, of "[batch_call]"] run
  show ?thesis by (auto simp: batch_call_def)
qed

theorem business_records_owned_witness:
  "\<exists>k. jw_business (journey_runs site_ports [batch_call] journey_start) k \<noteq> None \<and>
    (\<exists>i r. call_address batch_call = Some i \<and>
       ledger_at (journey_view (journey_runs site_ports [batch_call] journey_start)) i = Some r \<and> resource_key r = k)"
proof -
  obtain resp w' where run: "journey_run site_ports batch_call journey_start = (Inr (Some resp), w')"
    using batch_call_runs by blast
  have sound: "journey.sound journey_start" using journey_start_sound by (simp add: journey.sound_def)
  let ?k = "answered_key (call_kind batch_call) resp"
  have "jw_business (journey_runs site_ports [] w') ?k \<noteq> None"
    by (rule journey.calls_acknowledged [OF sound run journey.step_sound [OF journey.call_run(1) [OF sound run]]])
  then have k: "jw_business (journey_runs site_ports [batch_call] journey_start) ?k \<noteq> None" using run by simp
  have "jw_business journey_start ?k = None" by (simp add: journey_start_def)
  from business_records_owned [OF journey.journey_site_axioms journey_start_sound k this] k show ?thesis
    by (intro exI [of _ ?k]) simp
qed

lemma batch_call_again:
  assumes "journey_run site_ports batch_call journey_start = (Inr (Some resp), w')"
    and "journey.completed_at w' writer_identity q (canonical_request_digest BATCH_CREATE [])"
    and "journey_response site_ports BATCH_CREATE q = Inr resp" "SITE_END < instant (led_expires_at q)"
  shows "\<exists>w2. journey_run site_ports batch_call w' = (Inr (Some resp), w2)"
proof -
  have "journey.sound journey_start" using journey_start_sound by (simp add: journey.sound_def)
  then have "journey.sound w'" using journey.step_sound journey.call_run(1) assms(1) by blast
  from journey.create_batch_again [OF this writer_owner writer_may writer_key assms(2,3)]
  obtain r w2 where again: "create_batch site_ports (Some writer) idempotency_key w' = (r, w2)"
    "r = Inr \<lparr>cr_replayed = True, cr_response = resp\<rparr> \<or> instant (led_expires_at q) \<le> journey_time w2" by blast
  have "journey_time w2 \<le> SITE_END" by (simp add: journey_time_def)
  with again assms(4) have "create_batch site_ports (Some writer) idempotency_key w' =
      (Inr \<lparr>cr_replayed = True, cr_response = resp\<rparr>, w2)" by auto
  then show ?thesis by (simp add: batch_call_def bind_def ret_def)
qed

theorem replay_answers_the_same_witness:
  "\<exists>resp w1 resp' w2. journey_run site_ports batch_call journey_start = (Inr (Some resp), w1) \<and>
    journey_run site_ports batch_call w1 = (Inr (Some resp'), w2) \<and> dict_eq resp' resp"
proof -
  obtain resp w1 q where first: "journey_run site_ports batch_call journey_start = (Inr (Some resp), w1)"
    "journey.completed_at w1 writer_identity q (canonical_request_digest BATCH_CREATE [])"
    "journey_response site_ports BATCH_CREATE q = Inr resp" "SITE_END < instant (led_expires_at q)"
    using batch_call_runs by blast
  then obtain w2 where second: "journey_run site_ports batch_call w1 = (Inr (Some resp), w2)"
    using batch_call_again by blast
  then have "journey_run site_ports batch_call (journey_runs site_ports [] w1) = (Inr (Some resp), w2)" by simp
  from replay_answers_the_same [OF journey.journey_site_axioms journey_start_sound first(1) this refl] first(1) second
  show ?thesis by blast
qed

end
