(* ===== verification/Authentication.thy ===== *)
theory Authentication
  imports AuthzDecision PyText DynamoTable
begin

text \<open>
  \<open>app/auth.py\<close>: from the headers of a request to its \<open>auth_context\<close>. A bearer token is verified,
  its claims are checked against the settings of the deployment, and a person's snapshot or a
  machine's binding is resolved from them. Signatures, keys, clock and the table with the
  authentication events are ports.
\<close>

section \<open>Settings and ports\<close>

text \<open>
  The fields of \<open>Settings\<close> the code reads. A binding of a machine client, and the policy of action scopes, are
  dictionaries with the attributes of their models.
\<close>

record auth_settings =
  as_env :: string
  as_auth_mode :: string
  as_customer_id :: pyval
  as_deployment_id :: pyval
  as_user_pool_id :: pyval
  as_region :: string
  as_token_uses :: string
  as_client_ids :: string
  as_customer_claim :: string
  as_deployment_claim :: string
  as_m2m_resolution :: string
  as_m2m_tenant_map :: pyval
  as_m2m_bindings :: pyval
  as_m2m_actions :: pyval
  as_human_enabled :: pyval
  as_authz_schema_version :: pyval
  as_scope_catalog_version :: pyval
  as_role_catalog_version :: pyval
  as_policy_version :: pyval
  as_policy_digest :: pyval
  as_max_snapshot_age :: pyval
  as_assurance_claim :: pyval
  as_ledger_table :: pyval
  as_mock_customer :: pyval
  as_mock_subject :: pyval

text \<open>Why PyJWT refuses a token, by the handlers of the code; and the cache of signing keys.\<close>

datatype jwt_failure =
  Expired_Signature | Invalid_Issuer | Invalid_Algorithm | Jwks_Failure | Invalid_Token | Other_Failure

record jwks_cache =
  jc_issuer :: string
  jc_created :: int

text \<open>
  \<open>ap_signing_key\<close> is \<open>get_signing_key_from_jwt\<close> of a client for an URL, \<open>ap_decode\<close> is \<open>jwt.decode\<close> with a key,
  the algorithm RS256 and an issuer. The monotonic clock counts microseconds.
\<close>

record 'w auth_ports =
  ap_cache :: "'w \<Rightarrow> jwks_cache option"
  ap_set_cache :: "jwks_cache \<Rightarrow> 'w \<Rightarrow> 'w"
  ap_monotonic :: "'w \<Rightarrow> int \<times> 'w"
  ap_signing_key :: "string \<Rightarrow> string \<Rightarrow> ('w, jwt_failure, string) eio"
  ap_decode :: "string \<Rightarrow> string \<Rightarrow> string \<Rightarrow> ('w, jwt_failure, item) eio"
  ap_time :: "'w \<Rightarrow> int \<times> 'w"
  ap_events :: "string \<Rightarrow> 'w dynamo"

section \<open>Constants and errors\<close>

definition JWKS_CACHE_TTL :: int where "JWKS_CACHE_TTL = 300 * 1000000"

definition FORBIDDEN_TENANT_VALUES :: "string list" where
  "FORBIDDEN_TENANT_VALUES = [''default'', ''null'', ''none'', ''undefined'', '''']"

definition LEGACY_IDENTITY_CLAIMS :: "string list" where
  "LEGACY_IDENTITY_CLAIMS = [''tenant_id'', ''tenantId'', ''custom:tenantId'', ''customer_id'', ''customerId'',
     ''custom:customer_id'', ''deployment_id'', ''deploymentId'', ''custom:deploymentId'']"

definition DISALLOWED_TENANT_CLAIM_NAMES :: "string list" where
  "DISALLOWED_TENANT_CLAIM_NAMES = [''sub'', ''client_id'', ''username'', ''email'', ''scope'', ''scp'', ''iss'',
     ''aud'', ''exp'', ''iat'', ''nbf'', ''jti'', ''token_use'', ''auth_time'', ''at_hash'', ''cognito:username'',
     ''cognito:groups'', ''event_id'', ''origin_jti'']"

definition LOCAL_TEST_ENVS :: "string list" where
  "LOCAL_TEST_ENVS = [''local'', ''test'', ''ci'']"

definition forbidden :: "string \<Rightarrow> exn" where
  "forbidden message = AppExc (AppError ''FORBIDDEN'' message 403 [])"

definition unauthorized :: "string \<Rightarrow> exn" where
  "unauthorized message = AppExc (AppError ''UNAUTHORIZED'' message 401 [])"

definition misconfigured :: exn where
  "misconfigured = AppExc (AppError ''INTERNAL_ERROR'' ''Authentication service misconfigured'' 500 [])"

text \<open>The first condition that holds decides, with its error.\<close>

definition checked :: "(bool \<times> 'e) list \<Rightarrow> 'a \<Rightarrow> 'e + 'a" where
  "checked denials x = (case first_denial denials of Inl e \<Rightarrow> Inl e | Inr u \<Rightarrow> Inr x)"

section \<open>Tenant identifiers\<close>

text \<open>\<open>_TENANT_ID_PATTERN\<close> on a text without white space at its ends.\<close>

definition tenant_id_pattern :: "string \<Rightarrow> bool" where
  "tenant_id_pattern s \<longleftrightarrow> 2 \<le> length s \<and> length s \<le> 128 \<and> is_alnum (hd s) \<and> is_alnum (last s) \<and>
     list_all (\<lambda>c. is_alnum c \<or> c \<in> set ''_-.'') s"

definition validate_tenant_id :: "pyval \<Rightarrow> exn + string" where
  "validate_tenant_id v = (case str_view v of
       None \<Rightarrow> Inl (forbidden ''Tenant identifier is missing or invalid'')
     | Some s \<Rightarrow>
         if s = [] then Inl (forbidden ''Tenant identifier is missing or invalid'')
         else if py_lower (py_strip s) \<in> set FORBIDDEN_TENANT_VALUES then Inl (forbidden ''Tenant identifier is not allowed'')
         else if \<not> tenant_id_pattern (py_strip s) then Inl (forbidden ''Tenant identifier has invalid format'')
         else Inr (py_strip s))"

definition tenant_claim_name_ok :: "string \<Rightarrow> bool" where
  "tenant_claim_name_ok name \<longleftrightarrow> name \<noteq> [] \<and> py_strip (py_lower name) \<notin> set DISALLOWED_TENANT_CLAIM_NAMES"

section \<open>Verification of the token\<close>

definition cognito_issuer :: "auth_settings \<Rightarrow> string" where
  "cognito_issuer s = ''https://cognito-idp.'' @ as_region s @ ''.amazonaws.com/'' @ py_str (as_user_pool_id s)"

text \<open>\<open>_JWKSCache.get_signing_key\<close>: a client is used for its issuer and for five minutes.\<close>

definition stale_cache :: "jwks_cache option \<Rightarrow> string \<Rightarrow> int \<Rightarrow> bool" where
  "stale_cache cache issuer now \<longleftrightarrow> (case cache of None \<Rightarrow> True
     | Some c \<Rightarrow> jc_issuer c \<noteq> issuer \<or> JWKS_CACHE_TTL < now - jc_created c)"

definition signing_key :: "'w auth_ports \<Rightarrow> string \<Rightarrow> string \<Rightarrow> ('w, jwt_failure, string) eio" where
  "signing_key ap token issuer = (\<lambda>w. case ap_monotonic ap w of (now, w1) \<Rightarrow>
     (let cache = (if stale_cache (ap_cache ap w1) issuer now then \<lparr>jc_issuer = issuer, jc_created = now\<rparr>
                   else the (ap_cache ap w1));
          w2 = (if stale_cache (ap_cache ap w1) issuer now then ap_set_cache ap cache w1 else w1)
      in ap_signing_key ap (jc_issuer cache @ ''/.well-known/jwks.json'') token w2))"

fun jwt_refusal :: "jwt_failure \<Rightarrow> exn" where
  "jwt_refusal Expired_Signature = unauthorized ''Token has expired''"
| "jwt_refusal Invalid_Issuer = unauthorized ''Invalid token issuer''"
| "jwt_refusal Invalid_Algorithm = unauthorized ''Invalid token algorithm''"
| "jwt_refusal Jwks_Failure = unauthorized ''Unable to verify token signature''"
| "jwt_refusal Invalid_Token = unauthorized ''Invalid token''"
| "jwt_refusal Other_Failure = unauthorized ''Token verification failed''"

definition comma_texts :: "string \<Rightarrow> string list" where
  "comma_texts s = filter (\<lambda>t. t \<noteq> []) (map py_strip (split_at (CHR '','') [] s))"

definition token_uses :: "auth_settings \<Rightarrow> string list" where
  "token_uses s = (let uses = map py_lower (comma_texts (as_token_uses s)) in if uses = [] then [''access''] else uses)"

definition client_ids :: "auth_settings \<Rightarrow> string list" where
  "client_ids s = comma_texts (as_client_ids s)"

definition local_test_env :: "auth_settings \<Rightarrow> bool" where
  "local_test_env s \<longleftrightarrow> py_strip (py_lower (as_env s)) \<in> set LOCAL_TEST_ENVS"

text \<open>\<open>v in [...]\<close> for a list of texts.\<close>

definition among :: "pyval \<Rightarrow> string list \<Rightarrow> bool" where
  "among v ts \<longleftrightarrow> list_ex (\<lambda>t. py_eq v (PStr t)) ts"

definition audience_ok :: "pyval \<Rightarrow> string list \<Rightarrow> bool" where
  "audience_ok aud ids \<longleftrightarrow> aud = PNone \<or> list_ex (\<lambda>a. among a ids) (case aud of PList vs \<Rightarrow> vs | _ \<Rightarrow> [aud])"

definition token_denials :: "auth_settings \<Rightarrow> item \<Rightarrow> (bool \<times> exn) list" where
  "token_denials s d =
     (let ids = client_ids s; token_use = py_get d ''token_use''; aud = py_get d ''aud''
      in [(\<not> among token_use (token_uses s), unauthorized ''Invalid token type''),
          (\<not> local_test_env s \<and> ids = [], misconfigured)]
       @ (if ids = [] then []
          else if py_eq token_use (PStr ''access'')
          then [(\<not> among (py_get d ''client_id'') ids, unauthorized ''Token client not authorized''),
                (\<not> audience_ok aud ids, unauthorized ''Token audience not authorized'')]
          else if py_eq token_use (PStr ''id'')
          then [(\<not> among aud ids, unauthorized ''ID token audience not authorized'')]
          else []))"

definition verify_cognito_jwt :: "'w auth_ports \<Rightarrow> auth_settings \<Rightarrow> string \<Rightarrow> ('w, item) io" where
  "verify_cognito_jwt ap s token =
     bind (catch (bind (signing_key ap token (cognito_issuer s)) (\<lambda>key. ap_decode ap token key (cognito_issuer s)))
             (\<lambda>failure. raise (jwt_refusal failure))) (\<lambda>claims.
       lift (checked (token_denials s claims) claims))"

section \<open>Machine principals\<close>

definition is_human_principal :: "item \<Rightarrow> bool" where
  "is_human_principal d \<longleftrightarrow> py_truthy (py_get d ''cognito:username'') \<or> py_truthy (py_get d ''username'') \<or>
     py_eq (py_get d ''principal_type'') (PStr ''user'')"

definition binding_value :: "pyval \<Rightarrow> string \<Rightarrow> pyval" where
  "binding_value binding name = (case binding of PDict d \<Rightarrow> py_get d name | _ \<Rightarrow> PNone)"

text \<open>
  A collection of scopes after stripping, when it is not empty and all members are distinct
  texts. (A tuple or a set is the list of its members.)
\<close>

definition stripped_scopes :: "pyval \<Rightarrow> string list option" where
  "stripped_scopes v = (case v of
       PList vs \<Rightarrow>
         (let ts = map (\<lambda>x. py_strip (the (str_view x))) (filter (str_sat (\<lambda>t. py_strip t \<noteq> [])) vs)
          in if ts \<noteq> [] \<and> length (remdups ts) = length vs then Some ts else None)
     | _ \<Rightarrow> None)"

definition M2M_ACTIONS :: "string list" where "M2M_ACTIONS = [''read'', ''write'', ''admin'']"

definition policy_scopes :: "pyval \<Rightarrow> string \<Rightarrow> string list option" where
  "policy_scopes pol action = stripped_scopes (binding_value pol action)"

text \<open>The scopes of an action under a policy whose three sets are well formed.\<close>

definition action_scopes :: "pyval \<Rightarrow> string \<Rightarrow> string set" where
  "action_scopes pol action = (case policy_scopes pol action of None \<Rightarrow> {} | Some ts \<Rightarrow> set ts)"

definition scopes_overlap :: "pyval \<Rightarrow> bool" where
  "scopes_overlap pol \<longleftrightarrow> list_ex (\<lambda>(left, right). action_scopes pol left \<inter> action_scopes pol right \<noteq> {})
     [(''read'', ''write''), (''read'', ''admin''), (''write'', ''admin'')]"

definition granted_actions :: "pyval \<Rightarrow> string set \<Rightarrow> string list" where
  "granted_actions pol scopes = filter (\<lambda>a. action_scopes pol a \<subseteq> scopes) M2M_ACTIONS"

definition policy_invalid :: exn where "policy_invalid = forbidden ''M2M authorization policy is invalid''"
definition binding_invalid :: exn where "binding_invalid = forbidden ''M2M identity binding is invalid''"

definition m2m_action_denials :: "pyval \<Rightarrow> string set \<Rightarrow> (bool \<times> exn) list" where
  "m2m_action_denials pol scopes =
     [(pol = PNone, forbidden ''M2M authorization policy is not configured''),
      (list_ex (\<lambda>a. policy_scopes pol a = None) M2M_ACTIONS, policy_invalid),
      (scopes_overlap pol, policy_invalid),
      (\<not> scopes \<subseteq> (\<Union>a\<in>set M2M_ACTIONS. action_scopes pol a), binding_invalid),
      (list_ex (\<lambda>a. scopes \<inter> action_scopes pol a \<noteq> {} \<and> scopes \<inter> action_scopes pol a \<noteq> action_scopes pol a)
         M2M_ACTIONS, binding_invalid),
      (granted_actions pol scopes = [], binding_invalid)]"

definition derive_m2m_granted_actions :: "auth_settings \<Rightarrow> string set \<Rightarrow> exn + string set" where
  "derive_m2m_granted_actions s scopes =
     checked (m2m_action_denials (as_m2m_actions s) scopes) (set (granted_actions (as_m2m_actions s) scopes))"

text \<open>The binding of the client a token names.\<close>

definition client_binding :: "auth_settings \<Rightarrow> item \<Rightarrow> pyval option" where
  "client_binding s d = (case (str_view (py_get d ''client_id''), as_m2m_bindings s) of
       (Some c, PDict bindings) \<Rightarrow> map_of bindings c | _ \<Rightarrow> None)"

definition bound :: "auth_settings \<Rightarrow> item \<Rightarrow> string \<Rightarrow> pyval" where
  "bound s d name = (case client_binding s d of None \<Rightarrow> PNone | Some b \<Rightarrow> binding_value b name)"

definition m2m_binding_denials :: "auth_settings \<Rightarrow> item \<Rightarrow> (bool \<times> exn) list" where
  "m2m_binding_denials s d =
     [(py_lower (py_strip (as_m2m_resolution s)) \<noteq> ''client_identity_bindings_v1'',
         forbidden ''M2M identity binding is not configured''),
      (\<not> str_sat (\<lambda>c. c \<noteq> []) (py_get d ''client_id''), forbidden ''M2M client is not authorized''),
      (\<not> py_eq (py_get d ''token_use'') (PStr ''access''), unauthorized ''Invalid token type''),
      (client_binding s d = None, forbidden ''M2M client is not authorized''),
      (\<not> str_sat customer_id_pattern (bound s d ''customer_id''), binding_invalid),
      (\<not> str_sat deployment_id_pattern (bound s d ''deployment_id''), binding_invalid),
      (py_eq (bound s d ''customer_id'') (bound s d ''deployment_id''), binding_invalid),
      (stripped_scopes (bound s d ''required_scopes'') = None, binding_invalid)]"

definition required_scopes :: "auth_settings \<Rightarrow> item \<Rightarrow> string set" where
  "required_scopes s d = (case stripped_scopes (bound s d ''required_scopes'') of None \<Rightarrow> {} | Some ts \<Rightarrow> set ts)"

definition m2m_deployment_denials :: "auth_settings \<Rightarrow> item \<Rightarrow> string set \<Rightarrow> (bool \<times> exn) list" where
  "m2m_deployment_denials s d scopes =
     [(\<not> str_sat customer_id_pattern (as_customer_id s), binding_invalid),
      (\<not> str_sat deployment_id_pattern (as_deployment_id s), binding_invalid),
      (\<not> py_eq (bound s d ''customer_id'') (as_customer_id s), forbidden ''M2M client is not authorized for this deployment''),
      (\<not> py_eq (bound s d ''deployment_id'') (as_deployment_id s), forbidden ''M2M client is not authorized for this deployment''),
      (\<not> required_scopes s d \<subseteq> scopes, forbidden ''M2M token has insufficient scope''),
      (py_get d (as_customer_claim s) \<noteq> PNone \<and> \<not> py_eq (py_get d (as_customer_claim s)) (bound s d ''customer_id''),
         forbidden ''M2M token identity does not match its binding''),
      (py_get d (as_deployment_claim s) \<noteq> PNone \<and> \<not> py_eq (py_get d (as_deployment_claim s)) (bound s d ''deployment_id''),
         forbidden ''M2M token identity does not match its binding'')]"

definition resolve_m2m_identity :: "auth_settings \<Rightarrow> item \<Rightarrow> string set \<Rightarrow> exn + auth_context" where
  "resolve_m2m_identity s d scopes =
     (case first_denial (m2m_binding_denials s d) of Inl e \<Rightarrow> Inl e | Inr u \<Rightarrow>
      (case derive_m2m_granted_actions s (required_scopes s d) of Inl e \<Rightarrow> Inl e | Inr actions \<Rightarrow>
       checked (m2m_deployment_denials s d scopes)
         \<lparr>ac_customer_id = bound s d ''customer_id'', ac_deployment_id = bound s d ''deployment_id'',
          ac_principal_type = PStr ''m2m'',
          ac_subject = (if py_truthy (py_get d ''sub'') then py_get d ''sub'' else py_get d ''client_id''),
          ac_client_id = py_get d ''client_id'', ac_scopes = scopes, ac_granted_actions = actions,
          ac_email = PNone, ac_name = PNone, ac_auth_source = PStr ''m2m_identity_binding_v1'',
          ac_human_authorization = NoneRef\<rparr>))"

section \<open>Human principals\<close>

text \<open>\<open>_deny_human_authorization\<close>: the reason is logged only.\<close>

definition human_denied :: "string \<Rightarrow> exn" where
  "human_denied reason = (if reason = ''human_access_token_required'' then unauthorized ''Invalid token type''
     else forbidden ''Principal is not authorized for this operation'')"

definition snapshot_age_setting_ok :: "pyval \<Rightarrow> bool" where
  "snapshot_age_setting_ok v = (case v of PInt n \<Rightarrow> 1 \<le> n \<and> n \<le> MAX_MEMBERSHIP_SNAPSHOT_AGE_SECONDS | _ \<Rightarrow> False)"

definition runtime_contract_denials :: "auth_settings \<Rightarrow> (bool \<times> string) list" where
  "runtime_contract_denials s =
     [(differs (as_authz_schema_version s) AUTHZ_SCHEMA_VERSION, ''runtime_contract_mismatch''),
      (differs (as_scope_catalog_version s) SCOPE_CATALOG_VERSION, ''runtime_contract_mismatch''),
      (differs (as_role_catalog_version s) ROLE_CATALOG_VERSION, ''runtime_contract_mismatch''),
      (differs (as_policy_version s) POLICY_VERSION, ''runtime_contract_mismatch''),
      (\<not> constant_time_equal (as_policy_digest s) POLICY_DIGEST, ''runtime_policy_digest_mismatch''),
      (\<not> snapshot_age_setting_ok (as_max_snapshot_age s), ''invalid_membership_snapshot_max_age''),
      (as_customer_claim s \<noteq> ''custom:customerId'', ''noncanonical_customer_claim_configuration''),
      (as_deployment_claim s \<noteq> ''custom:deployment_id'', ''noncanonical_deployment_claim_configuration'')]"

definition required_claim :: "item \<Rightarrow> string \<Rightarrow> bool" where
  "required_claim d name \<longleftrightarrow> str_sat (\<lambda>t. py_strip t \<noteq> [] \<and> t = py_strip t) (py_get d name)"

definition required_epoch :: "item \<Rightarrow> string \<Rightarrow> bool" where
  "required_epoch d name \<longleftrightarrow> (case py_get d name of PInt n \<Rightarrow> 0 < n \<and> n \<le> 9999999999 | _ \<Rightarrow> False)"

definition deployment_claim_ok :: "(string \<Rightarrow> bool) \<Rightarrow> item \<Rightarrow> string \<Rightarrow> pyval \<Rightarrow> bool" where
  "deployment_claim_ok pattern d name expected \<longleftrightarrow>
     str_sat pattern (py_get d name) \<and> str_sat pattern expected \<and> py_eq (py_get d name) expected"

definition human_claim_denials :: "auth_settings \<Rightarrow> item \<Rightarrow> (bool \<times> string) list" where
  "human_claim_denials s d =
     [(\<not> py_eq (py_get d ''token_use'') (PStr ''access''), ''human_access_token_required''),
      (differs (py_get d ''principal_type'') ''user'', ''invalid_human_principal_type''),
      (list_ex (\<lambda>name. map_of d name \<noteq> None) LEGACY_IDENTITY_CLAIMS, ''legacy_identity_claim_present'')]
     @ runtime_contract_denials s @
     [(\<not> required_claim d ''sub'', ''missing_or_malformed_authorization_claim''),
      (\<not> required_claim d ''custom:customerId'', ''missing_or_malformed_authorization_claim''),
      (\<not> required_claim d ''custom:deployment_id'', ''missing_or_malformed_authorization_claim''),
      (\<not> is_valid_subject_reference (py_get d ''sub''), ''malformed_subject''),
      (\<not> deployment_claim_ok customer_id_pattern d ''custom:customerId'' (as_customer_id s), ''customer_binding_mismatch''),
      (\<not> deployment_claim_ok deployment_id_pattern d ''custom:deployment_id'' (as_deployment_id s), ''deployment_binding_mismatch''),
      (differs (py_get d ''membership_state'') ''active'', ''inactive_membership''),
      (role_of (py_get d ''role_id'') = None, ''unknown_role''),
      (\<not> required_claim d ''membership_version'', ''missing_or_malformed_authorization_claim''),
      (\<not> is_valid_version_reference (py_get d ''membership_version''), ''malformed_membership_version''),
      (differs (py_get d ''authz_schema_version'') AUTHZ_SCHEMA_VERSION, ''authorization_contract_claim_mismatch''),
      (differs (py_get d ''scope_catalog_version'') SCOPE_CATALOG_VERSION, ''authorization_contract_claim_mismatch''),
      (differs (py_get d ''role_catalog_version'') ROLE_CATALOG_VERSION, ''authorization_contract_claim_mismatch''),
      (differs (py_get d ''policy_version'') POLICY_VERSION, ''authorization_contract_claim_mismatch''),
      (\<not> constant_time_equal (py_get d ''policy_digest'') POLICY_DIGEST, ''policy_digest_claim_mismatch''),
      (\<not> required_epoch d ''iat'', ''missing_or_malformed_authorization_time''),
      (\<not> required_epoch d ''auth_time'', ''missing_or_malformed_authorization_time'')]"

definition human_time_denials :: "auth_settings \<Rightarrow> item \<Rightarrow> int \<Rightarrow> (bool \<times> string) list" where
  "human_time_denials s d now =
     (let issued = int_of (py_get d ''iat''); authenticated = int_of (py_get d ''auth_time'')
      in [(now - issued < 0 \<or> now - issued > int_of (as_max_snapshot_age s), ''stale_membership_snapshot''),
          (authenticated > issued \<or> authenticated > now, ''conflicting_authentication_time'')])"

section \<open>Assurance\<close>

text \<open>
  What the stored authentication event adds to a snapshot: assurance, source, version and
  reference, in the order the code assigns them. An exception on the way is logged, and what was assigned
  before it stays.
\<close>

record assurance_fields =
  af_assurance :: pyval
  af_source :: pyval
  af_version :: pyval
  af_reference :: pyval

definition no_evidence :: assurance_fields where
  "no_evidence = \<lparr>af_assurance = PNone, af_source = PNone, af_version = PNone, af_reference = PNone\<rparr>"

definition event_pk :: "pyval \<Rightarrow> string" where
  "event_pk jti = ''AUTH_EVENT#'' @ py_str jti"

definition event_reference :: "string \<Rightarrow> string" where
  "event_reference jti = ''ref_'' @ py_lower (filter (\<lambda>c. c \<noteq> CHR ''-'') jti)"

text \<open>\<open>int(item.get("auth_time", 0))\<close>: an integral number of the table or a numeral.\<close>

definition event_time :: "item \<Rightarrow> int option" where
  "event_time e = (case map_of e ''auth_time'' of
       None \<Rightarrow> Some 0
     | Some v \<Rightarrow> (case v of PInt n \<Rightarrow> Some n | PDec n t \<Rightarrow> Some n | PBool b \<Rightarrow> Some (if b then 1 else 0)
         | _ \<Rightarrow> Option.bind (str_view v) py_int))"

definition event_evidence :: "item \<Rightarrow> pyval \<Rightarrow> int \<Rightarrow> int \<Rightarrow> assurance_fields" where
  "event_evidence e jti authenticated now =
     (if e = [] \<or> differs (py_get e ''assurance'') (assurance_value PHISHING_RESISTANT_MFA) then no_evidence
      else (case event_time e of
          None \<Rightarrow> no_evidence
        | Some t \<Rightarrow>
            if t \<noteq> authenticated \<or> 300 < now - t then no_evidence
            else (let a = no_evidence\<lparr>af_assurance := PEnum ''Assurance'' ''PHISHING_RESISTANT_MFA'' (assurance_value PHISHING_RESISTANT_MFA)\<rparr>
              in if differs (py_get e ''assurance_source'') ASSURANCE_SOURCE then a
                 else (let b = a\<lparr>af_source := PEnum ''AssuranceSource'' ''AUTHORITATIVE_AUTHENTICATION_EVENT'' ASSURANCE_SOURCE\<rparr>
                   in if differs (py_get e ''assurance_version'') ASSURANCE_VERSION then b
                      else (let c = b\<lparr>af_version := PEnum ''AssuranceVersion'' ''PHISHING_RESISTANT_MFA_V1'' ASSURANCE_VERSION\<rparr>
                        in case str_view jti of None \<Rightarrow> c
                           | Some j \<Rightarrow> c\<lparr>af_reference := PStr (event_reference j)\<rparr>)))))"

definition read_evidence :: "'w auth_ports \<Rightarrow> auth_settings \<Rightarrow> item \<Rightarrow> int \<Rightarrow> ('w, assurance_fields) io" where
  "read_evidence ap s d now =
     (let jti = py_get d ''jti''; table = as_ledger_table s
      in if \<not> py_truthy jti \<or> \<not> py_truthy table then ret no_evidence
         else catch (bind (dy_get_item (ap_events ap (py_str table)) (event_pk jti, ''META'')) (\<lambda>response.
                  ret (case response_item response of None \<Rightarrow> no_evidence
                    | Some e \<Rightarrow> event_evidence e jti (int_of (py_get d ''auth_time'')) now)))
                (\<lambda>_. ret no_evidence))"

fun human_role_name :: "human_role \<Rightarrow> string" where
  "human_role_name CUSTOMER_ADMIN = ''CUSTOMER_ADMIN''"
| "human_role_name DOCUMENT_OPERATOR = ''DOCUMENT_OPERATOR''"
| "human_role_name DOCUMENT_REVIEWER = ''DOCUMENT_REVIEWER''"
| "human_role_name AUDITOR = ''AUDITOR''"

definition claims_snapshot :: "item \<Rightarrow> assurance_fields \<Rightarrow> snapshot" where
  "claims_snapshot d f =
     (let role = the (role_of (py_get d ''role_id''))
      in \<lparr>sn_schema_version = PStr AUTHORIZATION_CONTEXT_SCHEMA_VERSION,
       sn_authorization_path = PEnum ''AuthorizationPath'' ''MEMBERSHIP'' (authorization_path_value MEMBERSHIP),
       sn_authorization_source = PStr MEMBERSHIP_SOURCE, sn_subject = py_get d ''sub'',
       sn_customer_id = py_get d ''custom:customerId'', sn_deployment_id = py_get d ''custom:deployment_id'',
       sn_membership_state = PStr ''active'',
       sn_role_id = PEnum ''HumanRole'' (human_role_name role) (human_role_value role),
       sn_membership_version = py_get d ''membership_version'',
       sn_temporary_grant_id = PNone, sn_temporary_grant_type = PNone, sn_temporary_grant_state = PNone,
       sn_temporary_grant_version = PNone, sn_allowed_operation_ids = [], sn_allowed_data_classes = [],
       sn_expires_at_epoch = PNone, sn_authz_schema_version = PStr AUTHZ_SCHEMA_VERSION,
       sn_scope_catalog_version = PStr SCOPE_CATALOG_VERSION, sn_role_catalog_version = PStr ROLE_CATALOG_VERSION,
       sn_policy_version = PStr POLICY_VERSION, sn_policy_digest = PStr POLICY_DIGEST,
       sn_issued_at_epoch = py_get d ''iat'', sn_assurance = af_assurance f,
       sn_authenticated_at_epoch = py_get d ''auth_time'', sn_grant_issued_at_epoch = PNone,
       sn_assurance_source = af_source f, sn_assurance_version = af_version f,
       sn_authentication_event_reference = af_reference f, sn_case_reference = PNone,
       sn_incident_reference = PNone, sn_purpose_reference = PNone, sn_approval_references = []\<rparr>)"

definition as_denied :: "string + 'a \<Rightarrow> exn + 'a" where
  "as_denied r = (case r of Inl reason \<Rightarrow> Inl (human_denied reason) | Inr x \<Rightarrow> Inr x)"

definition resolve_human_snapshot :: "'w auth_ports \<Rightarrow> auth_settings \<Rightarrow> item \<Rightarrow> ('w, snapshot) io" where
  "resolve_human_snapshot ap s d =
     bind (lift (as_denied (checked (human_claim_denials s d) ()))) (\<lambda>_.
     bind (\<lambda>w. case ap_time ap w of (now, w') \<Rightarrow> (Inr now, w')) (\<lambda>now.
     bind (lift (as_denied (checked (human_time_denials s d now) ()))) (\<lambda>_.
     bind (read_evidence ap s d now) (\<lambda>f.
       ret (claims_snapshot d f)))))"

section \<open>Resolving a request\<close>

definition token_scopes :: "item \<Rightarrow> string set" where
  "token_scopes d = (case map_of d ''scope'' of None \<Rightarrow> {}
     | Some v \<Rightarrow> (case str_view v of Some t \<Rightarrow> set (py_words [] t) | None \<Rightarrow> {}))"

definition header_rejected :: exn where
  "header_rejected = forbidden ''Client-supplied identity headers are not allowed''"

definition human_context :: "item \<Rightarrow> snapshot \<Rightarrow> auth_context" where
  "human_context d sn =
     \<lparr>ac_customer_id = sn_customer_id sn, ac_deployment_id = sn_deployment_id sn, ac_principal_type = PStr ''user'',
      ac_subject = py_get d ''sub'', ac_client_id = py_get d ''client_id'', ac_scopes = token_scopes d,
      ac_granted_actions = {}, ac_email = py_get d ''email'',
      ac_name = (if py_truthy (py_get d ''name'') then py_get d ''name'' else py_get d ''given_name''),
      ac_auth_source = PStr ''cognito_jwt'', ac_human_authorization = Inst sn\<rparr>"

definition resolve_cognito_auth ::
  "'w auth_ports \<Rightarrow> auth_settings \<Rightarrow> string \<Rightarrow> string option \<Rightarrow> ('w, auth_context) io" where
  "resolve_cognito_auth ap s token legacy_header =
     bind (verify_cognito_jwt ap s token) (\<lambda>d.
     bind (ensure (legacy_header = None) header_rejected) (\<lambda>_.
     if py_truthy (py_get d ''client_id'') \<and> \<not> is_human_principal d
     then lift (resolve_m2m_identity s d (token_scopes d))
     else bind (ensure (as_human_enabled s = PBool True) (forbidden ''Access is not available for this principal'')) (\<lambda>_.
          bind (resolve_human_snapshot ap s d) (\<lambda>sn. ret (human_context d sn)))))"

definition resolve_local_mock_auth :: "auth_settings \<Rightarrow> exn + auth_context" where
  "resolve_local_mock_auth s =
     (if \<not> local_test_env s \<or> \<not> py_truthy (as_mock_customer s) then Inl (PyExc ''RuntimeError'')
      else (case validate_tenant_id (as_mock_customer s) of Inl e \<Rightarrow> Inl e
        | Inr customer \<Rightarrow>
            if \<not> str_sat deployment_id_pattern (as_deployment_id s) then Inl (PyExc ''RuntimeError'')
            else Inr \<lparr>ac_customer_id = PStr customer, ac_deployment_id = as_deployment_id s,
              ac_principal_type = PStr ''local_mock'', ac_subject = as_mock_subject s, ac_client_id = PNone,
              ac_scopes = {''scanalyze-ingest/ingest.read'', ''scanalyze-ingest/ingest.write''},
              ac_granted_actions = {}, ac_email = PNone, ac_name = PStr ''Local Dev User'',
              ac_auth_source = PStr ''local_mock'', ac_human_authorization = NoneRef\<rparr>))"

text \<open>
  \<open>get_auth_context\<close>, the dependency of the protected routes. A header that starts with \<open>bearer\<close> and a
  space is split at that space.
\<close>

definition get_auth_context ::
  "'w auth_ports \<Rightarrow> auth_settings \<Rightarrow> string option \<Rightarrow> string option \<Rightarrow> ('w, auth_context) io" where
  "get_auth_context ap s authorization tenant_header =
     (if as_auth_mode s = ''local_mock''
      then bind (ensure (tenant_header = None) header_rejected) (\<lambda>_. lift (resolve_local_mock_auth s))
      else (case authorization of
          None \<Rightarrow> raise (unauthorized ''Missing Authorization header'')
        | Some header \<Rightarrow>
            if header = [] then raise (unauthorized ''Missing Authorization header'')
            else if \<not> starts_with ''bearer '' (py_lower header)
            then raise (unauthorized ''Authorization header must use Bearer scheme'')
            else (let token = py_strip (drop 7 header)
                  in if token = [] then raise (unauthorized ''Empty bearer token'')
                     else if \<not> py_truthy (as_user_pool_id s) then raise misconfigured
                     else resolve_cognito_auth ap s token tenant_header)))"

text \<open>\<open>_validate_deployment_customer\<close>\<close>

definition validate_deployment_customer :: "string \<Rightarrow> auth_settings \<Rightarrow> exn + unit" where
  "validate_deployment_customer customer s =
     (case str_view (as_customer_id s) of
        None \<Rightarrow> Inr ()
      | Some expected \<Rightarrow>
          if py_strip expected = [] \<or> customer = py_strip expected then Inr ()
          else Inl (forbidden ''Token customer is not authorized for this deployment''))"

end
