(* ===== verification/AuthConfig.thy ===== *)
theory AuthConfig
  imports Authentication
begin

text \<open>
  The validation of the authentication settings at startup, \<open>validate_auth_config\<close> of
  \<open>app/config.py\<close>, with its models of a machine client's binding and of the action scopes. The messages
  collected there are represented by the name of the setting they complain about.
\<close>

section \<open>Models\<close>

record m2m_binding =
  mb_customer_id :: string
  mb_deployment_id :: string
  mb_required_scopes :: "string list"

definition exact_keys :: "string list \<Rightarrow> item \<Rightarrow> bool" where
  "exact_keys ks d \<longleftrightarrow> set (map fst d) = set ks"

text \<open>\<open>M2MClientIdentityBindingV1.model_validate\<close>; an instance has passed it before.\<close>

definition binding_model :: "pyval \<Rightarrow> m2m_binding option" where
  "binding_model v = (case v of
       PDict d \<Rightarrow>
         if exact_keys [''customer_id'', ''deployment_id'', ''required_scopes''] d
            \<and> str_sat customer_id_pattern (py_get d ''customer_id'')
            \<and> str_sat deployment_id_pattern (py_get d ''deployment_id'')
            \<and> \<not> py_eq (py_get d ''customer_id'') (py_get d ''deployment_id'')
         then map_option (\<lambda>scopes. \<lparr>mb_customer_id = the (str_view (py_get d ''customer_id'')),
                mb_deployment_id = the (str_view (py_get d ''deployment_id'')), mb_required_scopes = scopes\<rparr>)
              (stripped_scopes (py_get d ''required_scopes''))
         else None
     | _ \<Rightarrow> None)"

text \<open>\<open>M2MActionScopeSetsV1.model_validate\<close>\<close>

definition action_sets_model :: "pyval \<Rightarrow> bool" where
  "action_sets_model v \<longleftrightarrow> (case v of
       PDict d \<Rightarrow> exact_keys M2M_ACTIONS d \<and> list_all (\<lambda>a. policy_scopes v a \<noteq> None) M2M_ACTIONS \<and> \<not> scopes_overlap v
     | _ \<Rightarrow> False)"

section \<open>The checks\<close>

definition VALID_AUTH_MODES :: "string list" where
  "VALID_AUTH_MODES = [''cognito_jwt'', ''local_mock'']"

definition VALID_M2M_RESOLUTION_MODES :: "string list" where
  "VALID_M2M_RESOLUTION_MODES = [''disabled'', ''client_identity_bindings_v1'']"

definition auth_mode_of :: "auth_settings \<Rightarrow> string" where
  "auth_mode_of s = py_strip (py_lower (as_auth_mode s))"

definition m2m_mode_of :: "auth_settings \<Rightarrow> string" where
  "m2m_mode_of s = py_strip (py_lower (as_m2m_resolution s))"

text \<open>A setting as text without white space at its ends, empty when it is no text.\<close>

definition stripped_setting :: "pyval \<Rightarrow> string" where
  "stripped_setting v = (case str_view v of Some t \<Rightarrow> py_strip t | None \<Rightarrow> [])"

definition complaint :: "bool \<Rightarrow> string \<Rightarrow> string list" where
  "complaint wrong name = (if wrong then [name] else [])"

definition deployment_errors :: "auth_settings \<Rightarrow> string list" where
  "deployment_errors s =
     (let deployment = stripped_setting (as_deployment_id s)
      in complaint (stripped_setting (as_customer_id s) = []) ''SCANALYZE_DEPLOYMENT_CUSTOMER_ID''
         @ complaint (deployment = [] \<or> \<not> deployment_id_pattern deployment) ''SCANALYZE_DEPLOYMENT_ID'')"

definition cognito_errors :: "auth_settings \<Rightarrow> bool \<Rightarrow> string list" where
  "cognito_errors s customer_deployment =
     complaint (\<not> py_truthy (as_user_pool_id s)) ''COGNITO_USER_POOL_ID''
     @ complaint (as_region s = []) ''COGNITO_REGION''
     @ complaint (as_customer_claim s = []) ''TENANT_CLAIM_NAME''
     @ complaint (as_customer_claim s \<noteq> [] \<and> \<not> tenant_claim_name_ok (as_customer_claim s)) ''TENANT_CLAIM_NAME''
     @ complaint (customer_deployment \<and> as_customer_claim s \<noteq> ''custom:customerId'') ''TENANT_CLAIM_NAME''"

definition assurance_claim_pattern :: "string \<Rightarrow> bool" where
  "assurance_claim_pattern = match_prefixed ''custom:'' (\<lambda>c. is_alnum c \<or> c \<in> set ''_.-'') 1 64"

definition human_errors :: "auth_settings \<Rightarrow> string list" where
  "human_errors s =
     (if as_human_enabled s \<noteq> PBool True then []
      else complaint (differs (as_authz_schema_version s) AUTHZ_SCHEMA_VERSION) ''ENTERPRISE_AUTHORIZATION_SCHEMA_VERSION''
         @ complaint (differs (as_scope_catalog_version s) SCOPE_CATALOG_VERSION) ''ENTERPRISE_SCOPE_CATALOG_VERSION''
         @ complaint (differs (as_role_catalog_version s) ROLE_CATALOG_VERSION) ''ENTERPRISE_ROLE_CATALOG_VERSION''
         @ complaint (differs (as_policy_version s) POLICY_VERSION) ''ENTERPRISE_POLICY_VERSION''
         @ complaint (differs (as_policy_digest s) POLICY_DIGEST) ''ENTERPRISE_POLICY_DIGEST''
         @ complaint (\<not> snapshot_age_setting_ok (as_max_snapshot_age s)) ''ENTERPRISE_MEMBERSHIP_SNAPSHOT_MAX_AGE_SECONDS''
         @ complaint (as_assurance_claim s \<noteq> PNone \<and> \<not> str_sat (\<lambda>t. assurance_claim_pattern t \<and>
              t \<noteq> ''custom:customerId'' \<and> t \<noteq> ''custom:deployment_id'') (as_assurance_claim s))
             ''ENTERPRISE_ASSURANCE_CLAIM_NAME'')"

text \<open>What one binding adds; \<open>scope_sets\<close> is the policy when its model was valid.\<close>

definition binding_scope_errors :: "pyval option \<Rightarrow> string list \<Rightarrow> string list" where
  "binding_scope_errors scope_sets scopes = (case scope_sets of
       None \<Rightarrow> []
     | Some pol \<Rightarrow>
         complaint (\<not> set scopes \<subseteq> (\<Union>a\<in>set M2M_ACTIONS. action_scopes pol a)) ''M2M_CLIENT_IDENTITY_BINDINGS_V1''
         @ concat (map (\<lambda>a. complaint (set scopes \<inter> action_scopes pol a \<noteq> {} \<and> set scopes \<inter> action_scopes pol a \<noteq> action_scopes pol a)
              ''M2M_CLIENT_IDENTITY_BINDINGS_V1'') M2M_ACTIONS)
         @ complaint (granted_actions pol (set scopes) = []) ''M2M_CLIENT_IDENTITY_BINDINGS_V1'')"

definition binding_errors :: "auth_settings \<Rightarrow> pyval option \<Rightarrow> string \<times> pyval \<Rightarrow> string list" where
  "binding_errors s scope_sets entry = (case entry of (client, binding) \<Rightarrow>
     if py_strip client = [] then [''M2M_CLIENT_IDENTITY_BINDINGS_V1'']
     else complaint (client \<notin> set (client_ids s)) ''M2M_CLIENT_IDENTITY_BINDINGS_V1''
       @ (case binding_model binding of
            None \<Rightarrow> [''M2M_CLIENT_IDENTITY_BINDINGS_V1'']
          | Some b \<Rightarrow>
              complaint (mb_customer_id b \<noteq> stripped_setting (as_customer_id s)) ''M2M_CLIENT_IDENTITY_BINDINGS_V1''
              @ complaint (mb_deployment_id b \<noteq> stripped_setting (as_deployment_id s)) ''M2M_CLIENT_IDENTITY_BINDINGS_V1''
              @ binding_scope_errors scope_sets (mb_required_scopes b)))"

definition m2m_errors :: "auth_settings \<Rightarrow> string list" where
  "m2m_errors s =
     (if m2m_mode_of s \<noteq> ''client_identity_bindings_v1'' then []
      else complaint (as_m2m_actions s = PNone \<or> \<not> action_sets_model (as_m2m_actions s)) ''M2M_ACTION_SCOPE_SETS_V1''
         @ (case as_m2m_bindings s of
              PDict (b # bs) \<Rightarrow> concat (map (binding_errors s
                  (if action_sets_model (as_m2m_actions s) then Some (as_m2m_actions s) else None)) (b # bs))
            | _ \<Rightarrow> [''M2M_CLIENT_IDENTITY_BINDINGS_V1''])
         @ complaint (\<not> customer_id_pattern (stripped_setting (as_customer_id s))) ''SCANALYZE_DEPLOYMENT_CUSTOMER_ID''
         @ complaint (\<not> deployment_id_pattern (stripped_setting (as_deployment_id s))) ''SCANALYZE_DEPLOYMENT_ID'')"

definition config_errors :: "auth_settings \<Rightarrow> bool \<Rightarrow> string list" where
  "config_errors s customer_deployment =
     (if customer_deployment then deployment_errors s else [])
     @ cognito_errors s customer_deployment
     @ human_errors s
     @ complaint (customer_deployment \<and> py_strip (as_client_ids s) = []) ''COGNITO_ALLOWED_CLIENT_IDS''
     @ complaint (case as_m2m_tenant_map s of PDict d \<Rightarrow> d \<noteq> [] | _ \<Rightarrow> False) ''M2M_CLIENT_TENANT_MAP''
     @ m2m_errors s"

text \<open>
  \<open>enforce_header\<close> is the deprecated variable \<open>ENFORCE_AUTH_HEADER\<close>. In a local environment the collected
  errors are only logged.
\<close>

definition validate_auth_config :: "auth_settings \<Rightarrow> string option \<Rightarrow> exn + unit" where
  "validate_auth_config s enforce_header =
     (let customer_deployment = (\<not> local_test_env s);
          deployment = stripped_setting (as_deployment_id s);
          fatal = PyExc ''RuntimeError''
      in if auth_mode_of s \<notin> set VALID_AUTH_MODES \<or> m2m_mode_of s \<notin> set VALID_M2M_RESOLUTION_MODES then Inl fatal
         else if auth_mode_of s = ''local_mock'' \<and> customer_deployment then Inl fatal
         else if enforce_header \<noteq> None \<and> customer_deployment then Inl fatal
         else if auth_mode_of s = ''local_mock''
         then (if deployment = [] \<or> \<not> deployment_id_pattern deployment then Inl fatal else Inr ())
         else if config_errors s customer_deployment \<noteq> [] \<and> customer_deployment then Inl fatal
         else Inr ())"

end
