(* ===== verification/PasskeyAssurance.thy ===== *)
theory PasskeyAssurance
  imports Authentication
begin

text \<open>
  The passkey endpoints of \<open>app/authentication_assurance.py\<close>: a successful WebAuthn challenge is
  recorded as an authentication event, keyed by the identifier of the access token, before the
  tokens are returned; \<open>Authentication\<close> reads the event when the token is presented. Cognito, the decoder
  of the token, the clock and the table are ports. The attribute \<open>cognito_client_id\<close> is read from the
  settings; \<open>None\<close> stands for a settings object without it.
\<close>

datatype cognito_failure = User_Not_Found | Not_Authorized | Other_Cognito_Failure

record 'w passkey_ports =
  pp_initiate :: "pyval \<Rightarrow> string \<Rightarrow> ('w, cognito_failure, item) eio"
  pp_respond :: "pyval \<Rightarrow> string \<Rightarrow> (string \<times> string) list \<Rightarrow> ('w, cognito_failure, item) eio"
  pp_decode :: "pyval \<Rightarrow> ('w, item) io"
  pp_time :: "'w \<Rightarrow> int \<times> 'w"
  pp_events :: "string \<Rightarrow> 'w dynamo"

text \<open>Every exception but Cognito's own ends in the last handler.\<close>

definition otherwise :: "('w, 'a) io \<Rightarrow> ('w, cognito_failure, 'a) eio" where
  "otherwise m = catch m (\<lambda>_. raise Other_Cognito_Failure)"

definition settings_client_id :: "pyval option \<Rightarrow> ('w, cognito_failure, pyval) eio" where
  "settings_client_id c = (case c of None \<Rightarrow> raise Other_Cognito_Failure | Some v \<Rightarrow> ret v)"

section \<open>Starting a challenge\<close>

record challenge =
  ch_name :: string
  ch_session :: string
  ch_parameters :: item

definition get_or :: "item \<Rightarrow> string \<Rightarrow> pyval \<Rightarrow> pyval" where
  "get_or d k v = (case map_of d k of Some x \<Rightarrow> x | None \<Rightarrow> v)"

fun initiate_refusal :: "cognito_failure \<Rightarrow> exn" where
  "initiate_refusal User_Not_Found = unauthorized ''User not found''"
| "initiate_refusal Not_Authorized = unauthorized ''Not authorized''"
| "initiate_refusal Other_Cognito_Failure =
     AppExc (AppError ''INTERNAL_ERROR'' ''Failed to initiate authentication'' 500 [])"

definition initiate_response :: "item \<Rightarrow> ('w, cognito_failure, challenge) eio" where
  "initiate_response d =
     (let session = get_or d ''Session'' (PStr []); parameters = get_or d ''ChallengeParameters'' (PDict [])
      in if differs (py_get d ''ChallengeName'') ''WEB_AUTHN'' then raise Other_Cognito_Failure
         else (case (str_view session, parameters) of
             (Some t, PDict ps) \<Rightarrow> if list_all (\<lambda>(k, v). is_str v) ps
               then ret \<lparr>ch_name = ''WEB_AUTHN'', ch_session = t, ch_parameters = ps\<rparr> else raise Other_Cognito_Failure
           | _ \<Rightarrow> raise Other_Cognito_Failure))"

definition initiate_passkey_auth :: "'w passkey_ports \<Rightarrow> pyval option \<Rightarrow> string \<Rightarrow> ('w, challenge) io" where
  "initiate_passkey_auth pp client_id username =
     catch (bind (settings_client_id client_id) (\<lambda>c. bind (pp_initiate pp c username) initiate_response))
       (\<lambda>failure. raise (initiate_refusal failure))"

section \<open>Answering a challenge\<close>

datatype passkey_answer =
    Tokens (answer_access: pyval) pyval pyval
  | Next_Challenge pyval pyval

fun respond_refusal :: "cognito_failure \<Rightarrow> exn" where
  "respond_refusal Not_Authorized = unauthorized ''Invalid passkey response''"
| "respond_refusal failure =
     AppExc (AppError ''INTERNAL_ERROR'' ''Failed to respond to auth challenge'' 500 [])"

text \<open>\<open>auth_time + 300\<close> needs a number; a truth value of the token counts as one.\<close>

fun auth_number :: "pyval \<Rightarrow> int option" where
  "auth_number (PInt n) = Some n"
| "auth_number (PBool b) = Some (if b then 1 else 0)"
| "auth_number v = None"

definition authentication_event :: "item \<Rightarrow> pyval \<Rightarrow> int \<Rightarrow> int \<Rightarrow> item" where
  "authentication_event claims auth_time number created =
     [(''pk'', PStr (event_pk (py_get claims ''jti''))), (''sk'', PStr ''META''),
      (''record_type'', PStr ''scanalyze.platform_authority.authentication_event.v1''),
      (''jti'', py_get claims ''jti''), (''subject'', py_get claims ''sub''),
      (''customer_id'', py_get claims ''custom:customerId''), (''deployment_id'', py_get claims ''custom:deployment_id''),
      (''auth_time'', auth_time), (''assurance'', PStr ''phishing_resistant_mfa''),
      (''assurance_source'', PStr ''authoritative_authentication_event_v1''),
      (''assurance_version'', PStr ''phishing-resistant-mfa.v1''), (''expires_at'', PInt (number + 300)),
      (''created_at'', PInt created)]"

text \<open>An optional text of a response model.\<close>

definition optional_text :: "pyval \<Rightarrow> bool" where
  "optional_text v \<longleftrightarrow> v = PNone \<or> is_str v"

definition read_time :: "('w \<Rightarrow> int \<times> 'w) \<Rightarrow> ('w, 'e, int) eio" where
  "read_time clock = (\<lambda>w. case clock w of (t, w') \<Rightarrow> (Inr t, w'))"

text \<open>
  A number of the token that is not an integer is a float, which the table refuses, so it fails as a value
  that is no number does.
\<close>

definition record_event :: "'w passkey_ports \<Rightarrow> pyval \<Rightarrow> pyval \<Rightarrow> ('w, cognito_failure, unit) eio" where
  "record_event pp table access_token =
     bind (otherwise (pp_decode pp access_token)) (\<lambda>claims.
     bind (read_time (pp_time pp)) (\<lambda>now.
     let auth_time = get_or claims ''auth_time'' (PInt now) in
     if \<not> py_truthy (py_get claims ''jti'') \<or> \<not> py_truthy (py_get claims ''sub'') \<or> \<not> py_truthy table
     then raise Other_Cognito_Failure
     else (case auth_number auth_time of
         Some t \<Rightarrow> bind (read_time (pp_time pp)) (\<lambda>created.
             otherwise (dy_put_item (pp_events pp (py_str table))
               (authentication_event claims auth_time t created) unless_exists))
       | None \<Rightarrow> raise Other_Cognito_Failure)))"

definition respond_passkey_auth ::
  "'w passkey_ports \<Rightarrow> pyval option \<Rightarrow> pyval \<Rightarrow> string \<Rightarrow> (string \<times> string) list \<Rightarrow> ('w, passkey_answer) io" where
  "respond_passkey_auth pp client_id table session responses =
     catch (bind (settings_client_id client_id) (\<lambda>c.
            bind (pp_respond pp c session responses) (\<lambda>d.
            let result = py_get d ''AuthenticationResult'' in
            if py_truthy result
            then (case result of
                PDict a \<Rightarrow>
                  bind (record_event pp table (py_get a ''AccessToken'')) (\<lambda>_.
                  if list_all optional_text [py_get a ''AccessToken'', py_get a ''IdToken'', py_get a ''RefreshToken'']
                  then ret (Tokens (py_get a ''AccessToken'') (py_get a ''IdToken'') (py_get a ''RefreshToken''))
                  else raise Other_Cognito_Failure)
              | _ \<Rightarrow> raise Other_Cognito_Failure)
            else if list_all optional_text [py_get d ''ChallengeName'', py_get d ''Session'']
            then ret (Next_Challenge (py_get d ''ChallengeName'') (py_get d ''Session''))
            else raise Other_Cognito_Failure)))
       (\<lambda>failure. raise (respond_refusal failure))"

end
