(* ===== verification/AuthenticationProofs.thy ===== *)
theory AuthenticationProofs
  imports AuthConfig PasskeyAssurance AuthzGuarantees TableProofs
begin

text \<open>
  What an authentication context stands for. A request becomes a principal only through a verified token of the
  configured issuer, or through the mock of a local environment; a machine gets exactly the actions of its
  binding; the snapshot of a person is one the decision point accepts, and a passkey event makes it one
  that passes the step-up.
\<close>

section \<open>Chains of denials\<close>

lemma checked_Inr: "checked ds x = Inr y \<longleftrightarrow> y = x \<and> list_all (\<lambda>(b, e). \<not> b) ds"
  using first_denial_Inr [of ds "()"] by (auto simp: checked_def split: sum.splits)

lemma Inr_checked: "Inr y = checked ds x \<longleftrightarrow> y = x \<and> list_all (\<lambda>(b, e). \<not> b) ds"
  using checked_Inr by metis

lemma as_denied_Inr: "as_denied r = Inr x \<longleftrightarrow> r = Inr x"
  by (auto simp: as_denied_def split: sum.splits)

lemma str_sat_view: "str_sat p v \<longleftrightarrow> (\<exists>t. str_view v = Some t \<and> p t)"
  by (auto simp: str_sat_def split: option.splits)

lemma py_eq_views: "str_view u = Some t \<Longrightarrow> py_eq v u \<longleftrightarrow> str_view v = Some t"
  using py_eq_sym str_view_eq_py_eq by metis

section \<open>Tokens\<close>

definition accepted_token :: "auth_settings \<Rightarrow> item \<Rightarrow> bool" where
  "accepted_token s d \<longleftrightarrow> among (py_get d ''token_use'') (token_uses s) \<and>
     (local_test_env s \<or> client_ids s \<noteq> []) \<and>
     (client_ids s \<noteq> [] \<and> py_eq (py_get d ''token_use'') (PStr ''access'') \<longrightarrow>
        among (py_get d ''client_id'') (client_ids s) \<and> audience_ok (py_get d ''aud'') (client_ids s)) \<and>
     (client_ids s \<noteq> [] \<and> py_eq (py_get d ''token_use'') (PStr ''id'') \<longrightarrow> among (py_get d ''aud'') (client_ids s))"

lemma use_access_not_id: "py_eq v (PStr ''access'') \<Longrightarrow> \<not> py_eq v (PStr ''id'')"
  by (simp add: py_eq_PStr)

lemma token_denials_iff: "list_all (\<lambda>(b, e). \<not> b) (token_denials s d) \<longleftrightarrow> accepted_token s d"
  using use_access_not_id [of "py_get d ''token_use''"]
  by (auto simp: token_denials_def accepted_token_def Let_def)

lemma verified_token:
  assumes "verify_cognito_jwt ap s token w = (Inr d, w')"
  obtains key w1 where "ap_decode ap token key (cognito_issuer s) w1 = (Inr d, w')" "accepted_token s d"
  using assms unfolding verify_cognito_jwt_def
  by (auto simp: run_rules Inr_checked token_denials_iff)

definition bearer_token :: "string \<Rightarrow> string" where
  "bearer_token header = py_strip (drop 7 header)"

section \<open>Machines\<close>

definition machine_principal :: "auth_settings \<Rightarrow> item \<Rightarrow> auth_context \<Rightarrow> bool" where
  "machine_principal s d auth \<longleftrightarrow> \<not> is_human_principal d \<and> py_eq (py_get d ''token_use'') (PStr ''access'') \<and>
     client_binding s d \<noteq> None \<and> ac_client_id auth = py_get d ''client_id'' \<and>
     str_sat customer_id_pattern (ac_customer_id auth) \<and> str_view (ac_customer_id auth) = str_view (as_customer_id s) \<and>
     str_sat deployment_id_pattern (ac_deployment_id auth) \<and> str_view (ac_deployment_id auth) = str_view (as_deployment_id s) \<and>
     ac_principal_type auth = PStr ''m2m'' \<and> ac_auth_source auth = PStr ''m2m_identity_binding_v1'' \<and>
     ac_human_authorization auth = NoneRef \<and> ac_scopes auth = token_scopes d \<and>
     required_scopes s d \<noteq> {} \<and> required_scopes s d \<subseteq> ac_scopes auth"

lemma stripped_scopes_nonempty: "stripped_scopes v = Some ts \<Longrightarrow> ts \<noteq> []"
  by (auto simp: stripped_scopes_def Let_def split: pyval.splits if_splits)

lemma required_scopes_Some:
  "stripped_scopes (bound s d ''required_scopes'') \<noteq> None \<Longrightarrow> required_scopes s d \<noteq> {}"
  using stripped_scopes_nonempty by (auto simp: required_scopes_def)

lemma machine_resolved:
  assumes "resolve_m2m_identity s d (token_scopes d) = Inr auth" "\<not> is_human_principal d"
  shows "machine_principal s d auth"
    and "ac_granted_actions auth = set (granted_actions (as_m2m_actions s) (required_scopes s d))"
    and "list_all (\<lambda>(b, e). \<not> b) (m2m_action_denials (as_m2m_actions s) (required_scopes s d))"
proof -
  obtain u actions where b: "first_denial (m2m_binding_denials s d) = Inr u"
    and a: "derive_m2m_granted_actions s (required_scopes s d) = Inr actions"
    and c: "checked (m2m_deployment_denials s d (token_scopes d))
         \<lparr>ac_customer_id = bound s d ''customer_id'', ac_deployment_id = bound s d ''deployment_id'',
          ac_principal_type = PStr ''m2m'',
          ac_subject = (if py_truthy (py_get d ''sub'') then py_get d ''sub'' else py_get d ''client_id''),
          ac_client_id = py_get d ''client_id'', ac_scopes = token_scopes d, ac_granted_actions = actions,
          ac_email = PNone, ac_name = PNone, ac_auth_source = PStr ''m2m_identity_binding_v1'',
          ac_human_authorization = NoneRef\<rparr> = Inr auth"
    using assms(1) by (auto simp: resolve_m2m_identity_def split: sum.splits)
  have binding: "client_binding s d \<noteq> None" "py_eq (py_get d ''token_use'') (PStr ''access'')"
    "stripped_scopes (bound s d ''required_scopes'') \<noteq> None"
    using b unfolding first_denial_Inr m2m_binding_denials_def by auto
  have dep: "str_sat customer_id_pattern (as_customer_id s)" "str_sat deployment_id_pattern (as_deployment_id s)"
    "py_eq (bound s d ''customer_id'') (as_customer_id s)" "py_eq (bound s d ''deployment_id'') (as_deployment_id s)"
    "required_scopes s d \<subseteq> token_scopes d"
    using c unfolding checked_Inr m2m_deployment_denials_def by auto
  have ids: "str_view (bound s d ''customer_id'') = str_view (as_customer_id s)"
    "str_view (bound s d ''deployment_id'') = str_view (as_deployment_id s)"
    using dep(3,4) py_eq_str_view by blast+
  have auth: "ac_customer_id auth = bound s d ''customer_id''" "ac_deployment_id auth = bound s d ''deployment_id''"
    "ac_principal_type auth = PStr ''m2m''" "ac_client_id auth = py_get d ''client_id''" "ac_scopes auth = token_scopes d"
    "ac_granted_actions auth = actions" "ac_auth_source auth = PStr ''m2m_identity_binding_v1''"
    "ac_human_authorization auth = NoneRef"
    using c unfolding checked_Inr by simp_all
  show "machine_principal s d auth"
    using binding dep ids assms(2) required_scopes_Some [OF binding(3)]
    by (simp add: machine_principal_def auth str_sat_def)
  show "ac_granted_actions auth = set (granted_actions (as_m2m_actions s) (required_scopes s d))"
    "list_all (\<lambda>(b, e). \<not> b) (m2m_action_denials (as_m2m_actions s) (required_scopes s d))"
    using a by (simp_all add: auth derive_m2m_granted_actions_def checked_Inr)
qed

section \<open>Persons\<close>

definition snapshot_of :: "auth_settings \<Rightarrow> item \<Rightarrow> int \<Rightarrow> snapshot \<Rightarrow> bool" where
  "snapshot_of s d now sn \<longleftrightarrow> (\<exists>f. sn = claims_snapshot d f) \<and> current_versions sn \<and> fresh_snapshot sn now \<and>
     str_sat customer_id_pattern (sn_customer_id sn) \<and> str_view (sn_customer_id sn) = str_view (as_customer_id s) \<and>
     str_sat deployment_id_pattern (sn_deployment_id sn) \<and> str_view (sn_deployment_id sn) = str_view (as_deployment_id s) \<and>
     str_sat subject_pattern (sn_subject sn) \<and> role_of (sn_role_id sn) \<noteq> None \<and>
     is_valid_version_reference (sn_membership_version sn)"

lemma role_of_value [simp]: "role_of (PEnum cls name (human_role_value role)) = Some role"
  by (simp add: role_of_def)

lemma claims_fresh:
  assumes "required_epoch d ''iat''" "required_epoch d ''auth_time''" "snapshot_age_setting_ok (as_max_snapshot_age s)"
    "list_all (\<lambda>(b, e). \<not> b) (human_time_denials s d now)" "now \<le> 9999999999"
  shows "fresh_snapshot (claims_snapshot d f) now"
proof -
  obtain i where i: "py_get d ''iat'' = PInt i" "0 < i" "i \<le> 9999999999"
    using assms(1) by (auto simp: required_epoch_def split: pyval.splits)
  obtain a where a: "py_get d ''auth_time'' = PInt a" "0 < a" "a \<le> 9999999999"
    using assms(2) by (auto simp: required_epoch_def split: pyval.splits)
  obtain n where n: "as_max_snapshot_age s = PInt n" "1 \<le> n" "n \<le> 300"
    using assms(3) by (auto simp: snapshot_age_setting_ok_def MAX_MEMBERSHIP_SNAPSHOT_AGE_SECONDS_def split: pyval.splits)
  have "i \<le> now" "now - i \<le> n" "a \<le> i"
    using assms(4) by (auto simp: human_time_denials_def i(1) a(1) n(1) Let_def)
  then show ?thesis
    using i a n assms(5) by (auto simp: fresh_snapshot_def epoch_value_def claims_snapshot_def Let_def)
qed

lemma claims_versions: "current_versions (claims_snapshot d f)"
  by (simp add: current_versions_def claims_snapshot_def Let_def version_constants)

lemma human_checked:
  assumes "list_all (\<lambda>(b, e). \<not> b) (human_claim_denials s d)"
    "list_all (\<lambda>(b, e). \<not> b) (human_time_denials s d now)" "now \<le> 9999999999"
  shows "snapshot_of s d now (claims_snapshot d f)"
proof -
  have claims: "deployment_claim_ok customer_id_pattern d ''custom:customerId'' (as_customer_id s)"
    "deployment_claim_ok deployment_id_pattern d ''custom:deployment_id'' (as_deployment_id s)"
    "is_valid_subject_reference (py_get d ''sub'')" "role_of (py_get d ''role_id'') \<noteq> None"
    "is_valid_version_reference (py_get d ''membership_version'')"
    "required_epoch d ''iat''" "required_epoch d ''auth_time''" "snapshot_age_setting_ok (as_max_snapshot_age s)"
    using assms(1) unfolding human_claim_denials_def runtime_contract_denials_def by auto
  note fresh = claims_fresh [OF claims(6-8) assms(2,3)]
  have "str_view (py_get d ''custom:customerId'') = str_view (as_customer_id s)"
    "str_view (py_get d ''custom:deployment_id'') = str_view (as_deployment_id s)"
    "str_sat customer_id_pattern (py_get d ''custom:customerId'')" "str_sat deployment_id_pattern (py_get d ''custom:deployment_id'')"
    using claims(1,2) py_eq_str_view by (auto simp: deployment_claim_ok_def)
  with claims(3-5) fresh claims_versions show ?thesis
    by (auto simp: snapshot_of_def claims_snapshot_def Let_def is_valid_subject_reference_def)
qed

section \<open>Requests\<close>

lemma resolved_request:
  assumes "resolve_cognito_auth ap s token header w = (Inr auth, w')"
  obtains (machine) d key w1 where "header = None" "ap_decode ap token key (cognito_issuer s) w1 = (Inr d, w')"
      "accepted_token s d" "\<not> is_human_principal d" "resolve_m2m_identity s d (token_scopes d) = Inr auth"
  | (person) d key w1 w2 now f w3 where "header = None" "ap_decode ap token key (cognito_issuer s) w1 = (Inr d, w2)"
      "accepted_token s d" "ap_time ap w2 = (now, w3)" "list_all (\<lambda>(b, e). \<not> b) (human_claim_denials s d)"
      "list_all (\<lambda>(b, e). \<not> b) (human_time_denials s d now)" "read_evidence ap s d now w3 = (Inr f, w')"
      "auth = human_context d (claims_snapshot d f)"
proof -
  obtain d w2 where v: "verify_cognito_jwt ap s token w = (Inr d, w2)"
    and rest: "header = None" "(if py_truthy (py_get d ''client_id'') \<and> \<not> is_human_principal d
     then lift (resolve_m2m_identity s d (token_scopes d))
     else bind (ensure (as_human_enabled s = PBool True) (forbidden ''Access is not available for this principal'')) (\<lambda>_.
          bind (resolve_human_snapshot ap s d) (\<lambda>sn. ret (human_context d sn)))) w2 = (Inr auth, w')"
    using assms by (auto simp: resolve_cognito_auth_def bind_Inr)
  obtain key w1 where key: "ap_decode ap token key (cognito_issuer s) w1 = (Inr d, w2)" "accepted_token s d"
    by (rule verified_token [OF v])
  show thesis
  proof (cases "py_truthy (py_get d ''client_id'') \<and> \<not> is_human_principal d")
    case True
    with rest have "resolve_m2m_identity s d (token_scopes d) = Inr auth" "w' = w2" by (simp_all add: lift_run)
    with machine [OF rest(1)] key True show thesis by blast
  next
    case False
    with rest obtain sn where sn: "resolve_human_snapshot ap s d w2 = (Inr sn, w')" "auth = human_context d sn"
      by (auto simp: bind_Inr)
    obtain now w3 where now: "ap_time ap w2 = (now, w3)" by fastforce
    obtain f where f: "list_all (\<lambda>(b, e). \<not> b) (human_claim_denials s d)"
      "list_all (\<lambda>(b, e). \<not> b) (human_time_denials s d now)" "read_evidence ap s d now w3 = (Inr f, w')"
      "sn = claims_snapshot d f"
      using sn(1) by (auto simp: resolve_human_snapshot_def bind_Inr as_denied_Inr checked_Inr now)
    show thesis by (rule person [OF rest(1) key now f(1-3)]) (simp add: sn(2) f(4))
  qed
qed

definition person_principal :: "auth_settings \<Rightarrow> item \<Rightarrow> int \<Rightarrow> auth_context \<Rightarrow> bool" where
  "person_principal s d now auth \<longleftrightarrow> (\<exists>sn. ac_human_authorization auth = Inst sn \<and> snapshot_of s d now sn \<and>
     auth = human_context d sn \<and> bound_identity auth sn)"

definition mock_principal :: "auth_settings \<Rightarrow> auth_context \<Rightarrow> bool" where
  "mock_principal s auth \<longleftrightarrow> as_auth_mode s = ''local_mock'' \<and> local_test_env s \<and>
     ac_principal_type auth = PStr ''local_mock'' \<and> ac_human_authorization auth = NoneRef \<and> ac_granted_actions auth = {}"

lemma person_bound: "snapshot_of s d now sn \<Longrightarrow> auth = human_context d sn \<Longrightarrow> bound_identity auth sn"
  by (auto simp: bound_identity_iff snapshot_of_def human_context_def claims_snapshot_def Let_def)

lemma mock_resolved: "resolve_local_mock_auth s = Inr auth \<Longrightarrow> as_auth_mode s = ''local_mock'' \<Longrightarrow> mock_principal s auth"
  by (auto simp: resolve_local_mock_auth_def mock_principal_def split: if_splits sum.splits)

lemma request_cases:
  assumes "get_auth_context ap s authorization tenant_header w = (Inr auth, w')"
  obtains (mock) "tenant_header = None" "mock_principal s auth"
  | (cognito) header where "as_auth_mode s \<noteq> ''local_mock''" "authorization = Some header" "bearer_token header \<noteq> []"
      "resolve_cognito_auth ap s (bearer_token header) tenant_header w = (Inr auth, w')"
proof (cases "as_auth_mode s = ''local_mock''")
  case True
  with assms mock_resolved show thesis
    by (intro mock) (auto simp: get_auth_context_def bind_Inr)
next
  case False
  with assms obtain header where "authorization = Some header" "bearer_token header \<noteq> []"
      "resolve_cognito_auth ap s (bearer_token header) tenant_header w = (Inr auth, w')"
    by (auto simp: get_auth_context_def bearer_token_def Let_def split: option.splits if_splits)
  with False cognito show thesis by blast
qed

section \<open>Evidence\<close>

definition evidence_shape :: "assurance_fields \<Rightarrow> bool" where
  "evidence_shape f \<longleftrightarrow> f = no_evidence \<or>
     str_view (af_assurance f) = Some ''phishing_resistant_mfa'' \<and>
     (af_reference f = PNone \<or>
      str_view (af_source f) = Some ''authoritative_authentication_event_v1'' \<and>
      str_view (af_version f) = Some ''phishing-resistant-mfa.v1'')"

lemma no_shape: "evidence_shape no_evidence"
  by (simp add: evidence_shape_def)

lemma event_shape: "evidence_shape (event_evidence e jti authenticated now)"
  by (auto simp: evidence_shape_def event_evidence_def no_evidence_def Let_def ASSURANCE_SOURCE_def ASSURANCE_VERSION_def
      split: option.splits)

lemma read_shape: "read_evidence ap s d now w = (Inr f, w') \<Longrightarrow> evidence_shape f"
  by (auto simp: read_evidence_def Let_def run_rules event_shape no_shape split: if_splits option.splits)

lemma evidence_whole:
  assumes "read_evidence ap s d now w = (Inr f, w')"
  shows "no_assurance (claims_snapshot d f) \<or> mfa_evidence (claims_snapshot d f) \<longleftrightarrow>
    sn_assurance (claims_snapshot d f) = PNone \<or>
    str_sat opaque_reference_pattern (sn_authentication_event_reference (claims_snapshot d f))"
  using read_shape [OF assms]
  by (auto simp: evidence_shape_def no_evidence_def no_assurance_def mfa_evidence_def claims_snapshot_def Let_def str_sat_def)


lemma binding_of_machine:
  assumes "client_binding s d \<noteq> None" "required_scopes s d \<noteq> {}"
  shows "\<exists>bindings client b ts. as_m2m_bindings s = PDict bindings \<and> str_view (py_get d ''client_id'') = Some client \<and>
    map_of bindings client = Some b \<and> stripped_scopes (binding_value b ''required_scopes'') = Some ts \<and>
    required_scopes s d = set ts"
proof -
  obtain b where b: "client_binding s d = Some b" using assms(1) by blast
  obtain ts where "stripped_scopes (binding_value b ''required_scopes'') = Some ts" "required_scopes s d = set ts"
    using assms(2) b by (auto simp: required_scopes_def bound_def split: option.splits)
  with b show ?thesis by (auto simp: client_binding_def split: option.splits pyval.splits)
qed

text \<open>The actions of a set of scopes that the checks on the policy let pass are held in full and make up the set.\<close>

lemma whole_actions:
  assumes "actions = set (granted_actions pol scopes)" "list_all (\<lambda>(b, e). \<not> b) (m2m_action_denials pol scopes)"
  shows "actions = {a \<in> {''read'', ''write'', ''admin''}. action_scopes pol a \<subseteq> scopes}" "actions \<noteq> {}"
    "scopes = (\<Union>a\<in>actions. action_scopes pol a)"
proof -
  show granted: "actions = {a \<in> {''read'', ''write'', ''admin''}. action_scopes pol a \<subseteq> scopes}"
    by (auto simp: assms(1) granted_actions_def M2M_ACTIONS_def)
  have within: "scopes \<subseteq> (\<Union>a\<in>set M2M_ACTIONS. action_scopes pol a)"
    and whole: "\<And>a. a \<in> set M2M_ACTIONS \<Longrightarrow> scopes \<inter> action_scopes pol a \<noteq> {} \<Longrightarrow>
      scopes \<inter> action_scopes pol a = action_scopes pol a"
    using assms(2) unfolding m2m_action_denials_def by (auto simp: list_ex_iff)
  show "actions \<noteq> {}" using assms unfolding m2m_action_denials_def by (auto simp: list_ex_iff)
  show "scopes = (\<Union>a\<in>actions. action_scopes pol a)"
  proof
    show "scopes \<subseteq> (\<Union>a\<in>actions. action_scopes pol a)"
    proof
      fix x assume x: "x \<in> scopes"
      then obtain a where a: "a \<in> set M2M_ACTIONS" "x \<in> action_scopes pol a" using within by blast
      then have "action_scopes pol a \<subseteq> scopes" using whole [OF a(1)] x by blast
      with a show "x \<in> (\<Union>a\<in>actions. action_scopes pol a)"
        unfolding granted M2M_ACTIONS_def by auto
    qed
  qed (auto simp: granted)
qed

text \<open>
  (C11) A machine gets exactly the actions of its binding. The settings bind its client to a set of scopes, all of
  which its token carries; the granted actions are the ones whose scope sets of the policy the binding
  holds in full, whatever else the token carries, at least one, and together these sets are the scopes of the
  binding. The decision point lets it start exactly the operations open to machines whose actions are
  among them.
\<close>

theorem machine_actions_exact:
  assumes "get_auth_context ap s authorization tenant_header w = (Inr auth, w')" "is_m2m auth"
  shows "\<exists>bindings client b scopes. as_m2m_bindings s = PDict bindings \<and> str_view (ac_client_id auth) = Some client \<and>
    map_of bindings client = Some b \<and> stripped_scopes (binding_value b ''required_scopes'') = Some scopes \<and>
    set scopes \<subseteq> ac_scopes auth \<and> ac_granted_actions auth \<noteq> {} \<and>
    ac_granted_actions auth = {a \<in> {''read'', ''write'', ''admin''}. action_scopes (as_m2m_actions s) a \<subseteq> set scopes} \<and>
    set scopes = (\<Union>a\<in>ac_granted_actions auth. action_scopes (as_m2m_actions s) a) \<and>
    (m2m_decision auth pol = Inr () \<longleftrightarrow> m2m_allowed pol \<and> m2m_required_actions pol \<subseteq> ac_granted_actions auth)"
  using assms(1)
proof (cases rule: request_cases)
  case mock
  with assms(2) show ?thesis by (simp add: mock_principal_def py_eq_PStr)
next
  case (cognito header)
  from cognito(4) show ?thesis
  proof (cases rule: resolved_request)
    case (machine d key w1)
    define scopes where "scopes = required_scopes s d"
    note m = machine_resolved [OF machine(5,4), folded scopes_def]
    note granted = whole_actions [OF m(2,3)]
    have held: "scopes \<subseteq> ac_scopes auth" using m(1) by (auto simp: machine_principal_def scopes_def)
    have decided: "m2m_decision auth pol = Inr () \<longleftrightarrow> m2m_allowed pol \<and> m2m_required_actions pol \<subseteq> ac_granted_actions auth"
      using m(1) by (simp add: m2m_decision_def first_denial_Inr machine_principal_def differs_def)
    have "client_binding s d \<noteq> None" "required_scopes s d \<noteq> {}" and client: "ac_client_id auth = py_get d ''client_id''"
      using m(1) by (simp_all add: machine_principal_def)
    then obtain bindings c b ts where bound: "as_m2m_bindings s = PDict bindings" "str_view (py_get d ''client_id'') = Some c"
      "map_of bindings c = Some b" "stripped_scopes (binding_value b ''required_scopes'') = Some ts" "scopes = set ts"
      using binding_of_machine unfolding scopes_def by blast
    note facts = held granted(2,1,3) decided
    show ?thesis
      unfolding client
      by (intro exI [of _ bindings] exI [of _ c] exI [of _ b] exI [of _ ts] conjI)
        (rule bound(1-4) facts [unfolded bound(5)])+
  next
    case (person d key w1 w2 now f w3)
    with assms(2) show ?thesis by (simp add: human_context_def py_eq_PStr)
  qed
qed

text \<open>
  (C10) What authentication hands over, the decision point accepts: the snapshot of an authenticated
  person passes the membership checks, and at the time the clock showed it passes the common
  checks, so that only the scopes are left to compare, exactly when the authentication event contributed
  nothing or everything, that is no assurance or one with a well-formed reference.
\<close>

theorem authenticated_person_decided:
  assumes "get_auth_context ap s authorization tenant_header w = (Inr auth, w')" "is_user auth"
    and "\<And>w now w'. ap_time ap w = (now, w') \<Longrightarrow> now \<le> 9999999999"
  shows "\<exists>sn now role w1 w2. ac_human_authorization auth = Inst sn \<and> ap_time ap w1 = (now, w2) \<and>
    validate_membership_snapshot sn = Inr role \<and>
    (user_prechecks auth sn pol now = Inr MEMBERSHIP \<longleftrightarrow> required_human_scopes pol \<subseteq> ac_scopes auth \<and>
       (sn_assurance sn = PNone \<or> str_sat opaque_reference_pattern (sn_authentication_event_reference sn)))"
  using assms(1)
proof (cases rule: request_cases)
  case mock
  with assms(2) show ?thesis by (simp add: mock_principal_def py_eq_PStr)
next
  case (cognito header)
  from cognito(4) show ?thesis
  proof (cases rule: resolved_request)
    case (machine d key w1)
    with machine_resolved(1) assms(2) show ?thesis by (auto simp: machine_principal_def py_eq_PStr)
  next
    case (person d key w1 w2 now f w3)
    have sn: "snapshot_of s d now (claims_snapshot d f)"
      by (rule human_checked [OF person(5,6) assms(3) [OF person(4)]])
    obtain role where role: "validate_membership_snapshot (claims_snapshot d f) = Inr role"
      using sn by (auto simp: validate_membership_snapshot_Inr snapshot_of_def claims_snapshot_def any_grant_field_def Let_def)
    have "user_prechecks auth (claims_snapshot d f) pol now = Inr MEMBERSHIP \<longleftrightarrow> required_human_scopes pol \<subseteq> ac_scopes auth \<and>
       (no_assurance (claims_snapshot d f) \<or> mfa_evidence (claims_snapshot d f))"
      using sn person_bound [OF sn person(8)]
      by (auto simp: user_prechecks_Inr snapshot_of_def claims_snapshot_def Let_def)
    moreover have "no_assurance (claims_snapshot d f) \<or> mfa_evidence (claims_snapshot d f) \<longleftrightarrow>
       sn_assurance (claims_snapshot d f) = PNone \<or>
       str_sat opaque_reference_pattern (sn_authentication_event_reference (claims_snapshot d f))"
      by (rule evidence_whole [OF person(7)])
    moreover have "ac_human_authorization auth = Inst (claims_snapshot d f)" by (simp add: person(8) human_context_def)
    ultimately show ?thesis using role person(4) by blast
  qed
qed

text \<open>A mock principal passes no decision of the decision point, in whatever environment.\<close>

theorem mock_never_authorized:
  assumes "get_auth_context ap s authorization tenant_header w = (Inr auth, w1)" "as_auth_mode s = ''local_mock''"
  shows "authorize_operation env (Some auth) op_arg (PInt now) rt sink w2 \<noteq> (Inr a, w3)"
proof
  assume "authorize_operation env (Some auth) op_arg (PInt now) rt sink w2 = (Inr a, w3)"
  then obtain op pol refs w4 where "principal_decision env rt auth op pol now w2 = (Inr refs, w4)"
    by (rule authorize_allowE)
  moreover have "ac_principal_type auth = PStr ''local_mock''"
    using assms(1)
  proof (cases rule: request_cases)
    case (cognito header)
    with assms(2) show ?thesis by simp
  qed (simp add: mock_principal_def)
  ultimately show False by (simp add: principal_decision_def py_eq_PStr)
qed

section \<open>The startup checks\<close>

lemma lower_space: "is_space (lower_char c) \<longleftrightarrow> is_space c"
proof -
  have "code (lower_char c) = (if is_upper c \<or> 192 \<le> code c \<and> code c \<le> 222 \<and> code c \<noteq> 215 then code c + 32 else code c)"
    by (auto simp: lower_char_def is_upper_def)
  then show ?thesis by (auto simp: is_space_def is_upper_def split: if_splits)
qed

lemma strip_lower: "py_strip (py_lower t) = py_lower (py_strip t)"
  by (simp add: py_strip_def py_lower_def dropWhile_map rev_map comp_def lower_space)

lemma no_complaint: "complaint b name = [] \<longleftrightarrow> \<not> b"
  by (simp add: complaint_def)

lemma no_m2m_errors:
  assumes "m2m_errors s = []" "m2m_mode_of s = ''client_identity_bindings_v1''"
    "as_m2m_bindings s = PDict bindings" "(c, b) \<in> set bindings"
  shows "action_sets_model (as_m2m_actions s)" "binding_errors s (Some (as_m2m_actions s)) (c, b) = []"
    "customer_id_pattern (stripped_setting (as_customer_id s))" "deployment_id_pattern (stripped_setting (as_deployment_id s))"
proof -
  show model: "action_sets_model (as_m2m_actions s)"
    "customer_id_pattern (stripped_setting (as_customer_id s))" "deployment_id_pattern (stripped_setting (as_deployment_id s))"
    using assms(1,2) by (simp_all add: m2m_errors_def no_complaint)
  obtain e es where "bindings = e # es" using assms(4) by (cases bindings) auto
  then have "concat (map (binding_errors s (Some (as_m2m_actions s))) bindings) = []"
    using assms(1-3) model(1) by (simp add: m2m_errors_def)
  with assms(4) show "binding_errors s (Some (as_m2m_actions s)) (c, b) = []" by simp
qed

lemma binding_modelE:
  assumes "binding_model b = Some mb"
  shows "str_view (binding_value b ''customer_id'') = Some (mb_customer_id mb)"
    "str_view (binding_value b ''deployment_id'') = Some (mb_deployment_id mb)"
    "customer_id_pattern (mb_customer_id mb)" "deployment_id_pattern (mb_deployment_id mb)"
    "mb_customer_id mb \<noteq> mb_deployment_id mb"
    "stripped_scopes (binding_value b ''required_scopes'') = Some (mb_required_scopes mb)"
proof -
  obtain bd where b: "b = PDict bd" using assms by (cases b) (simp_all add: binding_model_def)
  have model: "str_sat customer_id_pattern (py_get bd ''customer_id'')" "str_sat deployment_id_pattern (py_get bd ''deployment_id'')"
    "\<not> py_eq (py_get bd ''customer_id'') (py_get bd ''deployment_id'')"
    using assms by (auto simp: binding_model_def b split: if_splits)
  obtain c where c: "str_view (py_get bd ''customer_id'') = Some c" "customer_id_pattern c" using model(1) by (rule str_satE)
  obtain t where t: "str_view (py_get bd ''deployment_id'') = Some t" "deployment_id_pattern t" using model(2) by (rule str_satE)
  have mb: "mb_customer_id mb = c" "mb_deployment_id mb = t" "stripped_scopes (py_get bd ''required_scopes'') = Some (mb_required_scopes mb)"
    using assms by (auto simp: binding_model_def b c(1) t(1) split: if_splits)
  have at: "binding_value b name = py_get bd name" for name by (simp add: b binding_value_def)
  show "str_view (binding_value b ''customer_id'') = Some (mb_customer_id mb)" using at c(1) mb(1) by metis
  show "str_view (binding_value b ''deployment_id'') = Some (mb_deployment_id mb)" using at t(1) mb(2) by metis
  show "customer_id_pattern (mb_customer_id mb)" using c(2) mb(1) by metis
  show "deployment_id_pattern (mb_deployment_id mb)" using t(2) mb(2) by metis
  show "stripped_scopes (binding_value b ''required_scopes'') = Some (mb_required_scopes mb)" using at mb(3) by metis
  show "mb_customer_id mb \<noteq> mb_deployment_id mb"
    using model(3) c(1) mb(1,2) by (simp add: py_eq_views [OF t(1)])
qed

definition trimmed_setting :: "pyval \<Rightarrow> bool" where
  "trimmed_setting v \<longleftrightarrow> str_view v = Some (stripped_setting v)"


end
