(* ===== verification/PasskeyProofs.thy ===== *)
theory PasskeyProofs
  imports AuthenticationProofs
begin

text \<open>
  The passkey endpoints and the resolution of a person, composed: the authentication event a successful
  challenge leaves in the table is what the resolution reads when the token is presented, and it is what
  the decision point's step-up asks for.
\<close>

section \<open>The event\<close>

definition event_key :: "string \<Rightarrow> item_key" where
  "event_key jti = (event_pk (PStr jti), ''META'')"

definition enabling_event :: "int \<Rightarrow> item \<Rightarrow> bool" where
  "enabling_event t e \<longleftrightarrow> e \<noteq> [] \<and> py_get e ''assurance'' = PStr ''phishing_resistant_mfa'' \<and>
     py_get e ''assurance_source'' = PStr ''authoritative_authentication_event_v1'' \<and>
     py_get e ''assurance_version'' = PStr ''phishing-resistant-mfa.v1'' \<and> event_time e = Some t"

lemma stored_event:
  "enabling_event t (stored_item (authentication_event claims (PInt t) n created))"
  by (simp add: enabling_event_def stored_item_def authentication_event_def py_get_def event_time_def)

lemma event_key_of: "py_get claims ''jti'' = PStr j \<Longrightarrow> key_of (authentication_event claims a n created) = event_key j"
  by (simp add: key_of_def authentication_event_def py_get_def event_key_def)

lemma enabling_evidence:
  assumes "enabling_event t e"
  shows "event_evidence e (PStr j) t now = (if 300 < now - t then no_evidence
    else \<lparr>af_assurance = PEnum ''Assurance'' ''PHISHING_RESISTANT_MFA'' (assurance_value PHISHING_RESISTANT_MFA),
      af_source = PEnum ''AssuranceSource'' ''AUTHORITATIVE_AUTHENTICATION_EVENT'' ASSURANCE_SOURCE,
      af_version = PEnum ''AssuranceVersion'' ''PHISHING_RESISTANT_MFA_V1'' ASSURANCE_VERSION,
      af_reference = PStr (event_reference j)\<rparr>)"
  using assms by (simp add: enabling_event_def event_evidence_def Let_def differs_def no_evidence_def
      ASSURANCE_SOURCE_def ASSURANCE_VERSION_def)

section \<open>What a challenge leaves\<close>

context conditional_table begin

lemma recorded:
  assumes "record_event pp table access w = (Inr u, w')" "pp_events pp (py_str table) = dy"
  shows "\<exists>claims w1 w2. pp_decode pp access w1 = (Inr claims, w2) \<and> py_truthy table \<and>
    (\<forall>j t. py_get claims ''jti'' = PStr j \<and> py_get claims ''auth_time'' = PInt t \<longrightarrow>
       (\<exists>e. view w' (event_key j) = Some e \<and> enabling_event t e))"
proof -
  obtain claims w1 now w2 t created w3 where run: "pp_decode pp access w = (Inr claims, w1)" "pp_time pp w1 = (now, w2)"
    "auth_number (get_or claims ''auth_time'' (PInt now)) = Some t" "py_truthy table"
    "dy_put_item dy (authentication_event claims (get_or claims ''auth_time'' (PInt now)) t created) unless_exists w3 = (Inr u, w')"
    using assms by (auto simp: record_event_def run_rules otherwise_def read_time_def Let_def split: if_splits option.splits prod.splits)
  have "\<exists>e. view w' (event_key j) = Some e \<and> enabling_event a e"
    if claims: "py_get claims ''jti'' = PStr j" "py_get claims ''auth_time'' = PInt a" for j a
  proof -
    have "get_or claims ''auth_time'' (PInt now) = PInt a"
      using claims(2) by (auto simp: get_or_def py_get_def split: option.splits)
    with put_done [OF run(5)] stored_event event_key_of [OF claims(1)] show ?thesis by auto
  qed
  with run(1,4) show ?thesis by blast
qed

lemma answered:
  assumes "respond_passkey_auth pp client table session responses w = (Inr (Tokens access ident refresh), w')"
    "pp_events pp (py_str table) = dy"
  shows "\<exists>claims w1 w2. pp_decode pp access w1 = (Inr claims, w2) \<and> py_truthy table \<and>
    (\<forall>j t. py_get claims ''jti'' = PStr j \<and> py_get claims ''auth_time'' = PInt t \<longrightarrow>
       (\<exists>e. view w' (event_key j) = Some e \<and> enabling_event t e))"
proof -
  obtain u w1 where "record_event pp table access w1 = (Inr u, w')"
    using assms(1) by (auto simp: respond_passkey_auth_def run_rules Let_def split: if_splits pyval.splits)
  then show ?thesis using assms(2) by (rule recorded)
qed

lemma enabled_read:
  assumes "py_get d ''jti'' = PStr j" "py_truthy (PStr j)" "py_truthy (as_ledger_table s)" "ap_events ap (py_str (as_ledger_table s)) = dy"
    "view w (event_key j) = Some e" "dy_get_item dy (event_key j) w = (Inr resp, w1)"
    "read_evidence ap s d now w = (Inr f, w')"
  shows "f = event_evidence e (PStr j) (int_of (py_get d ''auth_time'')) now"
proof -
  have "response_item resp = Some e" using get_law [OF assms(6)] assms(5) by simp
  with assms show ?thesis by (simp add: read_evidence_def Let_def run_rules event_key_def)
qed

end

section \<open>From the challenge to the step-up\<close>

lemma snapshot_step_up:
  assumes "list_all (\<lambda>(b, e). \<not> b) (human_claim_denials s d)" "list_all (\<lambda>(b, e). \<not> b) (human_time_denials s d now)"
    "f = event_evidence e (PStr j) (int_of (py_get d ''auth_time'')) now"
    "enabling_event (int_of (py_get d ''auth_time'')) e" "opaque_reference_pattern (event_reference j)"
  shows "require_step_up (claims_snapshot d f) (PInt now) = Inr () \<longleftrightarrow> now - int_of (py_get d ''auth_time'') \<le> 300"
proof -
  have "required_epoch d ''auth_time''" using assms(1) by (simp add: human_claim_denials_def)
  then obtain a where a: "py_get d ''auth_time'' = PInt a" "0 < a" "a \<le> 9999999999"
    by (auto simp: required_epoch_def split: pyval.splits)
  have "a \<le> now" using assms(2) by (simp add: human_time_denials_def a(1) Let_def)
  with a assms(5) show ?thesis
    unfolding require_step_up_iff assms(3) enabling_evidence [OF assms(4)]
    by (auto simp: a(1) recent_mfa_def mfa_evidence_def claims_snapshot_def Let_def epoch_value_def no_evidence_def
        ASSURANCE_SOURCE_def ASSURANCE_VERSION_def)
qed

text \<open>
  (C12) A passkey challenge enables the step-up, for five minutes. When the endpoint has returned tokens and the access
  token is presented later, while its event is still in the table, the snapshot resolved from it
  passes the step-up of the decision point exactly when at most 300 seconds have passed since the authentication
  the token names.
\<close>

theorem passkey_enables_step_up:
  assumes "conditional_table (ap_events ap (py_str (as_ledger_table s))) view" "pp_events pp = ap_events ap"
    and answers: "\<And>k w. \<exists>resp w'. dy_get_item (ap_events ap (py_str (as_ledger_table s))) k w = (Inr resp, w')"
    and clock: "\<And>w now w'. ap_time ap w = (now, w') \<Longrightarrow> view w' = view w"
    and respond: "respond_passkey_auth pp client (as_ledger_table s) session responses w = (Inr (Tokens access ident refresh), w1)"
    and later: "view w2 (event_key j) = view w1 (event_key j)"
    and token: "py_get d ''jti'' = PStr j" "opaque_reference_pattern (event_reference j)" "j \<noteq> []"
    and resolved: "resolve_human_snapshot ap s d w2 = (Inr sn, w3)"
  shows "\<exists>claims now w4 w5 w6. pp_decode pp access w4 = (Inr claims, w5) \<and> ap_time ap w2 = (now, w6) \<and>
    (py_get claims ''jti'' = PStr j \<and> py_get claims ''auth_time'' = py_get d ''auth_time'' \<longrightarrow>
      (require_step_up sn (PInt now) = Inr () \<longleftrightarrow> now - int_of (py_get d ''auth_time'') \<le> 300))"
proof -
  obtain claims w4 w5 where endpoint: "pp_decode pp access w4 = (Inr claims, w5)" "py_truthy (as_ledger_table s)"
    "\<And>j t. py_get claims ''jti'' = PStr j \<Longrightarrow> py_get claims ''auth_time'' = PInt t \<Longrightarrow>
      \<exists>e. view w1 (event_key j) = Some e \<and> enabling_event t e"
    using conditional_table.answered [OF assms(1) respond] assms(2) by metis
  obtain now w6 f where run: "ap_time ap w2 = (now, w6)" "list_all (\<lambda>(b, e). \<not> b) (human_claim_denials s d)"
    "list_all (\<lambda>(b, e). \<not> b) (human_time_denials s d now)" "read_evidence ap s d now w6 = (Inr f, w3)"
    "sn = claims_snapshot d f"
    using resolved by (auto simp: resolve_human_snapshot_def bind_Inr as_denied_Inr checked_Inr split: prod.splits)
  have "required_epoch d ''auth_time''" using run(2) by (simp add: human_claim_denials_def)
  then obtain t where t: "py_get d ''auth_time'' = PInt t" by (auto simp: required_epoch_def split: pyval.splits)
  have "require_step_up sn (PInt now) = Inr () \<longleftrightarrow> now - int_of (py_get d ''auth_time'') \<le> 300"
    if same: "py_get claims ''jti'' = PStr j" "py_get claims ''auth_time'' = py_get d ''auth_time''"
  proof -
    obtain e where e: "view w6 (event_key j) = Some e" "enabling_event (int_of (py_get d ''auth_time'')) e"
      using endpoint(3) same t later clock [OF run(1)] by fastforce
    obtain resp w7 where "dy_get_item (ap_events ap (py_str (as_ledger_table s))) (event_key j) w6 = (Inr resp, w7)"
      using answers by blast
    then have "f = event_evidence e (PStr j) (int_of (py_get d ''auth_time'')) now"
      using conditional_table.enabled_read [OF assms(1) token(1)] token(3) endpoint(2) e(1) run(4) by simp
    then show ?thesis using snapshot_step_up [OF run(2,3) _ e(2) token(2)] run(5) by simp
  qed
  with endpoint(1) run(1) show ?thesis by blast
qed

text \<open>
  Without the attribute \<open>cognito_client_id\<close>, which the class of the settings does not declare, no
  challenge is started and none is answered: both endpoints report an internal error, and nothing is called.
\<close>

theorem passkey_without_client:
  "initiate_passkey_auth pp None username w = (Inl (initiate_refusal Other_Cognito_Failure), w) \<and>
   respond_passkey_auth pp None table session responses w = (Inl (respond_refusal Other_Cognito_Failure), w)"
  by (simp add: initiate_passkey_auth_def respond_passkey_auth_def settings_client_id_def bind_def catch_def raise_def)

section \<open>Partial evidence\<close>

text \<open>
  An event of the right assurance and time whose source is not the expected one: the source raises, and the
  assurance assigned before it stays.
\<close>

definition broken_event :: "int \<Rightarrow> item \<Rightarrow> bool" where
  "broken_event t e \<longleftrightarrow> py_get e ''assurance'' = PStr ''phishing_resistant_mfa'' \<and> event_time e = Some t \<and>
     str_view (py_get e ''assurance_source'') \<noteq> Some ''authoritative_authentication_event_v1''"

lemma broken_evidence:
  assumes "broken_event t e" "now - t \<le> 300"
  shows "user_prechecks auth (claims_snapshot d (event_evidence e jti t now)) pol later \<noteq> Inr path"
proof -
  have "e \<noteq> []" using assms(1) by (auto simp: broken_event_def py_get_def)
  then have "af_assurance (event_evidence e jti t now) \<noteq> PNone" "af_source (event_evidence e jti t now) = PNone"
    using assms by (auto simp: broken_event_def event_evidence_def Let_def differs_iff no_evidence_def ASSURANCE_SOURCE_def)
  then show ?thesis
    by (simp add: user_prechecks_Inr no_assurance_def mfa_evidence_def claims_snapshot_def Let_def)
qed

lemma no_prechecks_no_allow:
  assumes "ac_principal_type auth = PStr ''user''" "ac_human_authorization auth = Inst sn"
    "\<And>pol path. user_prechecks auth sn pol now \<noteq> Inr path"
  shows "authorize_operation env (Some auth) op_arg (PInt now) rt sink w \<noteq> (Inr a, w')"
proof
  assume "authorize_operation env (Some auth) op_arg (PInt now) rt sink w = (Inr a, w')"
  then obtain op pol refs w1 where "principal_decision env rt auth op pol now w = (Inr refs, w1)"
    by (rule authorize_allowE)
  with assms(1) obtain r w2 where "user_decision env rt auth op pol now w = (Inr r, w2)"
    by (auto simp: principal_decision_def py_eq_PStr bind_Inr)
  then show False
    using assms(3) by (auto simp: user_decision_def assms(2) bind_Inr)
qed

end
