(* ===== verification/AuthenticationWitness.thy ===== *)
theory AuthenticationWitness
  imports PasskeyProofs
begin

text \<open>
  A deployment with one machine client and one auditor, whose tokens are decoded by a table in which the token
  names its claims; and the properties of authentication at requests to it.
\<close>

section \<open>The deployment\<close>

definition demo_customer :: pyval where "demo_customer = PStr ''cust_01ARZ3NDEKTSV4RRFFQ69G5FAV''"
definition demo_deployment :: pyval where "demo_deployment = PStr ''dep_01ARZ3NDEKTSV4RRFFQ69G5FAV''"

definition demo_actions :: pyval where
  "demo_actions = PDict [(''read'', PList [PStr ''ingest/r'']), (''write'', PList [PStr ''ingest/w'']),
     (''admin'', PList [PStr ''ingest/a''])]"

definition demo_binding :: pyval where
  "demo_binding = PDict [(''customer_id'', demo_customer), (''deployment_id'', demo_deployment),
     (''required_scopes'', PList [PStr ''ingest/r''])]"

definition demo_settings :: auth_settings where
  "demo_settings = \<lparr>as_env = ''prod'', as_auth_mode = ''cognito_jwt'', as_customer_id = demo_customer,
     as_deployment_id = demo_deployment, as_user_pool_id = PStr ''pool'', as_region = ''eu-west-1'',
     as_token_uses = ''access'', as_client_ids = ''client, web'', as_customer_claim = ''custom:customerId'',
     as_deployment_claim = ''custom:deployment_id'', as_m2m_resolution = ''client_identity_bindings_v1'',
     as_m2m_tenant_map = PNone, as_m2m_bindings = PDict [(''client'', demo_binding)], as_m2m_actions = demo_actions,
     as_human_enabled = PBool True, as_authz_schema_version = PStr AUTHZ_SCHEMA_VERSION,
     as_scope_catalog_version = PStr SCOPE_CATALOG_VERSION, as_role_catalog_version = PStr ROLE_CATALOG_VERSION,
     as_policy_version = PStr POLICY_VERSION, as_policy_digest = PStr POLICY_DIGEST, as_max_snapshot_age = PInt 300,
     as_assurance_claim = PNone, as_ledger_table = PStr ''ledger'', as_mock_customer = PNone, as_mock_subject = PNone\<rparr>"

definition machine_claims :: item where
  "machine_claims = [(''client_id'', PStr ''client''), (''token_use'', PStr ''access''), (''scope'', PStr ''ingest/r'')]"

definition person_claims :: item where
  "person_claims = [(''token_use'', PStr ''access''), (''principal_type'', PStr ''user''), (''client_id'', PStr ''web''),
     (''sub'', PStr ''user-1''), (''scope'', PStr ''scanalyze.api.v1/read''), (''custom:customerId'', demo_customer),
     (''custom:deployment_id'', demo_deployment), (''membership_state'', PStr ''active''), (''role_id'', PStr ''auditor''),
     (''membership_version'', PStr ''v1''), (''authz_schema_version'', PStr AUTHZ_SCHEMA_VERSION),
     (''scope_catalog_version'', PStr SCOPE_CATALOG_VERSION), (''role_catalog_version'', PStr ROLE_CATALOG_VERSION),
     (''policy_version'', PStr POLICY_VERSION), (''policy_digest'', PStr POLICY_DIGEST), (''iat'', PInt 990),
     (''auth_time'', PInt 980), (''jti'', PStr ''0123456789abcdef01234567'')]"

definition demo_ports :: "memory_world auth_ports" where
  "demo_ports = \<lparr>ap_cache = (\<lambda>w. None), ap_set_cache = (\<lambda>c w. w), ap_monotonic = (\<lambda>w. (0, w)),
     ap_signing_key = (\<lambda>url token. ret ''key''),
     ap_decode = (\<lambda>token key issuer. ret (if token = ''m'' then machine_claims else person_claims)),
     ap_time = (\<lambda>w. (1000, w)), ap_events = (\<lambda>name. memory_table (\<lambda>m q. PNone))\<rparr>"

lemmas demo_defs = demo_settings_def demo_ports_def demo_customer_def demo_deployment_def demo_actions_def demo_binding_def
  machine_claims_def person_claims_def

definition empty_world :: memory_world where
  "empty_world = \<lparr>mw_items = (\<lambda>k. None), mw_time = 0\<rparr>"

definition machine_auth :: auth_context where
  "machine_auth = \<lparr>ac_customer_id = demo_customer, ac_deployment_id = demo_deployment,
     ac_principal_type = PStr ''m2m'', ac_subject = PStr ''client'', ac_client_id = PStr ''client'',
     ac_scopes = {''ingest/r''}, ac_granted_actions = {''read''}, ac_email = PNone, ac_name = PNone,
     ac_auth_source = PStr ''m2m_identity_binding_v1'', ac_human_authorization = NoneRef\<rparr>"

section \<open>Runs\<close>

lemma machine_run:
  "get_auth_context demo_ports demo_settings (Some ''Bearer m'') None empty_world =
    (Inr machine_auth, snd (get_auth_context demo_ports demo_settings (Some ''Bearer m'') None empty_world))"
proof -
  have "fst (get_auth_context demo_ports demo_settings (Some ''Bearer m'') None empty_world) = Inr machine_auth" by code_simp
  then show ?thesis by (simp add: prod_eq_iff)
qed

definition auditor_auth :: auth_context where
  "auditor_auth = human_context person_claims (claims_snapshot person_claims no_evidence)"

lemma person_run:
  "get_auth_context demo_ports demo_settings (Some ''Bearer p'') None empty_world =
    (Inr auditor_auth, snd (get_auth_context demo_ports demo_settings (Some ''Bearer p'') None empty_world))"
proof -
  have "fst (get_auth_context demo_ports demo_settings (Some ''Bearer p'') None empty_world) = Inr auditor_auth" by code_simp
  then show ?thesis by (simp add: prod_eq_iff)
qed

lemma demo_time: "ap_time demo_ports w = (now, w') \<Longrightarrow> now = 1000 \<and> w' = w"
  by (simp add: demo_ports_def)

lemma demo_startup: "validate_auth_config demo_settings None = Inr ()"
  by code_simp


theorem machine_actions_exact_witness:
  "\<exists>bindings client b scopes. as_m2m_bindings demo_settings = PDict bindings \<and>
    str_view (ac_client_id machine_auth) = Some client \<and> map_of bindings client = Some b \<and>
    stripped_scopes (binding_value b ''required_scopes'') = Some scopes \<and> set scopes \<subseteq> ac_scopes machine_auth \<and>
    ac_granted_actions machine_auth \<noteq> {} \<and>
    ac_granted_actions machine_auth = {a \<in> {''read'', ''write'', ''admin''}. action_scopes (as_m2m_actions demo_settings) a \<subseteq> set scopes} \<and>
    set scopes = (\<Union>a\<in>ac_granted_actions machine_auth. action_scopes (as_m2m_actions demo_settings) a) \<and>
    (m2m_decision machine_auth sample_policy = Inr () \<longleftrightarrow> m2m_allowed sample_policy \<and>
       m2m_required_actions sample_policy \<subseteq> ac_granted_actions machine_auth)"
  by (rule machine_actions_exact [OF machine_run]) (simp add: machine_auth_def py_eq_PStr)

theorem authenticated_person_decided_witness:
  "\<exists>sn now role w1 w2. ac_human_authorization auditor_auth = Inst sn \<and> ap_time demo_ports w1 = (now, w2) \<and>
    validate_membership_snapshot sn = Inr role \<and>
    (user_prechecks auditor_auth sn sample_policy now = Inr MEMBERSHIP \<longleftrightarrow>
       required_human_scopes sample_policy \<subseteq> ac_scopes auditor_auth \<and>
       (sn_assurance sn = PNone \<or> str_sat opaque_reference_pattern (sn_authentication_event_reference sn)))"
  by (rule authenticated_person_decided [OF person_run])
    (auto simp: auditor_auth_def human_context_def py_eq_PStr dest: demo_time)


section \<open>A challenge and its token\<close>

definition demo_passkeys :: "memory_world passkey_ports" where
  "demo_passkeys = \<lparr>pp_initiate = (\<lambda>c u. ret []),
     pp_respond = (\<lambda>c session responses. ret [(''AuthenticationResult'', PDict [(''AccessToken'', PStr ''p'')])]),
     pp_decode = (\<lambda>token. ret person_claims), pp_time = (\<lambda>w. (981, w)), pp_events = ap_events demo_ports\<rparr>"

definition answered_world :: memory_world where
  "answered_world = snd (respond_passkey_auth demo_passkeys (Some (PStr ''web'')) (PStr ''ledger'') ''s'' [] empty_world)"

lemma passkey_run:
  "fst (respond_passkey_auth demo_passkeys (Some (PStr ''web'')) (PStr ''ledger'') ''s'' [] empty_world) =
    Inr (Tokens (PStr ''p'') PNone PNone)"
  by code_simp

definition demo_evidence :: assurance_fields where
  "demo_evidence = \<lparr>af_assurance = PEnum ''Assurance'' ''PHISHING_RESISTANT_MFA'' (assurance_value PHISHING_RESISTANT_MFA),
      af_source = PEnum ''AssuranceSource'' ''AUTHORITATIVE_AUTHENTICATION_EVENT'' ASSURANCE_SOURCE,
      af_version = PEnum ''AssuranceVersion'' ''PHISHING_RESISTANT_MFA_V1'' ASSURANCE_VERSION,
      af_reference = PStr ''ref_0123456789abcdef01234567''\<rparr>"

lemma resolved_run:
  "fst (resolve_human_snapshot demo_ports demo_settings person_claims answered_world) = Inr (claims_snapshot person_claims
    demo_evidence)"
  by code_simp

lemma demo_events: "ap_events demo_ports name = memory_table (\<lambda>m q. PNone)"
  by (simp add: demo_ports_def)

lemma demo_table: "conditional_table (ap_events demo_ports name) mw_items"
  unfolding demo_events by (rule mem.conditional_table_axioms)

lemma demo_answers: "\<exists>resp w'. dy_get_item (ap_events demo_ports name) k w = (Inr resp, w')"
  by (simp add: demo_events memory_table_def)

theorem passkey_enables_step_up_witness:
  "\<exists>claims now w4 w5 w6. pp_decode demo_passkeys (PStr ''p'') w4 = (Inr claims, w5) \<and> ap_time demo_ports answered_world = (now, w6) \<and>
    (py_get claims ''jti'' = PStr ''0123456789abcdef01234567'' \<and> py_get claims ''auth_time'' = py_get person_claims ''auth_time'' \<longrightarrow>
      (require_step_up (claims_snapshot person_claims
        demo_evidence) (PInt now) = Inr () \<longleftrightarrow>
       now - int_of (py_get person_claims ''auth_time'') \<le> 300))"
proof (rule passkey_enables_step_up [where s = demo_settings and view = mw_items and ap = demo_ports and pp = demo_passkeys])
  show "conditional_table (ap_events demo_ports (py_str (as_ledger_table demo_settings))) mw_items"
    by (rule demo_table)
  show "pp_events demo_passkeys = ap_events demo_ports" by (simp add: demo_passkeys_def)
  show "\<exists>resp w'. dy_get_item (ap_events demo_ports (py_str (as_ledger_table demo_settings))) k w = (Inr resp, w')" for k w
    by (rule demo_answers)
  show "mw_items w' = mw_items w" if "ap_time demo_ports w = (now, w')" for w now w' using demo_time [OF that] by simp
  show "respond_passkey_auth demo_passkeys (Some (PStr ''web'')) (as_ledger_table demo_settings) ''s'' [] empty_world =
    (Inr (Tokens (PStr ''p'') PNone PNone), answered_world)"
    using passkey_run by (simp add: demo_settings_def answered_world_def prod_eq_iff)
  show "resolve_human_snapshot demo_ports demo_settings person_claims answered_world = (Inr (claims_snapshot person_claims
    demo_evidence), snd (resolve_human_snapshot demo_ports demo_settings person_claims answered_world))"
    using resolved_run by (simp add: prod_eq_iff)
  show "py_get person_claims ''jti'' = PStr ''0123456789abcdef01234567''" by (simp add: person_claims_def py_get_def)
  show "opaque_reference_pattern (event_reference ''0123456789abcdef01234567'')" by code_simp
qed simp_all

section \<open>A broken event\<close>

definition broken_item :: item where
  "broken_item = [(''assurance'', PStr ''phishing_resistant_mfa''), (''auth_time'', PInt 980)]"

definition broken_world :: memory_world where
  "broken_world = empty_world\<lparr>mw_items := (\<lambda>k. None)(event_key ''0123456789abcdef01234567'' \<mapsto> broken_item)\<rparr>"

definition broken_snapshot :: snapshot where
  "broken_snapshot = claims_snapshot person_claims (no_evidence
     \<lparr>af_assurance := PEnum ''Assurance'' ''PHISHING_RESISTANT_MFA'' (assurance_value PHISHING_RESISTANT_MFA)\<rparr>)"

lemma broken_run:
  "resolve_human_snapshot demo_ports demo_settings person_claims broken_world =
    (Inr broken_snapshot, snd (resolve_human_snapshot demo_ports demo_settings person_claims broken_world))"
proof -
  have "fst (resolve_human_snapshot demo_ports demo_settings person_claims broken_world) = Inr broken_snapshot" by code_simp
  then show ?thesis by (simp add: prod_eq_iff)
qed

end
