(* ===== verification/Spec2Isabelle.thy ===== *)
theory Spec2Isabelle
  imports SystemWitness AuthzGuarantees ObjectAuthorization JourneyWitness AuthenticationWitness
begin

text \<open>
  A verification of the authentication, authorization, user lifecycle and document journey of the ingest API,
  \<open>backend/workers/scanalyze-ingest-api/app\<close>.

  \<^bold>\<open>The program.\<close> The dependency of the protected routes (\<open>auth.py\<close>) turns the headers of a request into an
  authentication context: of a machine with a binding, of a person with a snapshot of the claims, or of a
  local mock. \<open>config.py\<close> validates the settings it compares with before the program takes requests, and
  \<open>authentication_assurance.py\<close> records a successful passkey challenge as the event a snapshot takes
  its assurance from. The decision point
  (\<open>enterprise_authorization.py\<close>) decides whether a principal may start an operation, and
  \<open>authorization.py\<close> whether a stored object is the caller's own. Administrators manage the members
  of their deployment through \<open>user_lifecycle.py\<close>: every call is reserved in an idempotency ledger,
  asks for its effects (approval, account at the identity provider, membership, sessions, audit) one
  by one and records a checkpoint after each, so that a repeated call resumes. \<open>user_lifecycle_adapters.py\<close>
  implements the service's ports on DynamoDB and Cognito. Documents go through
  \<open>services/journey.py\<close>: a create reserves its idempotency key in the ledger of
  \<open>repositories/operations.py\<close>, writes one business record, and moves the ledger's record on; a
  repeated create and a reconciliation decide from the two tables what happened.
  \<open>journey_contract.py\<close> holds the digests, the answers and the projection of a stored
  document to its public status.

  \<^bold>\<open>Theories.\<close>
    \<^item> Python and its libraries: \<open>Prelude\<close> (values, enumerations, patterns, the monad \<open>io\<close> of computations
      that read and change a world and may raise), \<open>PyText\<close>, \<open>PyTime\<close> (datetimes as microseconds from the
      year 1), \<open>PyCodec\<close> (base64, JSON), \<open>Sha256\<close> (on 32-bit words).
    \<^item> \<open>enterprise_authorization.py\<close>: \<open>AuthzCatalog\<close> (enumerations, policies, roles), \<open>AuthzDecision\<close>
      (\<open>authorize_operation\<close> with every check of snapshot, evidence, grant and audit receipt);
      \<open>AuthzProofs\<close> reads an allow backwards, \<open>AuthzGuarantees\<close> holds denials, machines and events.
      \<open>authorization.py\<close>: \<open>ObjectAuthorization\<close>.
    \<^item> \<open>auth.py\<close>: \<open>Authentication\<close> (tokens, machine bindings, snapshots); \<open>config.py\<close>: \<open>AuthConfig\<close>
      (\<open>validate_auth_config\<close>); \<open>authentication_assurance.py\<close>: \<open>PasskeyAssurance\<close>. \<open>AuthenticationProofs\<close> shows what
      a context stands for and that the decision point accepts it, \<open>PasskeyProofs\<close> that a challenge
      enables the step-up.
    \<^item> \<open>user_lifecycle.py\<close>: \<open>LifecycleModel\<close> (data, validation, digests), \<open>LifecycleService\<close> and
      \<open>LifecycleInvitations\<close> (the methods of \<open>UserLifecycleService\<close> over the record
      \<open>lifecycle_runtime\<close> of ports). \<open>LifecycleTrace\<close> and \<open>LifecycleOrder\<close> log the calls of the ports and show
      their order for arbitrary ports; \<open>LifecycleProofs\<close> what each check leaves,
      who may call the methods, and that approval comes first.
    \<^item> \<open>user_lifecycle_adapters.py\<close>: \<open>LifecycleStore\<close>, \<open>LifecycleAdapters\<close>, \<open>LifecycleListings\<close> over
      the DynamoDB client of \<open>DynamoTable\<close>. \<open>StoreProofs\<close> shows each operation to be at most one
      conditional write, \<open>StoreHistory\<close> and \<open>StoreInvariants\<close> what all interleavings of such writes keep,
      \<open>AdapterProofs\<close> and \<open>ListingProofs\<close> audit, accounts and cursors. \<open>LifecycleSystem\<close> composes
      service and adapters (\<open>compose_enterprise_lifecycle_runtime\<close>).
    \<^item> \<open>repositories/operations.py\<close>: \<open>OperationLedger\<close>. \<open>LedgerProofs\<close> has the round trip of records,
      \<open>LedgerHistory\<close> the interleavings, \<open>LedgerRuns\<close> what each outcome tells about the table and that runs are
      histories, \<open>LedgerProgress\<close> that calls succeed where the table answers.
    \<^item> \<open>journey_contract.py\<close> and \<open>services/journey.py\<close>: \<open>JourneyContract\<close>, \<open>JourneyService\<close>. \<open>JourneyProofs\<close> has
      a calculus of triples over the ledger and the business records, \<open>JourneyCreate\<close> the triples of the
      operations, \<open>JourneyRuns\<close> sequences of calls, \<open>JourneyProgress\<close> the acknowledgement of a create.
    \<^item> The status adapter of \<open>journey_contract.py\<close>: \<open>DocumentStatus\<close>, with \<open>StatusProofs\<close>.
    \<^item> Worlds in memory and concrete runs: \<open>LifecycleSite\<close>, \<open>JourneySite\<close> and the theories named \<open>Witness\<close>.

  \<^bold>\<open>Modelling.\<close> Records and enumerations of the code are records and datatypes; dictionaries of
  stored items are association lists of \<open>pyval\<close>; an exception is the left of a sum, so every raise is
  a branch. A method that touches a service is a value of \<open>io\<close>. What is not in the repository
  (DynamoDB, Cognito, PyJWT, S3, clocks, identifier factories, pydantic's writing of times) is a field of a record of
  ports; what is relied on is stated by the locales \<open>conditional_table\<close> (a write is applied at most once,
  only under its condition and as a whole, whatever the client reports; a refusal means that the condition
  fails on the table it leaves; a consistent read returns what is stored), \<open>deployment\<close>, \<open>journey_site\<close> and, for progress only, \<open>available_table\<close> and
  \<open>journey_site_up\<close>. Each is interpreted on a world in memory, and each property that
  rests on one has a witness there. The clients of \<open>aws_clients.py\<close> retry, so a refusal may follow a write of
  the same call whose response was lost; \<open>lossy_table\<close> is such a client, and \<open>reserve_outcome_witness\<close> runs on it.

  \<^bold>\<open>Interleaving.\<close> A run of a method is sequential. Concurrency is in the histories (\<open>store_steps\<close> and the
  calls of \<open>StoreHistory\<close>, \<open>ledger_history\<close>): sequences of conditional writes of any processes,
  each computed from readings that may be stale, mixed with writes of other programs elsewhere.
  The writes of the modelled code itself are never among those: \<open>store_call_refines\<close> and
  \<open>service_refines_store\<close> show the operations of the store and the methods of the service to be
  conditional writes of the store and nothing else (\<open>store_calls\<close>), and \<open>ledger_runs_are_histories\<close> a run of
  the ledger to touch its own item only, with the effect specified for its arguments or none.

  \<^bold>\<open>Bounds.\<close> Texts are lists of characters, that is of code points below 256. Integers are unbounded as
  in Python; the words of \<open>Sha256\<close> wrap at 32 bits. The only fuel is that of the JSON reader, twice the length of
  the text and one, which suffices because every call consumes a character or closes a level. Numbers with a fraction in
  stored items are no times of an authentication event.

  \<^bold>\<open>Not modelled.\<close> Routers and middleware, which wire the framework; the decoding of tokens by PyJWT and the
  reading of environment variables, which are ports and arguments; the projection of bank statements and the reading of results
  (\<open>get_result\<close>); the legacy v1 documents, batches, analytics and employee
  profiles; the queue workers, the identity control plane and the deployment tooling, which are
  separate programs; and everything that is not Python.
\<close>

section \<open>A broken authentication event\<close>

text \<open>
  (C40) One broken event locks a person out of everything. When the table holds, under the identifier of the access
  token, an event that claims the right assurance and time but not the expected source, then within five minutes
  of its authentication the request is still authenticated, but the decision point allows it no
  operation at all, at whatever time and with whatever authority, not only those with a step-up.
\<close>

theorem malformed_event_locks_out:
  assumes "conditional_table (ap_events ap (py_str (as_ledger_table s))) view"
    and "\<And>k w. \<exists>resp w'. dy_get_item (ap_events ap (py_str (as_ledger_table s))) k w = (Inr resp, w')"
    and "py_truthy (as_ledger_table s)" "py_get d ''jti'' = PStr j" "j \<noteq> []"
    and "resolve_human_snapshot ap s d w = (Inr sn, w1)"
    and "\<And>now w2. ap_time ap w = (now, w2) \<Longrightarrow> now - int_of (py_get d ''auth_time'') \<le> 300 \<and>
      view w2 (event_key j) = Some e \<and> broken_event (int_of (py_get d ''auth_time'')) e"
  shows "authorize_operation env (Some (human_context d sn)) op_arg (PInt now) rt sink w3 \<noteq> (Inr a, w4)"
proof -
  obtain time w2 f where run: "ap_time ap w = (time, w2)" "read_evidence ap s d time w2 = (Inr f, w1)" "sn = claims_snapshot d f"
    using assms(6) by (auto simp: resolve_human_snapshot_def bind_Inr split: prod.splits)
  note event = assms(7) [OF run(1)]
  obtain resp w5 where got: "dy_get_item (ap_events ap (py_str (as_ledger_table s))) (event_key j) w2 = (Inr resp, w5)"
    using assms(2) by blast
  have f: "f = event_evidence e (PStr j) (int_of (py_get d ''auth_time'')) time"
    by (rule conditional_table.enabled_read [OF assms(1,4) _ assms(3) refl _ got run(2)]) (simp_all add: assms(5) event)
  have refused: "user_prechecks (human_context d sn) sn pol now \<noteq> Inr path" for pol path
    using event by (simp add: run(3) f broken_evidence)
  show ?thesis by (rule no_prechecks_no_allow [OF _ _ refused]) (simp_all add: human_context_def)
qed

theorem malformed_event_locks_out_witness:
  "authorize_operation sample_env (Some (human_context person_claims broken_snapshot)) (PStr ''metrics.read'') (PInt 1000)
     (Inst sample_runtime) None () \<noteq> (Inr (human_context person_claims broken_snapshot), ())"
proof (rule malformed_event_locks_out [where s = demo_settings and ap = demo_ports and view = mw_items])
  show "conditional_table (ap_events demo_ports (py_str (as_ledger_table demo_settings))) mw_items" by (rule demo_table)
  show "\<exists>resp w'. dy_get_item (ap_events demo_ports (py_str (as_ledger_table demo_settings))) k w = (Inr resp, w')" for k w
    by (rule demo_answers)
  show "resolve_human_snapshot demo_ports demo_settings person_claims broken_world =
    (Inr broken_snapshot, snd (resolve_human_snapshot demo_ports demo_settings person_claims broken_world))"
    by (rule broken_run)
  show "py_get person_claims ''jti'' = PStr ''0123456789abcdef01234567''" by (simp add: person_claims_def py_get_def)
  show "now - int_of (py_get person_claims ''auth_time'') \<le> 300 \<and> mw_items w2 (event_key ''0123456789abcdef01234567'') = Some broken_item \<and>
      broken_event (int_of (py_get person_claims ''auth_time'')) broken_item"
    if "ap_time demo_ports broken_world = (now, w2)" for now w2
    using demo_time [OF that]
    by (simp add: broken_world_def broken_item_def broken_event_def person_claims_def py_get_def event_time_def)
qed (simp_all add: demo_settings_def)

section \<open>Time stamps\<close>

text \<open>
  The time stamps the service stores in the evidence of an operation are read back as the same
  instant, for every instant Python can represent, with and without microseconds. So an
  invitation's deadline survives a resumed operation.
\<close>

theorem timestamp_round_trip:
  assumes "instant d < max_instant"
  shows "service_parse_timestamp (Some (service_timestamp d)) = Inr (Some (Aware (instant d)))"
  using service_parse_timestamp_text [OF assms] by (simp add: service_timestamp_def)

theorem timestamp_round_trip_witness:
  "service_parse_timestamp (Some (service_timestamp sample_time)) = Inr (Some sample_time)"
  using timestamp_round_trip [of sample_time]
  by (simp add: sample_time_def instant_of_epoch_def epoch_days_def second_us_def max_instant_def)

end
